(* ===== verification/Prelude.thy ===== *)
theory Prelude
  imports Main "HOL-Library.Char_ord" "HOL-Library.List_Lexorder" "HOL-Library.Sublist"
    "HOL-Library.Multiset"
begin

text \<open>
  The shared base of the development: the fragment of Go's standard library that the sources
  call (\<open>strings\<close>, \<open>strconv\<close>, \<open>sort\<close>), Go maps as association lists in iteration order, and
  the generic list lemmas the components use.

  A Go string is a sequence of bytes, and Isabelle's \<^typ>\<open>string\<close> is a list of 8-bit characters,
  so \<open>len\<close>, slicing, indexing and the byte-wise order \<open><\<close> of Go are \<^const>\<open>length\<close>, \<^const>\<open>take\<close>,
  \<^const>\<open>drop\<close> and the lexicographic order on lists.  Every separator that the sources pass to
  \<open>Split\<close>, \<open>SplitN\<close> and \<open>Cut\<close> is one byte, so those functions take a \<^typ>\<open>char\<close>.
\<close>

named_theorems go_str \<comment> \<open>equations that evaluate the string functions\<close>
named_theorems go_map \<comment> \<open>lookup and update of Go maps\<close>

section \<open>Strings\<close>

definition strings_HasPrefix :: "string \<Rightarrow> string \<Rightarrow> bool" where
  "strings_HasPrefix s p = prefix p s"

definition strings_HasSuffix :: "string \<Rightarrow> string \<Rightarrow> bool" where
  "strings_HasSuffix s p = suffix p s"

definition strings_TrimPrefix :: "string \<Rightarrow> string \<Rightarrow> string" where
  "strings_TrimPrefix s p = (if prefix p s then drop (length p) s else s)"

definition strings_TrimSuffix :: "string \<Rightarrow> string \<Rightarrow> string" where
  "strings_TrimSuffix s p = (if suffix p s then take (length s - length p) s else s)"

fun strings_Contains :: "string \<Rightarrow> string \<Rightarrow> bool" where
  "strings_Contains [] sub = (sub = [])"
| "strings_Contains (c # cs) sub = (prefix sub (c # cs) \<or> strings_Contains cs sub)"

definition strings_ContainsAny :: "string \<Rightarrow> string \<Rightarrow> bool" where
  "strings_ContainsAny s chars = (\<exists>c \<in> set s. c \<in> set chars)"

fun strings_Split :: "string \<Rightarrow> char \<Rightarrow> string list" where
  "strings_Split [] d = [[]]"
| "strings_Split (c # cs) d =
     (if c = d then [] # strings_Split cs d
      else (case strings_Split cs d of [] \<Rightarrow> [[c]] | x # xs \<Rightarrow> (c # x) # xs))"

text \<open>\<open>strings.Cut\<close>: what is before the first separator, what is after it, and whether it occurs.\<close>

definition strings_Cut :: "string \<Rightarrow> char \<Rightarrow> string \<times> string \<times> bool" where
  "strings_Cut s d =
     (if d \<in> set s then (takeWhile (\<lambda>c. c \<noteq> d) s, drop 1 (dropWhile (\<lambda>c. c \<noteq> d) s), True)
      else (s, [], False))"

fun strings_SplitN :: "string \<Rightarrow> char \<Rightarrow> nat \<Rightarrow> string list" where
  "strings_SplitN s d 0 = []"
| "strings_SplitN s d (Suc 0) = [s]"
| "strings_SplitN s d (Suc (Suc n)) =
     (case strings_Cut s d of (b, a, found) \<Rightarrow> if found then b # strings_SplitN a d (Suc n) else [s])"

fun strings_Join :: "string list \<Rightarrow> string \<Rightarrow> string" where
  "strings_Join [] sep = []"
| "strings_Join [x] sep = x"
| "strings_Join (x # y # xs) sep = x @ sep @ strings_Join (y # xs) sep"

text \<open>\<open>strings.Index\<close> and \<open>strings.LastIndex\<close> of one byte; \<open>-1\<close> when it does not occur.\<close>

fun strings_Index :: "string \<Rightarrow> char \<Rightarrow> int" where
  "strings_Index [] d = -1"
| "strings_Index (c # cs) d =
     (if c = d then 0 else (let i = strings_Index cs d in if i < 0 then -1 else i + 1))"

fun strings_LastIndex :: "string \<Rightarrow> char \<Rightarrow> int" where
  "strings_LastIndex [] d = -1"
| "strings_LastIndex (c # cs) d =
     (let i = strings_LastIndex cs d in if 0 \<le> i then i + 1 else if c = d then 0 else -1)"

definition strings_ReplaceAll :: "string \<Rightarrow> char \<Rightarrow> char \<Rightarrow> string" where
  "strings_ReplaceAll s old new = map (\<lambda>c. if c = old then new else c) s"

text \<open>
  \<open>strings.ToLower\<close>.  The sources only compare its result with ASCII literals, so what matters is
  which inputs are mapped to ASCII: the bytes \<open>A\<close> to \<open>Z\<close>, and the two code points outside ASCII
  whose lower case is an ASCII letter (U+0130 to \<open>i\<close>, U+212A to \<open>k\<close>).  Every other non-ASCII
  byte stays non-ASCII; the model leaves it unchanged.
\<close>

definition ascii_lower :: "char \<Rightarrow> char" where
  "ascii_lower c =
     (if CHR ''A'' \<le> c \<and> c \<le> CHR ''Z'' then char_of (of_char c + 32 :: nat) else c)"

fun strings_ToLower :: "string \<Rightarrow> string" where
  "strings_ToLower (a # b # c # s) =
     (if a = CHR 0xC4 \<and> b = CHR 0xB0 then CHR ''i'' # strings_ToLower (c # s)
      else if a = CHR 0xE2 \<and> b = CHR 0x84 \<and> c = CHR 0xAA then CHR ''k'' # strings_ToLower s
      else ascii_lower a # strings_ToLower (b # c # s))"
| "strings_ToLower [a, b] =
     (if a = CHR 0xC4 \<and> b = CHR 0xB0 then [CHR ''i''] else [ascii_lower a, ascii_lower b])"
| "strings_ToLower [a] = [ascii_lower a]"
| "strings_ToLower [] = []"

text \<open>
  \<open>strings.TrimSpace\<close> removes the code points for which \<open>unicode.IsSpace\<close> holds from both ends.
  \<open>space_len\<close> is the number of bytes of such a code point at the start of its argument, and
  \<open>rev_space_len\<close> the same for a reversed string; 0 when there is none.
\<close>

definition ascii_space :: "char \<Rightarrow> bool" where
  "ascii_space c = (c \<in> {CHR 0x09, CHR 0x0A, CHR 0x0B, CHR 0x0C, CHR 0x0D, CHR 0x20})"

definition space2 :: "char \<Rightarrow> char \<Rightarrow> bool" where
  "space2 a b = (a = CHR 0xC2 \<and> (b = CHR 0x85 \<or> b = CHR 0xA0))"

definition space3 :: "char \<Rightarrow> char \<Rightarrow> char \<Rightarrow> bool" where
  "space3 a b c =
     (a = CHR 0xE1 \<and> b = CHR 0x9A \<and> c = CHR 0x80
      \<or> a = CHR 0xE2 \<and> b = CHR 0x80 \<and>
          (CHR 0x80 \<le> c \<and> c \<le> CHR 0x8A \<or> c \<in> {CHR 0xA8, CHR 0xA9, CHR 0xAF})
      \<or> a = CHR 0xE2 \<and> b = CHR 0x81 \<and> c = CHR 0x9F
      \<or> a = CHR 0xE3 \<and> b = CHR 0x80 \<and> c = CHR 0x80)"

fun space_len :: "string \<Rightarrow> nat" where
  "space_len [] = 0"
| "space_len [a] = (if ascii_space a then 1 else 0)"
| "space_len [a, b] = (if ascii_space a then 1 else if space2 a b then 2 else 0)"
| "space_len (a # b # c # s) =
     (if ascii_space a then 1 else if space2 a b then 2 else if space3 a b c then 3 else 0)"

fun rev_space_len :: "string \<Rightarrow> nat" where
  "rev_space_len [] = 0"
| "rev_space_len [a] = (if ascii_space a then 1 else 0)"
| "rev_space_len [a, b] = (if ascii_space a then 1 else if space2 b a then 2 else 0)"
| "rev_space_len (a # b # c # s) =
     (if ascii_space a then 1 else if space2 b a then 2 else if space3 c b a then 3 else 0)"

function trim_start :: "(string \<Rightarrow> nat) \<Rightarrow> string \<Rightarrow> string" where
  "trim_start f s = (if s = [] \<or> f s = 0 then s else trim_start f (drop (f s) s))"
  by pat_completeness auto
termination
  by (relation "measure (\<lambda>(f, s). length s)") auto

declare trim_start.simps [simp del]

definition strings_TrimSpace :: "string \<Rightarrow> string" where
  "strings_TrimSpace s = rev (trim_start rev_space_len (rev (trim_start space_len s)))"

section \<open>Numbers and booleans as text\<close>

fun show_nat :: "nat \<Rightarrow> string" where
  "show_nat n =
     (if n < 10 then [char_of (48 + n)] else show_nat (n div 10) @ [char_of (48 + n mod 10)])"

declare show_nat.simps [simp del]

text \<open>\<open>strconv.ParseBool\<close>; \<^const>\<open>None\<close> is the syntax error.\<close>

definition strconv_ParseBool :: "string \<Rightarrow> bool option" where
  "strconv_ParseBool s =
     (if s \<in> {''1'', ''t'', ''T'', ''TRUE'', ''true'', ''True''} then Some True
      else if s \<in> {''0'', ''f'', ''F'', ''FALSE'', ''false'', ''False''} then Some False
      else None)"

definition is_digit :: "char \<Rightarrow> bool" where
  "is_digit c = (CHR ''0'' \<le> c \<and> c \<le> CHR ''9'')"

fun digits_val :: "nat \<Rightarrow> string \<Rightarrow> nat" where
  "digits_val acc [] = acc"
| "digits_val acc (c # cs) = digits_val (10 * acc + (of_char c - 48)) cs"

text \<open>\<open>strconv.Atoi\<close> on a 64-bit platform; \<^const>\<open>None\<close> is a syntax or a range error.\<close>

definition strconv_Atoi :: "string \<Rightarrow> int option" where
  "strconv_Atoi s =
     (let neg = (s \<noteq> [] \<and> hd s = CHR ''-'');
          ds = (if s \<noteq> [] \<and> (hd s = CHR ''-'' \<or> hd s = CHR ''+'') then tl s else s);
          v = int (digits_val 0 ds)
      in if ds = [] \<or> \<not> list_all is_digit ds then None
         else if neg then (if v \<le> 2 ^ 63 then Some (- v) else None)
         else (if v < 2 ^ 63 then Some v else None))"

definition show_int :: "int \<Rightarrow> string" where
  "show_int i = (if i < 0 then CHR ''-'' # show_nat (nat (- i)) else show_nat (nat i))"

section \<open>Go maps\<close>

text \<open>
  A Go map is an association list with distinct keys; the order of the list is the order in which
  \<open>range\<close> visits the entries, which Go leaves unspecified.
\<close>

type_synonym ('k, 'v) gomap = "('k \<times> 'v) list"

fun gomap_put :: "'k \<Rightarrow> 'v \<Rightarrow> ('k, 'v) gomap \<Rightarrow> ('k, 'v) gomap" where
  "gomap_put k v [] = [(k, v)]"
| "gomap_put k v ((k', v') # m) = (if k = k' then (k, v) # m else (k', v') # gomap_put k v m)"

definition gomap_wf :: "('k, 'v) gomap \<Rightarrow> bool" where
  "gomap_wf m = distinct (map fst m)"

section \<open>Panics and searches\<close>

text \<open>The outcome of code that may dereference a nil pointer or index out of range.\<close>

datatype 'a go = Panic | Ret 'a

fun go_bind :: "'a go \<Rightarrow> ('a \<Rightarrow> 'b go) \<Rightarrow> 'b go" where
  "go_bind Panic f = Panic"
| "go_bind (Ret x) f = f x"

lemma go_bindE:
  assumes "go_bind m f = Ret y"
  obtains x where "m = Ret x" "f x = Ret y"
  using assms by (cases m) simp_all

text \<open>The index of the first element that satisfies a predicate: a loop with an early return.\<close>

fun first_index :: "('a \<Rightarrow> bool) \<Rightarrow> 'a list \<Rightarrow> nat option" where
  "first_index P [] = None"
| "first_index P (x # xs) = (if P x then Some 0 else map_option Suc (first_index P xs))"

section \<open>Sorting\<close>

text \<open>
  \<open>sort.Slice\<close>, \<open>sort.Sort\<close> and \<open>slices.SortStableFunc\<close> as a stable insertion sort by the given
  strict comparison.  \<open>sort.Slice\<close> and \<open>sort.Sort\<close> do not promise stability; the locale
  \<open>key_order\<close> below shows that where the comparison is total on the keys the result is the only
  sorted permutation of the input, so that every sorting algorithm returns it.
\<close>

fun go_insert :: "('a \<Rightarrow> 'a \<Rightarrow> bool) \<Rightarrow> 'a \<Rightarrow> 'a list \<Rightarrow> 'a list" where
  "go_insert lt x [] = [x]"
| "go_insert lt x (y # ys) = (if lt y x then y # go_insert lt x ys else x # y # ys)"

definition go_sort :: "('a \<Rightarrow> 'a \<Rightarrow> bool) \<Rightarrow> 'a list \<Rightarrow> 'a list" where
  "go_sort lt xs = foldr (go_insert lt) xs []"

section \<open>Lemmas on strings\<close>

declare strings_HasPrefix_def [go_str] strings_HasSuffix_def [go_str] strings_TrimPrefix_def [go_str]
  strings_TrimSuffix_def [go_str] strings_Cut_def [go_str] strings_ContainsAny_def [go_str]
  strings_ReplaceAll_def [go_str]

lemma first_sep_eq:
  "\<lbrakk>a @ d # b = a' @ d # b'; d \<notin> set a; d \<notin> set a'\<rbrakk> \<Longrightarrow> a = a' \<and> b = b'"
  by (induction a arbitrary: a') (case_tac a'; auto)+

lemma strings_Contains_char [simp]: "strings_Contains s [c] \<longleftrightarrow> c \<in> set s"
  by (induction s) auto

lemma strings_Contains_self_append: "strings_Contains (xs @ sub @ ys) sub"
proof (induction xs)
  case Nil
  show ?case by (cases sub; cases ys) auto
next
  case (Cons x xs)
  then show ?case by simp
qed

lemma strings_Split_nonempty [simp]: "strings_Split s d \<noteq> []"
  by (induction s) (auto split: list.splits)

lemma strings_Split_no_sep: "d \<notin> set s \<Longrightarrow> strings_Split s d = [s]"
  by (induction s) auto

lemma strings_Split_parts: "x \<in> set (strings_Split s d) \<Longrightarrow> d \<notin> set x"
proof (induction s arbitrary: x)
  case Nil
  then show ?case by simp
next
  case (Cons c s)
  then show ?case by (cases "strings_Split s d") (auto split: if_splits)
qed

lemma strings_Split_append: "d \<notin> set a \<Longrightarrow> strings_Split (a @ d # b) d = a # strings_Split b d"
  by (induction a) auto

lemma strings_Split_Join:
  "\<lbrakk>xs \<noteq> []; \<forall>x \<in> set xs. d \<notin> set x\<rbrakk> \<Longrightarrow> strings_Split (strings_Join xs [d]) d = xs"
proof (induction xs "[d]" rule: strings_Join.induct)
  case (3 x y xs)
  then show ?case by (simp add: strings_Split_append)
qed (auto simp: strings_Split_no_sep)

lemma strings_Join_Cons: "xs \<noteq> [] \<Longrightarrow> strings_Join (x # xs) sep = x @ sep @ strings_Join xs sep"
  by (cases xs) auto

lemma strings_Join_hd_Cons: "strings_Join ((c # x) # xs) sep = c # strings_Join (x # xs) sep"
  by (cases xs) auto

lemma strings_Join_Split [simp]: "strings_Join (strings_Split s d) [d] = s"
proof (induction s)
  case Nil
  then show ?case by simp
next
  case (Cons c s)
  then show ?case
    by (cases "strings_Split s d") (auto simp: strings_Join_Cons strings_Join_hd_Cons)
qed

lemma length_strings_Split: "length (strings_Split s d) = Suc (count_list s d)"
  by (induction s) (auto split: list.splits)

lemma strings_Split_single_iff: "length (strings_Split s d) = 1 \<longleftrightarrow> d \<notin> set s"
  by (simp add: length_strings_Split count_list_0_iff)

lemma strings_Cut_found:
  assumes "d \<notin> set a" shows "strings_Cut (a @ d # b) d = (a, b, True)"
proof -
  have "takeWhile (\<lambda>c. c \<noteq> d) (a @ d # b) = a"
    using assms by (subst takeWhile_append2) auto
  moreover have "dropWhile (\<lambda>c. c \<noteq> d) (a @ d # b) = d # b"
    using assms by (subst dropWhile_append2) auto
  ultimately show ?thesis by (simp add: strings_Cut_def)
qed

lemma strings_Cut_join:
  assumes "strings_Cut s d = (b, a, True)" shows "s = b @ d # a \<and> d \<notin> set b"
proof -
  from assms have "d \<in> set s" by (auto simp: strings_Cut_def split: if_splits)
  then obtain xs ys where s: "s = xs @ d # ys" "d \<notin> set xs" by (metis split_list_first)
  then show ?thesis using assms strings_Cut_found by auto
qed

lemma strings_SplitN_found:
  "d \<notin> set a \<Longrightarrow> strings_SplitN (a @ d # b) d (Suc (Suc n)) = a # strings_SplitN b d (Suc n)"
  by (simp add: strings_Cut_found)

lemma strings_SplitN_not_found: "d \<notin> set s \<Longrightarrow> strings_SplitN s d (Suc n) = [s]"
  by (cases n) (auto simp: strings_Cut_def)

lemma strings_SplitN2_found: "d \<notin> set a \<Longrightarrow> strings_SplitN (a @ d # b) d 2 = [a, b]"
  by (simp add: numeral_2_eq_2 strings_Cut_found)

lemma strings_SplitN2_not_found: "d \<notin> set s \<Longrightarrow> strings_SplitN s d 2 = [s]"
  by (simp add: numeral_2_eq_2 strings_Cut_def)

lemma strings_SplitN2_cases:
  obtains (absent) "d \<notin> set s" "strings_SplitN s d 2 = [s]"
  | (found) a b where "s = a @ d # b" "d \<notin> set a" "strings_SplitN s d 2 = [a, b]"
proof (cases "d \<in> set s")
  case True
  then obtain a b where "s = a @ d # b" "d \<notin> set a" by (metis split_list_first)
  then show ?thesis using found strings_SplitN2_found by metis
next
  case False
  then show ?thesis using absent strings_SplitN2_not_found by metis
qed

lemma strings_LastIndex_neg: "strings_LastIndex s d < 0 \<longleftrightarrow> d \<notin> set s"
  by (induction s) (auto simp: Let_def split: if_splits)

lemma strings_LastIndex_absent: "d \<notin> set s \<Longrightarrow> strings_LastIndex s d = -1"
  by (induction s) (auto simp: Let_def)

lemma strings_LastIndex_last:
  "d \<notin> set b \<Longrightarrow> strings_LastIndex (a @ d # b) d = int (length a)"
  by (induction a) (auto simp: Let_def strings_LastIndex_absent)

lemma strings_LastIndex_bound: "strings_LastIndex s d < int (length s)"
  by (induction s) (auto simp: Let_def)

lemma strings_TrimPrefix_append [simp]: "strings_TrimPrefix (p @ s) p = s"
  by (simp add: strings_TrimPrefix_def)

lemma strings_TrimSuffix_append [simp]: "strings_TrimSuffix (s @ p) p = s"
  by (simp add: strings_TrimSuffix_def suffix_def)

subsection \<open>Trimming\<close>

lemma trim_start_fixpoint: "trim_start f s = [] \<or> f (trim_start f s) = 0"
proof (induction f s rule: trim_start.induct)
  case (1 f s)
  then show ?case by (cases "s = [] \<or> f s = 0") (auto simp: trim_start.simps [of f s])
qed

lemma trim_start_id: "f s = 0 \<Longrightarrow> trim_start f s = s"
  by (simp add: trim_start.simps)

lemma trim_start_suffix: "suffix (trim_start f s) s"
proof (induction f s rule: trim_start.induct)
  case (1 f s)
  then show ?case
    by (cases "s = [] \<or> f s = 0")
      (auto simp: trim_start.simps [of f s] intro: suffix_order.trans suffix_drop)
qed

lemma space_len_prefix: "space_len (a @ b) = 0 \<Longrightarrow> space_len a = 0"
  by (induction a rule: space_len.induct)
    (cases b; auto split: if_splits simp: neq_Nil_conv; cases "tl b"; auto split: if_splits)+

lemma strings_TrimSpace_no_trailing:
  "strings_TrimSpace s = [] \<or> rev_space_len (rev (strings_TrimSpace s)) = 0"
  unfolding strings_TrimSpace_def using trim_start_fixpoint [of rev_space_len] by auto

lemma strings_TrimSpace_no_leading: "space_len (strings_TrimSpace s) = 0"
proof -
  let ?t = "trim_start space_len s"
  have "space_len ?t = 0" using trim_start_fixpoint [of space_len s] by auto
  moreover obtain u where "rev ?t = u @ trim_start rev_space_len (rev ?t)"
    using trim_start_suffix by (metis suffixE)
  then have "?t = strings_TrimSpace s @ rev u"
    unfolding strings_TrimSpace_def by (metis rev_append rev_rev_ident)
  ultimately show ?thesis by (metis space_len_prefix)
qed

lemma strings_TrimSpace_id:
  "\<lbrakk>space_len s = 0; rev_space_len (rev s) = 0\<rbrakk> \<Longrightarrow> strings_TrimSpace s = s"
  by (simp add: strings_TrimSpace_def trim_start_id)

lemma strings_TrimSpace_idem [simp]: "strings_TrimSpace (strings_TrimSpace s) = strings_TrimSpace s"
proof (rule strings_TrimSpace_id)
  show "space_len (strings_TrimSpace s) = 0" by (rule strings_TrimSpace_no_leading)
  show "rev_space_len (rev (strings_TrimSpace s)) = 0"
    using strings_TrimSpace_no_trailing [of s] by auto
qed

lemma set_strings_TrimSpace: "set (strings_TrimSpace s) \<subseteq> set s"
  unfolding strings_TrimSpace_def
  using set_mono_suffix [OF trim_start_suffix [of rev_space_len "rev (trim_start space_len s)"]]
    set_mono_suffix [OF trim_start_suffix [of space_len s]] by auto

text \<open>Trimming never removes a byte that is not part of a white-space code point.\<close>

lemma trim_start_keeps:
  assumes "c \<in> set s" "\<And>t. c \<notin> set (take (f t) t)"
  shows "c \<in> set (trim_start f s)"
  using assms
proof (induction f s rule: trim_start.induct)
  case (1 f s)
  have "c \<in> set (drop (f s) s)" if "f s \<noteq> 0"
    using "1.prems" by (metis Un_iff append_take_drop_id set_append)
  with 1 show ?case by (cases "s = [] \<or> f s = 0") (auto simp: trim_start.simps [of f s])
qed

lemma slash_not_space:
  "CHR ''/'' \<notin> set (take (space_len t) t)" "CHR ''/'' \<notin> set (take (rev_space_len t) t)"
  by (induction t rule: space_len.induct; auto simp: ascii_space_def space2_def space3_def less_eq_char_def)
    (induction t rule: rev_space_len.induct; auto simp: ascii_space_def space2_def space3_def less_eq_char_def)

lemma slash_TrimSpace: "CHR ''/'' \<in> set (strings_TrimSpace s) \<longleftrightarrow> CHR ''/'' \<in> set s"
proof
  assume "CHR ''/'' \<in> set s"
  then have "CHR ''/'' \<in> set (trim_start rev_space_len (rev (trim_start space_len s)))"
    by (intro trim_start_keeps) (simp_all add: trim_start_keeps slash_not_space)
  then show "CHR ''/'' \<in> set (strings_TrimSpace s)" by (simp add: strings_TrimSpace_def)
next
  assume "CHR ''/'' \<in> set (strings_TrimSpace s)"
  then show "CHR ''/'' \<in> set s"
    unfolding strings_TrimSpace_def
    using set_mono_suffix [OF trim_start_suffix [of rev_space_len "rev (trim_start space_len s)"]]
      set_mono_suffix [OF trim_start_suffix [of space_len s]] by auto
qed

section \<open>Lemmas on searches\<close>

lemma first_index_None: "first_index P xs = None \<longleftrightarrow> (\<forall>x \<in> set xs. \<not> P x)"
  by (induction xs) auto

lemma first_index_Some:
  "first_index P xs = Some i \<longleftrightarrow> i < length xs \<and> P (xs ! i) \<and> (\<forall>j < i. \<not> P (xs ! j))"
proof (induction xs arbitrary: i)
  case Nil
  then show ?case by simp
next
  case (Cons x xs)
  show ?case
  proof (cases i)
    case 0
    then show ?thesis by auto
  next
    case (Suc k)
    have "(\<forall>j < Suc k. \<not> P ((x # xs) ! j)) \<longleftrightarrow> \<not> P x \<and> (\<forall>j < k. \<not> P (xs ! j))"
      by (auto simp: less_Suc_eq_0_disj)
    then show ?thesis using Cons.IH [of k] Suc by auto
  qed
qed

lemma map_option_plus_Suc: "map_option ((+) (Suc i)) r = map_option (\<lambda>j. Suc (i + j)) r"
  by (cases r) auto

lemma map_option_plus_0 [simp]: "map_option ((+) (0::nat)) r = r"
  by (cases r) auto

lemma first_index_mono: "first_index P xs = None \<Longrightarrow> (\<And>x. Q x \<Longrightarrow> P x) \<Longrightarrow> first_index Q xs = None"
  by (auto simp: first_index_None)

section \<open>Lemmas on maps\<close>

lemma map_of_gomap_put [go_map, simp]: "map_of (gomap_put k v m) = (map_of m)(k \<mapsto> v)"
  by (induction m) (auto simp: fun_eq_iff)

lemma gomap_put_keys: "set (map fst (gomap_put k v m)) = insert k (set (map fst m))"
  by (induction k v m rule: gomap_put.induct) auto

lemma gomap_wf_empty [simp]: "gomap_wf []"
  by (simp add: gomap_wf_def)

lemma gomap_wf_put [simp]: "gomap_wf m \<Longrightarrow> gomap_wf (gomap_put k v m)"
proof (induction m)
  case Nil
  then show ?case by (simp add: gomap_wf_def)
next
  case (Cons p m)
  then show ?case using gomap_put_keys [of k v m] by (cases p) (auto simp: gomap_wf_def)
qed

lemma gomap_put_new: "k \<notin> fst ` set m \<Longrightarrow> gomap_put k v m = m @ [(k, v)]"
  by (induction m) auto

lemma fold_gomap_put:
  "distinct (map fst (m @ ps)) \<Longrightarrow> fold (\<lambda>(k, v) m. gomap_put k v m) ps m = m @ ps"
proof (induction ps arbitrary: m)
  case (Cons p ps)
  then have "gomap_put (fst p) (snd p) m = m @ [p]" by (auto simp: gomap_put_new)
  then show ?case using Cons.IH [of "m @ [p]"] Cons.prems by (simp add: case_prod_beta)
qed simp

lemma gomap_put_all:
  "\<forall>p \<in> set m. P p \<Longrightarrow> P (k, v) \<Longrightarrow> \<forall>p \<in> set (gomap_put k v m). P p"
  by (induction k v m rule: gomap_put.induct) auto

lemma gomap_put_set: "gomap_wf m \<Longrightarrow> set (gomap_put k v m) = {p \<in> set m. fst p \<noteq> k} \<union> {(k, v)}"
proof (induction m)
  case Nil
  then show ?case by simp
next
  case (Cons p m)
  then show ?case by (cases p) (force simp: gomap_wf_def)
qed

section \<open>Lemmas on sorting\<close>

lemma go_sort_Nil [simp]: "go_sort lt [] = []"
  by (simp add: go_sort_def)

lemma go_sort_Cons [simp]: "go_sort lt (x # xs) = go_insert lt x (go_sort lt xs)"
  by (simp add: go_sort_def)

lemma mset_go_insert [simp]: "mset (go_insert lt x xs) = add_mset x (mset xs)"
  by (induction xs) auto

lemma mset_go_sort [simp]: "mset (go_sort lt xs) = mset xs"
  by (induction xs) auto

lemma set_go_insert [simp]: "set (go_insert lt x xs) = insert x (set xs)"
  by (metis mset_go_insert set_mset_add_mset_insert set_mset_mset)

lemma set_go_sort [simp]: "set (go_sort lt xs) = set xs"
  by (metis mset_go_sort set_mset_mset)

lemma length_go_sort [simp]: "length (go_sort lt xs) = length xs"
  by (metis mset_go_sort size_mset)

lemma go_sort_Nil_iff [simp]: "go_sort lt xs = [] \<longleftrightarrow> xs = []"
  by (metis length_0_conv length_go_sort)

text \<open>
  The contract of a strict weak order, the weakest one under which sorting means anything: no
  element comes before one that is less than it, and elements that compare equal keep their order.
\<close>

locale weak_order =
  fixes lt :: "'a \<Rightarrow> 'a \<Rightarrow> bool"
  assumes less_asym: "lt x y \<Longrightarrow> \<not> lt y x"
    and less_cotrans: "lt x z \<Longrightarrow> lt x y \<or> lt y z"
begin

lemma not_less_trans: "\<not> lt y x \<Longrightarrow> \<not> lt z y \<Longrightarrow> \<not> lt z x"
  using less_cotrans by blast

lemma sorted_go_insert:
  "sorted_wrt (\<lambda>a b. \<not> lt b a) ys \<Longrightarrow> sorted_wrt (\<lambda>a b. \<not> lt b a) (go_insert lt x ys)"
proof (induction ys)
  case Nil
  then show ?case by simp
next
  case (Cons y ys)
  show ?case
  proof (cases "lt y x")
    case True
    then have "\<not> lt x y" by (rule less_asym)
    with True Cons show ?thesis by auto
  next
    case False
    have "\<not> lt z x" if "z \<in> set ys" for z
    proof (rule not_less_trans)
      show "\<not> lt y x" by fact
      show "\<not> lt z y" using that Cons.prems by auto
    qed
    with False Cons show ?thesis by auto
  qed
qed

lemma sorted_go_sort: "sorted_wrt (\<lambda>a b. \<not> lt b a) (go_sort lt xs)"
  by (induction xs) (auto simp: sorted_go_insert)

lemma go_insert_stable:
  assumes "\<And>a b. P a \<Longrightarrow> P b \<Longrightarrow> \<not> lt a b"
  shows "filter P (go_insert lt x ys) = (if P x then x # filter P ys else filter P ys)"
  using assms by (induction ys) auto

lemma go_sort_stable:
  assumes "\<And>a b. P a \<Longrightarrow> P b \<Longrightarrow> \<not> lt a b"
  shows "filter P (go_sort lt xs) = filter P xs"
  using go_insert_stable [OF assms] by (induction xs) auto

end

text \<open>
  A strict order that is total on a key: two elements with different keys are always ordered.  On a
  list with distinct keys the sorted permutation is then unique.
\<close>

locale key_order =
  fixes lt :: "'a \<Rightarrow> 'a \<Rightarrow> bool" and key :: "'a \<Rightarrow> 'k"
  assumes key_irrefl: "key x = key y \<Longrightarrow> \<not> lt x y"
    and key_trans: "lt x y \<Longrightarrow> lt y z \<Longrightarrow> lt x z"
    and key_total: "key x \<noteq> key y \<Longrightarrow> lt x y \<or> lt y x"
begin

lemma key_asym: "lt x y \<Longrightarrow> \<not> lt y x"
  using key_irrefl key_trans by blast

lemma sorted_insert_key:
  "\<lbrakk>sorted_wrt lt ys; \<forall>y \<in> set ys. key y \<noteq> key x\<rbrakk> \<Longrightarrow> sorted_wrt lt (go_insert lt x ys)"
proof (induction ys)
  case Nil
  then show ?case by simp
next
  case (Cons y ys)
  show ?case
  proof (cases "lt y x")
    case True
    with Cons show ?thesis by auto
  next
    case False
    then have "lt x y" using Cons.prems key_total by fastforce
    moreover have "lt x z" if "z \<in> set ys" for z
      using that \<open>lt x y\<close> Cons.prems by (auto intro: key_trans)
    ultimately show ?thesis using False Cons.prems by auto
  qed
qed

lemma sorted_sort_key: "distinct (map key xs) \<Longrightarrow> sorted_wrt lt (go_sort lt xs)"
proof (induction xs)
  case Nil
  then show ?case by simp
next
  case (Cons x xs)
  then have "\<forall>y \<in> set (go_sort lt xs). key y \<noteq> key x" by (auto simp: image_iff)
  with Cons show ?case by (simp add: sorted_insert_key)
qed

lemma sorted_unique:
  "\<lbrakk>sorted_wrt lt xs; sorted_wrt lt ys; set xs = set ys\<rbrakk> \<Longrightarrow> xs = ys"
proof (induction xs arbitrary: ys)
  case Nil
  then show ?case by simp
next
  case (Cons x xs)
  then obtain y ys' where ys: "ys = y # ys'" by (cases ys) auto
  have "x = y"
  proof (rule ccontr)
    assume "x \<noteq> y"
    then have "y \<in> set xs" "x \<in> set ys'" using Cons.prems(3) by (auto simp: ys)
    then have "lt x y" "lt y x" using Cons.prems(1,2) by (auto simp: ys)
    then show False using key_asym by blast
  qed
  moreover have "x \<notin> set xs" "y \<notin> set ys'" using Cons.prems key_irrefl by (auto simp: ys)
  ultimately have "set xs = set ys'" using Cons.prems(3) by (auto simp: ys)
  with Cons \<open>x = y\<close> show ?case by (auto simp: ys)
qed

text \<open>Whatever algorithm sorts, and in whatever order the elements arrive, the result is the same.\<close>

lemma sort_canonical:
  assumes "distinct (map key xs)" "mset ys = mset xs" "sorted_wrt lt ys"
  shows "ys = go_sort lt xs"
  using sorted_unique [OF assms(3) sorted_sort_key [OF assms(1)]] assms(2)
  by (metis set_go_sort set_mset_mset)

lemma sort_perm_eq:
  assumes "distinct (map key xs)" "mset ys = mset xs"
  shows "go_sort lt ys = go_sort lt xs"
proof -
  have "distinct (map key ys)" using assms by (metis mset_eq_imp_distinct_iff mset_map)
  then show ?thesis using sort_canonical [OF assms(1)] assms(2) sorted_sort_key by simp
qed

lemma sorted_last_max:
  "\<lbrakk>sorted_wrt lt xs; x \<in> set xs\<rbrakk> \<Longrightarrow> x = last xs \<or> lt x (last xs)"
proof (induction xs)
  case Nil
  then show ?case by simp
next
  case (Cons y ys)
  then show ?case by (cases "ys = []") auto
qed

lemma sorted_filter_last_max:
  assumes "sorted_wrt lt xs" "x \<in> set (filter P xs)"
  shows "x = last (filter P xs) \<or> lt x (last (filter P xs))"
  using sorted_last_max [OF sorted_wrt_filter [OF assms(1)] assms(2)] .

end

section \<open>Printed numbers\<close>

lemma digits_val_snoc: "digits_val acc (ds @ [c]) = 10 * digits_val acc ds + (of_char c - 48)"
  by (induction ds arbitrary: acc) auto

lemma of_char_digit: "d < 10 \<Longrightarrow> (of_char (char_of (48 + d :: nat)) :: nat) = 48 + d"
  by simp

lemma digits_val_show_nat: "digits_val 0 (show_nat n) = n"
proof (induction n rule: show_nat.induct)
  case (1 n)
  show ?case
  proof (cases "n < 10")
    case True
    then show ?thesis by (subst show_nat.simps) (simp add: of_char_digit)
  next
    case False
    then show ?thesis using 1 by (subst show_nat.simps) (simp add: digits_val_snoc of_char_digit)
  qed
qed

lemma show_nat_inj: "show_nat m = show_nat n \<Longrightarrow> m = n"
  by (metis digits_val_show_nat)

lemma show_nat_digits: "c \<in> set (show_nat n) \<Longrightarrow> 48 \<le> (of_char c :: nat) \<and> (of_char c :: nat) \<le> 57"
proof (induction n rule: show_nat.induct)
  case (1 n)
  have d: "48 \<le> (of_char (char_of (48 + k :: nat)) :: nat) \<and> (of_char (char_of (48 + k :: nat)) :: nat) \<le> 57" if "k < 10" for k
    using that by (simp only: of_char_digit) simp
  show ?case
  proof (cases "n < 10")
    case True
    then show ?thesis using 1 d [of n] by (subst (asm) show_nat.simps) simp
  next
    case False
    then have "show_nat n = show_nat (n div 10) @ [char_of (48 + n mod 10)]" by (subst show_nat.simps) simp
    then show ?thesis using 1 False d [of "n mod 10"] by auto
  qed
qed

lemma show_nat_no_space: "CHR '' '' \<notin> set (show_nat n)"
  using show_nat_digits [of "CHR '' ''" n] by auto

end
