(* ===== verification/Tags.thy ===== *)
theory Tags
  imports Prelude
begin

text \<open>
  Package \<open>tag\<close> of the registry scanner (\<open>registry-scanner/pkg/tag/tag.go\<close>, \<open>semver.go\<close>): image
  tags with their metadata, the tag list of a repository, and its three sort orders.  An instant
  (\<open>time.Time\<close>) is an integer number of nanoseconds since the Unix epoch.  The mutex of
  \<open>ImageTagList\<close> only serialises the operations and is left out.  The semantic-version library
  (\<open>github.com/Masterminds/semver\<close>) is a parameter, the record \<open>semver_lib\<close>; \<open>semver_ok\<close> states
  what its documentation promises.
\<close>

section \<open>Data\<close>

type_synonym instant = int

record TagSignature =
  Sig :: string
  PayloadDigest :: string

record ImageTag =
  TagName :: string
  TagDate :: "instant option"
  TagDigest :: string
  ManifestDigest :: string
  Labels :: "(string, string) gomap"
  TagSignatures :: "TagSignature list"

record ImageTagList =
  items :: "(string, ImageTag) gomap"

text \<open>\<open>Digest\<close> is the array \<open>[32]byte\<close>.\<close>

record TagInfo =
  CreatedAt :: instant
  Digest :: "char list"
  TLabels :: "(string, string) gomap"

record ('v, 'c) semver_lib =
  sv_NewVersion :: "string \<Rightarrow> 'v option"
  sv_Original :: "'v \<Rightarrow> string"
  sv_Compare :: "'v \<Rightarrow> 'v \<Rightarrow> int"
  sv_NewConstraint :: "string \<Rightarrow> 'c option"
  sv_Check :: "'c \<Rightarrow> 'v \<Rightarrow> bool"

definition semver_ok :: "('v, 'c) semver_lib \<Rightarrow> bool" where
  "semver_ok lib =
     ((\<forall>s v. sv_NewVersion lib s = Some v \<longrightarrow> sv_Original lib v = s) \<and>
      (\<forall>v w. sv_Original lib v = sv_Original lib w \<longrightarrow> sv_Compare lib v w = 0) \<and>
      (\<forall>v w. sv_Compare lib v w < 0 \<longleftrightarrow> 0 < sv_Compare lib w v) \<and>
      (\<forall>u v w. sv_Compare lib u v \<le> 0 \<longrightarrow> sv_Compare lib v w \<le> 0 \<longrightarrow> sv_Compare lib u w \<le> 0))"

section \<open>Operations\<close>

definition NewImageTagWithLabels ::
  "string \<Rightarrow> instant \<Rightarrow> string \<Rightarrow> (string, string) gomap \<Rightarrow> ImageTag" where
  "NewImageTagWithLabels tagName tagDate tagDigest labels =
     \<lparr>TagName = tagName, TagDate = Some tagDate, TagDigest = tagDigest, ManifestDigest = [],
      Labels = labels, TagSignatures = []\<rparr>"

definition NewImageTag :: "string \<Rightarrow> instant \<Rightarrow> string \<Rightarrow> ImageTag" where
  "NewImageTag tagName tagDate tagDigest = NewImageTagWithLabels tagName tagDate tagDigest []"

definition NewImageTagList :: ImageTagList where
  "NewImageTagList = \<lparr>items = []\<rparr>"

definition sortable_Tags :: "ImageTag list \<Rightarrow> string list" where
  "sortable_Tags sitl = map TagName sitl"

definition tag_String :: "ImageTag \<Rightarrow> string" where
  "tag_String t = (if TagDigest t \<noteq> [] then TagDigest t else TagName t)"

definition IsDigest :: "ImageTag \<Rightarrow> bool" where
  "IsDigest t = (TagDigest t \<noteq> [])"

definition tag_Equals :: "ImageTag \<Rightarrow> ImageTag \<Rightarrow> bool" where
  "tag_Equals t aTag =
     (if IsDigest t \<or> IsDigest aTag then TagDigest t = TagDigest aTag
      else TagName t = TagName aTag)"

definition itl_Tags :: "ImageTagList \<Rightarrow> string list" where
  "itl_Tags il = map fst (items il)"

definition unlockedContains :: "ImageTagList \<Rightarrow> ImageTag \<Rightarrow> bool" where
  "unlockedContains il t = (case map_of (items il) (TagName t) of None \<Rightarrow> False | Some _ \<Rightarrow> True)"

definition itl_Contains :: "ImageTagList \<Rightarrow> ImageTag \<Rightarrow> bool" where
  "itl_Contains il t = unlockedContains il t"

definition itl_Add :: "ImageTagList \<Rightarrow> ImageTag \<Rightarrow> ImageTagList" where
  "itl_Add il t = il\<lparr>items := gomap_put (TagName t) t (items il)\<rparr>"

definition name_less :: "ImageTag \<Rightarrow> ImageTag \<Rightarrow> bool" where
  "name_less a b = (TagName a < TagName b)"

definition SortAlphabetically :: "ImageTagList \<Rightarrow> ImageTag list" where
  "SortAlphabetically il = go_sort name_less (map snd (items il))"

text \<open>
  \<open>TagDate\<close> is dereferenced by the comparison; \<^const>\<open>None\<close> (a nil pointer) is a panic.  The
  comparison itself is defined on the dates that are there.
\<close>

definition date_less :: "ImageTag \<Rightarrow> ImageTag \<Rightarrow> bool" where
  "date_less a b =
     (if the (TagDate a) = the (TagDate b) then TagName a < TagName b
      else the (TagDate a) < the (TagDate b))"

definition SortByDate :: "ImageTagList \<Rightarrow> ImageTag list option" where
  "SortByDate il =
     (let sil = map snd (items il)
      in if 2 \<le> length sil \<and> (\<exists>t \<in> set sil. TagDate t = None) then None
         else Some (go_sort date_less sil))"

definition semverCollection_Less :: "('v, 'c) semver_lib \<Rightarrow> 'v \<Rightarrow> 'v \<Rightarrow> bool" where
  "semverCollection_Less lib v w =
     (let comp = sv_Compare lib v w
      in if comp \<noteq> 0 then comp < 0 else sv_Original lib v < sv_Original lib w)"

text \<open>The versions that can be parsed from the tag names, in iteration order.\<close>

definition semver_versions :: "('v, 'c) semver_lib \<Rightarrow> ImageTagList \<Rightarrow> 'v list" where
  "semver_versions lib il = List.map_filter (\<lambda>(k, t). sv_NewVersion lib (TagName t)) (items il)"

text \<open>The entry rebuilt for a version; \<^const>\<open>None\<close> where the code dereferences a nil pointer.\<close>

definition semver_entry :: "('v, 'c) semver_lib \<Rightarrow> ImageTagList \<Rightarrow> 'v \<Rightarrow> ImageTag option" where
  "semver_entry lib il v =
     (case map_of (items il) (sv_Original lib v) of
        None \<Rightarrow> None
      | Some origTag \<Rightarrow>
          (case TagDate origTag of
             None \<Rightarrow> None
           | Some d \<Rightarrow>
               Some (NewImageTagWithLabels (sv_Original lib v) d (TagDigest origTag) (Labels origTag))))"

definition SortBySemVer :: "('v, 'c) semver_lib \<Rightarrow> ImageTagList \<Rightarrow> ImageTag list option" where
  "SortBySemVer lib il =
     those (map (semver_entry lib il)
       (go_sort (semverCollection_Less lib) (semver_versions lib il)))"

text \<open>\<open>hex.EncodeToString\<close>, and the digest as it appears in manifests.\<close>

definition hex_digit :: "nat \<Rightarrow> char" where
  "hex_digit n = (if n < 10 then char_of (48 + n) else char_of (87 + n))"

definition hex_EncodeToString :: "char list \<Rightarrow> string" where
  "hex_EncodeToString bs =
     concat (map (\<lambda>b. [hex_digit (of_char b div 16), hex_digit (of_char b mod 16)]) bs)"

definition EncodedDigest :: "TagInfo \<Rightarrow> string" where
  "EncodedDigest ti = ''sha256:'' @ hex_EncodeToString (Digest ti)"

section \<open>The invariant of a tag list\<close>

text \<open>Distinct keys, each entry filed under its own tag name and carrying a date.\<close>

definition itl_wf :: "ImageTagList \<Rightarrow> bool" where
  "itl_wf il =
     (gomap_wf (items il) \<and> (\<forall>(k, t) \<in> set (items il). k = TagName t \<and> TagDate t \<noteq> None))"

lemma itl_wf_new [simp]: "itl_wf NewImageTagList"
  by (simp add: itl_wf_def NewImageTagList_def)

lemma itl_wf_Add: "itl_wf il \<Longrightarrow> TagDate t \<noteq> None \<Longrightarrow> itl_wf (itl_Add il t)"
  unfolding itl_wf_def itl_Add_def by (auto simp: gomap_put_set)

lemma itl_Contains_Add: "itl_Contains (itl_Add il t) u \<longleftrightarrow> TagName u = TagName t \<or> itl_Contains il u"
  by (simp add: itl_Contains_def unlockedContains_def itl_Add_def split: option.splits)

lemma NewImageTagWithLabels_simps [simp]:
  "TagName (NewImageTagWithLabels n d g l) = n"
  "TagDate (NewImageTagWithLabels n d g l) = Some d"
  "TagDigest (NewImageTagWithLabels n d g l) = g"
  "Labels (NewImageTagWithLabels n d g l) = l"
  "ManifestDigest (NewImageTagWithLabels n d g l) = []"
  "TagSignatures (NewImageTagWithLabels n d g l) = []"
  by (simp_all add: NewImageTagWithLabels_def)

lemma NewImageTag_simps [simp]:
  "TagName (NewImageTag n d g) = n"
  "TagDate (NewImageTag n d g) = Some d"
  "TagDigest (NewImageTag n d g) = g"
  by (simp_all add: NewImageTag_def)

lemma itl_wf_names: "itl_wf il \<Longrightarrow> map fst (items il) = map (TagName \<circ> snd) (items il)"
  by (auto simp: itl_wf_def)

lemma itl_wf_distinct_names: "itl_wf il \<Longrightarrow> distinct (map TagName (map snd (items il)))"
  by (simp add: itl_wf_names [symmetric]) (simp add: itl_wf_def gomap_wf_def)

lemma itl_wf_lookup:
  "itl_wf il \<Longrightarrow> t \<in> snd ` set (items il) \<Longrightarrow> map_of (items il) (TagName t) = Some t"
  by (force simp: itl_wf_def gomap_wf_def)

lemma itl_wf_lookup_name: "itl_wf il \<Longrightarrow> map_of (items il) n = Some t \<Longrightarrow> TagName t = n"
  by (auto simp: itl_wf_def dest: map_of_SomeD)

text \<open>The entries of a tag list, whatever the iteration order.\<close>

abbreviation entries :: "ImageTagList \<Rightarrow> ImageTag set" where
  "entries il \<equiv> snd ` set (items il)"

section \<open>The three orders\<close>

interpretation alpha: key_order name_less TagName
  by unfold_locales (auto simp: name_less_def)

definition date_key :: "ImageTag \<Rightarrow> instant \<times> string" where
  "date_key t = (the (TagDate t), TagName t)"

interpretation bydate: key_order date_less date_key
  by unfold_locales (auto simp: date_less_def date_key_def split: if_splits)

lemma semver_ok_rules:
  assumes "semver_ok lib"
  shows semver_Original: "sv_NewVersion lib s = Some v \<Longrightarrow> sv_Original lib v = s"
    and semver_same: "sv_Original lib v = sv_Original lib w \<Longrightarrow> sv_Compare lib v w = 0"
    and semver_anti: "sv_Compare lib v w < 0 \<longleftrightarrow> 0 < sv_Compare lib w v"
    and semver_trans:
      "sv_Compare lib u v \<le> 0 \<Longrightarrow> sv_Compare lib v w \<le> 0 \<Longrightarrow> sv_Compare lib u w \<le> 0"
  using assms unfolding semver_ok_def by blast+

lemma semver_trans_less:
  assumes "semver_ok lib" "sv_Compare lib u v \<le> 0" "sv_Compare lib v w < 0"
  shows "sv_Compare lib u w < 0"
proof (rule ccontr)
  assume "\<not> sv_Compare lib u w < 0"
  then have "sv_Compare lib w u \<le> 0" using semver_anti [OF assms(1), of u w] semver_anti [OF assms(1), of w u]
    by linarith
  then have "sv_Compare lib w v \<le> 0" using semver_trans [OF assms(1)] assms(2) by blast
  then show False using semver_anti [OF assms(1), of v w] assms(3) by linarith
qed

lemma semver_less_trans:
  assumes "semver_ok lib" "sv_Compare lib u v < 0" "sv_Compare lib v w \<le> 0"
  shows "sv_Compare lib u w < 0"
proof (rule ccontr)
  assume "\<not> sv_Compare lib u w < 0"
  then have "sv_Compare lib w u \<le> 0" using semver_anti [OF assms(1), of u w] semver_anti [OF assms(1), of w u]
    by linarith
  then have "sv_Compare lib v u \<le> 0" using semver_trans [OF assms(1)] assms(3) by blast
  then show False using semver_anti [OF assms(1), of u v] assms(2) by linarith
qed

lemma key_order_semver:
  assumes ok: "semver_ok lib"
  shows "key_order (semverCollection_Less lib) (sv_Original lib)"
proof
  fix x y z
  show "\<not> semverCollection_Less lib x y" if "sv_Original lib x = sv_Original lib y"
    using semver_same [OF ok that] that by (simp add: semverCollection_Less_def)
  show "semverCollection_Less lib x y \<or> semverCollection_Less lib y x"
    if "sv_Original lib x \<noteq> sv_Original lib y"
    using that semver_anti [OF ok, of x y] semver_anti [OF ok, of y x]
    unfolding semverCollection_Less_def Let_def by (auto simp: not_less_iff_gr_or_eq)
  show "semverCollection_Less lib x z"
    if "semverCollection_Less lib x y" "semverCollection_Less lib y z"
  proof -
    have le: "sv_Compare lib x y \<le> 0" "sv_Compare lib y z \<le> 0"
      using that unfolding semverCollection_Less_def Let_def by (auto split: if_splits)
    show ?thesis
    proof (cases "sv_Compare lib x y < 0 \<or> sv_Compare lib y z < 0")
      case True
      then have "sv_Compare lib x z < 0"
        using le semver_trans_less [OF ok] semver_less_trans [OF ok] by blast
      then show ?thesis by (simp add: semverCollection_Less_def)
    next
      case False
      then have eq: "sv_Compare lib x y = 0" "sv_Compare lib y z = 0" using le by linarith+
      then have "sv_Compare lib z y \<le> 0" "sv_Compare lib y x \<le> 0"
        using semver_anti [OF ok, of y z] semver_anti [OF ok, of x y] by linarith+
      then have "sv_Compare lib z x \<le> 0" using semver_trans [OF ok] by blast
      moreover have "sv_Compare lib x z \<le> 0" using semver_trans [OF ok] le by blast
      ultimately have "sv_Compare lib x z = 0" using semver_anti [OF ok, of x z] by linarith
      moreover have "sv_Original lib x < sv_Original lib z"
        using that eq unfolding semverCollection_Less_def Let_def by (auto split: if_splits)
      ultimately show ?thesis by (simp add: semverCollection_Less_def)
    qed
  qed
qed

section \<open>What sorting returns\<close>

lemma set_semver_versions:
  "v \<in> set (semver_versions lib il) \<longleftrightarrow> (\<exists>t \<in> entries il. sv_NewVersion lib (TagName t) = Some v)"
  by (force simp: semver_versions_def List.map_filter_def)

lemma Original_semver_versions:
  assumes "semver_ok lib"
  shows "map (sv_Original lib) (semver_versions lib il) =
    map TagName (filter (\<lambda>t. sv_NewVersion lib (TagName t) \<noteq> None) (map snd (items il)))"
proof -
  have "map (sv_Original lib) (List.map_filter (\<lambda>(k, t). sv_NewVersion lib (TagName t)) m) =
      map TagName (filter (\<lambda>t. sv_NewVersion lib (TagName t) \<noteq> None) (map snd m))" for m
    using semver_Original [OF assms] by (induction m) (auto simp: List.map_filter_simps)
  then show ?thesis by (simp add: semver_versions_def)
qed

lemma distinct_semver_versions:
  assumes "semver_ok lib" "itl_wf il"
  shows "distinct (map (sv_Original lib) (semver_versions lib il))"
  unfolding Original_semver_versions [OF assms(1)]
  using itl_wf_distinct_names [OF assms(2)] by (rule distinct_map_filter)

lemma distinct_date_key: "itl_wf il \<Longrightarrow> distinct (map date_key (map snd (items il)))"
  using itl_wf_distinct_names [of il] unfolding distinct_map date_key_def
  by (auto simp: inj_on_def)

lemma SortAlphabetically_sorted:
  assumes "itl_wf il"
  shows "sorted_wrt name_less (SortAlphabetically il)" "set (SortAlphabetically il) = entries il"
  unfolding SortAlphabetically_def
  using alpha.sorted_sort_key [OF itl_wf_distinct_names [OF assms]] by simp_all

lemma SortByDate_sorted:
  assumes "itl_wf il"
  obtains xs where "SortByDate il = Some xs" "sorted_wrt date_less xs" "set xs = entries il"
proof
  show "SortByDate il = Some (go_sort date_less (map snd (items il)))"
    using assms by (auto simp: SortByDate_def itl_wf_def)
qed (use bydate.sorted_sort_key [OF distinct_date_key [OF assms]] in simp_all)

lemma those_map_total: "(\<And>x. x \<in> set xs \<Longrightarrow> f x = Some (g x)) \<Longrightarrow> those (map f xs) = Some (map g xs)"
  by (induction xs) auto

text \<open>
  Sorting by semantic version succeeds and returns, in version order, a rebuilt entry for each tag
  whose name is a version.
\<close>

definition semver_rebuild :: "('v, 'c) semver_lib \<Rightarrow> ImageTagList \<Rightarrow> 'v \<Rightarrow> ImageTag" where
  "semver_rebuild lib il v =
     (let t = the (map_of (items il) (sv_Original lib v))
      in NewImageTagWithLabels (TagName t) (the (TagDate t)) (TagDigest t) (Labels t))"

lemma SortBySemVer_total:
  assumes "semver_ok lib" "itl_wf il"
  shows "SortBySemVer lib il = Some (map (semver_rebuild lib il)
           (go_sort (semverCollection_Less lib) (semver_versions lib il)))"
  unfolding SortBySemVer_def
proof (rule those_map_total)
  fix v assume "v \<in> set (go_sort (semverCollection_Less lib) (semver_versions lib il))"
  then obtain t where t: "t \<in> entries il" "sv_NewVersion lib (TagName t) = Some v"
    by (auto simp: set_semver_versions)
  then have "map_of (items il) (sv_Original lib v) = Some t"
    using itl_wf_lookup [OF assms(2)] semver_Original [OF assms(1)] by auto
  moreover obtain d where "TagDate t = Some d" using t assms(2) by (auto simp: itl_wf_def)
  moreover have "sv_Original lib v = TagName t" using t semver_Original [OF assms(1)] by simp
  ultimately show "semver_entry lib il v = Some (semver_rebuild lib il v)"
    by (simp add: semver_entry_def semver_rebuild_def)
qed

lemma TagName_semver_rebuild:
  assumes "semver_ok lib" "itl_wf il" "v \<in> set (semver_versions lib il)"
  shows "TagName (semver_rebuild lib il v) = sv_Original lib v"
    and "sv_NewVersion lib (sv_Original lib v) = Some v"
    and "\<exists>t. map_of (items il) (sv_Original lib v) = Some t"
  using assms itl_wf_lookup [OF assms(2)] semver_Original [OF assms(1)]
  unfolding set_semver_versions semver_rebuild_def Let_def by fastforce+

lemma itl_perm_wf:
  assumes "mset (items il') = mset (items il)" "itl_wf il" shows "itl_wf il'"
proof -
  have "mset (map fst (items il')) = mset (map fst (items il))" using assms(1) by simp
  then have "gomap_wf (items il') = gomap_wf (items il)"
    unfolding gomap_wf_def by (rule mset_eq_imp_distinct_iff)
  then show ?thesis using assms mset_eq_setD [OF assms(1)] by (simp add: itl_wf_def)
qed

lemma itl_perm_lookup:
  fixes il il' :: ImageTagList
  assumes "mset (items il') = mset (items il)" "itl_wf il"
  shows "map_of (items il') = map_of (items il)"
  using itl_perm_wf [OF assms] assms(2) mset_eq_setD [OF assms(1)]
  by (simp add: itl_wf_def gomap_wf_def map_of_inject_set)

text \<open>
  \<open>C4\<close>.  Go visits a map in an unspecified order, so two runs over the same registry answer see the
  tags in different orders.  The three sort orders of the tag list do not depend on it: for any two
  iteration orders of the same entries they return the same list.
\<close>

theorem sort_orders_deterministic:
  assumes "itl_wf il" "semver_ok lib" "mset (items il') = mset (items il)"
  shows "SortAlphabetically il' = SortAlphabetically il \<and> SortByDate il' = SortByDate il \<and>
    SortBySemVer lib il' = SortBySemVer lib il"
proof (intro conjI)
  have perm: "mset (map snd (items il')) = mset (map snd (items il))" using assms(3) by simp
  show "SortAlphabetically il' = SortAlphabetically il"
    unfolding SortAlphabetically_def
    by (rule alpha.sort_perm_eq [OF itl_wf_distinct_names [OF assms(1)] perm])
  have "length (items il') = length (items il)" using assms(3) by (metis size_mset)
  moreover have "set (items il') = set (items il)" using assms(3) by (rule mset_eq_setD)
  ultimately show "SortByDate il' = SortByDate il"
    unfolding SortByDate_def
    using bydate.sort_perm_eq [OF distinct_date_key [OF assms(1)] perm] by (simp add: Let_def)
  have "mset (semver_versions lib il') = mset (semver_versions lib il)"
    unfolding semver_versions_def List.map_filter_def using assms(3) by simp
  then have "go_sort (semverCollection_Less lib) (semver_versions lib il') =
      go_sort (semverCollection_Less lib) (semver_versions lib il)"
    by (rule key_order.sort_perm_eq [OF key_order_semver [OF assms(2)]
          distinct_semver_versions [OF assms(2,1)]])
  then show "SortBySemVer lib il' = SortBySemVer lib il"
    unfolding SortBySemVer_def semver_entry_def [abs_def] itl_perm_lookup [OF assms(3,1)] by simp
qed

text \<open>
  A concrete version library, for the examples: versions are strings that start with a digit, compared
  as strings; a constraint is the star or one exact version.
\<close>

definition sample_semver :: "(string, string) semver_lib" where
  "sample_semver =
     \<lparr>sv_NewVersion = (\<lambda>s. if s \<noteq> [] \<and> is_digit (hd s) then Some s else None),
      sv_Original = (\<lambda>v. v),
      sv_Compare = (\<lambda>v w. if v < w then -1 else if v = w then 0 else 1),
      sv_NewConstraint = (\<lambda>c. if c = ''bad'' then None else Some c),
      sv_Check = (\<lambda>c v. c = ''*'' \<or> c = v)\<rparr>"

lemma sample_semver_ok: "semver_ok sample_semver"
  by (auto simp: semver_ok_def sample_semver_def split: if_splits)

definition sample_tags :: ImageTagList where
  "sample_tags =
     itl_Add (itl_Add (itl_Add NewImageTagList (NewImageTag ''1.0'' 30 [])) (NewImageTag ''latest'' 10 ''d1''))
       (NewImageTag ''1.2'' 20 [])"

lemma sample_tags_wf: "itl_wf sample_tags"
  unfolding sample_tags_def by (intro itl_wf_Add itl_wf_new) simp_all

lemma sample_tags_items:
  "items sample_tags = [(''1.0'', NewImageTag ''1.0'' 30 []), (''latest'', NewImageTag ''latest'' 10 ''d1''),
     (''1.2'', NewImageTag ''1.2'' 20 [])]"
  by (simp add: sample_tags_def itl_Add_def NewImageTagList_def)

theorem sort_orders_deterministic_witness:
  "SortBySemVer sample_semver \<lparr>items = rev (items sample_tags)\<rparr> = SortBySemVer sample_semver sample_tags"
  using sort_orders_deterministic [OF sample_tags_wf sample_semver_ok, of "\<lparr>items = rev (items sample_tags)\<rparr>"]
  by simp

end
