(* ===== verification/TagCache.thy ===== *)
theory TagCache
  imports Tags
begin

text \<open>
  The tag cache of a registry endpoint (\<open>registry-scanner/pkg/cache/cache.go\<close>, \<open>memcache.go\<close>).  The Go
  interface \<open>ImageTagCache\<close> is the record of its operations on a cache state; \<open>MemCache\<close> implements it on
  the package \<open>github.com/patrickmn/go-cache\<close>, which is the parameter \<open>gocache_lib\<close>; \<open>gocache_ok\<close> is its
  documented behaviour for entries without expiration.
\<close>

section \<open>The store\<close>

record ('s, 'v) gocache_lib =
  gc_New :: 's
  gc_Set :: "'s \<Rightarrow> string \<Rightarrow> 'v \<Rightarrow> 's"
  gc_Get :: "'s \<Rightarrow> string \<Rightarrow> 'v option"
  gc_Delete :: "'s \<Rightarrow> string \<Rightarrow> 's"
  gc_Keys :: "'s \<Rightarrow> string list"
  gc_ItemCount :: "'s \<Rightarrow> nat"
  gc_Flush :: "'s \<Rightarrow> 's"

definition gocache_ok :: "('s, 'v) gocache_lib \<Rightarrow> bool" where
  "gocache_ok lib =
     ((\<forall>k. gc_Get lib (gc_New lib) k = None) \<and>
      (\<forall>s k v k'. gc_Get lib (gc_Set lib s k v) k' = (if k' = k then Some v else gc_Get lib s k')) \<and>
      (\<forall>s k k'. gc_Get lib (gc_Delete lib s k) k' = (if k' = k then None else gc_Get lib s k')) \<and>
      (\<forall>s. distinct (gc_Keys lib s) \<and> set (gc_Keys lib s) = {k. gc_Get lib s k \<noteq> None}) \<and>
      (\<forall>s. gc_ItemCount lib s = length (gc_Keys lib s)) \<and>
      (\<forall>s k. gc_Get lib (gc_Flush lib s) k = None))"

text \<open>The values the cache holds are of Go's type \<open>any\<close>: a tag, or the name of an application.\<close>

datatype cache_val = CacheTag ImageTag | CacheApp string

type_synonym 's mem_lib = "('s, cache_val) gocache_lib"

section \<open>Operations\<close>

definition tagCacheKey :: "string \<Rightarrow> string \<Rightarrow> string" where
  "tagCacheKey imageName imageTag = ''tags:'' @ imageName @ '':'' @ imageTag"

definition imageCacheKey :: "string \<Rightarrow> string" where
  "imageCacheKey imageName = ''image:'' @ imageName"

definition NewMemCache :: "'s mem_lib \<Rightarrow> 's" where
  "NewMemCache lib = gc_New lib"

definition mc_SetTag :: "'s mem_lib \<Rightarrow> 's \<Rightarrow> string \<Rightarrow> ImageTag \<Rightarrow> 's" where
  "mc_SetTag lib mc imageName imgTag =
     gc_Set lib mc (tagCacheKey imageName (TagName imgTag)) (CacheTag imgTag)"

text \<open>The error of a failed type assertion has an empty message.\<close>

definition mc_GetTag :: "'s mem_lib \<Rightarrow> 's \<Rightarrow> string \<Rightarrow> string \<Rightarrow> string + ImageTag option" where
  "mc_GetTag lib mc imageName tagName =
     (case gc_Get lib mc (tagCacheKey imageName tagName) of
        None \<Rightarrow> Inr None
      | Some e \<Rightarrow> (case e of CacheTag imgTag \<Rightarrow> Inr (Some imgTag) | CacheApp _ \<Rightarrow> Inl []))"

definition mc_HasTag :: "'s mem_lib \<Rightarrow> 's \<Rightarrow> string \<Rightarrow> string \<Rightarrow> bool" where
  "mc_HasTag lib mc imageName tagName =
     (case mc_GetTag lib mc imageName tagName of Inr (Some _) \<Rightarrow> True | _ \<Rightarrow> False)"

definition mc_SetImage :: "'s mem_lib \<Rightarrow> 's \<Rightarrow> string \<Rightarrow> string \<Rightarrow> 's" where
  "mc_SetImage lib mc imageName application = gc_Set lib mc (imageCacheKey imageName) (CacheApp application)"

definition mc_ClearCache :: "'s mem_lib \<Rightarrow> 's \<Rightarrow> 's" where
  "mc_ClearCache lib mc = fold (\<lambda>k mc. gc_Delete lib mc k) (gc_Keys lib mc) mc"

definition mc_NumEntries :: "'s mem_lib \<Rightarrow> 's \<Rightarrow> nat" where
  "mc_NumEntries lib mc = gc_ItemCount lib mc"

record 's ImageTagCache =
  itc_HasTag :: "'s \<Rightarrow> string \<Rightarrow> string \<Rightarrow> bool"
  itc_GetTag :: "'s \<Rightarrow> string \<Rightarrow> string \<Rightarrow> string + ImageTag option"
  itc_SetTag :: "'s \<Rightarrow> string \<Rightarrow> ImageTag \<Rightarrow> 's"
  itc_ClearCache :: "'s \<Rightarrow> 's"
  itc_NumEntries :: "'s \<Rightarrow> nat"

definition MemCache :: "'s mem_lib \<Rightarrow> 's ImageTagCache" where
  "MemCache lib =
     \<lparr>itc_HasTag = mc_HasTag lib, itc_GetTag = mc_GetTag lib, itc_SetTag = mc_SetTag lib,
      itc_ClearCache = mc_ClearCache lib, itc_NumEntries = mc_NumEntries lib\<rparr>"

section \<open>The contract of a tag cache\<close>

text \<open>
  What the registry code relies on: tag names without a colon are looked up as in a map from image and
  tag name, an entry is filed under its own tag name and carries a date, and no lookup fails.
\<close>

definition colon_free :: "string \<Rightarrow> bool" where
  "colon_free s = (CHR '':'' \<notin> set s)"

definition cacheable :: "ImageTag \<Rightarrow> bool" where
  "cacheable t = (colon_free (TagName t) \<and> TagDate t \<noteq> None)"

locale tag_cache =
  fixes itc :: "'s ImageTagCache"
    and wf :: "'s \<Rightarrow> bool"
  assumes wf_SetTag: "wf c \<Longrightarrow> cacheable t \<Longrightarrow> wf (itc_SetTag itc c n t)"
    and wf_ClearCache: "wf c \<Longrightarrow> wf (itc_ClearCache itc c)"
    and GetTag_no_error: "wf c \<Longrightarrow> itc_GetTag itc c n tn \<noteq> Inl e"
    and GetTag_name: "wf c \<Longrightarrow> colon_free tn \<Longrightarrow> itc_GetTag itc c n tn = Inr (Some t) \<Longrightarrow>
      TagName t = tn \<and> TagDate t \<noteq> None"
    and GetTag_SetTag: "colon_free tn \<Longrightarrow> colon_free (TagName t) \<Longrightarrow>
      itc_GetTag itc (itc_SetTag itc c n t) n' tn =
        (if n' = n \<and> tn = TagName t then Inr (Some t) else itc_GetTag itc c n' tn)"
begin

definition cached :: "'s \<Rightarrow> string \<Rightarrow> string \<Rightarrow> ImageTag option" where
  "cached c n tn = (case itc_GetTag itc c n tn of Inr r \<Rightarrow> r | Inl _ \<Rightarrow> None)"

lemma GetTag_cached: "wf c \<Longrightarrow> itc_GetTag itc c n tn = Inr (cached c n tn)"
  unfolding cached_def using GetTag_no_error by (cases "itc_GetTag itc c n tn") auto

lemma wf_fold_SetTag:
  "wf c \<Longrightarrow> \<forall>t \<in> set ts. cacheable t \<Longrightarrow> wf (fold (\<lambda>t c. itc_SetTag itc c n t) ts c)"
  by (induction ts arbitrary: c) (auto intro: wf_SetTag)

lemma cached_fold_SetTag:
  assumes "colon_free tn" "\<forall>t \<in> set ts. colon_free (TagName t)" "tn \<notin> TagName ` set ts \<or> n' \<noteq> n"
  shows "itc_GetTag itc (fold (\<lambda>t c. itc_SetTag itc c n t) ts c) n' tn = itc_GetTag itc c n' tn"
  using assms by (induction ts arbitrary: c) (auto simp: GetTag_SetTag)

end

section \<open>MemCache keeps the contract\<close>

lemma tagCacheKey_inj:
  assumes "tagCacheKey n tn = tagCacheKey n' tn'" "colon_free tn" "colon_free tn'"
  shows "n = n' \<and> tn = tn'"
proof -
  have "(rev tn @ CHR '':'' # rev n) @ rev ''tags:'' = (rev tn' @ CHR '':'' # rev n') @ rev ''tags:''"
    using arg_cong [OF assms(1), of rev] by (simp add: tagCacheKey_def)
  then have "rev tn @ CHR '':'' # rev n = rev tn' @ CHR '':'' # rev n'"
    by (simp only: append_same_eq)
  then have "rev tn = rev tn' \<and> rev n = rev n'"
    using assms(2,3) by (intro first_sep_eq) (simp_all add: colon_free_def)
  then show ?thesis by simp
qed

lemma tagCacheKey_not_image [simp]: "tagCacheKey n tn \<noteq> imageCacheKey m" "imageCacheKey m \<noteq> tagCacheKey n tn"
  by (simp_all add: tagCacheKey_def imageCacheKey_def)

definition memcache_wf :: "'s mem_lib \<Rightarrow> 's \<Rightarrow> bool" where
  "memcache_wf lib mc =
     (\<forall>k v. gc_Get lib mc k = Some v \<longrightarrow>
        (case v of
           CacheTag t \<Rightarrow> cacheable t \<and> (\<exists>n. k = tagCacheKey n (TagName t))
         | CacheApp _ \<Rightarrow> (\<exists>n. k = imageCacheKey n)))"

lemma gocache_rules:
  assumes "gocache_ok lib"
  shows gc_Get_New: "gc_Get lib (gc_New lib) k = None"
    and gc_Get_Set: "gc_Get lib (gc_Set lib s k v) k' = (if k' = k then Some v else gc_Get lib s k')"
    and gc_Get_Delete: "gc_Get lib (gc_Delete lib s k) k' = (if k' = k then None else gc_Get lib s k')"
    and gc_Keys: "set (gc_Keys lib s) = {k. gc_Get lib s k \<noteq> None}"
    and gc_ItemCount: "gc_ItemCount lib s = length (gc_Keys lib s)"
    and gc_Get_Flush: "gc_Get lib (gc_Flush lib s) k = None"
  using assms by (auto simp: gocache_ok_def)

lemma fold_Delete:
  "gocache_ok lib \<Longrightarrow> gc_Get lib (fold (\<lambda>k mc. gc_Delete lib mc k) ks mc) k =
     (if k \<in> set ks then None else gc_Get lib mc k)"
  by (induction ks arbitrary: mc) (auto simp: gc_Get_Delete)

lemma mc_ClearCache_empty: "gocache_ok lib \<Longrightarrow> gc_Get lib (mc_ClearCache lib mc) k = None"
  by (auto simp: mc_ClearCache_def fold_Delete gc_Keys)

lemma memcache_wf_rules:
  assumes "gocache_ok lib"
  shows memcache_wf_New: "memcache_wf lib (NewMemCache lib)"
    and memcache_wf_SetTag: "memcache_wf lib mc \<Longrightarrow> cacheable t \<Longrightarrow> memcache_wf lib (mc_SetTag lib mc n t)"
    and memcache_wf_SetImage: "memcache_wf lib mc \<Longrightarrow> memcache_wf lib (mc_SetImage lib mc n a)"
    and memcache_wf_Clear: "memcache_wf lib (mc_ClearCache lib mc)"
  using assms
  by (auto simp: memcache_wf_def NewMemCache_def mc_SetTag_def mc_SetImage_def mc_ClearCache_empty gc_Get_New gc_Get_Set)

lemma mc_GetTag_SetTag:
  assumes "gocache_ok lib" "colon_free tn" "colon_free (TagName t)"
  shows "mc_GetTag lib (mc_SetTag lib mc n t) n' tn =
    (if n' = n \<and> tn = TagName t then Inr (Some t) else mc_GetTag lib mc n' tn)"
  using assms tagCacheKey_inj [of n' tn n "TagName t"]
  by (auto simp: mc_GetTag_def mc_SetTag_def gc_Get_Set)

lemma mc_GetTag_no_error:
  assumes "memcache_wf lib mc" shows "mc_GetTag lib mc n tn \<noteq> Inl e"
proof -
  have "gc_Get lib mc (tagCacheKey n tn) \<noteq> Some (CacheApp a)" for a
    using assms unfolding memcache_wf_def by fastforce
  then show ?thesis by (auto simp: mc_GetTag_def split: option.splits cache_val.splits)
qed

lemma mc_GetTag_name:
  assumes "memcache_wf lib mc" "colon_free tn" "mc_GetTag lib mc n tn = Inr (Some t)"
  shows "TagName t = tn \<and> TagDate t \<noteq> None"
proof -
  have get: "gc_Get lib mc (tagCacheKey n tn) = Some (CacheTag t)"
    using assms(3) by (auto simp: mc_GetTag_def split: option.splits cache_val.splits)
  then obtain m where "cacheable t" "tagCacheKey n tn = tagCacheKey m (TagName t)"
    using assms(1) [unfolded memcache_wf_def, rule_format, OF get] by auto
  then show ?thesis using tagCacheKey_inj [of n tn m "TagName t"] assms(2) by (simp add: cacheable_def)
qed

lemma MemCache_tag_cache: "gocache_ok lib \<Longrightarrow> tag_cache (MemCache lib) (memcache_wf lib)"
  by unfold_locales
    (auto simp: MemCache_def memcache_wf_SetTag memcache_wf_Clear mc_GetTag_no_error mc_GetTag_SetTag
      dest: mc_GetTag_name)

text \<open>A concrete store, an association list, for the examples and the interpretation of the contract.\<close>

definition list_store :: "((string, 'v) gomap, 'v) gocache_lib" where
  "list_store =
     \<lparr>gc_New = [], gc_Set = (\<lambda>s k v. gomap_put k v (filter (\<lambda>e. fst e \<noteq> k) s)),
      gc_Get = map_of, gc_Delete = (\<lambda>s k. filter (\<lambda>e. fst e \<noteq> k) s),
      gc_Keys = (\<lambda>s. remdups (map fst s)), gc_ItemCount = (\<lambda>s. length (remdups (map fst s))),
      gc_Flush = (\<lambda>_. [])\<rparr>"

lemma map_of_filter_key: "map_of (filter (\<lambda>e. fst e \<noteq> k) s) k' = (if k' = k then None else map_of s k')"
  by (induction s) auto

lemma list_store_ok: "gocache_ok list_store"
  by (auto simp: gocache_ok_def list_store_def map_of_filter_key map_of_eq_None_iff)

interpretation mem: tag_cache "MemCache list_store" "memcache_wf list_store"
  by (rule MemCache_tag_cache [OF list_store_ok])

text \<open>
  The tag cache is a map from image and tag name: a lookup after \<open>SetTag\<close> returns the tag just
  stored and otherwise what was there before, and neither storing tags or images nor clearing the cache
  can make a later lookup fail.
\<close>

theorem memcache_is_a_map:
  assumes "gocache_ok lib" "memcache_wf lib mc" "cacheable t" "colon_free tn"
  shows "mc_GetTag lib (mc_SetTag lib mc n t) n' tn =
      (if n' = n \<and> tn = TagName t then Inr (Some t) else mc_GetTag lib mc n' tn) \<and>
    mc_GetTag lib (mc_SetImage lib mc m a) n' tn = mc_GetTag lib mc n' tn \<and>
    mc_GetTag lib (mc_ClearCache lib mc) n' tn = Inr None \<and>
    memcache_wf lib (mc_SetTag lib mc n t) \<and> memcache_wf lib (mc_SetImage lib mc m a) \<and>
    (\<forall>e. mc_GetTag lib mc n' tn \<noteq> Inl e)"
  using mc_GetTag_SetTag [OF assms(1,4), of t] memcache_wf_rules [OF assms(1)] assms(2,3)
    mc_GetTag_no_error [OF assms(2)] mc_ClearCache_empty [OF assms(1)]
  by (auto simp: mc_GetTag_def mc_SetImage_def gc_Get_Set [OF assms(1)] cacheable_def)

theorem memcache_is_a_map_witness:
  "mc_GetTag list_store (mc_SetTag list_store (NewMemCache list_store) ''library/nginx'' (NewImageTag ''1.0'' 5 []))
     ''library/nginx'' ''1.0'' = Inr (Some (NewImageTag ''1.0'' 5 []))"
  using memcache_is_a_map [OF list_store_ok memcache_wf_New [OF list_store_ok],
      of "NewImageTag ''1.0'' 5 []" "''1.0''" "''library/nginx''" "''library/nginx''"]
  by (simp add: colon_free_def cacheable_def)

end
