(* ===== verification/Images.thy ===== *)
theory Images
  imports Tags
begin

text \<open>
  Container images (\<open>registry-scanner/pkg/image/image.go\<close>, \<open>kustomize.go\<close>): parsing an image
  identifier, printing it, and finding an image in the list of live images.  A pointer into a
  \<open>ContainerImageList\<close> is an index of the list, so that the pointer comparisons of the callers are
  comparisons of indices.

  \<open>reference.ParseNormalizedNamed\<close> (\<open>github.com/distribution/reference\<close>) is a parameter: it maps a
  reference to its domain, path, tag and digest, or to \<^const>\<open>None\<close> for its error.
\<close>

record parsed_ref =
  ref_Domain :: string
  ref_Path :: string
  ref_Tag :: "string option"
  ref_Digest :: "string option"

type_synonym ref_parser = "string \<Rightarrow> parsed_ref option"

datatype ContainerImage =
  ContainerImage (RegistryURL: string) (ImageName: string) (ImageTag: "ImageTag option")
    (ImageAlias: string) (KustomizeImage: "ContainerImage option") (original: string)

section \<open>Parsing\<close>

definition getRegistryFromIdentifier :: "string \<Rightarrow> string" where
  "getRegistryFromIdentifier identifier =
     (let comp = strings_Split identifier CHR ''='';
          imageString = (if length comp > 1 then comp ! 1 else identifier);
          comp = strings_Split imageString CHR ''/''
      in if length comp > 1 \<and> strings_Contains (comp ! 0) ''.'' then comp ! 0 else [])"

definition getImageDigestFromTag :: "string \<Rightarrow> string \<times> string" where
  "getImageDigestFromTag tagStr =
     (let a = strings_Split tagStr CHR ''@''
      in if length a \<noteq> 2 then (tagStr, []) else (a ! 0, a ! 1))"

definition getImageTagFromIdentifier :: "string \<Rightarrow> string \<times> string \<times> ImageTag option" where
  "getImageTagFromIdentifier identifier =
     (let comp = strings_SplitN identifier CHR ''='' 2;
          sourceName = (if length comp = 2 then comp ! 0 else []);
          imageString = (if length comp = 2 then comp ! 1 else identifier);
          comp = strings_Split imageString CHR ''/'';
          imageString = (if length comp > 1 \<and> strings_Contains (comp ! 0) ''.''
                         then strings_Join (tl comp) ''/'' else imageString)
      in if strings_Contains imageString ''@'' then
           (let comp = strings_SplitN imageString CHR ''@'' 2;
                colonPos = strings_LastIndex (comp ! 0) CHR '':'';
                slashPos = strings_LastIndex (comp ! 0) CHR ''/''
            in if colonPos > slashPos
               then (sourceName, take (nat colonPos) (comp ! 0),
                     Some (NewImageTag (drop (nat colonPos + 1) (comp ! 0)) 0 (comp ! 1)))
               else (sourceName, comp ! 0, Some (NewImageTag [] 0 (comp ! 1))))
         else
           (let comp = strings_SplitN imageString CHR '':'' 2
            in if length comp \<noteq> 2 then (sourceName, imageString, None)
               else (case getImageDigestFromTag (comp ! 1) of
                       (tagName, tagDigest) \<Rightarrow>
                         (sourceName, comp ! 0, Some (NewImageTag tagName 0 tagDigest)))))"

text \<open>The tag of a parsed reference; the literal \<open>&tag.ImageTag{...}\<close> sets no date.\<close>

definition ref_ImageTag :: "parsed_ref \<Rightarrow> ImageTag option" where
  "ref_ImageTag parsed =
     (let mk = (\<lambda>n d. \<lparr>TagName = n, TagDate = None, TagDigest = d, ManifestDigest = [],
                        Labels = [], TagSignatures = []\<rparr>)
      in case ref_Digest parsed of
           Some d \<Rightarrow> Some (mk (case ref_Tag parsed of Some n \<Rightarrow> n | None \<Rightarrow> []) d)
         | None \<Rightarrow> (case ref_Tag parsed of Some n \<Rightarrow> Some (mk n []) | None \<Rightarrow> None))"

definition NewFromIdentifier :: "ref_parser \<Rightarrow> string \<Rightarrow> ContainerImage" where
  "NewFromIdentifier pn identifier =
     (let n = strings_SplitN identifier CHR ''='' 2;
          imgRef = (if strings_Contains identifier ''='' then n ! 1 else identifier);
          alias = (if strings_Contains identifier ''='' then n ! 0 else [])
      in case pn imgRef of
           Some parsed \<Rightarrow>
             (let domain = ref_Domain parsed;
                  url = (if domain = ''docker.io'' \<and> \<not> strings_HasPrefix imgRef ''docker.io''
                         then [] else domain);
                  name = (if domain = ''docker.io'' \<and> \<not> strings_HasPrefix imgRef ''library/''
                          then strings_TrimPrefix (ref_Path parsed) ''library/'' else ref_Path parsed)
              in ContainerImage url name (ref_ImageTag parsed) alias None identifier)
         | None \<Rightarrow>
             (case getImageTagFromIdentifier identifier of
                (sourceName, name, t) \<Rightarrow>
                  ContainerImage (getRegistryFromIdentifier identifier) name t sourceName None identifier))"

section \<open>Printing\<close>

definition GetFullNameWithoutTag :: "ContainerImage \<Rightarrow> string" where
  "GetFullNameWithoutTag img =
     (if RegistryURL img \<noteq> [] \<and> \<not> strings_HasPrefix (ImageName img) (RegistryURL img @ ''/'')
      then RegistryURL img @ ''/'' else []) @ ImageName img"

definition GetFullNameWithTag :: "ContainerImage \<Rightarrow> string" where
  "GetFullNameWithTag img =
     (if RegistryURL img \<noteq> [] \<and> \<not> strings_HasPrefix (ImageName img) (RegistryURL img @ ''/'')
      then RegistryURL img @ ''/'' else []) @ ImageName img @
     (case ImageTag img of
        None \<Rightarrow> []
      | Some t \<Rightarrow> (if TagName t \<noteq> [] then '':'' @ TagName t else []) @
                  (if TagDigest t \<noteq> [] then ''@'' @ TagDigest t else []))"

definition GetTagWithDigest :: "ContainerImage \<Rightarrow> string" where
  "GetTagWithDigest img =
     (case ImageTag img of
        None \<Rightarrow> []
      | Some t \<Rightarrow>
          (let str = TagName t
           in if TagDigest t \<noteq> []
              then (if str = [] then ''latest'' else str) @ ''@'' @ TagDigest t
              else str))"

definition img_String :: "ContainerImage \<Rightarrow> string" where
  "img_String img =
     (if ImageAlias img \<noteq> [] then ImageAlias img @ ''='' else []) @ GetFullNameWithTag img"

definition list_Originals :: "ContainerImage list \<Rightarrow> string list" where
  "list_Originals l = map original l"

definition list_String :: "ContainerImage list \<Rightarrow> string" where
  "list_String l = strings_Join (map img_String l) '',''"

definition HasRegistryPrefix :: "string \<Rightarrow> bool" where
  "HasRegistryPrefix imageName =
     (let parts = strings_Split imageName CHR ''/''
      in if length parts > 1 then strings_Contains (parts ! 0) ''.'' else False)"

definition ExtractShortForm :: "string \<Rightarrow> string" where
  "ExtractShortForm imageName =
     (if \<not> HasRegistryPrefix imageName then imageName
      else (let parts = strings_SplitN imageName CHR ''/'' 2
            in if length parts = 2 then parts ! 1 else imageName))"

definition GetLogFields :: "ContainerImage \<Rightarrow> string \<Rightarrow> (string, string) gomap" where
  "GetLogFields img alias =
     [(''image_registry'', RegistryURL img), (''image_name'', GetFullNameWithoutTag img)] @
     (if alias \<noteq> [] then [(''image_alias'', alias)] else []) @
     (case ImageTag img of
        None \<Rightarrow> []
      | Some t \<Rightarrow> (if TagName t \<noteq> [] then [(''image_tag'', TagName t)] else []) @
                  (if TagDigest t \<noteq> [] then [(''image_digest'', TagDigest t)] else []))"

section \<open>Comparing and finding\<close>

definition WithTag :: "ContainerImage \<Rightarrow> ImageTag option \<Rightarrow> ContainerImage" where
  "WithTag img newTag =
     ContainerImage (RegistryURL img) (ImageName img) newTag (ImageAlias img) None []"

definition DiffersFrom :: "ContainerImage \<Rightarrow> ContainerImage \<Rightarrow> bool \<Rightarrow> bool go" where
  "DiffersFrom img other checkVersion =
     (if RegistryURL img \<noteq> RegistryURL other \<or> ImageName img \<noteq> ImageName other then Ret True
      else if checkVersion then
        (case (ImageTag img, ImageTag other) of
           (Some t, Some u) \<Rightarrow> Ret (TagName t \<noteq> TagName u)
         | _ \<Rightarrow> Panic)
      else Ret False)"

text \<open>The loop of \<open>ContainsImage\<close>; the index of the image found.\<close>

fun contains_loop :: "ContainerImage list \<Rightarrow> ContainerImage \<Rightarrow> bool \<Rightarrow> nat \<Rightarrow> nat option go" where
  "contains_loop [] img checkVersion i = Ret None"
| "contains_loop (im # ims) img checkVersion i =
     (if ImageName img = ImageName im \<and> RegistryURL im = RegistryURL img then
        if \<not> checkVersion then Ret (Some i)
        else (case (ImageTag im, ImageTag img) of
                (Some t, Some u) \<Rightarrow>
                  if TagName t = TagName u then Ret (Some i)
                  else contains_loop ims img checkVersion (Suc i)
              | _ \<Rightarrow> Panic)
      else contains_loop ims img checkVersion (Suc i))"

fun ContainsImage :: "ContainerImage list \<Rightarrow> ContainerImage \<Rightarrow> bool \<Rightarrow> nat option go" where
  "ContainsImage l (ContainerImage r n t a k orig) checkVersion =
     (case k of
        None \<Rightarrow> contains_loop l (ContainerImage r n t a k orig) checkVersion 0
      | Some ki \<Rightarrow>
          (case ContainsImage l ki checkVersion of
             Panic \<Rightarrow> Panic
           | Ret (Some i) \<Rightarrow> Ret (Some i)
           | Ret None \<Rightarrow> contains_loop l (ContainerImage r n t a k orig) checkVersion 0))"

text \<open>The loop of \<open>MatchForDigestUpdate\<close> with its two candidates.\<close>

fun match_loop ::
  "ContainerImage \<Rightarrow> string \<Rightarrow> string \<Rightarrow> ContainerImage list \<Rightarrow> nat \<Rightarrow> nat option \<Rightarrow> nat option \<Rightarrow> nat option"
where
  "match_loop img wantTag latestDigest [] i firstTagMatch staleNameMatch =
     (if firstTagMatch \<noteq> None then firstTagMatch else staleNameMatch)"
| "match_loop img wantTag latestDigest (live # ls) i firstTagMatch staleNameMatch =
     (if ImageName img \<noteq> ImageName live \<or> RegistryURL img \<noteq> RegistryURL live
      then match_loop img wantTag latestDigest ls (Suc i) firstTagMatch staleNameMatch
      else
        (let isStale = (case ImageTag live of
                          None \<Rightarrow> False | Some t \<Rightarrow> IsDigest t \<and> TagDigest t \<noteq> latestDigest);
             staleNameMatch = (if isStale \<and> staleNameMatch = None then Some i else staleNameMatch);
             tagMatch = (wantTag \<noteq> [] \<and>
               (case ImageTag live of None \<Rightarrow> False | Some t \<Rightarrow> TagName t = wantTag))
         in if tagMatch \<and> isStale then Some i
            else match_loop img wantTag latestDigest ls (Suc i)
                   (if tagMatch \<and> firstTagMatch = None then Some i else firstTagMatch) staleNameMatch))"

definition MatchForDigestUpdate :: "ContainerImage list \<Rightarrow> ContainerImage \<Rightarrow> string \<Rightarrow> nat option" where
  "MatchForDigestUpdate l img latestDigest =
     match_loop img (case ImageTag img of None \<Rightarrow> [] | Some t \<Rightarrow> TagName t) latestDigest l 0 None None"

section \<open>Kustomize images\<close>

definition kustomize_delim :: "string \<Rightarrow> char" where
  "kustomize_delim i =
     (if strings_Contains i ''='' then CHR ''=''
      else if strings_Contains i '':'' then CHR '':''
      else if strings_Contains i ''@'' then CHR ''@'' else CHR '':'')"

definition kustomize_Match :: "string \<Rightarrow> string \<Rightarrow> bool" where
  "kustomize_Match i j =
     (let delim = kustomize_delim j in fst (strings_Cut i delim) = fst (strings_Cut j delim))"

definition kustomize_Find :: "string list \<Rightarrow> string \<Rightarrow> int" where
  "kustomize_Find images img =
     (case first_index (\<lambda>a. kustomize_Match a img) images of None \<Rightarrow> -1 | Some i \<Rightarrow> int i)"

section \<open>Finding the live image\<close>

definition same_image :: "ContainerImage \<Rightarrow> ContainerImage \<Rightarrow> bool" where
  "same_image img live = (ImageName img = ImageName live \<and> RegistryURL img = RegistryURL live)"

definition stale_image :: "string \<Rightarrow> ContainerImage \<Rightarrow> bool" where
  "stale_image latestDigest live =
     (case ImageTag live of None \<Rightarrow> False | Some t \<Rightarrow> IsDigest t \<and> TagDigest t \<noteq> latestDigest)"

definition tag_match :: "ContainerImage \<Rightarrow> ContainerImage \<Rightarrow> bool" where
  "tag_match img live =
     (case (ImageTag img, ImageTag live) of
        (Some t, Some u) \<Rightarrow> TagName t \<noteq> [] \<and> TagName u = TagName t | _ \<Rightarrow> False)"

text \<open>The selection rule that the comment of \<open>MatchForDigestUpdate\<close> states.\<close>

definition digest_match_spec :: "ContainerImage list \<Rightarrow> ContainerImage \<Rightarrow> string \<Rightarrow> nat option" where
  "digest_match_spec l img d =
     (case first_index (\<lambda>x. same_image img x \<and> tag_match img x \<and> stale_image d x) l of
        Some i \<Rightarrow> Some i
      | None \<Rightarrow>
          (case first_index (\<lambda>x. same_image img x \<and> tag_match img x) l of
             Some i \<Rightarrow> Some i
           | None \<Rightarrow> first_index (\<lambda>x. same_image img x \<and> stale_image d x) l))"

lemma match_loop_spec:
  assumes "w = (case ImageTag img of None \<Rightarrow> [] | Some t \<Rightarrow> TagName t)"
  shows "match_loop img w d l i ftm snm =
    (case first_index (\<lambda>x. same_image img x \<and> tag_match img x \<and> stale_image d x) l of
       Some j \<Rightarrow> Some (i + j)
     | None \<Rightarrow> (if ftm \<noteq> None then ftm else
         (case first_index (\<lambda>x. same_image img x \<and> tag_match img x) l of
            Some j \<Rightarrow> Some (i + j)
          | None \<Rightarrow> (if snm \<noteq> None then snm else
              map_option (\<lambda>j. i + j) (first_index (\<lambda>x. same_image img x \<and> stale_image d x) l)))))"
proof (induction l arbitrary: i ftm snm)
  case Nil
  then show ?case by simp
next
  case (Cons live ls)
  have st: "(case ImageTag live of None \<Rightarrow> False | Some t \<Rightarrow> IsDigest t \<and> TagDigest t \<noteq> d) = stale_image d live"
    by (simp add: stale_image_def)
  have tm: "(w \<noteq> [] \<and> (case ImageTag live of None \<Rightarrow> False | Some t \<Rightarrow> TagName t = w)) = tag_match img live"
    unfolding tag_match_def assms by (auto split: option.splits)
  have si: "(ImageName img \<noteq> ImageName live \<or> RegistryURL img \<noteq> RegistryURL live) = (\<not> same_image img live)"
    by (simp add: same_image_def)
  show ?case
    unfolding match_loop.simps st tm si Let_def Cons.IH
    by (auto simp: option.map_comp o_def map_option_plus_Suc split: option.splits)
qed

lemma contains_loop_False:
  "contains_loop l img False i = Ret (map_option (\<lambda>j. i + j) (first_index (same_image img) l))"
  by (induction l arbitrary: i)
    (auto simp: same_image_def option.map_comp o_def map_option_plus_Suc)

text \<open>The image and its chain of kustomize overrides, in the order they are tried.\<close>

fun override_chain :: "ContainerImage \<Rightarrow> ContainerImage list" where
  "override_chain (ContainerImage r n t a k orig) =
     (case k of None \<Rightarrow> [] | Some ki \<Rightarrow> override_chain ki) @ [ContainerImage r n t a k orig]"

fun first_match :: "ContainerImage list \<Rightarrow> ContainerImage list \<Rightarrow> nat option" where
  "first_match l [] = None"
| "first_match l (c # cs) =
     (case first_index (same_image c) l of None \<Rightarrow> first_match l cs | Some i \<Rightarrow> Some i)"

lemma first_match_append:
  "first_match l (xs @ ys) = (case first_match l xs of None \<Rightarrow> first_match l ys | Some i \<Rightarrow> Some i)"
  by (induction xs) (auto split: option.splits)

lemma ContainsImage_False: "ContainsImage l img False = Ret (first_match l (override_chain img))"
proof (induction img rule: override_chain.induct)
  case (1 r n t a k orig)
  then show ?case
    by (cases k) (auto simp: contains_loop_False first_match_append option.map_ident
        split: option.splits)
qed

lemma first_match_Some:
  "first_match l cs = Some i \<Longrightarrow> i < length l \<and> (\<exists>c \<in> set cs. same_image c (l ! i))"
  by (induction cs) (auto split: option.splits simp: first_index_Some)

section \<open>Reading back a printed image\<close>

text \<open>The images whose printed form is unambiguous for the fallback parser.\<close>

definition plain_tag :: "ImageTag \<Rightarrow> bool" where
  "plain_tag t =
     (t = NewImageTag (TagName t) 0 (TagDigest t) \<and> (TagName t \<noteq> [] \<or> TagDigest t \<noteq> []) \<and>
      set (TagName t) \<inter> set ''=/:@'' = {} \<and> set (TagDigest t) \<inter> set ''=/'' = {})"

definition plain_image :: "ContainerImage \<Rightarrow> bool" where
  "plain_image img =
     (set (ImageName img) \<inter> set ''=:@'' = {} \<and> CHR ''='' \<notin> set (ImageAlias img) \<and>
      (if RegistryURL img = [] then \<not> HasRegistryPrefix (ImageName img)
       else CHR ''.'' \<in> set (RegistryURL img) \<and> set (RegistryURL img) \<inter> set ''/='' = {} \<and>
         \<not> strings_HasPrefix (ImageName img) (RegistryURL img @ ''/'')) \<and>
      (case ImageTag img of None \<Rightarrow> True | Some t \<Rightarrow> plain_tag t))"

text \<open>What is printed behind the name.\<close>

definition tag_suffix :: "ImageTag option \<Rightarrow> string" where
  "tag_suffix t =
     (case t of
        None \<Rightarrow> []
      | Some t \<Rightarrow> (if TagName t \<noteq> [] then '':'' @ TagName t else []) @
                  (if TagDigest t \<noteq> [] then ''@'' @ TagDigest t else []))"

lemma GetFullNameWithTag_suffix:
  "GetFullNameWithTag img = GetFullNameWithoutTag img @ tag_suffix (ImageTag img)"
  by (simp add: GetFullNameWithTag_def GetFullNameWithoutTag_def tag_suffix_def split: option.splits)

lemma plain_suffix_chars:
  assumes "case t of None \<Rightarrow> True | Some t \<Rightarrow> plain_tag t"
  shows "CHR ''='' \<notin> set (tag_suffix t)" "CHR ''/'' \<notin> set (tag_suffix t)"
  using assms by (auto simp: tag_suffix_def plain_tag_def split: option.splits)

lemma Split_slash_suffix:
  assumes "CHR ''/'' \<notin> set sfx"
  shows "strings_Split (name @ sfx) CHR ''/'' =
    butlast (strings_Split name CHR ''/'') @ [last (strings_Split name CHR ''/'') @ sfx]"
  using assms
proof (induction name)
  case Nil
  then show ?case by (simp add: strings_Split_no_sep)
next
  case (Cons c name)
  then show ?case
    by (cases "strings_Split name CHR ''/''") (auto split: list.splits)
qed

text \<open>The tail of the fallback parser: the name and the tag of a string with no registry in front.\<close>

definition parse_name_tag :: "string \<Rightarrow> string \<times> ImageTag option" where
  "parse_name_tag s =
     (if strings_Contains s ''@'' then
        (let comp = strings_SplitN s CHR ''@'' 2;
             colonPos = strings_LastIndex (comp ! 0) CHR '':'';
             slashPos = strings_LastIndex (comp ! 0) CHR ''/''
         in if colonPos > slashPos
            then (take (nat colonPos) (comp ! 0),
                  Some (NewImageTag (drop (nat colonPos + 1) (comp ! 0)) 0 (comp ! 1)))
            else (comp ! 0, Some (NewImageTag [] 0 (comp ! 1))))
      else
        (let comp = strings_SplitN s CHR '':'' 2
         in if length comp \<noteq> 2 then (s, None)
            else (case getImageDigestFromTag (comp ! 1) of
                    (tagName, tagDigest) \<Rightarrow> (comp ! 0, Some (NewImageTag tagName 0 tagDigest)))))"

lemma getImageTagFromIdentifier_alt:
  "getImageTagFromIdentifier identifier =
     (let comp = strings_SplitN identifier CHR ''='' 2;
          imageString = (if length comp = 2 then comp ! 1 else identifier);
          parts = strings_Split imageString CHR ''/''
      in (if length comp = 2 then comp ! 0 else [],
          parse_name_tag (if length parts > 1 \<and> strings_Contains (parts ! 0) ''.''
                          then strings_Join (tl parts) ''/'' else imageString)))"
  unfolding getImageTagFromIdentifier_def parse_name_tag_def Let_def
  by (simp split: prod.splits)

lemma parse_name_tag_suffix:
  assumes "set name \<inter> set '':@'' = {}" "case t of None \<Rightarrow> True | Some t \<Rightarrow> plain_tag t"
  shows "parse_name_tag (name @ tag_suffix t) = (name, t)"
proof (cases t)
  case None
  then show ?thesis
    using assms by (auto simp: parse_name_tag_def tag_suffix_def strings_SplitN2_not_found)
next
  case (Some u)
  have u: "u = NewImageTag (TagName u) 0 (TagDigest u)" "TagName u \<noteq> [] \<or> TagDigest u \<noteq> []"
    "set (TagName u) \<inter> set ''=/:@'' = {}"
    using assms(2) Some by (auto simp: plain_tag_def)
  have name: "CHR ''@'' \<notin> set name" "CHR '':'' \<notin> set name" using assms(1) by auto
  have tn: "CHR ''@'' \<notin> set (TagName u)" "CHR '':'' \<notin> set (TagName u)" "CHR ''/'' \<notin> set (TagName u)"
    using u(3) by auto
  consider (both) "TagName u \<noteq> []" "TagDigest u \<noteq> []" | (tag) "TagName u \<noteq> []" "TagDigest u = []"
    | (digest) "TagName u = []" "TagDigest u \<noteq> []" using u(2) by blast
  then show ?thesis
  proof cases
    case both
    let ?ref = "name @ CHR '':'' # TagName u"
    have s: "name @ tag_suffix t = ?ref @ CHR ''@'' # TagDigest u"
      using both Some by (simp add: tag_suffix_def)
    have split: "strings_SplitN (?ref @ CHR ''@'' # TagDigest u) CHR ''@'' 2 = [?ref, TagDigest u]"
      by (rule strings_SplitN2_found) (use name tn in auto)
    have col: "strings_LastIndex ?ref CHR '':'' = int (length name)"
      using tn by (intro strings_LastIndex_last) auto
    have "strings_LastIndex ?ref CHR ''/'' < int (length name)"
    proof (cases "CHR ''/'' \<in> set name")
      case True
      then obtain a b where ab: "name = a @ CHR ''/'' # b" "CHR ''/'' \<notin> set b"
        by (metis split_list_last)
      then have "strings_LastIndex ?ref CHR ''/'' = int (length a)"
        using strings_LastIndex_last [of "CHR ''/''" "b @ CHR '':'' # TagName u" a] tn by simp
      then show ?thesis using ab by simp
    next
      case False
      then have "strings_LastIndex ?ref CHR ''/'' = -1" using tn by (intro strings_LastIndex_absent) auto
      then show ?thesis by simp
    qed
    then show ?thesis using u(1) Some col
      unfolding parse_name_tag_def Let_def s split by (simp add: split)
  next
    case tag
    have s: "name @ tag_suffix t = name @ CHR '':'' # TagName u" using tag Some by (simp add: tag_suffix_def)
    have "getImageDigestFromTag (TagName u) = (TagName u, [])"
      using tn by (simp add: getImageDigestFromTag_def strings_Split_no_sep)
    then show ?thesis using u(1) tag Some name tn
      unfolding parse_name_tag_def Let_def s by (simp add: strings_SplitN2_found)
  next
    case digest
    have s: "name @ tag_suffix t = name @ CHR ''@'' # TagDigest u" using digest Some by (simp add: tag_suffix_def)
    have "strings_LastIndex name CHR '':'' = -1" using name by (intro strings_LastIndex_absent)
    moreover have "-1 \<le> strings_LastIndex name CHR ''/''"
      by (induction name) (auto simp: Let_def)
    ultimately show ?thesis using u(1) digest Some name
      unfolding parse_name_tag_def Let_def s by (simp add: strings_SplitN2_found)
  qed
qed

lemma full_name_no_eq: "plain_image img \<Longrightarrow> CHR ''='' \<notin> set (GetFullNameWithTag img)"
  using plain_suffix_chars(1) [of "ImageTag img"]
  by (auto simp: GetFullNameWithTag_suffix GetFullNameWithoutTag_def plain_image_def split: if_splits)

lemma img_String_split:
  assumes "plain_image img"
  shows "strings_Contains (img_String img) ''='' \<longleftrightarrow> ImageAlias img \<noteq> []"
    and "ImageAlias img \<noteq> [] \<Longrightarrow>
      strings_SplitN (img_String img) CHR ''='' 2 = [ImageAlias img, GetFullNameWithTag img]"
    and "ImageAlias img \<noteq> [] \<Longrightarrow>
      strings_Split (img_String img) CHR ''='' = [ImageAlias img, GetFullNameWithTag img]"
    and "ImageAlias img = [] \<Longrightarrow> strings_SplitN (img_String img) CHR ''='' 2 = [GetFullNameWithTag img]"
    and "ImageAlias img = [] \<Longrightarrow> strings_Split (img_String img) CHR ''='' = [GetFullNameWithTag img]"
  using assms full_name_no_eq [OF assms] strings_SplitN2_found strings_SplitN2_not_found
  by (auto simp: img_String_def plain_image_def strings_Split_append strings_Split_no_sep)

lemma full_name_parts:
  assumes "plain_image img"
  defines "parts \<equiv> strings_Split (GetFullNameWithTag img) CHR ''/''"
  shows "RegistryURL img \<noteq> [] \<Longrightarrow> length parts > 1 \<and> parts ! 0 = RegistryURL img \<and>
      strings_Contains (parts ! 0) ''.'' \<and>
      strings_Join (tl parts) ''/'' = ImageName img @ tag_suffix (ImageTag img)"
    and "RegistryURL img = [] \<Longrightarrow> \<not> (length parts > 1 \<and> strings_Contains (parts ! 0) ''.'')"
proof -
  note sfx = plain_suffix_chars(2) [of "ImageTag img"]
  show "length parts > 1 \<and> parts ! 0 = RegistryURL img \<and> strings_Contains (parts ! 0) ''.'' \<and>
      strings_Join (tl parts) ''/'' = ImageName img @ tag_suffix (ImageTag img)" if "RegistryURL img \<noteq> []"
  proof -
    have "parts = RegistryURL img # strings_Split (ImageName img @ tag_suffix (ImageTag img)) CHR ''/''"
      unfolding parts_def GetFullNameWithTag_suffix GetFullNameWithoutTag_def
      using assms(1) that by (auto simp: plain_image_def strings_Split_append)
    then show ?thesis using assms(1) that by (auto simp: plain_image_def Suc_lessI)
  qed
  show "\<not> (length parts > 1 \<and> strings_Contains (parts ! 0) ''.'')" if "RegistryURL img = []"
  proof -
    have "parts = butlast (strings_Split (ImageName img) CHR ''/'') @
        [last (strings_Split (ImageName img) CHR ''/'') @ tag_suffix (ImageTag img)]"
      unfolding parts_def GetFullNameWithTag_suffix GetFullNameWithoutTag_def
      using assms(1) that sfx by (auto simp: plain_image_def Split_slash_suffix)
    moreover have "\<not> HasRegistryPrefix (ImageName img)" using assms(1) that by (simp add: plain_image_def)
    ultimately show ?thesis
      by (auto simp: HasRegistryPrefix_def Let_def nth_append nth_butlast split: if_splits)
  qed
qed

lemma legacy_parse_String:
  assumes "plain_image img"
  shows "getRegistryFromIdentifier (img_String img) = RegistryURL img"
    and "getImageTagFromIdentifier (img_String img) = (ImageAlias img, ImageName img, ImageTag img)"
proof -
  note parts = full_name_parts [OF assms] and spl = img_String_split [OF assms]
  have name: "parse_name_tag (ImageName img @ tag_suffix (ImageTag img)) = (ImageName img, ImageTag img)"
    using assms by (intro parse_name_tag_suffix) (auto simp: plain_image_def)
  have whole: "img_String img = GetFullNameWithTag img" if "ImageAlias img = []"
    using that by (simp add: img_String_def)
  have empty: "GetFullNameWithTag img = ImageName img @ tag_suffix (ImageTag img)" if "RegistryURL img = []"
    using that by (simp add: GetFullNameWithTag_suffix GetFullNameWithoutTag_def)
  show "getRegistryFromIdentifier (img_String img) = RegistryURL img"
    using parts spl whole
    by (cases "ImageAlias img = []"; cases "RegistryURL img = []")
      (auto simp: getRegistryFromIdentifier_def Let_def)
  show "getImageTagFromIdentifier (img_String img) = (ImageAlias img, ImageName img, ImageTag img)"
    using parts spl whole empty name
    by (cases "ImageAlias img = []"; cases "RegistryURL img = []")
      (auto simp: getImageTagFromIdentifier_alt Let_def)
qed

text \<open>
  Printing and parsing are inverse on the fallback path: when the reference library rejects
  the printed name, the image read back from \<open>String\<close> has the registry, name, tag, digest and alias
  it was printed from.
\<close>

theorem identifier_roundtrip:
  assumes "plain_image img" "pn (GetFullNameWithTag img) = None"
  shows "NewFromIdentifier pn (img_String img) =
    ContainerImage (RegistryURL img) (ImageName img) (ImageTag img) (ImageAlias img) None (img_String img)"
proof -
  have "(if strings_Contains (img_String img) ''='' then strings_SplitN (img_String img) CHR ''='' 2 ! 1
      else img_String img) = GetFullNameWithTag img"
    using img_String_split [OF assms(1)] by (auto simp: img_String_def)
  then show ?thesis
    unfolding NewFromIdentifier_def Let_def using assms(2) legacy_parse_String [OF assms(1)] by simp
qed

theorem identifier_roundtrip_witness:
  "NewFromIdentifier (\<lambda>_. None)
     (img_String (ContainerImage ''gcr.io'' ''jannfis/test-image''
        (Some (NewImageTag ''0.1'' 0 ''sha256:abcde'')) ''app'' None [])) =
   ContainerImage ''gcr.io'' ''jannfis/test-image'' (Some (NewImageTag ''0.1'' 0 ''sha256:abcde''))
     ''app'' None ''app=gcr.io/jannfis/test-image:0.1@sha256:abcde''"
proof -
  let ?img = "ContainerImage ''gcr.io'' ''jannfis/test-image''
    (Some (NewImageTag ''0.1'' 0 ''sha256:abcde'')) ''app'' None []"
  have "plain_image ?img"
    by (simp add: plain_image_def plain_tag_def strings_HasPrefix_def)
  moreover have "img_String ?img = ''app=gcr.io/jannfis/test-image:0.1@sha256:abcde''"
    by (simp add: img_String_def GetFullNameWithTag_def strings_HasPrefix_def)
  ultimately show ?thesis using identifier_roundtrip [of ?img "\<lambda>_. None"] by simp
qed

text \<open>
  \<open>MatchForDigestUpdate\<close> implements the selection rule of its comment: among the live images
  with the same name and registry, the first with the tracked tag and a stale digest; else the first
  with the tracked tag; else the first with a stale digest; else none.
\<close>

theorem MatchForDigestUpdate_spec: "MatchForDigestUpdate l img d = digest_match_spec l img d"
  unfolding MatchForDigestUpdate_def digest_match_spec_def
  by (subst match_loop_spec) (auto simp: option.map_ident split: option.splits)

end
