(* ===== verification/Paths.thy ===== *)
theory Paths
  imports Prelude
begin

text \<open>
  The functions of Go's \<open>path/filepath\<close> that the sources call, on a Unix system: \<open>Clean\<close>, \<open>Join\<close>,
  \<open>Base\<close> and \<open>Ext\<close>, on lists of path elements.
\<close>

text \<open>One element of \<open>Clean\<close>: the stack of elements kept so far is reversed.\<close>

definition clean_step :: "bool \<Rightarrow> string \<Rightarrow> string list \<Rightarrow> string list" where
  "clean_step rooted e stack =
     (if e = [] \<or> e = ''.'' then stack
      else if e = ''..'' then
        (case stack of
           [] \<Rightarrow> if rooted then [] else [''..'']
         | t # ts \<Rightarrow> if t = ''..'' then ''..'' # stack else ts)
      else e # stack)"

definition clean_elems :: "bool \<Rightarrow> string list \<Rightarrow> string list" where
  "clean_elems rooted es = rev (fold (clean_step rooted) es [])"

definition is_rooted :: "string \<Rightarrow> bool" where
  "is_rooted p = (case p of [] \<Rightarrow> False | c # _ \<Rightarrow> c = CHR ''/'')"

definition filepath_Clean :: "string \<Rightarrow> string" where
  "filepath_Clean p =
     (let es = clean_elems (is_rooted p) (strings_Split p CHR ''/'')
      in if is_rooted p then CHR ''/'' # strings_Join es ''/''
         else if es = [] then ''.'' else strings_Join es ''/'')"

definition filepath_Join :: "string list \<Rightarrow> string" where
  "filepath_Join elems =
     (let es = dropWhile (\<lambda>e. e = []) elems
      in if es = [] then [] else filepath_Clean (strings_Join es ''/''))"

definition filepath_Base :: "string \<Rightarrow> string" where
  "filepath_Base p =
     (if p = [] then ''.''
      else
        (let q = rev (dropWhile (\<lambda>c. c = CHR ''/'') (rev p));
             b = rev (takeWhile (\<lambda>c. c \<noteq> CHR ''/'') (rev q))
         in if b = [] then ''/'' else b))"

text \<open>\<open>filepath.Ext\<close>: from the last dot of the last element on, empty when it has none.\<close>

definition filepath_Ext :: "string \<Rightarrow> string" where
  "filepath_Ext p =
     (let b = rev (takeWhile (\<lambda>c. c \<noteq> CHR ''/'') (rev p));
          e = rev (takeWhile (\<lambda>c. c \<noteq> CHR ''.'') (rev b))
      in if CHR ''.'' \<in> set b then CHR ''.'' # e else [])"

section \<open>Cleaned paths\<close>

text \<open>The elements of a clean path: no empty element, no dot, and dot-dots only in front.\<close>

definition clean_stack :: "bool \<Rightarrow> string list \<Rightarrow> bool" where
  "clean_stack rooted st =
     (\<exists>xs n. st = xs @ replicate n ''..'' \<and> (rooted \<longrightarrow> n = 0) \<and>
        (\<forall>x \<in> set xs. x \<noteq> [] \<and> x \<noteq> ''.'' \<and> x \<noteq> ''..''))"

lemma clean_stack_step: "clean_stack rooted st \<Longrightarrow> clean_stack rooted (clean_step rooted e st)"
proof -
  assume "clean_stack rooted st"
  then obtain xs n where st: "st = xs @ replicate n ''..''" "rooted \<longrightarrow> n = 0"
    "\<forall>x \<in> set xs. x \<noteq> [] \<and> x \<noteq> ''.'' \<and> x \<noteq> ''..''"
    by (auto simp: clean_stack_def)
  consider (skip) "e = [] \<or> e = ''.''" | (up) "e = ''..''" | (elem) "e \<noteq> []" "e \<noteq> ''.''" "e \<noteq> ''..''"
    by blast
  then show ?thesis
  proof cases
    case skip
    then show ?thesis using st by (auto simp: clean_step_def clean_stack_def)
  next
    case up
    show ?thesis
    proof (cases xs)
      case Nil
      have "clean_step rooted e st = (if rooted then [] else replicate (Suc n) ''..'')"
        using st up Nil by (cases n) (auto simp: clean_step_def)
      then show ?thesis unfolding clean_stack_def
        by (intro exI [of _ "[]"] exI [of _ "if rooted then 0 else Suc n"]) auto
    next
      case (Cons y ys)
      then have "clean_step rooted e st = ys @ replicate n ''..''" using st up by (simp add: clean_step_def)
      then show ?thesis using st Cons unfolding clean_stack_def by auto
    qed
  next
    case elem
    then have "clean_step rooted e st = (e # xs) @ replicate n ''..''" using st by (simp add: clean_step_def)
    then show ?thesis using st elem unfolding clean_stack_def
      by (intro exI [of _ "e # xs"] exI [of _ n]) auto
  qed
qed

lemma clean_stack_fold: "clean_stack rooted st \<Longrightarrow> clean_stack rooted (fold (clean_step rooted) es st)"
  by (induction es arbitrary: st) (auto simp: clean_stack_step)

lemma clean_elems_rooted:
  assumes "e \<in> set (clean_elems True es)"
  shows "e \<noteq> [] \<and> e \<noteq> ''.'' \<and> e \<noteq> ''..''"
proof -
  have "clean_stack True (fold (clean_step True) es [])"
    by (rule clean_stack_fold) (auto simp: clean_stack_def)
  then show ?thesis using assms by (auto simp: clean_elems_def clean_stack_def)
qed

lemma set_clean_step: "set (clean_step rooted e st) \<subseteq> insert ''..'' (insert e (set st))"
  by (auto simp: clean_step_def split: list.splits if_splits)

lemma set_clean_elems: "set (clean_elems rooted es) \<subseteq> insert ''..'' (set es)"
proof -
  have "set (fold (clean_step rooted) es st) \<subseteq> insert ''..'' (set es \<union> set st)" for st
  proof (induction es arbitrary: st)
    case (Cons e es)
    then show ?case using set_clean_step [of rooted e st] by fastforce
  qed auto
  then show ?thesis unfolding clean_elems_def by fastforce
qed

text \<open>A cleaned absolute path is a slash followed by elements none of which climbs.\<close>

lemma filepath_Clean_rooted:
  assumes "is_rooted p"
  shows "is_rooted (filepath_Clean p)" "''..'' \<notin> set (strings_Split (filepath_Clean p) CHR ''/'')"
proof -
  let ?es = "clean_elems True (strings_Split p CHR ''/'')"
  have eq: "filepath_Clean p = CHR ''/'' # strings_Join ?es ''/''"
    using assms by (simp add: filepath_Clean_def)
  then show "is_rooted (filepath_Clean p)" by (simp add: is_rooted_def)
  have "\<forall>e \<in> set ?es. CHR ''/'' \<notin> set e"
    using set_clean_elems [of True "strings_Split p CHR ''/''"] strings_Split_parts [of _ p "CHR ''/''"] by auto
  then have "?es \<noteq> [] \<Longrightarrow> strings_Split (strings_Join ?es ''/'') CHR ''/'' = ?es"
    by (intro strings_Split_Join) auto
  then show "''..'' \<notin> set (strings_Split (filepath_Clean p) CHR ''/'')"
    unfolding eq using clean_elems_rooted by (cases "?es = []") auto
qed

lemma filepath_Join_rooted:
  assumes "es \<noteq> []" "is_rooted (hd es)"
  shows "is_rooted (filepath_Join es) \<and> ''..'' \<notin> set (strings_Split (filepath_Join es) CHR ''/'')"
proof -
  obtain p ps where es: "es = p # ps" "p \<noteq> []" using assms by (cases es) (auto simp: is_rooted_def split: list.splits)
  then have "is_rooted (strings_Join es ''/'')"
    using assms by (cases ps; cases p) (auto simp: is_rooted_def)
  then show ?thesis using es filepath_Clean_rooted by (simp add: filepath_Join_def)
qed

end
