(* ===== verification/Endpoints.thy ===== *)
theory Endpoints
  imports TagCache Images Paths
begin

text \<open>
  Registry endpoints (\<open>registry-scanner/pkg/registry/endpoints.go\<close>) and their configuration
  (\<open>config.go\<close>).  An endpoint is a heap object: the map \<open>registries\<close>, the variable \<open>defaultRegistry\<close> and
  the table \<open>registryTweaks\<close> hold references, which are indices into the list of endpoints, so that an
  assignment through one reference is seen through the others.  A \<open>CertPool\<close> is the list of PEM bundles
  appended to it.  The rate limiter is represented by its rate, durations and instants are integers of
  nanoseconds, and the locks are left out.
\<close>

section \<open>Data\<close>

datatype TagListSort =
  TagListSortUnknown | TagListSortUnsorted | TagListSortLatestFirst | TagListSortLatestLast

definition IsTimeSorted :: "TagListSort \<Rightarrow> bool" where
  "IsTimeSorted tls = (tls = TagListSortLatestFirst \<or> tls = TagListSortLatestLast)"

definition TagListSortFromString :: "string \<Rightarrow> TagListSort" where
  "TagListSortFromString tls =
     (let s = strings_ToLower tls
      in if s = ''latest-first'' then TagListSortLatestFirst
         else if s = ''latest-last'' then TagListSortLatestLast
         else if s = ''none'' \<or> s = [] then TagListSortUnsorted
         else TagListSortUnknown)"

fun tls_String :: "TagListSort \<Rightarrow> string" where
  "tls_String TagListSortLatestFirst = ''latest-first''"
| "tls_String TagListSortLatestLast = ''latest-last''"
| "tls_String TagListSortUnsorted = ''unsorted''"
| "tls_String TagListSortUnknown = ''unknown''"

definition RateLimitNone :: int where
  "RateLimitNone = 2147483647"

definition RateLimitDefault :: int where
  "RateLimitDefault = 10"

text \<open>The zero value of \<open>time.Time\<close>: the first of January of year 1.\<close>

definition zero_time :: instant where
  "zero_time = - (62135596800 * 1000000000)"

record 's RegistryEndpoint =
  RegistryName :: string
  RegistryPrefix :: string
  RegistryAPI :: string
  EpUsername :: string
  EpPassword :: string
  Ping :: bool
  EpCredentials :: string
  Insecure :: bool
  CAFile :: string
  CAData :: string
  DefaultNS :: string
  CredsExpire :: int
  CredsUpdated :: instant
  EpTagListSort :: TagListSort
  Cache :: 's
  Limiter :: int
  IsDefault :: bool
  limit :: int
  rootCAs :: "string list option"

record transport =
  RootCAs :: "string list option"
  InsecureSkipVerify :: bool
  MaxIdleConns :: int
  MaxIdleConnsPerHost :: int

record ('s, 't) reg_state =
  eps :: "'s RegistryEndpoint list"
  registries :: "(string, nat) gomap"
  defaultRegistry :: "nat option"
  registryTweaks :: "(string, nat) gomap"
  transportCache :: 't

definition deref :: "('s, 't) reg_state \<Rightarrow> nat \<Rightarrow> 's RegistryEndpoint" where
  "deref st r = eps st ! r"

definition alloc :: "'s RegistryEndpoint \<Rightarrow> ('s, 't) reg_state \<Rightarrow> nat \<times> ('s, 't) reg_state" where
  "alloc ep st = (length (eps st), st\<lparr>eps := eps st @ [ep]\<rparr>)"

definition assign :: "nat \<Rightarrow> ('s RegistryEndpoint \<Rightarrow> 's RegistryEndpoint) \<Rightarrow> ('s, 't) reg_state \<Rightarrow> ('s, 't) reg_state" where
  "assign r f st = st\<lparr>eps := (eps st)[r := f (eps st ! r)]\<rparr>"

section \<open>Operations\<close>

definition zero_endpoint :: "'s \<Rightarrow> 's RegistryEndpoint" where
  "zero_endpoint newCache =
     \<lparr>RegistryName = [], RegistryPrefix = [], RegistryAPI = [], EpUsername = [], EpPassword = [],
      Ping = False, EpCredentials = [], Insecure = False, CAFile = [], CAData = [], DefaultNS = [],
      CredsExpire = 0, CredsUpdated = zero_time, EpTagListSort = TagListSortUnsorted, Cache = newCache,
      Limiter = 0, IsDefault = False, limit = 0, rootCAs = None\<rparr>"

definition NewRegistryEndpoint ::
  "'s \<Rightarrow> string \<Rightarrow> string \<Rightarrow> string \<Rightarrow> string \<Rightarrow> string \<Rightarrow> bool \<Rightarrow> TagListSort \<Rightarrow> int \<Rightarrow> int \<Rightarrow> 's RegistryEndpoint"
where
  "NewRegistryEndpoint newCache prfx name apiUrl creds defaultNS insecure tagListSort lim credsExpire =
     (let lim = (if lim \<le> 0 then RateLimitNone else lim)
      in (zero_endpoint newCache)\<lparr>RegistryName := name, RegistryPrefix := prfx,
           RegistryAPI := strings_TrimSuffix apiUrl ''/'', EpCredentials := creds,
           CredsExpire := credsExpire, Insecure := insecure, DefaultNS := defaultNS,
           EpTagListSort := tagListSort, Limiter := lim, limit := lim\<rparr>)"

definition GetDefaultRegistry :: "('s, 't) reg_state \<Rightarrow> nat option" where
  "GetDefaultRegistry st = defaultRegistry st"

definition SetDefaultRegistry :: "nat \<Rightarrow> ('s, 't) reg_state \<Rightarrow> ('s, 't) reg_state" where
  "SetDefaultRegistry ep st =
     (let st = assign ep (IsDefault_update (\<lambda>_. True)) st;
          st = (case defaultRegistry st of
                  None \<Rightarrow> st
                | Some d \<Rightarrow> assign d (IsDefault_update (\<lambda>_. False)) st)
      in st\<lparr>defaultRegistry := Some ep\<rparr>)"

definition AddRegistryEndpoint :: "nat \<Rightarrow> ('s, 't) reg_state \<Rightarrow> ('s, 't) reg_state" where
  "AddRegistryEndpoint ep st =
     (let prfx = RegistryPrefix (deref st ep);
          st = (if IsDefault (deref st ep) then
                  SetDefaultRegistry ep
                    (case GetDefaultRegistry st of
                       None \<Rightarrow> st
                     | Some dep \<Rightarrow> assign dep (IsDefault_update (\<lambda>_. False)) st)
                else st)
      in st\<lparr>registries := gomap_put prfx ep (registries st)\<rparr>)"

definition inferRegistryEndpointFromPrefix :: "'s \<Rightarrow> string \<Rightarrow> 's RegistryEndpoint" where
  "inferRegistryEndpointFromPrefix newCache prfx =
     NewRegistryEndpoint newCache prfx prfx (''https://'' @ prfx) [] [] False TagListSortUnsorted 20 0"

text \<open>The loop over the registries; \<open>ep\<close> is the best match so far.\<close>

fun find_loop :: "('s, 't) reg_state \<Rightarrow> string \<Rightarrow> nat option \<Rightarrow> (string \<times> nat) list \<Rightarrow> nat option" where
  "find_loop st imgName ep [] = ep"
| "find_loop st imgName ep ((k, registry) # rs) =
     (let prfx = RegistryPrefix (deref st registry);
          matches = strings_HasPrefix imgName prfx;
          better = (case ep of
                      None \<Rightarrow> matches
                    | Some b \<Rightarrow> matches \<and> length prfx > length (RegistryPrefix (deref st b)))
      in find_loop st imgName (if better then Some registry else ep) rs)"

definition findRegistryEndpointByImage :: "('s, 't) reg_state \<Rightarrow> ContainerImage \<Rightarrow> nat option" where
  "findRegistryEndpointByImage st img =
     find_loop st (RegistryURL img @ ''/'' @ ImageName img) None (registries st)"

datatype endpoint_error = NoDefaultEndpoint

definition GetRegistryEndpoint ::
  "'s \<Rightarrow> ContainerImage \<Rightarrow> ('s, 't) reg_state \<Rightarrow> ('s, 't) reg_state \<times> (endpoint_error + nat)" where
  "GetRegistryEndpoint newCache img st =
     (let prfx = RegistryURL img
      in if prfx = [] then
           (st, (case defaultRegistry st of None \<Rightarrow> Inl NoDefaultEndpoint | Some d \<Rightarrow> Inr d))
         else
           (case map_of (registries st) prfx of
              Some registry \<Rightarrow> (st, Inr registry)
            | None \<Rightarrow>
                (case findRegistryEndpointByImage st img of
                   Some ep \<Rightarrow> (st, Inr ep)
                 | None \<Rightarrow>
                     (let (ep, st) = alloc (inferRegistryEndpointFromPrefix newCache prfx) st
                      in (AddRegistryEndpoint ep st, Inr ep)))))"

definition SetRegistryEndpointCredentials ::
  "'s \<Rightarrow> string \<Rightarrow> string \<Rightarrow> ('s, 't) reg_state \<Rightarrow> ('s, 't) reg_state \<times> endpoint_error option" where
  "SetRegistryEndpointCredentials newCache prfx creds st =
     (case GetRegistryEndpoint newCache (ContainerImage prfx [] None [] None []) st of
        (st, Inl err) \<Rightarrow> (st, Some err)
      | (st, Inr registry) \<Rightarrow> (assign registry (EpCredentials_update (\<lambda>_. creds)) st, None))"

definition ConfiguredEndpoints :: "('s, 't) reg_state \<Rightarrow> string list" where
  "ConfiguredEndpoints st = map (\<lambda>(_, v). RegistryPrefix (deref st v)) (registries st)"

definition ep_DeepCopy :: "'s \<Rightarrow> 's RegistryEndpoint \<Rightarrow> 's RegistryEndpoint" where
  "ep_DeepCopy newCache ep =
     (zero_endpoint newCache)\<lparr>RegistryAPI := RegistryAPI ep, RegistryName := RegistryName ep,
        RegistryPrefix := RegistryPrefix ep, EpCredentials := EpCredentials ep, Ping := Ping ep,
        EpTagListSort := EpTagListSort ep, Insecure := Insecure ep, CAFile := CAFile ep,
        CAData := CAData ep, DefaultNS := DefaultNS ep, Limiter := Limiter ep,
        CredsExpire := CredsExpire ep, CredsUpdated := CredsUpdated ep, IsDefault := IsDefault ep,
        limit := limit ep, rootCAs := rootCAs ep\<rparr>"

text \<open>The package's variables before \<open>init\<close>: the table of tweaks and its one object.\<close>

definition dockerio_tweak :: "'s \<Rightarrow> 's RegistryEndpoint" where
  "dockerio_tweak newCache =
     (zero_endpoint newCache)\<lparr>RegistryName := ''Docker Hub'', RegistryPrefix := ''docker.io'',
        RegistryAPI := ''https://registry-1.docker.io'', Ping := True, Insecure := False,
        DefaultNS := ''library'', Limiter := RateLimitDefault, IsDefault := True\<rparr>"

definition package_vars :: "('t, transport) gocache_lib \<Rightarrow> 's \<Rightarrow> ('s, 't) reg_state" where
  "package_vars tlib newCache =
     \<lparr>eps = [dockerio_tweak newCache], registries = [], defaultRegistry = None,
      registryTweaks = [(''docker.io'', 0)], transportCache = gc_New tlib\<rparr>"

fun init_loop :: "'s \<Rightarrow> (string \<times> nat) list \<Rightarrow> ('s, 't) reg_state \<Rightarrow> ('s, 't) reg_state go" where
  "init_loop newCache [] st = Ret st"
| "init_loop newCache ((k, v) # tweaks) st =
     (let (c, st) = alloc (ep_DeepCopy newCache (deref st v)) st;
          st = st\<lparr>registries := gomap_put k c (registries st)\<rparr>
      in if IsDefault (deref st v) then
           (if defaultRegistry st = None
            then init_loop newCache tweaks (st\<lparr>defaultRegistry := Some v\<rparr>)
            else Panic)
         else init_loop newCache tweaks st)"

definition registry_init :: "('t, transport) gocache_lib \<Rightarrow> 's \<Rightarrow> ('s, 't) reg_state go" where
  "registry_init tlib newCache =
     init_loop newCache (registryTweaks (package_vars tlib newCache)) (package_vars tlib newCache)"

section \<open>Transports\<close>

definition isTransportValid :: "transport option \<Rightarrow> bool" where
  "isTransportValid tr =
     (case tr of
        None \<Rightarrow> False
      | Some t \<Rightarrow> \<not> (MaxIdleConns t < 0 \<or> MaxIdleConnsPerHost t < 0))"

definition transportCacheKey :: "(string \<Rightarrow> char list) \<Rightarrow> 's RegistryEndpoint \<Rightarrow> string" where
  "transportCacheKey sha256_Sum256 ep =
     RegistryAPI ep @ CHR 0x00 # RegistryPrefix ep @ CHR 0x00 # CAFile ep @ CHR 0x00 #
     (if Insecure ep then ''true'' else ''false'') @ CHR 0x00 #
     hex_EncodeToString (sha256_Sum256 (CAData ep))"

text \<open>The transport itself is built from the endpoint; its timeouts are constants that are left out.\<close>

definition GetTransport ::
  "('t, transport) gocache_lib \<Rightarrow> (string \<Rightarrow> char list) \<Rightarrow> 's RegistryEndpoint \<Rightarrow> 't \<Rightarrow> 't \<times> transport" where
  "GetTransport lib sha256_Sum256 ep tc =
     (let cacheKey = transportCacheKey sha256_Sum256 ep;
          new = \<lparr>RootCAs = rootCAs ep, InsecureSkipVerify = Insecure ep,
                 MaxIdleConns = 20, MaxIdleConnsPerHost = 5\<rparr>
      in case gc_Get lib tc cacheKey of
           Some tr \<Rightarrow>
             (if isTransportValid (Some tr) then (tc, tr)
              else (gc_Set lib (gc_Delete lib tc cacheKey) cacheKey new, new))
         | None \<Rightarrow> (gc_Set lib tc cacheKey new, new))"

definition ClearTransportCache :: "('t, transport) gocache_lib \<Rightarrow> ('s, 't) reg_state \<Rightarrow> ('s, 't) reg_state" where
  "ClearTransportCache lib st = st\<lparr>transportCache := gc_Flush lib (transportCache st)\<rparr>"

section \<open>Configuration\<close>

record RegistryConfiguration =
  cfg_Name :: string
  cfg_ApiURL :: string
  cfg_Ping :: bool
  cfg_Credentials :: string
  cfg_CredsExpire :: int
  cfg_TagSortMode :: string
  cfg_Prefix :: string
  cfg_Insecure :: bool
  cfg_CAFile :: string
  cfg_CAData :: string
  cfg_DefaultNS :: string
  cfg_Limit :: int
  cfg_IsDefault :: bool

datatype config_error =
  ConfigUnreadable string
| ConfigYaml string
| RegistryNameMissing
| ApiURLMissing string
| NeedsPrefix string string
| UnknownTagSortMode string string
| CADataNotPEM
| CAFileUnreadable string
| CAFileNotPEM string
| ConfigureCA string config_error
| TwoDefaults string string

text \<open>What the configuration code reads from its surroundings.\<close>

record config_env =
  url_Hostname :: "string \<Rightarrow> string option"
  file_exists :: "string \<Rightarrow> bool"
  os_ReadFile :: "string \<Rightarrow> string option"
  systemCertPool :: "string list option"
  is_PEM :: "string \<Rightarrow> bool"
  yaml_UnmarshalStrict :: "string \<Rightarrow> string + RegistryConfiguration list"

definition argoCDTLSCertsPath :: string where
  "argoCDTLSCertsPath = ''/app/config/tls''"

definition discoverArgoCDCAFile :: "config_env \<Rightarrow> string \<Rightarrow> string" where
  "discoverArgoCDCAFile env apiURL =
     (case url_Hostname env apiURL of
        None \<Rightarrow> []
      | Some host \<Rightarrow>
          (if host = [] then []
           else
             (let caFile = filepath_Join [argoCDTLSCertsPath, host]
              in if \<not> file_exists env caFile then [] else caFile)))"

definition loadRootCAs :: "config_env \<Rightarrow> string \<Rightarrow> string \<Rightarrow> config_error + string list option" where
  "loadRootCAs env caFile caData =
     (if caFile = [] \<and> caData = [] then Inr None
      else
        (let pool = (case systemCertPool env of None \<Rightarrow> [] | Some p \<Rightarrow> p)
         in if caData \<noteq> [] \<and> \<not> is_PEM env caData then Inl CADataNotPEM
            else
              (let pool = (if caData \<noteq> [] then pool @ [caData] else pool)
               in if caFile \<noteq> [] then
                    (case os_ReadFile env caFile of
                       None \<Rightarrow> Inl (CAFileUnreadable caFile)
                     | Some certificates \<Rightarrow>
                         (if \<not> is_PEM env certificates then Inl (CAFileNotPEM caFile)
                          else Inr (Some (pool @ [certificates]))))
                  else Inr (Some pool))))"

definition newRegistryEndpointFromConfig ::
  "config_env \<Rightarrow> 's \<Rightarrow> RegistryConfiguration \<Rightarrow> config_error + 's RegistryEndpoint" where
  "newRegistryEndpointFromConfig env newCache config =
     (let endpoint = NewRegistryEndpoint newCache (cfg_Prefix config) (cfg_Name config) (cfg_ApiURL config)
            (cfg_Credentials config) (cfg_DefaultNS config) (cfg_Insecure config)
            (TagListSortFromString (cfg_TagSortMode config)) (cfg_Limit config) (cfg_CredsExpire config);
          endpoint = endpoint\<lparr>CAFile := cfg_CAFile config, CAData := cfg_CAData config\<rparr>
      in if cfg_Insecure config then Inr endpoint
         else
           (let caFile = (if cfg_CAFile config = [] then discoverArgoCDCAFile env (cfg_ApiURL config)
                          else cfg_CAFile config)
            in case loadRootCAs env caFile (cfg_CAData config) of
                 Inl err \<Rightarrow> Inl (ConfigureCA (cfg_Name config) err)
               | Inr pool \<Rightarrow> Inr (endpoint\<lparr>CAFile := caFile, rootCAs := pool\<rparr>)))"

definition AddRegistryEndpointFromConfig ::
  "config_env \<Rightarrow> 's \<Rightarrow> RegistryConfiguration \<Rightarrow> ('s, 't) reg_state \<Rightarrow> ('s, 't) reg_state \<times> config_error option" where
  "AddRegistryEndpointFromConfig env newCache epc st =
     (case newRegistryEndpointFromConfig env newCache epc of
        Inl err \<Rightarrow> (st, Some err)
      | Inr ep \<Rightarrow> (let (r, st) = alloc ep st in (AddRegistryEndpoint r st, None)))"

definition clearRegistries :: "('t, transport) gocache_lib \<Rightarrow> ('s, 't) reg_state \<Rightarrow> ('s, 't) reg_state" where
  "clearRegistries tlib st = ClearTransportCache tlib (st\<lparr>registries := []\<rparr>)"

text \<open>The validation loop; \<open>err\<close> is the last error found, which later entries never reset.\<close>

fun validate_loop ::
  "string \<Rightarrow> config_error option \<Rightarrow> RegistryConfiguration list \<Rightarrow> config_error option" where
  "validate_loop defaultPrefixFound err [] = err"
| "validate_loop defaultPrefixFound err (registry # rest) =
     (let (err, found) =
            (if cfg_Name registry = [] then (Some RegistryNameMissing, defaultPrefixFound)
             else if cfg_ApiURL registry = [] then (Some (ApiURLMissing (cfg_Name registry)), defaultPrefixFound)
             else if cfg_Prefix registry = [] then
               (if defaultPrefixFound \<noteq> []
                then (Some (NeedsPrefix defaultPrefixFound (cfg_Name registry)), defaultPrefixFound)
                else (err, cfg_Name registry))
             else (err, defaultPrefixFound));
          err = (if err = None \<and> TagListSortFromString (cfg_TagSortMode registry) = TagListSortUnknown
                 then Some (UnknownTagSortMode (cfg_Name registry) (cfg_TagSortMode registry)) else err)
      in validate_loop found err rest)"

definition ParseRegistryConfiguration ::
  "config_env \<Rightarrow> string \<Rightarrow> config_error + RegistryConfiguration list" where
  "ParseRegistryConfiguration env yamlSource =
     (case yaml_UnmarshalStrict env yamlSource of
        Inl err \<Rightarrow> Inl (ConfigYaml err)
      | Inr regList \<Rightarrow>
          (case validate_loop [] None regList of
             Some err \<Rightarrow> Inl err
           | None \<Rightarrow> Inr regList))"

fun load_loop ::
  "config_env \<Rightarrow> 's \<Rightarrow> bool \<Rightarrow> RegistryConfiguration list \<Rightarrow> ('s, 't) reg_state \<Rightarrow> (('s, 't) reg_state \<times> config_error option) go"
where
  "load_loop env newCache haveDefault [] st = Ret (st, None)"
| "load_loop env newCache haveDefault (reg # rest) st =
     (case newRegistryEndpointFromConfig env newCache reg of
        Inl err \<Rightarrow> Ret (st, Some err)
      | Inr ep \<Rightarrow>
          (let (r, st) = alloc ep st
           in if cfg_IsDefault reg \<and> haveDefault then
                (case GetDefaultRegistry st of
                   None \<Rightarrow> Panic
                 | Some dep \<Rightarrow>
                     Ret (st, Some (TwoDefaults (RegistryPrefix (deref st r)) (RegistryPrefix (deref st dep)))))
              else
                (let st = AddRegistryEndpoint r st
                 in if cfg_IsDefault reg
                    then load_loop env newCache True rest (SetDefaultRegistry r st)
                    else load_loop env newCache haveDefault rest st)))"

definition LoadRegistryConfiguration ::
  "('t, transport) gocache_lib \<Rightarrow> config_env \<Rightarrow> 's \<Rightarrow> string \<Rightarrow> bool \<Rightarrow> ('s, 't) reg_state \<Rightarrow> (('s, 't) reg_state \<times> config_error option) go" where
  "LoadRegistryConfiguration tlib env newCache path clear st =
     (case os_ReadFile env path of
        None \<Rightarrow> Ret (st, Some (ConfigUnreadable path))
      | Some registryBytes \<Rightarrow>
          (case ParseRegistryConfiguration env registryBytes of
             Inl err \<Rightarrow> Ret (st, Some err)
           | Inr registryList \<Rightarrow>
               load_loop env newCache False registryList (if clear then clearRegistries tlib st else st)))"

fun restore_loop :: "'s \<Rightarrow> (string \<times> nat) list \<Rightarrow> ('s, 't) reg_state \<Rightarrow> ('s, 't) reg_state" where
  "restore_loop newCache [] st = st"
| "restore_loop newCache ((k, v) # tweaks) st =
     (let (c, st) = alloc (ep_DeepCopy newCache (deref st v)) st;
          st = st\<lparr>registries := gomap_put k c (registries st)\<rparr>
      in restore_loop newCache tweaks (if IsDefault (deref st v) then SetDefaultRegistry c st else st))"

definition RestoreDefaultRegistryConfiguration :: "'s \<Rightarrow> ('s, 't) reg_state \<Rightarrow> ('s, 't) reg_state" where
  "RestoreDefaultRegistryConfiguration newCache st =
     restore_loop newCache (registryTweaks st) (st\<lparr>defaultRegistry := None, registries := []\<rparr>)"

section \<open>References stay valid\<close>

definition reg_wf :: "('s, 't) reg_state \<Rightarrow> bool" where
  "reg_wf st =
     (gomap_wf (registries st) \<and>
      (\<forall>(k, r) \<in> set (registries st). r < length (eps st) \<and> RegistryPrefix (deref st r) = k) \<and>
      (\<forall>d. defaultRegistry st = Some d \<longrightarrow> d < length (eps st)) \<and>
      (\<forall>(k, r) \<in> set (registryTweaks st). r < length (eps st) \<and> RegistryPrefix (deref st r) = k))"

text \<open>An endpoint up to its default flag, and what no operation of the configuration changes.\<close>

definition strip :: "'s RegistryEndpoint \<Rightarrow> 's RegistryEndpoint" where
  "strip ep = ep\<lparr>IsDefault := False\<rparr>"

definition heap_ext :: "('s, 't) reg_state \<Rightarrow> ('s, 't) reg_state \<Rightarrow> bool" where
  "heap_ext st st' =
     (length (eps st) \<le> length (eps st') \<and> registryTweaks st' = registryTweaks st \<and>
      (\<forall>r < length (eps st). strip (deref st' r) = strip (deref st r)))"

lemma strip_fields [simp]:
  "RegistryPrefix (strip ep) = RegistryPrefix ep" "RegistryAPI (strip ep) = RegistryAPI ep"
  "strip (ep\<lparr>IsDefault := b\<rparr>) = strip ep" "strip (IsDefault_update f ep) = strip ep"
  by (simp_all add: strip_def)

lemma strip_prefix: "strip a = strip b \<Longrightarrow> RegistryPrefix a = RegistryPrefix b"
  by (metis strip_fields(1))

lemma heap_ext_refl [simp]: "heap_ext st st"
  by (simp add: heap_ext_def)

lemma heap_ext_trans: "heap_ext a b \<Longrightarrow> heap_ext b c \<Longrightarrow> heap_ext a c"
  by (fastforce simp: heap_ext_def)

lemma heap_ext_alloc: "heap_ext st (snd (alloc ep st))"
  by (auto simp: heap_ext_def alloc_def deref_def nth_append)

lemma assign_simps [simp]:
  "registries (assign r f st) = registries st" "defaultRegistry (assign r f st) = defaultRegistry st"
  "registryTweaks (assign r f st) = registryTweaks st" "length (eps (assign r f st)) = length (eps st)"
  by (simp_all add: assign_def)

lemma deref_assign:
  "deref (assign r f st) q = (if q = r \<and> r < length (eps st) then f (deref st r) else deref st q)"
  by (cases "r < length (eps st)") (auto simp: deref_def assign_def nth_list_update list_update_beyond)

lemma deref_registries [simp]:
  "deref (st\<lparr>registries := m\<rparr>) r = deref st r" "deref (st\<lparr>defaultRegistry := d\<rparr>) r = deref st r"
  "deref (st\<lparr>transportCache := tc\<rparr>) r = deref st r"
  by (simp_all add: deref_def)

lemma heap_ext_flag: "heap_ext st (assign r (IsDefault_update g) st)"
  by (auto simp: heap_ext_def deref_assign)

lemma heap_ext_upd [simp]:
  "heap_ext st (st'\<lparr>registries := m\<rparr>) = heap_ext st st'" "heap_ext st (st'\<lparr>defaultRegistry := d\<rparr>) = heap_ext st st'"
  by (simp_all add: heap_ext_def)

lemma SetDefaultRegistry_simps [simp]:
  "registries (SetDefaultRegistry r st) = registries st" "defaultRegistry (SetDefaultRegistry r st) = Some r"
  "registryTweaks (SetDefaultRegistry r st) = registryTweaks st"
  "length (eps (SetDefaultRegistry r st)) = length (eps st)"
  by (auto simp: SetDefaultRegistry_def Let_def split: option.splits)

lemma heap_ext_SetDefault: "heap_ext st (SetDefaultRegistry r st)"
  unfolding SetDefaultRegistry_def Let_def
  by (auto intro: heap_ext_trans heap_ext_flag split: option.splits)

lemma heap_ext_Add: "heap_ext st (AddRegistryEndpoint r st)"
  unfolding AddRegistryEndpoint_def Let_def
  by (auto intro: heap_ext_trans heap_ext_flag heap_ext_SetDefault split: option.splits)

lemma AddRegistryEndpoint_simps [simp]:
  "registries (AddRegistryEndpoint r st) = gomap_put (RegistryPrefix (deref st r)) r (registries st)"
  "length (eps (AddRegistryEndpoint r st)) = length (eps st)"
  by (auto simp: AddRegistryEndpoint_def Let_def split: option.splits)

lemma defaultRegistry_Add:
  "defaultRegistry (AddRegistryEndpoint r st) = (if IsDefault (deref st r) then Some r else defaultRegistry st)"
  by (simp add: AddRegistryEndpoint_def Let_def)

lemma reg_wf_ext:
  assumes "reg_wf st" "heap_ext st st'" "gomap_wf (registries st')"
    "\<forall>(k, r) \<in> set (registries st'). (k, r) \<in> set (registries st) \<or>
       r < length (eps st') \<and> RegistryPrefix (deref st' r) = k"
    "\<forall>d. defaultRegistry st' = Some d \<longrightarrow> defaultRegistry st = Some d \<or> d < length (eps st')"
  shows "reg_wf st'"
proof -
  have keep: "r < length (eps st') \<and> RegistryPrefix (deref st' r) = k"
    if "r < length (eps st)" "RegistryPrefix (deref st r) = k" for k r
    using that assms(2) strip_prefix by (fastforce simp: heap_ext_def)
  have "registryTweaks st' = registryTweaks st" "length (eps st) \<le> length (eps st')"
    using assms(2) by (auto simp: heap_ext_def)
  then show ?thesis
    using assms(1,3-5) keep unfolding reg_wf_def by (fastforce split: prod.splits)
qed

lemma reg_wf_alloc: "reg_wf st \<Longrightarrow> reg_wf (snd (alloc ep st))"
  by (rule reg_wf_ext [OF _ heap_ext_alloc]) (simp_all add: alloc_def reg_wf_def case_prod_beta)

lemma reg_wf_SetDefault: "reg_wf st \<Longrightarrow> r < length (eps st) \<Longrightarrow> reg_wf (SetDefaultRegistry r st)"
  by (rule reg_wf_ext [OF _ heap_ext_SetDefault]) (simp_all add: reg_wf_def case_prod_beta)

lemma deref_ext_prefix:
  "heap_ext st st' \<Longrightarrow> r < length (eps st) \<Longrightarrow> RegistryPrefix (deref st' r) = RegistryPrefix (deref st r)"
  by (metis heap_ext_def strip_prefix)

lemma reg_wf_Add:
  assumes "reg_wf st" "r < length (eps st)" shows "reg_wf (AddRegistryEndpoint r st)"
proof (rule reg_wf_ext [OF assms(1) heap_ext_Add])
  have "gomap_wf (registries st)" using assms(1) by (simp add: reg_wf_def)
  then show "gomap_wf (registries (AddRegistryEndpoint r st))" by simp
  show "\<forall>(k, q) \<in> set (registries (AddRegistryEndpoint r st)). (k, q) \<in> set (registries st) \<or>
       q < length (eps (AddRegistryEndpoint r st)) \<and> RegistryPrefix (deref (AddRegistryEndpoint r st) q) = k"
    using deref_ext_prefix [OF heap_ext_Add assms(2)] assms(2) \<open>gomap_wf (registries st)\<close>
    by (auto simp: gomap_put_set)
  show "\<forall>d. defaultRegistry (AddRegistryEndpoint r st) = Some d \<longrightarrow>
      defaultRegistry st = Some d \<or> d < length (eps (AddRegistryEndpoint r st))"
    using assms(2) by (auto simp: defaultRegistry_Add)
qed

lemma reg_wf_GetRegistryEndpoint:
  assumes "reg_wf st" shows "reg_wf (fst (GetRegistryEndpoint nc img st))"
proof -
  have "reg_wf (AddRegistryEndpoint (length (eps st)) (st\<lparr>eps := eps st @ [ep]\<rparr>))" for ep
    using reg_wf_alloc [OF assms, of ep] by (intro reg_wf_Add) (auto simp: alloc_def)
  then show ?thesis
    using assms unfolding GetRegistryEndpoint_def Let_def by (auto simp: alloc_def split: option.splits)
qed

section \<open>Looking up the endpoint of an image\<close>

text \<open>The best match of a loop: it matches, and no other match is longer.\<close>

lemma find_loop_spec:
  "(case find_loop st s ep rs of
      None \<Rightarrow> ep = None \<and> (\<forall>(k, r) \<in> set rs. \<not> strings_HasPrefix s (RegistryPrefix (deref st r)))
    | Some b \<Rightarrow>
        (ep = Some b \<or> (\<exists>k. (k, b) \<in> set rs \<and> strings_HasPrefix s (RegistryPrefix (deref st b)))) \<and>
        (\<forall>(k, r) \<in> set rs. strings_HasPrefix s (RegistryPrefix (deref st r)) \<longrightarrow>
           length (RegistryPrefix (deref st r)) \<le> length (RegistryPrefix (deref st b))) \<and>
        (\<forall>a. ep = Some a \<longrightarrow> length (RegistryPrefix (deref st a)) \<le> length (RegistryPrefix (deref st b))))"
proof (induction rs arbitrary: ep)
  case Nil
  then show ?case by (simp split: option.splits)
next
  case (Cons e rs)
  obtain k r where e: "e = (k, r)" by (cases e)
  let ?m = "strings_HasPrefix s (RegistryPrefix (deref st r))"
  let ?len = "\<lambda>r. length (RegistryPrefix (deref st r))"
  let ?better = "case ep of None \<Rightarrow> ?m | Some b \<Rightarrow> ?m \<and> ?len r > ?len b"
  let ?ep = "if ?better then Some r else ep"
  have new: "?ep = ep \<or> ?ep = Some r \<and> ?m" by (cases ep) auto
  have covers: "?m \<Longrightarrow> \<exists>c. ?ep = Some c \<and> ?len r \<le> ?len c" by (cases ep) auto
  have grows: "ep = Some a \<Longrightarrow> \<exists>c. ?ep = Some c \<and> ?len a \<le> ?len c" for a by auto
  have eq: "find_loop st s ep (e # rs) = find_loop st s ?ep rs" by (simp add: e Let_def)
  note IH = Cons [of ?ep]
  show ?case
  proof (cases "find_loop st s ?ep rs")
    case None
    then have "?ep = None" "\<forall>(k, r) \<in> set rs. \<not> strings_HasPrefix s (RegistryPrefix (deref st r))"
      using IH by simp_all
    then show ?thesis
      unfolding eq None using covers grows by (cases ep) (auto simp: e)
  next
    case (Some b)
    then have IH: "?ep = Some b \<or> (\<exists>k. (k, b) \<in> set rs \<and> strings_HasPrefix s (RegistryPrefix (deref st b)))"
      "\<forall>(k, r) \<in> set rs. strings_HasPrefix s (RegistryPrefix (deref st r)) \<longrightarrow> ?len r \<le> ?len b"
      "\<forall>a. ?ep = Some a \<longrightarrow> ?len a \<le> ?len b"
      using IH by simp_all
    have "ep = Some b \<or> (\<exists>k. (k, b) \<in> set (e # rs) \<and> strings_HasPrefix s (RegistryPrefix (deref st b)))"
      using IH(1) new e by (metis list.set_intros(1,2) option.inject)
    moreover have "?m \<longrightarrow> ?len r \<le> ?len b" using covers IH(3) le_trans by blast
    moreover have "\<forall>a. ep = Some a \<longrightarrow> ?len a \<le> ?len b" using grows IH(3) le_trans by blast
    ultimately show ?thesis unfolding eq Some using IH(2) e by simp
  qed
qed

text \<open>An endpoint is the best match for an image when its prefix is the longest that matches.\<close>

definition best_match :: "('s, 't) reg_state \<Rightarrow> ContainerImage \<Rightarrow> nat \<Rightarrow> bool" where
  "best_match st img r =
     (let name = RegistryURL img @ ''/'' @ ImageName img; p = RegistryPrefix (deref st r)
      in map_of (registries st) p = Some r \<and> prefix p name \<and>
         (\<forall>k \<in> fst ` set (registries st). prefix k name \<longrightarrow> length k \<le> length p))"

lemma best_match_key:
  assumes "best_match st img r"
  shows "\<exists>k \<in> fst ` set (registries st). prefix k (RegistryURL img @ ''/'' @ ImageName img)"
proof -
  have "RegistryPrefix (deref st r) \<in> fst ` set (registries st)"
    using assms unfolding best_match_def Let_def by (metis map_of_eq_None_iff option.distinct(1))
  then show ?thesis using assms unfolding best_match_def Let_def by blast
qed

lemma reg_wf_lookup:
  assumes "reg_wf st" "(k, r) \<in> set (registries st)"
  shows "map_of (registries st) k = Some r" "RegistryPrefix (deref st r) = k"
  using assms by (auto simp: reg_wf_def gomap_wf_def)

lemma findRegistryEndpointByImage_spec:
  assumes "reg_wf st"
  shows "findRegistryEndpointByImage st img = Some r \<longleftrightarrow> best_match st img r"
    and "findRegistryEndpointByImage st img = None \<longleftrightarrow>
      (\<forall>k \<in> fst ` set (registries st). \<not> prefix k (RegistryURL img @ ''/'' @ ImageName img))"
proof -
  let ?s = "RegistryURL img @ ''/'' @ ImageName img"
  note spec = find_loop_spec [where st = st and s = ?s and ep = None and rs = "registries st"]
  have best: "best_match st img b" if "find_loop st ?s None (registries st) = Some b" for b
  proof -
    have "\<exists>k. (k, b) \<in> set (registries st) \<and> strings_HasPrefix ?s (RegistryPrefix (deref st b))"
      and len: "\<forall>(k, r) \<in> set (registries st). strings_HasPrefix ?s (RegistryPrefix (deref st r)) \<longrightarrow>
           length (RegistryPrefix (deref st r)) \<le> length (RegistryPrefix (deref st b))"
      using spec that by simp_all
    then obtain k where mem: "(k, b) \<in> set (registries st)" "prefix (RegistryPrefix (deref st b)) ?s"
      by (auto simp: strings_HasPrefix_def)
    have "length k \<le> length (RegistryPrefix (deref st b))" if "(k, r) \<in> set (registries st)" "prefix k ?s" for k r
      using len that reg_wf_lookup(2) [OF assms that(1)] by (auto simp: strings_HasPrefix_def)
    then have "\<forall>k \<in> fst ` set (registries st). prefix k ?s \<longrightarrow> length k \<le> length (RegistryPrefix (deref st b))"
      by auto
    moreover have "map_of (registries st) (RegistryPrefix (deref st b)) = Some b"
      using reg_wf_lookup [OF assms mem(1)] by simp
    ultimately show ?thesis unfolding best_match_def Let_def using mem(2) by blast
  qed
  have none: "find_loop st ?s None (registries st) = None \<longleftrightarrow> (\<forall>k \<in> fst ` set (registries st). \<not> prefix k ?s)"
    (is "?l \<longleftrightarrow> ?r")
  proof
    assume ?l
    then have "\<forall>(k, r) \<in> set (registries st). \<not> strings_HasPrefix ?s (RegistryPrefix (deref st r))"
      using spec by simp
    then have "\<not> prefix k ?s" if "(k, r) \<in> set (registries st)" for k r
      using that reg_wf_lookup(2) [OF assms that] by (auto simp: strings_HasPrefix_def)
    then show ?r by auto
  next
    assume r: ?r
    show ?l
    proof (rule ccontr)
      assume "\<not> ?l"
      then obtain b where "best_match st img b" using best by auto
      then show False using r best_match_key by blast
    qed
  qed
  have uniq: "b = r" if "best_match st img b" "best_match st img r" for b
  proof -
    have key: "RegistryPrefix (deref st q) \<in> fst ` set (registries st)" if "best_match st img q" for q
      using that unfolding best_match_def Let_def by (metis map_of_eq_None_iff option.distinct(1))
    have "length (RegistryPrefix (deref st b)) = length (RegistryPrefix (deref st r))"
      using that key unfolding best_match_def Let_def by (intro order_antisym) blast+
    moreover have "prefix (RegistryPrefix (deref st b)) ?s" "prefix (RegistryPrefix (deref st r)) ?s"
      using that by (simp_all add: best_match_def Let_def)
    ultimately have "RegistryPrefix (deref st b) = RegistryPrefix (deref st r)"
      unfolding prefix_def by (elim exE) (simp add: append_eq_append_conv)
    then show ?thesis using that by (auto simp: best_match_def Let_def)
  qed
  show "findRegistryEndpointByImage st img = Some r \<longleftrightarrow> best_match st img r"
  proof
    assume "best_match st img r"
    then have "find_loop st ?s None (registries st) \<noteq> None"
      unfolding none using best_match_key by blast
    then show "findRegistryEndpointByImage st img = Some r"
      unfolding findRegistryEndpointByImage_def using best uniq [OF _ \<open>best_match st img r\<close>] by auto
  qed (simp add: findRegistryEndpointByImage_def best)
  show "findRegistryEndpointByImage st img = None \<longleftrightarrow> (\<forall>k \<in> fst ` set (registries st). \<not> prefix k ?s)"
    using none by (simp add: findRegistryEndpointByImage_def)
qed

text \<open>
  \<open>C5\<close>.  Which endpoint serves an image.  Without a registry it is the default one.  Otherwise it is the
  endpoint configured for that registry; failing that the configured endpoint with the longest prefix
  of the full image name, which does not depend on the iteration order of the map; failing that a new
  endpoint for \<open>https://<registry>\<close>, which is registered, so that the next lookup finds it.
\<close>

theorem endpoint_of_image:
  assumes "reg_wf st" "GetRegistryEndpoint nc img st = (st', res)"
  shows "if RegistryURL img = [] then
      st' = st \<and> res = (case defaultRegistry st of None \<Rightarrow> Inl NoDefaultEndpoint | Some d \<Rightarrow> Inr d)
    else
      (\<exists>r. res = Inr r \<and> r < length (eps st') \<and> reg_wf st' \<and>
        (case map_of (registries st) (RegistryURL img) of
           Some q \<Rightarrow> r = q \<and> st' = st
         | None \<Rightarrow>
             (if \<exists>k \<in> fst ` set (registries st). prefix k (RegistryURL img @ ''/'' @ ImageName img)
              then best_match st img r \<and> st' = st
              else deref st' r = inferRegistryEndpointFromPrefix nc (RegistryURL img) \<and>
                RegistryAPI (deref st' r) = strings_TrimSuffix (''https://'' @ RegistryURL img) ''/'' \<and>
                GetRegistryEndpoint nc img st' = (st', Inr r))))"
proof (cases "RegistryURL img = []")
  case True
  then show ?thesis using assms(2) by (auto simp: GetRegistryEndpoint_def)
next
  case False
  have wf': "reg_wf st'" using reg_wf_GetRegistryEndpoint [OF assms(1), of nc img] assms(2) by simp
  consider (exact) q where "map_of (registries st) (RegistryURL img) = Some q"
    | (best) q where "map_of (registries st) (RegistryURL img) = None" "findRegistryEndpointByImage st img = Some q"
    | (new) "map_of (registries st) (RegistryURL img) = None" "findRegistryEndpointByImage st img = None"
    by (meson option.exhaust)
  then show ?thesis
  proof cases
    case exact
    moreover have "q < length (eps st)"
      using exact assms(1) by (auto simp: reg_wf_def dest!: map_of_SomeD)
    ultimately show ?thesis using False assms by (auto simp: GetRegistryEndpoint_def)
  next
    case best
    then have bm: "best_match st img q" using findRegistryEndpointByImage_spec(1) [OF assms(1)] by simp
    then have "q < length (eps st)"
      using assms(1) by (auto simp: best_match_def Let_def reg_wf_def dest!: map_of_SomeD)
    then show ?thesis
      using False assms best bm best_match_key [OF bm] by (auto simp: GetRegistryEndpoint_def)
  next
    case new
    let ?ep = "inferRegistryEndpointFromPrefix nc (RegistryURL img)" and ?r = "length (eps st)"
    let ?st = "st\<lparr>eps := eps st @ [?ep]\<rparr>"
    have r: "st' = AddRegistryEndpoint ?r ?st" "res = Inr ?r"
      using False new assms(2) by (auto simp: GetRegistryEndpoint_def alloc_def)
    have ep: "deref ?st ?r = ?ep" by (simp add: deref_def)
    have nd: "\<not> IsDefault ?ep" "RegistryPrefix ?ep = RegistryURL img"
      "RegistryAPI ?ep = strings_TrimSuffix (''https://'' @ RegistryURL img) ''/''"
      by (simp_all add: inferRegistryEndpointFromPrefix_def NewRegistryEndpoint_def zero_endpoint_def)
    have "deref st' ?r = ?ep" using ep nd unfolding r(1) AddRegistryEndpoint_def by (simp add: Let_def)
    moreover have "map_of (registries st') (RegistryURL img) = Some ?r"
      unfolding r(1) using ep nd by simp
    moreover have "\<forall>k \<in> fst ` set (registries st). \<not> prefix k (RegistryURL img @ ''/'' @ ImageName img)"
      using new(2) findRegistryEndpointByImage_spec(2) [OF assms(1)] by simp
    ultimately show ?thesis
      using False new(1) wf' r nd by (auto simp: GetRegistryEndpoint_def)
  qed
qed

section \<open>The initial state\<close>

text \<open>The state after the package's \<open>init\<close>, written out.\<close>

definition initial_state :: "('t, transport) gocache_lib \<Rightarrow> 's \<Rightarrow> ('s, 't) reg_state" where
  "initial_state tlib nc =
     \<lparr>eps = [dockerio_tweak nc, ep_DeepCopy nc (dockerio_tweak nc)], registries = [(''docker.io'', 1)],
      defaultRegistry = Some 0, registryTweaks = [(''docker.io'', 0)], transportCache = gc_New tlib\<rparr>"

lemma registry_init_state: "registry_init tlib nc = Ret (initial_state tlib nc)"
  by (simp add: registry_init_def package_vars_def initial_state_def alloc_def deref_def
      dockerio_tweak_def zero_endpoint_def Let_def)

lemma initial_state_wf: "reg_wf (initial_state tlib nc)"
  by (simp add: reg_wf_def initial_state_def deref_def dockerio_tweak_def zero_endpoint_def
      ep_DeepCopy_def gomap_wf_def)

theorem endpoint_of_image_witness:
  "\<exists>st' r. GetRegistryEndpoint () (ContainerImage ''quay.io'' ''dexidp/dex'' None [] None [])
     (initial_state list_store ()) = (st', Inr r) \<and> RegistryAPI (deref st' r) = ''https://quay.io''"
proof -
  let ?img = "ContainerImage ''quay.io'' ''dexidp/dex'' None [] None []"
  let ?st = "initial_state list_store ()"
  obtain st' res where g: "GetRegistryEndpoint () ?img ?st = (st', res)" by fastforce
  have "map_of (registries ?st) ''quay.io'' = None"
    "\<not> (\<exists>k \<in> fst ` set (registries ?st). prefix k (''quay.io'' @ ''/'' @ ''dexidp/dex''))"
    by (simp_all add: initial_state_def)
  moreover have "strings_TrimSuffix (''https://'' @ ''quay.io'') ''/'' = ''https://quay.io''"
    by (simp add: strings_TrimSuffix_def suffix_def)
  ultimately show ?thesis
    using endpoint_of_image [OF initial_state_wf g] g by auto
qed

text \<open>
  The prefix test ignores where the registry name ends: an image of the registry
  \<open>docker.io.example.com\<close>, which is not configured, is looked up at Docker Hub.
\<close>

theorem lookup_ignores_registry_boundary:
  "\<exists>st' r. GetRegistryEndpoint nc (ContainerImage ''docker.io.example.com'' ''team/app'' None [] None [])
     (initial_state tlib nc) = (st', Inr r) \<and> RegistryAPI (deref st' r) = ''https://registry-1.docker.io''"
  by (simp add: GetRegistryEndpoint_def findRegistryEndpointByImage_def initial_state_def deref_def
      dockerio_tweak_def zero_endpoint_def ep_DeepCopy_def strings_HasPrefix_def)

text \<open>
  Restoring the default configuration is not always a restoration: \<open>init\<close> makes the object in
  \<open>registryTweaks\<close> itself the default, so that choosing any other default clears the flag in the table,
  and a later restore finds no default registry.
\<close>

theorem restore_loses_the_default:
  assumes "other = NewRegistryEndpoint nc ''quay.io'' ''Quay'' ''https://quay.io'' [] [] False TagListSortUnsorted 0 0"
    "st = initial_state tlib nc" "(r, st1) = alloc other st"
    "st2 = SetDefaultRegistry r (AddRegistryEndpoint r st1)"
  shows "defaultRegistry st = Some 0 \<and> defaultRegistry (RestoreDefaultRegistryConfiguration nc st2) = None"
  using assms(2-4)
  by (simp add: assms(1) alloc_def initial_state_def AddRegistryEndpoint_def SetDefaultRegistry_def deref_def
      NewRegistryEndpoint_def zero_endpoint_def RestoreDefaultRegistryConfiguration_def assign_def
      dockerio_tweak_def ep_DeepCopy_def Let_def)

theorem restore_loses_the_default_witness:
  "defaultRegistry (RestoreDefaultRegistryConfiguration ()
     (SetDefaultRegistry 2 (AddRegistryEndpoint 2
       (snd (alloc (NewRegistryEndpoint () ''quay.io'' ''Quay'' ''https://quay.io'' [] [] False TagListSortUnsorted 0 0)
         (initial_state list_store ())))))) = None"
proof -
  let ?o = "NewRegistryEndpoint () ''quay.io'' ''Quay'' ''https://quay.io'' [] [] False TagListSortUnsorted 0 0"
  have "(2, snd (alloc ?o (initial_state list_store ()))) = alloc ?o (initial_state list_store ())"
    by (simp add: alloc_def initial_state_def)
  from restore_loses_the_default [OF refl refl this refl] show ?thesis by simp
qed

section \<open>Reading the configuration\<close>

text \<open>The entries that the validation accepts.\<close>

definition valid_entry :: "RegistryConfiguration \<Rightarrow> bool" where
  "valid_entry c =
     (cfg_Name c \<noteq> [] \<and> cfg_ApiURL c \<noteq> [] \<and> TagListSortFromString (cfg_TagSortMode c) \<noteq> TagListSortUnknown)"

lemma validate_loop_err: "err \<noteq> None \<Longrightarrow> validate_loop f err rs \<noteq> None"
  by (induction rs arbitrary: f err) (auto simp: Let_def split: if_splits)

lemma validate_loop_None:
  "validate_loop f None rs = None \<longleftrightarrow>
     list_all valid_entry rs \<and>
     length (filter (\<lambda>c. cfg_Prefix c = []) rs) \<le> (if f = [] then 1 else 0)"
proof (induction rs arbitrary: f)
  case (Cons r rs)
  then show ?case
    by (auto simp: valid_entry_def Let_def validate_loop_err [of "Some _", simplified] split: if_splits)
qed simp

text \<open>
  A registry configuration is accepted exactly when every entry has a name, an API URL and a known
  sort mode, and at most one entry has no prefix; it is then returned unchanged.
\<close>

theorem ParseRegistryConfiguration_accepts:
  "ParseRegistryConfiguration env src = Inr cs \<longleftrightarrow>
     yaml_UnmarshalStrict env src = Inr cs \<and> list_all valid_entry cs \<and>
     length (filter (\<lambda>c. cfg_Prefix c = []) cs) \<le> 1"
proof (cases "yaml_UnmarshalStrict env src")
  case (Inr rl)
  then show ?thesis
    using validate_loop_None [of "[]" rl]
    by (cases "validate_loop [] None rl") (auto simp: ParseRegistryConfiguration_def)
qed (simp add: ParseRegistryConfiguration_def)

lemma newRegistryEndpointFromConfig_fields:
  assumes "newRegistryEndpointFromConfig env nc c = Inr ep"
  shows "RegistryPrefix ep = cfg_Prefix c" "\<not> IsDefault ep" "strip ep = ep"
  using assms
  by (auto simp: newRegistryEndpointFromConfig_def NewRegistryEndpoint_def zero_endpoint_def strip_def Let_def
      split: if_splits sum.splits)

text \<open>One round of the load loop: a fresh endpoint is registered, and made the default when asked.\<close>

definition load_step :: "'s RegistryEndpoint \<Rightarrow> bool \<Rightarrow> ('s, 't) reg_state \<Rightarrow> ('s, 't) reg_state" where
  "load_step ep dflt st =
     (let st1 = AddRegistryEndpoint (length (eps st)) (st\<lparr>eps := eps st @ [ep]\<rparr>)
      in if dflt then SetDefaultRegistry (length (eps st)) st1 else st1)"

lemma load_loop_Cons_ok:
  "load_loop env nc hdf (reg # rest) st = Ret (st', None) \<longleftrightarrow>
     (\<exists>ep. newRegistryEndpointFromConfig env nc reg = Inr ep \<and> \<not> (cfg_IsDefault reg \<and> hdf) \<and>
        load_loop env nc (hdf \<or> cfg_IsDefault reg) rest (load_step ep (cfg_IsDefault reg) st) = Ret (st', None))"
  by (cases "cfg_IsDefault reg"; cases hdf)
    (auto simp: load_step_def alloc_def Let_def split: sum.splits option.splits)

lemma load_step_facts:
  assumes "reg_wf st" "strip ep = ep"
  defines "n \<equiv> length (eps st)"
  shows "reg_wf (load_step ep dflt st)"
    and "heap_ext st (load_step ep dflt st)"
    and "registries (load_step ep dflt st) = gomap_put (RegistryPrefix ep) n (registries st)"
    and "strip (deref (load_step ep dflt st) n) = ep"
    and "n < length (eps (load_step ep dflt st))"
    and "defaultRegistry (load_step ep dflt st) = (if dflt then Some n else defaultRegistry st)"
    and "\<not> dflt \<Longrightarrow> q < n \<Longrightarrow> deref (load_step ep dflt st) q = deref st q"
    and "dflt \<Longrightarrow> IsDefault (deref (load_step ep dflt st) n)"
proof -
  let ?a = "st\<lparr>eps := eps st @ [ep]\<rparr>"
  have a: "snd (alloc ep st) = ?a" "reg_wf ?a" "n < length (eps ?a)" "deref ?a n = ep" "heap_ext st ?a"
    using reg_wf_alloc [OF assms(1), of ep] heap_ext_alloc [of st ep] by (simp_all add: alloc_def n_def deref_def)
  have nd: "\<not> IsDefault ep"
    using assms(2) unfolding strip_def by (metis RegistryEndpoint.select_convs(17) RegistryEndpoint.surjective RegistryEndpoint.update_convs(17))
  have add: "AddRegistryEndpoint n ?a = ?a\<lparr>registries := gomap_put (RegistryPrefix ep) n (registries st)\<rparr>"
    using a(4) nd by (simp add: AddRegistryEndpoint_def)
  have wf1: "reg_wf (AddRegistryEndpoint n ?a)" using a by (intro reg_wf_Add)
  have len: "length (eps (AddRegistryEndpoint n ?a)) = Suc n" by (simp add: n_def)
  note step = load_step_def [of ep dflt st, folded n_def]
  show "reg_wf (load_step ep dflt st)"
    unfolding step Let_def using wf1 reg_wf_SetDefault [OF wf1, of n] len by simp
  show ext: "heap_ext st (load_step ep dflt st)"
    unfolding step Let_def
    using heap_ext_trans [OF a(5) heap_ext_Add, of n]
      heap_ext_trans [OF heap_ext_trans [OF a(5) heap_ext_Add] heap_ext_SetDefault, of n n] by simp
  show "registries (load_step ep dflt st) = gomap_put (RegistryPrefix ep) n (registries st)"
    unfolding step Let_def add by simp
  have "deref (AddRegistryEndpoint n ?a) n = ep" unfolding add using a(4) by simp
  moreover have "strip (deref (SetDefaultRegistry n (AddRegistryEndpoint n ?a)) n) =
      strip (deref (AddRegistryEndpoint n ?a) n)"
    using heap_ext_SetDefault [of "AddRegistryEndpoint n ?a" n] len by (simp add: heap_ext_def)
  ultimately show "strip (deref (load_step ep dflt st) n) = ep"
    unfolding step Let_def using assms(2) by simp
  show "n < length (eps (load_step ep dflt st))" unfolding step Let_def using len by simp
  show "defaultRegistry (load_step ep dflt st) = (if dflt then Some n else defaultRegistry st)"
    unfolding step Let_def add by simp
  show "deref (load_step ep dflt st) q = deref st q" if "\<not> dflt" "q < n"
    unfolding step Let_def add using that by (simp add: deref_def nth_append n_def)
  have "defaultRegistry st \<noteq> Some n" using assms(1) by (auto simp: reg_wf_def n_def)
  then show "IsDefault (deref (load_step ep dflt st) n)" if "dflt"
    unfolding step Let_def add SetDefaultRegistry_def
    using that a(3) by (auto simp: deref_assign split: option.splits)
qed

lemma load_loop_no_panic: "hdf \<longrightarrow> defaultRegistry st \<noteq> None \<Longrightarrow> load_loop env nc hdf rs st \<noteq> Panic"
proof (induction rs arbitrary: hdf st)
  case (Cons r rs)
  then show ?case
    by (auto simp: alloc_def Let_def defaultRegistry_Add GetDefaultRegistry_def split: sum.splits option.splits)
qed simp

text \<open>A loop with no default entry leaves the default registry as it is.\<close>

lemma load_loop_defaults:
  assumes "load_loop env nc hdf rs st = Ret (st', None)" "reg_wf st"
  shows "hdf \<Longrightarrow> \<forall>c \<in> set rs. \<not> cfg_IsDefault c"
    and "\<forall>c \<in> set rs. \<not> cfg_IsDefault c \<Longrightarrow>
      defaultRegistry st' = defaultRegistry st \<and> (\<forall>q < length (eps st). deref st' q = deref st q)"
proof -
  show "hdf \<Longrightarrow> \<forall>c \<in> set rs. \<not> cfg_IsDefault c"
    using assms(1) by (induction rs arbitrary: st) (auto simp: load_loop_Cons_ok simp del: load_loop.simps(2))
  show "defaultRegistry st' = defaultRegistry st \<and> (\<forall>q < length (eps st). deref st' q = deref st q)"
    if "\<forall>c \<in> set rs. \<not> cfg_IsDefault c"
    using assms that
  proof (induction rs arbitrary: st)
    case (Cons c rs)
    then obtain ep where ep: "newRegistryEndpointFromConfig env nc c = Inr ep"
      "load_loop env nc hdf rs (load_step ep False st) = Ret (st', None)"
      by (auto simp: load_loop_Cons_ok simp del: load_loop.simps(2))
    note f = load_step_facts [OF Cons.prems(2) newRegistryEndpointFromConfig_fields(3) [OF ep(1)], of False]
    have IH: "defaultRegistry st' = defaultRegistry (load_step ep False st)"
      "\<forall>q < length (eps (load_step ep False st)). deref st' q = deref (load_step ep False st) q"
      using Cons.IH [OF ep(2) f(1)] Cons.prems(3) by auto
    show ?case using IH f(5,6,7) by auto
  qed simp
qed

lemma load_loop_registered:
  assumes "load_loop env nc hdf rs st = Ret (st', None)" "reg_wf st"
  shows "reg_wf st' \<and> heap_ext st st' \<and>
    (\<forall>k. if k \<in> cfg_Prefix ` set rs
         then (\<exists>r. map_of (registries st') k = Some r \<and>
           newRegistryEndpointFromConfig env nc (last (filter (\<lambda>c. cfg_Prefix c = k) rs)) = Inr (strip (deref st' r)))
         else map_of (registries st') k = map_of (registries st) k)"
  using assms
proof (induction rs arbitrary: hdf st)
  case (Cons c rs)
  let ?d = "cfg_IsDefault c"
  obtain ep where ep: "newRegistryEndpointFromConfig env nc c = Inr ep"
    "load_loop env nc (hdf \<or> ?d) rs (load_step ep ?d st) = Ret (st', None)"
    using Cons.prems(1) by (auto simp: load_loop_Cons_ok simp del: load_loop.simps(2))
  note fld = newRegistryEndpointFromConfig_fields [OF ep(1)]
  note f = load_step_facts [OF Cons.prems(2) fld(3), of ?d]
  note IH = Cons.IH [OF ep(2) f(1)]
  have ext: "heap_ext st st'" using IH f(2) heap_ext_trans by blast
  have keep: "strip (deref st' (length (eps st))) = ep"
    using IH f(4,5) by (simp add: heap_ext_def)
  have "if k \<in> cfg_Prefix ` set (c # rs)
       then (\<exists>r. map_of (registries st') k = Some r \<and>
         newRegistryEndpointFromConfig env nc (last (filter (\<lambda>c. cfg_Prefix c = k) (c # rs))) =
           Inr (strip (deref st' r)))
       else map_of (registries st') k = map_of (registries st) k" for k
  proof (cases "k \<in> cfg_Prefix ` set rs")
    case True
    then have "filter (\<lambda>c. cfg_Prefix c = k) rs \<noteq> []" by (auto simp: filter_empty_conv)
    then show ?thesis using IH True by auto
  next
    case False
    then have none: "filter (\<lambda>c. cfg_Prefix c = k) rs = []" by (auto simp: filter_empty_conv)
    have lk: "map_of (registries st') k = map_of (registries (load_step ep ?d st)) k" using IH False by auto
    show ?thesis
    proof (cases "cfg_Prefix c = k")
      case True
      then have "map_of (registries st') k = Some (length (eps st))" using lk fld(1) f(3) by simp
      then show ?thesis using True none ep(1) keep by auto
    next
      case F2: False
      then have "map_of (registries st') k = map_of (registries st) k" using lk fld(1) f(3) by simp
      then show ?thesis using False F2 by auto
    qed
  qed
  then show ?case using IH ext by blast
qed simp

lemma load_loop_sets_default:
  assumes "load_loop env nc hdf rs st = Ret (st', None)" "reg_wf st" "c \<in> set rs" "cfg_IsDefault c"
  shows "\<exists>r. defaultRegistry st' = Some r \<and> IsDefault (deref st' r) \<and>
    newRegistryEndpointFromConfig env nc c = Inr (strip (deref st' r)) \<and> filter cfg_IsDefault rs = [c]"
  using assms
proof (induction rs arbitrary: hdf st)
  case (Cons a rs)
  let ?d = "cfg_IsDefault a"
  obtain ep where ep: "newRegistryEndpointFromConfig env nc a = Inr ep"
    "load_loop env nc (hdf \<or> ?d) rs (load_step ep ?d st) = Ret (st', None)"
    using Cons.prems(1) by (auto simp: load_loop_Cons_ok simp del: load_loop.simps(2))
  note f = load_step_facts [OF Cons.prems(2) newRegistryEndpointFromConfig_fields(3) [OF ep(1)], of ?d]
  show ?case
  proof (cases ?d)
    case True
    have nd: "\<forall>c \<in> set rs. \<not> cfg_IsDefault c" using load_loop_defaults(1) [OF ep(2) f(1)] True by simp
    then have ca: "c = a" using Cons.prems(3,4) by auto
    have "defaultRegistry st' = Some (length (eps st))" "deref st' (length (eps st)) = deref (load_step ep ?d st) (length (eps st))"
      using load_loop_defaults(2) [OF ep(2) f(1) nd] f(5,6) True by auto
    moreover have "filter cfg_IsDefault (a # rs) = [a]" using nd True by (simp add: filter_empty_conv)
    ultimately show ?thesis using f(4,8) True ep(1) ca by simp
  next
    case False
    then show ?thesis using Cons.IH [OF ep(2) f(1)] Cons.prems(3,4) by auto
  qed
qed simp

text \<open>
  Loading a registry configuration never panics, and when it succeeds the registry table is what
  the file says: each prefix of the file maps to an endpoint built from its last entry, other prefixes
  keep their endpoint (or lose it when the table is cleared first), and the default registry is the one
  entry marked as default, or the previous one when there is none.
\<close>

theorem LoadRegistryConfiguration_registers:
  assumes "reg_wf st"
  shows "LoadRegistryConfiguration tlib env nc path clear st \<noteq> Panic \<and>
    (\<forall>st'. LoadRegistryConfiguration tlib env nc path clear st = Ret (st', None) \<longrightarrow>
      (\<exists>cs src. os_ReadFile env path = Some src \<and> yaml_UnmarshalStrict env src = Inr cs \<and> reg_wf st' \<and>
        (\<forall>k. if k \<in> cfg_Prefix ` set cs
             then (\<exists>r. map_of (registries st') k = Some r \<and>
               newRegistryEndpointFromConfig env nc (last (filter (\<lambda>c. cfg_Prefix c = k) cs)) =
                 Inr (strip (deref st' r)))
             else map_of (registries st') k = (if clear then None else map_of (registries st) k)) \<and>
        (case filter cfg_IsDefault cs of
           [] \<Rightarrow> defaultRegistry st' = defaultRegistry st
         | c # rest \<Rightarrow> rest = [] \<and> (\<exists>r. defaultRegistry st' = Some r \<and> IsDefault (deref st' r) \<and>
             newRegistryEndpointFromConfig env nc c = Inr (strip (deref st' r))))))"
proof -
  let ?st = "if clear then clearRegistries tlib st else st"
  have wf: "reg_wf ?st"
    using assms by (auto simp: clearRegistries_def ClearTransportCache_def reg_wf_def)
  have st: "defaultRegistry ?st = defaultRegistry st"
    "map_of (registries ?st) k = (if clear then None else map_of (registries st) k)" for k
    by (simp_all add: clearRegistries_def ClearTransportCache_def)
  have "LoadRegistryConfiguration tlib env nc path clear st \<noteq> Panic"
    using load_loop_no_panic [of False ?st env nc]
    by (auto simp: LoadRegistryConfiguration_def split: option.splits sum.splits)
  moreover have "\<exists>cs src. os_ReadFile env path = Some src \<and> yaml_UnmarshalStrict env src = Inr cs \<and>
      load_loop env nc False cs ?st = Ret (st', None)"
    if "LoadRegistryConfiguration tlib env nc path clear st = Ret (st', None)" for st'
    using that
    by (auto simp: LoadRegistryConfiguration_def ParseRegistryConfiguration_def split: option.splits sum.splits)
  moreover have "case filter cfg_IsDefault cs of
           [] \<Rightarrow> defaultRegistry st' = defaultRegistry st
         | c # rest \<Rightarrow> rest = [] \<and> (\<exists>r. defaultRegistry st' = Some r \<and> IsDefault (deref st' r) \<and>
             newRegistryEndpointFromConfig env nc c = Inr (strip (deref st' r)))"
    if "load_loop env nc False cs ?st = Ret (st', None)" for cs st'
  proof (cases "filter cfg_IsDefault cs")
    case Nil
    then show ?thesis using load_loop_defaults(2) [OF that wf] st(1) by (simp add: filter_empty_conv)
  next
    case (Cons c rest)
    then have "c \<in> set (filter cfg_IsDefault cs)" by simp
    then have "c \<in> set cs" "cfg_IsDefault c" by simp_all
    then show ?thesis using load_loop_sets_default [OF that wf] Cons by auto
  qed
  moreover have "reg_wf st' \<and> (\<forall>k. if k \<in> cfg_Prefix ` set cs
             then (\<exists>r. map_of (registries st') k = Some r \<and>
               newRegistryEndpointFromConfig env nc (last (filter (\<lambda>c. cfg_Prefix c = k) cs)) =
                 Inr (strip (deref st' r)))
             else map_of (registries st') k = (if clear then None else map_of (registries st) k))"
    if "load_loop env nc False cs ?st = Ret (st', None)" for cs st'
    using load_loop_registered [OF that wf] unfolding st(2) by blast
  ultimately show ?thesis by blast
qed

definition sample_config :: "string \<Rightarrow> string \<Rightarrow> bool \<Rightarrow> RegistryConfiguration" where
  "sample_config name prfx dflt =
     \<lparr>cfg_Name = name, cfg_ApiURL = ''https://'' @ prfx, cfg_Ping = False, cfg_Credentials = [],
      cfg_CredsExpire = 0, cfg_TagSortMode = [], cfg_Prefix = prfx, cfg_Insecure = True, cfg_CAFile = [],
      cfg_CAData = [], cfg_DefaultNS = [], cfg_Limit = 0, cfg_IsDefault = dflt\<rparr>"

definition sample_config_env :: config_env where
  "sample_config_env =
     \<lparr>url_Hostname = (\<lambda>_. None), file_exists = (\<lambda>_. False), os_ReadFile = (\<lambda>_. Some []),
      systemCertPool = None, is_PEM = (\<lambda>_. True),
      yaml_UnmarshalStrict = (\<lambda>_. Inr [sample_config ''Quay'' ''quay.io'' True, sample_config ''GCR'' ''gcr.io'' False])\<rparr>"

theorem LoadRegistryConfiguration_registers_witness:
  "LoadRegistryConfiguration list_store sample_config_env () ''registries.conf'' False (initial_state list_store ())
     \<noteq> Panic"
  using LoadRegistryConfiguration_registers [OF initial_state_wf, of list_store sample_config_env "()"
      "''registries.conf''" False list_store "()"] by blast

section \<open>Transports are never shared between secure and insecure endpoints\<close>

lemma hex_no_nul: "CHR 0x00 \<notin> set (hex_EncodeToString bs)"
proof -
  have "CHR 0x00 \<noteq> hex_digit n" if "n < 16" for n
  proof
    assume "CHR 0x00 = hex_digit n"
    then have "hex_digit n = CHR 0x00" by simp
    then have "(of_char (hex_digit n) :: nat) = 0" by simp
    then show False using that by (simp add: hex_digit_def split: if_splits)
  qed
  moreover have "(of_char b :: nat) div 16 < 16" for b :: char
    using nat_of_char_less_256 [of b] by (simp add: less_mult_imp_div_less)
  ultimately show ?thesis by (simp add: hex_EncodeToString_def)
qed

text \<open>The keys of endpoints that are insecure, respectively secure.\<close>

definition key_insecure :: "(string \<Rightarrow> char list) \<Rightarrow> string \<Rightarrow> bool \<Rightarrow> bool" where
  "key_insecure h k b =
     (\<exists>x d. k = x @ CHR 0x00 # (if b then ''true'' else ''false'') @ CHR 0x00 # hex_EncodeToString (h d))"

lemma key_insecure_ep: "key_insecure h (transportCacheKey h ep) (Insecure ep)"
  unfolding key_insecure_def transportCacheKey_def
  by (intro exI [of _ "RegistryAPI ep @ CHR 0x00 # RegistryPrefix ep @ CHR 0x00 # CAFile ep"]
      exI [of _ "CAData ep"]) simp

lemma key_insecure_unique:
  assumes "key_insecure h k b" "key_insecure h k c" shows "b = c"
proof -
  let ?t = "\<lambda>b. if b then ''true'' else ''false''"
  obtain x d y e where k: "k = x @ CHR 0x00 # ?t b @ CHR 0x00 # hex_EncodeToString (h d)"
    "k = y @ CHR 0x00 # ?t c @ CHR 0x00 # hex_EncodeToString (h e)"
    using assms unfolding key_insecure_def by metis
  have hex: "rev (hex_EncodeToString (h d)) @ CHR 0x00 # rev (?t b) @ CHR 0x00 # rev x =
      rev (hex_EncodeToString (h e)) @ CHR 0x00 # rev (?t c) @ CHR 0x00 # rev y"
    using arg_cong [OF trans [OF k(1) [symmetric] k(2)], of rev] by simp
  have flag: "rev (?t b) @ CHR 0x00 # rev x = rev (?t c) @ CHR 0x00 # rev y"
    using first_sep_eq [OF hex] hex_no_nul by simp
  have "CHR 0x00 \<notin> set (rev (?t b))" "CHR 0x00 \<notin> set (rev (?t c))" by simp_all
  then have "rev (?t b) = rev (?t c)" using first_sep_eq [OF flag] by blast
  then show ?thesis by (simp split: if_splits)
qed

text \<open>Every cached transport verifies certificates unless its key is that of an insecure endpoint.\<close>

definition transports_ok ::
  "('t, transport) gocache_lib \<Rightarrow> (string \<Rightarrow> char list) \<Rightarrow> 't \<Rightarrow> bool" where
  "transports_ok lib h tc =
     (\<forall>k tr. gc_Get lib tc k = Some tr \<longrightarrow> key_insecure h k (InsecureSkipVerify tr))"

text \<open>
  \<open>C6\<close>.  The connection pool is shared between endpoints, but TLS verification is never switched off for
  an endpoint that did not ask for it: whatever was cached before, the transport returned for an endpoint
  skips certificate verification exactly when that endpoint is configured as insecure, and the cache stays
  in a state for which this holds.
\<close>

theorem transport_verification_not_shared:
  assumes "gocache_ok lib" "transports_ok lib h tc" "GetTransport lib h ep tc = (tc', tr)"
  shows "InsecureSkipVerify tr = Insecure ep \<and> transports_ok lib h tc'"
proof -
  let ?k = "transportCacheKey h ep"
  let ?new = "\<lparr>RootCAs = rootCAs ep, InsecureSkipVerify = Insecure ep, MaxIdleConns = 20, MaxIdleConnsPerHost = 5\<rparr>"
  have upd: "transports_ok lib h (gc_Set lib c ?k ?new)"
    if "\<forall>k t. gc_Get lib c k = Some t \<longrightarrow> gc_Get lib tc k = Some t" for c
    using assms(2) that key_insecure_ep [of h ep]
    unfolding transports_ok_def gc_Get_Set [OF assms(1)] by auto
  consider (hit) "gc_Get lib tc ?k = Some tr" "tc' = tc"
    | (set) "tr = ?new" "tc' = gc_Set lib tc ?k ?new \<or> tc' = gc_Set lib (gc_Delete lib tc ?k) ?k ?new"
    using assms(3) by (auto simp: GetTransport_def Let_def split: option.splits if_splits)
  then show ?thesis
  proof cases
    case hit
    then show ?thesis
      using assms(2) key_insecure_unique [OF _ key_insecure_ep] unfolding transports_ok_def by blast
  next
    case set
    then show ?thesis using upd [of tc] upd [of "gc_Delete lib tc ?k"] gc_Get_Delete [OF assms(1)] by auto
  qed
qed

lemma dockerio_insecure: "Insecure (dockerio_tweak nc) = False"
  by (simp add: dockerio_tweak_def)

theorem transport_verification_not_shared_witness:
  "InsecureSkipVerify (snd (GetTransport list_store (\<lambda>_. []) (dockerio_tweak ()) (gc_New list_store))) = False"
proof -
  have "transports_ok list_store (\<lambda>_. []) (gc_New list_store)"
    by (simp add: transports_ok_def gc_Get_New [OF list_store_ok])
  then show ?thesis
    using transport_verification_not_shared [OF list_store_ok, of "\<lambda>_. []" "gc_New list_store" "dockerio_tweak ()"]
    by (metis (no_types, lifting) prod.collapse dockerio_insecure)
qed

end
