(* ===== verification/GitCreds.thy ===== *)
theory GitCreds
  imports Endpoints Paths "HOL-Library.Word"
begin

text \<open>
  The git side of a write-back, first part (\<open>ext/git/git.go\<close>, \<open>ext/git/creds.go\<close>): repository URLs, the
  five kinds of credentials and the environment that each gives to a git command, with the temporary
  files and one-time passwords it creates.  The operating system, \<open>net/url\<close>, the password store and the
  token services are parameters.
\<close>

section \<open>Effects\<close>

text \<open>
  Code with effects passes the state of the world on and returns an error or a value.  \<open>NilDeref\<close> is a
  panic, \<open>OsError\<close> an error of the system or of a library, \<open>Wrapped\<close> one with the context that
  \<open>fmt.Errorf\<close> puts before it.
\<close>

datatype git_error =
    OsError string
  | Message string
  | Wrapped string git_error
  | NilDeref

type_synonym ('w, 'a) io = "'w \<Rightarrow> (git_error + 'a) \<times> 'w"

definition io_return :: "'a \<Rightarrow> ('w, 'a) io" where
  "io_return x w = (Inr x, w)"

definition io_fail :: "git_error \<Rightarrow> ('w, 'a) io" where
  "io_fail e w = (Inl e, w)"

definition io_bind :: "('w, 'a) io \<Rightarrow> ('a \<Rightarrow> ('w, 'b) io) \<Rightarrow> ('w, 'b) io" where
  "io_bind m f w = (case m w of (Inl e, w) \<Rightarrow> (Inl e, w) | (Inr x, w) \<Rightarrow> f x w)"

text \<open>The result as a value, and an error with its context.\<close>

definition io_try :: "('w, 'a) io \<Rightarrow> ('w, git_error + 'a) io" where
  "io_try m w = (case m w of (r, w) \<Rightarrow> (Inr r, w))"

definition io_wrap :: "string \<Rightarrow> ('w, 'a) io \<Rightarrow> ('w, 'a) io" where
  "io_wrap context m w = (case m w of (Inl e, w) \<Rightarrow> (Inl (Wrapped context e), w) | (Inr x, w) \<Rightarrow> (Inr x, w))"

definition io_lift :: "git_error + 'a \<Rightarrow> ('w, 'a) io" where
  "io_lift r w = (r, w)"

text \<open>\<open>defer\<close>: the clean-up runs whatever the outcome, and its own error is dropped.\<close>

definition io_finally :: "('w, 'a) io \<Rightarrow> ('w, unit) io \<Rightarrow> ('w, 'a) io" where
  "io_finally m cleanup w = (case m w of (r, w) \<Rightarrow> (r, snd (cleanup w)))"

lemmas io_defs = io_return_def io_fail_def io_bind_def io_try_def io_wrap_def io_lift_def io_finally_def

lemma io_run:
  "m w = (Inr x, w1) \<Longrightarrow> io_bind m f w = f x w1"
  "m w = (Inl e, w1) \<Longrightarrow> io_bind m f w = (Inl e, w1)"
  "m w = (r, w1) \<Longrightarrow> io_bind (io_try m) g w = g r w1"
  by (simp_all add: io_bind_def io_try_def)

datatype file_kind = NotExist | StatError string | RegularFile | Directory

record url =
  u_Scheme :: string
  u_Host :: string
  u_Hostname :: string
  u_Port :: string
  u_Path :: string
  u_User :: "(string \<times> string option) option"
  u_String :: string

text \<open>The installation transport of a GitHub App, as it is cached.\<close>

record gh_transport =
  gt_appID :: int
  gt_appInstallId :: int
  gt_privateKey :: string
  gt_BaseURL :: string
  gt_insecure :: bool
  gt_proxy :: string

record 'w os_lib =
  os_CreateTemp :: "string \<Rightarrow> string \<Rightarrow> ('w, string) io"
  os_WriteString :: "string \<Rightarrow> string \<Rightarrow> ('w, unit) io"
  os_Remove :: "string \<Rightarrow> ('w, unit) io"
  os_MkdirTemp :: "string \<Rightarrow> ('w, string) io"
  os_RemoveAll :: "string \<Rightarrow> ('w, unit) io"
  os_MkdirAll :: "string \<Rightarrow> ('w, unit) io"
  os_ReadFile :: "string \<Rightarrow> ('w, string) io"
  os_WriteFile :: "string \<Rightarrow> string \<Rightarrow> ('w, unit) io"
  fs_Stat :: "string \<Rightarrow> 'w \<Rightarrow> file_kind"
  os_Executable :: "string option"
  os_Environ :: "string list"
  argoio_TempDir :: string
  url_Parse :: "string \<Rightarrow> url option"
  sha256_hex :: "string \<Rightarrow> string"
  SSHKnownHostsDataPath :: string
  CertBundlePath :: "string \<Rightarrow> string option"
  store_Add :: "string \<Rightarrow> string \<Rightarrow> 'w \<Rightarrow> string \<times> 'w"
  store_Remove :: "string \<Rightarrow> 'w \<Rightarrow> 'w"
  gh_CacheGet :: "string \<Rightarrow> 'w \<Rightarrow> gh_transport option"
  gh_CacheSet :: "string \<Rightarrow> gh_transport \<Rightarrow> 'w \<Rightarrow> 'w"
  gh_New :: "gh_transport \<Rightarrow> git_error option"
  gh_Token :: "gh_transport \<Rightarrow> ('w, string) io"
  google_CacheGet :: "string \<Rightarrow> 'w \<Rightarrow> string option"
  google_CacheSet :: "string \<Rightarrow> string \<Rightarrow> 'w \<Rightarrow> 'w"
  google_ClientEmail :: "string \<Rightarrow> git_error + string"
  google_Token :: "string \<Rightarrow> ('w, string) io"

section \<open>Repository URLs\<close>

definition ensurePrefix :: "string \<Rightarrow> string \<Rightarrow> string" where
  "ensurePrefix s pre = (if \<not> strings_HasPrefix s pre then pre @ s else s)"

definition is_hex :: "char \<Rightarrow> bool" where
  "is_hex c = (c \<in> set ''0123456789abcdefABCDEF'')"

definition IsCommitSHA :: "string \<Rightarrow> bool" where
  "IsCommitSHA sha = (length sha = 40 \<and> list_all is_hex sha)"

definition IsTruncatedCommitSHA :: "string \<Rightarrow> bool" where
  "IsTruncatedCommitSHA sha = (length sha \<ge> 7 \<and> list_all is_hex sha)"

text \<open>
  \<open>^(ssh://)?([^/:]*?)@[^@]+$\<close>: the last \<open>@\<close> ends the user, because the rest has none; the second group
  excludes slashes and colons, so the optional first group is taken whenever it is there.
\<close>

definition IsSSHURL :: "string \<Rightarrow> bool \<times> string" where
  "IsSSHURL url =
     (let i = strings_LastIndex url CHR ''@''
      in if i < 0 then (False, [])
         else
           (let user = strings_TrimPrefix (take (nat i) url) ''ssh://'';
                rest = drop (nat i + 1) url
            in if rest \<noteq> [] \<and> CHR ''/'' \<notin> set user \<and> CHR '':'' \<notin> set user then (True, user) else (False, [])))"

definition IsHTTPSURL :: "string \<Rightarrow> bool" where
  "IsHTTPSURL url = strings_HasPrefix url ''https://''"

definition IsHTTPURL :: "string \<Rightarrow> bool" where
  "IsHTTPURL url = strings_HasPrefix url ''http://''"

definition replace_first :: "string \<Rightarrow> char \<Rightarrow> char \<Rightarrow> string" where
  "replace_first s old new =
     (if old \<in> set s then takeWhile (\<lambda>c. c \<noteq> old) s @ new # tl (dropWhile (\<lambda>c. c \<noteq> old) s) else s)"

definition NormalizeGitURL :: "'w os_lib \<Rightarrow> string \<Rightarrow> string" where
  "NormalizeGitURL lib repo =
     (let repo = strings_ToLower (strings_TrimSpace repo);
          repo = (if fst (IsSSHURL repo) \<and> \<not> strings_HasPrefix repo ''ssh://''
                  then ensurePrefix (replace_first repo CHR '':'' CHR ''/'') ''ssh://'' else repo)
      in case url_Parse lib (strings_TrimSuffix repo ''.git'') of
           None \<Rightarrow> []
         | Some u \<Rightarrow> strings_TrimPrefix (u_String u) ''ssh://'')"

definition SameURL :: "'w os_lib \<Rightarrow> string \<Rightarrow> string \<Rightarrow> bool" where
  "SameURL lib leftRepo rightRepo =
     (let normalLeft = NormalizeGitURL lib leftRepo; normalRight = NormalizeGitURL lib rightRepo
      in normalLeft \<noteq> [] \<and> normalRight \<noteq> [] \<and> normalLeft = normalRight)"

text \<open>The endpoint that go-git finds in a URL is a parameter: its host and port.\<close>

definition SSHHostWithPort :: "(string \<Rightarrow> (string \<times> int) option) \<Rightarrow> string \<Rightarrow> string" where
  "SSHHostWithPort endpoint repoURL =
     (if \<not> fst (IsSSHURL repoURL) then []
      else
        (case endpoint repoURL of
           None \<Rightarrow> []
         | Some (ep_Host, ep_Port) \<Rightarrow>
             if ep_Host = [] then []
             else
               (let host = strings_TrimSuffix (strings_TrimPrefix ep_Host ''['') '']'';
                    port = (if ep_Port \<le> 0 then 22 else ep_Port)
                in (if CHR '':'' \<in> set host \<or> CHR ''%'' \<in> set host then ''['' @ host @ '']'' else host)
                   @ '':'' @ show_nat (nat port))))"

section \<open>Credentials\<close>

record HTTPSCreds =
  hc_username :: string
  hc_password :: string
  hc_insecure :: bool
  hc_clientCertData :: string
  hc_clientCertKey :: string
  hc_proxy :: string
  hc_forceBasicAuth :: bool

record SSHCreds =
  sc_sshPrivateKey :: string
  sc_caPath :: string
  sc_insecure :: bool
  sc_proxy :: string

record GitHubAppCreds =
  ga_appID :: int
  ga_appInstallId :: int
  ga_privateKey :: string
  ga_baseURL :: string
  ga_repoURL :: string
  ga_clientCertData :: string
  ga_clientCertKey :: string
  ga_insecure :: bool
  ga_proxy :: string

datatype Creds =
    NopCreds
  | HTTPS HTTPSCreds
  | SSH SSHCreds
  | GitHubApp GitHubAppCreds
  | GoogleCloud "string option"

definition NewHTTPSCreds ::
  "string \<Rightarrow> string \<Rightarrow> string \<Rightarrow> string \<Rightarrow> bool \<Rightarrow> string \<Rightarrow> bool \<Rightarrow> Creds" where
  "NewHTTPSCreds username password clientCertData clientCertKey insecure proxy forceBasicAuth =
     HTTPS \<lparr>hc_username = username, hc_password = password, hc_insecure = insecure,
            hc_clientCertData = clientCertData, hc_clientCertKey = clientCertKey, hc_proxy = proxy,
            hc_forceBasicAuth = forceBasicAuth\<rparr>"

definition NewSSHCreds :: "string \<Rightarrow> string \<Rightarrow> bool \<Rightarrow> string \<Rightarrow> Creds" where
  "NewSSHCreds sshPrivateKey caPath insecureIgnoreHostKey proxy =
     SSH \<lparr>sc_sshPrivateKey = sshPrivateKey, sc_caPath = caPath, sc_insecure = insecureIgnoreHostKey, sc_proxy = proxy\<rparr>"

definition NewGitHubAppCreds ::
  "int \<Rightarrow> int \<Rightarrow> string \<Rightarrow> string \<Rightarrow> string \<Rightarrow> string \<Rightarrow> string \<Rightarrow> bool \<Rightarrow> string \<Rightarrow> Creds" where
  "NewGitHubAppCreds appID appInstallId privateKey baseURL repoURL clientCertData clientCertKey insecure proxy =
     GitHubApp \<lparr>ga_appID = appID, ga_appInstallId = appInstallId, ga_privateKey = privateKey, ga_baseURL = baseURL,
                ga_repoURL = repoURL, ga_clientCertData = clientCertData, ga_clientCertKey = clientCertKey,
                ga_insecure = insecure, ga_proxy = proxy\<rparr>"

subsection \<open>Temporary files\<close>

definition ASKPASS_NONCE_ENV :: string where
  "ASKPASS_NONCE_ENV = ''ARGOCD_GIT_ASKPASS_NONCE''"

definition githubAccessTokenUsername :: string where
  "githubAccessTokenUsername = ''x-access-token''"

definition forceBasicAuthHeaderEnv :: string where
  "forceBasicAuthHeaderEnv = ''ARGOCD_GIT_AUTH_HEADER''"

definition getGitAskPassEnv :: "'w os_lib \<Rightarrow> string \<Rightarrow> string list" where
  "getGitAskPassEnv lib nonce =
     (case os_Executable lib of
        None \<Rightarrow> []
      | Some cmd \<Rightarrow> [''GIT_ASKPASS='' @ cmd, ASKPASS_NONCE_ENV @ ''='' @ nonce, ''GIT_TERMINAL_PROMPT=0'',
                     ''ARGOCD_BINARY_NAME=argocd-git-ask-pass''])"

fun authFilePaths_Close :: "'w os_lib \<Rightarrow> string list \<Rightarrow> ('w, unit) io" where
  "authFilePaths_Close lib [] = io_return ()"
| "authFilePaths_Close lib (path # f) =
     io_bind (io_try (os_Remove lib path))
       (\<lambda>r. case r of
              Inr _ \<Rightarrow> authFilePaths_Close lib f
            | Inl err \<Rightarrow> io_bind (authFilePaths_Close lib f) (\<lambda>_. io_fail err))"

text \<open>What a \<open>Close\<close> of the returned closer has to undo.\<close>

record closer =
  cl_nonce :: "string option"
  cl_files :: "string list"

definition NopCloser :: closer where
  "NopCloser = \<lparr>cl_nonce = None, cl_files = []\<rparr>"

definition closer_Close :: "'w os_lib \<Rightarrow> closer \<Rightarrow> ('w, unit) io" where
  "closer_Close lib c w =
     authFilePaths_Close lib (cl_files c) (case cl_nonce c of None \<Rightarrow> w | Some n \<Rightarrow> store_Remove lib n w)"

text \<open>The files of a client certificate: when the second cannot be created or a write fails, what is there is removed.\<close>

definition client_cert_files :: "'w os_lib \<Rightarrow> string \<Rightarrow> string \<Rightarrow> ('w, string list \<times> string list) io" where
  "client_cert_files lib certData certKey =
     (if certData \<noteq> [] \<and> certKey \<noteq> [] then
        io_bind (os_CreateTemp lib (argoio_TempDir lib) [])
          (\<lambda>certFile. io_bind (io_try (os_CreateTemp lib (argoio_TempDir lib) []))
             (\<lambda>r. case r of
                Inl err \<Rightarrow> io_bind (io_try (os_Remove lib certFile)) (\<lambda>_. io_fail err)
              | Inr keyFile \<Rightarrow>
                  io_bind (io_try (io_bind (os_WriteString lib certFile certData) (\<lambda>_. os_WriteString lib keyFile certKey)))
                    (\<lambda>r. case r of
                       Inl err \<Rightarrow> io_bind (io_try (authFilePaths_Close lib [certFile, keyFile])) (\<lambda>_. io_fail err)
                     | Inr _ \<Rightarrow> io_return ([certFile, keyFile], [''GIT_SSL_CERT='' @ certFile, ''GIT_SSL_KEY='' @ keyFile]))))
      else io_return ([], []))"

definition no_verify_env :: "bool \<Rightarrow> string list" where
  "no_verify_env insecure = (if insecure then [''GIT_SSL_NO_VERIFY=true''] else [])"

subsection \<open>Tokens\<close>

definition gh_cache_key :: "'w os_lib \<Rightarrow> GitHubAppCreds \<Rightarrow> string" where
  "gh_cache_key lib g =
     sha256_hex lib (ga_privateKey g @ '' '' @ show_int (ga_appID g) @ '' '' @ show_int (ga_appInstallId g) @ '' '' @ ga_baseURL g)"

definition gh_getAccessToken :: "'w os_lib \<Rightarrow> GitHubAppCreds \<Rightarrow> ('w, string) io" where
  "gh_getAccessToken lib g w =
     (case gh_CacheGet lib (gh_cache_key lib g) w of
        Some t \<Rightarrow> gh_Token lib t w
      | None \<Rightarrow>
          (let baseUrl = (if ga_baseURL g \<noteq> [] then strings_TrimSuffix (ga_baseURL g) ''/'' else ''https://api.github.com'');
               itr = \<lparr>gt_appID = ga_appID g, gt_appInstallId = ga_appInstallId g, gt_privateKey = ga_privateKey g,
                      gt_BaseURL = baseUrl, gt_insecure = ga_insecure g, gt_proxy = ga_proxy g\<rparr>
           in case gh_New lib itr of
                Some err \<Rightarrow> (Inl err, w)
              | None \<Rightarrow> gh_Token lib itr (gh_CacheSet lib (gh_cache_key lib g) itr w)))"

definition google_getUsername :: "'w os_lib \<Rightarrow> string option \<Rightarrow> git_error + string" where
  "google_getUsername lib creds =
     (case creds of
        None \<Rightarrow> Inl (Message ''credentials for Google Cloud Source repositories are invalid'')
      | Some json \<Rightarrow>
          (case google_ClientEmail lib json of
             Inl err \<Rightarrow> Inl (Wrapped ''failed to unmarshal Google Cloud credentials'' err) | Inr email \<Rightarrow> Inr email))"

definition google_getAccessToken :: "'w os_lib \<Rightarrow> string option \<Rightarrow> ('w, string) io" where
  "google_getAccessToken lib creds w =
     (case creds of
        None \<Rightarrow> (Inl (Message ''credentials for Google Cloud Source repositories are invalid''), w)
      | Some json \<Rightarrow>
          (let key = sha256_hex lib json
           in case google_CacheGet lib key w of
                Some ts \<Rightarrow> io_wrap ''failed to get token from Google Cloud token source'' (google_Token lib ts) w
              | None \<Rightarrow> io_wrap ''failed to get get SHA256 hash for Google Cloud credentials'' (google_Token lib json)
                          (google_CacheSet lib key json w)))"

subsection \<open>The environment of a git command\<close>

text \<open>\<open>base64.StdEncoding.EncodeToString\<close>.\<close>

definition base64_chars :: string where
  "base64_chars = ''ABCDEFGHIJKLMNOPQRSTUVWXYZabcdefghijklmnopqrstuvwxyz0123456789+/''"

definition base64_char :: "nat \<Rightarrow> char" where
  "base64_char n = base64_chars ! (n mod 64)"

fun base64_Encode :: "string \<Rightarrow> string" where
  "base64_Encode [] = []"
| "base64_Encode [a] =
     (let x = of_char a in [base64_char (x div 4), base64_char (x * 16), CHR ''='', CHR ''=''])"
| "base64_Encode [a, b] =
     (let x = of_char a; y = of_char b
      in [base64_char (x div 4), base64_char (x * 16 + y div 16), base64_char (y * 4), CHR ''=''])"
| "base64_Encode (a # b # c # s) =
     (let x = of_char a; y = of_char b; z = of_char c
      in [base64_char (x div 4), base64_char (x * 16 + y div 16), base64_char (y * 4 + z div 64), base64_char z]
         @ base64_Encode s)"

definition BasicAuthHeader :: "HTTPSCreds \<Rightarrow> string" where
  "BasicAuthHeader c = ''Authorization: Basic '' @ base64_Encode (hc_username c @ '':'' @ hc_password c)"

definition ask_pass ::
  "'w os_lib \<Rightarrow> string list \<Rightarrow> string list \<Rightarrow> string \<Rightarrow> string \<Rightarrow> ('w, closer \<times> string list) io" where
  "ask_pass lib files env username password w =
     (case store_Add lib username password w of (nonce, w) \<Rightarrow>
        (Inr (\<lparr>cl_nonce = Some nonce, cl_files = files\<rparr>, env @ getGitAskPassEnv lib nonce), w))"

definition HTTPSCreds_Environ :: "'w os_lib \<Rightarrow> HTTPSCreds \<Rightarrow> ('w, closer \<times> string list) io" where
  "HTTPSCreds_Environ lib c =
     io_bind (client_cert_files lib (hc_clientCertData c) (hc_clientCertKey c))
       (\<lambda>(files, certEnv).
          let basic = (if hc_password c \<noteq> [] \<and> hc_forceBasicAuth c
                       then [forceBasicAuthHeaderEnv @ ''='' @ BasicAuthHeader c] else [])
          in ask_pass lib files (no_verify_env (hc_insecure c) @ certEnv @ basic)
               (if hc_username c \<noteq> [] then hc_username c else githubAccessTokenUsername) (hc_password c))"

definition GitHubAppCreds_Environ :: "'w os_lib \<Rightarrow> GitHubAppCreds \<Rightarrow> ('w, closer \<times> string list) io" where
  "GitHubAppCreds_Environ lib g =
     io_bind (gh_getAccessToken lib g)
       (\<lambda>token. io_bind (client_cert_files lib (ga_clientCertData g) (ga_clientCertKey g))
          (\<lambda>(files, certEnv). ask_pass lib files (no_verify_env (ga_insecure g) @ certEnv) githubAccessTokenUsername token))"

definition GoogleCloudCreds_Environ :: "'w os_lib \<Rightarrow> string option \<Rightarrow> ('w, closer \<times> string list) io" where
  "GoogleCloudCreds_Environ lib creds =
     io_bind (io_wrap ''failed to get username from creds'' (io_lift (google_getUsername lib creds)))
       (\<lambda>username. io_bind (io_wrap ''failed to get access token from creds'' (google_getAccessToken lib creds))
          (\<lambda>token. ask_pass lib [] [] username token))"

definition proxy_args :: "url \<Rightarrow> string list" where
  "proxy_args u = [''-o'', ''ProxyCommand='' @ [CHR 0x27] @ ''connect-proxy -S '' @ u_Hostname u @ '':'' @ u_Port u @ '' -5 %h %p'' @ [CHR 0x27]]"

definition proxy_env :: "url \<Rightarrow> string list" where
  "proxy_env u =
     (case u_User u of
        None \<Rightarrow> []
      | Some (user, password) \<Rightarrow>
          [''SOCKS5_USER='' @ user] @ (case password of None \<Rightarrow> [] | Some p \<Rightarrow> [''SOCKS5_PASSWD='' @ p]))"

definition SSHCreds_Environ :: "'w os_lib \<Rightarrow> SSHCreds \<Rightarrow> ('w, closer \<times> string list) io" where
  "SSHCreds_Environ lib c =
     io_bind (os_CreateTemp lib (argoio_TempDir lib) [])
       (\<lambda>file. io_bind (os_WriteString lib file (sc_sshPrivateKey c @ [CHR 0x0A]))
          (\<lambda>_. let args = [''ssh'', ''-i'', file] @
                     (if sc_insecure c then [''-o'', ''StrictHostKeyChecking=no'', ''-o'', ''UserKnownHostsFile=/dev/null'']
                      else [''-o'', ''StrictHostKeyChecking=yes'', ''-o'', ''UserKnownHostsFile='' @ SSHKnownHostsDataPath lib]);
                   env = (if sc_caPath c \<noteq> [] then [''GIT_SSL_CAINFO='' @ sc_caPath c] else []);
                   done = (\<lambda>args proxyEnv. io_return (\<lparr>cl_nonce = None, cl_files = [file]\<rparr>,
                             env @ [''GIT_SSH_COMMAND='' @ strings_Join args '' ''] @ proxyEnv))
               in if sc_proxy c = [] then done args []
                  else
                    (case url_Parse lib (sc_proxy c) of
                       None \<Rightarrow> io_fail (Message ''could not parse proxy URL'')
                     | Some u \<Rightarrow> done (args @ proxy_args u) (proxy_env u))))"

definition Environ :: "'w os_lib \<Rightarrow> Creds \<Rightarrow> ('w, closer \<times> string list) io" where
  "Environ lib creds =
     (case creds of
        NopCreds \<Rightarrow> io_return (NopCloser, [])
      | HTTPS c \<Rightarrow> HTTPSCreds_Environ lib c
      | SSH c \<Rightarrow> SSHCreds_Environ lib c
      | GitHubApp g \<Rightarrow> GitHubAppCreds_Environ lib g
      | GoogleCloud c \<Rightarrow> GoogleCloudCreds_Environ lib c)"

text \<open>The token for an SCM's REST API: only two kinds of credentials have one.\<close>

definition SCMToken :: "'w os_lib \<Rightarrow> Creds \<Rightarrow> ('w, string) io option" where
  "SCMToken lib creds =
     (case creds of HTTPS c \<Rightarrow> Some (io_return (hc_password c)) | GitHubApp g \<Rightarrow> Some (gh_getAccessToken lib g) | _ \<Rightarrow> None)"

definition SCMAPIBaseURL :: "Creds \<Rightarrow> string" where
  "SCMAPIBaseURL creds = (case creds of GitHubApp g \<Rightarrow> ga_baseURL g | _ \<Rightarrow> [])"

subsection \<open>The lifetime of cached tokens\<close>

text \<open>The value that \<open>strconv.Atoi\<close> returns beside an error: zero, or the bound that was exceeded.\<close>

definition atoi_error_value :: "string \<Rightarrow> int" where
  "atoi_error_value s =
     (let neg = (s \<noteq> [] \<and> hd s = CHR ''-'');
          ds = (if s \<noteq> [] \<and> (hd s = CHR ''-'' \<or> hd s = CHR ''+'') then tl s else s)
      in if ds = [] \<or> \<not> list_all is_digit ds then 0 else if neg then - (2 ^ 63) else 2 ^ 63 - 1)"

definition time_Minute :: int where
  "time_Minute = 60000000000"

definition githubAppCredsExp :: "int \<Rightarrow> string \<Rightarrow> int" where
  "githubAppCredsExp dflt val =
     (if val \<noteq> [] then
        (case strconv_Atoi val of
           None \<Rightarrow> sint (word_of_int (atoi_error_value val * time_Minute) :: 64 word)
         | Some qps \<Rightarrow> dflt)
      else dflt)"

text \<open>
  The test of the error is inverted: a value that parses has no effect, and one that does not parse sets
  the lifetime to zero.
\<close>

lemma valid_expiry_ignored: "strconv_Atoi val = Some n \<Longrightarrow> githubAppCredsExp dflt val = dflt"
  by (simp add: githubAppCredsExp_def)

lemma invalid_expiry_is_zero: "githubAppCredsExp dflt ''ten'' = 0"
  by code_simp

section \<open>The URL patterns\<close>

lemma LastIndex_split:
  "c \<notin> set rest \<Longrightarrow> strings_LastIndex (pre @ c # rest) c = int (length pre)"
  by (rule strings_LastIndex_last)

text \<open>\<^const>\<open>IsSSHURL\<close> recognises exactly the strings of the pattern and returns its second group.\<close>

lemma IsSSHURL_pattern:
  "IsSSHURL url = (True, user) \<longleftrightarrow>
     (\<exists>scheme rest. url = scheme @ user @ ''@'' @ rest \<and> (scheme = ''ssh://'' \<or> scheme = [] \<and> \<not> prefix ''ssh://'' user) \<and>
        CHR ''/'' \<notin> set user \<and> CHR '':'' \<notin> set user \<and> rest \<noteq> [] \<and> CHR ''@'' \<notin> set rest)"
  (is "?l = ?r")
proof
  assume ?r
  then obtain scheme rest where url: "url = (scheme @ user) @ CHR ''@'' # rest" and
    s: "scheme = ''ssh://'' \<or> scheme = [] \<and> \<not> prefix ''ssh://'' user" and
    r: "rest \<noteq> []" "CHR ''@'' \<notin> set rest" "CHR ''/'' \<notin> set user" "CHR '':'' \<notin> set user" by auto
  have "strings_LastIndex url CHR ''@'' = int (length (scheme @ user))"
    unfolding url by (rule LastIndex_split [OF r(2)])
  moreover have "strings_TrimPrefix (scheme @ user) ''ssh://'' = user"
    using s by (auto simp: strings_TrimPrefix_def)
  ultimately show ?l using r by (simp add: IsSSHURL_def Let_def url nat_int_add)
next
  assume l: ?l
  then have "\<not> strings_LastIndex url CHR ''@'' < 0" by (auto simp: IsSSHURL_def Let_def split: if_splits)
  then have "CHR ''@'' \<in> set url" using strings_LastIndex_absent by fastforce
  then obtain pre rest where url: "url = pre @ CHR ''@'' # rest" "CHR ''@'' \<notin> set rest"
    using split_list_last by fastforce
  then have "strings_LastIndex url CHR ''@'' = int (length pre)" by (simp add: LastIndex_split)
  with l url have u: "user = strings_TrimPrefix pre ''ssh://''" "rest \<noteq> []" "CHR ''/'' \<notin> set user" "CHR '':'' \<notin> set user"
    by (auto simp: IsSSHURL_def Let_def split: if_splits)
  show ?r
  proof (cases "prefix ''ssh://'' pre")
    case True
    with u(1) have "pre = ''ssh://'' @ user" by (auto simp: strings_TrimPrefix_def prefix_def)
    with url u(2-4) show ?thesis by (intro exI [of _ "''ssh://''"] exI [of _ rest]) simp
  next
    case False
    with u(1) have "pre = user" by (simp add: strings_TrimPrefix_def)
    with False url u(2-4) show ?thesis by (intro exI [of _ "[]"] exI [of _ rest]) simp
  qed
qed

section \<open>What an environment leaves behind\<close>

text \<open>
  The documented behaviour of temporary files and of the password store, over an abstract view of the
  world: the temporary files that exist and the one-time passwords that are live.
\<close>

definition keeps :: "('w \<Rightarrow> string set) \<Rightarrow> ('w \<Rightarrow> string set) \<Rightarrow> ('w, 'a) io \<Rightarrow> bool" where
  "keeps files nonces m = (\<forall>w. files (snd (m w)) = files w \<and> nonces (snd (m w)) = nonces w)"

definition os_ok :: "'w os_lib \<Rightarrow> ('w \<Rightarrow> string set) \<Rightarrow> ('w \<Rightarrow> string set) \<Rightarrow> bool" where
  "os_ok lib files nonces =
     ((\<forall>d p w. nonces (snd (os_CreateTemp lib d p w)) = nonces w \<and>
         (case os_CreateTemp lib d p w of
            (Inl e, w') \<Rightarrow> files w' = files w
          | (Inr f, w') \<Rightarrow> f \<notin> files w \<and> files w' = insert f (files w))) \<and>
      (\<forall>f s. keeps files nonces (os_WriteString lib f s)) \<and>
      (\<forall>f w. f \<in> files w \<longrightarrow>
         (\<exists>w'. os_Remove lib f w = (Inr (), w') \<and> files w' = files w - {f} \<and> nonces w' = nonces w)) \<and>
      (\<forall>u p w. fst (store_Add lib u p w) \<notin> nonces w \<and> files (snd (store_Add lib u p w)) = files w \<and>
         nonces (snd (store_Add lib u p w)) = insert (fst (store_Add lib u p w)) (nonces w)) \<and>
      (\<forall>n w. files (store_Remove lib n w) = files w \<and> nonces (store_Remove lib n w) = nonces w - {n}) \<and>
      (\<forall>k t w. files (gh_CacheSet lib k t w) = files w \<and> nonces (gh_CacheSet lib k t w) = nonces w) \<and>
      (\<forall>t. keeps files nonces (gh_Token lib t)) \<and>
      (\<forall>k t w. files (google_CacheSet lib k t w) = files w \<and> nonces (google_CacheSet lib k t w) = nonces w) \<and>
      (\<forall>t. keeps files nonces (google_Token lib t)))"

lemma keeps_rules:
  "keeps files nonces (io_return x)" "keeps files nonces (io_fail e)" "keeps files nonces (io_lift r)"
  "keeps files nonces m \<Longrightarrow> keeps files nonces (io_try m)"
  "keeps files nonces m \<Longrightarrow> keeps files nonces (io_wrap c m)"
  by (auto simp: keeps_def io_defs split: prod.splits sum.splits) (metis snd_conv)+

lemma keeps_bind:
  "keeps files nonces m \<Longrightarrow> (\<And>x. keeps files nonces (f x)) \<Longrightarrow> keeps files nonces (io_bind m f)"
  by (auto simp: keeps_def io_bind_def split: prod.splits sum.splits) (metis snd_conv)+

lemma os_okD:
  assumes "os_ok lib files nonces"
  shows "os_CreateTemp lib d p w = (Inl e, w') \<Longrightarrow> files w' = files w \<and> nonces w' = nonces w"
    and "os_CreateTemp lib d p w = (Inr f, w') \<Longrightarrow> f \<notin> files w \<and> files w' = insert f (files w) \<and> nonces w' = nonces w"
    and "keeps files nonces (os_WriteString lib f s)"
    and "g \<in> files w \<Longrightarrow> \<exists>w'. os_Remove lib g w = (Inr (), w') \<and> files w' = files w - {g} \<and> nonces w' = nonces w"
    and "keeps files nonces (gh_Token lib t)" "keeps files nonces (google_Token lib j)"
  using assms unfolding os_ok_def by (auto split: prod.splits sum.splits) (metis (no_types, lifting) case_prod_conv old.sum.simps(5,6) snd_conv)+

text \<open>The state after the files and the password of a closer were created.\<close>

definition opened ::
  "('w \<Rightarrow> string set) \<Rightarrow> ('w \<Rightarrow> string set) \<Rightarrow> 'w \<Rightarrow> closer \<Rightarrow> 'w \<Rightarrow> bool" where
  "opened files nonces w c w' =
     (distinct (cl_files c) \<and> set (cl_files c) \<inter> files w = {} \<and> files w' = files w \<union> set (cl_files c) \<and>
      (\<forall>n. cl_nonce c = Some n \<longrightarrow> n \<notin> nonces w) \<and> nonces w' = nonces w \<union> set_option (cl_nonce c))"

lemma authFilePaths_Close_spec:
  assumes "os_ok lib files nonces" "distinct fs" "set fs \<subseteq> files w"
  shows "\<exists>w'. authFilePaths_Close lib fs w = (Inr (), w') \<and> files w' = files w - set fs \<and> nonces w' = nonces w"
  using assms(2,3)
proof (induction fs arbitrary: w)
  case (Cons f fs)
  then obtain w1 where w1: "os_Remove lib f w = (Inr (), w1)" "files w1 = files w - {f}" "nonces w1 = nonces w"
    using os_okD(4) [OF assms(1), of f w] by auto
  with Cons.prems have "distinct fs" "set fs \<subseteq> files w1" by auto
  from Cons.IH [OF this] w1 show ?case by (auto simp: io_defs)
qed (simp add: io_defs)

lemma client_cert_files_spec:
  assumes ok: "os_ok lib files nonces"
  shows "case client_cert_files lib certData certKey w of
           (Inl e, w') \<Rightarrow> files w' = files w \<and> nonces w' = nonces w
         | (Inr (fs, env), w') \<Rightarrow> opened files nonces w \<lparr>cl_nonce = None, cl_files = fs\<rparr> w'"
proof (cases "certData \<noteq> [] \<and> certKey \<noteq> []")
  case False
  then show ?thesis by (auto simp: client_cert_files_def io_return_def opened_def)
next
  case True
  let ?new = "os_CreateTemp lib (argoio_TempDir lib) []"
  obtain r1 w1 where 1: "?new w = (r1, w1)" by force
  show ?thesis
  proof (cases r1)
    case (Inl e)
    then show ?thesis using True 1 os_okD(1) [OF ok, of _ _ w e w1] by (simp add: client_cert_files_def io_defs)
  next
    case f: (Inr f)
    with 1 have f1: "f \<notin> files w" "files w1 = insert f (files w)" "nonces w1 = nonces w"
      using os_okD(2) [OF ok] by blast+
    obtain r2 w2 where 2: "?new w1 = (r2, w2)" by force
    show ?thesis
    proof (cases r2)
      case (Inl e)
      with 2 f1 have "files w2 = insert f (files w)" "nonces w2 = nonces w" using os_okD(1) [OF ok] by blast+
      then obtain w3 where "os_Remove lib f w2 = (Inr (), w3)" "files w3 = files w" "nonces w3 = nonces w"
        using os_okD(4) [OF ok, of f w2] f1(1) by auto
      with True 1 2 f Inl show ?thesis by (simp add: client_cert_files_def io_defs)
    next
      case k: (Inr k)
      with 2 f1 have k2: "k \<noteq> f" "k \<notin> files w" "files w2 = insert k (insert f (files w))" "nonces w2 = nonces w"
        using os_okD(2) [OF ok] by blast+
      let ?store = "io_bind (os_WriteString lib f certData) (\<lambda>_. os_WriteString lib k certKey)"
      have "keeps files nonces ?store" by (intro keeps_bind os_okD(3) [OF ok])
      then obtain r3 w3 where 3: "?store w2 = (r3, w3)" "files w3 = files w2" "nonces w3 = nonces w2"
        unfolding keeps_def by (metis surj_pair snd_conv)
      have eq: "client_cert_files lib certData certKey w =
        (case r3 of
           Inl err \<Rightarrow> io_bind (io_try (authFilePaths_Close lib [f, k])) (\<lambda>_. io_fail err) w3
         | Inr _ \<Rightarrow> (Inr ([f, k], [''GIT_SSL_CERT='' @ f, ''GIT_SSL_KEY='' @ k]), w3))"
        unfolding client_cert_files_def
        unfolding if_P [OF True] io_run(1) [where m = ?new, OF 1 [unfolded f]] io_run(3) [where m = ?new, OF 2 [unfolded k]]
          sum.case io_run(3) [where m = ?store, OF 3(1)]
        by (cases r3) (simp_all add: io_return_def)
      show ?thesis
      proof (cases r3)
        case (Inl e)
        have "distinct [f, k]" "set [f, k] \<subseteq> files w3" using 3 k2 by auto
        from authFilePaths_Close_spec [OF ok this] obtain w4 where
          w4: "authFilePaths_Close lib [f, k] w3 = (Inr (), w4)" "files w4 = files w" "nonces w4 = nonces w"
          using 3 k2 f1 by auto
        then show ?thesis unfolding eq Inl sum.case io_run(3) [where m = "authFilePaths_Close lib [f, k]", OF w4(1)] by (simp add: io_fail_def)
      next
        case (Inr u)
        then show ?thesis unfolding eq using 3 k2 f1 by (auto simp: opened_def)
      qed
    qed
  qed
qed

lemma ask_pass_spec:
  assumes "os_ok lib files nonces" "opened files nonces w \<lparr>cl_nonce = None, cl_files = fs\<rparr> w1"
  shows "\<exists>c env' w2. ask_pass lib fs env u p w1 = (Inr (c, env'), w2) \<and> opened files nonces w c w2"
proof -
  obtain n w2 where add: "store_Add lib u p w1 = (n, w2)" by force
  have "\<forall>u p w. fst (store_Add lib u p w) \<notin> nonces w \<and> files (snd (store_Add lib u p w)) = files w \<and>
      nonces (snd (store_Add lib u p w)) = insert (fst (store_Add lib u p w)) (nonces w)"
    using assms(1) unfolding os_ok_def by (elim conjE)
  then have "fst (store_Add lib u p w1) \<notin> nonces w1" "files (snd (store_Add lib u p w1)) = files w1"
    "nonces (snd (store_Add lib u p w1)) = insert (fst (store_Add lib u p w1)) (nonces w1)" by simp_all
  then have "opened files nonces w \<lparr>cl_nonce = Some n, cl_files = fs\<rparr> w2"
    using assms(2) unfolding add opened_def by simp
  then show ?thesis by (simp add: ask_pass_def add)
qed

text \<open>An outcome is clean when it is an error that left nothing behind, or a closer for all that was created.\<close>

definition clean ::
  "('w \<Rightarrow> string set) \<Rightarrow> ('w \<Rightarrow> string set) \<Rightarrow> 'w \<Rightarrow> (git_error + closer \<times> string list) \<times> 'w \<Rightarrow> bool" where
  "clean files nonces w r =
     (case r of
        (Inl e, w') \<Rightarrow> files w' = files w \<and> nonces w' = nonces w
      | (Inr (c, env), w') \<Rightarrow> opened files nonces w c w')"

lemma clean_same: "files w1 = files w \<Longrightarrow> nonces w1 = nonces w \<Longrightarrow> clean files nonces w1 r = clean files nonces w r"
  by (auto simp: clean_def opened_def split: prod.splits sum.splits)

lemma certs_then_password:
  assumes ok: "os_ok lib files nonces"
  shows "clean files nonces w (io_bind (client_cert_files lib certData certKey) (\<lambda>(fs, env). ask_pass lib fs (f env) u p) w)"
proof -
  obtain r w1 where cc: "client_cert_files lib certData certKey w = (r, w1)" by force
  note spec = client_cert_files_spec [OF ok, where certData = certData and certKey = certKey and w = w, unfolded cc]
  show ?thesis
  proof (cases r)
    case (Inl e)
    with spec cc show ?thesis by (simp add: io_bind_def clean_def)
  next
    case (Inr x)
    then obtain fs env where x: "r = Inr (fs, env)" by (cases x) auto
    with spec have "opened files nonces w \<lparr>cl_nonce = None, cl_files = fs\<rparr> w1" by simp
    from ask_pass_spec [OF ok this] obtain c env' w2 where
      "ask_pass lib fs (f env) u p w1 = (Inr (c, env'), w2)" "opened files nonces w c w2" by blast
    with cc x show ?thesis by (simp add: io_bind_def clean_def)
  qed
qed

lemma keeps_tokens:
  assumes ok: "os_ok lib files nonces"
  shows "keeps files nonces (gh_getAccessToken lib g)" "keeps files nonces (google_getAccessToken lib j)"
proof -
  note t = os_okD(5,6) [OF ok, unfolded keeps_def]
  have c: "files (gh_CacheSet lib k t w) = files w" "nonces (gh_CacheSet lib k t w) = nonces w"
    "files (google_CacheSet lib k' t' w) = files w" "nonces (google_CacheSet lib k' t' w) = nonces w" for k t k' t' w
    using ok by (auto simp: os_ok_def)
  show "keeps files nonces (gh_getAccessToken lib g)"
    unfolding keeps_def gh_getAccessToken_def Let_def using t(1) c by (auto split: option.splits)
  have "files (snd (io_wrap m (google_Token lib t) w)) = files w" "nonces (snd (io_wrap m (google_Token lib t) w)) = nonces w" for m t w
    using keeps_rules(5) [OF os_okD(6) [OF ok]] by (auto simp: keeps_def)
  with c show "keeps files nonces (google_getAccessToken lib j)"
    unfolding keeps_def google_getAccessToken_def Let_def by (auto split: option.splits)
qed

lemma clean_bind:
  assumes "keeps files nonces m" and "\<And>x w'. clean files nonces w' (f x w')"
  shows "clean files nonces w (io_bind m f w)"
proof -
  obtain r w' where r: "m w = (r, w')" "files w' = files w" "nonces w' = nonces w"
    using assms(1) unfolding keeps_def by (metis surj_pair snd_conv)
  show ?thesis
  proof (cases r)
    case (Inl e)
    with r show ?thesis by (simp add: io_bind_def clean_def)
  next
    case (Inr x)
    with r(1) have "io_bind m f w = f x w'" by (simp add: io_bind_def)
    then show ?thesis using assms(2) [of w' x] clean_same [of files w' w nonces, OF r(2,3)] by simp
  qed
qed

text \<open>
  The environment of every kind of credentials creates exactly what its closer removes, or reports an
  error and leaves nothing behind; the exception is an SSH key, whose file stays when the proxy URL does
  not parse.
\<close>

lemma Environ_clean:
  assumes ok: "os_ok lib files nonces" and "\<nexists>c. creds = SSH c"
  shows "clean files nonces w (Environ lib creds w)"
proof (cases creds)
  case NopCreds
  then show ?thesis by (simp add: Environ_def io_return_def opened_def NopCloser_def clean_def)
next
  case (HTTPS c)
  then show ?thesis
    unfolding HTTPS Environ_def Creds.case HTTPSCreds_Environ_def Let_def
    by (intro certs_then_password [OF ok])
next
  case (GitHubApp g)
  show ?thesis
    unfolding GitHubApp Environ_def Creds.case GitHubAppCreds_Environ_def
    by (intro clean_bind keeps_tokens [OF ok] certs_then_password [OF ok])
next
  case (GoogleCloud j)
  have "clean files nonces w (ask_pass lib [] [] u t w)" for u t w
    using ask_pass_spec [OF ok, of w "[]" w "[]" u t] by (auto simp: opened_def clean_def)
  then show ?thesis
    unfolding GoogleCloud Environ_def Creds.case GoogleCloudCreds_Environ_def
    by (intro clean_bind keeps_rules keeps_tokens [OF ok])
qed (use assms(2) in blast)

lemma SSH_Environ_opened:
  assumes ok: "os_ok lib files nonces" and env: "Environ lib (SSH c) w = (Inr (cl, env), w')"
  shows "opened files nonces w cl w'"
proof -
  let ?key = "sc_sshPrivateKey c @ [CHR 0x0A]"
  obtain r w1 where new: "os_CreateTemp lib (argoio_TempDir lib) [] w = (r, w1)" by force
  with env obtain f where r: "r = Inr f" by (cases r) (simp_all add: Environ_def SSHCreds_Environ_def io_bind_def)
  with new have f: "f \<notin> files w" "files w1 = insert f (files w)" "nonces w1 = nonces w" using os_okD(2) [OF ok] by blast+
  obtain r2 w2 where w2: "os_WriteString lib f ?key w1 = (r2, w2)" by force
  then have "files w2 = files w1" "nonces w2 = nonces w1"
    using os_okD(3) [OF ok, of f ?key] unfolding keeps_def by (metis snd_conv)+
  with f have "opened files nonces w \<lparr>cl_nonce = None, cl_files = [f]\<rparr> w2" by (simp add: opened_def)
  moreover have "cl = \<lparr>cl_nonce = None, cl_files = [f]\<rparr>" "w' = w2"
    using env new r w2
    by (cases r2; auto simp: Environ_def SSHCreds_Environ_def io_bind_def io_return_def io_fail_def Let_def split: if_splits option.splits)+
  ultimately show ?thesis by simp
qed

lemma closer_Close_undoes:
  assumes ok: "os_ok lib files nonces" and "opened files nonces w c w1" "files w2 = files w1" "nonces w2 = nonces w1"
  shows "files (snd (closer_Close lib c w2)) = files w \<and> nonces (snd (closer_Close lib c w2)) = nonces w"
proof -
  let ?w = "case cl_nonce c of None \<Rightarrow> w2 | Some n \<Rightarrow> store_Remove lib n w2"
  have "files (store_Remove lib n w2) = files w2" "nonces (store_Remove lib n w2) = nonces w2 - {n}" for n
    using ok by (auto simp: os_ok_def)
  then have w: "files ?w = files w2" "nonces ?w = nonces w"
    using assms(2-4) by (auto simp: opened_def split: option.splits)
  have "distinct (cl_files c)" "set (cl_files c) \<subseteq> files ?w" using assms(2,3) w by (auto simp: opened_def)
  from authFilePaths_Close_spec [OF ok this] show ?thesis
    using w assms(2,3) by (auto simp: closer_Close_def opened_def)
qed

end
