(* ===== verification/GitClient.thy ===== *)
theory GitClient
  imports GitCreds
begin

text \<open>
  The git side of a write-back, second part (\<open>ext/git/exec.go\<close>, \<open>ext/git/client.go\<close>, \<open>ext/git/writer.go\<close>):
  the client that runs the \<open>git\<close> command line.  Running a process, go-git, the reference cache and the proxy
  helper are parameters; event handlers, which only observe, are left out.
\<close>

section \<open>Running commands\<close>

record command =
  cmd_Path :: string
  cmd_Args :: "string list"
  cmd_Dir :: string
  cmd_Env :: "string list"

text \<open>How a process ends: not started, exited with its output and possibly a failure, or killed after a timeout.\<close>

datatype process =
    NotStarted git_error
  | Exited string string "string option"
  | TimedOut string string

datatype repo_state = Opened | RepositoryNotExists | OpenFailed git_error

datatype ref_target = HashReference string | SymbolicReference string

record reference =
  ref_Name :: string
  ref_Short :: string
  ref_Target :: ref_target
  ref_IsBranch :: bool
  ref_IsTag :: bool

record 'w ref_cache =
  rc_GetOrLock :: "string \<Rightarrow> string \<Rightarrow> 'w \<Rightarrow> (string \<times> (git_error + reference list)) \<times> 'w"
  rc_Set :: "string \<Rightarrow> reference list \<Rightarrow> ('w, unit) io"
  rc_Unlock :: "string \<Rightarrow> string \<Rightarrow> ('w, unit) io"

record 'w git_lib =
  gl_os :: "'w os_lib"
  exec_Run :: "command \<Rightarrow> 'w \<Rightarrow> process \<times> 'w"
  proxy_UpsertEnv :: "string list \<Rightarrow> string \<Rightarrow> string list"
  gg_PlainOpen :: "string \<Rightarrow> 'w \<Rightarrow> repo_state"
  gg_PlainInit :: "string \<Rightarrow> ('w, unit) io"
  gg_CreateRemote :: "string \<Rightarrow> string \<Rightarrow> ('w, unit) io"
  gg_List :: "string \<Rightarrow> Creds \<Rightarrow> bool \<Rightarrow> string \<Rightarrow> ('w, reference list) io"
  gl_RefCache :: "'w ref_cache option"
  uuid_New :: "'w \<Rightarrow> string \<times> 'w"
  retryable :: "git_error \<Rightarrow> bool"
  time_Sleep :: "nat \<Rightarrow> 'w \<Rightarrow> 'w"

definition RunCommandExt :: "bool \<Rightarrow> process \<Rightarrow> git_error + string" where
  "RunCommandExt captureStderr p =
     (case p of
        NotStarted err \<Rightarrow> Inl err
      | Exited out err failure \<Rightarrow>
          (let output = strings_TrimSuffix (out @ (if captureStderr then err else [])) [CHR 0x0A]
           in case failure of None \<Rightarrow> Inr output | Some cause \<Rightarrow> Inl (Wrapped cause (OsError (strings_TrimSpace err))))
      | TimedOut out err \<Rightarrow> Inl (Message ''timeout''))"

record nativeGitClient =
  nc_repoURL :: string
  nc_root :: string
  nc_creds :: Creds
  nc_insecure :: bool
  nc_enableLfs :: bool
  nc_loadRefFromCache :: bool
  nc_proxy :: string

definition NewClientExt ::
  "string \<Rightarrow> string \<Rightarrow> Creds \<Rightarrow> bool \<Rightarrow> bool \<Rightarrow> string \<Rightarrow> nativeGitClient" where
  "NewClientExt rawRepoURL root creds insecure enableLfs proxy =
     \<lparr>nc_repoURL = rawRepoURL, nc_root = root, nc_creds = creds, nc_insecure = insecure, nc_enableLfs = enableLfs,
      nc_loadRefFromCache = False, nc_proxy = proxy\<rparr>"

definition NewClient ::
  "'w git_lib \<Rightarrow> string \<Rightarrow> string \<Rightarrow> Creds \<Rightarrow> bool \<Rightarrow> bool \<Rightarrow> string \<Rightarrow> git_error + nativeGitClient" where
  "NewClient lib tempDir rawRepoURL creds insecure enableLfs proxy =
     (let normalizedGitURL = NormalizeGitURL (gl_os lib) rawRepoURL
      in if normalizedGitURL = [] then Inl (Message ''repo URL is invalid'')
         else
           (let root = filepath_Join [tempDir, map (\<lambda>c. if c = CHR ''/'' \<or> c = CHR '':'' then CHR ''_'' else c) normalizedGitURL]
            in if root = tempDir then Inl (Message ''root would be system temp'')
               else Inr (NewClientExt rawRepoURL root creds insecure enableLfs proxy)))"

text \<open>What TLS settings a command gets in its environment.\<close>

definition tls_env :: "'w git_lib \<Rightarrow> nativeGitClient \<Rightarrow> string list" where
  "tls_env lib m =
     (if IsHTTPSURL (nc_repoURL m) then
        (if nc_insecure m then [''GIT_SSL_NO_VERIFY=true'']
         else
           (case url_Parse (gl_os lib) (nc_repoURL m) of
              None \<Rightarrow> []
            | Some u \<Rightarrow>
                (case CertBundlePath (gl_os lib) (u_Host u) of
                   None \<Rightarrow> []
                 | Some caPath \<Rightarrow> if caPath \<noteq> [] then [''GIT_SSL_CAINFO='' @ caPath] else [])))
      else [])"

definition runCmdOutput ::
  "'w git_lib \<Rightarrow> nativeGitClient \<Rightarrow> string \<Rightarrow> string list \<Rightarrow> string list \<Rightarrow> ('w, string) io" where
  "runCmdOutput lib m path args env w =
     (let env = os_Environ (gl_os lib) @ env @ [''HOME=/dev/null'', ''GIT_LFS_SKIP_SMUDGE=1'', ''GIT_TERMINAL_PROMPT=false''] @ tls_env lib m;
          cmd = \<lparr>cmd_Path = path, cmd_Args = args, cmd_Dir = nc_root m, cmd_Env = proxy_UpsertEnv lib env (nc_proxy m)\<rparr>
      in case exec_Run lib cmd w of (p, w) \<Rightarrow> (RunCommandExt False p, w))"

definition runCmd :: "'w git_lib \<Rightarrow> nativeGitClient \<Rightarrow> string list \<Rightarrow> ('w, string) io" where
  "runCmd lib m args = runCmdOutput lib m ''git'' args []"

text \<open>Each header variable in the environment puts an option before the arguments.\<close>

fun basic_auth_args :: "string list \<Rightarrow> string list \<Rightarrow> string list" where
  "basic_auth_args [] args = args"
| "basic_auth_args (e # es) args =
     basic_auth_args es
       (if strings_HasPrefix e (forceBasicAuthHeaderEnv @ ''='')
        then [''--config-env'', ''http.extraHeader='' @ forceBasicAuthHeaderEnv] @ args else args)"

definition runCredentialedCmdWithOutput :: "'w git_lib \<Rightarrow> nativeGitClient \<Rightarrow> string list \<Rightarrow> ('w, string) io" where
  "runCredentialedCmdWithOutput lib m args =
     io_bind (Environ (gl_os lib) (nc_creds m))
       (\<lambda>(closer, environ).
          io_finally (runCmdOutput lib m ''git'' (basic_auth_args environ args) environ) (closer_Close (gl_os lib) closer))"

definition runCredentialedCmd :: "'w git_lib \<Rightarrow> nativeGitClient \<Rightarrow> string list \<Rightarrow> ('w, unit) io" where
  "runCredentialedCmd lib m args = io_bind (runCredentialedCmdWithOutput lib m args) (\<lambda>_. io_return ())"

definition run_git :: "'w git_lib \<Rightarrow> nativeGitClient \<Rightarrow> string list \<Rightarrow> ('w, unit) io" where
  "run_git lib m args = io_bind (runCmd lib m args) (\<lambda>_. io_return ())"

section \<open>The operations of the client\<close>

definition git_Init :: "'w git_lib \<Rightarrow> nativeGitClient \<Rightarrow> ('w, unit) io" where
  "git_Init lib m w =
     (case gg_PlainOpen lib (nc_root m) w of
        Opened \<Rightarrow> (Inr (), w)
      | OpenFailed err \<Rightarrow> (Inl err, w)
      | RepositoryNotExists \<Rightarrow>
          io_bind (io_wrap ''unable to clean repo'' (os_RemoveAll (gl_os lib) (nc_root m)))
            (\<lambda>_. io_bind (os_MkdirAll (gl_os lib) (nc_root m))
              (\<lambda>_. io_bind (gg_PlainInit lib (nc_root m)) (\<lambda>_. gg_CreateRemote lib (nc_root m) (nc_repoURL m)))) w)"

definition LsLargeFiles :: "'w git_lib \<Rightarrow> nativeGitClient \<Rightarrow> ('w, string list) io" where
  "LsLargeFiles lib m =
     io_bind (runCmd lib m [''lfs'', ''ls-files'', ''-n'']) (\<lambda>out. io_return (strings_Split out CHR 0x0A))"

text \<open>After a fetch: an error of the listing of large files is dropped, because it is assigned to a new variable.\<close>

definition lfs_fetch :: "'w git_lib \<Rightarrow> nativeGitClient \<Rightarrow> ('w, unit) io" where
  "lfs_fetch lib m =
     (if nc_enableLfs m then
        io_bind (io_try (LsLargeFiles lib m))
          (\<lambda>r. case r of
                 Inl _ \<Rightarrow> io_return ()
               | Inr largeFiles \<Rightarrow> if length largeFiles > 0 then runCredentialedCmd lib m [''lfs'', ''fetch'', ''--all''] else io_return ())
      else io_return ())"

definition fetch_args :: "string \<Rightarrow> string list \<Rightarrow> string list" where
  "fetch_args revision options = [''fetch'', ''origin''] @ (if revision \<noteq> [] then [revision] else []) @ options"

definition git_Fetch :: "'w git_lib \<Rightarrow> nativeGitClient \<Rightarrow> string \<Rightarrow> ('w, unit) io" where
  "git_Fetch lib m revision =
     io_bind (runCredentialedCmd lib m (fetch_args revision [''--tags'', ''--force'', ''--prune''])) (\<lambda>_. lfs_fetch lib m)"

definition ShallowFetch :: "'w git_lib \<Rightarrow> nativeGitClient \<Rightarrow> string \<Rightarrow> nat \<Rightarrow> ('w, unit) io" where
  "ShallowFetch lib m revision depth =
     io_bind (runCredentialedCmd lib m (fetch_args revision [''--force'', ''--prune'', ''--depth'', show_nat depth]))
       (\<lambda>_. lfs_fetch lib m)"

definition Submodule :: "'w git_lib \<Rightarrow> nativeGitClient \<Rightarrow> ('w, unit) io" where
  "Submodule lib m =
     io_bind (runCredentialedCmd lib m [''submodule'', ''sync'', ''--recursive''])
       (\<lambda>_. runCredentialedCmd lib m [''submodule'', ''update'', ''--init'', ''--recursive''])"

definition has_modules :: "'w git_lib \<Rightarrow> nativeGitClient \<Rightarrow> 'w \<Rightarrow> bool" where
  "has_modules lib m w = (fs_Stat (gl_os lib) (nc_root m @ ''/.gitmodules'') w \<noteq> NotExist)"

definition git_Checkout :: "'w git_lib \<Rightarrow> nativeGitClient \<Rightarrow> string \<Rightarrow> bool \<Rightarrow> ('w, unit) io" where
  "git_Checkout lib m revision submoduleEnabled =
     (let revision = (if revision = [] \<or> revision = ''HEAD'' then ''origin/HEAD'' else revision)
      in io_bind (runCmd lib m [''checkout'', ''--force'', revision])
           (\<lambda>_. io_bind
              (if nc_enableLfs m then
                 io_bind (LsLargeFiles lib m)
                   (\<lambda>largeFiles. if length largeFiles > 0 then run_git lib m [''lfs'', ''checkout''] else io_return ())
               else io_return ())
              (\<lambda>_. io_bind (\<lambda>w. if has_modules lib m w \<and> submoduleEnabled then Submodule lib m w else (Inr (), w))
                (\<lambda>_. run_git lib m [''clean'', ''-ffdx'']))))"

definition LsFiles :: "'w git_lib \<Rightarrow> nativeGitClient \<Rightarrow> string \<Rightarrow> ('w, string list) io" where
  "LsFiles lib m path =
     io_bind (runCmd lib m [''ls-files'', ''--full-name'', ''-z'', ''--'', path])
       (\<lambda>out. let ss = strings_Split out CHR 0x00 in io_return (take (length ss - 1) ss))"

definition CommitSHA :: "'w git_lib \<Rightarrow> nativeGitClient \<Rightarrow> ('w, string) io" where
  "CommitSHA lib m = io_bind (runCmd lib m [''rev-parse'', ''HEAD'']) (\<lambda>out. io_return (strings_TrimSpace out))"

definition IsAnnotatedTag :: "'w git_lib \<Rightarrow> nativeGitClient \<Rightarrow> string \<Rightarrow> 'w \<Rightarrow> bool \<times> 'w" where
  "IsAnnotatedTag lib m revision w =
     (case runCmdOutput lib m ''git'' [''describe'', ''--exact-match'', revision] [] w of
        (Inr out, w) \<Rightarrow> (out \<noteq> [], w) | (Inl _, w) \<Rightarrow> (False, w))"

definition ChangedFiles :: "'w git_lib \<Rightarrow> nativeGitClient \<Rightarrow> string \<Rightarrow> string \<Rightarrow> ('w, string list) io" where
  "ChangedFiles lib m revision targetRevision =
     (if revision = targetRevision then io_return []
      else if \<not> IsCommitSHA revision \<or> \<not> IsCommitSHA targetRevision then
        io_fail (Message ''invalid revision provided, must be SHA'')
      else
        io_bind (io_wrap ''failed to diff'' (runCmd lib m [''diff'', ''--name-only'', revision @ ''..'' @ targetRevision]))
          (\<lambda>out. io_return (if out = [] then [] else strings_Split out CHR 0x0A)))"

record WorkingTreeChange =
  wt_Path :: string
  wt_Deleted :: bool

text \<open>The entries of \<open>git status --porcelain -z\<close>; a rename or copy is followed by the path it comes from.\<close>

fun parse_status :: "string list \<Rightarrow> WorkingTreeChange list" where
  "parse_status [] = []"
| "parse_status (e # es) =
     (if length e < 4 then parse_status es
      else
        (let x = e ! 0; y = e ! 1; p = drop 3 e
         in if x = CHR ''R'' \<or> x = CHR ''C'' then
              (case es of
                 origin # rest \<Rightarrow>
                   if origin \<noteq> [] then
                     (if x = CHR ''R'' then [\<lparr>wt_Path = origin, wt_Deleted = True\<rparr>] else []) @
                     \<lparr>wt_Path = p, wt_Deleted = False\<rparr> # parse_status rest
                   else \<lparr>wt_Path = p, wt_Deleted = False\<rparr> # parse_status es
               | [] \<Rightarrow> [\<lparr>wt_Path = p, wt_Deleted = False\<rparr>])
            else \<lparr>wt_Path = p, wt_Deleted = (x = CHR ''D'' \<or> y = CHR ''D'')\<rparr> # parse_status es))"

definition WorkingTreeChanges :: "'w git_lib \<Rightarrow> nativeGitClient \<Rightarrow> ('w, WorkingTreeChange list) io" where
  "WorkingTreeChanges lib m =
     io_bind (io_wrap ''failed to get working tree status''
                (runCmd lib m [''status'', ''--porcelain'', ''--untracked-files=all'', ''-z'']))
       (\<lambda>out. io_return (parse_status (strings_Split out CHR 0x00)))"

section \<open>Remote references\<close>

text \<open>
  The cache hands out a lock to the first client that asks; the client that holds the lock fills the cache
  or releases it.
\<close>

definition list_and_store :: "'w git_lib \<Rightarrow> nativeGitClient \<Rightarrow> (string \<Rightarrow> ('w, reference list) io)" where
  "list_and_store lib m lockId w =
     (let release = (\<lambda>w. case gl_RefCache lib of
                           Some c \<Rightarrow> if nc_loadRefFromCache m then snd (rc_Unlock c (nc_repoURL m) lockId w) else w | None \<Rightarrow> w)
      in case gg_List lib (nc_repoURL m) (nc_creds m) (nc_insecure m) (nc_proxy m) w of
           (Inl err, w) \<Rightarrow> (Inl err, release w)
         | (Inr res, w) \<Rightarrow>
             (case gl_RefCache lib of
                None \<Rightarrow> (Inr res, w)
              | Some c \<Rightarrow>
                  (case rc_Set c (nc_repoURL m) res w of
                     (Inl _, w) \<Rightarrow> (Inr res, release w) | (Inr _, w) \<Rightarrow> (Inr res, w))))"

definition getRefs :: "'w git_lib \<Rightarrow> nativeGitClient \<Rightarrow> ('w, reference list) io" where
  "getRefs lib m w =
     (case uuid_New lib w of (myLockId, w) \<Rightarrow>
        (case gl_RefCache lib of
           Some c \<Rightarrow>
             (if nc_loadRefFromCache m then
                (case rc_GetOrLock c (nc_repoURL m) myLockId w of ((foundLockId, res), w) \<Rightarrow>
                   if myLockId \<noteq> foundLockId then (res, w) else list_and_store lib m myLockId w)
              else list_and_store lib m myLockId w)
         | None \<Rightarrow> list_and_store lib m myLockId w))"

text \<open>The loop of \<open>lsRemote\<close>: the hashes seen so far and the target of a symbolic reference of that name.\<close>

fun resolve_refs :: "reference list \<Rightarrow> string \<Rightarrow> (string, string) gomap \<Rightarrow> string \<Rightarrow> string + (string, string) gomap \<times> string" where
  "resolve_refs [] revision refToHash refToResolve = Inr (refToHash, refToResolve)"
| "resolve_refs (ref # refs) revision refToHash refToResolve =
     (let named = (ref_Short ref = revision \<or> ref_Name ref = revision)
      in case ref_Target ref of
           HashReference hash \<Rightarrow>
             if named then Inl hash else resolve_refs refs revision (gomap_put (ref_Name ref) hash refToHash) refToResolve
         | SymbolicReference target \<Rightarrow>
             resolve_refs refs revision refToHash (if named then target else refToResolve))"

definition resolve_revision :: "reference list \<Rightarrow> string \<Rightarrow> git_error + string" where
  "resolve_revision refs revision =
     (let revision = (if revision = [] then ''HEAD'' else revision);
          truncated = (if IsTruncatedCommitSHA revision then Inr revision else Inl (Message ''Unable to resolve to a commit SHA''))
      in case resolve_refs refs revision [] [] of
           Inl hash \<Rightarrow> Inr hash
         | Inr (refToHash, refToResolve) \<Rightarrow>
             (if refToResolve \<noteq> [] then (case map_of refToHash refToResolve of Some hash \<Rightarrow> Inr hash | None \<Rightarrow> truncated)
              else truncated))"

definition lsRemote :: "'w git_lib \<Rightarrow> nativeGitClient \<Rightarrow> string \<Rightarrow> ('w, string) io" where
  "lsRemote lib m revision =
     (if IsCommitSHA revision then io_return revision
      else io_bind (getRefs lib m) (\<lambda>refs. io_lift (resolve_revision refs revision)))"

text \<open>The retry loop: \<open>n\<close> attempts are left; only some errors wait, but every error is followed by the next attempt.\<close>

fun ls_remote_loop :: "'w git_lib \<Rightarrow> nativeGitClient \<Rightarrow> string \<Rightarrow> nat \<Rightarrow> nat \<Rightarrow> git_error + string \<Rightarrow> ('w, string) io" where
  "ls_remote_loop lib m revision attempt 0 prev w = (prev, w)"
| "ls_remote_loop lib m revision attempt (Suc n) prev w =
     (case lsRemote lib m revision w of
        (Inr res, w) \<Rightarrow> (Inr res, w)
      | (Inl err, w) \<Rightarrow>
          ls_remote_loop lib m revision (Suc attempt) n (Inl err) (if retryable lib err then time_Sleep lib attempt w else w))"

definition maxAttemptsCount :: "string \<Rightarrow> nat go" where
  "maxAttemptsCount countStr =
     (if countStr \<noteq> [] then (case strconv_Atoi countStr of None \<Rightarrow> Panic | Some cnt \<Rightarrow> Ret (nat (max cnt 1))) else Ret 1)"

definition LsRemote :: "'w git_lib \<Rightarrow> nativeGitClient \<Rightarrow> nat \<Rightarrow> string \<Rightarrow> ('w, string) io" where
  "LsRemote lib m attempts revision = ls_remote_loop lib m revision 0 attempts (Inr [])"

definition LsRefs :: "'w git_lib \<Rightarrow> nativeGitClient \<Rightarrow> ('w, string list \<times> string list) io" where
  "LsRefs lib m =
     io_bind (getRefs lib m)
       (\<lambda>refs. io_return (go_sort (<) (map ref_Short (filter ref_IsBranch refs)),
                           go_sort (<) (map ref_Short (filter (\<lambda>r. \<not> ref_IsBranch r \<and> ref_IsTag r) refs))))"

section \<open>Writing\<close>

record CommitOptions =
  co_CommitMessageText :: string
  co_CommitMessagePath :: string
  co_SigningKey :: string
  co_SigningMethod :: string
  co_SignOff :: bool

definition commit_args :: "string \<Rightarrow> CommitOptions \<Rightarrow> string list" where
  "commit_args pathSpec opts =
     (if co_SigningMethod opts \<noteq> [] then [''-c'', ''gpg.format='' @ co_SigningMethod opts] else []) @ [''commit''] @
     (if pathSpec = [] \<or> pathSpec = ''*'' then [''-a''] else []) @
     (if co_SigningKey opts \<noteq> [] then [''-S'' @ co_SigningKey opts] else []) @
     (if co_SignOff opts then [''-s''] else []) @
     (if co_CommitMessageText opts \<noteq> [] then [''-m'', co_CommitMessageText opts]
      else if co_CommitMessagePath opts \<noteq> [] then [''-F'', co_CommitMessagePath opts]
      else [''-m'', ''Update parameters''])"

definition git_Commit :: "'w git_lib \<Rightarrow> nativeGitClient \<Rightarrow> string \<Rightarrow> CommitOptions \<Rightarrow> ('w, unit) io" where
  "git_Commit lib m pathSpec opts = run_git lib m (commit_args pathSpec opts)"

definition git_Branch :: "'w git_lib \<Rightarrow> nativeGitClient \<Rightarrow> string \<Rightarrow> string \<Rightarrow> ('w, unit) io" where
  "git_Branch lib m sourceBranch targetBranch =
     io_bind (if sourceBranch \<noteq> [] then io_wrap ''could not checkout source branch'' (run_git lib m [''checkout'', sourceBranch])
              else io_return ())
       (\<lambda>_. io_wrap ''could not create new branch'' (run_git lib m [''branch'', targetBranch]))"

definition git_Push :: "'w git_lib \<Rightarrow> nativeGitClient \<Rightarrow> string \<Rightarrow> string \<Rightarrow> bool \<Rightarrow> ('w, unit) io" where
  "git_Push lib m remote branch force =
     io_wrap ''could not push'' (runCredentialedCmd lib m ([''push''] @ (if force then [''-f''] else []) @ [remote, branch]))"

definition git_Add :: "'w git_lib \<Rightarrow> nativeGitClient \<Rightarrow> string \<Rightarrow> ('w, unit) io" where
  "git_Add lib m path = runCredentialedCmd lib m [''add'', path]"

fun head_branch :: "string list \<Rightarrow> string option" where
  "head_branch [] = None"
| "head_branch (l # ls) =
     (let l = strings_TrimSpace l; b = strings_SplitN l CHR '':'' 2
      in if strings_HasPrefix l ''HEAD branch:'' \<and> length b = 2 then Some (strings_TrimSpace (b ! 1)) else head_branch ls)"

definition SymRefToBranch :: "'w git_lib \<Rightarrow> nativeGitClient \<Rightarrow> string \<Rightarrow> ('w, string) io" where
  "SymRefToBranch lib m symRef =
     io_bind (io_wrap ''error running git'' (runCredentialedCmdWithOutput lib m [''remote'', ''show'', ''origin'']))
       (\<lambda>output. case head_branch (strings_Split output CHR 0x0A) of
                    Some b \<Rightarrow> io_return b | None \<Rightarrow> io_fail (Message ''no default branch found in remote''))"

definition git_Config :: "'w git_lib \<Rightarrow> nativeGitClient \<Rightarrow> string \<Rightarrow> string \<Rightarrow> ('w, unit) io" where
  "git_Config lib m username email =
     io_bind (io_wrap ''could not set git username'' (run_git lib m [''config'', ''user.name'', username]))
       (\<lambda>_. io_wrap ''could not set git email'' (run_git lib m [''config'', ''user.email'', email]))"

section \<open>The client interface\<close>

text \<open>The methods of \<open>git.Client\<close> that a write-back uses, and the command-line client as an instance.\<close>

record 'w Client =
  cl_Root :: string
  cl_Init :: "('w, unit) io"
  cl_ShallowFetch :: "string \<Rightarrow> nat \<Rightarrow> ('w, unit) io"
  cl_Checkout :: "string \<Rightarrow> bool \<Rightarrow> ('w, unit) io"
  cl_CommitSHA :: "('w, string) io"
  cl_WorkingTreeChanges :: "('w, WorkingTreeChange list) io"
  cl_Commit :: "string \<Rightarrow> CommitOptions \<Rightarrow> ('w, unit) io"
  cl_Branch :: "string \<Rightarrow> string \<Rightarrow> ('w, unit) io"
  cl_Push :: "string \<Rightarrow> string \<Rightarrow> bool \<Rightarrow> ('w, unit) io"
  cl_Add :: "string \<Rightarrow> ('w, unit) io"
  cl_SymRefToBranch :: "string \<Rightarrow> ('w, string) io"
  cl_Config :: "string \<Rightarrow> string \<Rightarrow> ('w, unit) io"

definition native_client :: "'w git_lib \<Rightarrow> nativeGitClient \<Rightarrow> 'w Client" where
  "native_client lib m =
     \<lparr>cl_Root = nc_root m, cl_Init = git_Init lib m, cl_ShallowFetch = ShallowFetch lib m, cl_Checkout = git_Checkout lib m,
      cl_CommitSHA = CommitSHA lib m, cl_WorkingTreeChanges = WorkingTreeChanges lib m, cl_Commit = git_Commit lib m,
      cl_Branch = git_Branch lib m, cl_Push = git_Push lib m, cl_Add = git_Add lib m,
      cl_SymRefToBranch = SymRefToBranch lib m, cl_Config = git_Config lib m\<rparr>"

section \<open>Secrets do not stay behind\<close>

text \<open>
  \<open>C22\<close>.  Running git with credentials leaves no secret behind: whatever the command does, and whether it
  fails or not, the temporary files with keys and certificates and the one-time passwords that were made for
  it are gone afterwards, and no others are touched.  For an SSH key this needs the environment to be built;
  when it is not (the proxy URL does not parse, or the write fails) the file with the key stays.
\<close>

theorem credentials_cleaned_up:
  assumes ok: "os_ok (gl_os lib) files nonces"
    and run: "\<And>cmd w. files (snd (exec_Run lib cmd w)) = files w" "\<And>cmd w. nonces (snd (exec_Run lib cmd w)) = nonces w"
    and ssh: "(\<nexists>c. nc_creds m = SSH c) \<or> (\<exists>x w1. Environ (gl_os lib) (nc_creds m) w = (Inr x, w1))"
  shows "files (snd (runCredentialedCmd lib m args w)) = files w \<and> nonces (snd (runCredentialedCmd lib m args w)) = nonces w"
proof -
  let ?os = "gl_os lib" and ?run = "runCredentialedCmdWithOutput lib m args"
  obtain r w1 where env: "Environ ?os (nc_creds m) w = (r, w1)" by force
  have snd_eq: "snd (runCredentialedCmd lib m args w) = snd (?run w)"
    by (auto simp: runCredentialedCmd_def io_bind_def io_return_def split: prod.splits sum.splits)
  have cleaned: "clean files nonces w (r, w1)" if "\<nexists>c. nc_creds m = SSH c"
    using Environ_clean [OF ok that, of w] env by simp
  show ?thesis
  proof (cases r)
    case (Inl e)
    with ssh env cleaned have "files w1 = files w" "nonces w1 = nonces w" by (auto simp: clean_def)
    then show ?thesis unfolding snd_eq by (simp add: runCredentialedCmdWithOutput_def io_bind_def env Inl)
  next
    case (Inr x)
    then obtain c environ where x: "r = Inr (c, environ)" by (cases x) auto
    have op: "opened files nonces w c w1"
    proof (cases "\<exists>c. nc_creds m = SSH c")
      case True
      then obtain k where "nc_creds m = SSH k" by blast
      with env x show ?thesis using SSH_Environ_opened [OF ok, of k w c environ w1] by simp
    next
      case False
      with cleaned x show ?thesis by (simp add: clean_def)
    qed
    obtain r2 w2 where cmd: "runCmdOutput lib m ''git'' (basic_auth_args environ args) environ w1 = (r2, w2)" by force
    have "files w2 = files w1" "nonces w2 = nonces w1"
      using run cmd unfolding runCmdOutput_def Let_def by (auto split: prod.splits) (metis snd_conv)+
    note undo = closer_Close_undoes [OF ok op this]
    have "snd (?run w) = snd (closer_Close ?os c w2)"
      using env x cmd by (simp add: runCredentialedCmdWithOutput_def io_bind_def io_finally_def)
    with undo show ?thesis unfolding snd_eq by simp
  qed
qed

text \<open>The other half of the SSH case: the key has been written and nothing removes it.\<close>

lemma ssh_key_file_stays:
  assumes "os_CreateTemp lib (argoio_TempDir lib) [] w = (Inr f, w1)"
    and "os_WriteString lib f (sc_sshPrivateKey c @ [CHR 0x0A]) w1 = (Inr (), w2)"
    and "sc_proxy c \<noteq> []" "url_Parse lib (sc_proxy c) = None"
  shows "Environ lib (SSH c) w = (Inl (Message ''could not parse proxy URL''), w2)"
  using assms by (simp add: Environ_def SSHCreds_Environ_def io_bind_def io_fail_def)

text \<open>A system with a list of temporary files, a list of live passwords and a log of commands.\<close>

record sys =
  sys_files :: "string list"
  sys_nonces :: "string list"
  sys_log :: "string list list"

definition sample_os :: "sys os_lib" where
  "sample_os =
     \<lparr>os_CreateTemp = (\<lambda>d p w. let f = d @ CHR ''/'' # concat (sys_files w) in (Inr f, w\<lparr>sys_files := f # sys_files w\<rparr>)),
      os_WriteString = (\<lambda>f s w. (Inr (), w)),
      os_Remove = (\<lambda>f w. (Inr (), w\<lparr>sys_files := filter (\<lambda>g. g \<noteq> f) (sys_files w)\<rparr>)),
      os_MkdirTemp = (\<lambda>p w. (Inr (''/tmp/'' @ p), w)), os_RemoveAll = (\<lambda>f w. (Inr (), w)), os_MkdirAll = (\<lambda>f w. (Inr (), w)),
      os_ReadFile = (\<lambda>f w. (Inl (OsError ''ENOENT''), w)), os_WriteFile = (\<lambda>f s w. (Inr (), w)),
      fs_Stat = (\<lambda>f w. NotExist), os_Executable = Some ''/bin/updater'', os_Environ = [''PATH=/bin''],
      argoio_TempDir = ''/dev/shm'', url_Parse = (\<lambda>u. None), sha256_hex = (\<lambda>s. s),
      SSHKnownHostsDataPath = ''/ssh/known_hosts'', CertBundlePath = (\<lambda>h. None),
      store_Add = (\<lambda>u p w. let n = CHR ''n'' # concat (sys_nonces w) in (n, w\<lparr>sys_nonces := n # sys_nonces w\<rparr>)),
      store_Remove = (\<lambda>n w. w\<lparr>sys_nonces := filter (\<lambda>x. x \<noteq> n) (sys_nonces w)\<rparr>),
      gh_CacheGet = (\<lambda>k w. None), gh_CacheSet = (\<lambda>k t w. w), gh_New = (\<lambda>t. None), gh_Token = (\<lambda>t w. (Inr ''token'', w)),
      google_CacheGet = (\<lambda>k w. None), google_CacheSet = (\<lambda>k t w. w), google_ClientEmail = (\<lambda>j. Inr ''mail''),
      google_Token = (\<lambda>j w. (Inr ''token'', w))\<rparr>"

definition sample_git :: "sys git_lib" where
  "sample_git =
     \<lparr>gl_os = sample_os,
      exec_Run = (\<lambda>cmd w. (Exited ''M  a.yaml'' [] None, w\<lparr>sys_log := sys_log w @ [cmd_Args cmd]\<rparr>)),
      proxy_UpsertEnv = (\<lambda>env p. env), gg_PlainOpen = (\<lambda>r w. RepositoryNotExists), gg_PlainInit = (\<lambda>r w. (Inr (), w)),
      gg_CreateRemote = (\<lambda>r u w. (Inr (), w)), gg_List = (\<lambda>u c i p w. (Inr [], w)), gl_RefCache = None,
      uuid_New = (\<lambda>w. (''id'', w)), retryable = (\<lambda>e. False), time_Sleep = (\<lambda>n w. w)\<rparr>"

lemma longer_than_concat: "f \<in> set fs \<Longrightarrow> length f \<le> length (concat fs)"
  by (induction fs) auto

lemma sample_os_ok: "os_ok sample_os (set \<circ> sys_files) (set \<circ> sys_nonces)"
proof -
  have fresh: "d @ c # concat fs \<notin> set fs" for d c and fs :: "string list"
  proof
    assume "d @ c # concat fs \<in> set fs"
    from longer_than_concat [OF this] show False by simp
  qed
  show ?thesis
    using fresh [of "[]"] fresh by (auto simp: os_ok_def sample_os_def keeps_def Let_def)
qed

definition sample_client :: "Creds \<Rightarrow> nativeGitClient" where
  "sample_client creds = NewClientExt ''https://git/repo'' ''/tmp/git-web'' creds False False []"

definition sample_ssh :: SSHCreds where
  "sample_ssh = \<lparr>sc_sshPrivateKey = ''KEY'', sc_caPath = [], sc_insecure = False, sc_proxy = []\<rparr>"

theorem credentials_cleaned_up_witness:
  "set (sys_files (snd (runCredentialedCmd sample_git (sample_client (SSH sample_ssh)) [''push''] \<lparr>sys_files = [''a''], sys_nonces = [], sys_log = []\<rparr>))) = {''a''}"
proof -
  let ?w = "\<lparr>sys_files = [''a''], sys_nonces = [], sys_log = []\<rparr>" and ?m = "sample_client (SSH sample_ssh)"
  have os: "gl_os sample_git = sample_os" by (simp add: sample_git_def)
  have "(set \<circ> sys_files) (snd (exec_Run sample_git cmd w)) = (set \<circ> sys_files) w"
    "(set \<circ> sys_nonces) (snd (exec_Run sample_git cmd w)) = (set \<circ> sys_nonces) w" for cmd w
    by (simp_all add: sample_git_def)
  moreover have "isl (fst (Environ (gl_os sample_git) (nc_creds ?m) ?w)) = False" by code_simp
  then have "(\<nexists>c. nc_creds ?m = SSH c) \<or> (\<exists>x w1. Environ (gl_os sample_git) (nc_creds ?m) ?w = (Inr x, w1))"
    by (metis isl_def sum.exhaust surj_pair fst_conv)
  ultimately show ?thesis
    using credentials_cleaned_up [of sample_git "set \<circ> sys_files" "set \<circ> sys_nonces" ?m ?w "[''push'']"] sample_os_ok
    unfolding os by simp
qed

section \<open>The status of the working tree\<close>

datatype status_entry =
    Changed char char string
  | Renamed char string string
  | Copied char string string

text \<open>What \<open>git status --porcelain -z\<close> prints, and what it says about the working tree.\<close>

fun entry_fields :: "status_entry \<Rightarrow> string list" where
  "entry_fields (Changed x y path) = [x # y # CHR '' '' # path]"
| "entry_fields (Renamed y path origin) = [CHR ''R'' # y # CHR '' '' # path, origin]"
| "entry_fields (Copied y path origin) = [CHR ''C'' # y # CHR '' '' # path, origin]"

definition print_status :: "status_entry list \<Rightarrow> string" where
  "print_status es = concat (map (\<lambda>f. f @ [CHR 0x00]) (concat (map entry_fields es)))"

fun entry_changes :: "status_entry \<Rightarrow> WorkingTreeChange list" where
  "entry_changes (Changed x y path) = [\<lparr>wt_Path = path, wt_Deleted = (x = CHR ''D'' \<or> y = CHR ''D'')\<rparr>]"
| "entry_changes (Renamed y path origin) = [\<lparr>wt_Path = origin, wt_Deleted = True\<rparr>, \<lparr>wt_Path = path, wt_Deleted = False\<rparr>]"
| "entry_changes (Copied y path origin) = [\<lparr>wt_Path = path, wt_Deleted = False\<rparr>]"

fun entry_ok :: "status_entry \<Rightarrow> bool" where
  "entry_ok (Changed x y path) = (x \<noteq> CHR ''R'' \<and> x \<noteq> CHR ''C'' \<and> path \<noteq> [] \<and> CHR 0x00 \<notin> set (x # y # path))"
| "entry_ok (Renamed y path origin) = (path \<noteq> [] \<and> origin \<noteq> [] \<and> CHR 0x00 \<notin> set (y # path @ origin))"
| "entry_ok (Copied y path origin) = (path \<noteq> [] \<and> origin \<noteq> [] \<and> CHR 0x00 \<notin> set (y # path @ origin))"

lemma Split_terminated:
  "\<forall>f \<in> set fs. d \<notin> set f \<Longrightarrow> strings_Split (concat (map (\<lambda>f. f @ [d]) fs)) d = fs @ [[]]"
  by (induction fs) (auto simp: strings_Split_append)

lemma parse_entry: "entry_ok e \<Longrightarrow> parse_status (entry_fields e @ fs) = entry_changes e @ parse_status fs"
  by (cases e) (auto simp: Let_def neq_Nil_conv)

lemma fields_no_nul: "list_all entry_ok es \<Longrightarrow> \<forall>f \<in> set (concat (map entry_fields es)). CHR 0x00 \<notin> set f"
proof -
  have "entry_ok e \<Longrightarrow> \<forall>f \<in> set (entry_fields e). CHR 0x00 \<notin> set f" for e by (cases e) auto
  then show "list_all entry_ok es \<Longrightarrow> ?thesis" by (auto simp: list_all_iff)
qed

text \<open>
  The files that an API commit sends are the files that changed: whatever status git reports, for
  paths of any characters but NUL, the list is the changes it describes, in its order - a rename deletes the
  old path and adds the new one, a copy only adds one.
\<close>

theorem status_roundtrip:
  assumes "list_all entry_ok es"
    and "\<And>cmd. exec_Run lib cmd w = (Exited (print_status es) err None, w')"
  shows "WorkingTreeChanges lib m w = (Inr (concat (map entry_changes es)), w')"
proof -
  have "parse_status (concat (map entry_fields es) @ fs) = concat (map entry_changes es) @ parse_status fs" for fs
    using assms(1) by (induction es) (auto simp: parse_entry)
  from this [of "[[]]"] have "parse_status (strings_Split (print_status es) CHR 0x00) = concat (map entry_changes es)"
    using Split_terminated [OF fields_no_nul [OF assms(1)]] by (simp add: print_status_def)
  moreover have "strings_TrimSuffix (print_status es) [CHR 0x0A] = print_status es"
  proof -
    have "\<not> suffix [CHR 0x0A] (concat (map (\<lambda>f. f @ [CHR 0x00]) fs))" for fs
      by (cases fs rule: rev_cases) (auto simp: suffix_def dest: arg_cong [of _ _ last])
    then show ?thesis by (simp add: print_status_def strings_TrimSuffix_def)
  qed
  ultimately show ?thesis
    by (simp add: WorkingTreeChanges_def runCmd_def runCmdOutput_def RunCommandExt_def assms(2) io_defs Let_def)
qed

theorem status_roundtrip_witness:
  "WorkingTreeChanges (sample_git\<lparr>exec_Run := \<lambda>cmd w. (Exited (print_status [Renamed CHR '' '' ''new'' ''old'']) [] None, w)\<rparr>)
     (sample_client NopCreds) \<lparr>sys_files = [], sys_nonces = [], sys_log = []\<rparr> =
   (Inr [\<lparr>wt_Path = ''old'', wt_Deleted = True\<rparr>, \<lparr>wt_Path = ''new'', wt_Deleted = False\<rparr>], \<lparr>sys_files = [], sys_nonces = [], sys_log = []\<rparr>)"
  using status_roundtrip [of "[Renamed CHR '' '' ''new'' ''old'']"
    "sample_git\<lparr>exec_Run := \<lambda>cmd w. (Exited (print_status [Renamed CHR '' '' ''new'' ''old'']) [] None, w)\<rparr>"
    "\<lparr>sys_files = [], sys_nonces = [], sys_log = []\<rparr>" "[]" "\<lparr>sys_files = [], sys_nonces = [], sys_log = []\<rparr>" "sample_client NopCreds"]
  by simp

end
