(* ===== verification/ManifestOpts.thy ===== *)
theory ManifestOpts
  imports Prelude
begin

text \<open>
  Package \<open>options\<close> (\<open>registry-scanner/pkg/options/options.go\<close>): which platforms a manifest must
  offer and whether its metadata is fetched.  The map \<open>platforms\<close> is used as a set; the mutex and
  the logger are left out.
\<close>

record ManifestOptions =
  platforms :: "(string, bool) gomap"
  metadata :: bool

definition NewManifestOptions :: ManifestOptions where
  "NewManifestOptions = \<lparr>platforms = [], metadata = False\<rparr>"

definition PlatformKey :: "string \<Rightarrow> string \<Rightarrow> string \<Rightarrow> string" where
  "PlatformKey os arch variant =
     (let key = os @ ''/'' @ arch in if variant \<noteq> [] then key @ ''/'' @ variant else key)"

definition WantsPlatform :: "ManifestOptions \<Rightarrow> string \<Rightarrow> string \<Rightarrow> string \<Rightarrow> bool" where
  "WantsPlatform mo os arch variant =
     (if platforms mo = [] then True
      else if map_of (platforms mo) (PlatformKey os arch variant) \<noteq> None then True
      else if variant \<noteq> [] then map_of (platforms mo) (PlatformKey os arch []) \<noteq> None
      else False)"

definition WithPlatform :: "ManifestOptions \<Rightarrow> string \<Rightarrow> string \<Rightarrow> string \<Rightarrow> ManifestOptions" where
  "WithPlatform mo os arch variant =
     mo\<lparr>platforms := gomap_put (PlatformKey os arch variant) True (platforms mo)\<rparr>"

definition Platforms :: "ManifestOptions \<Rightarrow> string list" where
  "Platforms mo = (if platforms mo = [] then [] else go_sort (<) (map fst (platforms mo)))"

definition WantsMetadata :: "ManifestOptions \<Rightarrow> bool" where
  "WantsMetadata mo = metadata mo"

definition WithMetadata :: "ManifestOptions \<Rightarrow> bool \<Rightarrow> ManifestOptions" where
  "WithMetadata mo val = mo\<lparr>metadata := val\<rparr>"

section \<open>Lemmas\<close>

lemma WithPlatform_nonempty [simp]: "platforms (WithPlatform mo os arch v) \<noteq> []"
  by (cases "platforms mo") (auto simp: WithPlatform_def split: if_splits)

lemma PlatformKey_inj:
  assumes "PlatformKey os arch v = PlatformKey os' arch' v'"
    and "CHR ''/'' \<notin> set os" "CHR ''/'' \<notin> set os'" "CHR ''/'' \<notin> set arch" "CHR ''/'' \<notin> set arch'"
  shows "os = os' \<and> arch = arch' \<and> v = v'"
proof -
  have split: "strings_Split (PlatformKey os arch v) CHR ''/'' =
      os # arch # (if v = [] then [] else strings_Split v CHR ''/'')"
    if "CHR ''/'' \<notin> set os" "CHR ''/'' \<notin> set arch" for os arch v
    using that by (simp add: PlatformKey_def strings_Split_append strings_Split_no_sep)
  have "os # arch # (if v = [] then [] else strings_Split v CHR ''/'') =
      os' # arch' # (if v' = [] then [] else strings_Split v' CHR ''/'')"
    using split assms by metis
  then have "os = os'" "arch = arch'"
    "strings_Join (if v = [] then [] else strings_Split v CHR ''/'') ''/'' =
     strings_Join (if v' = [] then [] else strings_Split v' CHR ''/'') ''/''"
    by simp_all
  then show ?thesis by (simp split: if_splits)
qed

text \<open>What a set of requested platforms accepts.\<close>

lemma WantsPlatform_iff:
  "platforms mo \<noteq> [] \<Longrightarrow> WantsPlatform mo os arch v \<longleftrightarrow>
     PlatformKey os arch v \<in> fst ` set (platforms mo) \<or> PlatformKey os arch [] \<in> fst ` set (platforms mo) \<and> v \<noteq> []"
  by (auto simp: WantsPlatform_def map_of_eq_None_iff)

lemma platforms_WithPlatform_keys:
  "fst ` set (platforms (WithPlatform mo os arch v)) =
     insert (PlatformKey os arch v) (fst ` set (platforms mo))"
  using gomap_put_keys [of _ True "platforms mo"] by (simp add: WithPlatform_def)

end
