(* ===== verification/Glob.thy ===== *)
theory Glob
  imports Paths
begin

text \<open>
  \<open>filepath.Match\<close> and \<open>utf8.DecodeRune\<close> of Go's standard library, as the sources use them to match
  application names against the patterns of a rule (\<open>pkg/argocd/argocd.go\<close>).  The matcher is the
  library's own algorithm (chunks between stars, no backtracking beyond the last star), because a
  malformed pattern is reported in some positions only.  \<^const>\<open>None\<close> is \<open>filepath.ErrBadPattern\<close>.
\<close>

section \<open>Runes\<close>

definition in_range :: "nat \<Rightarrow> nat \<Rightarrow> char \<Rightarrow> bool" where
  "in_range lo hi c = (lo \<le> of_char c \<and> of_char c \<le> hi)"

text \<open>The low six bits of a continuation byte.\<close>

definition cont_bits :: "char \<Rightarrow> nat" where
  "cont_bits c = of_char c mod 64"

text \<open>
  The first rune of a string and its width in bytes; an ill-formed sequence is \<open>U+FFFD\<close> of width 1,
  and the empty string has width 0.
\<close>

definition utf8_DecodeRune :: "string \<Rightarrow> nat \<times> nat" where
  "utf8_DecodeRune s =
     (case s of
        [] \<Rightarrow> (0xFFFD, 0)
      | a # t \<Rightarrow>
          (let x = of_char a :: nat in
           if x < 0x80 then (x, 1)
           else if in_range 0xC2 0xDF a then
             (case t of b # _ \<Rightarrow> if in_range 0x80 0xBF b then ((x mod 32) * 64 + cont_bits b, 2) else (0xFFFD, 1)
                | _ \<Rightarrow> (0xFFFD, 1))
           else if in_range 0xE0 0xEF a then
             (case t of b # c # _ \<Rightarrow>
                  if in_range (if x = 0xE0 then 0xA0 else 0x80) (if x = 0xED then 0x9F else 0xBF) b
                     \<and> in_range 0x80 0xBF c
                  then ((x mod 16) * 4096 + cont_bits b * 64 + cont_bits c, 3) else (0xFFFD, 1)
                | _ \<Rightarrow> (0xFFFD, 1))
           else if in_range 0xF0 0xF4 a then
             (case t of b # c # d # _ \<Rightarrow>
                  if in_range (if x = 0xF0 then 0x90 else 0x80) (if x = 0xF4 then 0x8F else 0xBF) b
                     \<and> in_range 0x80 0xBF c \<and> in_range 0x80 0xBF d
                  then ((x mod 8) * 262144 + cont_bits b * 4096 + cont_bits c * 64 + cont_bits d, 4)
                  else (0xFFFD, 1)
                | _ \<Rightarrow> (0xFFFD, 1))
           else (0xFFFD, 1)))"

lemma utf8_DecodeRune_pos: "s \<noteq> [] \<Longrightarrow> 0 < snd (utf8_DecodeRune s)"
  by (cases s) (auto simp: utf8_DecodeRune_def Let_def split: list.splits)

section \<open>Chunks of a pattern\<close>

text \<open>\<open>scanChunk\<close>: the length of the chunk before the next star outside of a character class.\<close>

fun scan_len :: "bool \<Rightarrow> string \<Rightarrow> nat" where
  "scan_len inrange [] = 0"
| "scan_len inrange [c] =
     (if c = CHR ''*'' \<and> \<not> inrange then 0 else 1)"
| "scan_len inrange (c # d # s) =
     (if c = CHR 0x5C then 2 + scan_len inrange s
      else if c = CHR ''['' then 1 + scan_len True (d # s)
      else if c = CHR '']'' then 1 + scan_len False (d # s)
      else if c = CHR ''*'' \<and> \<not> inrange then 0
      else 1 + scan_len inrange (d # s))"

definition scanChunk :: "string \<Rightarrow> bool \<times> string \<times> string" where
  "scanChunk pattern =
     (let p = dropWhile (\<lambda>c. c = CHR ''*'') pattern;
          i = scan_len False p
      in (p \<noteq> pattern, take i p, drop i p))"

text \<open>\<open>getEsc\<close>: one possibly escaped rune of a character class.\<close>

definition getEsc :: "string \<Rightarrow> (nat \<times> string) option" where
  "getEsc chunk =
     (case chunk of
        [] \<Rightarrow> None
      | c # cs \<Rightarrow>
          if c = CHR ''-'' \<or> c = CHR '']'' then None
          else
            (let chunk = (if c = CHR 0x5C then cs else chunk)
             in if chunk = [] then None
                else (case utf8_DecodeRune chunk of (r, n) \<Rightarrow>
                        if r = 0xFFFD \<and> n = 1 then None
                        else if drop n chunk = [] then None else Some (r, drop n chunk))))"

lemma length_getEsc: "getEsc chunk = Some (r, chunk') \<Longrightarrow> length chunk' < length chunk"
  using utf8_DecodeRune_pos [of chunk] utf8_DecodeRune_pos [of "tl chunk"]
  by (fastforce simp: getEsc_def Let_def split: list.splits if_splits prod.splits)

text \<open>One range \<open>lo\<close> or \<open>lo-hi\<close> of a character class.\<close>

definition class_range :: "string \<Rightarrow> (nat \<times> nat \<times> string) option" where
  "class_range chunk =
     (case getEsc chunk of
        None \<Rightarrow> None
      | Some (lo, chunk1) \<Rightarrow>
          if chunk1 ! 0 = CHR ''-'' then
            (case getEsc (drop 1 chunk1) of None \<Rightarrow> None | Some (hi, chunk2) \<Rightarrow> Some (lo, hi, chunk2))
          else Some (lo, lo, chunk1))"

lemma length_class_range:
  assumes "class_range chunk = Some (lo, hi, rest)"
  shows "length rest < length chunk"
proof -
  obtain l c where c: "getEsc chunk = Some (l, c)"
    using assms by (auto simp: class_range_def split: option.splits)
  then have "length c < length chunk" by (rule length_getEsc)
  moreover have "length rest < length (drop 1 c)" if "chunk \<noteq> []" "rest \<noteq> c"
    using assms c that
    by (intro length_getEsc [of _ hi]) (auto simp: class_range_def split: option.splits if_splits)
  ultimately show ?thesis by (cases "rest = c"; cases "chunk = []") auto
qed

text \<open>The ranges of a character class up to its closing bracket: whether one contains the rune.\<close>

function class_loop :: "nat \<Rightarrow> string \<Rightarrow> nat \<Rightarrow> bool \<Rightarrow> (bool \<times> string) option" where
  "class_loop r chunk nrange found =
     (if chunk \<noteq> [] \<and> chunk ! 0 = CHR '']'' \<and> nrange > 0 then Some (found, drop 1 chunk)
      else
        (case class_range chunk of
           None \<Rightarrow> None
         | Some (lo, hi, rest) \<Rightarrow> class_loop r rest (nrange + 1) (found \<or> lo \<le> r \<and> r \<le> hi)))"
  by pat_completeness auto
termination
  by (relation "measure (\<lambda>(r, chunk, n, f). length chunk)") (auto intro: length_class_range)

declare class_loop.simps [simp del]

lemma length_class_loop:
  "class_loop r chunk n f = Some (b, rest) \<Longrightarrow> length rest < length chunk"
proof (induction r chunk n f rule: class_loop.induct)
  case (1 r chunk n f)
  show ?case
  proof (cases "chunk \<noteq> [] \<and> chunk ! 0 = CHR '']'' \<and> n > 0")
    case True
    with "1.prems" show ?thesis by (auto simp: class_loop.simps [of r chunk])
  next
    case False
    with "1.prems" obtain lo hi c where c: "class_range chunk = Some (lo, hi, c)"
      and "class_loop r c (n + 1) (f \<or> lo \<le> r \<and> r \<le> hi) = Some (b, rest)"
      by (auto simp: class_loop.simps [of r chunk] split: option.splits)
    with "1.IH" [OF False c refl refl] length_class_range [OF c] show ?thesis by simp
  qed
qed

text \<open>
  \<open>matchChunk\<close>.  After the match has failed the loop goes on to check the syntax of the chunk, and
  no longer reads the name.
\<close>

function match_chunk :: "bool \<Rightarrow> string \<Rightarrow> string \<Rightarrow> (string option) option" where
  "match_chunk failed [] s = Some (if failed then None else Some s)"
| "match_chunk failed (c # chunk) s =
     (let failed = (failed \<or> s = []) in
      if c = CHR ''['' then
        (let dec = utf8_DecodeRune s;
             r = (if failed then 0 else fst dec);
             s' = (if failed then s else drop (snd dec) s);
             negated = (chunk \<noteq> [] \<and> chunk ! 0 = CHR ''^'')
         in case class_loop r (if negated then drop 1 chunk else chunk) 0 False of
              None \<Rightarrow> None
            | Some (found, rest) \<Rightarrow> match_chunk (failed \<or> found = negated) rest s')
      else if c = CHR ''?'' then
        match_chunk (failed \<or> s ! 0 = CHR ''/'') chunk
          (if failed then s else drop (snd (utf8_DecodeRune s)) s)
      else if c = CHR 0x5C then
        (case chunk of
           [] \<Rightarrow> None
         | d # chunk \<Rightarrow> match_chunk (failed \<or> d \<noteq> s ! 0) chunk (if failed then s else drop 1 s))
      else match_chunk (failed \<or> c \<noteq> s ! 0) chunk (if failed then s else drop 1 s))"
  by pat_completeness auto
termination
  by (relation "measure (\<lambda>(f, chunk, s). length chunk)")
    (auto dest!: length_class_loop split: if_splits)

definition matchChunk :: "string \<Rightarrow> string \<Rightarrow> (string option) option" where
  "matchChunk chunk s = match_chunk False chunk s"

text \<open>The search of a chunk behind a star: the first position at which it matches.\<close>

fun star_loop :: "string \<Rightarrow> bool \<Rightarrow> string \<Rightarrow> (string option) option" where
  "star_loop chunk lastc [] = Some None"
| "star_loop chunk lastc (c # name) =
     (if c = CHR ''/'' then Some None
      else
        (case matchChunk chunk name of
           None \<Rightarrow> None
         | Some (Some t) \<Rightarrow> if lastc \<and> t \<noteq> [] then star_loop chunk lastc name else Some (Some t)
         | Some None \<Rightarrow> star_loop chunk lastc name))"

lemma scan_len_pos: "c \<noteq> CHR ''*'' \<Longrightarrow> 0 < scan_len inrange (c # s)"
  by (cases s) auto

lemma length_scanChunk:
  assumes "scanChunk (c # cs) = (star, chunk, rest)"
  shows "length rest < length (c # cs)"
proof -
  let ?p = "dropWhile (\<lambda>c. c = CHR ''*'') (c # cs)"
  have rest: "rest = drop (scan_len False ?p) ?p" using assms by (simp add: scanChunk_def Let_def)
  have len: "length ?p \<le> length (c # cs)" by (rule length_dropWhile_le)
  show ?thesis
  proof (cases "c = CHR ''*''")
    case True
    then have "length ?p \<le> length cs" by (simp add: length_dropWhile_le)
    then show ?thesis using rest by simp
  next
    case False
    then show ?thesis using rest scan_len_pos [of c False cs] by simp
  qed
qed

text \<open>The last loop of \<open>Match\<close>: is the rest of the pattern well-formed?\<close>

function check_rest :: "string \<Rightarrow> bool option" where
  "check_rest [] = Some False"
| "check_rest (c # cs) =
     (case scanChunk (c # cs) of (star, chunk, rest) \<Rightarrow>
        (case matchChunk chunk [] of None \<Rightarrow> None | Some _ \<Rightarrow> check_rest rest))"
  by pat_completeness auto
termination by (relation "measure length") (auto dest!: length_scanChunk [OF sym])

function filepath_Match :: "string \<Rightarrow> string \<Rightarrow> bool option" where
  "filepath_Match [] name = Some (name = [])"
| "filepath_Match (c # cs) name =
     (case scanChunk (c # cs) of (star, chunk, rest) \<Rightarrow>
        if star \<and> chunk = [] then Some (CHR ''/'' \<notin> set name)
        else
          (case matchChunk chunk name of
             None \<Rightarrow> None
           | Some r \<Rightarrow>
               if r \<noteq> None \<and> (r = Some [] \<or> rest \<noteq> []) then filepath_Match rest (the r)
               else if star then
                 (case star_loop chunk (rest = []) name of
                    None \<Rightarrow> None
                  | Some (Some t) \<Rightarrow> filepath_Match rest t
                  | Some None \<Rightarrow> check_rest rest)
               else check_rest rest))"
  by pat_completeness auto
termination
  by (relation "measure (\<lambda>(p, n). length p)") (auto dest!: length_scanChunk [OF sym])

section \<open>What a plain pattern matches\<close>

definition glob_plain :: "string \<Rightarrow> bool" where
  "glob_plain p = (\<forall>c \<in> set p. c \<noteq> CHR ''*'' \<and> c \<noteq> CHR ''?'' \<and> c \<noteq> CHR ''['' \<and> c \<noteq> CHR 0x5C)"

lemma glob_plain_Cons [simp]:
  "glob_plain (c # p) \<longleftrightarrow> c \<noteq> CHR ''*'' \<and> c \<noteq> CHR ''?'' \<and> c \<noteq> CHR ''['' \<and> c \<noteq> CHR 0x5C \<and> glob_plain p"
  by (auto simp: glob_plain_def)

lemma scan_len_plain:
  "glob_plain p \<Longrightarrow> scan_len False (p @ CHR ''*'' # s) = length p"
  "glob_plain p \<Longrightarrow> scan_len False p = length p"
proof (induction p)
  case Nil
  { case 1 then show ?case by (cases s) auto next case 2 then show ?case by simp }
next
  case (Cons c p)
  { case 1 with Cons show ?case by (cases p) auto next case 2 with Cons show ?case by (cases p) auto }
qed

lemma match_chunk_failed: "glob_plain p \<Longrightarrow> match_chunk True p s = Some None"
  by (induction p) (simp_all add: Let_def)

lemma match_chunk_plain:
  "glob_plain p \<Longrightarrow> match_chunk False p s = Some (if prefix p s then Some (drop (length p) s) else None)"
proof (induction p arbitrary: s)
  case (Cons c p)
  then show ?case
    by (cases s; cases "s \<noteq> [] \<and> c = s ! 0") (auto simp: Let_def match_chunk_failed)
qed simp

lemma dropWhile_star_plain: "glob_plain p \<Longrightarrow> dropWhile (\<lambda>c. c = CHR ''*'') (p @ s) = (if p = [] then dropWhile (\<lambda>c. c = CHR ''*'') s else p @ s)"
  by (cases p) auto

text \<open>A pattern without wildcards matches its own text and nothing else.\<close>

lemma filepath_Match_plain: "glob_plain p \<Longrightarrow> filepath_Match p name = Some (name = p)"
proof (cases p)
  case Nil
  then show ?thesis by simp
next
  case (Cons c cs)
  assume plain: "glob_plain p"
  then have "scanChunk p = (False, p, [])"
    using dropWhile_star_plain [of p "[]"] by (simp add: scanChunk_def Let_def scan_len_plain)
  moreover have "matchChunk p name = Some (if prefix p name then Some (drop (length p) name) else None)"
    using plain by (simp add: matchChunk_def match_chunk_plain)
  moreover have "name = p \<longleftrightarrow> prefix p name \<and> drop (length p) name = []"
    by (auto simp: prefix_def)
  ultimately show ?thesis using Cons by auto
qed

text \<open>A literal prefix followed by one star matches every name that begins with it and has no further slash.\<close>

lemma filepath_Match_prefix:
  assumes "glob_plain p" "p \<noteq> []"
  shows "filepath_Match (p @ ''*'') name =
    Some (prefix p name \<and> CHR ''/'' \<notin> set (drop (length p) name))"
proof -
  have unfold: "filepath_Match (p @ ''*'') name =
      (case matchChunk p name of None \<Rightarrow> None
       | Some r \<Rightarrow> if r \<noteq> None then filepath_Match ''*'' (the r) else check_rest ''*'')"
    if "scanChunk (p @ ''*'') = (False, p, ''*'')"
    using that assms(2) by (cases p) (auto split: option.splits)
  have scan: "scanChunk (p @ ''*'') = (False, p, ''*'')"
    using assms dropWhile_star_plain [of p "''*''"] by (simp add: scanChunk_def Let_def scan_len_plain)
  moreover have "matchChunk p name = Some (if prefix p name then Some (drop (length p) name) else None)"
    using assms(1) by (simp add: matchChunk_def match_chunk_plain)
  moreover have "filepath_Match ''*'' s = Some (CHR ''/'' \<notin> set s)" "check_rest ''*'' = Some False" for s
    by (simp_all add: scanChunk_def matchChunk_def)
  ultimately show ?thesis unfolding unfold [OF scan] by (simp only: option.case if_split) auto
qed

end
