(* ===== verification/Versions.thy ===== *)
theory Versions
  imports Images ManifestOpts Glob
begin

text \<open>
  Version constraints and the choice of the newest tag (\<open>registry-scanner/pkg/image/version.go\<close>,
  \<open>options.go\<close>, \<open>matchfunc.go\<close>).  \<open>regexp\<close> is a parameter: a compiler from patterns to matchers (\<^const>\<open>None\<close> for
  a syntax error).  The platform of the running process is a pair of strings.
\<close>

section \<open>Strategies\<close>

datatype UpdateStrategy = StrategySemVer | StrategyNewestBuild | StrategyAlphabetical | StrategyDigest

fun strategy_String :: "UpdateStrategy \<Rightarrow> string" where
  "strategy_String StrategySemVer = ''semver''"
| "strategy_String StrategyNewestBuild = ''newest-build''"
| "strategy_String StrategyAlphabetical = ''alphabetical''"
| "strategy_String StrategyDigest = ''digest''"

definition IsCacheable :: "UpdateStrategy \<Rightarrow> bool" where
  "IsCacheable us = (case us of StrategyDigest \<Rightarrow> False | _ \<Rightarrow> True)"

definition NeedsMetadata :: "UpdateStrategy \<Rightarrow> bool" where
  "NeedsMetadata us = (case us of StrategyNewestBuild \<Rightarrow> True | _ \<Rightarrow> False)"

definition NeedsVersionConstraint :: "UpdateStrategy \<Rightarrow> bool" where
  "NeedsVersionConstraint us = (case us of StrategyDigest \<Rightarrow> True | _ \<Rightarrow> False)"

definition WantsOnlyConstraintTag :: "UpdateStrategy \<Rightarrow> bool" where
  "WantsOnlyConstraintTag us = (case us of StrategyDigest \<Rightarrow> True | _ \<Rightarrow> False)"

definition ParseUpdateStrategy :: "string \<Rightarrow> UpdateStrategy" where
  "ParseUpdateStrategy val =
     (let v = strings_ToLower val
      in if v = ''semver'' then StrategySemVer
         else if v = ''latest'' then StrategyNewestBuild
         else if v = ''newest-build'' then StrategyNewestBuild
         else if v = ''name'' then StrategyAlphabetical
         else if v = ''alphabetical'' then StrategyAlphabetical
         else if v = ''digest'' then StrategyDigest
         else StrategySemVer)"

section \<open>Match functions\<close>

text \<open>
  The argument of a match function is of Go's type \<open>any\<close>: nil, the empty string, or a compiled
  regular expression.
\<close>

datatype match_arg = ArgNil | ArgString string | ArgRegexp "string \<Rightarrow> bool"

datatype match_fn = MatchFuncAny | MatchFuncNone | MatchFuncRegexp

fun run_match :: "match_fn \<Rightarrow> string \<Rightarrow> match_arg \<Rightarrow> bool" where
  "run_match MatchFuncAny tagName args = True"
| "run_match MatchFuncNone tagName args = False"
| "run_match MatchFuncRegexp tagName args =
     (case args of ArgRegexp pattern \<Rightarrow> pattern tagName | _ \<Rightarrow> False)"

definition ParseMatch :: "(string \<Rightarrow> (string \<Rightarrow> bool) option) \<Rightarrow> string \<Rightarrow> match_fn \<times> match_arg" where
  "ParseMatch regexp_Compile val =
     (if val = [] then (MatchFuncAny, ArgString [])
      else if strings_ToLower val = ''any'' then (MatchFuncAny, ArgNil)
      else
        (let opt = strings_SplitN val CHR '':'' 2
         in if length opt \<noteq> 2 then (MatchFuncNone, ArgNil)
            else if strings_ToLower (opt ! 0) = ''regexp'' then
              (case regexp_Compile (opt ! 1) of
                 None \<Rightarrow> (MatchFuncNone, ArgNil)
               | Some re \<Rightarrow> (MatchFuncRegexp, ArgRegexp re))
            else (MatchFuncNone, ArgNil)))"

section \<open>Platforms\<close>

definition ParsePlatform :: "string \<Rightarrow> (string \<times> string \<times> string) option" where
  "ParsePlatform platformID =
     (let p = strings_SplitN platformID CHR ''/'' 3
      in if length p < 2 then None
         else Some (p ! 0, p ! 1, if length p = 3 then p ! 2 else []))"

text \<open>One round of the loop over the requested platforms.\<close>

definition add_platform :: "string \<Rightarrow> ManifestOptions \<Rightarrow> ManifestOptions" where
  "add_platform ps opts =
     (case ParsePlatform (strings_TrimSpace ps) of
        None \<Rightarrow> WithPlatform opts ps [] []
      | Some (os, arch, variant) \<Rightarrow> WithPlatform opts os arch variant)"

definition GetPlatformOptions :: "string \<times> string \<Rightarrow> bool \<Rightarrow> string list \<Rightarrow> ManifestOptions" where
  "GetPlatformOptions runtime ignoreRuntimePlatform plats =
     (if plats = [] then
        (if \<not> ignoreRuntimePlatform then
           (let os = fst runtime; goarch = snd runtime;
                a = strings_SplitN goarch CHR ''/'' 2;
                arch = (if strings_Contains goarch ''/'' then a ! 0 else goarch);
                variant = (if strings_Contains goarch ''/'' then a ! 1 else [])
            in WithPlatform NewManifestOptions os arch variant)
         else NewManifestOptions)
      else fold add_platform plats NewManifestOptions)"

section \<open>Version constraints\<close>

record VersionConstraint =
  Constraint :: string
  MatchFunc :: "match_fn option"
  MatchArgs :: match_arg
  IgnoreList :: "string list"
  Strategy :: UpdateStrategy
  Options :: ManifestOptions

definition NewVersionConstraint :: VersionConstraint where
  "NewVersionConstraint =
     \<lparr>Constraint = [], MatchFunc = Some MatchFuncNone, MatchArgs = ArgNil, IgnoreList = [],
      Strategy = StrategySemVer, Options = NewManifestOptions\<rparr>"

definition IsTagIgnored :: "VersionConstraint \<Rightarrow> string \<Rightarrow> bool" where
  "IsTagIgnored vc t = list_ex (\<lambda>p. filepath_Match p t = Some True) (IgnoreList vc)"

datatype version_error = InvalidConstraint string

text \<open>
  The tags in the order of the strategy; \<open>Panic\<close> is a nil \<open>TagDate\<close>.
\<close>

definition available_tags :: "('v, 'c) semver_lib \<Rightarrow> VersionConstraint \<Rightarrow> ImageTagList \<Rightarrow> ImageTag list go" where
  "available_tags lib vc tagList =
     (case Strategy vc of
        StrategySemVer \<Rightarrow> (case SortBySemVer lib tagList of None \<Rightarrow> Panic | Some ts \<Rightarrow> Ret ts)
      | StrategyAlphabetical \<Rightarrow> Ret (SortAlphabetically tagList)
      | StrategyNewestBuild \<Rightarrow> (case SortByDate tagList of None \<Rightarrow> Panic | Some ts \<Rightarrow> Ret ts)
      | StrategyDigest \<Rightarrow> Ret (SortAlphabetically tagList))"

text \<open>Whether the loop appends a tag to the candidates; \<open>con\<close> is the parsed semver constraint.\<close>

definition consider_tag :: "('v, 'c) semver_lib \<Rightarrow> VersionConstraint \<Rightarrow> 'c option \<Rightarrow> ImageTag \<Rightarrow> bool" where
  "consider_tag lib vc con t =
     (case Strategy vc of
        StrategySemVer \<Rightarrow>
          (case sv_NewVersion lib (TagName t) of
             None \<Rightarrow> False
           | Some ver \<Rightarrow> (case con of None \<Rightarrow> True | Some c \<Rightarrow> sv_Check lib c ver))
      | StrategyDigest \<Rightarrow> TagName t = Constraint vc
      | _ \<Rightarrow> True)"

fun consider_loop :: "(ImageTag \<Rightarrow> bool) \<Rightarrow> ImageTag list \<Rightarrow> ImageTag list \<Rightarrow> ImageTag list" where
  "consider_loop ok [] considerTags = considerTags"
| "consider_loop ok (t # ts) considerTags =
     consider_loop ok ts (if ok t then considerTags @ [t] else considerTags)"

definition GetNewestVersionFromTags ::
  "('v, 'c) semver_lib \<Rightarrow> VersionConstraint \<Rightarrow> ImageTagList \<Rightarrow> (version_error + ImageTag option) go"
where
  "GetNewestVersionFromTags lib vc tagList =
     (case available_tags lib vc tagList of
        Panic \<Rightarrow> Panic
      | Ret availableTags \<Rightarrow>
          (if availableTags = [] then Ret (Inr None)
           else
             (let constraint = (if Constraint vc = [] then ''*'' else Constraint vc);
                  con = (if Strategy vc = StrategySemVer then sv_NewConstraint lib constraint else None)
              in if Strategy vc = StrategySemVer \<and> con = None
                 then Ret (Inl (InvalidConstraint (Constraint vc)))
                 else
                   (let considerTags = consider_loop (consider_tag lib vc con) availableTags []
                    in Ret (Inr (if considerTags \<noteq> [] then Some (last considerTags) else None))))))"

section \<open>What is chosen\<close>

lemma consider_loop_filter: "consider_loop ok ts acc = acc @ filter ok ts"
  by (induction ts arbitrary: acc) auto

lemma those_map_filter: "filter P (map f xs) = map f (filter (P \<circ> f) xs)"
  by (rule filter_map)

text \<open>The greatest element of a set for a strict order.\<close>

definition newest_of :: "('a \<Rightarrow> 'a \<Rightarrow> bool) \<Rightarrow> 'a set \<Rightarrow> 'a \<Rightarrow> bool" where
  "newest_of lt S t = (t \<in> S \<and> (\<forall>e \<in> S. e = t \<or> lt e t))"

text \<open>The versions of a tag list that satisfy a constraint.\<close>

definition candidate_versions :: "('v, 'c) semver_lib \<Rightarrow> 'c \<Rightarrow> ImageTagList \<Rightarrow> 'v set" where
  "candidate_versions lib c il =
     {v. \<exists>t \<in> entries il. sv_NewVersion lib (TagName t) = Some v \<and> sv_Check lib c v}"

lemma semver_choice:
  assumes ok: "semver_ok lib" and wf: "itl_wf il" and st: "Strategy vc = StrategySemVer"
    and con: "sv_NewConstraint lib (if Constraint vc = [] then ''*'' else Constraint vc) = Some c"
  defines "vs \<equiv> filter (sv_Check lib c) (go_sort (semverCollection_Less lib) (semver_versions lib il))"
  shows "GetNewestVersionFromTags lib vc il =
    Ret (Inr (if vs = [] then None else Some (semver_rebuild lib il (last vs))))"
proof -
  let ?sorted = "go_sort (semverCollection_Less lib) (semver_versions lib il)"
  have "consider_tag lib vc (Some c) (semver_rebuild lib il v) = sv_Check lib c v" if "v \<in> set ?sorted" for v
    using that TagName_semver_rebuild(1,2) [OF ok wf] st by (simp add: consider_tag_def)
  then have "filter (consider_tag lib vc (Some c)) (map (semver_rebuild lib il) ?sorted) =
      map (semver_rebuild lib il) vs"
    unfolding vs_def filter_map by (auto intro!: filter_cong arg_cong [where f = "map (semver_rebuild lib il)"])
  then show ?thesis
    unfolding GetNewestVersionFromTags_def available_tags_def
    using st con SortBySemVer_total [OF ok wf] by (auto simp: consider_loop_filter last_map vs_def)
qed

lemma set_candidates:
  "v \<in> set (filter (sv_Check lib c) (go_sort lt (semver_versions lib il))) \<longleftrightarrow>
     v \<in> candidate_versions lib c il"
  by (auto simp: candidate_versions_def set_semver_versions)

text \<open>
  \<open>C1\<close>.  With the semver strategy and a constraint that parses (\<open>*\<close> when none is configured), the
  tag chosen is the newest: it is a tag of the list whose name is a version satisfying the
  constraint, and every other tag that satisfies it is older, ties between equal versions being
  broken by the tag name.  Nothing is chosen exactly when no tag of the list satisfies the
  constraint.  The call never panics.
\<close>

theorem semver_picks_newest:
  assumes "semver_ok lib" "itl_wf il" "Strategy vc = StrategySemVer"
    and "sv_NewConstraint lib (if Constraint vc = [] then ''*'' else Constraint vc) = Some c"
  shows "\<exists>r. GetNewestVersionFromTags lib vc il = Ret (Inr r) \<and>
    (r = None \<longleftrightarrow> candidate_versions lib c il = {}) \<and>
    (\<forall>t. r = Some t \<longrightarrow>
      (\<exists>v. newest_of (semverCollection_Less lib) (candidate_versions lib c il) v \<and>
        TagName t = sv_Original lib v \<and> map_of (items il) (TagName t) \<noteq> None))"
proof -
  let ?vs = "filter (sv_Check lib c) (go_sort (semverCollection_Less lib) (semver_versions lib il))"
  note ord = key_order_semver [OF assms(1)]
  have sorted: "sorted_wrt (semverCollection_Less lib) ?vs"
    using key_order.sorted_sort_key [OF ord distinct_semver_versions [OF assms(1,2)]]
    by (rule sorted_wrt_filter)
  have set_vs: "set ?vs = candidate_versions lib c il" using set_candidates by fast
  have "newest_of (semverCollection_Less lib) (candidate_versions lib c il) (last ?vs) \<and>
      TagName (semver_rebuild lib il (last ?vs)) = sv_Original lib (last ?vs) \<and>
      map_of (items il) (sv_Original lib (last ?vs)) \<noteq> None" if "?vs \<noteq> []"
  proof -
    have "last ?vs \<in> set ?vs" using that by (rule last_in_set)
    then have mem: "last ?vs \<in> set (semver_versions lib il)" by simp
    have "e = last ?vs \<or> semverCollection_Less lib e (last ?vs)" if "e \<in> candidate_versions lib c il" for e
      using key_order.sorted_last_max [OF ord sorted] that set_vs by blast
    then show ?thesis
      using \<open>last ?vs \<in> set ?vs\<close> set_vs TagName_semver_rebuild [OF assms(1,2) mem]
      unfolding newest_of_def by auto
  qed
  moreover have "(?vs = []) = (candidate_versions lib c il = {})" using set_vs by (metis set_empty)
  ultimately show ?thesis unfolding semver_choice [OF assms] by auto
qed

theorem semver_picks_newest_witness:
  "\<exists>r. GetNewestVersionFromTags sample_semver NewVersionConstraint sample_tags = Ret (Inr r) \<and>
    (r = None \<longleftrightarrow> candidate_versions sample_semver ''*'' sample_tags = {}) \<and>
    (\<forall>t. r = Some t \<longrightarrow>
      (\<exists>v. newest_of (semverCollection_Less sample_semver) (candidate_versions sample_semver ''*'' sample_tags) v \<and>
        TagName t = sv_Original sample_semver v \<and> map_of (items sample_tags) (TagName t) \<noteq> None))"
  by (rule semver_picks_newest [OF sample_semver_ok sample_tags_wf])
    (simp_all add: NewVersionConstraint_def sample_semver_def)

text \<open>The order that the strategies newest-build and alphabetical use.\<close>

definition strategy_less :: "UpdateStrategy \<Rightarrow> ImageTag \<Rightarrow> ImageTag \<Rightarrow> bool" where
  "strategy_less us = (if us = StrategyNewestBuild then date_less else name_less)"

lemma strategy_sorted:
  assumes "itl_wf il" "Strategy vc \<in> {StrategyNewestBuild, StrategyAlphabetical}"
  obtains ts where "available_tags lib vc il = Ret ts" "sorted_wrt (strategy_less (Strategy vc)) ts"
    "set ts = entries il"
proof (cases "Strategy vc = StrategyNewestBuild")
  case True
  then show thesis
    using that SortByDate_sorted [OF assms(1)]
    by (metis available_tags_def strategy_less_def UpdateStrategy.simps(14) option.simps(5))
next
  case False
  then show thesis
    using that SortAlphabetically_sorted [OF assms(1)] assms(2)
    by (auto simp: available_tags_def strategy_less_def)
qed

lemma strategy_last_max:
  assumes "sorted_wrt (strategy_less us) ts" "x \<in> set ts"
  shows "x = last ts \<or> strategy_less us x (last ts)"
  using assms alpha.sorted_last_max [of ts x] bydate.sorted_last_max [of ts x]
  by (auto simp: strategy_less_def split: if_splits)

lemma newest_choice:
  assumes "itl_wf il" "Strategy vc \<in> {StrategyNewestBuild, StrategyAlphabetical}"
  shows "\<exists>r. GetNewestVersionFromTags lib vc il = Ret (Inr r) \<and> (r = None \<longleftrightarrow> entries il = {}) \<and>
    (\<forall>t. r = Some t \<longrightarrow> newest_of (strategy_less (Strategy vc)) (entries il) t)"
proof -
  obtain ts where ts: "available_tags lib vc il = Ret ts"
    "sorted_wrt (strategy_less (Strategy vc)) ts" "set ts = entries il"
    using strategy_sorted [OF assms] .
  have "filter (consider_tag lib vc None) ts = ts"
    using assms(2) by (auto simp: consider_tag_def)
  then have "GetNewestVersionFromTags lib vc il = Ret (Inr (if ts = [] then None else Some (last ts)))"
    using ts(1) assms(2) by (auto simp: GetNewestVersionFromTags_def consider_loop_filter)
  moreover have "newest_of (strategy_less (Strategy vc)) (entries il) (last ts)" if "ts \<noteq> []"
    using last_in_set [OF that] strategy_last_max [OF ts(2)]
    unfolding newest_of_def ts(3) [symmetric] by blast
  moreover have "ts = [] \<longleftrightarrow> entries il = {}" using ts(3) by auto
  ultimately show ?thesis by (cases "ts = []") simp_all
qed

text \<open>The strict orders of the strategies have at most one greatest entry.\<close>

lemma newest_of_unique:
  assumes "newest_of (strategy_less us) S t" "newest_of (strategy_less us) S u" shows "t = u"
proof (rule ccontr)
  assume "t \<noteq> u"
  then have "strategy_less us t u" "strategy_less us u t" using assms by (auto simp: newest_of_def)
  then show False by (auto simp: strategy_less_def date_less_def name_less_def split: if_splits)
qed

lemma newest_choice_eq:
  assumes "itl_wf il" "Strategy vc \<in> {StrategyNewestBuild, StrategyAlphabetical}"
    "newest_of (strategy_less (Strategy vc)) (entries il) t"
  shows "GetNewestVersionFromTags lib vc il = Ret (Inr (Some t))"
proof -
  obtain r where r: "GetNewestVersionFromTags lib vc il = Ret (Inr r)" "r = None \<longleftrightarrow> entries il = {}"
    "\<forall>t. r = Some t \<longrightarrow> newest_of (strategy_less (Strategy vc)) (entries il) t"
    using newest_choice [OF assms(1,2), of lib] by blast
  moreover have "entries il \<noteq> {}" using assms(3) by (auto simp: newest_of_def)
  ultimately show ?thesis using newest_of_unique [OF _ assms(3)] by (cases r) simp_all
qed

text \<open>
  With the strategies newest-build and alphabetical the tag chosen is the greatest entry of the
  list by date (then name), respectively by name; nothing is chosen only for an empty list.
\<close>

theorem date_and_name_pick_newest:
  assumes "itl_wf il" "Strategy vc \<in> {StrategyNewestBuild, StrategyAlphabetical}"
  shows "\<exists>r. GetNewestVersionFromTags lib vc il = Ret (Inr r) \<and> (r = None \<longleftrightarrow> entries il = {}) \<and>
    (\<forall>t. r = Some t \<longrightarrow>
      newest_of (if Strategy vc = StrategyNewestBuild then date_less else name_less) (entries il) t)"
  using newest_choice [OF assms, of lib] unfolding strategy_less_def .

theorem date_and_name_pick_newest_witness:
  "\<exists>r. GetNewestVersionFromTags sample_semver (NewVersionConstraint\<lparr>Strategy := StrategyNewestBuild\<rparr>) sample_tags
       = Ret (Inr r) \<and> (r = None \<longleftrightarrow> entries sample_tags = {}) \<and>
     (\<forall>t. r = Some t \<longrightarrow> newest_of date_less (entries sample_tags) t)"
  using date_and_name_pick_newest [OF sample_tags_wf,
      of "NewVersionConstraint\<lparr>Strategy := StrategyNewestBuild\<rparr>" sample_semver] by simp

text \<open>
  With the digest strategy the constraint names a tag: exactly the entry of that name is
  chosen, with its current digest, and nothing when the list has no such entry.
\<close>

theorem digest_tracks_the_constraint_tag:
  assumes "itl_wf il" "Strategy vc = StrategyDigest"
  shows "GetNewestVersionFromTags lib vc il = Ret (Inr (map_of (items il) (Constraint vc)))"
proof -
  let ?ts = "SortAlphabetically il"
  let ?sel = "filter (\<lambda>t. TagName t = Constraint vc) ?ts"
  have "consider_tag lib vc None = (\<lambda>t. TagName t = Constraint vc)"
    using assms(2) by (auto simp: consider_tag_def)
  then have eq: "GetNewestVersionFromTags lib vc il = Ret (Inr (if ?sel = [] then None else Some (last ?sel)))"
    using assms(2) by (auto simp: GetNewestVersionFromTags_def available_tags_def consider_loop_filter)
  have mem: "t \<in> set ?sel \<longleftrightarrow> map_of (items il) (Constraint vc) = Some t" for t
    using SortAlphabetically_sorted(2) [OF assms(1)] itl_wf_lookup [OF assms(1), of t]
      itl_wf_lookup_name [OF assms(1), of "Constraint vc" t]
    by (force dest: map_of_SomeD)
  show ?thesis
  proof (cases "?sel = []")
    case True
    then have "map_of (items il) (Constraint vc) = None" using mem by (metis empty_iff list.set(1) option.exhaust)
    then show ?thesis using eq True by simp
  next
    case False
    then have "map_of (items il) (Constraint vc) = Some (last ?sel)" using mem last_in_set by blast
    then show ?thesis using eq False by simp
  qed
qed

theorem digest_tracks_the_constraint_tag_witness:
  "GetNewestVersionFromTags sample_semver
     (NewVersionConstraint\<lparr>Strategy := StrategyDigest, Constraint := ''latest''\<rparr>) sample_tags =
   Ret (Inr (Some (NewImageTag ''latest'' 10 ''d1'')))"
  using digest_tracks_the_constraint_tag [OF sample_tags_wf,
      of "NewVersionConstraint\<lparr>Strategy := StrategyDigest, Constraint := ''latest''\<rparr>" sample_semver]
  by (simp add: sample_tags_items)

text \<open>
  The errors of the choice: only the semver strategy reports one, it is the rejected
  constraint, and it is reported exactly when the constraint does not parse and at least one tag of
  the list is a version.
\<close>

theorem newest_version_errors:
  assumes "semver_ok lib" "itl_wf il"
  shows "GetNewestVersionFromTags lib vc il = Ret (Inl e) \<longleftrightarrow>
    Strategy vc = StrategySemVer \<and> e = InvalidConstraint (Constraint vc) \<and>
    sv_NewConstraint lib (if Constraint vc = [] then ''*'' else Constraint vc) = None \<and>
    (\<exists>t \<in> entries il. sv_NewVersion lib (TagName t) \<noteq> None)"
proof (cases "Strategy vc = StrategySemVer")
  case True
  have "semver_versions lib il \<noteq> [] \<longleftrightarrow> (\<exists>t \<in> entries il. sv_NewVersion lib (TagName t) \<noteq> None)"
    using set_semver_versions [of _ lib il] by (metis ex_in_conv option.exhaust option.distinct(1) set_empty)
  moreover have "go_sort lt (semver_versions lib il) = [] \<longleftrightarrow> semver_versions lib il = []" for lt
    by (metis set_empty set_go_sort)
  ultimately show ?thesis using True
    by (auto simp: GetNewestVersionFromTags_def available_tags_def SortBySemVer_total [OF assms] Let_def)
next
  case False
  then show ?thesis by (auto simp: GetNewestVersionFromTags_def Let_def split: go.splits)
qed

theorem newest_version_errors_witness:
  "GetNewestVersionFromTags sample_semver (NewVersionConstraint\<lparr>Constraint := ''bad''\<rparr>) sample_tags =
     Ret (Inl (InvalidConstraint ''bad''))"
proof -
  have "\<exists>t \<in> entries sample_tags. sv_NewVersion sample_semver (TagName t) \<noteq> None"
    by (simp add: sample_tags_items sample_semver_def is_digit_def)
  then show ?thesis
    by (subst newest_version_errors [OF sample_semver_ok sample_tags_wf])
      (simp_all add: NewVersionConstraint_def sample_semver_def)
qed

section \<open>Platforms that are accepted\<close>

definition platform_request_key :: "string \<Rightarrow> string" where
  "platform_request_key ps =
     (case ParsePlatform (strings_TrimSpace ps) of
        None \<Rightarrow> PlatformKey ps [] []
      | Some (os, arch, variant) \<Rightarrow> PlatformKey os arch variant)"

lemma platforms_add_platform:
  "fst ` set (platforms (add_platform ps mo)) = insert (platform_request_key ps) (fst ` set (platforms mo))"
  by (simp add: add_platform_def platform_request_key_def platforms_WithPlatform_keys split: option.splits)

lemma platforms_fold_add_platform:
  "fst ` set (platforms (fold add_platform plats mo)) =
     platform_request_key ` set plats \<union> fst ` set (platforms mo)"
  by (induction plats arbitrary: mo) (auto simp: platforms_add_platform)

lemma ParsePlatform_None: "ParsePlatform s = None \<longleftrightarrow> CHR ''/'' \<notin> set s"
  by (auto simp: ParsePlatform_def numeral_3_eq_3 Let_def strings_Cut_def split: prod.splits)

lemma ParsePlatform_Some:
  assumes "ParsePlatform s = Some (os, arch, v)"
  shows "CHR ''/'' \<notin> set os" "CHR ''/'' \<notin> set arch"
  using assms
  by (auto simp: ParsePlatform_def numeral_3_eq_3 Let_def split: prod.splits if_splits
      dest!: strings_Cut_join dest: set_takeWhileD simp: strings_Cut_def)

lemma platform_request_key_iff:
  assumes "CHR ''/'' \<notin> set os" "CHR ''/'' \<notin> set arch" "arch \<noteq> []"
  shows "platform_request_key ps = PlatformKey os arch v \<longleftrightarrow>
    ParsePlatform (strings_TrimSpace ps) = Some (os, arch, v)"
proof (cases "ParsePlatform (strings_TrimSpace ps)")
  case None
  then have "CHR ''/'' \<notin> set ps" using slash_TrimSpace by (simp add: ParsePlatform_None)
  then show ?thesis
    using None PlatformKey_inj [of ps "[]" "[]" os arch v] assms by (auto simp: platform_request_key_def)
next
  case (Some p)
  obtain os' arch' v' where p: "p = (os', arch', v')" by (cases p)
  then show ?thesis
    using Some ParsePlatform_Some [of _ os' arch' v'] PlatformKey_inj [of os' arch' v' os arch v] assms
    by (auto simp: platform_request_key_def)
qed

text \<open>
  The platforms an annotation or resource asks for are exactly the ones accepted later: with a
  non-empty request, a manifest's platform is wanted if and only if some requested string parses to
  that operating system and architecture with the same variant or with none.  A request that does not
  parse accepts nothing.
\<close>

theorem platform_options_exact:
  assumes "plats \<noteq> []" "CHR ''/'' \<notin> set os" "CHR ''/'' \<notin> set arch" "arch \<noteq> []"
  shows "WantsPlatform (GetPlatformOptions runtime ign plats) os arch v \<longleftrightarrow>
    (\<exists>ps \<in> set plats. \<exists>v'. ParsePlatform (strings_TrimSpace ps) = Some (os, arch, v') \<and> (v' = v \<or> v' = []))"
proof -
  let ?mo = "fold add_platform plats NewManifestOptions"
  have keys: "fst ` set (platforms ?mo) = platform_request_key ` set plats"
    by (simp add: platforms_fold_add_platform NewManifestOptions_def)
  then have "platforms ?mo \<noteq> []" using assms(1) by force
  moreover have "GetPlatformOptions runtime ign plats = ?mo"
    using assms(1) by (simp add: GetPlatformOptions_def)
  ultimately have "WantsPlatform (GetPlatformOptions runtime ign plats) os arch v \<longleftrightarrow>
      PlatformKey os arch v \<in> platform_request_key ` set plats \<or>
      PlatformKey os arch [] \<in> platform_request_key ` set plats \<and> v \<noteq> []"
    by (simp add: WantsPlatform_iff keys)
  then show ?thesis
    unfolding image_iff eq_commute [of "PlatformKey _ _ _"] platform_request_key_iff [OF assms(2-4)] by blast
qed

theorem platform_options_exact_witness:
  "WantsPlatform (GetPlatformOptions (''darwin'', ''arm64'') False ['' linux/arm64 '', ''bogus'']) ''linux'' ''arm64'' ''v8''
   \<and> \<not> WantsPlatform (GetPlatformOptions (''darwin'', ''arm64'') False ['' linux/arm64 '', ''bogus'']) ''linux'' ''amd64'' []"
proof -
  have parse: "ParsePlatform (strings_TrimSpace '' linux/arm64 '') = Some (''linux'', ''arm64'', [])"
    "ParsePlatform (strings_TrimSpace ''bogus'') = None"
    by code_simp+
  show ?thesis
    by (simp add: platform_options_exact parse)
qed

end
