(* ===== verification/Credentials.thy ===== *)
theory Credentials
  imports Prelude
begin

text \<open>
  Registry credentials (\<open>registry-scanner/pkg/image/credentials.go\<close>), secrets of the Kubernetes client
  (\<open>registry-scanner/pkg/kube/kubernetes.go\<close>) and values of environment variables
  (\<open>registry-scanner/pkg/env/env.go\<close>).  Reading the environment, the file system, the output of a
  script, the Kubernetes API, JSON and base64 decoding and \<open>time.ParseDuration\<close> are parameters.
\<close>

section \<open>Environment variables\<close>

type_synonym getenv = "string \<Rightarrow> string"

definition GetBoolVal :: "getenv \<Rightarrow> string \<Rightarrow> bool \<Rightarrow> bool" where
  "GetBoolVal os_Getenv envVar defaultValue =
     (let val = os_Getenv envVar
      in if val \<noteq> [] then
           (if strings_ToLower val = ''true'' then True
            else if strings_ToLower val = ''false'' then False
            else defaultValue)
         else defaultValue)"

definition GetStringVal :: "getenv \<Rightarrow> string \<Rightarrow> string \<Rightarrow> string" where
  "GetStringVal os_Getenv envVar defaultValue =
     (let val = os_Getenv envVar in if val \<noteq> [] then val else defaultValue)"

definition GetDurationVal :: "(string \<Rightarrow> int option) \<Rightarrow> getenv \<Rightarrow> string \<Rightarrow> int \<Rightarrow> int" where
  "GetDurationVal time_ParseDuration os_Getenv envVar defaultValue =
     (let val = os_Getenv envVar
      in if val \<noteq> [] then
           (case time_ParseDuration val of None \<Rightarrow> defaultValue | Some duration \<Rightarrow> duration)
         else defaultValue)"

text \<open>
  \<open>strconv.ParseInt(str, 10, 0)\<close> accepts what \<open>strconv.Atoi\<close> accepts; \<open>int\<close> has 64 bits, so the test
  against \<open>math.MaxInt\<close> and \<open>math.MinInt\<close> never fires.
\<close>

definition ParseNumFromEnv :: "getenv \<Rightarrow> string \<Rightarrow> int \<Rightarrow> int \<Rightarrow> int \<Rightarrow> int" where
  "ParseNumFromEnv os_Getenv env defaultValue minv maxv =
     (let str = os_Getenv env
      in if str = [] then defaultValue
         else (case strconv_Atoi str of
                 None \<Rightarrow> defaultValue
               | Some num \<Rightarrow>
                   (if num > 2 ^ 63 - 1 \<or> num < - (2 ^ 63) then defaultValue
                    else if num < minv then defaultValue
                    else if num > maxv then defaultValue
                    else num)))"

section \<open>Secrets\<close>

text \<open>A Kubernetes client is what its API server answers for a namespace and a secret name.\<close>

type_synonym kube_client = "string \<Rightarrow> string \<Rightarrow> string + (string, string) gomap"

datatype secret_error = SecretUnavailable string | NoSecretField string string string

definition GetSecretData :: "kube_client \<Rightarrow> string \<Rightarrow> string \<Rightarrow> string + (string, string) gomap" where
  "GetSecretData client namespace secretName = client namespace secretName"

definition GetSecretField :: "kube_client \<Rightarrow> string \<Rightarrow> string \<Rightarrow> string \<Rightarrow> secret_error + string" where
  "GetSecretField client namespace secretName field =
     (case GetSecretData client namespace secretName of
        Inl err \<Rightarrow> Inl (SecretUnavailable err)
      | Inr secret \<Rightarrow>
          (case map_of secret field of
             None \<Rightarrow> Inl (NoSecretField namespace secretName field)
           | Some data \<Rightarrow> Inr data))"

section \<open>Credential sources\<close>

datatype CredentialSourceType =
  CredentialSourceUnknown | CredentialSourcePullSecret | CredentialSourceSecret | CredentialSourceEnv
| CredentialSourceExt

record CredentialSource =
  CSType :: CredentialSourceType
  Registry :: string
  SecretNamespace :: string
  SecretName :: string
  SecretField :: string
  EnvName :: string
  ScriptPath :: string

record Credential =
  Username :: string
  Password :: string

definition pullSecretField :: string where
  "pullSecretField = ''.dockerconfigjson''"

datatype cred_error =
  InvalidCredentialSpec string
| UnknownCredentialSource string
| InvalidSecretDefinition string
| EnvNotSet string
| EnvMalformed string
| NoKubernetesClient
| CouldNotFetchSecret string string string secret_error
| InvalidCredentialsInSecret string string string
| ScriptPathNotAbsolute string
| CouldNotStat string string
| ScriptFailed string string
| InvalidScriptOutput
| UnknownCredentialType
| InvalidDockerConfig
| NoCredentialsInPullSecret
| InvalidAuthEntry string
| InvalidAuthToken string
| InvalidBase64 string
| InvalidAuthData string
| NoValidAuthEntry string

definition new_source :: CredentialSource where
  "new_source =
     \<lparr>CSType = CredentialSourceUnknown, Registry = [], SecretNamespace = [], SecretName = [],
      SecretField = [], EnvName = [], ScriptPath = []\<rparr>"

text \<open>The recurring test that a split gave two non-empty tokens.\<close>

definition two_tokens :: "string list \<Rightarrow> bool" where
  "two_tokens tokens = (length tokens = 2 \<and> tokens ! 0 \<noteq> [] \<and> tokens ! 1 \<noteq> [])"

definition parseSecretDefinition :: "CredentialSource \<Rightarrow> string \<Rightarrow> cred_error + CredentialSource" where
  "parseSecretDefinition src defn =
     (let tokens = strings_Split defn CHR ''#''
      in if \<not> two_tokens tokens then Inl (InvalidSecretDefinition defn)
         else
           (let src = src\<lparr>SecretField := tokens ! 1\<rparr>;
                tokens = strings_Split (tokens ! 0) CHR ''/''
            in if \<not> two_tokens tokens then Inl (InvalidSecretDefinition defn)
               else Inr (src\<lparr>SecretNamespace := tokens ! 0, SecretName := tokens ! 1\<rparr>)))"

definition parsePullSecretDefinition :: "CredentialSource \<Rightarrow> string \<Rightarrow> cred_error + CredentialSource" where
  "parsePullSecretDefinition src defn =
     (let tokens = strings_Split defn CHR ''/''
      in if \<not> two_tokens tokens then Inl (InvalidSecretDefinition defn)
         else Inr (src\<lparr>SecretNamespace := tokens ! 0, SecretName := tokens ! 1,
                       SecretField := pullSecretField\<rparr>))"

definition parseEnvDefinition :: "CredentialSource \<Rightarrow> string \<Rightarrow> cred_error + CredentialSource" where
  "parseEnvDefinition src defn = Inr (src\<lparr>EnvName := defn\<rparr>)"

definition parseExtDefinition :: "CredentialSource \<Rightarrow> string \<Rightarrow> cred_error + CredentialSource" where
  "parseExtDefinition src defn = Inr (src\<lparr>ScriptPath := defn\<rparr>)"

text \<open>The switch on the kind of source.\<close>

definition parse_source_kind :: "CredentialSource \<Rightarrow> string \<Rightarrow> string \<Rightarrow> cred_error + CredentialSource" where
  "parse_source_kind src kind defn =
     (let k = strings_ToLower kind
      in if k = ''secret'' then
           map_sum id (CSType_update (\<lambda>_. CredentialSourceSecret)) (parseSecretDefinition src defn)
         else if k = ''pullsecret'' then
           map_sum id (CSType_update (\<lambda>_. CredentialSourcePullSecret)) (parsePullSecretDefinition src defn)
         else if k = ''env'' then
           map_sum id (CSType_update (\<lambda>_. CredentialSourceEnv)) (parseEnvDefinition src defn)
         else if k = ''ext'' then
           map_sum id (CSType_update (\<lambda>_. CredentialSourceExt)) (parseExtDefinition src defn)
         else Inl (UnknownCredentialSource kind))"

definition ParseCredentialSource :: "string \<Rightarrow> bool \<Rightarrow> cred_error + CredentialSource" where
  "ParseCredentialSource credentialSource requirePrefix =
     (let tokens = strings_SplitN credentialSource CHR ''='' 2
      in if \<not> two_tokens tokens \<and> requirePrefix then Inl (InvalidCredentialSpec credentialSource)
         else
           (let src = (if two_tokens tokens then new_source\<lparr>Registry := tokens ! 0\<rparr> else new_source);
                secretDef = (if two_tokens tokens then tokens ! 1 else credentialSource);
                tokens = strings_Split secretDef CHR '':''
            in if \<not> two_tokens tokens then Inl (InvalidCredentialSpec credentialSource)
               else parse_source_kind src (tokens ! 0) (tokens ! 1)))"

section \<open>Fetching credentials\<close>

text \<open>The values that \<open>json.Unmarshal\<close> produces; a number is kept as its text.\<close>

datatype json =
  JNull | JBool bool | JNum string | JStr string | JArr "json list" | JObj "(string \<times> json) list"

record cred_env =
  os_Getenv :: getenv
  os_Stat :: "string \<Rightarrow> string option"
  RunCommandExt :: "string \<Rightarrow> string + string"
  json_Unmarshal :: "string \<Rightarrow> json option"
  base64_DecodeString :: "string \<Rightarrow> string option"

text \<open>\<open>json.Unmarshal\<close> into a \<open>map[string]any\<close>: \<open>null\<close> leaves the map nil, other values are an error.\<close>

definition unmarshal_object :: "cred_env \<Rightarrow> string \<Rightarrow> (string \<times> json) list option" where
  "unmarshal_object env s =
     (case json_Unmarshal env s of Some (JObj m) \<Rightarrow> Some m | Some JNull \<Rightarrow> Some [] | _ \<Rightarrow> None)"

definition registry_prefix :: "string \<Rightarrow> string" where
  "registry_prefix registryURL =
     strings_TrimSuffix
       (if strings_HasPrefix registryURL ''http://'' then strings_TrimPrefix registryURL ''http://''
        else if strings_HasPrefix registryURL ''https://'' then strings_TrimPrefix registryURL ''https://''
        else registryURL) ''/''"

definition decode_auth :: "cred_env \<Rightarrow> string \<Rightarrow> json \<Rightarrow> cred_error + (string \<times> string)" where
  "decode_auth env registry authConf =
     (case authConf of
        JObj authEntry \<Rightarrow>
          (case map_of authEntry ''auth'' of
             Some (JStr authString) \<Rightarrow>
               (case base64_DecodeString env authString of
                  None \<Rightarrow> Inl (InvalidBase64 registry)
                | Some authToken \<Rightarrow>
                    (let tokens = strings_SplitN authToken CHR '':'' 2
                     in if length tokens \<noteq> 2 then Inl (InvalidAuthData registry)
                        else Inr (tokens ! 0, tokens ! 1)))
           | _ \<Rightarrow> Inl (InvalidAuthToken registry))
      | _ \<Rightarrow> Inl (InvalidAuthEntry registry))"

fun auths_loop ::
  "cred_env \<Rightarrow> string \<Rightarrow> string \<Rightarrow> (string \<times> json) list \<Rightarrow> cred_error + (string \<times> string)" where
  "auths_loop env registryURL regPrefix [] = Inl (NoValidAuthEntry registryURL)"
| "auths_loop env registryURL regPrefix ((registry, authConf) # auths) =
     (if \<not> strings_HasPrefix registry registryURL \<and> \<not> strings_HasPrefix registry regPrefix
      then auths_loop env registryURL regPrefix auths
      else decode_auth env registry authConf)"

definition parseDockerConfigJson :: "cred_env \<Rightarrow> string \<Rightarrow> string \<Rightarrow> cred_error + (string \<times> string)" where
  "parseDockerConfigJson env registryURL jsonSource =
     (case unmarshal_object env jsonSource of
        None \<Rightarrow> Inl InvalidDockerConfig
      | Some dockerConf \<Rightarrow>
          (case map_of dockerConf ''auths'' of
             Some (JObj auths) \<Rightarrow> auths_loop env registryURL (registry_prefix registryURL) auths
           | _ \<Rightarrow> Inl NoCredentialsInPullSecret))"

definition make_cred :: "string \<Rightarrow> string \<Rightarrow> Credential" where
  "make_cred u p = \<lparr>Username = u, Password = p\<rparr>"

text \<open>The source is a pointer: fetching from a pull secret writes its \<open>SecretField\<close>.\<close>

definition FetchCredentials ::
  "cred_env \<Rightarrow> kube_client option \<Rightarrow> CredentialSource \<Rightarrow> string \<Rightarrow> CredentialSource \<times> (cred_error + Credential)"
where
  "FetchCredentials env kubeclient src registryURL =
     (case CSType src of
        CredentialSourceEnv \<Rightarrow>
          (src,
           (let credEnv = os_Getenv env (EnvName src)
            in if credEnv = [] then Inl (EnvNotSet (EnvName src))
               else
                 (let tokens = strings_SplitN credEnv CHR '':'' 2
                  in if \<not> two_tokens tokens then Inl (EnvMalformed (EnvName src))
                     else Inr (make_cred (tokens ! 0) (tokens ! 1)))))
      | CredentialSourceSecret \<Rightarrow>
          (src,
           (case kubeclient of
              None \<Rightarrow> Inl NoKubernetesClient
            | Some client \<Rightarrow>
                (case GetSecretField client (SecretNamespace src) (SecretName src) (SecretField src) of
                   Inl err \<Rightarrow> Inl (CouldNotFetchSecret (SecretName src) (SecretNamespace src) (SecretField src) err)
                 | Inr data \<Rightarrow>
                     (let tokens = strings_SplitN data CHR '':'' 2
                      in if length tokens \<noteq> 2
                         then Inl (InvalidCredentialsInSecret (SecretName src) (SecretNamespace src) (SecretField src))
                         else Inr (make_cred (tokens ! 0) (tokens ! 1))))))
      | CredentialSourcePullSecret \<Rightarrow>
          (case kubeclient of
             None \<Rightarrow> (src, Inl NoKubernetesClient)
           | Some client \<Rightarrow>
               (let src = src\<lparr>SecretField := pullSecretField\<rparr>
                in (src,
                    (case GetSecretField client (SecretNamespace src) (SecretName src) (SecretField src) of
                       Inl err \<Rightarrow>
                         Inl (CouldNotFetchSecret (SecretName src) (SecretNamespace src) (SecretField src) err)
                     | Inr data \<Rightarrow>
                         map_sum id (\<lambda>(u, p). make_cred u p) (parseDockerConfigJson env registryURL data)))))
      | CredentialSourceExt \<Rightarrow>
          (src,
           (if \<not> strings_HasPrefix (ScriptPath src) ''/'' then Inl (ScriptPathNotAbsolute (ScriptPath src))
            else
              (case os_Stat env (ScriptPath src) of
                 Some err \<Rightarrow> Inl (CouldNotStat (ScriptPath src) err)
               | None \<Rightarrow>
                   (case RunCommandExt env (ScriptPath src) of
                      Inl err \<Rightarrow> Inl (ScriptFailed (ScriptPath src) err)
                    | Inr out \<Rightarrow>
                        (let tokens = strings_SplitN out CHR '':'' 2
                         in if length tokens \<noteq> 2 then Inl InvalidScriptOutput
                            else Inr (make_cred (tokens ! 0) (tokens ! 1)))))))
      | CredentialSourceUnknown \<Rightarrow> (src, Inl UnknownCredentialType))"

section \<open>The grammar of credential sources\<close>

lemma two_tokens_SplitN2:
  "two_tokens (strings_SplitN s d 2) \<longleftrightarrow> (\<exists>a b. s = a @ d # b \<and> d \<notin> set a \<and> a \<noteq> [] \<and> b \<noteq> [])"
proof (cases "d \<in> set s")
  case True
  then obtain a b where "s = a @ d # b" "d \<notin> set a" by (metis split_list_first)
  then have "strings_SplitN s d 2 = [a, b]"
    "(\<exists>a b. s = a @ d # b \<and> d \<notin> set a \<and> a \<noteq> [] \<and> b \<noteq> []) \<longleftrightarrow> a \<noteq> [] \<and> b \<noteq> []"
    using first_sep_eq [of a d b] by (auto simp: strings_SplitN2_found)
  then show ?thesis by (simp add: two_tokens_def)
qed (auto simp: strings_SplitN2_not_found two_tokens_def)

lemma two_tokens_Split_iff:
  "two_tokens (strings_Split s d) \<and> strings_Split s d ! 0 = a \<and> strings_Split s d ! 1 = b \<longleftrightarrow>
     s = a @ d # b \<and> d \<notin> set a \<and> d \<notin> set b \<and> a \<noteq> [] \<and> b \<noteq> []"
proof
  assume *: "two_tokens (strings_Split s d) \<and> strings_Split s d ! 0 = a \<and> strings_Split s d ! 1 = b"
  then have split: "strings_Split s d = [a, b]"
    by (auto simp: two_tokens_def length_Suc_conv numeral_2_eq_2)
  then have "s = a @ d # b" using strings_Join_Split [of s d] by simp
  then show "s = a @ d # b \<and> d \<notin> set a \<and> d \<notin> set b \<and> a \<noteq> [] \<and> b \<noteq> []"
    using * split strings_Split_parts [of _ s d] by (auto simp: two_tokens_def)
qed (auto simp: two_tokens_def strings_Split_append strings_Split_no_sep)

lemma two_tokens_Split_parts:
  assumes "two_tokens (strings_Split s d)"
  obtains a b where "s = a @ d # b" "d \<notin> set a" "d \<notin> set b" "a \<noteq> []" "b \<noteq> []"
    "strings_Split s d ! 0 = a" "strings_Split s d ! 1 = b"
  using assms two_tokens_Split_iff by blast

lemma two_tokens_Split_app:
  assumes "d \<notin> set a" "d \<notin> set b" "a \<noteq> []" "b \<noteq> []"
  shows "two_tokens (strings_Split (a @ d # b) d)" "strings_Split (a @ d # b) d = [a, b]"
  using assms by (simp_all add: two_tokens_def strings_Split_append strings_Split_no_sep)

text \<open>The keyword of a kind of source, and the text that follows it.\<close>

fun source_keyword :: "CredentialSourceType \<Rightarrow> string" where
  "source_keyword CredentialSourceSecret = ''secret''"
| "source_keyword CredentialSourcePullSecret = ''pullsecret''"
| "source_keyword CredentialSourceEnv = ''env''"
| "source_keyword CredentialSourceExt = ''ext''"
| "source_keyword CredentialSourceUnknown = []"

definition source_text :: "CredentialSource \<Rightarrow> string" where
  "source_text src =
     (case CSType src of
        CredentialSourceSecret \<Rightarrow> SecretNamespace src @ ''/'' @ SecretName src @ ''#'' @ SecretField src
      | CredentialSourcePullSecret \<Rightarrow> SecretNamespace src @ ''/'' @ SecretName src
      | CredentialSourceEnv \<Rightarrow> EnvName src
      | CredentialSourceExt \<Rightarrow> ScriptPath src
      | CredentialSourceUnknown \<Rightarrow> [])"

text \<open>The sources that can be written down: the fields of the kind are set, and only those.\<close>

definition source_wf :: "CredentialSource \<Rightarrow> bool" where
  "source_wf src =
     (CSType src \<noteq> CredentialSourceUnknown \<and> source_text src \<noteq> [] \<and> CHR '':'' \<notin> set (source_text src) \<and>
      src = (case CSType src of
               CredentialSourceSecret \<Rightarrow>
                 new_source\<lparr>CSType := CredentialSourceSecret, Registry := Registry src,
                   SecretNamespace := SecretNamespace src, SecretName := SecretName src,
                   SecretField := SecretField src\<rparr>
             | CredentialSourcePullSecret \<Rightarrow>
                 new_source\<lparr>CSType := CredentialSourcePullSecret, Registry := Registry src,
                   SecretNamespace := SecretNamespace src, SecretName := SecretName src,
                   SecretField := pullSecretField\<rparr>
             | CredentialSourceEnv \<Rightarrow>
                 new_source\<lparr>CSType := CredentialSourceEnv, Registry := Registry src, EnvName := EnvName src\<rparr>
             | CredentialSourceExt \<Rightarrow>
                 new_source\<lparr>CSType := CredentialSourceExt, Registry := Registry src, ScriptPath := ScriptPath src\<rparr>
             | CredentialSourceUnknown \<Rightarrow> src) \<and>
      (CSType src \<in> {CredentialSourceSecret, CredentialSourcePullSecret} \<longrightarrow>
         SecretNamespace src \<noteq> [] \<and> SecretName src \<noteq> [] \<and>
         CHR ''/'' \<notin> set (SecretNamespace src) \<and> CHR ''/'' \<notin> set (SecretName src)) \<and>
      (CSType src = CredentialSourceSecret \<longrightarrow> SecretField src \<noteq> [] \<and>
         CHR ''#'' \<notin> set (SecretNamespace src @ SecretName src @ SecretField src)))"

lemma parseSecretDefinition_iff:
  "parseSecretDefinition src defn = Inr src' \<longleftrightarrow>
     (\<exists>ns n f. defn = ns @ ''/'' @ n @ ''#'' @ f \<and> ns \<noteq> [] \<and> n \<noteq> [] \<and> f \<noteq> [] \<and>
        CHR ''#'' \<notin> set (ns @ n @ f) \<and> CHR ''/'' \<notin> set (ns @ n) \<and>
        src' = src\<lparr>SecretNamespace := ns, SecretName := n, SecretField := f\<rparr>)" (is "?l \<longleftrightarrow> ?r")
proof
  assume ?l
  then have tt: "two_tokens (strings_Split defn CHR ''#'')"
    "two_tokens (strings_Split (strings_Split defn CHR ''#'' ! 0) CHR ''/'')"
    by (auto simp: parseSecretDefinition_def Let_def split: if_splits)
  obtain a f where af: "defn = a @ CHR ''#'' # f" "CHR ''#'' \<notin> set a" "CHR ''#'' \<notin> set f" "f \<noteq> []"
    "strings_Split defn CHR ''#'' ! 0 = a" "strings_Split defn CHR ''#'' ! 1 = f"
    using two_tokens_Split_parts [OF tt(1)] by metis
  obtain ns n where nsn: "a = ns @ CHR ''/'' # n" "CHR ''/'' \<notin> set ns" "CHR ''/'' \<notin> set n" "ns \<noteq> []" "n \<noteq> []"
    "strings_Split a CHR ''/'' ! 0 = ns" "strings_Split a CHR ''/'' ! 1 = n"
    using two_tokens_Split_parts tt(2) unfolding af(5) by metis
  have "src' = src\<lparr>SecretNamespace := ns, SecretName := n, SecretField := f\<rparr>"
    using \<open>?l\<close> tt af(5,6) nsn(6,7) by (auto simp: parseSecretDefinition_def Let_def)
  then show ?r using af(1-4) nsn(1-5) by (intro exI [of _ ns] exI [of _ n] exI [of _ f]) auto
next
  assume ?r
  then obtain ns n f where d: "defn = (ns @ CHR ''/'' # n) @ CHR ''#'' # f" "ns \<noteq> []" "n \<noteq> []" "f \<noteq> []"
    "CHR ''#'' \<notin> set (ns @ n @ f)" "CHR ''/'' \<notin> set (ns @ n)"
    "src' = src\<lparr>SecretNamespace := ns, SecretName := n, SecretField := f\<rparr>" by auto
  have 1: "two_tokens (strings_Split defn CHR ''#'')" "strings_Split defn CHR ''#'' = [ns @ CHR ''/'' # n, f]"
    unfolding d(1) using d(2-5) by (intro two_tokens_Split_app; simp)+
  have 2: "two_tokens (strings_Split (ns @ CHR ''/'' # n) CHR ''/'')"
    "strings_Split (ns @ CHR ''/'' # n) CHR ''/'' = [ns, n]"
    using d(2,3,6) by (intro two_tokens_Split_app; simp)+
  show ?l
    unfolding parseSecretDefinition_def Let_def 1(2)
    using 1 2 d(7) by (simp add: two_tokens_def)
qed

lemma parsePullSecretDefinition_iff:
  "parsePullSecretDefinition src defn = Inr src' \<longleftrightarrow>
     (\<exists>ns n. defn = ns @ ''/'' @ n \<and> ns \<noteq> [] \<and> n \<noteq> [] \<and> CHR ''/'' \<notin> set (ns @ n) \<and>
        src' = src\<lparr>SecretNamespace := ns, SecretName := n, SecretField := pullSecretField\<rparr>)" (is "?l \<longleftrightarrow> ?r")
proof
  assume ?l
  then have tt: "two_tokens (strings_Split defn CHR ''/'')"
    by (auto simp: parsePullSecretDefinition_def Let_def split: if_splits)
  obtain ns n where nsn: "defn = ns @ CHR ''/'' # n" "CHR ''/'' \<notin> set ns" "CHR ''/'' \<notin> set n" "ns \<noteq> []" "n \<noteq> []"
    "strings_Split defn CHR ''/'' ! 0 = ns" "strings_Split defn CHR ''/'' ! 1 = n"
    using two_tokens_Split_parts [OF tt] by metis
  then have "src' = src\<lparr>SecretNamespace := ns, SecretName := n, SecretField := pullSecretField\<rparr>"
    using \<open>?l\<close> tt by (auto simp: parsePullSecretDefinition_def Let_def)
  then show ?r using nsn(1-5) by (intro exI [of _ ns] exI [of _ n]) auto
qed (auto simp: parsePullSecretDefinition_def Let_def two_tokens_def strings_Split_append strings_Split_no_sep)

lemma ToLower_keeps:
  assumes "ascii_lower d = d" "d \<notin> {CHR 0xC4, CHR 0xB0, CHR 0xE2, CHR 0x84, CHR 0xAA}"
  shows "d \<in> set s \<Longrightarrow> d \<in> set (strings_ToLower s)"
  using assms by (induction s rule: strings_ToLower.induct) auto

lemma separators_ToLower:
  "CHR '':'' \<in> set s \<Longrightarrow> CHR '':'' \<in> set (strings_ToLower s)"
  "CHR ''='' \<in> set s \<Longrightarrow> CHR ''='' \<in> set (strings_ToLower s)"
  by (rule ToLower_keeps; simp add: ascii_lower_def; fail | code_simp)+

lemma keyword_chars:
  assumes "strings_ToLower kw = source_keyword t"
  shows "CHR '':'' \<notin> set kw" "CHR ''='' \<notin> set kw" "t \<noteq> CredentialSourceUnknown \<Longrightarrow> kw \<noteq> []"
  using separators_ToLower [of kw] assms by (cases t; auto)+

lemma map_sum_Inr_iff: "map_sum id f x = Inr y \<longleftrightarrow> (\<exists>z. x = Inr z \<and> f z = y)"
  by (cases x) auto

text \<open>What the switch on the keyword accepts.\<close>

lemma parse_source_kind_iff:
  assumes "src = new_source\<lparr>Registry := r\<rparr>" "defn \<noteq> []" "CHR '':'' \<notin> set defn"
  shows "parse_source_kind src kind defn = Inr src' \<longleftrightarrow>
    source_wf src' \<and> Registry src' = r \<and> strings_ToLower kind = source_keyword (CSType src') \<and>
    defn = source_text src'" (is "?l \<longleftrightarrow> ?r")
proof
  assume ?l
  then show ?r
    using assms unfolding parse_source_kind_def Let_def
    by (auto simp: map_sum_Inr_iff parseSecretDefinition_iff parsePullSecretDefinition_iff
        parseEnvDefinition_def parseExtDefinition_def source_wf_def source_text_def new_source_def
        split: if_splits)
next
  assume r: ?r
  then have wf: "source_wf src'" by simp
  show ?l
  proof (cases "CSType src'")
    case CredentialSourceSecret
    then have "parseSecretDefinition src defn = Inr (src\<lparr>SecretNamespace := SecretNamespace src',
        SecretName := SecretName src', SecretField := SecretField src'\<rparr>)"
      using r wf unfolding parseSecretDefinition_iff
      by (intro exI [of _ "SecretNamespace src'"] exI [of _ "SecretName src'"] exI [of _ "SecretField src'"])
        (auto simp: source_text_def source_wf_def)
    then show ?thesis
      using CredentialSourceSecret r assms(1) by (auto simp: parse_source_kind_def source_wf_def new_source_def)
  next
    case CredentialSourcePullSecret
    then have "parsePullSecretDefinition src defn = Inr (src\<lparr>SecretNamespace := SecretNamespace src',
        SecretName := SecretName src', SecretField := pullSecretField\<rparr>)"
      using r wf unfolding parsePullSecretDefinition_iff
      by (intro exI [of _ "SecretNamespace src'"] exI [of _ "SecretName src'"])
        (auto simp: source_text_def source_wf_def)
    then show ?thesis
      using CredentialSourcePullSecret r assms(1) by (auto simp: parse_source_kind_def source_wf_def new_source_def)
  qed (use r assms(1) in \<open>auto simp: parse_source_kind_def parseEnvDefinition_def parseExtDefinition_def
        source_wf_def source_text_def new_source_def\<close>)
qed

text \<open>Whether a string starts with a registry name and an equals sign.\<close>

definition has_registry_prefix :: "string \<Rightarrow> bool" where
  "has_registry_prefix s = (\<exists>a b. s = a @ CHR ''='' # b \<and> CHR ''='' \<notin> set a \<and> a \<noteq> [] \<and> b \<noteq> [])"

definition source_body :: "string \<Rightarrow> CredentialSource \<Rightarrow> string" where
  "source_body kw src = kw @ CHR '':'' # source_text src"

lemma parse_body_iff:
  assumes "src = new_source\<lparr>Registry := r\<rparr>"
  shows "(let tokens = strings_Split body CHR '':''
      in if \<not> two_tokens tokens then Inl e else parse_source_kind src (tokens ! 0) (tokens ! 1)) = Inr src' \<longleftrightarrow>
    source_wf src' \<and> Registry src' = r \<and>
    (\<exists>kw. strings_ToLower kw = source_keyword (CSType src') \<and> body = source_body kw src')" (is "?l \<longleftrightarrow> ?r")
proof
  assume ?l
  then have tt: "two_tokens (strings_Split body CHR '':'')" by (auto simp: Let_def split: if_splits)
  then obtain a b where ab: "body = a @ CHR '':'' # b" "CHR '':'' \<notin> set b" "b \<noteq> []"
    "strings_Split body CHR '':'' ! 0 = a" "strings_Split body CHR '':'' ! 1 = b"
    by (rule two_tokens_Split_parts)
  then have "parse_source_kind src a b = Inr src'" using \<open>?l\<close> tt by (simp add: Let_def)
  then show ?r using parse_source_kind_iff [OF assms ab(3,2)] ab(1) by (auto simp: source_body_def)
next
  assume r: ?r
  then obtain kw where kw: "strings_ToLower kw = source_keyword (CSType src')" "body = source_body kw src'" by blast
  have tx: "source_text src' \<noteq> []" "CHR '':'' \<notin> set (source_text src')" "CSType src' \<noteq> CredentialSourceUnknown"
    using r by (auto simp: source_wf_def)
  then have "strings_Split body CHR '':'' = [kw, source_text src']" "two_tokens [kw, source_text src']"
    using keyword_chars [OF kw(1)] two_tokens_Split_app [of "CHR '':''" kw "source_text src'"] kw(2)
    by (auto simp: source_body_def two_tokens_def)
  then show ?l using parse_source_kind_iff [OF assms tx(1,2)] r kw(1) by (simp add: Let_def)
qed

text \<open>
  The grammar of credential sources.  \<open>ParseCredentialSource\<close> accepts exactly the strings
  \<open><registry>=<kind>:<definition>\<close>, and without the registry when it is optional and there is none:
  the result has the fields of its kind set and no others, and the input is its printed form up to the
  case of the keyword.
\<close>

theorem ParseCredentialSource_grammar:
  "ParseCredentialSource s requirePrefix = Inr src \<longleftrightarrow>
     source_wf src \<and>
     (\<exists>kw. strings_ToLower kw = source_keyword (CSType src) \<and>
       (if has_registry_prefix s
        then s = Registry src @ CHR ''='' # source_body kw src \<and> CHR ''='' \<notin> set (Registry src) \<and> Registry src \<noteq> []
        else \<not> requirePrefix \<and> Registry src = [] \<and> s = source_body kw src))"
proof (cases "has_registry_prefix s")
  case True
  then obtain a b where ab: "s = a @ CHR ''='' # b" "CHR ''='' \<notin> set a" "a \<noteq> []" "b \<noteq> []"
    by (auto simp: has_registry_prefix_def)
  then have split: "strings_SplitN s CHR ''='' 2 = [a, b]" by (simp add: strings_SplitN2_found)
  have tt: "two_tokens [a, b]" using ab by (simp add: two_tokens_def)
  have uniq: "a = a' \<and> b = b'" if "s = a' @ CHR ''='' # b'" "CHR ''='' \<notin> set a'" for a' b'
    using ab(1,2) that first_sep_eq [of a "CHR ''=''" b a' b'] by simp
  have "ParseCredentialSource s requirePrefix = Inr src \<longleftrightarrow>
      source_wf src \<and> Registry src = a \<and>
      (\<exists>kw. strings_ToLower kw = source_keyword (CSType src) \<and> b = source_body kw src)"
    unfolding ParseCredentialSource_def split
    using parse_body_iff [OF refl, of b "InvalidCredentialSpec s" a src] tt by (simp add: Let_def split: if_splits)
  also have "\<dots> \<longleftrightarrow> source_wf src \<and> (\<exists>kw. strings_ToLower kw = source_keyword (CSType src) \<and>
      s = Registry src @ CHR ''='' # source_body kw src \<and> CHR ''='' \<notin> set (Registry src) \<and> Registry src \<noteq> [])"
    using ab(1-3) uniq by blast
  finally show ?thesis using True by simp
next
  case False
  then have "\<not> two_tokens (strings_SplitN s CHR ''='' 2)"
    by (simp add: two_tokens_SplitN2 has_registry_prefix_def)
  then show ?thesis
    using False parse_body_iff [of new_source "[]" s "InvalidCredentialSpec s" src]
    by (auto simp: ParseCredentialSource_def Let_def new_source_def)
qed

section \<open>What is fetched\<close>

lemma ParseCredentialSource_wf: "ParseCredentialSource s requirePrefix = Inr src \<Longrightarrow> source_wf src"
  using parse_body_iff [of "new_source\<lparr>Registry := strings_SplitN s CHR ''='' 2 ! 0\<rparr>" _
      "strings_SplitN s CHR ''='' 2 ! 1" "InvalidCredentialSpec s" src]
    parse_body_iff [of new_source "[]" s "InvalidCredentialSpec s" src]
  by (auto simp: ParseCredentialSource_def new_source_def Let_def split: if_splits)

lemma SplitN2_colon:
  assumes "length (strings_SplitN s CHR '':'' 2) = 2"
  shows "s = strings_SplitN s CHR '':'' 2 ! 0 @ CHR '':'' # strings_SplitN s CHR '':'' 2 ! 1"
    and "CHR '':'' \<notin> set (strings_SplitN s CHR '':'' 2 ! 0)"
proof -
  have "CHR '':'' \<in> set s" using assms by (rule contrapos_pp) (simp add: strings_SplitN2_not_found)
  then obtain a b where "s = a @ CHR '':'' # b" "CHR '':'' \<notin> set a" by (metis split_list_first)
  then show "s = strings_SplitN s CHR '':'' 2 ! 0 @ CHR '':'' # strings_SplitN s CHR '':'' 2 ! 1"
    and "CHR '':'' \<notin> set (strings_SplitN s CHR '':'' 2 ! 0)"
    by (simp_all add: strings_SplitN2_found)
qed

text \<open>The first entry whose registry name starts with the wanted one decides.\<close>

lemma auths_loop_find:
  "auths_loop env url pre auths =
     (case find (\<lambda>(r, _). strings_HasPrefix r url \<or> strings_HasPrefix r pre) auths of
        None \<Rightarrow> Inl (NoValidAuthEntry url)
      | Some (r, conf) \<Rightarrow> decode_auth env r conf)"
proof (induction auths)
  case (Cons a auths)
  then show ?case by (cases a) simp
qed simp

lemma decode_auth_Inr:
  assumes "decode_auth env r conf = Inr (u, p)"
  shows "CHR '':'' \<notin> set u \<and> (\<exists>entry a. conf = JObj entry \<and> map_of entry ''auth'' = Some (JStr a) \<and>
    base64_DecodeString env a = Some (u @ '':'' @ p))"
  using assms SplitN2_colon
  by (auto simp: decode_auth_def Let_def split: json.splits option.splits if_splits)

lemma decode_auth_known: "decode_auth env r conf \<noteq> Inl UnknownCredentialType"
  by (auto simp: decode_auth_def Let_def split: json.splits option.splits if_splits)

lemma parseDockerConfigJson_known: "parseDockerConfigJson env url data \<noteq> Inl UnknownCredentialType"
  by (auto simp: parseDockerConfigJson_def auths_loop_find decode_auth_known split: option.splits json.splits)

lemma map_sum_Inl_iff: "map_sum id f x = Inl e \<longleftrightarrow> x = Inl e"
  by (cases x) auto

text \<open>
  A source that was parsed is never of an unknown kind when its credentials are fetched, and
  credentials from the environment, a secret or a script are the text before and after the first colon
  of the data that is there.
\<close>

theorem parsed_source_is_fetchable:
  assumes "ParseCredentialSource s requirePrefix = Inr src"
  shows "snd (FetchCredentials env kubeclient src url) \<noteq> Inl UnknownCredentialType \<and>
    (CSType src \<noteq> CredentialSourcePullSecret \<longrightarrow>
      (\<forall>c. snd (FetchCredentials env kubeclient src url) = Inr c \<longrightarrow>
        (case CSType src of
           CredentialSourceEnv \<Rightarrow> os_Getenv env (EnvName src) = Username c @ '':'' @ Password c
         | CredentialSourceSecret \<Rightarrow>
             (\<exists>client. kubeclient = Some client \<and>
               GetSecretField client (SecretNamespace src) (SecretName src) (SecretField src) =
                 Inr (Username c @ '':'' @ Password c))
         | _ \<Rightarrow> RunCommandExt env (ScriptPath src) = Inr (Username c @ '':'' @ Password c)) \<and>
        CHR '':'' \<notin> set (Username c)))"
proof -
  note wf = ParseCredentialSource_wf [OF assms]
  show ?thesis
    using wf SplitN2_colon
    by (cases "CSType src")
      (auto simp: FetchCredentials_def source_wf_def make_cred_def two_tokens_def Let_def
        map_sum_Inl_iff parseDockerConfigJson_known split: if_splits option.splits sum.splits)
qed

text \<open>
  Credentials from a pull secret: they are returned exactly when the first entry of \<open>auths\<close>, in
  iteration order, whose name starts with the registry's URL or its bare host holds a base64-encoded
  \<open>user:password\<close>; the user name has no colon.
\<close>

theorem pull_secret_credentials:
  assumes "unmarshal_object env data = Some conf" "map_of conf ''auths'' = Some (JObj auths)"
    "parseDockerConfigJson env url data = Inr (u, p)"
  shows "\<exists>r entry a. find (\<lambda>(r, _). strings_HasPrefix r url \<or> strings_HasPrefix r (registry_prefix url)) auths =
      Some (r, JObj entry) \<and> map_of entry ''auth'' = Some (JStr a) \<and>
    base64_DecodeString env a = Some (u @ '':'' @ p) \<and> CHR '':'' \<notin> set u"
  using assms
  by (auto simp: parseDockerConfigJson_def auths_loop_find split: option.splits dest!: decode_auth_Inr)

text \<open>A concrete environment: JSON and base64 decoding of one configuration.\<close>

definition sample_cred_env :: "json \<Rightarrow> cred_env" where
  "sample_cred_env conf =
     \<lparr>os_Getenv = (\<lambda>n. if n = ''REG'' then ''user:pass:word'' else []), os_Stat = (\<lambda>_. None),
      RunCommandExt = (\<lambda>_. Inr ''u:p''), json_Unmarshal = (\<lambda>_. Some conf), base64_DecodeString = Some\<rparr>"

definition auth_entry :: "string \<Rightarrow> string \<Rightarrow> string \<times> json" where
  "auth_entry registry auth = (registry, JObj [(''auth'', JStr auth)])"

theorem parsed_source_is_fetchable_witness:
  "snd (FetchCredentials (sample_cred_env JNull) None
     (new_source\<lparr>CSType := CredentialSourceEnv, EnvName := ''REG''\<rparr>) []) = Inr (make_cred ''user'' ''pass:word'') \<and>
   snd (FetchCredentials (sample_cred_env JNull) None
     (new_source\<lparr>CSType := CredentialSourceEnv, EnvName := ''REG''\<rparr>) []) \<noteq> Inl UnknownCredentialType"
proof -
  have "ParseCredentialSource ''env:REG'' False = Inr (new_source\<lparr>CSType := CredentialSourceEnv, EnvName := ''REG''\<rparr>)"
    by code_simp
  note parsed_source_is_fetchable [OF this, of "sample_cred_env JNull" None "[]"]
  moreover have "snd (FetchCredentials (sample_cred_env JNull) None
     (new_source\<lparr>CSType := CredentialSourceEnv, EnvName := ''REG''\<rparr>) []) = Inr (make_cred ''user'' ''pass:word'')"
    by code_simp
  ultimately show ?thesis by blast
qed

theorem pull_secret_credentials_witness:
  "\<exists>r entry a. find (\<lambda>(r, _). strings_HasPrefix r ''https://gcr.io'' \<or>
        strings_HasPrefix r (registry_prefix ''https://gcr.io''))
      [auth_entry ''quay.io'' ''q:r'', auth_entry ''gcr.io'' ''u:p:q''] = Some (r, JObj entry) \<and>
    map_of entry ''auth'' = Some (JStr a) \<and> a = ''u:p:q''"
proof -
  let ?auths = "[auth_entry ''quay.io'' ''q:r'', auth_entry ''gcr.io'' ''u:p:q'']"
  let ?env = "sample_cred_env (JObj [(''auths'', JObj ?auths)])"
  have "unmarshal_object ?env [] = Some [(''auths'', JObj ?auths)]"
    by (simp add: unmarshal_object_def sample_cred_env_def)
  moreover have "parseDockerConfigJson ?env ''https://gcr.io'' [] = Inr (''u'', ''p:q'')" by code_simp
  ultimately show ?thesis
    using pull_secret_credentials [of ?env "[]" "[(''auths'', JObj ?auths)]" ?auths "''https://gcr.io''" "''u''" "''p:q''"]
    by (simp add: sample_cred_env_def)
qed

text \<open>
  The test is a string prefix and the first match wins, so the credentials found for a registry
  depend on the iteration order of the map as soon as another registry's name extends it: the same
  pull secret yields the credentials of \<open>gcr.io\<close> or those of \<open>gcr.io.example.com\<close>.
\<close>

theorem pull_secret_order_dependent:
  "\<exists>auths auths'. mset auths = mset auths' \<and> distinct (map fst auths) \<and>
     parseDockerConfigJson (sample_cred_env (JObj [(''auths'', JObj auths)])) ''gcr.io'' [] = Inr (''a'', ''b'') \<and>
     parseDockerConfigJson (sample_cred_env (JObj [(''auths'', JObj auths')])) ''gcr.io'' [] = Inr (''x'', ''y'')"
proof (intro exI conjI)
  let ?a = "[auth_entry ''gcr.io'' ''a:b'', auth_entry ''gcr.io.example.com'' ''x:y'']"
  let ?b = "[auth_entry ''gcr.io.example.com'' ''x:y'', auth_entry ''gcr.io'' ''a:b'']"
  show "mset ?a = mset ?b" by simp
  show "distinct (map fst ?a)" by (simp add: auth_entry_def)
  show "parseDockerConfigJson (sample_cred_env (JObj [(''auths'', JObj ?a)])) ''gcr.io'' [] = Inr (''a'', ''b'')"
    by code_simp
  show "parseDockerConfigJson (sample_cred_env (JObj [(''auths'', JObj ?b)])) ''gcr.io'' [] = Inr (''x'', ''y'')"
    by code_simp
qed

end
