(* ===== verification/ImageSettings.thy ===== *)
theory ImageSettings
  imports Versions Credentials
begin

text \<open>
  The settings of the custom resource (\<open>api/v1alpha1/imageupdater_types.go\<close>) and how they become the
  images to update (\<open>pkg/argocd/argocd.go\<close>, \<open>types.go\<close>): layering of settings, image verification,
  manifest targets, and the image list with the filter of a webhook event.

  A pointer field is an option.  \<open>IgnoreTags\<close> and \<open>Platforms\<close> are slices that the code compares with
  \<open>nil\<close>, so they are options too; the labels of a pull request are only read by their length, and a
  \<open>nil\<close> slice is the empty list there.
\<close>

section \<open>The types of the custom resource\<close>

record CommonUpdateSettings =
  cus_UpdateStrategy :: "string option"
  cus_ForceUpdate :: "bool option"
  cus_AllowTags :: "string option"
  cus_IgnoreTags :: "string list option"
  cus_PullSecret :: "string option"
  cus_Platforms :: "string list option"

record SecretRef =
  sr_SecretName :: string
  sr_Key :: string

record ImagesVerification =
  iv_Enabled :: "bool option"
  iv_CosignKey :: "SecretRef option"

record PullRequestSpec =
  pr_GitHub :: "unit option"
  pr_GitLab :: "unit option"
  pr_Labels :: "string list"

record GitConfig =
  gc_Repository :: "string option"
  gc_Branch :: "string option"
  gc_WriteBackTarget :: "string option"
  gc_PullRequest :: "PullRequestSpec option"

record WriteBackSpec =
  ws_Method :: "string option"
  ws_GitConfig :: "GitConfig option"

record HelmTarget =
  ht_Name :: "string option"
  ht_Tag :: "string option"
  ht_Spec :: "string option"

record KustomizeTarget =
  kt_Name :: "string option"

record PluginTarget =
  pt_Name :: "string option"
  pt_Tag :: "string option"
  pt_Spec :: "string option"

record ManifestTarget =
  mt_Helm :: "HelmTarget option"
  mt_Kustomize :: "KustomizeTarget option"
  mt_Plugin :: "PluginTarget option"

record ImageConfig =
  ic_Alias :: string
  ic_ImageName :: string
  ic_CommonUpdateSettings :: "CommonUpdateSettings option"
  ic_ManifestTarget :: "ManifestTarget option"
  ic_ImagesVerification :: "ImagesVerification option"

text \<open>
  The image with its update configuration (\<open>types.go\<close>).  The embedded \<open>*image.Verify\<close> holds the
  public key only, so it is the key.
\<close>

record Image =
  im_ContainerImage :: ContainerImage
  im_UpdateStrategy :: UpdateStrategy
  im_ForceUpdate :: bool
  im_AllowTags :: string
  im_IgnoreTags :: "string list"
  im_PullSecret :: string
  im_Platforms :: "string list"
  im_HelmImageName :: string
  im_HelmImageTag :: string
  im_HelmImageSpec :: string
  im_KustomizeImageName :: string
  im_PluginEnvName :: string
  im_PluginEnvTag :: string
  im_PluginEnvSpec :: string
  im_EnableVerification :: bool
  im_Verify :: "string option"

record WebhookEvent =
  we_RegistryURL :: string
  we_Repository :: string
  we_Tag :: string
  we_Digest :: string

definition ToContainerImageList :: "Image list \<Rightarrow> ContainerImage list" where
  "ToContainerImageList list = map im_ContainerImage list"

definition hasPluginTargets :: "Image list \<Rightarrow> bool" where
  "hasPluginTargets images = (\<exists>img \<in> set images. im_PluginEnvName img \<noteq> [] \<or> im_PluginEnvSpec img \<noteq> [])"

section \<open>Layering\<close>

text \<open>The field assignment \<open>if s.F != nil { merged.F = s.F }\<close>.\<close>

definition layer :: "'a option \<Rightarrow> 'a option \<Rightarrow> 'a option" where
  "layer new old = (if new \<noteq> None then new else old)"

definition empty_CommonUpdateSettings :: CommonUpdateSettings where
  "empty_CommonUpdateSettings =
     \<lparr>cus_UpdateStrategy = None, cus_ForceUpdate = None, cus_AllowTags = None, cus_IgnoreTags = None,
      cus_PullSecret = None, cus_Platforms = None\<rparr>"

definition merge_common :: "CommonUpdateSettings option \<Rightarrow> CommonUpdateSettings \<Rightarrow> CommonUpdateSettings" where
  "merge_common setting merged =
     (case setting of
        None \<Rightarrow> merged
      | Some s \<Rightarrow>
          \<lparr>cus_UpdateStrategy = layer (cus_UpdateStrategy s) (cus_UpdateStrategy merged),
           cus_ForceUpdate = layer (cus_ForceUpdate s) (cus_ForceUpdate merged),
           cus_AllowTags = layer (cus_AllowTags s) (cus_AllowTags merged),
           cus_IgnoreTags = layer (cus_IgnoreTags s) (cus_IgnoreTags merged),
           cus_PullSecret = layer (cus_PullSecret s) (cus_PullSecret merged),
           cus_Platforms = layer (cus_Platforms s) (cus_Platforms merged)\<rparr>)"

definition mergeCommonUpdateSettings :: "CommonUpdateSettings option list \<Rightarrow> CommonUpdateSettings" where
  "mergeCommonUpdateSettings settings = fold merge_common settings empty_CommonUpdateSettings"

definition merge_verification :: "ImagesVerification option \<Rightarrow> ImagesVerification \<Rightarrow> ImagesVerification" where
  "merge_verification setting merged =
     (case setting of
        None \<Rightarrow> merged
      | Some s \<Rightarrow> \<lparr>iv_Enabled = layer (iv_Enabled s) (iv_Enabled merged),
                   iv_CosignKey = layer (iv_CosignKey s) (iv_CosignKey merged)\<rparr>)"

definition mergeImagesVerification :: "ImagesVerification option list \<Rightarrow> ImagesVerification option" where
  "mergeImagesVerification settings =
     (let merged = fold merge_verification settings \<lparr>iv_Enabled = None, iv_CosignKey = None\<rparr>;
          anyNonNil = (\<exists>s \<in> set settings. s \<noteq> None)
      in if \<not> anyNonNil then None else Some merged)"

definition empty_GitConfig :: GitConfig where
  "empty_GitConfig =
     \<lparr>gc_Repository = None, gc_Branch = None, gc_WriteBackTarget = None, gc_PullRequest = None\<rparr>"

definition merge_git :: "GitConfig \<Rightarrow> GitConfig option \<Rightarrow> GitConfig" where
  "merge_git appGit mergedGit =
     (let m = (case mergedGit of None \<Rightarrow> empty_GitConfig | Some m \<Rightarrow> m)
      in \<lparr>gc_Repository = layer (gc_Repository appGit) (gc_Repository m),
          gc_Branch = layer (gc_Branch appGit) (gc_Branch m),
          gc_WriteBackTarget = layer (gc_WriteBackTarget appGit) (gc_WriteBackTarget m),
          gc_PullRequest = layer (gc_PullRequest appGit) (gc_PullRequest m)\<rparr>)"

text \<open>The result is never \<open>nil\<close>; theory \<open>DeepCopies\<close> shows that the merge leaves its arguments alone.\<close>

definition mergeWBCSettings :: "WriteBackSpec option \<Rightarrow> WriteBackSpec option \<Rightarrow> WriteBackSpec" where
  "mergeWBCSettings glob appWBC =
     (let merged = (case glob of None \<Rightarrow> \<lparr>ws_Method = None, ws_GitConfig = None\<rparr> | Some g \<Rightarrow> g)
      in case appWBC of
           None \<Rightarrow> merged
         | Some a \<Rightarrow>
             \<lparr>ws_Method = layer (ws_Method a) (ws_Method merged),
              ws_GitConfig =
                (case ws_GitConfig a of
                   None \<Rightarrow> ws_GitConfig merged
                 | Some g \<Rightarrow> Some (merge_git g (ws_GitConfig merged)))\<rparr>)"

section \<open>Pull requests\<close>

definition countPullRequestProviders :: "PullRequestSpec \<Rightarrow> nat" where
  "countPullRequestProviders pr =
     (if pr_GitHub pr \<noteq> None then 1 else 0) + (if pr_GitLab pr \<noteq> None then 1 else 0)"

fun labels_loop :: "string list \<Rightarrow> string list \<Rightarrow> string list" where
  "labels_loop [] out = out"
| "labels_loop (l # ls) out =
     (let l = strings_TrimSpace l
      in if l = [] then labels_loop ls out
         else if l \<in> set out then labels_loop ls out
         else labels_loop ls (out @ [l]))"

definition sanitizePRLabels :: "string list \<Rightarrow> string list" where
  "sanitizePRLabels labels = (if labels = [] then [] else labels_loop labels [])"

section \<open>Images\<close>

definition zero_ContainerImage :: ContainerImage where
  "zero_ContainerImage = ContainerImage [] [] None [] None []"

definition default_Image :: Image where
  "default_Image =
     \<lparr>im_ContainerImage = zero_ContainerImage, im_UpdateStrategy = StrategySemVer, im_ForceUpdate = False,
      im_AllowTags = [], im_IgnoreTags = [], im_PullSecret = [], im_Platforms = [],
      im_HelmImageName = [], im_HelmImageTag = [], im_HelmImageSpec = [], im_KustomizeImageName = [],
      im_PluginEnvName = [], im_PluginEnvTag = [], im_PluginEnvSpec = [],
      im_EnableVerification = False, im_Verify = None\<rparr>"

definition newImageFromCommonUpdateSettings :: "CommonUpdateSettings option \<Rightarrow> Image" where
  "newImageFromCommonUpdateSettings settings =
     (case settings of
        None \<Rightarrow> default_Image
      | Some s \<Rightarrow>
          default_Image
            \<lparr>im_UpdateStrategy := (case cus_UpdateStrategy s of None \<Rightarrow> StrategySemVer | Some v \<Rightarrow> ParseUpdateStrategy v),
             im_ForceUpdate := (case cus_ForceUpdate s of None \<Rightarrow> False | Some b \<Rightarrow> b),
             im_AllowTags := (case cus_AllowTags s of None \<Rightarrow> [] | Some v \<Rightarrow> v),
             im_PullSecret := (case cus_PullSecret s of None \<Rightarrow> [] | Some v \<Rightarrow> v),
             im_IgnoreTags := (case cus_IgnoreTags s of None \<Rightarrow> [] | Some v \<Rightarrow> v),
             im_Platforms := (case cus_Platforms s of None \<Rightarrow> [] | Some v \<Rightarrow> v)\<rparr>)"

datatype settings_error =
    OnlyOneTarget
  | NoKeySecret secret_error
  | CosignKeyRequired

definition set_Helm :: "HelmTarget option \<Rightarrow> Image \<Rightarrow> Image" where
  "set_Helm helm img =
     (case helm of
        None \<Rightarrow> img
      | Some h \<Rightarrow>
          (case ht_Spec h of
             Some s \<Rightarrow> img\<lparr>im_HelmImageSpec := s\<rparr>
           | None \<Rightarrow>
               (let img = (case ht_Name h of None \<Rightarrow> img | Some n \<Rightarrow> img\<lparr>im_HelmImageName := n\<rparr>)
                in case ht_Tag h of None \<Rightarrow> img | Some t \<Rightarrow> img\<lparr>im_HelmImageTag := t\<rparr>)))"

definition set_Plugin :: "PluginTarget option \<Rightarrow> Image \<Rightarrow> Image" where
  "set_Plugin plugin img =
     (case plugin of
        None \<Rightarrow> img
      | Some p \<Rightarrow>
          (case pt_Spec p of
             Some s \<Rightarrow> img\<lparr>im_PluginEnvSpec := s\<rparr>
           | None \<Rightarrow>
               (let img = (case pt_Name p of None \<Rightarrow> img | Some n \<Rightarrow> img\<lparr>im_PluginEnvName := n\<rparr>)
                in case pt_Tag p of None \<Rightarrow> img | Some t \<Rightarrow> img\<lparr>im_PluginEnvTag := t\<rparr>)))"

definition newImageFromManifestTargetSettings ::
  "ManifestTarget option \<Rightarrow> Image \<Rightarrow> settings_error + Image" where
  "newImageFromManifestTargetSettings settings img =
     (case settings of
        None \<Rightarrow> Inr img
      | Some s \<Rightarrow>
          (let count = (if mt_Helm s \<noteq> None then 1 else 0) + (if mt_Kustomize s \<noteq> None then 1 else 0)
                       + (if mt_Plugin s \<noteq> None then 1 else 0 :: nat)
           in if count > 1 then Inl OnlyOneTarget
              else
                (let img = set_Helm (mt_Helm s) img;
                     img = (case mt_Kustomize s of
                              None \<Rightarrow> img
                            | Some k \<Rightarrow> (case kt_Name k of None \<Rightarrow> img | Some n \<Rightarrow> img\<lparr>im_KustomizeImageName := n\<rparr>))
                 in Inr (set_Plugin (mt_Plugin s) img))))"

definition newImageFromImagesVerification ::
  "kube_client \<Rightarrow> string \<Rightarrow> ImagesVerification option \<Rightarrow> Image \<Rightarrow> settings_error + Image" where
  "newImageFromImagesVerification client appNamespace settings img =
     (case settings of
        None \<Rightarrow> Inr img
      | Some s \<Rightarrow>
          (let img = img\<lparr>im_EnableVerification := (case iv_Enabled s of None \<Rightarrow> True | Some b \<Rightarrow> b)\<rparr>
           in if \<not> im_EnableVerification img then Inr img
              else
                (case iv_CosignKey s of
                   None \<Rightarrow> Inl CosignKeyRequired
                 | Some ref \<Rightarrow>
                     (case GetSecretField client appNamespace (sr_SecretName ref) (sr_Key ref) of
                        Inl err \<Rightarrow> Inl (NoKeySecret err)
                      | Inr key \<Rightarrow> Inr (img\<lparr>im_Verify := Some key\<rparr>)))))"

section \<open>The image list\<close>

text \<open>The two tests that \<open>parseImageList\<close> makes when a webhook event is being processed.\<close>

definition webhook_matches :: "WebhookEvent option \<Rightarrow> ContainerImage \<Rightarrow> bool" where
  "webhook_matches webhookEvent ci =
     (case webhookEvent of
        None \<Rightarrow> True
      | Some e \<Rightarrow>
          \<not> (RegistryURL ci \<noteq> [] \<and> RegistryURL ci \<noteq> we_RegistryURL e) \<and> ImageName ci = we_Repository e)"

text \<open>The kustomize image of a container image is set from the manifest target when it has a name.\<close>

definition kustomize_image :: "ref_parser \<Rightarrow> ImageConfig \<Rightarrow> ContainerImage option" where
  "kustomize_image pn im =
     (case ic_ManifestTarget im of
        None \<Rightarrow> None
      | Some m \<Rightarrow>
          (case mt_Kustomize m of
             None \<Rightarrow> None
           | Some k \<Rightarrow>
               (case kt_Name k of
                  None \<Rightarrow> None
                | Some n \<Rightarrow> if n \<noteq> [] then Some (NewFromIdentifier pn n) else None)))"

definition with_KustomizeImage :: "ContainerImage option \<Rightarrow> ContainerImage \<Rightarrow> ContainerImage" where
  "with_KustomizeImage k ci =
     (case k of
        None \<Rightarrow> ci
      | Some _ \<Rightarrow> ContainerImage (RegistryURL ci) (ImageName ci) (ImageTag ci) (ImageAlias ci) k (original ci))"

text \<open>One round of the loop: the image it appends, or \<^const>\<open>None\<close> when the round is skipped.\<close>

definition parse_image ::
  "ref_parser \<Rightarrow> kube_client \<Rightarrow> string \<Rightarrow> CommonUpdateSettings option \<Rightarrow> ImagesVerification option \<Rightarrow>
   WebhookEvent option \<Rightarrow> ImageConfig \<Rightarrow> Image option" where
  "parse_image pn client appNamespace appSettings appVerification webhookEvent im =
     (let final = mergeCommonUpdateSettings [appSettings, ic_CommonUpdateSettings im];
          img = newImageFromCommonUpdateSettings (Some final)
      in case newImageFromManifestTargetSettings (ic_ManifestTarget im) img of
           Inl err \<Rightarrow> None
         | Inr img \<Rightarrow>
             (let finalVerification = mergeImagesVerification [appVerification, ic_ImagesVerification im]
              in case newImageFromImagesVerification client appNamespace finalVerification img of
                   Inl err \<Rightarrow> None
                 | Inr img \<Rightarrow>
                     (let ci = NewFromIdentifier pn (ic_Alias im @ ''='' @ ic_ImageName im)
                      in if \<not> webhook_matches webhookEvent ci then None
                         else Some (img\<lparr>im_ContainerImage := with_KustomizeImage (kustomize_image pn im) ci\<rparr>))))"

definition parseImageList ::
  "ref_parser \<Rightarrow> kube_client \<Rightarrow> string \<Rightarrow> ImageConfig list \<Rightarrow> CommonUpdateSettings option \<Rightarrow>
   ImagesVerification option \<Rightarrow> WebhookEvent option \<Rightarrow> Image list" where
  "parseImageList pn client appNamespace images appSettings appVerification webhookEvent =
     List.map_filter (parse_image pn client appNamespace appSettings appVerification webhookEvent) images"

section \<open>The innermost layer wins\<close>

text \<open>
  The specification of layering: the value of a field is the one of the last layer that sets it.
\<close>

fun effective :: "('s \<Rightarrow> 'a option) \<Rightarrow> 's option list \<Rightarrow> 'a option" where
  "effective f [] = None"
| "effective f (l # ls) =
     (case effective f ls of Some v \<Rightarrow> Some v | None \<Rightarrow> (case l of None \<Rightarrow> None | Some s \<Rightarrow> f s))"

lemma layer_simps [simp]: "layer (Some v) y = Some v" "layer None y = y" "layer y None = y"
  by (simp_all add: layer_def)

lemma layer_assoc: "layer x (layer y z) = layer (layer x y) z"
  by (auto simp: layer_def)

lemma effective_Cons: "effective f (l # ls) = layer (effective f ls) (case l of None \<Rightarrow> None | Some s \<Rightarrow> f s)"
  by (cases "effective f ls") auto

lemma effective_append: "effective f (ls @ ms) = layer (effective f ms) (effective f ls)"
  by (induction ls) (simp_all add: effective_Cons layer_assoc del: effective.simps(2))

lemma fold_layer:
  assumes "\<And>l m. f (g l m) = layer (case l of None \<Rightarrow> None | Some s \<Rightarrow> f s) (f m)"
  shows "f (fold g ls m) = layer (effective f ls) (f m)"
  by (induction ls arbitrary: m) (simp_all add: assms effective_Cons layer_assoc del: effective.simps(2))

lemma merge_common_fields:
  "cus_UpdateStrategy (mergeCommonUpdateSettings ls) = effective cus_UpdateStrategy ls"
  "cus_ForceUpdate (mergeCommonUpdateSettings ls) = effective cus_ForceUpdate ls"
  "cus_AllowTags (mergeCommonUpdateSettings ls) = effective cus_AllowTags ls"
  "cus_IgnoreTags (mergeCommonUpdateSettings ls) = effective cus_IgnoreTags ls"
  "cus_PullSecret (mergeCommonUpdateSettings ls) = effective cus_PullSecret ls"
  "cus_Platforms (mergeCommonUpdateSettings ls) = effective cus_Platforms ls"
  unfolding mergeCommonUpdateSettings_def
  by (subst fold_layer; simp add: merge_common_def empty_CommonUpdateSettings_def split: option.split)+

lemma merge_verification_fields:
  "mergeImagesVerification ls =
     (if \<exists>s \<in> set ls. s \<noteq> None
      then Some \<lparr>iv_Enabled = effective iv_Enabled ls, iv_CosignKey = effective iv_CosignKey ls\<rparr> else None)"
proof -
  let ?m = "fold merge_verification ls \<lparr>iv_Enabled = None, iv_CosignKey = None\<rparr>"
  have "iv_Enabled ?m = effective iv_Enabled ls" "iv_CosignKey ?m = effective iv_CosignKey ls"
    by (subst fold_layer; simp add: merge_verification_def split: option.split)+
  then show ?thesis by (cases ?m) (simp add: mergeImagesVerification_def Let_def)
qed

lemma effective_merged:
  assumes "\<And>ls. f (m ls) = effective f ls"
  shows "effective f [Some (m ls), l] = effective f (ls @ [l])"
  using assms by (simp add: effective_append effective_Cons del: effective.simps(2))

lemmas effective_two_levels =
  effective_merged [of cus_UpdateStrategy mergeCommonUpdateSettings, OF merge_common_fields(1)]
  effective_merged [of cus_ForceUpdate mergeCommonUpdateSettings, OF merge_common_fields(2)]
  effective_merged [of cus_AllowTags mergeCommonUpdateSettings, OF merge_common_fields(3)]
  effective_merged [of cus_IgnoreTags mergeCommonUpdateSettings, OF merge_common_fields(4)]
  effective_merged [of cus_PullSecret mergeCommonUpdateSettings, OF merge_common_fields(5)]
  effective_merged [of cus_Platforms mergeCommonUpdateSettings, OF merge_common_fields(6)]

lemma effective_None: "\<forall>s \<in> set ls. s = None \<Longrightarrow> effective f ls = None"
  by (induction ls) auto

lemma merge_verification_merged:
  "mergeImagesVerification [mergeImagesVerification ls, l] = mergeImagesVerification (ls @ [l])"
  by (auto simp: merge_verification_fields effective_append effective_None effective_Cons
      simp del: effective.simps(2))

section \<open>The images of an application\<close>

lemma set_Helm_keeps [simp]:
  "im_UpdateStrategy (set_Helm h i) = im_UpdateStrategy i" "im_ForceUpdate (set_Helm h i) = im_ForceUpdate i"
  "im_AllowTags (set_Helm h i) = im_AllowTags i" "im_IgnoreTags (set_Helm h i) = im_IgnoreTags i"
  "im_PullSecret (set_Helm h i) = im_PullSecret i" "im_Platforms (set_Helm h i) = im_Platforms i"
  "im_EnableVerification (set_Helm h i) = im_EnableVerification i" "im_Verify (set_Helm h i) = im_Verify i"
  by (simp_all add: set_Helm_def Let_def split: option.split)

lemma set_Plugin_keeps [simp]:
  "im_UpdateStrategy (set_Plugin h i) = im_UpdateStrategy i" "im_ForceUpdate (set_Plugin h i) = im_ForceUpdate i"
  "im_AllowTags (set_Plugin h i) = im_AllowTags i" "im_IgnoreTags (set_Plugin h i) = im_IgnoreTags i"
  "im_PullSecret (set_Plugin h i) = im_PullSecret i" "im_Platforms (set_Plugin h i) = im_Platforms i"
  "im_EnableVerification (set_Plugin h i) = im_EnableVerification i" "im_Verify (set_Plugin h i) = im_Verify i"
  by (simp_all add: set_Plugin_def Let_def split: option.split)

text \<open>The fields that decide which tag is chosen and how it is checked.\<close>

definition update_fields :: "Image \<Rightarrow> UpdateStrategy \<times> bool \<times> string \<times> string list \<times> string \<times> string list" where
  "update_fields img =
     (im_UpdateStrategy img, im_ForceUpdate img, im_AllowTags img, im_IgnoreTags img, im_PullSecret img,
      im_Platforms img)"

lemma manifest_target_keeps:
  assumes "newImageFromManifestTargetSettings m i = Inr j"
  shows "update_fields j = update_fields i" "im_EnableVerification j = im_EnableVerification i"
    "im_Verify j = im_Verify i"
  using assms
  by (auto simp: newImageFromManifestTargetSettings_def update_fields_def Let_def split: option.splits if_splits)

lemma verification_keeps:
  "newImageFromImagesVerification c ns v i = Inr j \<Longrightarrow> update_fields j = update_fields i"
  by (auto simp: newImageFromImagesVerification_def update_fields_def Let_def split: option.splits if_splits sum.splits)

lemma parse_image_Some:
  assumes "parse_image pn client ns s v e im = Some img"
  obtains i j where
    "newImageFromManifestTargetSettings (ic_ManifestTarget im)
       (newImageFromCommonUpdateSettings (Some (mergeCommonUpdateSettings [s, ic_CommonUpdateSettings im]))) = Inr i"
    "newImageFromImagesVerification client ns (mergeImagesVerification [v, ic_ImagesVerification im]) i = Inr j"
    "webhook_matches e (NewFromIdentifier pn (ic_Alias im @ ''='' @ ic_ImageName im))"
    "img = j\<lparr>im_ContainerImage := with_KustomizeImage (kustomize_image pn im)
               (NewFromIdentifier pn (ic_Alias im @ ''='' @ ic_ImageName im))\<rparr>"
  using assms by (auto simp: parse_image_def Let_def split: sum.splits if_splits)

text \<open>
  \<open>C9\<close>.  Settings are layered field by field: for every image that \<open>parseImageList\<close> keeps, each update
  setting is the one of the innermost of the three levels (the spec, the matching rule, the image) that
  sets it, and the documented default when no level does.
\<close>

theorem settings_layering:
  assumes "parse_image pn client ns (Some (mergeCommonUpdateSettings [spec, rule])) v e im = Some img"
  defines "levels \<equiv> [spec, rule, ic_CommonUpdateSettings im]"
  shows "update_fields img =
    (case effective cus_UpdateStrategy levels of None \<Rightarrow> StrategySemVer | Some s \<Rightarrow> ParseUpdateStrategy s,
     case effective cus_ForceUpdate levels of None \<Rightarrow> False | Some b \<Rightarrow> b,
     case effective cus_AllowTags levels of None \<Rightarrow> [] | Some a \<Rightarrow> a,
     case effective cus_IgnoreTags levels of None \<Rightarrow> [] | Some l \<Rightarrow> l,
     case effective cus_PullSecret levels of None \<Rightarrow> [] | Some p \<Rightarrow> p,
     case effective cus_Platforms levels of None \<Rightarrow> [] | Some p \<Rightarrow> p)"
proof -
  obtain i j where ij:
    "newImageFromManifestTargetSettings (ic_ManifestTarget im)
       (newImageFromCommonUpdateSettings (Some (mergeCommonUpdateSettings
          [Some (mergeCommonUpdateSettings [spec, rule]), ic_CommonUpdateSettings im]))) = Inr i"
    "newImageFromImagesVerification client ns (mergeImagesVerification [v, ic_ImagesVerification im]) i = Inr j"
    and img: "update_fields img = update_fields j"
    by (rule parse_image_Some [OF assms(1)]) (simp add: update_fields_def)
  show ?thesis
    unfolding img verification_keeps [OF ij(2)] manifest_target_keeps(1) [OF ij(1)] levels_def
    by (simp only: update_fields_def newImageFromCommonUpdateSettings_def default_Image_def option.case
        Image.select_convs Image.update_convs merge_common_fields effective_two_levels append.simps)
qed

definition sample_ImageConfig :: ImageConfig where
  "sample_ImageConfig =
     \<lparr>ic_Alias = ''web'', ic_ImageName = ''ghcr.io/org/web:1.x'',
      ic_CommonUpdateSettings = Some (empty_CommonUpdateSettings\<lparr>cus_AllowTags := Some ''any''\<rparr>),
      ic_ManifestTarget = None, ic_ImagesVerification = None\<rparr>"

definition sample_kube_client :: kube_client where
  "sample_kube_client ns name =
     (if ns = ''argocd'' \<and> name = ''cosign'' then Inr [(''cosign.pub'', ''PEM'')] else Inl ''not found'')"

definition sample_verification :: ImagesVerification where
  "sample_verification =
     \<lparr>iv_Enabled = None, iv_CosignKey = Some \<lparr>sr_SecretName = ''cosign'', sr_Key = ''cosign.pub''\<rparr>\<rparr>"

theorem settings_layering_witness:
  "update_fields (the (parse_image (\<lambda>_. None) sample_kube_client ''argocd''
      (Some (mergeCommonUpdateSettings
         [Some (empty_CommonUpdateSettings\<lparr>cus_UpdateStrategy := Some ''digest'', cus_AllowTags := Some ''none''\<rparr>),
          Some (empty_CommonUpdateSettings\<lparr>cus_UpdateStrategy := Some ''alphabetical''\<rparr>)]))
      None None sample_ImageConfig)) =
   (StrategyAlphabetical, False, ''any'', [], [], [])"
proof -
  let ?spec = "Some (empty_CommonUpdateSettings\<lparr>cus_UpdateStrategy := Some ''digest'', cus_AllowTags := Some ''none''\<rparr>)"
    and ?rule = "Some (empty_CommonUpdateSettings\<lparr>cus_UpdateStrategy := Some ''alphabetical''\<rparr>)"
  let ?r = "parse_image (\<lambda>_. None) sample_kube_client ''argocd'' (Some (mergeCommonUpdateSettings [?spec, ?rule]))
      None None sample_ImageConfig"
  have "?r \<noteq> None" by code_simp
  then have some: "?r = Some (the ?r)" by simp
  have strat: "ParseUpdateStrategy ''alphabetical'' = StrategyAlphabetical" by code_simp
  show ?thesis
    using settings_layering [OF some]
    by (simp add: strat empty_CommonUpdateSettings_def sample_ImageConfig_def)
qed



lemma with_KustomizeImage_simps [simp]:
  "RegistryURL (with_KustomizeImage k ci) = RegistryURL ci" "ImageName (with_KustomizeImage k ci) = ImageName ci"
  by (simp_all add: with_KustomizeImage_def split: option.split)

text \<open>
  \<open>C12\<close>.  A webhook event only narrows the work: the image list of an event is the image list of a
  periodic run, restricted to the images of the event's repository whose registry is the event's or is
  left open.
\<close>

theorem webhook_narrows_image_list:
  "parseImageList pn client ns images s v (Some e) =
     filter (\<lambda>img. ImageName (im_ContainerImage img) = we_Repository e \<and>
                   (RegistryURL (im_ContainerImage img) = [] \<or> RegistryURL (im_ContainerImage img) = we_RegistryURL e))
       (parseImageList pn client ns images s v None)"
proof -
  let ?P = "\<lambda>img. ImageName (im_ContainerImage img) = we_Repository e \<and>
      (RegistryURL (im_ContainerImage img) = [] \<or> RegistryURL (im_ContainerImage img) = we_RegistryURL e)"
  have "parse_image pn client ns s v (Some e) im =
      (case parse_image pn client ns s v None im of None \<Rightarrow> None | Some img \<Rightarrow> if ?P img then Some img else None)" for im
    by (auto simp: parse_image_def webhook_matches_def Let_def split: sum.split)
  then show ?thesis
    unfolding parseImageList_def by (induction images) (auto simp: map_filter_simps split: option.splits)
qed

text \<open>The labels of a pull request: trimmed, without empty ones, the first of equal ones kept.\<close>

lemma labels_loop_set:
  "distinct out \<Longrightarrow> distinct (labels_loop ls out) \<and>
     set (labels_loop ls out) = set out \<union> (strings_TrimSpace ` set ls - {[]})"
  by (induction ls arbitrary: out) (auto simp: Let_def)

lemma sanitizePRLabels_spec:
  "distinct (sanitizePRLabels ls)" "set (sanitizePRLabels ls) = strings_TrimSpace ` set ls - {[]}"
  using labels_loop_set [of "[]" ls] by (simp_all add: sanitizePRLabels_def)

end
