(* ===== verification/Applications.thy ===== *)
theory Applications
  imports ImageSettings Paths
begin

text \<open>
  Argo CD applications as the updater sees them, and the images in their spec
  (\<open>pkg/argocd/argocd.go\<close> from \<open>getHelmParamNames\<close> on, and the types of \<open>types.go\<close>).

  The types of \<open>argoproj/argo-cd\<close> are reduced to the fields that the code reads or writes.  Three of its
  methods are parameters (\<open>argo_lib\<close>): \<open>HasMultipleSources\<close>, \<open>MergeImage\<close> and \<open>AddEnvEntry\<close>.  The code
  writes through the pointer that \<open>getApplicationSource\<close> returns, so the model's function returns
  where the pointer points, and \<open>store_source\<close> says what of the application a write through it reaches.
\<close>

section \<open>Types\<close>

record HelmParameter =
  hp_Name :: string
  hp_Value :: string
  hp_ForceString :: bool

record EnvEntry =
  ee_Name :: string
  ee_Value :: string

record HelmSource =
  hs_Parameters :: "HelmParameter list"

record KustomizeSource =
  ks_Images :: "string list"

text \<open>The slice \<open>Env\<close> holds pointers, which may be \<open>nil\<close>.\<close>

record PluginSource =
  ps_Env :: "EnvEntry option list"

record ApplicationSource =
  src_RepoURL :: string
  src_Path :: string
  src_TargetRevision :: string
  src_Helm :: "HelmSource option"
  src_Kustomize :: "KustomizeSource option"
  src_Plugin :: "PluginSource option"

datatype ApplicationSourceType =
  SourceTypeHelm | SourceTypeKustomize | SourceTypeDirectory | SourceTypePlugin | SourceTypeOther string

text \<open>The dry source of a source hydrator has the fields of an \<open>ApplicationSource\<close>.\<close>

record ApplicationSpec =
  sp_Project :: string
  sp_Source :: "ApplicationSource option"
  sp_Sources :: "ApplicationSource list"
  sp_DrySource :: "ApplicationSource option"

record Application =
  app_Namespace :: string
  app_Name :: string
  app_Annotations :: "(string, string) gomap"
  app_Labels :: "(string, string) gomap"
  app_Spec :: ApplicationSpec
  st_SourceType :: ApplicationSourceType
  st_SourceTypes :: "ApplicationSourceType list"
  st_Images :: "string list"

record argo_lib =
  HasMultipleSources :: "ApplicationSpec \<Rightarrow> bool"
  MergeImage :: "string \<Rightarrow> string list \<Rightarrow> string list"
  AddEnvEntry :: "EnvEntry \<Rightarrow> EnvEntry option list \<Rightarrow> EnvEntry option list"

datatype WriteBackMethod = WriteBackApplication | WriteBackGit

datatype ApplicationType =
  ApplicationTypeUnsupported | ApplicationTypeHelm | ApplicationTypeKustomize | ApplicationTypePlugin

datatype PRProvider = PRProviderUnsupported | PRProviderGitHub | PRProviderGitLab

text \<open>
  The credentials source is a closure in the code; it is one of the two that \<open>getGitCredsSource\<close> builds,
  with the captured secret reference and namespace.
\<close>

datatype GitCredsSource = CredsFromArgoCD | CredsFromSecret string string

record PullRequest =
  pull_title :: string
  pull_body :: string
  pull_head :: string
  pull_base :: string
  pull_labels :: "string list"

record WriteBackConfig =
  wb_Method :: WriteBackMethod
  wb_GetCreds :: "GitCredsSource option"
  wb_GitBranch :: string
  wb_GitWriteBranch :: string
  wb_GitCommitUser :: string
  wb_GitCommitEmail :: string
  wb_GitCommitMessage :: string
  wb_GitCommitSigningKey :: string
  wb_GitCommitSigningMethod :: string
  wb_GitCommitSignOff :: bool
  wb_GitCommitMethod :: string
  wb_KustomizeBase :: string
  wb_Target :: string
  wb_GitRepo :: string
  wb_PRProvider :: PRProvider
  wb_PRLabels :: "string list"
  wb_PullRequest :: "PullRequest option"

definition RequiresLocking :: "WriteBackConfig \<Rightarrow> bool" where
  "RequiresLocking wbc = (case wb_Method wbc of WriteBackGit \<Rightarrow> True | _ \<Rightarrow> False)"

definition IsValidGitCommitMethod :: "string \<Rightarrow> bool" where
  "IsValidGitCommitMethod m = (m = [] \<or> m = ''git'' \<or> m = ''api'')"

record ApplicationImages =
  ai_Application :: Application
  ai_WriteBackConfig :: WriteBackConfig
  ai_Images :: "Image list"

section \<open>The type of an application\<close>

definition DefaultTargetFilePrefix :: string where
  "DefaultTargetFilePrefix = ''.argocd-source-''"

text \<open>The first test on the write-back target: a YAML file that is not the default override file.\<close>

definition helm_target :: "string \<Rightarrow> bool" where
  "helm_target target =
     (target \<noteq> [] \<and> (strings_HasSuffix target ''.yaml'' \<or> strings_HasSuffix target ''.yml'') \<and>
      \<not> strings_HasPrefix (filepath_Base target) DefaultTargetFilePrefix)"

fun first_known_type :: "ApplicationSourceType list \<Rightarrow> ApplicationSourceType" where
  "first_known_type [] = SourceTypeDirectory"
| "first_known_type (st # sts) =
     (if st = SourceTypeHelm \<or> st = SourceTypeKustomize \<or> st = SourceTypePlugin then st
      else first_known_type sts)"

definition getApplicationSourceType ::
  "argo_lib \<Rightarrow> Application \<Rightarrow> WriteBackConfig option \<Rightarrow> ApplicationSourceType" where
  "getApplicationSourceType lib app wbc =
     (if (case wbc of None \<Rightarrow> False | Some w \<Rightarrow> wb_KustomizeBase w \<noteq> []) then SourceTypeKustomize
      else if (case wbc of None \<Rightarrow> False | Some w \<Rightarrow> helm_target (wb_Target w)) then SourceTypeHelm
      else if HasMultipleSources lib (app_Spec app) then first_known_type (st_SourceTypes app)
      else
        (case sp_DrySource (app_Spec app) of
           None \<Rightarrow> st_SourceType app
         | Some ds \<Rightarrow>
             if src_Helm ds \<noteq> None then SourceTypeHelm
             else if src_Kustomize ds \<noteq> None then SourceTypeKustomize
             else if src_Plugin ds \<noteq> None then SourceTypePlugin
             else st_SourceType app))"

definition getApplicationType :: "argo_lib \<Rightarrow> Application \<Rightarrow> WriteBackConfig option \<Rightarrow> ApplicationType" where
  "getApplicationType lib app wbc =
     (case getApplicationSourceType lib app wbc of
        SourceTypeKustomize \<Rightarrow> ApplicationTypeKustomize
      | SourceTypeHelm \<Rightarrow> ApplicationTypeHelm
      | SourceTypePlugin \<Rightarrow>
          (if (case wbc of None \<Rightarrow> False | Some w \<Rightarrow> wb_Method w = WriteBackGit) then ApplicationTypeHelm
           else ApplicationTypePlugin)
      | _ \<Rightarrow> ApplicationTypeUnsupported)"

definition IsValidApplicationType :: "argo_lib \<Rightarrow> Application \<Rightarrow> WriteBackConfig option \<Rightarrow> bool" where
  "IsValidApplicationType lib app wbc = (getApplicationType lib app wbc \<noteq> ApplicationTypeUnsupported)"

section \<open>The source of an application\<close>

text \<open>
  Where the returned pointer points: an element of \<open>Spec.Sources\<close>, the fresh struct built from the dry
  source, \<open>Spec.Source\<close>, or nowhere.
\<close>

datatype source_ptr = AtSources nat | AtDrySource | AtSource | NilSource

definition source_has_type :: "ApplicationSourceType \<Rightarrow> ApplicationSource \<Rightarrow> bool" where
  "source_has_type t s =
     (t = SourceTypeHelm \<and> src_Helm s \<noteq> None \<or> t = SourceTypeKustomize \<and> src_Kustomize s \<noteq> None
      \<or> t = SourceTypePlugin \<and> src_Plugin s \<noteq> None)"

definition source_has_any :: "ApplicationSource \<Rightarrow> bool" where
  "source_has_any s = (src_Helm s \<noteq> None \<or> src_Kustomize s \<noteq> None \<or> src_Plugin s \<noteq> None)"

definition getApplicationSource ::
  "argo_lib \<Rightarrow> Application \<Rightarrow> WriteBackConfig option \<Rightarrow> source_ptr go" where
  "getApplicationSource lib app wbc =
     (if HasMultipleSources lib (app_Spec app) then
        (let t = getApplicationSourceType lib app wbc;
             srcs = sp_Sources (app_Spec app)
         in case first_index (source_has_type t) srcs of
              Some i \<Rightarrow> Ret (AtSources i)
            | None \<Rightarrow>
                (case (if t \<noteq> SourceTypeDirectory \<and> length (st_SourceTypes app) = length srcs
                       then first_index (\<lambda>st. st = t) (st_SourceTypes app) else None) of
                   Some i \<Rightarrow> Ret (AtSources i)
                 | None \<Rightarrow>
                     (case first_index source_has_any srcs of
                        Some i \<Rightarrow> Ret (AtSources i)
                      | None \<Rightarrow> if srcs = [] then Panic else Ret (AtSources 0))))
      else if sp_DrySource (app_Spec app) \<noteq> None then Ret AtDrySource
      else if sp_Source (app_Spec app) \<noteq> None then Ret AtSource else Ret NilSource)"

fun load_source :: "Application \<Rightarrow> source_ptr \<Rightarrow> ApplicationSource option" where
  "load_source app (AtSources i) = Some (sp_Sources (app_Spec app) ! i)"
| "load_source app AtDrySource = sp_DrySource (app_Spec app)"
| "load_source app AtSource = sp_Source (app_Spec app)"
| "load_source app NilSource = None"

text \<open>
  The struct made from the dry source shares the \<open>Helm\<close>, \<open>Kustomize\<close> and \<open>Plugin\<close> objects of the
  application, so a change inside them is seen there, but a pointer that was \<open>nil\<close> in the dry source
  is only set in the copy.
\<close>

definition share :: "'a option \<Rightarrow> 'a option \<Rightarrow> 'a option" where
  "share old new = (if old = None then None else new)"

fun store_source :: "Application \<Rightarrow> source_ptr \<Rightarrow> ApplicationSource \<Rightarrow> Application" where
  "store_source app (AtSources i) s =
     app\<lparr>app_Spec := (app_Spec app)\<lparr>sp_Sources := (sp_Sources (app_Spec app))[i := s]\<rparr>\<rparr>"
| "store_source app AtDrySource s =
     app\<lparr>app_Spec := (app_Spec app)
       \<lparr>sp_DrySource := map_option (\<lambda>ds. ds\<lparr>src_Helm := share (src_Helm ds) (src_Helm s),
          src_Kustomize := share (src_Kustomize ds) (src_Kustomize s),
          src_Plugin := share (src_Plugin ds) (src_Plugin s)\<rparr>) (sp_DrySource (app_Spec app))\<rparr>\<rparr>"
| "store_source app AtSource s = app\<lparr>app_Spec := (app_Spec app)\<lparr>sp_Source := Some s\<rparr>\<rparr>"
| "store_source app NilSource s = app"

datatype image_error = NotHelm | NotKustomize | NotPlugin | UnsupportedType

text \<open>
  Reading or changing the source of an application; a \<open>nil\<close> source is dereferenced by the code and
  panics.
\<close>

definition with_source ::
  "argo_lib \<Rightarrow> Application \<Rightarrow> WriteBackConfig option \<Rightarrow> (ApplicationSource \<Rightarrow> 'a) \<Rightarrow> 'a go" where
  "with_source lib app wbc f =
     go_bind (getApplicationSource lib app wbc)
       (\<lambda>p. case load_source app p of None \<Rightarrow> Panic | Some s \<Rightarrow> Ret (f s))"

definition change_source ::
  "argo_lib \<Rightarrow> Application \<Rightarrow> WriteBackConfig option \<Rightarrow> (ApplicationSource \<Rightarrow> ApplicationSource) \<Rightarrow> Application go" where
  "change_source lib app wbc f =
     go_bind (getApplicationSource lib app wbc)
       (\<lambda>p. case load_source app p of None \<Rightarrow> Panic | Some s \<Rightarrow> Ret (store_source app p (f s)))"

section \<open>Helm\<close>

definition DefaultHelmImageName :: string where
  "DefaultHelmImageName = ''image.name''"

definition DefaultHelmImageTag :: string where
  "DefaultHelmImageTag = ''image.tag''"

definition getHelmParamNames :: "Image option \<Rightarrow> string \<times> string" where
  "getHelmParamNames img =
     (case img of
        None \<Rightarrow> (DefaultHelmImageName, DefaultHelmImageTag)
      | Some i \<Rightarrow>
          if ImageAlias (im_ContainerImage i) = [] then (DefaultHelmImageName, DefaultHelmImageTag)
          else if im_HelmImageSpec i \<noteq> [] then (strings_TrimSpace (im_HelmImageSpec i), [])
          else (if im_HelmImageName i \<noteq> [] then im_HelmImageName i else DefaultHelmImageName,
                if im_HelmImageTag i \<noteq> [] then im_HelmImageTag i else DefaultHelmImageTag))"

definition getHelmParam :: "HelmParameter list \<Rightarrow> string \<Rightarrow> HelmParameter option" where
  "getHelmParam params name = find (\<lambda>p. hp_Name p = name) params"

text \<open>The first loop of \<open>mergeHelmParams\<close>, with the names that it has merged.\<close>

fun merge_src_loop ::
  "HelmParameter list \<Rightarrow> HelmParameter list \<Rightarrow> HelmParameter list \<Rightarrow> string set \<Rightarrow>
   HelmParameter list \<times> string set" where
  "merge_src_loop merge [] ret merged = (ret, merged)"
| "merge_src_loop merge (p # ps) ret merged =
     (case find (\<lambda>m. hp_Name p = hp_Name m) merge of
        Some m \<Rightarrow> merge_src_loop merge ps (ret @ [m]) (insert (hp_Name m) merged)
      | None \<Rightarrow> merge_src_loop merge ps (ret @ [p]) merged)"

definition mergeHelmParams :: "HelmParameter list \<Rightarrow> HelmParameter list \<Rightarrow> HelmParameter list" where
  "mergeHelmParams src merge =
     (case merge_src_loop merge src [] {} of
        (ret, merged) \<Rightarrow> ret @ filter (\<lambda>m. hp_Name m \<notin> merged) merge)"

text \<open>The three parameter names of an image, with the defaults used when there is no image spec.\<close>

definition helm_names :: "Image \<Rightarrow> string \<times> string \<times> string" where
  "helm_names img =
     (if im_HelmImageSpec img = []
      then ([], if im_HelmImageName img = [] then DefaultHelmImageName else im_HelmImageName img,
            if im_HelmImageTag img = [] then DefaultHelmImageTag else im_HelmImageTag img)
      else (im_HelmImageSpec img, im_HelmImageName img, im_HelmImageTag img))"

definition helm_image_of :: "HelmParameter list \<Rightarrow> Image \<Rightarrow> string" where
  "helm_image_of params img =
     (case helm_names img of (hpImageSpec, hpImageName, hpImageTag) \<Rightarrow>
        if hpImageSpec \<noteq> [] then
          (case getHelmParam params hpImageSpec of Some p \<Rightarrow> hp_Value p | None \<Rightarrow> [])
        else
          (case (getHelmParam params hpImageName, getHelmParam params hpImageTag) of
             (Some n, Some t) \<Rightarrow> hp_Value n @ '':'' @ hp_Value t
           | _ \<Rightarrow> []))"

definition GetHelmImage ::
  "argo_lib \<Rightarrow> Application \<Rightarrow> WriteBackConfig option \<Rightarrow> Image \<Rightarrow> (image_error + string) go" where
  "GetHelmImage lib app wbc img =
     (if getApplicationType lib app wbc \<noteq> ApplicationTypeHelm then Ret (Inl NotHelm)
      else with_source lib app wbc
        (\<lambda>s. case src_Helm s of
               None \<Rightarrow> Inr []
             | Some h \<Rightarrow> Inr (helm_image_of (hs_Parameters h) img)))"

definition helm_merge_params :: "ContainerImage \<Rightarrow> Image \<Rightarrow> HelmParameter list" where
  "helm_merge_params newImage img =
     (let mk = (\<lambda>n v. \<lparr>hp_Name = n, hp_Value = v, hp_ForceString = True\<rparr>)
      in case helm_names img of (hpImageSpec, hpImageName, hpImageTag) \<Rightarrow>
           if hpImageSpec \<noteq> [] then [mk hpImageSpec (GetFullNameWithTag newImage)]
           else mk hpImageName (GetFullNameWithoutTag newImage) #
                (let tagValue = GetTagWithDigest newImage
                 in if tagValue \<noteq> [] then [mk hpImageTag tagValue] else []))"

definition SetHelmImage ::
  "argo_lib \<Rightarrow> Application \<Rightarrow> ContainerImage \<Rightarrow> WriteBackConfig option \<Rightarrow> Image \<Rightarrow>
   (image_error + Application) go" where
  "SetHelmImage lib app newImage wbc img =
     (if getApplicationType lib app wbc \<noteq> ApplicationTypeHelm then Ret (Inl NotHelm)
      else go_bind (change_source lib app wbc
        (\<lambda>s. let params = (case src_Helm s of None \<Rightarrow> [] | Some h \<Rightarrow> hs_Parameters h)
             in s\<lparr>src_Helm := Some \<lparr>hs_Parameters = mergeHelmParams params (helm_merge_params newImage img)\<rparr>\<rparr>))
        (\<lambda>app'. Ret (Inr app')))"

section \<open>Kustomize\<close>

text \<open>Does an entry of the spec belong to the image?  The test that getting and setting share.\<close>

definition kustomize_entry :: "ContainerImage \<Rightarrow> string \<Rightarrow> string \<Rightarrow> bool" where
  "kustomize_entry entry name ksImageName =
     (ImageName entry = name \<and>
      (ksImageName \<noteq> [] \<and> ImageAlias entry \<noteq> [] \<longrightarrow> ImageAlias entry = ksImageName))"

definition GetKustomizeImage ::
  "argo_lib \<Rightarrow> ref_parser \<Rightarrow> Application \<Rightarrow> WriteBackConfig option \<Rightarrow> Image \<Rightarrow> (image_error + string) go" where
  "GetKustomizeImage lib pn app wbc img =
     (if getApplicationType lib app wbc \<noteq> ApplicationTypeKustomize then Ret (Inl NotKustomize)
      else with_source lib app wbc
        (\<lambda>s. case src_Kustomize s of
               None \<Rightarrow> Inr []
             | Some k \<Rightarrow>
                 (case find (\<lambda>a. kustomize_entry (NewFromIdentifier pn a) (ImageName (im_ContainerImage img))
                                   (im_KustomizeImageName img)) (ks_Images k) of
                    Some a \<Rightarrow> Inr a
                  | None \<Rightarrow> Inr [])))"

definition kustomize_param :: "ContainerImage \<Rightarrow> string \<Rightarrow> string" where
  "kustomize_param newImage ksImageName =
     (if ksImageName \<noteq> [] then ksImageName @ ''='' @ GetFullNameWithTag newImage
      else GetFullNameWithTag newImage)"

definition kustomize_override :: "ref_parser \<Rightarrow> string \<Rightarrow> string \<Rightarrow> string list \<Rightarrow> string list" where
  "kustomize_override pn ksImageName ksImageParam images =
     (let override = NewFromIdentifier pn ksImageParam
      in map (\<lambda>kImg. if kustomize_entry (NewFromIdentifier pn kImg) (ImageName override) ksImageName
                     then img_String override else kImg) images)"

definition SetKustomizeImage ::
  "argo_lib \<Rightarrow> ref_parser \<Rightarrow> Application \<Rightarrow> ContainerImage \<Rightarrow> WriteBackConfig option \<Rightarrow> Image \<Rightarrow>
   (image_error + Application) go" where
  "SetKustomizeImage lib pn app newImage wbc img =
     (if getApplicationType lib app wbc \<noteq> ApplicationTypeKustomize then Ret (Inl NotKustomize)
      else
        (let ksImageParam = kustomize_param newImage (im_KustomizeImageName img)
         in go_bind (change_source lib app wbc
              (\<lambda>s. let images = (case src_Kustomize s of None \<Rightarrow> [] | Some k \<Rightarrow> ks_Images k)
                   in s\<lparr>src_Kustomize := Some \<lparr>ks_Images = MergeImage lib ksImageParam
                          (kustomize_override pn (im_KustomizeImageName img) ksImageParam images)\<rparr>\<rparr>))
              (\<lambda>app'. Ret (Inr app'))))"

section \<open>Plugins\<close>

fun getPluginEnv :: "EnvEntry option list \<Rightarrow> string \<Rightarrow> string" where
  "getPluginEnv [] name = []"
| "getPluginEnv (e # es) name =
     (case e of
        None \<Rightarrow> getPluginEnv es name
      | Some e \<Rightarrow> if ee_Name e = name then ee_Value e else getPluginEnv es name)"

definition plugin_image_of :: "EnvEntry option list \<Rightarrow> Image \<Rightarrow> string" where
  "plugin_image_of env img =
     (if im_PluginEnvSpec img \<noteq> [] then getPluginEnv env (im_PluginEnvSpec img)
      else if im_PluginEnvName img \<noteq> [] \<and> im_PluginEnvTag img \<noteq> [] then
        (let name = getPluginEnv env (im_PluginEnvName img); t = getPluginEnv env (im_PluginEnvTag img)
         in if name \<noteq> [] \<and> t \<noteq> [] then name @ '':'' @ t else [])
      else [])"

definition GetPluginImage ::
  "argo_lib \<Rightarrow> Application \<Rightarrow> WriteBackConfig option \<Rightarrow> Image \<Rightarrow> (image_error + string) go" where
  "GetPluginImage lib app wbc img =
     (if getApplicationSourceType lib app wbc \<noteq> SourceTypePlugin then Ret (Inl NotPlugin)
      else with_source lib app wbc
        (\<lambda>s. case src_Plugin s of
               None \<Rightarrow> Inr []
             | Some p \<Rightarrow> if ps_Env p = [] then Inr [] else Inr (plugin_image_of (ps_Env p) img)))"

definition plugin_entries :: "ContainerImage \<Rightarrow> Image \<Rightarrow> EnvEntry list" where
  "plugin_entries newImage img =
     (if im_PluginEnvSpec img \<noteq> []
      then [\<lparr>ee_Name = im_PluginEnvSpec img, ee_Value = GetFullNameWithTag newImage\<rparr>]
      else
        (if im_PluginEnvName img \<noteq> []
         then [\<lparr>ee_Name = im_PluginEnvName img, ee_Value = GetFullNameWithoutTag newImage\<rparr>] else []) @
        (if im_PluginEnvTag img \<noteq> [] \<and> GetTagWithDigest newImage \<noteq> []
         then [\<lparr>ee_Name = im_PluginEnvTag img, ee_Value = GetTagWithDigest newImage\<rparr>] else []))"

definition SetPluginImage ::
  "argo_lib \<Rightarrow> Application \<Rightarrow> ContainerImage \<Rightarrow> WriteBackConfig option \<Rightarrow> Image \<Rightarrow>
   (image_error + Application) go" where
  "SetPluginImage lib app newImage wbc img =
     (if getApplicationSourceType lib app wbc \<noteq> SourceTypePlugin then Ret (Inl NotPlugin)
      else go_bind (change_source lib app wbc
        (\<lambda>s. let env = (case src_Plugin s of None \<Rightarrow> [] | Some p \<Rightarrow> ps_Env p)
             in s\<lparr>src_Plugin := Some \<lparr>ps_Env = fold (AddEnvEntry lib) (plugin_entries newImage img) env\<rparr>\<rparr>))
        (\<lambda>app'. Ret (Inr app')))"

section \<open>Dispatch on the type\<close>

text \<open>\<open>getAppImage\<close> and \<open>setAppImage\<close> of \<open>update.go\<close>.\<close>

definition getAppImage ::
  "argo_lib \<Rightarrow> ref_parser \<Rightarrow> Application \<Rightarrow> WriteBackConfig option \<Rightarrow> Image \<Rightarrow> (image_error + string) go" where
  "getAppImage lib pn app wbc img =
     (if im_PluginEnvName img \<noteq> [] \<or> im_PluginEnvSpec img \<noteq> [] then GetPluginImage lib app wbc img
      else
        (case getApplicationType lib app wbc of
           ApplicationTypeKustomize \<Rightarrow> GetKustomizeImage lib pn app wbc img
         | ApplicationTypeHelm \<Rightarrow> GetHelmImage lib app wbc img
         | ApplicationTypePlugin \<Rightarrow> GetPluginImage lib app wbc img
         | ApplicationTypeUnsupported \<Rightarrow> Ret (Inl UnsupportedType)))"

definition setAppImage ::
  "argo_lib \<Rightarrow> ref_parser \<Rightarrow> Application \<Rightarrow> ContainerImage \<Rightarrow> WriteBackConfig option \<Rightarrow> Image \<Rightarrow>
   (image_error + Application) go" where
  "setAppImage lib pn app newImage wbc img =
     (if im_PluginEnvName img \<noteq> [] \<or> im_PluginEnvSpec img \<noteq> [] then SetPluginImage lib app newImage wbc img
      else
        (case getApplicationType lib app wbc of
           ApplicationTypeKustomize \<Rightarrow> SetKustomizeImage lib pn app newImage wbc img
         | ApplicationTypeHelm \<Rightarrow> SetHelmImage lib app newImage wbc img
         | ApplicationTypePlugin \<Rightarrow> SetPluginImage lib app newImage wbc img
         | ApplicationTypeUnsupported \<Rightarrow> Ret (Inl UnsupportedType)))"

section \<open>Live images\<close>

fun force_loop :: "Image list \<Rightarrow> ContainerImage list \<Rightarrow> ContainerImage list go" where
  "force_loop [] images = Ret images"
| "force_loop (img # imgs) images =
     (if im_ForceUpdate img then
        go_bind (ContainsImage images (im_ContainerImage img) False)
          (\<lambda>r. force_loop imgs
                 (if r = None then images @ [WithTag (im_ContainerImage img) None] else images))
      else force_loop imgs images)"

definition GetImagesFromApplication :: "ref_parser \<Rightarrow> ApplicationImages \<Rightarrow> ContainerImage list go" where
  "GetImagesFromApplication pn ai =
     force_loop (ai_Images ai) (map (NewFromIdentifier pn) (st_Images (ai_Application ai)))"

definition with_alias :: "string \<Rightarrow> ContainerImage \<Rightarrow> ContainerImage" where
  "with_alias a ci =
     ContainerImage (RegistryURL ci) (ImageName ci) (ImageTag ci) a (KustomizeImage ci) (original ci)"

text \<open>
  The container image that an entry of the result carries: the live image itself, shared with the
  list (its index), or a copy of it.
\<close>

datatype live_ref = Shared nat | Own ContainerImage

fun alias_loop ::
  "Image list \<Rightarrow> ContainerImage list \<Rightarrow> (Image \<times> live_ref) list \<Rightarrow>
   (ContainerImage list \<times> (Image \<times> live_ref) list) go" where
  "alias_loop [] live result = Ret (live, result)"
| "alias_loop (img # imgs) live result =
     go_bind (ContainsImage live (im_ContainerImage img) False)
       (\<lambda>r. case r of
              None \<Rightarrow> alias_loop imgs live result
            | Some i \<Rightarrow>
                (let ci = im_ContainerImage img;
                     a = (if ImageAlias ci = [] then ImageName ci else ImageAlias ci)
                 in if ImageAlias (live ! i) \<noteq> []
                    then alias_loop imgs live (result @ [(img, Own (with_alias a (live ! i)))])
                    else alias_loop imgs (live[i := with_alias a (live ! i)]) (result @ [(img, Shared i)])))"

definition resolve_live :: "ContainerImage list \<Rightarrow> Image \<times> live_ref \<Rightarrow> Image" where
  "resolve_live live p =
     (case p of (img, r) \<Rightarrow>
        img\<lparr>im_ContainerImage := (case r of Shared i \<Rightarrow> live ! i | Own ci \<Rightarrow> ci)\<rparr>)"

definition GetImagesAndAliasesFromApplication :: "ref_parser \<Rightarrow> ApplicationImages \<Rightarrow> Image list go" where
  "GetImagesAndAliasesFromApplication pn ai =
     go_bind (GetImagesFromApplication pn ai)
       (\<lambda>live. go_bind (alias_loop (ai_Images ai) live [])
          (\<lambda>(live, result). Ret (map (resolve_live live) result)))"

section \<open>Writing through the source pointer\<close>

text \<open>
  What the code relies on of \<open>HasMultipleSources\<close>: it holds only when there are sources, and depends
  only on whether there are any and whether the application has a source hydrator.
\<close>

definition argo_ok :: "argo_lib \<Rightarrow> bool" where
  "argo_ok lib =
     ((\<forall>sp. HasMultipleSources lib sp \<longrightarrow> sp_Sources sp \<noteq> []) \<and>
      (\<forall>sp sp'. (sp_Sources sp = []) = (sp_Sources sp' = []) \<longrightarrow>
         (sp_DrySource sp = None) = (sp_DrySource sp' = None) \<longrightarrow>
         HasMultipleSources lib sp = HasMultipleSources lib sp'))"

text \<open>
  The contract that \<open>Helm\<close>, \<open>Kustomize\<close> and \<open>Plugin\<close> share as parts of a source: putting a part keeps
  what identifies the source and every other part.
\<close>

locale source_part =
  fixes part :: "ApplicationSource \<Rightarrow> 'p option" and put :: "'p \<Rightarrow> ApplicationSource \<Rightarrow> ApplicationSource"
  assumes part_put: "part (put v s) = Some v"
    and put_defined: "src_Helm s \<noteq> None \<Longrightarrow> src_Helm (put v s) \<noteq> None"
      "src_Kustomize s \<noteq> None \<Longrightarrow> src_Kustomize (put v s) \<noteq> None"
      "src_Plugin s \<noteq> None \<Longrightarrow> src_Plugin (put v s) \<noteq> None"
    and put_undefined: "part s \<noteq> None \<Longrightarrow> src_Helm s = None \<Longrightarrow> src_Helm (put v s) = None"
      "part s \<noteq> None \<Longrightarrow> src_Kustomize s = None \<Longrightarrow> src_Kustomize (put v s) = None"
      "part s \<noteq> None \<Longrightarrow> src_Plugin s = None \<Longrightarrow> src_Plugin (put v s) = None"
    and put_identity: "src_RepoURL (put v s) = src_RepoURL s" "src_Path (put v s) = src_Path s"
      "src_TargetRevision (put v s) = src_TargetRevision s"
begin

lemma put_has_type: "source_has_type t s \<Longrightarrow> source_has_type t (put v s)"
  using put_defined by (auto simp: source_has_type_def)

lemma put_has_any: "source_has_any s \<Longrightarrow> source_has_any (put v s)"
  using put_defined by (auto simp: source_has_any_def)

lemma first_index_put:
  assumes "\<And>s. P s \<Longrightarrow> P (put v s)" "i < length l" "\<forall>k. first_index P l = Some k \<longrightarrow> k = i"
  shows "first_index P (l[i := put v (l ! i)]) =
    (if first_index P l = None \<and> \<not> P (put v (l ! i)) then None else Some i)"
proof (cases "P (put v (l ! i))")
  case True
  then have "first_index P (l[i := put v (l ! i)]) = Some i"
    using assms unfolding first_index_Some
    by (cases "first_index P l") (auto simp: first_index_None first_index_Some nth_list_update)
  with True show ?thesis by simp
next
  case False
  then have n: "\<not> P (l ! i)" using assms(1) by blast
  then have none: "first_index P l = None" using assms(3) by (cases "first_index P l") (auto simp: first_index_Some)
  then have "first_index P (l[i := put v (l ! i)]) = None"
    using False by (auto simp: first_index_None dest!: set_update_subset_insert [THEN subsetD])
  with False none show ?thesis by simp
qed

lemma share_put:
  "part s \<noteq> None \<Longrightarrow>
   s\<lparr>src_Helm := share (src_Helm s) (src_Helm (put v s)), src_Kustomize := share (src_Kustomize s) (src_Kustomize (put v s)),
     src_Plugin := share (src_Plugin s) (src_Plugin (put v s))\<rparr> = put v s"
  using put_undefined [of s v] put_identity [of v s] put_defined [of s v]
  by (cases s; cases "put v s") (auto simp: share_def)

lemma multi_source_stable:
  fixes v
  assumes ok: "argo_ok lib" and ptr: "getApplicationSource lib app wbc = Ret (AtSources i)"
  defines "app' \<equiv> store_source app (AtSources i) (put v (sp_Sources (app_Spec app) ! i))"
  shows "getApplicationSourceType lib app' wbc = getApplicationSourceType lib app wbc"
    "getApplicationSource lib app' wbc = Ret (AtSources i)"
    "load_source app' (AtSources i) = Some (put v (sp_Sources (app_Spec app) ! i))"
proof -
  let ?l = "sp_Sources (app_Spec app)" and ?t = "getApplicationSourceType lib app wbc"
  let ?l' = "?l[i := put v (?l ! i)]"
  have multi: "HasMultipleSources lib (app_Spec app)" and i: "i < length ?l"
    using ptr by (auto simp: getApplicationSource_def Let_def first_index_Some split: if_splits option.splits)
  have spec: "sp_Sources (app_Spec app') = ?l'" "st_SourceTypes app' = st_SourceTypes app"
    "sp_DrySource (app_Spec app') = sp_DrySource (app_Spec app)"
    by (simp_all add: app'_def)
  have multi': "HasMultipleSources lib (app_Spec app')"
    using ok multi spec unfolding argo_ok_def by (metis list_update_nonempty)
  show t: "getApplicationSourceType lib app' wbc = ?t"
    using multi multi' spec by (simp add: getApplicationSourceType_def)
  show "load_source app' (AtSources i) = Some (put v (?l ! i))" using i spec by simp
  have first: "first_index (source_has_type ?t) ?l' =
      (if first_index (source_has_type ?t) ?l = None \<and> \<not> source_has_type ?t (put v (?l ! i)) then None else Some i)"
    using ptr multi by (intro first_index_put put_has_type i)
      (auto simp: getApplicationSource_def Let_def split: if_splits option.splits)
  show "getApplicationSource lib app' wbc = Ret (AtSources i)"
  proof (cases "first_index (source_has_type ?t) ?l' = None")
    case False
    then have "first_index (source_has_type ?t) ?l' = Some i" using first by (auto split: if_splits)
    then show ?thesis using multi' t spec by (simp add: getApplicationSource_def Let_def)
  next
    case True
    then have none: "first_index (source_has_type ?t) ?l = None" using first by (auto split: if_splits)
    have any: "first_index source_has_any ?l' = (if first_index source_has_any ?l = None \<and>
        \<not> source_has_any (put v (?l ! i)) then None else Some i)"
      if "\<not> (?t \<noteq> SourceTypeDirectory \<and> length (st_SourceTypes app) = length ?l \<and>
           first_index (\<lambda>st. st = ?t) (st_SourceTypes app) \<noteq> None)"
      using ptr multi none that by (intro first_index_put put_has_any i)
        (auto simp: getApplicationSource_def Let_def split: if_splits option.splits)
    show ?thesis
      using ptr multi multi' t spec none True any
      by (auto simp: getApplicationSource_def Let_def split: if_splits option.splits)
  qed
qed

text \<open>
  After a part of the source has been put through the pointer, the application has the same type, the
  pointer still selects the same source, and that source is the one that was put.  With a dry source
  this needs the part to be present already.
\<close>

lemma source_ptr_stable:
  fixes v
  assumes ok: "argo_ok lib" and ptr: "getApplicationSource lib app wbc = Ret p"
    and src: "load_source app p = Some s" and dry: "p = AtDrySource \<Longrightarrow> part s \<noteq> None"
  defines "app' \<equiv> store_source app p (put v s)"
  shows "getApplicationSourceType lib app' wbc = getApplicationSourceType lib app wbc \<and>
    getApplicationSource lib app' wbc = Ret p \<and> load_source app' p = Some (put v s)"
proof (cases p)
  case (AtSources i)
  then show ?thesis using multi_source_stable [OF ok ptr [unfolded AtSources]] src by (simp add: app'_def)
next
  case AtDrySource
  then have ds: "sp_DrySource (app_Spec app) = Some s" and "part s \<noteq> None" using src dry by auto
  then have put: "sp_DrySource (app_Spec app') = Some (put v s)"
    using share_put [of s v] AtDrySource by (simp add: app'_def)
  have rest: "sp_Sources (app_Spec app') = sp_Sources (app_Spec app)" "st_SourceType app' = st_SourceType app"
    using AtDrySource by (simp_all add: app'_def)
  have multi: "\<not> HasMultipleSources lib (app_Spec app)"
    using ptr AtDrySource by (auto simp: getApplicationSource_def Let_def split: if_splits option.splits)
  then have multi': "\<not> HasMultipleSources lib (app_Spec app')"
    using ok put ds rest unfolding argo_ok_def by (metis option.distinct(1))
  have "(src_Helm (put v s) = None) = (src_Helm s = None)" "(src_Kustomize (put v s) = None) = (src_Kustomize s = None)"
    "(src_Plugin (put v s) = None) = (src_Plugin s = None)"
    using put_defined [of s v] put_undefined [of s v] \<open>part s \<noteq> None\<close> by blast+
  then show ?thesis
    using AtDrySource multi multi' put ds rest
    by (simp add: getApplicationSourceType_def getApplicationSource_def)
next
  case AtSource
  then have rest: "sp_Source (app_Spec app') = Some (put v s)" "sp_Sources (app_Spec app') = sp_Sources (app_Spec app)"
    "sp_DrySource (app_Spec app') = sp_DrySource (app_Spec app)" "st_SourceType app' = st_SourceType app"
    by (simp_all add: app'_def)
  have multi: "\<not> HasMultipleSources lib (app_Spec app)" "sp_DrySource (app_Spec app) = None"
    using ptr AtSource by (auto simp: getApplicationSource_def Let_def split: if_splits option.splits)
  then have "\<not> HasMultipleSources lib (app_Spec app')"
    using ok rest unfolding argo_ok_def by metis
  then show ?thesis
    using AtSource multi rest by (simp add: getApplicationSourceType_def getApplicationSource_def)
next
  case NilSource
  then show ?thesis using src by simp
qed

end

interpretation helm_part: source_part src_Helm "\<lambda>v s. s\<lparr>src_Helm := Some v\<rparr>"
  by unfold_locales auto

interpretation kustomize_part: source_part src_Kustomize "\<lambda>v s. s\<lparr>src_Kustomize := Some v\<rparr>"
  by unfold_locales auto

interpretation plugin_part: source_part src_Plugin "\<lambda>v s. s\<lparr>src_Plugin := Some v\<rparr>"
  by unfold_locales auto

section \<open>Helm parameters\<close>

lemma getHelmParam_simps [simp]:
  "getHelmParam [] n = None"
  "getHelmParam (p # ps) n = (if hp_Name p = n then Some p else getHelmParam ps n)"
  by (simp_all add: getHelmParam_def)

lemma getHelmParam_append:
  "getHelmParam (xs @ ys) n = (case getHelmParam xs n of Some p \<Rightarrow> Some p | None \<Rightarrow> getHelmParam ys n)"
  by (induction xs) auto

lemma getHelmParam_Some: "getHelmParam ps n = Some p \<Longrightarrow> p \<in> set ps \<and> hp_Name p = n"
  by (auto simp: getHelmParam_def find_Some_iff)

lemma getHelmParam_None: "getHelmParam ps n = None \<longleftrightarrow> n \<notin> hp_Name ` set ps"
  by (auto simp: getHelmParam_def find_None_iff)

lemma merge_src_loop_eq:
  "merge_src_loop merge src ret merged =
     (ret @ map (\<lambda>p. case getHelmParam merge (hp_Name p) of Some m \<Rightarrow> m | None \<Rightarrow> p) src,
      merged \<union> (hp_Name ` set src \<inter> hp_Name ` set merge))"
proof (induction src arbitrary: ret merged)
  case (Cons p ps)
  have step: "merge_src_loop merge (p # ps) ret merged =
      (case getHelmParam merge (hp_Name p) of
         Some m \<Rightarrow> merge_src_loop merge ps (ret @ [m]) (insert (hp_Name m) merged)
       | None \<Rightarrow> merge_src_loop merge ps (ret @ [p]) merged)"
    by (simp add: getHelmParam_def eq_commute [of "hp_Name p"])
  show ?case
  proof (cases "getHelmParam merge (hp_Name p)")
    case None
    then have "hp_Name p \<notin> hp_Name ` set merge" by (simp add: getHelmParam_None)
    with None Cons show ?thesis unfolding step by simp
  next
    case (Some m)
    then have "hp_Name m = hp_Name p" "hp_Name p \<in> hp_Name ` set merge"
      using getHelmParam_Some [OF Some] by (auto intro: rev_image_eqI)
    with Some Cons show ?thesis unfolding step by simp
  qed
qed simp

lemma getHelmParam_replaced:
  "getHelmParam (map (\<lambda>p. case getHelmParam merge (hp_Name p) of Some m \<Rightarrow> m | None \<Rightarrow> p) src) n =
     (case getHelmParam src n of None \<Rightarrow> None
      | Some p \<Rightarrow> (case getHelmParam merge n of Some m \<Rightarrow> Some m | None \<Rightarrow> Some p))"
proof (induction src)
  case (Cons p ps)
  then show ?case
    by (cases "getHelmParam merge (hp_Name p)"; cases "hp_Name p = n")
      (auto dest: getHelmParam_Some)
qed simp

lemma getHelmParam_filter:
  "n \<notin> S \<Longrightarrow> getHelmParam (filter (\<lambda>m. hp_Name m \<notin> S) ps) n = getHelmParam ps n"
  by (induction ps) auto

text \<open>A merged parameter list looks up every name in the new parameters first, then in the old ones.\<close>

lemma mergeHelmParams_lookup:
  "getHelmParam (mergeHelmParams src merge) n =
     (case getHelmParam merge n of Some m \<Rightarrow> Some m | None \<Rightarrow> getHelmParam src n)"
proof (cases "getHelmParam src n")
  case None
  then have "n \<notin> hp_Name ` set src" by (simp add: getHelmParam_None)
  then have "n \<notin> hp_Name ` set src \<inter> hp_Name ` set merge" by blast
  then show ?thesis
    using None getHelmParam_filter [of n "hp_Name ` set src \<inter> hp_Name ` set merge" merge]
    by (simp add: mergeHelmParams_def merge_src_loop_eq getHelmParam_append getHelmParam_replaced split: option.split)
next
  case (Some p)
  then show ?thesis
    by (auto simp: mergeHelmParams_def merge_src_loop_eq getHelmParam_append getHelmParam_replaced split: option.split)
qed

lemma change_source_part:
  assumes "getApplicationSource lib app wbc = Ret p" "load_source app p = Some s"
  shows "change_source lib app wbc f = Ret (store_source app p (f s))"
    "with_source lib app wbc g = Ret (g s)"
  using assms by (simp_all add: change_source_def with_source_def)

text \<open>What the new parameters of an image make of the helm parameters of a source.\<close>

lemma helm_image_of_merge:
  assumes "im_HelmImageSpec img = [] \<Longrightarrow> GetTagWithDigest new \<noteq> [] \<and>
      fst (snd (helm_names img)) \<noteq> snd (snd (helm_names img))"
  shows "helm_image_of (mergeHelmParams params (helm_merge_params new img)) img =
    (if im_HelmImageSpec img \<noteq> [] then GetFullNameWithTag new
     else GetFullNameWithoutTag new @ '':'' @ GetTagWithDigest new)"
  using assms
  by (auto simp: helm_image_of_def helm_merge_params_def mergeHelmParams_lookup Let_def
      helm_names_def split: if_splits)


text \<open>A concrete instance of the parameters: the argo-cd methods as its documentation describes them.\<close>

definition sample_argo :: argo_lib where
  "sample_argo =
     \<lparr>HasMultipleSources = (\<lambda>sp. sp_DrySource sp = None \<and> sp_Sources sp \<noteq> []),
      MergeImage = (\<lambda>img imgs. case first_index (\<lambda>a. kustomize_Match a img) imgs of
                                 None \<Rightarrow> imgs @ [img] | Some i \<Rightarrow> imgs[i := img]),
      AddEnvEntry = (\<lambda>e env. case first_index (\<lambda>x. case x of None \<Rightarrow> False | Some y \<Rightarrow> ee_Name y = ee_Name e) env of
                               None \<Rightarrow> env @ [Some e] | Some i \<Rightarrow> env[i := Some e])\<rparr>"

lemma sample_argo_ok: "argo_ok sample_argo"
  by (auto simp: argo_ok_def sample_argo_def)

definition sample_source :: ApplicationSource where
  "sample_source =
     \<lparr>src_RepoURL = ''https://git/repo'', src_Path = ''chart'', src_TargetRevision = ''main'',
      src_Helm = None, src_Kustomize = None, src_Plugin = None\<rparr>"

definition sample_app :: Application where
  "sample_app =
     \<lparr>app_Namespace = ''argocd'', app_Name = ''web'', app_Annotations = [], app_Labels = [],
      app_Spec = \<lparr>sp_Project = ''default'', sp_Source = Some sample_source, sp_Sources = [], sp_DrySource = None\<rparr>,
      st_SourceType = SourceTypeHelm, st_SourceTypes = [], st_Images = [''org/web:1.0'']\<rparr>"

definition sample_image :: Image where
  "sample_image =
     default_Image\<lparr>im_ContainerImage := ContainerImage [] ''org/web'' None ''web'' None []\<rparr>"

definition sample_new :: ContainerImage where
  "sample_new = ContainerImage [] ''org/web'' (Some (NewImageTag ''1.1'' 0 [])) ''web'' None []"


text \<open>
  An update of a source-hydrator application whose dry source has no \<open>helm\<close> block is lost:
  \<open>SetHelmImage\<close> reports success and leaves the application as it was, because the block is created in
  the copy of the dry source only.
\<close>

theorem hydrator_update_lost:
  assumes "\<not> HasMultipleSources lib (app_Spec app)" "sp_DrySource (app_Spec app) = Some ds" "src_Helm ds = None"
    and "getApplicationType lib app wbc = ApplicationTypeHelm"
  shows "SetHelmImage lib app new wbc img = Ret (Inr app)"
proof -
  have "getApplicationSource lib app wbc = Ret AtDrySource" "load_source app AtDrySource = Some ds"
    using assms(1,2) by (simp_all add: getApplicationSource_def)
  then have "SetHelmImage lib app new wbc img = Ret (Inr (store_source app AtDrySource
      (ds\<lparr>src_Helm := Some \<lparr>hs_Parameters = mergeHelmParams [] (helm_merge_params new img)\<rparr>\<rparr>)))"
    using assms(3,4) by (simp add: SetHelmImage_def change_source_part Let_def)
  moreover have "share (src_Kustomize ds) (src_Kustomize ds) = src_Kustomize ds" "share (src_Plugin ds) (src_Plugin ds) = src_Plugin ds"
    by (simp_all add: share_def)
  ultimately show ?thesis using assms(2,3) by (simp add: share_def)
qed

theorem hydrator_update_lost_witness:
  "SetHelmImage sample_argo
     (sample_app\<lparr>app_Spec := (app_Spec sample_app)\<lparr>sp_Source := None, sp_DrySource := Some sample_source\<rparr>\<rparr>)
     sample_new None sample_image =
   Ret (Inr (sample_app\<lparr>app_Spec := (app_Spec sample_app)\<lparr>sp_Source := None, sp_DrySource := Some sample_source\<rparr>\<rparr>))"
proof -
  let ?app = "sample_app\<lparr>app_Spec := (app_Spec sample_app)\<lparr>sp_Source := None, sp_DrySource := Some sample_source\<rparr>\<rparr>"
  have "\<not> HasMultipleSources sample_argo (app_Spec ?app)" "sp_DrySource (app_Spec ?app) = Some sample_source"
    "src_Helm sample_source = None" "getApplicationType sample_argo ?app None = ApplicationTypeHelm"
    by (code_simp, code_simp, code_simp, code_simp)
  then show ?thesis by (rule hydrator_update_lost)
qed

section \<open>Live images and their aliases\<close>

definition effective_alias :: "ContainerImage \<Rightarrow> string" where
  "effective_alias ci = (if ImageAlias ci = [] then ImageName ci else ImageAlias ci)"


lemma with_alias_simps [simp]:
  "ImageName (with_alias a ci) = ImageName ci" "RegistryURL (with_alias a ci) = RegistryURL ci"
  "ImageTag (with_alias a ci) = ImageTag ci" "ImageAlias (with_alias a ci) = a"
  "with_alias a (with_alias b ci) = with_alias a ci" "with_alias (ImageAlias ci) ci = ci"
  by (simp_all add: with_alias_def)

definition realiased :: "ContainerImage list \<Rightarrow> ContainerImage list \<Rightarrow> bool" where
  "realiased = list_all2 (\<lambda>a b. b = with_alias (ImageAlias b) a)"

lemma realiased_rules:
  "realiased live live"
  "realiased live live' \<Longrightarrow> length live' = length live"
  "realiased live live' \<Longrightarrow> i < length live \<Longrightarrow> with_alias a (live' ! i) = with_alias a (live ! i)"
  "realiased live live' \<Longrightarrow> i < length live \<Longrightarrow> realiased live (live'[i := with_alias a (live' ! i)])"
proof -
  show "realiased live live" by (simp add: realiased_def list_all2_conv_all_nth)
  show "length live' = length live" if "realiased live live'"
    using that by (simp add: realiased_def list_all2_lengthD)
  show same: "with_alias a (live' ! i) = with_alias a (live ! i)" if "realiased live live'" "i < length live" for i
  proof -
    have "live' ! i = with_alias (ImageAlias (live' ! i)) (live ! i)"
      using that by (simp add: realiased_def list_all2_conv_all_nth)
    then show ?thesis by (metis with_alias_simps(5))
  qed
  show "realiased live (live'[i := with_alias a (live' ! i)])" if "realiased live live'" "i < length live"
    using that same [OF that] by (auto simp: realiased_def list_all2_conv_all_nth nth_list_update)
qed

lemma first_match_realiased: "realiased live live' \<Longrightarrow> first_match live' cs = first_match live cs"
proof -
  assume r: "realiased live live'"
  have "first_index (same_image c) live' = first_index (same_image c) live" for c
    using r unfolding realiased_def
    by (induction rule: list_all2_induct) (auto simp: same_image_def, (metis with_alias_simps)+)
  then show ?thesis by (induction cs) (auto split: option.splits)
qed

text \<open>The entry that a configured image should get, given the live images.\<close>

definition aliased_image :: "ContainerImage list \<Rightarrow> Image \<Rightarrow> Image option" where
  "aliased_image live img =
     map_option (\<lambda>i. img\<lparr>im_ContainerImage := with_alias (effective_alias (im_ContainerImage img)) (live ! i)\<rparr>)
       (first_match live (override_chain (im_ContainerImage img)))"

definition refs_named :: "ContainerImage list \<Rightarrow> (Image \<times> live_ref) list \<Rightarrow> bool" where
  "refs_named live res = (\<forall>img i. (img, Shared i) \<in> set res \<longrightarrow> ImageAlias (live ! i) \<noteq> [])"

lemma resolve_live_unshared:
  "refs_named live res \<Longrightarrow> ImageAlias (live ! i) = [] \<Longrightarrow>
     map (resolve_live (live[i := ci])) res = map (resolve_live live) res"
proof (rule map_cong [OF refl])
  fix p assume "refs_named live res" "ImageAlias (live ! i) = []" "p \<in> set res"
  then have "snd p \<noteq> Shared i" by (cases p) (auto simp: refs_named_def)
  then show "resolve_live (live[i := ci]) p = resolve_live live p"
    by (cases p; cases "snd p") (auto simp: resolve_live_def)
qed

lemma alias_loop_eq:
  assumes "realiased live live'" "refs_named live' res"
    and "\<forall>img \<in> set imgs. effective_alias (im_ContainerImage img) \<noteq> []"
  shows "\<exists>live'' res'. alias_loop imgs live' res = Ret (live'', res') \<and>
    map (resolve_live live'') res' = map (resolve_live live') res @ List.map_filter (aliased_image live) imgs"
  using assms
proof (induction imgs arbitrary: live' res)
  case Nil
  then show ?case by (simp add: map_filter_simps)
next
  case (Cons img imgs)
  let ?ci = "im_ContainerImage img"
  have found: "ContainsImage live' ?ci False = Ret (first_match live (override_chain ?ci))"
    using Cons.prems(1) by (simp add: ContainsImage_False first_match_realiased)
  show ?case
  proof (cases "first_match live (override_chain ?ci)")
    case None
    with found Cons.IH [OF Cons.prems(1,2)] Cons.prems(3) show ?thesis
      by (simp add: aliased_image_def map_filter_simps)
  next
    case (Some i)
    have i: "i < length live" using first_match_Some [OF Some] by blast
    have named: "effective_alias ?ci \<noteq> []" and rest: "\<forall>img \<in> set imgs. effective_alias (im_ContainerImage img) \<noteq> []"
      using Cons.prems(3) by auto
    have here: "with_alias a (live' ! i) = with_alias a (live ! i)" for a
      using realiased_rules(3) [OF Cons.prems(1) i] .
    show ?thesis
    proof (cases "ImageAlias (live' ! i) = []")
      case False
      let ?res = "res @ [(img, Own (with_alias (effective_alias ?ci) (live' ! i)))]"
      have "refs_named live' ?res" using Cons.prems(2) by (auto simp: refs_named_def)
      from Cons.IH [OF Cons.prems(1) this rest] show ?thesis
        using found Some False here
        by (simp add: aliased_image_def map_filter_simps resolve_live_def [of _ "(img, _)"] effective_alias_def Let_def)
    next
      case True
      let ?live = "live'[i := with_alias (effective_alias ?ci) (live' ! i)]" and ?res = "res @ [(img, Shared i)]"
      have len: "i < length live'" using i realiased_rules(2) [OF Cons.prems(1)] by simp
      have "refs_named ?live ?res"
        using Cons.prems(2) named len by (auto simp: refs_named_def nth_list_update)
      from Cons.IH [OF realiased_rules(4) [OF Cons.prems(1) i] this rest]
      show ?thesis
        using found Some True here len resolve_live_unshared [OF Cons.prems(2) True]
        by (simp add: aliased_image_def map_filter_simps resolve_live_def [of _ "(img, _)"] effective_alias_def Let_def)
    qed
  qed
qed

text \<open>Force-update images are appended without a tag unless they are live already.\<close>

lemma force_loop_eq:
  "\<exists>new. force_loop imgs images = Ret (images @ new) \<and> (\<forall>ci \<in> set new. ImageTag ci = None)"
proof (induction imgs arbitrary: images)
  case (Cons img imgs)
  from Cons.IH [of "images @ [WithTag (im_ContainerImage img) None]"] Cons.IH [of images]
  show ?case by (auto simp: ContainsImage_False WithTag_def)
qed simp

text \<open>
  Several aliases of one live image do not interfere: \<open>GetImagesAndAliasesFromApplication\<close> never
  panics, keeps exactly the configured images that are live, in the configured order, and gives each of
  them the live image with its own alias (its image name when no alias is configured), although the
  code writes the first alias into the shared live image.
\<close>

theorem aliases_do_not_interfere:
  assumes "\<forall>img \<in> set (ai_Images ai). effective_alias (im_ContainerImage img) \<noteq> []"
  shows "\<exists>new live. GetImagesFromApplication pn ai = Ret live \<and>
    live = map (NewFromIdentifier pn) (st_Images (ai_Application ai)) @ new \<and> (\<forall>ci \<in> set new. ImageTag ci = None) \<and>
    GetImagesAndAliasesFromApplication pn ai = Ret (List.map_filter (aliased_image live) (ai_Images ai))"
proof -
  obtain new where new: "GetImagesFromApplication pn ai =
      Ret (map (NewFromIdentifier pn) (st_Images (ai_Application ai)) @ new)" "\<forall>ci \<in> set new. ImageTag ci = None"
    using force_loop_eq unfolding GetImagesFromApplication_def by blast
  let ?live = "map (NewFromIdentifier pn) (st_Images (ai_Application ai)) @ new"
  have "refs_named ?live []" by (simp add: refs_named_def)
  from alias_loop_eq [OF realiased_rules(1) this assms]
  have "GetImagesAndAliasesFromApplication pn ai = Ret (List.map_filter (aliased_image ?live) (ai_Images ai))"
    using new(1) by (auto simp: GetImagesAndAliasesFromApplication_def)
  with new show ?thesis by blast
qed

definition sample_wbc :: WriteBackConfig where
  "sample_wbc =
     \<lparr>wb_Method = WriteBackApplication, wb_GetCreds = None, wb_GitBranch = [], wb_GitWriteBranch = [],
      wb_GitCommitUser = [], wb_GitCommitEmail = [], wb_GitCommitMessage = [], wb_GitCommitSigningKey = [],
      wb_GitCommitSigningMethod = [], wb_GitCommitSignOff = False, wb_GitCommitMethod = [],
      wb_KustomizeBase = [], wb_Target = ''.argocd-source-web.yaml'', wb_GitRepo = [],
      wb_PRProvider = PRProviderUnsupported, wb_PRLabels = [], wb_PullRequest = None\<rparr>"

definition sample_two_aliases :: ApplicationImages where
  "sample_two_aliases =
     \<lparr>ai_Application = sample_app, ai_WriteBackConfig = sample_wbc,
      ai_Images = [sample_image,
        sample_image\<lparr>im_ContainerImage := ContainerImage [] ''org/web'' None ''sidecar'' None []\<rparr>]\<rparr>"

theorem aliases_do_not_interfere_witness:
  "\<exists>imgs. GetImagesAndAliasesFromApplication (\<lambda>_. None) sample_two_aliases = Ret imgs \<and>
     map (\<lambda>img. ImageAlias (im_ContainerImage img)) imgs = [''web'', ''sidecar'']"
proof -
  have hyp: "\<forall>img \<in> set (ai_Images sample_two_aliases). effective_alias (im_ContainerImage img) \<noteq> []" by code_simp
  let ?status = "map (NewFromIdentifier (\<lambda>_. None)) (st_Images (ai_Application sample_two_aliases))"
  have val: "GetImagesFromApplication (\<lambda>_. None) sample_two_aliases = Ret ?status" by code_simp
  have "map (\<lambda>img. ImageAlias (im_ContainerImage img))
      (List.map_filter (aliased_image ?status) (ai_Images sample_two_aliases)) = [''web'', ''sidecar'']"
    by code_simp
  then show ?thesis
    using aliases_do_not_interfere [OF hyp, of "\<lambda>_. None"] val by auto
qed

end
