(* ===== verification/HelmValues.thy ===== *)
theory HelmValues
  imports Prelude
begin

text \<open>
  Helm values documents (\<open>pkg/argocd/update.go\<close>, from \<open>findHelmValuesKey\<close> to \<open>isSafePlainScalar\<close>):
  finding, setting and creating a value by its key path, and patching a value in the text of the file.

  \<open>yaml.Node\<close> of \<open>goyaml.v3\<close> is a struct of pointers: children in \<open>Content\<close>, and the anchored node in
  \<open>Alias\<close>.  A document is a heap of nodes, a list indexed by addresses, because an alias shares its
  node with the place of the anchor and the code writes through it.  The parser and the printer of
  that package are parameters of the clients.
\<close>

section \<open>Nodes\<close>

datatype ykind = NoKind | DocumentNode | SequenceNode | MappingNode | ScalarNode | AliasNode

record ynode =
  y_Kind :: ykind
  y_Tag :: string
  y_Value :: string
  y_Content :: "nat list"
  y_Alias :: "nat option"
  y_Line :: int
  y_Column :: int

type_synonym yheap = "ynode list"

definition new_scalar :: "string \<Rightarrow> ynode" where
  "new_scalar v =
     \<lparr>y_Kind = ScalarNode, y_Tag = ''!!str'', y_Value = v, y_Content = [], y_Alias = None, y_Line = 0, y_Column = 0\<rparr>"

definition new_mapping :: ynode where
  "new_mapping =
     \<lparr>y_Kind = MappingNode, y_Tag = [], y_Value = [], y_Content = [], y_Alias = None, y_Line = 0, y_Column = 0\<rparr>"

datatype yaml_error =
    UnexpectedRoot ykind
  | BadIndex string
  | IndexOnNonArray int string
  | NoIndex string
  | IndexOutOfRange int nat
  | UnexpectedType ykind string
  | EmptyDocument
  | LiteralNotScalar string
  | KeyNotFound string

section \<open>Keys\<close>

text \<open>The index behind the first key node with this text; keys are at the even positions.\<close>

fun find_key :: "yheap \<Rightarrow> nat list \<Rightarrow> string \<Rightarrow> nat \<Rightarrow> nat option" where
  "find_key h (k # v # rest) key i =
     (if y_Value (h ! k) = key then Some (i + 1) else find_key h rest key (i + 2))"
| "find_key h [k] key i = (if y_Value (h ! k) = key then Some (i + 1) else None)"
| "find_key h [] key i = None"

definition findHelmValuesKey :: "yheap \<Rightarrow> nat \<Rightarrow> string \<Rightarrow> nat option" where
  "findHelmValuesKey h m key = find_key h (y_Content (h ! m)) key 0"

text \<open>
  The pattern \<open>^(.*)\[(.*)\]$\<close>: the text before the last opening bracket and the text between it and
  the closing bracket at the end.  The dot does not match a newline.
\<close>

definition match_list_element :: "string \<Rightarrow> (string \<times> string) option" where
  "match_list_element k =
     (if k \<noteq> [] \<and> last k = CHR '']'' \<and> CHR 0x0A \<notin> set k \<and> CHR ''['' \<in> set (butlast k) then
        (let i = nat (strings_LastIndex (butlast k) CHR ''['')
         in Some (take i (butlast k), drop (i + 1) (butlast k)))
      else None)"

definition list_key :: "string \<Rightarrow> yaml_error + string \<times> int option" where
  "list_key k =
     (case match_list_element k of
        None \<Rightarrow> Inr (k, None)
      | Some (key, idStr) \<Rightarrow>
          (case strconv_Atoi idStr of None \<Rightarrow> Inl (BadIndex idStr) | Some i \<Rightarrow> Inr (key, Some i)))"

text \<open>One level of alias is followed; the alias of an alias node is always set by the parser.\<close>

definition unalias :: "yheap \<Rightarrow> nat \<Rightarrow> nat" where
  "unalias h c = (if y_Kind (h ! c) = AliasNode then the (y_Alias (h ! c)) else c)"

definition document_root :: "yheap \<Rightarrow> nat \<Rightarrow> nat go" where
  "document_root h root =
     (if y_Kind (h ! root) = DocumentNode then
        (case y_Content (h ! root) of [] \<Rightarrow> Panic | c # _ \<Rightarrow> Ret c)
      else Ret root)"

section \<open>Setting a value\<close>

text \<open>The node behind a found key, with the list element that an index selects.\<close>

definition enter :: "yheap \<Rightarrow> nat \<Rightarrow> nat \<Rightarrow> string \<Rightarrow> int option \<Rightarrow> yaml_error + nat" where
  "enter h m idx key idPtr =
     (let c = unalias h (y_Content (h ! m) ! idx)
      in if y_Kind (h ! c) \<noteq> SequenceNode then
           (case idPtr of Some i \<Rightarrow> Inl (IndexOnNonArray i key) | None \<Rightarrow> Inr c)
         else
           (case idPtr of
              None \<Rightarrow> Inl (NoIndex key)
            | Some i \<Rightarrow>
                if i < 0 \<or> i \<ge> int (length (y_Content (h ! c)))
                then Inl (IndexOutOfRange i (length (y_Content (h ! c))))
                else Inr (y_Content (h ! c) ! nat i)))"

definition append_children :: "yheap \<Rightarrow> nat \<Rightarrow> ynode \<Rightarrow> ynode \<Rightarrow> yheap" where
  "append_children h m k v =
     (h[m := (h ! m)\<lparr>y_Content := y_Content (h ! m) @ [length h, length h + 1]\<rparr>]) @ [k, v]"

fun set_loop :: "yheap \<Rightarrow> nat \<Rightarrow> string list \<Rightarrow> string \<Rightarrow> yaml_error + yheap" where
  "set_loop h m [] val = Inr h"
| "set_loop h m (k # ks) val =
     (case list_key k of
        Inl err \<Rightarrow> Inl err
      | Inr (key, idPtr) \<Rightarrow>
          (case findHelmValuesKey h m key of
             Some idx \<Rightarrow>
               (case enter h m idx key idPtr of
                  Inl err \<Rightarrow> Inl err
                | Inr c \<Rightarrow>
                    if ks = [] then
                      (if y_Kind (h ! c) = ScalarNode
                       then Inr (h[c := (h ! c)\<lparr>y_Value := val, y_Tag := ''!!str''\<rparr>])
                       else Inl (UnexpectedType (y_Kind (h ! c)) k))
                    else if y_Kind (h ! c) \<noteq> MappingNode then Inl (UnexpectedType (y_Kind (h ! c)) k)
                    else set_loop h c ks val)
           | None \<Rightarrow>
               if ks = [] then Inr (append_children h m (new_scalar k) (new_scalar val))
               else set_loop (append_children h m (new_scalar k) new_mapping) (length h + 1) ks val))"

definition setHelmValue :: "yheap \<Rightarrow> nat \<Rightarrow> string \<Rightarrow> string \<Rightarrow> (yaml_error + yheap) go" where
  "setHelmValue h root key val =
     go_bind (document_root h root)
       (\<lambda>m. if y_Kind (h ! m) \<noteq> MappingNode then Ret (Inl (UnexpectedRoot (y_Kind (h ! m))))
            else
              (case findHelmValuesKey h m key of
                 Some idx \<Rightarrow>
                   (let c = y_Content (h ! m) ! idx in Ret (Inr (h[c := (h ! c)\<lparr>y_Value := val\<rparr>])))
               | None \<Rightarrow> Ret (set_loop h m (strings_Split key CHR ''.'') val)))"

section \<open>Reading a value\<close>

text \<open>The walk along the parts of the key: the node found, a walk that breaks off, or an error.\<close>

datatype nav = NavFound nat | NavBreak | NavError yaml_error

fun nav_loop :: "yheap \<Rightarrow> nat \<Rightarrow> string list \<Rightarrow> nav" where
  "nav_loop h m [] = NavBreak"
| "nav_loop h m (k # ks) =
     (case list_key k of
        Inl err \<Rightarrow> NavError err
      | Inr (key, idPtr) \<Rightarrow>
          (case findHelmValuesKey h m key of
             None \<Rightarrow> NavBreak
           | Some idx \<Rightarrow>
               (case enter h m idx key idPtr of
                  Inl err \<Rightarrow> NavBreak
                | Inr c \<Rightarrow>
                    if ks = [] then (if y_Kind (h ! c) = ScalarNode then NavFound c else NavBreak)
                    else if y_Kind (h ! c) \<noteq> MappingNode then NavBreak
                    else nav_loop h c ks)))"

definition resolveHelmScalarNode :: "yheap \<Rightarrow> nat \<Rightarrow> string \<Rightarrow> yaml_error + nat" where
  "resolveHelmScalarNode h root key =
     (if y_Kind (h ! root) = DocumentNode \<and> y_Content (h ! root) = [] then Inl EmptyDocument
      else
        (let m = (if y_Kind (h ! root) = DocumentNode then y_Content (h ! root) ! 0 else root)
         in if y_Kind (h ! m) \<noteq> MappingNode then Inl (UnexpectedRoot (y_Kind (h ! m)))
            else
              (case nav_loop h m (strings_Split key CHR ''.'') of
                 NavFound c \<Rightarrow> Inr c
               | NavError err \<Rightarrow> Inl err
               | NavBreak \<Rightarrow>
                   (case findHelmValuesKey h m key of
                      None \<Rightarrow> Inl (KeyNotFound key)
                    | Some idx \<Rightarrow>
                        (let c = unalias h (y_Content (h ! m) ! idx)
                         in if y_Kind (h ! c) = ScalarNode then Inr c else Inl (LiteralNotScalar key))))))"

definition getHelmValue :: "yheap \<Rightarrow> nat \<Rightarrow> string \<Rightarrow> yaml_error + string" where
  "getHelmValue h root key = map_sum id (\<lambda>c. y_Value (h ! c)) (resolveHelmScalarNode h root key)"

section \<open>Patching the text\<close>

text \<open>
  What \<open>yaml.Unmarshal\<close> of a text into an \<open>any\<close> gives: an error, a string, or something else.
\<close>

datatype scalar_class = ParseFails | IsString | IsOther

definition isSafePlainScalar :: "(string \<Rightarrow> scalar_class) \<Rightarrow> string \<Rightarrow> bool" where
  "isSafePlainScalar classify s =
     (\<not> (s = [] \<or> strings_ContainsAny s [CHR 0x0A, CHR 0x09]) \<and>
      \<not> (strings_Contains s '': '' \<or> strings_Contains s '' #'') \<and>
      \<not> (strings_HasPrefix s '' '' \<or> strings_HasSuffix s '' '' \<or> strings_HasSuffix s '':'') \<and>
      s ! 0 \<notin> set (''!&*?|>%@`'' @ [CHR 0x22, CHR 0x27] @ ''#,[]{}-'') \<and>
      classify s = IsString \<and>
      strings_ToLower s \<notin> {''yes'', ''no'', ''on'', ''off'', ''y'', ''n'', ''null'', ''~''})"

definition patchScalarValue ::
  "(string \<Rightarrow> scalar_class) \<Rightarrow> string list \<Rightarrow> ynode \<Rightarrow> string \<Rightarrow> string list option" where
  "patchScalarValue classify lines node newValue =
     (if y_Line node < 1 \<or> y_Line node > int (length lines) then None
      else
        (let line = lines ! nat (y_Line node - 1);
             col = y_Column node - 1
         in if col < 0 \<or> col > int (length line) then None
            else
              (let old = y_Value node; rest = drop (nat col) line
               in if old = [] \<or> \<not> strings_HasPrefix rest old then None
                  else if \<not> isSafePlainScalar classify newValue then None
                  else Some (lines[nat (y_Line node - 1) :=
                               take (nat col) line @ newValue @ drop (length old) rest]))))"

record helmValueWrite =
  hw_kind :: string
  hw_path :: string
  hw_value :: string

fun collect_patches :: "yheap \<Rightarrow> nat \<Rightarrow> helmValueWrite list \<Rightarrow> (nat \<times> string) list option" where
  "collect_patches h root [] = Some []"
| "collect_patches h root (w # ws) =
     (case resolveHelmScalarNode h root (hw_path w) of
        Inl _ \<Rightarrow> None
      | Inr c \<Rightarrow> map_option (\<lambda>ps. (c, hw_value w) # ps) (collect_patches h root ws))"

fun apply_patches ::
  "(string \<Rightarrow> scalar_class) \<Rightarrow> yheap \<Rightarrow> (nat \<times> string) list \<Rightarrow> string list \<Rightarrow> string list option" where
  "apply_patches classify h [] lines = Some lines"
| "apply_patches classify h ((c, v) # ps) lines =
     (case patchScalarValue classify lines (h ! c) v of
        None \<Rightarrow> None
      | Some lines \<Rightarrow> apply_patches classify h ps lines)"

text \<open>\<open>isOnlyWhitespace\<close>: the remaining runes are all white space.\<close>

function isOnlyWhitespace :: "string \<Rightarrow> bool" where
  "isOnlyWhitespace data =
     (if data = [] then True
      else if space_len data = 0 then False
      else isOnlyWhitespace (drop (space_len data) data))"
  by pat_completeness auto
termination by (relation "measure length") auto

declare isOnlyWhitespace.simps [simp del]

definition patchHelmValuesInPlace ::
  "(string \<Rightarrow> scalar_class) \<Rightarrow> yheap \<Rightarrow> nat \<Rightarrow> string \<Rightarrow> helmValueWrite list \<Rightarrow> string option" where
  "patchHelmValuesInPlace classify h root originalData writes =
     (if isOnlyWhitespace originalData then None
      else
        (case collect_patches h root writes of
           None \<Rightarrow> None
         | Some ps \<Rightarrow>
             map_option (\<lambda>lines. strings_Join lines [CHR 0x0A])
               (apply_patches classify h ps (strings_Split originalData CHR 0x0A))))"

section \<open>Well-formed documents\<close>

text \<open>
  What the parser guarantees: children and alias targets exist, an alias node has a target, and a
  mapping has a value for every key.  Keys are private when no key node is at the same time a value, a
  list element or the target of an alias.
\<close>

definition node_wf :: "nat \<Rightarrow> ynode \<Rightarrow> bool" where
  "node_wf n x =
     ((\<forall>c \<in> set (y_Content x). c < n) \<and> (\<forall>a. y_Alias x = Some a \<longrightarrow> a < n) \<and>
      (y_Kind x = AliasNode \<longrightarrow> y_Alias x \<noteq> None) \<and> (y_Kind x = MappingNode \<longrightarrow> even (length (y_Content x))))"

lemma node_wf_code [code]:
  "node_wf n x =
     (list_all (\<lambda>c. c < n) (y_Content x) \<and> (case y_Alias x of None \<Rightarrow> True | Some a \<Rightarrow> a < n) \<and>
      (y_Kind x = AliasNode \<longrightarrow> y_Alias x \<noteq> None) \<and> (y_Kind x = MappingNode \<longrightarrow> even (length (y_Content x))))"
  by (cases "y_Alias x") (auto simp: node_wf_def list_all_iff)

definition yheap_wf :: "yheap \<Rightarrow> bool" where
  "yheap_wf h = (\<forall>x \<in> set h. node_wf (length h) x)"

fun key_nodes :: "nat list \<Rightarrow> nat list" where
  "key_nodes (k # v # r) = k # key_nodes r"
| "key_nodes _ = []"

fun value_nodes :: "nat list \<Rightarrow> nat list" where
  "value_nodes (k # v # r) = v # value_nodes r"
| "value_nodes _ = []"

definition keys_of :: "yheap \<Rightarrow> nat set" where
  "keys_of h = (\<Union>x \<in> set h. if y_Kind x = MappingNode then set (key_nodes (y_Content x)) else {})"

definition targets_of :: "yheap \<Rightarrow> nat set" where
  "targets_of h =
     (\<Union>x \<in> set h. (if y_Kind x = MappingNode then set (value_nodes (y_Content x))
                   else if y_Kind x = SequenceNode then set (y_Content x) else {}) \<union> set_option (y_Alias x))"

definition private_keys :: "yheap \<Rightarrow> bool" where
  "private_keys h = (keys_of h \<inter> targets_of h = {})"

text \<open>A later state of the heap: nodes keep their kind, keys keep their text, mappings only grow.\<close>

definition heap_grows :: "yheap \<Rightarrow> yheap \<Rightarrow> bool" where
  "heap_grows h h' =
     (length h \<le> length h' \<and>
      (\<forall>a < length h. y_Kind (h' ! a) = y_Kind (h ! a) \<and> y_Alias (h' ! a) = y_Alias (h ! a) \<and>
         prefix (y_Content (h ! a)) (y_Content (h' ! a)) \<and>
         (y_Kind (h ! a) \<noteq> MappingNode \<longrightarrow> y_Content (h' ! a) = y_Content (h ! a)) \<and>
         (a \<in> keys_of h \<longrightarrow> y_Value (h' ! a) = y_Value (h ! a))) \<and>
      keys_of h \<subseteq> keys_of h')"

lemma key_nodes_append: "even (length c) \<Longrightarrow> key_nodes (c @ d) = key_nodes c @ key_nodes d"
  by (induction c rule: key_nodes.induct) auto

lemma value_nodes_append: "even (length c) \<Longrightarrow> value_nodes (c @ d) = value_nodes c @ value_nodes d"
  by (induction c rule: value_nodes.induct) auto

lemma find_key_value:
  "find_key h c key i = Some idx \<Longrightarrow> even (length c) \<Longrightarrow>
     \<exists>j. idx = i + j \<and> j < length c \<and> c ! j \<in> set (value_nodes c)"
proof (induction h c key i rule: find_key.induct)
  case (1 h k v rest key i)
  show ?case
  proof (cases "y_Value (h ! k) = key")
    case True
    with 1 show ?thesis by (intro exI [of _ 1]) simp
  next
    case False
    with 1 obtain j where "idx = i + 2 + j" "j < length rest" "rest ! j \<in> set (value_nodes rest)" by auto
    then show ?thesis by (intro exI [of _ "Suc (Suc j)"]) simp
  qed
qed auto

lemma find_key_grows:
  "\<lbrakk>find_key h c key i = Some idx; even (length c); \<forall>k \<in> set (key_nodes c). y_Value (h' ! k) = y_Value (h ! k)\<rbrakk> \<Longrightarrow>
     find_key h' (c @ d) key i = Some idx"
  by (induction h c key i rule: find_key.induct) (auto split: if_splits)

lemma find_key_append_None:
  "\<lbrakk>find_key h c key i = None; even (length c); \<forall>k \<in> set (key_nodes c). y_Value (h' ! k) = y_Value (h ! k)\<rbrakk> \<Longrightarrow>
     find_key h' (c @ d) key i = find_key h' d key (i + length c)"
  by (induction h c key i rule: find_key.induct) (auto split: if_splits)

lemma keys_ofI: "m < length h \<Longrightarrow> y_Kind (h ! m) = MappingNode \<Longrightarrow> k \<in> set (key_nodes (y_Content (h ! m))) \<Longrightarrow> k \<in> keys_of h"
  unfolding keys_of_def by (rule UN_I [of "h ! m"]) auto

lemma findHelmValuesKey_value:
  assumes "yheap_wf h" "m < length h" "y_Kind (h ! m) = MappingNode" "findHelmValuesKey h m key = Some idx"
  shows "idx < length (y_Content (h ! m)) \<and> y_Content (h ! m) ! idx \<in> set (value_nodes (y_Content (h ! m)))"
proof -
  have "even (length (y_Content (h ! m)))" using assms(1-3) by (auto simp: yheap_wf_def node_wf_def)
  then show ?thesis using find_key_value [of h "y_Content (h ! m)" key 0 idx] assms(4) by (simp add: findHelmValuesKey_def)
qed

text \<open>Entering a node leads to a value, a list element or the target of an alias.\<close>

lemma enter_target:
  assumes wf: "yheap_wf h" and m: "m < length h" "y_Kind (h ! m) = MappingNode"
    and f: "findHelmValuesKey h m key = Some idx" and e: "enter h m idx k idPtr = Inr c"
  shows "c < length h \<and> c \<in> targets_of h"
proof -
  let ?v = "y_Content (h ! m) ! idx"
  have v: "?v \<in> set (value_nodes (y_Content (h ! m)))" "?v \<in> set (y_Content (h ! m))"
    using findHelmValuesKey_value [OF wf m f] by auto
  have vt: "?v < length h \<and> ?v \<in> targets_of h"
    using wf m v unfolding yheap_wf_def node_wf_def targets_of_def by (auto intro!: bexI [of _ "h ! m"])
  have u: "unalias h ?v < length h \<and> unalias h ?v \<in> targets_of h"
  proof (cases "y_Kind (h ! ?v) = AliasNode")
    case True
    have "h ! ?v \<in> set h" using vt by simp
    with wf True obtain a where "y_Alias (h ! ?v) = Some a" "a < length h"
      unfolding yheap_wf_def node_wf_def by blast
    with True \<open>h ! ?v \<in> set h\<close> show ?thesis unfolding unalias_def targets_of_def by (auto intro!: bexI [of _ "h ! ?v"])
  qed (use vt in \<open>simp add: unalias_def\<close>)
  show ?thesis
  proof (cases "y_Kind (h ! unalias h ?v) = SequenceNode")
    case False
    with e u show ?thesis by (auto simp: enter_def Let_def split: option.splits)
  next
    case True
    then obtain i where i: "c = y_Content (h ! unalias h ?v) ! nat i" "0 \<le> i" "i < int (length (y_Content (h ! unalias h ?v)))"
      using e by (auto simp: enter_def Let_def split: option.splits if_splits)
    then have mem: "c \<in> set (y_Content (h ! unalias h ?v))" by simp
    have "h ! unalias h ?v \<in> set h" using u by simp
    with True mem wf show ?thesis
      unfolding yheap_wf_def node_wf_def targets_of_def by (auto intro!: bexI [of _ "h ! unalias h ?v"])
  qed
qed

lemma heap_grows_refl: "heap_grows h h"
  by (simp add: heap_grows_def)

lemma heap_grows_trans: "heap_grows h h' \<Longrightarrow> heap_grows h' h'' \<Longrightarrow> heap_grows h h''"
  unfolding heap_grows_def by (auto intro: prefix_order.trans)

lemma findHelmValuesKey_grows:
  assumes "yheap_wf h" "heap_grows h h'" "m < length h" "y_Kind (h ! m) = MappingNode" "findHelmValuesKey h m key = Some idx"
  shows "findHelmValuesKey h' m key = Some idx"
proof -
  have ev: "even (length (y_Content (h ! m)))" using assms(1,3,4) by (auto simp: yheap_wf_def node_wf_def)
  obtain d where d: "y_Content (h' ! m) = y_Content (h ! m) @ d"
    using assms(2,3) unfolding heap_grows_def by (metis prefixE)
  have bound: "set (key_nodes c) \<subseteq> set c" for c by (induction c rule: key_nodes.induct) auto
  have keys: "\<forall>k \<in> set (key_nodes (y_Content (h ! m))). y_Value (h' ! k) = y_Value (h ! k)"
  proof
    fix k assume k: "k \<in> set (key_nodes (y_Content (h ! m)))"
    then have "k \<in> keys_of h" using keys_ofI assms(3,4) by blast
    moreover have "k < length h" using k bound assms(1,3) unfolding yheap_wf_def node_wf_def by (metis nth_mem subsetD)
    ultimately show "y_Value (h' ! k) = y_Value (h ! k)" using assms(2) unfolding heap_grows_def by blast
  qed
  show ?thesis
    using find_key_grows [OF _ ev keys, of key 0 idx d] assms(5) d by (simp add: findHelmValuesKey_def)
qed

lemma enter_grows:
  assumes wf: "yheap_wf h" and g: "heap_grows h h'" and m: "m < length h" "y_Kind (h ! m) = MappingNode"
    and f: "findHelmValuesKey h m key = Some idx" and e: "enter h m idx k idPtr = Inr c"
  shows "enter h' m idx k idPtr = Inr c"
proof -
  let ?v = "y_Content (h ! m) ! idx"
  have idx: "idx < length (y_Content (h ! m))" using findHelmValuesKey_value [OF wf m f] by simp
  have v: "y_Content (h' ! m) ! idx = ?v"
    using g m idx unfolding heap_grows_def by (metis nth_append prefixE)
  have vl: "?v < length h" using wf m idx unfolding yheap_wf_def node_wf_def by (metis nth_mem)
  have u: "unalias h' ?v = unalias h ?v" using g vl by (simp add: unalias_def heap_grows_def)
  have "node_wf (length h) (h ! ?v)" using wf vl by (simp add: yheap_wf_def)
  then have ul: "unalias h ?v < length h" using vl by (auto simp: unalias_def node_wf_def)
  have "y_Kind (h' ! unalias h ?v) = y_Kind (h ! unalias h ?v)"
    "y_Kind (h ! unalias h ?v) \<noteq> MappingNode \<Longrightarrow> y_Content (h' ! unalias h ?v) = y_Content (h ! unalias h ?v)"
    using g ul unfolding heap_grows_def by blast+
  then show ?thesis using e unfolding enter_def Let_def v u by (auto split: option.splits if_splits)
qed

section \<open>Setting keeps documents well-formed\<close>

definition node_keys :: "ynode \<Rightarrow> nat set" where
  "node_keys x = (if y_Kind x = MappingNode then set (key_nodes (y_Content x)) else {})"

definition node_targets :: "ynode \<Rightarrow> nat set" where
  "node_targets x =
     (if y_Kind x = MappingNode then set (value_nodes (y_Content x))
      else if y_Kind x = SequenceNode then set (y_Content x) else {}) \<union> set_option (y_Alias x)"

lemma keys_of_nodes: "keys_of h = (\<Union>x \<in> set h. node_keys x)"
  by (simp add: keys_of_def node_keys_def)

lemma targets_of_nodes: "targets_of h = (\<Union>x \<in> set h. node_targets x)"
  by (simp add: targets_of_def node_targets_def)

lemma UN_set_update:
  "m < length h \<Longrightarrow> f x = f (h ! m) \<union> S \<Longrightarrow> (\<Union>y \<in> set (h[m := x]). f y) = (\<Union>y \<in> set h. f y) \<union> S"
proof -
  assume m: "m < length h" and fx: "f x = f (h ! m) \<union> S"
  have h: "h = take m h @ h ! m # drop (Suc m) h" using m by (simp add: id_take_nth_drop)
  have "h[m := x] = take m h @ x # drop (Suc m) h" using m by (simp add: upd_conv_take_nth_drop)
  then have "(\<Union>y \<in> set (h[m := x]). f y) = f x \<union> (\<Union>y \<in> set (take m h @ drop (Suc m) h). f y)" by auto
  moreover have "(\<Union>y \<in> set h. f y) = f (h ! m) \<union> (\<Union>y \<in> set (take m h @ drop (Suc m) h). f y)"
    by (subst h) auto
  ultimately show ?thesis using fx by auto
qed

lemma set_scalar_ok:
  fixes v t
  assumes wf: "yheap_wf h" and priv: "private_keys h" and c: "c < length h" "c \<in> targets_of h"
  defines "h' \<equiv> h[c := (h ! c)\<lparr>y_Value := v, y_Tag := t\<rparr>]"
  shows "yheap_wf h' \<and> private_keys h' \<and> heap_grows h h'"
proof -
  have same: "keys_of h' = keys_of h" "targets_of h' = targets_of h"
    unfolding keys_of_nodes targets_of_nodes h'_def
    using UN_set_update [OF c(1), of node_keys "(h ! c)\<lparr>y_Value := v, y_Tag := t\<rparr>" "{}"]
      UN_set_update [OF c(1), of node_targets "(h ! c)\<lparr>y_Value := v, y_Tag := t\<rparr>" "{}"]
    by (simp_all add: node_keys_def node_targets_def)
  have "c \<notin> keys_of h" using priv c(2) by (auto simp: private_keys_def)
  moreover have "node_wf (length h) ((h ! c)\<lparr>y_Value := v, y_Tag := t\<rparr>)"
    using wf c(1) nth_mem [of c h] by (auto simp: yheap_wf_def node_wf_def)
  then have "yheap_wf h'"
    using wf c(1) unfolding yheap_wf_def h'_def
    by (auto dest!: set_update_subset_insert [THEN subsetD])
  ultimately show ?thesis
    using priv c(1) same unfolding heap_grows_def private_keys_def
    by (auto simp: h'_def nth_list_update)
qed

lemma append_children_nth:
  "m < length h \<Longrightarrow> a < length h \<Longrightarrow> append_children h m k v ! a =
     (if a = m then (h ! m)\<lparr>y_Content := y_Content (h ! m) @ [length h, length h + 1]\<rparr> else h ! a)"
  "append_children h m k v ! length h = k" "append_children h m k v ! Suc (length h) = v"
  "length (append_children h m k v) = length h + 2"
  by (simp_all add: append_children_def nth_append)

lemma keys_targets_bound: "yheap_wf h \<Longrightarrow> keys_of h \<union> targets_of h \<subseteq> {..<length h}"
proof -
  have "set (key_nodes c) \<subseteq> set c" "set (value_nodes c) \<subseteq> set c" for c
    by (induction c rule: key_nodes.induct; auto)+
  then show "yheap_wf h \<Longrightarrow> keys_of h \<union> targets_of h \<subseteq> {..<length h}"
    unfolding yheap_wf_def node_wf_def keys_of_def targets_of_def
    by (auto split: if_splits) (metis subsetD)+
qed

lemma append_children_ok:
  fixes k
  assumes wf: "yheap_wf h" and priv: "private_keys h" and m: "m < length h" "y_Kind (h ! m) = MappingNode"
    and v: "v = new_scalar val \<or> v = new_mapping"
  defines "h' \<equiv> append_children h m (new_scalar k) v"
  shows "yheap_wf h' \<and> private_keys h' \<and> heap_grows h h' \<and> keys_of h' = insert (length h) (keys_of h)"
proof -
  let ?n = "(h ! m)\<lparr>y_Content := y_Content (h ! m) @ [length h, length h + 1]\<rparr>"
  have h': "h' = h[m := ?n] @ [new_scalar k, v]" by (simp add: h'_def append_children_def)
  have nm: "node_wf (length h) (h ! m)" using wf m by (simp add: yheap_wf_def)
  then have ev: "even (length (y_Content (h ! m)))" using m by (simp add: node_wf_def)
  have leaf: "node_keys (new_scalar k) = {}" "node_targets (new_scalar k) = {}" "node_keys v = {}" "node_targets v = {}"
    using v by (auto simp: node_keys_def node_targets_def new_scalar_def new_mapping_def)
  have keys: "keys_of h' = insert (length h) (keys_of h)"
    using UN_set_update [OF m(1), of node_keys ?n "{length h}"] m ev leaf
    unfolding keys_of_nodes h' by (auto simp: node_keys_def key_nodes_append)
  have targets: "targets_of h' = insert (length h + 1) (targets_of h)"
    using UN_set_update [OF m(1), of node_targets ?n "{length h + 1}"] m ev leaf
    unfolding targets_of_nodes h' by (auto simp: node_targets_def value_nodes_append)
  have bound: "keys_of h \<union> targets_of h \<subseteq> {..<length h}" by (rule keys_targets_bound [OF wf])
  have len: "length h' = length h + 2" by (simp add: h')
  have mono: "node_wf (length h) x \<Longrightarrow> node_wf (length h + 2) x" for x by (auto simp: node_wf_def)
  have "node_wf (length h + 2) ?n" using nm ev m by (auto simp: node_wf_def)
  moreover have "node_wf (length h + 2) (new_scalar k)" "node_wf (length h + 2) v"
    using v by (auto simp: node_wf_def new_scalar_def new_mapping_def)
  ultimately have "yheap_wf h'"
    using wf mono unfolding yheap_wf_def len
    by (auto simp: h' dest!: set_update_subset_insert [THEN subsetD])
  moreover have "private_keys h'"
    using priv bound unfolding private_keys_def keys targets by auto
  moreover have "heap_grows h h'"
    using m bound unfolding heap_grows_def keys len by (auto simp: h' nth_append nth_list_update)
  ultimately show ?thesis using keys by blast
qed

lemma set_loop_ok:
  assumes "set_loop h m ks v = Inr h'" "yheap_wf h" "private_keys h" "m < length h" "y_Kind (h ! m) = MappingNode"
  shows "yheap_wf h' \<and> private_keys h' \<and> heap_grows h h'"
  using assms
proof (induction h m ks v rule: set_loop.induct)
  case (1 h m v)
  then show ?case by (simp add: heap_grows_refl)
next
  case (2 h m k ks v)
  obtain key idPtr where k: "list_key k = Inr (key, idPtr)" using "2.prems"(1) by (cases "list_key k") auto
  show ?case
  proof (cases "findHelmValuesKey h m key")
    case None
    show ?thesis
    proof (cases "ks = []")
      case True
      then show ?thesis using "2.prems" k None append_children_ok [of h m "new_scalar v" v k] by simp
    next
      case False
      let ?h = "append_children h m (new_scalar k) new_mapping"
      have step: "yheap_wf ?h \<and> private_keys ?h \<and> heap_grows h ?h"
        using append_children_ok [OF "2.prems"(2-5), of new_mapping] by blast
      moreover have "length h + 1 < length ?h" "y_Kind (?h ! (length h + 1)) = MappingNode"
        by (simp_all add: append_children_nth new_mapping_def)
      moreover have "set_loop ?h (length h + 1) ks v = Inr h'" using "2.prems"(1) k None False by simp
      ultimately show ?thesis using "2.IH"(1) [OF k refl None False] heap_grows_trans by blast
    qed
  next
    case (Some idx)
    obtain c where c: "enter h m idx key idPtr = Inr c"
      using "2.prems"(1) k Some by (cases "enter h m idx key idPtr") auto
    note target = enter_target [OF "2.prems"(2,4,5) Some c]
    show ?thesis
    proof (cases "ks = []")
      case True
      then show ?thesis
        using "2.prems" k Some c target set_scalar_ok [of h c "''!!str''" v] by (simp split: if_splits)
    next
      case False
      then have "y_Kind (h ! c) = MappingNode" "set_loop h c ks v = Inr h'"
        using "2.prems"(1) k Some c by (auto split: if_splits)
      then show ?thesis
        using "2.IH"(2) [OF k refl Some c False] "2.prems"(2,3) target by auto
    qed
  qed
qed

section \<open>What is set is read back\<close>

text \<open>Does the path need a list element that is not there, so that its index becomes part of a new key?\<close>

definition indexed :: "string \<Rightarrow> bool" where
  "indexed k = (match_list_element k \<noteq> None)"

fun creates_indexed :: "yheap \<Rightarrow> nat \<Rightarrow> string list \<Rightarrow> bool" where
  "creates_indexed h m [] = False"
| "creates_indexed h m (k # ks) =
     (case list_key k of
        Inl _ \<Rightarrow> False
      | Inr (key, idPtr) \<Rightarrow>
          (case findHelmValuesKey h m key of
             None \<Rightarrow> list_ex indexed (k # ks)
           | Some idx \<Rightarrow>
               (case enter h m idx key idPtr of Inl _ \<Rightarrow> False | Inr c \<Rightarrow> creates_indexed h c ks)))"

lemma list_key_plain: "\<not> indexed k \<Longrightarrow> list_key k = Inr (k, None)"
  by (cases "match_list_element k") (auto simp: list_key_def indexed_def)

lemma find_new_key:
  fixes v
  assumes wf: "yheap_wf h" and m: "m < length h" "y_Kind (h ! m) = MappingNode" and f: "findHelmValuesKey h m k = None"
  defines "h' \<equiv> append_children h m (new_scalar k) v"
  shows "findHelmValuesKey h' m k = Some (Suc (length (y_Content (h ! m)))) \<and>
    y_Content (h' ! m) ! Suc (length (y_Content (h ! m))) = length h + 1"
proof -
  let ?c = "y_Content (h ! m)"
  have nm: "node_wf (length h) (h ! m)" using wf m by (simp add: yheap_wf_def)
  then have ev: "even (length ?c)" and bound: "\<forall>c \<in> set ?c. c < length h" using m by (simp_all add: node_wf_def)
  have sub: "set (key_nodes c) \<subseteq> set c" for c by (induction c rule: key_nodes.induct) auto
  have keys: "\<forall>k \<in> set (key_nodes ?c). y_Value (h' ! k) = y_Value (h ! k)"
  proof
    fix a assume "a \<in> set (key_nodes ?c)"
    then have "a < length h" using bound sub by blast
    then show "y_Value (h' ! a) = y_Value (h ! a)" using m(1) by (simp add: h'_def append_children_nth)
  qed
  have content: "y_Content (h' ! m) = ?c @ [length h, length h + 1]" using m(1) by (simp add: h'_def append_children_nth)
  have "y_Value (h' ! length h) = k" by (simp add: h'_def append_children_nth new_scalar_def)
  then show ?thesis
    using find_key_append_None [OF _ ev keys, of k 0 "[length h, length h + 1]"] f content
    by (simp add: findHelmValuesKey_def nth_append)
qed

text \<open>No key of an empty mapping is found, so that the rest of the path is created.\<close>

lemma creates_indexed_fresh:
  "y_Content (h ! m) = [] \<Longrightarrow> \<not> list_ex indexed ks \<Longrightarrow> \<not> creates_indexed h m ks"
  by (cases ks) (auto simp: list_key_plain findHelmValuesKey_def)

lemma set_loop_nav:
  assumes "set_loop h m ks v = Inr h'" "yheap_wf h" "private_keys h" "m < length h" "y_Kind (h ! m) = MappingNode"
    and "ks \<noteq> []" "\<not> creates_indexed h m ks"
  shows "\<exists>c < length h'. nav_loop h' m ks = NavFound c \<and> y_Value (h' ! c) = v"
  using assms
proof (induction h m ks v rule: set_loop.induct)
  case (2 h m k ks v)
  obtain key idPtr where k: "list_key k = Inr (key, idPtr)" using "2.prems"(1) by (cases "list_key k") auto
  have ok: "yheap_wf h' \<and> private_keys h' \<and> heap_grows h h'" using set_loop_ok "2.prems"(1-5) by blast
  show ?case
  proof (cases "findHelmValuesKey h m key")
    case None
    then have plain: "\<not> indexed k" "\<not> list_ex indexed ks" using "2.prems"(7) k by auto
    then have key: "key = k" "idPtr = None" using k list_key_plain by auto
    show ?thesis
    proof (cases "ks = []")
      case True
      let ?h = "append_children h m (new_scalar k) (new_scalar v)"
      have h': "h' = ?h" using "2.prems"(1) k None True by simp
      have new: "findHelmValuesKey ?h m k = Some (Suc (length (y_Content (h ! m))))"
        "y_Content (?h ! m) ! Suc (length (y_Content (h ! m))) = length h + 1"
        using find_new_key [OF "2.prems"(2,4,5)] None key by blast+
      have kind: "y_Kind (?h ! Suc (length h)) = ScalarNode" "y_Value (?h ! Suc (length h)) = v"
        by (simp_all add: append_children_nth new_scalar_def)
      have m': "m < length ?h" "y_Kind (?h ! m) = MappingNode"
        using "2.prems"(4,5) by (simp_all add: append_children_nth)
      have e: "enter ?h m (Suc (length (y_Content (h ! m)))) k None = Inr (length h + 1)"
        using new(2) kind by (simp add: enter_def Let_def unalias_def)
      have "findHelmValuesKey h' m k = Some (Suc (length (y_Content (h ! m))))"
        "enter h' m (Suc (length (y_Content (h ! m)))) k None = Inr (length h + 1)"
        using findHelmValuesKey_grows [of ?h h'] enter_grows [of ?h h'] heap_grows_refl ok h' m' new(1) e by auto
      moreover have "y_Kind (h' ! (length h + 1)) = ScalarNode"
        using h' kind by simp
      ultimately show ?thesis
        using k key True kind h' by (intro exI [of _ "length h + 1"]) (simp add: append_children_nth)
    next
      case False
      let ?h = "append_children h m (new_scalar k) new_mapping"
      have new: "findHelmValuesKey ?h m k = Some (Suc (length (y_Content (h ! m))))"
        "y_Content (?h ! m) ! Suc (length (y_Content (h ! m))) = length h + 1"
        using find_new_key [OF "2.prems"(2,4,5)] None key by blast+
      have kind: "y_Kind (?h ! (length h + 1)) = MappingNode" "y_Content (?h ! (length h + 1)) = []"
        by (simp_all add: append_children_nth new_mapping_def)
      have step: "yheap_wf ?h" "private_keys ?h" "heap_grows h ?h"
        using append_children_ok [OF "2.prems"(2-5), of new_mapping] by blast+
      have loop: "set_loop ?h (length h + 1) ks v = Inr h'" using "2.prems"(1) k None False by simp
      have sub: "\<exists>c < length h'. nav_loop h' (length h + 1) ks = NavFound c \<and> y_Value (h' ! c) = v"
        using "2.IH"(1) [OF k refl None False loop step(1,2) _ kind(1) False _]
          creates_indexed_fresh [of ?h "length h + 1" ks] kind(2) plain(2) by (simp add: append_children_nth)
      have m': "m < length ?h" "y_Kind (?h ! m) = MappingNode"
        using "2.prems"(4,5) by (simp_all add: append_children_nth)
      have e: "enter ?h m (Suc (length (y_Content (h ! m)))) k None = Inr (length h + 1)"
        using new(2) kind by (simp add: enter_def Let_def unalias_def)
      have hg: "heap_grows ?h h'"
        using set_loop_ok [OF loop step(1,2) _ kind(1)] by (simp add: append_children_nth)
      have "findHelmValuesKey h' m k = Some (Suc (length (y_Content (h ! m))))"
        "enter h' m (Suc (length (y_Content (h ! m)))) k None = Inr (length h + 1)"
        using findHelmValuesKey_grows [OF step(1) hg m' new(1)] enter_grows [OF step(1) hg m' new(1) e] by blast+
      moreover have "y_Kind (h' ! (length h + 1)) = MappingNode"
        using hg kind unfolding heap_grows_def by (simp add: append_children_nth)
      ultimately show ?thesis using k key False sub by simp
    qed
  next
    case (Some idx)
    obtain c where c: "enter h m idx key idPtr = Inr c"
      using "2.prems"(1) k Some by (cases "enter h m idx key idPtr") auto
    note target = enter_target [OF "2.prems"(2,4,5) Some c]
    have hg: "heap_grows h h'" using ok by blast
    have nav: "findHelmValuesKey h' m key = Some idx" "enter h' m idx key idPtr = Inr c"
      using findHelmValuesKey_grows [OF "2.prems"(2) hg "2.prems"(4,5) Some]
        enter_grows [OF "2.prems"(2) hg "2.prems"(4,5) Some c] by blast+
    have kind: "y_Kind (h' ! c) = y_Kind (h ! c)" using hg target unfolding heap_grows_def by blast
    show ?thesis
    proof (cases "ks = []")
      case True
      then have "h' = h[c := (h ! c)\<lparr>y_Value := v, y_Tag := ''!!str''\<rparr>]" "y_Kind (h ! c) = ScalarNode"
        using "2.prems"(1) k Some c by (auto split: if_splits)
      then show ?thesis using True k nav kind target by (intro exI [of _ c]) simp
    next
      case False
      then have mp: "y_Kind (h ! c) = MappingNode" and loop: "set_loop h c ks v = Inr h'"
        using "2.prems"(1) k Some c by (auto split: if_splits)
      have "\<not> creates_indexed h c ks" using "2.prems"(7) k Some c by simp
      then have "\<exists>d < length h'. nav_loop h' c ks = NavFound d \<and> y_Value (h' ! d) = v"
        using "2.IH"(2) [OF k refl Some c False _ loop "2.prems"(2,3) _ mp False _] mp target by simp
      then show ?thesis using False k nav kind mp by simp
    qed
  qed
qed simp

text \<open>
  A Helm value that has been set is read back: in a well-formed document without a literal key
  equal to the path, when \<open>setHelmValue\<close> succeeds and needs no new list element, \<open>getHelmValue\<close>
  returns the new value, whether the path existed or its mappings had to be created; the document
  stays well-formed and no other key changes its name.
\<close>

theorem helm_value_read_back:
  assumes "yheap_wf h" "private_keys h" "root < length h" "y_Kind (h ! root) = DocumentNode" "y_Content (h ! root) = [m]"
    and "findHelmValuesKey h m key = None" "\<not> creates_indexed h m (strings_Split key CHR ''.'')"
    and "setHelmValue h root key v = Ret (Inr h')"
  shows "getHelmValue h' root key = Inr v \<and> yheap_wf h' \<and> private_keys h' \<and> heap_grows h h'"
proof -
  have "node_wf (length h) (h ! root)" using assms(1,3) by (simp add: yheap_wf_def)
  then have m: "m < length h" using assms(5) by (simp add: node_wf_def)
  have kind: "y_Kind (h ! m) = MappingNode" and loop: "set_loop h m (strings_Split key CHR ''.'') v = Inr h'"
    using assms(4-6,8) by (auto simp: setHelmValue_def document_root_def split: if_splits)
  have ok: "yheap_wf h' \<and> private_keys h' \<and> heap_grows h h'" by (rule set_loop_ok [OF loop assms(1,2) m kind])
  obtain c where c: "nav_loop h' m (strings_Split key CHR ''.'') = NavFound c" "y_Value (h' ! c) = v"
    using set_loop_nav [OF loop assms(1,2) m kind strings_Split_nonempty assms(7)] by blast
  have "y_Kind (h' ! root) = DocumentNode" "y_Content (h' ! root) = [m]" "y_Kind (h' ! m) = MappingNode"
    using ok assms(3-5) m kind unfolding heap_grows_def by auto
  with c ok show ?thesis by (simp add: getHelmValue_def resolveHelmScalarNode_def)
qed

text \<open>A document \<open>image: {tag: old}\<close>, and one with the key \<open>tag: 1.0\<close> that the parser resolves as a float.\<close>

definition sample_doc :: yheap where
  "sample_doc =
     [\<lparr>y_Kind = DocumentNode, y_Tag = [], y_Value = [], y_Content = [1], y_Alias = None, y_Line = 1, y_Column = 1\<rparr>,
      \<lparr>y_Kind = MappingNode, y_Tag = ''!!map'', y_Value = [], y_Content = [2, 3], y_Alias = None, y_Line = 1, y_Column = 1\<rparr>,
      \<lparr>y_Kind = ScalarNode, y_Tag = ''!!str'', y_Value = ''image'', y_Content = [], y_Alias = None, y_Line = 1, y_Column = 1\<rparr>,
      \<lparr>y_Kind = MappingNode, y_Tag = ''!!map'', y_Value = [], y_Content = [4, 5], y_Alias = None, y_Line = 2, y_Column = 3\<rparr>,
      \<lparr>y_Kind = ScalarNode, y_Tag = ''!!str'', y_Value = ''tag'', y_Content = [], y_Alias = None, y_Line = 2, y_Column = 3\<rparr>,
      \<lparr>y_Kind = ScalarNode, y_Tag = ''!!str'', y_Value = ''old'', y_Content = [], y_Alias = None, y_Line = 2, y_Column = 8\<rparr>]"

theorem helm_value_read_back_witness:
  "(\<exists>h'. setHelmValue sample_doc 0 ''image.tag'' ''1.1'' = Ret (Inr h') \<and> getHelmValue h' 0 ''image.tag'' = Inr ''1.1'') \<and>
   (\<exists>h'. setHelmValue sample_doc 0 ''web.image.tag'' ''1.1'' = Ret (Inr h') \<and> getHelmValue h' 0 ''web.image.tag'' = Inr ''1.1'')"
proof -
  have wf: "yheap_wf sample_doc" "private_keys sample_doc" "0 < length sample_doc"
    "y_Kind (sample_doc ! 0) = DocumentNode" "y_Content (sample_doc ! 0) = [1]"
    by (code_simp, code_simp, code_simp, code_simp, code_simp)
  have "\<exists>h'. setHelmValue sample_doc 0 key v = Ret (Inr h') \<and> getHelmValue h' 0 key = Inr v"
    if "findHelmValuesKey sample_doc 1 key = None" "\<not> creates_indexed sample_doc 1 (strings_Split key CHR ''.'')"
      "(case setHelmValue sample_doc 0 key v of Ret (Inr _) \<Rightarrow> True | _ \<Rightarrow> False)" for key v
    using helm_value_read_back [OF wf that(1,2)] that(3) by (auto split: go.splits sum.splits)
  moreover have "findHelmValuesKey sample_doc 1 ''image.tag'' = None" "findHelmValuesKey sample_doc 1 ''web.image.tag'' = None"
    "\<not> creates_indexed sample_doc 1 (strings_Split ''image.tag'' CHR ''.'')"
    "\<not> creates_indexed sample_doc 1 (strings_Split ''web.image.tag'' CHR ''.'')"
    "(case setHelmValue sample_doc 0 ''image.tag'' ''1.1'' of Ret (Inr _) \<Rightarrow> True | _ \<Rightarrow> False)"
    "(case setHelmValue sample_doc 0 ''web.image.tag'' ''1.1'' of Ret (Inr _) \<Rightarrow> True | _ \<Rightarrow> False)"
    by (code_simp, code_simp, code_simp, code_simp, code_simp, code_simp)
  ultimately show ?thesis by blast
qed

section \<open>Patching touches values only\<close>

definition line_of :: "ynode \<Rightarrow> nat" where
  "line_of n = nat (y_Line n - 1)"

definition patched_line :: "ynode \<Rightarrow> string \<Rightarrow> string \<Rightarrow> string" where
  "patched_line n v line =
     (let col = nat (y_Column n - 1) in take col line @ v @ drop (col + length (y_Value n)) line)"

definition patch_fits :: "(string \<Rightarrow> scalar_class) \<Rightarrow> string list \<Rightarrow> ynode \<Rightarrow> string \<Rightarrow> bool" where
  "patch_fits classify lines n v =
     (1 \<le> y_Line n \<and> line_of n < length lines \<and> y_Value n \<noteq> [] \<and> isSafePlainScalar classify v \<and>
      prefix (y_Value n) (drop (nat (y_Column n - 1)) (lines ! line_of n)))"

lemma patchScalarValue_Some:
  assumes "patchScalarValue classify lines n v = Some lines'"
  shows "patch_fits classify lines n v" "lines' = lines[line_of n := patched_line n v (lines ! line_of n)]"
  using assms
  by (auto simp: patchScalarValue_def patch_fits_def line_of_def patched_line_def Let_def strings_HasPrefix_def
      add.commute split: if_splits)

lemma apply_patches_Some:
  assumes "apply_patches classify h ps lines = Some lines'" "distinct (map (\<lambda>(c, v). line_of (h ! c)) ps)"
  shows "length lines' = length lines \<and>
    (\<forall>i. (\<forall>(c, v) \<in> set ps. line_of (h ! c) \<noteq> i) \<longrightarrow> lines' ! i = lines ! i) \<and>
    (\<forall>(c, v) \<in> set ps. patch_fits classify lines (h ! c) v \<and>
        lines' ! line_of (h ! c) = patched_line (h ! c) v (lines ! line_of (h ! c)))"
  using assms
proof (induction ps arbitrary: lines)
  case (Cons p ps)
  obtain c v where p: "p = (c, v)" by (cases p)
  obtain l1 where l1: "patchScalarValue classify lines (h ! c) v = Some l1" "apply_patches classify h ps l1 = Some lines'"
    using Cons.prems(1) p by (auto split: option.splits)
  note patch = patchScalarValue_Some [OF l1(1)]
  have other: "\<forall>(d, w) \<in> set ps. line_of (h ! d) \<noteq> line_of (h ! c)" using Cons.prems(2) p by (auto simp: image_iff)
  have IH: "length lines' = length l1" "\<forall>i. (\<forall>(c, v) \<in> set ps. line_of (h ! c) \<noteq> i) \<longrightarrow> lines' ! i = l1 ! i"
    "\<forall>(c, v) \<in> set ps. patch_fits classify l1 (h ! c) v \<and> lines' ! line_of (h ! c) = patched_line (h ! c) v (l1 ! line_of (h ! c))"
    using Cons.IH [OF l1(2)] Cons.prems(2) by simp_all
  have len: "line_of (h ! c) < length lines" using patch(1) by (simp add: patch_fits_def)
  have "lines' ! line_of (h ! c) = patched_line (h ! c) v (lines ! line_of (h ! c))"
    using IH(2) other patch(2) len by simp
  moreover have "patch_fits classify lines (h ! d) w \<and> lines' ! line_of (h ! d) = patched_line (h ! d) w (lines ! line_of (h ! d))"
    if "(d, w) \<in> set ps" for d w
    using IH(3) other that patch(2) by (fastforce simp: patch_fits_def)
  ultimately show ?case using IH(1,2) patch p by auto
qed simp

lemma safe_no_newline: "isSafePlainScalar classify v \<Longrightarrow> CHR 0x0A \<notin> set v"
  by (auto simp: isSafePlainScalar_def strings_ContainsAny_def)


definition sample_text :: string where
  "sample_text = ''image:'' @ [CHR 0x0A] @ ''  tag: old # pinned'' @ [CHR 0x0A]"


text \<open>
  A top-level key is set without its type: the node of \<open>tag: 1.0\<close> keeps the tag \<open>!!float\<close> when it gets the
  value \<open>1.20\<close>, where the same value on a nested path becomes a string.
\<close>

lemma literal_key_keeps_type:
  "\<exists>h'. setHelmValue
       [\<lparr>y_Kind = DocumentNode, y_Tag = [], y_Value = [], y_Content = [1], y_Alias = None, y_Line = 1, y_Column = 1\<rparr>,
        \<lparr>y_Kind = MappingNode, y_Tag = ''!!map'', y_Value = [], y_Content = [2, 3], y_Alias = None, y_Line = 1, y_Column = 1\<rparr>,
        new_scalar ''tag'', (new_scalar ''1.0'')\<lparr>y_Tag := ''!!float''\<rparr>] 0 ''tag'' ''1.20'' = Ret (Inr h') \<and>
     y_Tag (h' ! 3) = ''!!float'' \<and> y_Value (h' ! 3) = ''1.20''"
  by (simp add: setHelmValue_def document_root_def findHelmValuesKey_def new_scalar_def)

end
