(* ===== verification/Kustomization.thy ===== *)
theory Kustomization
  imports GitClient Applications HelmValues
begin

text \<open>
  Updating a \<open>kustomization.yaml\<close> in place (\<open>pkg/argocd/git.go\<close>): the blank lines and the leading comments
  that kyaml would drop are carried around it.  kyaml itself is a parameter.
\<close>

section \<open>Blank lines\<close>

definition blankLineMarker :: string where
  "blankLineMarker = ''# __preserve_blank_line__''"

definition encodeBlankLines :: "string \<Rightarrow> string" where
  "encodeBlankLines data =
     (let lines = strings_Split data CHR 0x0A;
          end' = (if length lines > 0 \<and> last lines = [] then length lines - 1 else length lines)
      in strings_Join (map (\<lambda>l. if strings_TrimSpace l = [] then blankLineMarker else l) (take end' lines) @ drop end' lines)
           [CHR 0x0A])"

function bytes_ReplaceAll :: "string \<Rightarrow> string \<Rightarrow> string \<Rightarrow> string" where
  "bytes_ReplaceAll s old new =
     (case s of
        [] \<Rightarrow> []
      | c # cs \<Rightarrow>
          if old \<noteq> [] \<and> prefix old s then new @ bytes_ReplaceAll (drop (length old) s) old new
          else c # bytes_ReplaceAll cs old new)"
  by pat_completeness auto
termination
  by (relation "measure (\<lambda>(s, old, new). length s)") auto

declare bytes_ReplaceAll.simps [simp del]

definition decodeBlankLines :: "string \<Rightarrow> string" where
  "decodeBlankLines data = bytes_ReplaceAll data (blankLineMarker @ [CHR 0x0A]) [CHR 0x0A]"

section \<open>The leading comments\<close>

definition bytesCutNewline :: "string \<Rightarrow> string \<times> string \<times> bool" where
  "bytesCutNewline data =
     (case strings_Cut data CHR 0x0A of (before, after, ok) \<Rightarrow> if ok then (before, after, True) else (data, [], False))"

lemma bytesCutNewline_found:
  assumes "bytesCutNewline data = (line, rest, True)"
  shows "data = line @ CHR 0x0A # rest \<and> CHR 0x0A \<notin> set line"
proof -
  have "CHR 0x0A \<in> set data" using assms by (auto simp: bytesCutNewline_def strings_Cut_def split: if_splits)
  then obtain a b where "data = a @ CHR 0x0A # b" "CHR 0x0A \<notin> set a" by (meson split_list_first)
  with assms show ?thesis by (simp add: bytesCutNewline_def strings_Cut_found)
qed

lemma bytesCutNewline_shorter: "(line, rest, True) = bytesCutNewline data \<Longrightarrow> length rest < length data"
  using bytesCutNewline_found [of data line rest] by auto

text \<open>The loop, on what is left of the data; the offset is the length of what is gone.\<close>

function comment_prefix :: "string \<Rightarrow> nat" where
  "comment_prefix data =
     (case bytesCutNewline data of (line, rest, found) \<Rightarrow>
        let trimmed = strings_TrimSpace line
        in if trimmed \<noteq> [] \<and> trimmed ! 0 \<noteq> CHR ''#'' \<and> trimmed ! 0 \<noteq> CHR ''%'' then 0
           else if \<not> found then length data
           else length data - length rest + comment_prefix rest)"
  by pat_completeness auto
termination
  by (relation "measure length") (auto dest: bytesCutNewline_shorter)

declare comment_prefix.simps [simp del]

definition leadingCommentPrefixLen :: "string \<Rightarrow> nat" where
  "leadingCommentPrefixLen data = comment_prefix data"

definition bytes_TrimRight :: "string \<Rightarrow> string \<Rightarrow> string" where
  "bytes_TrimRight s cutset = rev (dropWhile (\<lambda>c. c \<in> set cutset) (rev s))"

definition hasDocumentStartAt :: "string \<Rightarrow> nat \<Rightarrow> bool" where
  "hasDocumentStartAt data prefixLen =
     (let line = bytes_TrimRight (fst (bytesCutNewline (drop prefixLen data))) [CHR '' '', CHR 0x09, CHR 0x0D, CHR 0x0A]
      in if length line < 3 \<or> take 3 line \<noteq> ''---'' then False
         else length line = 3 \<or> line ! 3 = CHR '' '' \<or> line ! 3 = CHR 0x09)"

section \<open>Images of a kustomization\<close>

record kust_image =
  ki_Name :: string
  ki_NewName :: string
  ki_NewTag :: string
  ki_Digest :: string

definition parseImageOverride :: "ref_parser \<Rightarrow> string \<Rightarrow> kust_image" where
  "parseImageOverride pn str =
     (let img = NewFromIdentifier pn str;
          tagName = (case ImageTag img of None \<Rightarrow> [] | Some t \<Rightarrow> TagName t);
          tagDigest = (case ImageTag img of None \<Rightarrow> [] | Some t \<Rightarrow> TagDigest t);
          name = (if RegistryURL img \<noteq> [] then RegistryURL img @ ''/'' @ ImageName img else ImageName img)
      in if ImageAlias img = [] then \<lparr>ki_Name = name, ki_NewName = [], ki_NewTag = tagName, ki_Digest = tagDigest\<rparr>
         else \<lparr>ki_Name = ImageAlias img, ki_NewName = name, ki_NewTag = tagName, ki_Digest = tagDigest\<rparr>)"

text \<open>
  What is used of kyaml: whether an image can be encoded, the printed form of each document of a file, the file
  after the images have been merged in with the order of its fields kept, and the printed form of one document.
\<close>

record kyaml_lib =
  ky_Element :: "kust_image \<Rightarrow> git_error option"
  ky_Documents :: "string \<Rightarrow> git_error + string list"
  ky_SetImages :: "string \<Rightarrow> kust_image list \<Rightarrow> git_error + string"
  ky_Print :: "string \<Rightarrow> git_error + string"

fun imagesFilter :: "kyaml_lib \<Rightarrow> ref_parser \<Rightarrow> string list \<Rightarrow> git_error + kust_image list" where
  "imagesFilter ky pn [] = Inr []"
| "imagesFilter ky pn (img # images) =
     (let o' = parseImageOverride pn img
      in case ky_Element ky o' of
           Some err \<Rightarrow> Inl err
         | None \<Rightarrow> (case imagesFilter ky pn images of Inl err \<Rightarrow> Inl err | Inr overrides \<Rightarrow> Inr (o' # overrides)))"

text \<open>The new text of the file; \<^const>\<open>None\<close> when the document has not changed.\<close>

definition update_text :: "kyaml_lib \<Rightarrow> kust_image list \<Rightarrow> string \<Rightarrow> git_error + string option" where
  "update_text ky overrides yRaw =
     (let yPrefixLen = leadingCommentPrefixLen yRaw;
          hadDocStart = hasDocumentStartAt yRaw yPrefixLen;
          yEncoded = encodeBlankLines yRaw;
          yBody = drop (leadingCommentPrefixLen yEncoded) yEncoded
      in case ky_Documents ky yBody of
           Inl err \<Rightarrow> Inl err
         | Inr docs \<Rightarrow>
             if length docs \<noteq> 1 then Inl (Message ''target parameter file should contain a single YAML document'')
             else
               (case ky_SetImages ky yBody overrides of
                  Inl err \<Rightarrow> Inl err
                | Inr out \<Rightarrow>
                    (case ky_Print ky out of
                       Inl err \<Rightarrow> Inl err
                     | Inr newData \<Rightarrow>
                         if docs ! 0 = newData then Inr None
                         else
                           (let outBytes = decodeBlankLines out
                            in Inr (Some (take yPrefixLen yRaw @
                                 (if hadDocStart \<and> \<not> prefix ''---'' outBytes then ''---'' @ [CHR 0x0A] else []) @ outBytes))))))"

definition updateKustomizeFile :: "'w os_lib \<Rightarrow> kyaml_lib \<Rightarrow> kust_image list \<Rightarrow> string \<Rightarrow> ('w, bool) io" where
  "updateKustomizeFile lib ky overrides path =
     io_bind (os_ReadFile lib path)
       (\<lambda>yRaw. case update_text ky overrides yRaw of
          Inl err \<Rightarrow> io_fail err
        | Inr None \<Rightarrow> io_return True
        | Inr (Some outBytes) \<Rightarrow> io_bind (os_WriteFile lib path outBytes) (\<lambda>_. io_return False))"

fun find_file :: "'w os_lib \<Rightarrow> string \<Rightarrow> string list \<Rightarrow> 'w \<Rightarrow> string" where
  "find_file lib base [] w = []"
| "find_file lib base (f # fs) w =
     (let kustFile = filepath_Join [base, f]
      in if fs_Stat lib kustFile w = RegularFile then kustFile else find_file lib base fs w)"

text \<open>The names that Kustomize recognises.\<close>

definition findKustomization :: "'w os_lib \<Rightarrow> string \<Rightarrow> 'w \<Rightarrow> string" where
  "findKustomization lib base w = find_file lib base [''kustomization.yaml'', ''kustomization.yml'', ''Kustomization''] w"

section \<open>What survives an update\<close>

text \<open>A text of terminated lines.\<close>

definition unlines :: "string list \<Rightarrow> string" where
  "unlines ls = concat (map (\<lambda>l. l @ [CHR 0x0A]) ls)"

lemma Join_terminated: "strings_Join (ls @ [[]]) [CHR 0x0A] = unlines ls"
proof (induction ls)
  case (Cons l ls)
  then show ?case by (cases ls) (simp_all add: unlines_def)
qed (simp add: unlines_def)

lemma ReplaceAll_Nil [simp]: "bytes_ReplaceAll [] old new = []"
  by (simp add: bytes_ReplaceAll.simps)

lemma ReplaceAll_hit:
  "old \<noteq> [] \<Longrightarrow> bytes_ReplaceAll (old @ s) old new = new @ bytes_ReplaceAll s old new"
  by (cases old; subst bytes_ReplaceAll.simps) simp_all

lemma prefix_line: "prefix (m @ [d]) (x @ d # (rest :: string)) \<Longrightarrow> d \<notin> set m \<Longrightarrow> d \<notin> set x \<Longrightarrow> x = m"
proof -
  assume p: "prefix (m @ [d]) (x @ d # rest)" and d: "d \<notin> set m" "d \<notin> set x"
  then obtain t where "x @ d # rest = m @ d # t" by (auto simp: prefix_def)
  then have "fst (strings_Cut (x @ d # rest) d) = fst (strings_Cut (m @ d # t) d)" by simp
  then show ?thesis using d by (simp add: strings_Cut_found)
qed

lemma ReplaceAll_miss:
  assumes "d \<notin> set m" "m \<noteq> []" "d \<notin> set l" "\<not> strings_Contains l m"
  shows "bytes_ReplaceAll (l @ d # rest) (m @ [d]) new = l @ d # bytes_ReplaceAll rest (m @ [d]) new"
  using assms(3,4)
proof (induction l)
  case Nil
  have "\<not> prefix (m @ [d]) (d # rest)" using assms(1,2) by (cases m) auto
  then show ?case by (subst bytes_ReplaceAll.simps) simp
next
  case (Cons c l)
  have "\<not> prefix (m @ [d]) ((c # l) @ d # rest)"
  proof
    assume "prefix (m @ [d]) ((c # l) @ d # rest)"
    from prefix_line [OF this assms(1) Cons.prems(1)] have "c # l = m" .
    with Cons.prems(2) show False by auto
  qed
  then show ?case using Cons by (subst bytes_ReplaceAll.simps) simp
qed

text \<open>
  Blank lines survive: for a file whose lines all end in a newline and do not contain the marker,
  decoding what was encoded gives the file back, with the blank lines (also those of white space only) empty.
\<close>

theorem blank_lines_roundtrip:
  assumes "\<forall>l \<in> set ls. CHR 0x0A \<notin> set l \<and> \<not> strings_Contains l blankLineMarker"
  shows "decodeBlankLines (encodeBlankLines (unlines ls)) = unlines (map (\<lambda>l. if strings_TrimSpace l = [] then [] else l) ls)"
proof -
  let ?f = "\<lambda>l. if strings_TrimSpace l = [] then blankLineMarker else l"
  have "strings_Split (unlines ls) CHR 0x0A = ls @ [[]]"
    unfolding unlines_def by (rule Split_terminated) (use assms in blast)
  then have "encodeBlankLines (unlines ls) = unlines (map ?f ls)"
    by (simp add: encodeBlankLines_def Join_terminated)
  moreover have "decodeBlankLines (unlines (map ?f ls)) = unlines (map (\<lambda>l. if strings_TrimSpace l = [] then [] else l) ls)"
    using assms
  proof (induction ls)
    case (Cons l ls)
    have m: "CHR 0x0A \<notin> set blankLineMarker" "blankLineMarker \<noteq> []" "blankLineMarker @ [CHR 0x0A] \<noteq> []" by code_simp+
    show ?case
    proof (cases "strings_TrimSpace l = []")
      case True
      with Cons ReplaceAll_hit [OF m(3)] show ?thesis by (simp add: unlines_def decodeBlankLines_def)
    next
      case False
      with Cons ReplaceAll_miss [OF m(1,2), of l] show ?thesis by (simp add: unlines_def decodeBlankLines_def)
    qed
  qed (simp add: unlines_def decodeBlankLines_def)
  ultimately show ?thesis by simp
qed

theorem blank_lines_roundtrip_witness:
  "decodeBlankLines (encodeBlankLines (unlines [''a'', ''  '', ''b''])) = unlines [''a'', [], ''b'']"
proof -
  have "strings_TrimSpace ''  '' = []" "strings_TrimSpace ''a'' \<noteq> []" "strings_TrimSpace ''b'' \<noteq> []"
    "\<forall>l \<in> set [''a'', ''  '', ''b'']. CHR 0x0A \<notin> set l \<and> \<not> strings_Contains l blankLineMarker" by code_simp+
  then show ?thesis using blank_lines_roundtrip [of "[''a'', ''  '', ''b'']"] by simp
qed

text \<open>The lines that a header consists of, and that the prefix is all of them.\<close>

definition header_line :: "string \<Rightarrow> bool" where
  "header_line l = (let t = strings_TrimSpace l in t = [] \<or> t ! 0 = CHR ''#'' \<or> t ! 0 = CHR ''%'')"

lemma comment_prefix_cut:
  assumes "bytesCutNewline data = (line, rest, found)"
  shows "comment_prefix data =
    (if \<not> header_line line then 0 else if \<not> found then length data else Suc (length line) + comment_prefix rest)"
  using assms bytesCutNewline_found [of data line rest]
  by (subst comment_prefix.simps) (auto simp: header_line_def Let_def)

lemma comment_prefix_header:
  "list_all header_line (strings_Split (take (comment_prefix data) data) CHR 0x0A) \<and>
   (comment_prefix data < length data \<longrightarrow> \<not> header_line (fst (bytesCutNewline (drop (comment_prefix data) data))))"
proof (induction data rule: measure_induct_rule [where f = length])
  case (less data)
  obtain line rest found where cut: "bytesCutNewline data = (line, rest, found)" using prod_cases3 by blast
  note n = comment_prefix_cut [OF cut]
  show ?case
  proof (cases "header_line line")
    case False
    moreover have "header_line []" by code_simp
    ultimately show ?thesis using n cut by simp
  next
    case h: True
    show ?thesis
    proof (cases found)
      case False
      then have "data = line" "CHR 0x0A \<notin> set data"
        using cut by (auto simp: bytesCutNewline_def strings_Cut_def split: if_splits)
      then show ?thesis using h n False by (simp add: strings_Split_no_sep)
    next
      case True
      then have d: "data = line @ CHR 0x0A # rest" "CHR 0x0A \<notin> set line" using bytesCutNewline_found cut by auto
      have n': "comment_prefix data = Suc (length line) + comment_prefix rest" using n h True by simp
      have "take (comment_prefix data) data = line @ CHR 0x0A # take (comment_prefix rest) rest"
        "drop (comment_prefix data) data = drop (comment_prefix rest) rest" unfolding n' by (simp_all add: d(1))
      moreover have "length rest < length data" using d by simp
      ultimately show ?thesis using less [of rest] h d n' by (simp add: strings_Split_append)
    qed
  qed
qed

text \<open>
  An update of a kustomization keeps its header: what is written starts with all the leading blank,
  comment and directive lines of the file, byte for byte, and a document-start marker after them stays.
\<close>

theorem kustomization_header_kept:
  assumes "update_text ky overrides yRaw = Inr (Some out)"
  shows "\<exists>header body rest. yRaw = header @ rest \<and> out = header @ body \<and>
           list_all header_line (strings_Split header CHR 0x0A) \<and>
           (rest \<noteq> [] \<longrightarrow> \<not> header_line (fst (bytesCutNewline rest))) \<and>
           (hasDocumentStartAt rest 0 \<longrightarrow> prefix ''---'' body)"
proof -
  let ?n = "leadingCommentPrefixLen yRaw"
  have "\<exists>b. out = take ?n yRaw @ (if hasDocumentStartAt yRaw ?n \<and> \<not> prefix ''---'' b then ''---'' @ [CHR 0x0A] else []) @ b"
    using assms unfolding update_text_def Let_def by (simp split: sum.splits if_split_asm) blast+
  then obtain b where b: "out = take ?n yRaw @ (if hasDocumentStartAt yRaw ?n \<and> \<not> prefix ''---'' b then ''---'' @ [CHR 0x0A] else []) @ b" ..
  note h = comment_prefix_header [of yRaw, folded leadingCommentPrefixLen_def]
  have same: "hasDocumentStartAt (drop ?n yRaw) 0 = hasDocumentStartAt yRaw ?n" by (simp add: hasDocumentStartAt_def)
  show ?thesis
  proof (intro exI conjI)
    show "yRaw = take ?n yRaw @ drop ?n yRaw" by simp
    show "out = take ?n yRaw @ ((if hasDocumentStartAt yRaw ?n \<and> \<not> prefix ''---'' b then ''---'' @ [CHR 0x0A] else []) @ b)" by (rule b)
    show "list_all header_line (strings_Split (take ?n yRaw) CHR 0x0A)" using h by blast
    show "drop ?n yRaw \<noteq> [] \<longrightarrow> \<not> header_line (fst (bytesCutNewline (drop ?n yRaw)))" using h by simp
    show "hasDocumentStartAt (drop ?n yRaw) 0 \<longrightarrow>
        prefix ''---'' ((if hasDocumentStartAt yRaw ?n \<and> \<not> prefix ''---'' b then ''---'' @ [CHR 0x0A] else []) @ b)"
      unfolding same by auto
  qed
qed

definition sample_kyaml :: kyaml_lib where
  "sample_kyaml = \<lparr>ky_Element = (\<lambda>i. None), ky_Documents = (\<lambda>s. Inr [s]),
     ky_SetImages = (\<lambda>s imgs. Inr (''images: '' @ concat (map ki_Name imgs))), ky_Print = Inr\<rparr>"

theorem kustomization_header_kept_witness:
  "\<exists>header body rest. unlines [''# head'', ''---'', ''images: []''] = header @ rest \<and>
     unlines [''# head'', ''---''] @ ''images: nginx'' = header @ body \<and>
     list_all header_line (strings_Split header CHR 0x0A) \<and> (rest \<noteq> [] \<longrightarrow> \<not> header_line (fst (bytesCutNewline rest))) \<and>
     (hasDocumentStartAt rest 0 \<longrightarrow> prefix ''---'' body)"
proof -
  have "update_text sample_kyaml [\<lparr>ki_Name = ''nginx'', ki_NewName = [], ki_NewTag = ''1.1'', ki_Digest = []\<rparr>]
      (unlines [''# head'', ''---'', ''images: []'']) = Inr (Some (unlines [''# head'', ''---''] @ ''images: nginx''))"
    by code_simp
  then show ?thesis by (rule kustomization_header_kept)
qed

end
