(* ===== verification/Scm.thy ===== *)
theory Scm
  imports GitClient Applications
begin

text \<open>
  The services of a source code host (\<open>pkg/argocd/pr_github.go\<close>, \<open>pkg/argocd/mr_gitlab.go\<close>,
  \<open>pkg/argocd/commit_github.go\<close>): which API and project a repository URL stands for, creating and finding
  pull and merge requests, and commits through GitHub's API.  The REST and GraphQL clients are parameters.
\<close>

section \<open>The clients\<close>

text \<open>An error of the GitHub client: an HTTP response with its message and detail messages, or another one.\<close>

datatype gh_error =
    ErrorResponse "nat option" string "string list"
  | OtherGhError string

definition gh_to_error :: "gh_error \<Rightarrow> git_error" where
  "gh_to_error e = (case e of ErrorResponse s m es \<Rightarrow> OsError m | OtherGhError m \<Rightarrow> OsError m)"

record rest_client =
  rest_Token :: string
  rest_BaseURL :: string

record file_changes =
  fc_Additions :: "(string \<times> string) list"
  fc_Deletions :: "string list"

record commitOnBranchInput =
  ci_RepositoryNameWithOwner :: string
  ci_BranchName :: string
  ci_ExpectedHeadOID :: string
  ci_Headline :: string
  ci_Body :: string
  ci_FileChanges :: file_changes

text \<open>The answer of the GraphQL endpoint: no answer, or a status with a decoded body (commit, errors) or none.\<close>

datatype graphql_answer = NoAnswer string | Answer nat "(string \<times> string list) option"

record 'w scm_lib =
  gh_PRCreate :: "rest_client \<Rightarrow> string \<Rightarrow> string \<Rightarrow> PullRequest \<Rightarrow> 'w \<Rightarrow> (gh_error + nat) \<times> 'w"
  gh_AddLabels :: "rest_client \<Rightarrow> string \<Rightarrow> string \<Rightarrow> nat \<Rightarrow> string list \<Rightarrow> 'w \<Rightarrow> 'w"
  gh_PRList :: "rest_client \<Rightarrow> string \<Rightarrow> string \<Rightarrow> string \<Rightarrow> string \<Rightarrow> ('w, nat) io"
  gh_CreateRef :: "rest_client \<Rightarrow> string \<Rightarrow> string \<Rightarrow> string \<Rightarrow> string \<Rightarrow> 'w \<Rightarrow> gh_error option \<times> 'w"
  gh_EnterpriseURLs :: "string \<Rightarrow> string \<Rightarrow> git_error option"
  gh_GraphQL :: "string \<Rightarrow> string \<Rightarrow> commitOnBranchInput \<Rightarrow> 'w \<Rightarrow> graphql_answer \<times> 'w"
  lab_NewClient :: "string \<Rightarrow> string \<Rightarrow> git_error option"
  lab_MRCreate :: "rest_client \<Rightarrow> string \<Rightarrow> PullRequest \<Rightarrow> 'w \<Rightarrow> (nat option \<times> string + nat) \<times> 'w"
  lab_MRList :: "rest_client \<Rightarrow> string \<Rightarrow> string \<Rightarrow> string \<Rightarrow> ('w, nat) io"

section \<open>Projects of a repository URL\<close>

text \<open>The path part that both hosts look at.\<close>

definition repo_path :: "'w os_lib \<Rightarrow> string \<Rightarrow> git_error + string" where
  "repo_path lib repoURL =
     (let from_url = (case url_Parse lib repoURL of
                        None \<Rightarrow> Inl (Message ''invalid repo URL'')
                      | Some u \<Rightarrow> Inr (strings_TrimPrefix (u_Path u) ''/''))
      in map_sum (\<lambda>e. e) (\<lambda>p. strings_TrimSuffix p ''.git'')
           (if fst (IsSSHURL repoURL) then
              (if \<not> strings_HasPrefix repoURL ''ssh://'' then
                 (case strings_Cut repoURL CHR '':'' of (before, after, ok) \<Rightarrow>
                    if \<not> ok then Inl (Message ''malformed SSH repo URL: missing colon separator'') else Inr after)
               else from_url)
            else from_url))"

definition parseGitHubOwnerRepo :: "'w os_lib \<Rightarrow> string \<Rightarrow> git_error + string \<times> string" where
  "parseGitHubOwnerRepo lib repoURL =
     (case repo_path lib repoURL of
        Inl err \<Rightarrow> Inl err
      | Inr pathStr \<Rightarrow>
          (let parts = strings_SplitN pathStr CHR ''/'' 3
           in if length parts < 2 \<or> parts ! 0 = [] \<or> parts ! 1 = [] then Inl (Message ''repo URL does not contain an owner/repo path'')
              else Inr (parts ! 0, parts ! 1)))"

definition parseGitLabProject :: "'w os_lib \<Rightarrow> string \<Rightarrow> git_error + string" where
  "parseGitLabProject lib repoURL =
     (case repo_path lib repoURL of
        Inl err \<Rightarrow> Inl err
      | Inr pathStr \<Rightarrow>
          (let parts = strings_SplitN pathStr CHR ''/'' 2
           in if length parts < 2 \<or> parts ! 0 = [] \<or> parts ! 1 = [] then Inl (Message ''repo URL does not contain a namespace/project path'')
              else Inr pathStr))"

section \<open>GitHub\<close>

definition unprocessableEntity :: "gh_error \<Rightarrow> (string \<times> string list) option" where
  "unprocessableEntity err =
     (case err of
        ErrorResponse (Some status) msg es \<Rightarrow> if status = 422 then Some (msg, es) else None
      | _ \<Rightarrow> None)"

definition isAlreadyExistsError :: "gh_error \<Rightarrow> bool" where
  "isAlreadyExistsError err =
     (case unprocessableEntity err of
        None \<Rightarrow> False | Some (msg, es) \<Rightarrow> list_ex (\<lambda>e. strings_Contains e ''A pull request already exists'') es)"

definition isRefAlreadyExistsError :: "gh_error \<Rightarrow> bool" where
  "isRefAlreadyExistsError err =
     (case unprocessableEntity err of None \<Rightarrow> False | Some (msg, es) \<Rightarrow> strings_Contains msg ''Reference already exists'')"

definition newGithubRESTClient :: "'w os_lib \<Rightarrow> 'w scm_lib \<Rightarrow> string \<Rightarrow> string \<Rightarrow> git_error + rest_client" where
  "newGithubRESTClient lib scm token apiBaseURL =
     (if apiBaseURL = [] then Inr \<lparr>rest_Token = token, rest_BaseURL = []\<rparr>
      else
        (case url_Parse lib apiBaseURL of
           None \<Rightarrow> Inl (Message ''invalid GitHub API base URL'')
         | Some u \<Rightarrow>
             if u_Scheme u = [] \<or> u_Host u = [] then Inl (Message ''invalid GitHub API base URL'')
             else
               (case gh_EnterpriseURLs scm apiBaseURL (u_Scheme u @ ''://'' @ u_Host u) of
                  Some err \<Rightarrow> Inl (Wrapped ''could not create GitHub enterprise client'' err)
                | None \<Rightarrow> Inr \<lparr>rest_Token = token, rest_BaseURL = apiBaseURL\<rparr>)))"

record GithubPRService =
  gp_client :: rest_client
  gp_owner :: string
  gp_repo :: string
  gp_pr :: "PullRequest option"

definition gh_api_base :: "'w os_lib \<Rightarrow> string \<Rightarrow> Creds \<Rightarrow> git_error + string" where
  "gh_api_base lib repo creds =
     (case creds of
        GitHubApp g \<Rightarrow> Inr (ga_baseURL g)
      | _ \<Rightarrow>
          (case url_Parse lib repo of
             None \<Rightarrow> Inl (Message ''could not parse repo URL'')
           | Some u \<Rightarrow> Inr (if u_Host u \<noteq> ''github.com'' then u_Scheme u @ ''://'' @ u_Host u @ ''/api/v3'' else [])))"

text \<open>The token of credentials that can talk to an API; for other credentials there is no service.\<close>

definition scm_token :: "'w os_lib \<Rightarrow> Creds \<Rightarrow> ('w, string) io" where
  "scm_token lib creds =
     (case SCMToken lib creds of
        None \<Rightarrow> io_fail (Message ''credentials do not support PR creation'')
      | Some m \<Rightarrow>
          io_bind (io_wrap ''could not obtain SCM token'' m)
            (\<lambda>token. if token = [] then io_fail (Message ''empty SCM token'') else io_return token))"

definition NewGithubPRService ::
  "'w os_lib \<Rightarrow> 'w scm_lib \<Rightarrow> WriteBackConfig \<Rightarrow> Creds \<Rightarrow> ('w, GithubPRService) io" where
  "NewGithubPRService lib scm wbc creds =
     io_bind (scm_token lib creds)
       (\<lambda>token. io_lift
          (case gh_api_base lib (wb_GitRepo wbc) creds of
             Inl err \<Rightarrow> Inl err
           | Inr apiBaseURL \<Rightarrow>
               (case newGithubRESTClient lib scm token apiBaseURL of
                  Inl err \<Rightarrow> Inl err
                | Inr client \<Rightarrow>
                    (case parseGitHubOwnerRepo lib (wb_GitRepo wbc) of
                       Inl err \<Rightarrow> Inl (Wrapped ''could not parse owner/repo'' err)
                     | Inr (owner, repoName) \<Rightarrow>
                         Inr \<lparr>gp_client = client, gp_owner = owner, gp_repo = repoName, gp_pr = wb_PullRequest wbc\<rparr>))))"

text \<open>The outcome of a creation: the request is there already, or an error, or done.\<close>

datatype create_result = Created | AlreadyExists | CreateFailed git_error

definition gh_create :: "'w scm_lib \<Rightarrow> GithubPRService \<Rightarrow> 'w \<Rightarrow> create_result \<times> 'w" where
  "gh_create scm g w =
     (case gp_pr g of
        None \<Rightarrow> (CreateFailed (Message ''cannot create PR: pull request metadata is nil''), w)
      | Some pr \<Rightarrow>
          (case gh_PRCreate scm (gp_client g) (gp_owner g) (gp_repo g) pr w of
             (Inl err, w) \<Rightarrow>
               if isAlreadyExistsError err then (AlreadyExists, w)
               else (CreateFailed (Wrapped ''could not create PR'' (gh_to_error err)), w)
           | (Inr number, w) \<Rightarrow>
               (Created,
                if length (pull_labels pr) > 0 then gh_AddLabels scm (gp_client g) (gp_owner g) (gp_repo g) number (pull_labels pr) w
                else w)))"

definition gh_exists :: "'w scm_lib \<Rightarrow> GithubPRService \<Rightarrow> string \<Rightarrow> string \<Rightarrow> ('w, bool) io" where
  "gh_exists scm g checkOutBranch pushBranch =
     io_bind (io_wrap ''could not list PRs''
                (gh_PRList scm (gp_client g) (gp_owner g) (gp_repo g) (gp_owner g @ '':'' @ pushBranch) checkOutBranch))
       (\<lambda>n. io_return (n > 0))"

section \<open>GitLab\<close>

record GitLabMRService =
  gm_client :: rest_client
  gm_projectID :: string
  gm_pr :: "PullRequest option"

definition lab_api_base :: "'w os_lib \<Rightarrow> string \<Rightarrow> Creds \<Rightarrow> git_error + string" where
  "lab_api_base lib repo creds =
     (case creds of
        GitHubApp g \<Rightarrow> Inr (ga_baseURL g)
      | _ \<Rightarrow>
          if \<not> fst (IsSSHURL repo) \<or> strings_HasPrefix repo ''ssh://'' then
            (case url_Parse lib repo of
               None \<Rightarrow> Inl (Message ''could not parse repo URL'')
             | Some u \<Rightarrow>
                 Inr (if u_Host u \<noteq> ''gitlab.com''
                      then (if u_Scheme u \<noteq> ''http'' \<and> u_Scheme u \<noteq> ''https'' then ''https'' else u_Scheme u) @ ''://'' @ u_Host u
                      else []))
          else Inr [])"

definition NewGitLabMRService ::
  "'w os_lib \<Rightarrow> 'w scm_lib \<Rightarrow> WriteBackConfig \<Rightarrow> Creds \<Rightarrow> ('w, GitLabMRService) io" where
  "NewGitLabMRService lib scm wbc creds =
     io_bind (scm_token lib creds)
       (\<lambda>token. io_lift
          (case lab_api_base lib (wb_GitRepo wbc) creds of
             Inl err \<Rightarrow> Inl err
           | Inr apiBaseURL \<Rightarrow>
               (case lab_NewClient scm token apiBaseURL of
                  Some err \<Rightarrow> Inl (Wrapped ''could not create GitLab client'' err)
                | None \<Rightarrow>
                    (case parseGitLabProject lib (wb_GitRepo wbc) of
                       Inl err \<Rightarrow> Inl (Wrapped ''could not parse project path'' err)
                     | Inr projectPath \<Rightarrow>
                         Inr \<lparr>gm_client = \<lparr>rest_Token = token, rest_BaseURL = apiBaseURL\<rparr>, gm_projectID = projectPath,
                              gm_pr = wb_PullRequest wbc\<rparr>))))"

definition lab_create :: "'w scm_lib \<Rightarrow> GitLabMRService \<Rightarrow> 'w \<Rightarrow> create_result \<times> 'w" where
  "lab_create scm g w =
     (case gm_pr g of
        None \<Rightarrow> (CreateFailed (Message ''cannot create MR: merge request metadata is nil''), w)
      | Some pr \<Rightarrow>
          (case lab_MRCreate scm (gm_client g) (gm_projectID g) pr w of
             (Inl (status, err), w) \<Rightarrow>
               if status = Some 409 then (AlreadyExists, w)
               else (CreateFailed (Wrapped ''could not create MR'' (OsError err)), w)
           | (Inr iid, w) \<Rightarrow> (Created, w)))"

definition lab_exists :: "'w scm_lib \<Rightarrow> GitLabMRService \<Rightarrow> string \<Rightarrow> string \<Rightarrow> ('w, bool) io" where
  "lab_exists scm g checkOutBranch pushBranch =
     io_bind (io_wrap ''could not list MRs'' (lab_MRList scm (gm_client g) (gm_projectID g) pushBranch checkOutBranch))
       (\<lambda>n. io_return (n > 0))"

section \<open>Commits through GitHub's API\<close>

definition graphQLEndpoint :: "string \<Rightarrow> string" where
  "graphQLEndpoint apiBaseURL =
     (if apiBaseURL = [] then ''https://api.github.com/graphql''
      else strings_TrimSuffix (strings_TrimSuffix apiBaseURL ''/'') ''/v3'' @ ''/graphql'')"

definition splitCommitMessage :: "string \<Rightarrow> string \<times> string" where
  "splitCommitMessage message =
     (let message = strings_TrimSpace message
      in if message = [] then (''Update container image versions'', [])
         else
           (let parts = strings_SplitN message CHR 0x0A 2
            in (strings_TrimSpace (parts ! 0), if length parts = 2 then strings_TrimSpace (parts ! 1) else [])))"

definition createCommitOnBranch :: "'w scm_lib \<Rightarrow> string \<Rightarrow> string \<Rightarrow> commitOnBranchInput \<Rightarrow> ('w, string) io" where
  "createCommitOnBranch scm endpoint token input w =
     (case gh_GraphQL scm endpoint token input w of
        (NoAnswer err, w) \<Rightarrow> (Inl (Wrapped ''createCommitOnBranch request failed'' (OsError err)), w)
      | (Answer status body, w) \<Rightarrow>
          (if status \<noteq> 200 then (Inl (Message ''createCommitOnBranch returned an HTTP error''), w)
           else
             (case body of
                None \<Rightarrow> (Inl (Message ''could not parse createCommitOnBranch response''), w)
              | Some (oid, es) \<Rightarrow>
                  if length es > 0 then (Inl (Wrapped ''createCommitOnBranch failed'' (OsError (strings_Join es ''; ''))), w)
                  else if oid = [] then (Inl (Message ''createCommitOnBranch returned no commit OID''), w)
                  else (Inr oid, w))))"

text \<open>The changed files, with the contents that the working tree has.\<close>

fun read_changes :: "'w os_lib \<Rightarrow> string \<Rightarrow> WorkingTreeChange list \<Rightarrow> file_changes \<Rightarrow> ('w, file_changes) io" where
  "read_changes lib root [] fc = io_return fc"
| "read_changes lib root (c # cs) fc =
     (if wt_Deleted c then read_changes lib root cs (fc\<lparr>fc_Deletions := fc_Deletions fc @ [wt_Path c]\<rparr>)
      else
        io_bind (io_wrap ''could not read changed file'' (os_ReadFile lib (filepath_Join [root, wt_Path c])))
          (\<lambda>data. read_changes lib root cs (fc\<lparr>fc_Additions := fc_Additions fc @ [(wt_Path c, base64_Encode data)]\<rparr>)))"

definition create_remote_branch ::
  "'w os_lib \<Rightarrow> 'w scm_lib \<Rightarrow> string \<Rightarrow> string \<Rightarrow> string \<Rightarrow> string \<Rightarrow> string \<Rightarrow> string \<Rightarrow> ('w, unit) io" where
  "create_remote_branch lib scm token apiBaseURL owner repoName pushBranch headOID =
     io_bind (io_lift (newGithubRESTClient lib scm token apiBaseURL))
       (\<lambda>client w. case gh_CreateRef scm client owner repoName (''refs/heads/'' @ pushBranch) headOID w of
                     (None, w) \<Rightarrow> (Inr (), w)
                   | (Some err, w) \<Rightarrow>
                       if \<not> isRefAlreadyExistsError err
                       then (Inl (Wrapped ''could not create remote branch'' (gh_to_error err)), w) else (Inr (), w))"

definition commitChangesGithubAPI ::
  "'w os_lib \<Rightarrow> 'w scm_lib \<Rightarrow> WriteBackConfig \<Rightarrow> 'w Client \<Rightarrow> GitHubAppCreds \<Rightarrow> string \<Rightarrow> bool \<Rightarrow> ('w, unit) io" where
  "commitChangesGithubAPI lib scm wbc gitC app pushBranch branchCreated =
     io_bind (io_wrap ''could not determine changed files'' (cl_WorkingTreeChanges gitC))
       (\<lambda>changes. if length changes = 0 then io_fail (Message ''no file changes in working tree to commit'')
          else
            io_bind (io_wrap ''could not determine HEAD commit SHA'' (cl_CommitSHA gitC))
              (\<lambda>headOID. io_bind (io_wrap ''could not obtain SCM token'' (gh_getAccessToken lib app))
                (\<lambda>token. io_bind (io_wrap ''could not parse owner/repo'' (io_lift (parseGitHubOwnerRepo lib (wb_GitRepo wbc))))
                  (\<lambda>(owner, repoName).
                     io_bind (if branchCreated
                              then create_remote_branch lib scm token (ga_baseURL app) owner repoName pushBranch headOID
                              else io_return ())
                       (\<lambda>_. io_bind (read_changes lib (cl_Root gitC) changes \<lparr>fc_Additions = [], fc_Deletions = []\<rparr>)
                         (\<lambda>fc. case splitCommitMessage (wb_GitCommitMessage wbc) of (headline, body) \<Rightarrow>
                            io_bind (createCommitOnBranch scm (graphQLEndpoint (ga_baseURL app)) token
                                       \<lparr>ci_RepositoryNameWithOwner = owner @ ''/'' @ repoName, ci_BranchName = pushBranch,
                                        ci_ExpectedHeadOID = headOID, ci_Headline = headline, ci_Body = body, ci_FileChanges = fc\<rparr>)
                              (\<lambda>_. io_return ())))))))"

end
