(* ===== verification/Overrides.thy ===== *)
theory Overrides
  imports Applications HelmValues
begin

text \<open>
  The file that a git write-back writes (\<open>pkg/argocd/update.go\<close>, \<open>marshalParamsOverride\<close> and what it
  calls): the parameter override of a Helm, Kustomize or plugin application, merged into the file that is
  there, or the values file of a Helm chart.  Encoding and decoding of YAML (\<open>goyaml.v3\<close>) are parameters.
\<close>

section \<open>YAML\<close>

text \<open>What is encoded: one of the three override structs, or a node tree.\<close>

datatype yaml_doc =
    HelmOverride "HelmParameter list"
  | KustomizeOverride "string list option"
  | PluginOverride "EnvEntry list"
  | NodeTree yheap nat

record yaml_lib =
  yl_Encode :: "yaml_doc \<Rightarrow> nat \<Rightarrow> string option"
  yl_DecodeHelm :: "string \<Rightarrow> HelmParameter list option"
  yl_DecodeKustomize :: "string \<Rightarrow> string list option option"
  yl_DecodePlugin :: "string \<Rightarrow> EnvEntry list option"
  yl_DecodeNode :: "string \<Rightarrow> (yheap \<times> nat) option"
  yl_Classify :: "string \<Rightarrow> scalar_class"

datatype override_error =
    EncodeFailed
  | DecodeFailed
  | NoImageName string
  | NoImageTag string
  | SetFailed string yaml_error
  | UnsupportedApp

definition defaultIndent :: nat where
  "defaultIndent = 2"

definition marshalWithIndent :: "yaml_lib \<Rightarrow> yaml_doc \<Rightarrow> nat \<Rightarrow> string \<Rightarrow> override_error + string" where
  "marshalWithIndent lib doc indent docStartPrefix =
     (case yl_Encode lib doc indent of None \<Rightarrow> Inl EncodeFailed | Some out \<Rightarrow> Inr (docStartPrefix @ out))"

text \<open>The number of leading blank, comment and directive lines.\<close>

fun leading_lines :: "string list \<Rightarrow> nat" where
  "leading_lines [] = 0"
| "leading_lines (l # ls) =
     (let trimmed = strings_TrimSpace l
      in if trimmed = [] \<or> strings_HasPrefix trimmed ''#'' \<or> strings_HasPrefix trimmed ''%''
         then Suc (leading_lines ls) else 0)"

definition leadingDocumentStartPrefix :: "string \<Rightarrow> string" where
  "leadingDocumentStartPrefix raw =
     (let lines = strings_Split raw CHR 0x0A; n = leading_lines lines
      in if n \<ge> length lines then []
         else
           (let marker = lines ! n
            in if marker \<noteq> ''---'' \<and> \<not> strings_HasPrefix marker ''--- '' \<and>
                  \<not> strings_HasPrefix marker (''---'' @ [CHR 0x09])
               then []
               else strings_Join (take (n + 1) lines) [CHR 0x0A] @ [CHR 0x0A]))"

section \<open>Merging overrides\<close>

text \<open>
  \<open>slices.SortFunc\<close> by name; the order of parameters of the same name, which the library leaves open, is
  that of the stable sort.
\<close>

definition helm_name_less :: "HelmParameter \<Rightarrow> HelmParameter \<Rightarrow> bool" where
  "helm_name_less a b = (hp_Name a < hp_Name b)"

definition sortHelmParameters :: "HelmParameter list \<Rightarrow> HelmParameter list" where
  "sortHelmParameters params = go_sort helm_name_less params"

definition upsert_helm :: "HelmParameter \<Rightarrow> HelmParameter list \<Rightarrow> HelmParameter list" where
  "upsert_helm param t =
     (case first_index (\<lambda>tp. hp_Name tp = hp_Name param) t of
        Some idx \<Rightarrow> t[idx := param] | None \<Rightarrow> t @ [param])"

definition mergeHelmOverride :: "HelmParameter list \<Rightarrow> HelmParameter list \<Rightarrow> HelmParameter list" where
  "mergeHelmOverride t new = fold upsert_helm new t"

definition upsert_plugin :: "EnvEntry \<Rightarrow> EnvEntry list \<Rightarrow> EnvEntry list" where
  "upsert_plugin newEntry target =
     (case first_index (\<lambda>e. ee_Name e = ee_Name newEntry) target of
        Some i \<Rightarrow> target[i := newEntry] | None \<Rightarrow> target @ [newEntry])"

definition mergePluginOverride :: "EnvEntry list \<Rightarrow> EnvEntry list \<Rightarrow> EnvEntry list" where
  "mergePluginOverride target new = fold upsert_plugin new target"

definition sameImageNameAndRegistry :: "ContainerImage \<Rightarrow> ContainerImage \<Rightarrow> bool" where
  "sameImageNameAndRegistry img1 img2 =
     (if ImageName img1 \<noteq> ImageName img2 then False
      else if RegistryURL img1 = RegistryURL img2 then True
      else if RegistryURL img1 = [] \<and> RegistryURL img2 = ''docker.io'' then True
      else RegistryURL img2 = [] \<and> RegistryURL img1 = ''docker.io'')"

definition upsert_kustomize :: "ref_parser \<Rightarrow> string \<Rightarrow> string list \<Rightarrow> string list" where
  "upsert_kustomize pn newImage t =
     (let new = NewFromIdentifier pn newImage
      in case first_index (\<lambda>e. sameImageNameAndRegistry new (NewFromIdentifier pn e)) t of
           None \<Rightarrow> t @ [newImage]
         | Some idx \<Rightarrow>
             (let existing = ImageTag (NewFromIdentifier pn (t ! idx))
              in if (case existing of
                       None \<Rightarrow> True
                     | Some e \<Rightarrow> (case ImageTag new of None \<Rightarrow> False | Some n \<Rightarrow> \<not> tag_Equals e n))
                 then t[idx := newImage] else t))"

definition mergeKustomizeOverride :: "ref_parser \<Rightarrow> string list option \<Rightarrow> string list option \<Rightarrow> string list option" where
  "mergeKustomizeOverride pn t new =
     (case new of
        None \<Rightarrow> t
      | Some images \<Rightarrow> Some (fold (upsert_kustomize pn) images (case t of None \<Rightarrow> [] | Some i \<Rightarrow> i)))"

section \<open>Values files\<close>

definition empty_values :: "yheap \<times> nat" where
  "empty_values =
     ([\<lparr>y_Kind = DocumentNode, y_Tag = [], y_Value = [], y_Content = [1], y_Alias = None, y_Line = 0, y_Column = 0\<rparr>,
       \<lparr>y_Kind = MappingNode, y_Tag = ''!!map'', y_Value = [], y_Content = [], y_Alias = None, y_Line = 0, y_Column = 0\<rparr>], 0)"

text \<open>The value to write for the name parameter: short when the file has the short form.\<close>

definition name_value :: "yheap \<times> nat \<Rightarrow> bool \<Rightarrow> HelmParameter list \<Rightarrow> Image \<Rightarrow> string \<Rightarrow> string" where
  "name_value doc emptyData helmParams c helmParamName =
     (case getHelmParam helmParams helmParamName of
        None \<Rightarrow> GetFullNameWithoutTag (im_ContainerImage c)
      | Some p \<Rightarrow>
          if \<not> emptyData \<and> HasRegistryPrefix (hp_Value p) then
            (case getHelmValue (fst doc) (snd doc) helmParamName of
               Inl err \<Rightarrow> hp_Value p
             | Inr originalValue \<Rightarrow>
                 if \<not> HasRegistryPrefix originalValue then ExtractShortForm (hp_Value p) else hp_Value p)
          else hp_Value p)"

fun helm_writes ::
  "yheap \<times> nat \<Rightarrow> bool \<Rightarrow> HelmParameter list \<Rightarrow> Image list \<Rightarrow> helmValueWrite list \<Rightarrow>
   override_error + helmValueWrite list" where
  "helm_writes doc emptyData helmParams [] writes = Inr writes"
| "helm_writes doc emptyData helmParams (c # cs) writes =
     (if ImageAlias (im_ContainerImage c) = [] then helm_writes doc emptyData helmParams cs writes
      else
        (case getHelmParamNames (Some c) of (helmParamName, helmParamVersion) \<Rightarrow>
           if helmParamName = [] then Inl (NoImageName (ImageName (im_ContainerImage c)))
           else if helmParamVersion = [] \<and> im_HelmImageSpec c = [] then
             Inl (NoImageTag (ImageName (im_ContainerImage c)))
           else
             (let tagValue = (case getHelmParam helmParams helmParamVersion of
                                None \<Rightarrow> GetTagWithDigest (im_ContainerImage c) | Some p \<Rightarrow> hp_Value p);
                  version = (if helmParamVersion \<noteq> [] \<and> tagValue \<noteq> []
                             then [\<lparr>hw_kind = ''version'', hw_path = helmParamVersion, hw_value = tagValue\<rparr>] else [])
              in helm_writes doc emptyData helmParams cs
                   (writes @ version @
                    [\<lparr>hw_kind = ''name'', hw_path = helmParamName,
                      hw_value = name_value doc emptyData helmParams c helmParamName\<rparr>]))))"

fun set_writes :: "yheap \<Rightarrow> nat \<Rightarrow> helmValueWrite list \<Rightarrow> (override_error + yheap) go" where
  "set_writes h root [] = Ret (Inr h)"
| "set_writes h root (w # ws) =
     go_bind (setHelmValue h root (hw_path w) (hw_value w))
       (\<lambda>r. case r of Inl err \<Rightarrow> Ret (Inl (SetFailed (hw_kind w) err)) | Inr h \<Rightarrow> set_writes h root ws)"

definition applyHelmValueWrites ::
  "yaml_lib \<Rightarrow> yheap \<times> nat \<Rightarrow> string \<Rightarrow> helmValueWrite list \<Rightarrow> (override_error + string) go" where
  "applyHelmValueWrites lib doc originalData writes =
     (case patchHelmValuesInPlace (yl_Classify lib) (fst doc) (snd doc) originalData writes of
        Some patched \<Rightarrow> Ret (Inr patched)
      | None \<Rightarrow>
          go_bind (set_writes (fst doc) (snd doc) writes)
            (\<lambda>r. case r of
                   Inl err \<Rightarrow> Ret (Inl err)
                 | Inr h \<Rightarrow> Ret (marshalWithIndent lib (NodeTree h (snd doc)) defaultIndent
                                  (leadingDocumentStartPrefix originalData))))"

section \<open>The override of an application\<close>

definition plugin_target_names :: "Image list \<Rightarrow> string list" where
  "plugin_target_names images =
     concat (map (\<lambda>img. if im_PluginEnvSpec img \<noteq> [] then [im_PluginEnvSpec img]
                        else filter (\<lambda>n. n \<noteq> []) [im_PluginEnvName img, im_PluginEnvTag img]) images)"

definition filtered_env :: "EnvEntry option list \<Rightarrow> string list \<Rightarrow> EnvEntry list" where
  "filtered_env env names =
     List.map_filter (\<lambda>e. case e of None \<Rightarrow> None | Some e \<Rightarrow> if ee_Name e \<in> set names then Some e else None) env"

definition managed_param_names :: "Image list \<Rightarrow> string list" where
  "managed_param_names images =
     concat (map (\<lambda>img. case getHelmParamNames (Some img) of (n, t) \<Rightarrow> filter (\<lambda>x. x \<noteq> []) [n, t]) images)"

definition marshal_plugin :: "yaml_lib \<Rightarrow> ApplicationImages \<Rightarrow> ApplicationSource \<Rightarrow> string \<Rightarrow> override_error + string" where
  "marshal_plugin lib ai src originalData =
     (let pre = leadingDocumentStartPrefix originalData
      in case src_Plugin src of
           None \<Rightarrow> Inr []
         | Some p \<Rightarrow>
             (let new = filtered_env (ps_Env p) (plugin_target_names (ai_Images ai));
                  params = (if originalData = [] then new
                            else (case yl_DecodePlugin lib originalData of
                                    None \<Rightarrow> new | Some old \<Rightarrow> mergePluginOverride old new))
              in marshalWithIndent lib (PluginOverride params) defaultIndent pre))"

definition marshal_kustomize ::
  "yaml_lib \<Rightarrow> ref_parser \<Rightarrow> ApplicationSource \<Rightarrow> string \<Rightarrow> override_error + string" where
  "marshal_kustomize lib pn src originalData =
     (case src_Kustomize src of
        None \<Rightarrow> Inr []
      | Some k \<Rightarrow>
          (let new = Some (ks_Images k);
               params = (if originalData = [] then new
                         else (case yl_DecodeKustomize lib originalData of
                                 None \<Rightarrow> new | Some old \<Rightarrow> mergeKustomizeOverride pn old new))
           in marshalWithIndent lib (KustomizeOverride params) defaultIndent (leadingDocumentStartPrefix originalData)))"

definition marshal_helm_params ::
  "yaml_lib \<Rightarrow> ApplicationImages \<Rightarrow> ApplicationSource \<Rightarrow> string \<Rightarrow> override_error + string" where
  "marshal_helm_params lib ai src originalData =
     (case src_Helm src of
        None \<Rightarrow> Inr []
      | Some helm \<Rightarrow>
          (let managed = filter (\<lambda>p. hp_Name p \<in> set (managed_param_names (ai_Images ai))) (hs_Parameters helm);
               params = (if originalData = [] then managed
                         else (case yl_DecodeHelm lib originalData of
                                 None \<Rightarrow> managed | Some old \<Rightarrow> mergeHelmOverride old managed))
           in marshalWithIndent lib (HelmOverride (sortHelmParameters params)) defaultIndent
                (leadingDocumentStartPrefix originalData)))"

definition marshal_helm_values ::
  "yaml_lib \<Rightarrow> ref_parser \<Rightarrow> ApplicationImages \<Rightarrow> ApplicationSource \<Rightarrow> string \<Rightarrow> (override_error + string) go" where
  "marshal_helm_values lib pn ai src originalData =
     go_bind (GetImagesAndAliasesFromApplication pn ai)
       (\<lambda>images.
          let helmParams = (case src_Helm src of None \<Rightarrow> [] | Some h \<Rightarrow> hs_Parameters h);
              emptyData = isOnlyWhitespace originalData
          in case (if emptyData then Some empty_values else yl_DecodeNode lib originalData) of
               None \<Rightarrow> Ret (Inl DecodeFailed)
             | Some doc \<Rightarrow>
                 (case helm_writes doc emptyData helmParams images [] of
                    Inl err \<Rightarrow> Ret (Inl err)
                  | Inr writes \<Rightarrow> applyHelmValueWrites lib doc originalData writes))"

definition marshalParamsOverride ::
  "yaml_lib \<Rightarrow> argo_lib \<Rightarrow> ref_parser \<Rightarrow> ApplicationImages \<Rightarrow> string \<Rightarrow> (override_error + string) go" where
  "marshalParamsOverride lib argo pn ai originalData =
     (let app = ai_Application ai; wbc = ai_WriteBackConfig ai
      in go_bind (getApplicationSource argo app (Some wbc))
           (\<lambda>p. case load_source app p of
                  None \<Rightarrow>
                    (if hasPluginTargets (ai_Images ai) \<or> getApplicationType argo app (Some wbc) \<noteq> ApplicationTypeUnsupported \<and>
                        getApplicationType argo app (Some wbc) \<noteq> ApplicationTypePlugin
                     then Panic else Ret (Inl UnsupportedApp))
                | Some src \<Rightarrow>
                    if hasPluginTargets (ai_Images ai) then Ret (marshal_plugin lib ai src originalData)
                    else
                      (case getApplicationType argo app (Some wbc) of
                         ApplicationTypeKustomize \<Rightarrow> Ret (marshal_kustomize lib pn src originalData)
                       | ApplicationTypeHelm \<Rightarrow>
                           (if \<not> strings_HasPrefix (filepath_Base (wb_Target wbc)) DefaultTargetFilePrefix
                            then marshal_helm_values lib pn ai src originalData
                            else Ret (marshal_helm_params lib ai src originalData))
                       | _ \<Rightarrow> Ret (Inl UnsupportedApp))))"

section \<open>What merging keeps\<close>

text \<open>
  Both list merges replace the first entry with the key of the new one, or append it.  Their contract: the
  last new entry of a key wins, other keys keep their entry, and no key moves or is duplicated.
\<close>

locale keyed_merge =
  fixes key :: "'a \<Rightarrow> 'k" and upsert :: "'a \<Rightarrow> 'a list \<Rightarrow> 'a list"
  assumes upsert_law:
    "upsert x t = (case first_index (\<lambda>y. key y = key x) t of Some i \<Rightarrow> t[i := x] | None \<Rightarrow> t @ [x])"
begin

lemma upsert_simps:
  "upsert x [] = [x]"
  "upsert x (y # t) = (if key y = key x then x # t else y # upsert x t)"
  by (simp_all add: upsert_law split: option.splits)

lemma keys_upsert: "map key (upsert x t) = (if key x \<in> set (map key t) then map key t else map key t @ [key x])"
  by (induction t) (auto simp: upsert_simps)

lemma find_upsert: "find (\<lambda>y. key y = k) (upsert x t) = (if key x = k then Some x else find (\<lambda>y. key y = k) t)"
  by (induction t) (auto simp: upsert_simps)

lemma keys_merge:
  "distinct (map key t) \<Longrightarrow>
   distinct (map key (fold upsert new t)) \<and>
   set (map key (fold upsert new t)) = set (map key t) \<union> set (map key new) \<and>
   take (length t) (map key (fold upsert new t)) = map key t"
proof (induction new arbitrary: t)
  case (Cons x new)
  let ?t = "upsert x t"
  have keys: "map key ?t = map key t \<or> key x \<notin> set (map key t) \<and> map key ?t = map key t @ [key x]"
    "set (map key ?t) = insert (key x) (set (map key t))"
    by (auto simp only: keys_upsert set_append split: if_splits) auto
  then have "distinct (map key ?t)" using Cons.prems by auto
  note IH = Cons.IH [OF this]
  have "length t \<le> length ?t" using keys(1) by (metis le_add1 length_append length_map order_refl)
  then have "take (length t) (map key (fold upsert new ?t)) = take (length t) (take (length ?t) (map key (fold upsert new ?t)))"
    by (simp add: min_def)
  also have "\<dots> = map key t" using IH keys(1) by auto
  finally show ?case using IH keys(2) by simp
qed simp

lemma find_merge:
  "find (\<lambda>y. key y = k) (fold upsert new t) =
     (case find (\<lambda>y. key y = k) (rev new) of Some x \<Rightarrow> Some x | None \<Rightarrow> find (\<lambda>y. key y = k) t)"
proof (induction new arbitrary: t)
  case (Cons x new)
  have "find P (xs @ ys) = (case find P xs of Some x \<Rightarrow> Some x | None \<Rightarrow> find P ys)" for P and xs ys :: "'a list"
    by (induction xs) auto
  then show ?case using Cons by (simp add: find_upsert split: option.splits)
qed simp

end

interpretation helm_merge: keyed_merge hp_Name upsert_helm
  by unfold_locales (simp add: upsert_helm_def)

interpretation plugin_merge: keyed_merge ee_Name upsert_plugin
  by unfold_locales (simp add: upsert_plugin_def)

interpretation helm_order: weak_order helm_name_less
  by unfold_locales (auto simp: helm_name_less_def)

lemma find_key_Some:
  "distinct (map key xs) \<Longrightarrow> find (\<lambda>y. key y = k) xs = Some z \<longleftrightarrow> z \<in> set xs \<and> key z = k"
  by (induction xs) (auto simp: image_iff)

lemma distinct_same_mset: "distinct (map key xs) \<Longrightarrow> mset ys = mset xs \<Longrightarrow> distinct (map key ys)"
  by (metis mset_map mset_eq_imp_distinct_iff)

lemma option_extI: "(\<And>z. a = Some z \<longleftrightarrow> b = Some z) \<Longrightarrow> a = b"
  by (cases a; cases b) auto

lemma find_same_set:
  assumes "distinct (map key xs)" "mset ys = mset xs"
  shows "find (\<lambda>y. key y = k) ys = find (\<lambda>y. key y = k) xs"
proof -
  note d = distinct_same_mset [OF assms] and same = mset_eq_setD [OF assms(2)]
  have "find (\<lambda>y. key y = k) ys = Some z \<longleftrightarrow> find (\<lambda>y. key y = k) xs = Some z" for z
    by (simp add: find_key_Some [OF d] find_key_Some [OF assms(1)] same)
  then show ?thesis by (rule option_extI)
qed

lemma sortHelmParameters_sorted:
  "sorted (map hp_Name (sortHelmParameters ps))" "mset (sortHelmParameters ps) = mset ps"
  using helm_order.sorted_go_sort [of ps]
  by (simp_all add: sortHelmParameters_def helm_name_less_def sorted_map not_less)

lemma getHelmParam_keep:
  "getHelmParam (filter (\<lambda>p. hp_Name p \<in> S) ps) n = (if n \<in> S then getHelmParam ps n else None)"
  by (induction ps) auto

lemma getHelmParam_rev:
  "distinct (map hp_Name ps) \<Longrightarrow> find (\<lambda>p. hp_Name p = n) (rev ps) = getHelmParam ps n"
  unfolding getHelmParam_def by (rule find_same_set) simp_all

text \<open>
  \<open>C16\<close>.  What a parameter override writes.  When the override file is there and decodes to parameters with
  distinct names, the file that is written encodes a sorted list without duplicates in which exactly the
  parameters that belong to a tracked image have the value they have in the application; every other
  parameter of the file keeps its value, and no other parameter of the live application reaches the file.
\<close>

theorem helm_override_managed_only:
  assumes "src_Helm src = Some helm" "distinct (map hp_Name (hs_Parameters helm))"
    and "originalData \<noteq> []" "yl_DecodeHelm lib originalData = Some old" "distinct (map hp_Name old)"
  shows "\<exists>ps. marshal_helm_params lib ai src originalData =
               marshalWithIndent lib (HelmOverride ps) defaultIndent (leadingDocumentStartPrefix originalData) \<and>
             sorted (map hp_Name ps) \<and> distinct (map hp_Name ps) \<and>
             (\<forall>n. getHelmParam ps n =
                (if n \<in> set (managed_param_names (ai_Images ai)) \<and> getHelmParam (hs_Parameters helm) n \<noteq> None
                 then getHelmParam (hs_Parameters helm) n else getHelmParam old n))"
proof -
  let ?managed = "filter (\<lambda>p. hp_Name p \<in> set (managed_param_names (ai_Images ai))) (hs_Parameters helm)"
  let ?ps = "mergeHelmOverride old ?managed"
  have m: "distinct (map hp_Name ?managed)" by (rule distinct_map_filter [OF assms(2)])
  have d: "distinct (map hp_Name ?ps)"
    using helm_merge.keys_merge [OF assms(5)] by (simp add: mergeHelmOverride_def)
  have "getHelmParam (sortHelmParameters ?ps) n = getHelmParam ?ps n" for n
    unfolding getHelmParam_def by (rule find_same_set [OF d]) (simp add: sortHelmParameters_sorted)
  also have "getHelmParam ?ps n = (case getHelmParam ?managed n of Some p \<Rightarrow> Some p | None \<Rightarrow> getHelmParam old n)" for n
    using helm_merge.find_merge [of n ?managed old] unfolding getHelmParam_rev [OF m]
    by (simp add: mergeHelmOverride_def getHelmParam_def split: option.splits)
  finally have "getHelmParam (sortHelmParameters ?ps) n =
      (if n \<in> set (managed_param_names (ai_Images ai)) \<and> getHelmParam (hs_Parameters helm) n \<noteq> None
       then getHelmParam (hs_Parameters helm) n else getHelmParam old n)" for n
    by (simp add: getHelmParam_keep split: option.splits)
  moreover have "distinct (map hp_Name (sortHelmParameters ?ps))"
    using distinct_same_mset [OF d sortHelmParameters_sorted(2)] .
  ultimately show ?thesis
    using assms(1,3,4) sortHelmParameters_sorted(1) [of ?ps]
    by (intro exI [of _ "sortHelmParameters ?ps"]) (simp add: marshal_helm_params_def Let_def)
qed

definition sample_yaml :: yaml_lib where
  "sample_yaml =
     \<lparr>yl_Encode = (\<lambda>doc indent. case doc of
        HelmOverride ps \<Rightarrow> Some (concat (map (\<lambda>p. hp_Name p @ ''='' @ hp_Value p @ '' '') ps)) | _ \<Rightarrow> None),
      yl_DecodeHelm = (\<lambda>s. Some [\<lparr>hp_Name = ''replicas'', hp_Value = ''3'', hp_ForceString = False\<rparr>,
                                 \<lparr>hp_Name = ''image.tag'', hp_Value = ''1.0'', hp_ForceString = True\<rparr>]),
      yl_DecodeKustomize = (\<lambda>s. None), yl_DecodePlugin = (\<lambda>s. None), yl_DecodeNode = (\<lambda>s. None),
      yl_Classify = (\<lambda>s. IsString)\<rparr>"

definition sample_helm_source :: ApplicationSource where
  "sample_helm_source = sample_source\<lparr>src_Helm := Some \<lparr>hs_Parameters =
     [\<lparr>hp_Name = ''image.tag'', hp_Value = ''1.1'', hp_ForceString = True\<rparr>,
      \<lparr>hp_Name = ''debug'', hp_Value = ''on'', hp_ForceString = False\<rparr>]\<rparr>\<rparr>"

theorem helm_override_managed_only_witness:
  "\<exists>ps. marshal_helm_params sample_yaml sample_two_aliases sample_helm_source ''x'' = marshalWithIndent sample_yaml
          (HelmOverride ps) defaultIndent [] \<and>
        getHelmParam ps ''debug'' = None \<and>
        getHelmParam ps ''replicas'' = Some \<lparr>hp_Name = ''replicas'', hp_Value = ''3'', hp_ForceString = False\<rparr> \<and>
        getHelmParam ps ''image.tag'' = Some \<lparr>hp_Name = ''image.tag'', hp_Value = ''1.1'', hp_ForceString = True\<rparr>"
proof -
  let ?old = "[\<lparr>hp_Name = ''replicas'', hp_Value = ''3'', hp_ForceString = False\<rparr>,
               \<lparr>hp_Name = ''image.tag'', hp_Value = ''1.0'', hp_ForceString = True\<rparr>]"
  let ?live = "[\<lparr>hp_Name = ''image.tag'', hp_Value = ''1.1'', hp_ForceString = True\<rparr>,
                \<lparr>hp_Name = ''debug'', hp_Value = ''on'', hp_ForceString = False\<rparr>]"
  have hyps: "src_Helm sample_helm_source = Some \<lparr>hs_Parameters = ?live\<rparr>"
    "distinct (map hp_Name (hs_Parameters \<lparr>hs_Parameters = ?live\<rparr>))" "''x'' \<noteq> ([] :: string)"
    "yl_DecodeHelm sample_yaml ''x'' = Some ?old" "distinct (map hp_Name ?old)"
    by (simp_all add: sample_helm_source_def sample_yaml_def)
  have vals: "leadingDocumentStartPrefix ''x'' = []"
    "set (managed_param_names (ai_Images sample_two_aliases)) = {''image.name'', ''image.tag''}"
    by code_simp+
  show ?thesis
    using helm_override_managed_only [OF hyps, of sample_two_aliases] unfolding vals by auto
qed

text \<open>
  For a source-hydrator application whose dry source has no \<open>helm\<close> block the override is empty
  whatever the file holds, and no error is reported: what is written over the override file is the empty
  file.
\<close>

theorem hydrator_empties_override:
  assumes "\<not> HasMultipleSources argo (app_Spec (ai_Application ai))"
    and "sp_DrySource (app_Spec (ai_Application ai)) = Some ds" "src_Helm ds = None"
    and "getApplicationType argo (ai_Application ai) (Some (ai_WriteBackConfig ai)) = ApplicationTypeHelm"
    and "strings_HasPrefix (filepath_Base (wb_Target (ai_WriteBackConfig ai))) DefaultTargetFilePrefix"
    and "\<not> hasPluginTargets (ai_Images ai)"
  shows "marshalParamsOverride lib argo pn ai originalData = Ret (Inr [])"
proof -
  have "getApplicationSource argo (ai_Application ai) (Some (ai_WriteBackConfig ai)) = Ret AtDrySource"
    "load_source (ai_Application ai) AtDrySource = Some ds"
    using assms(1,2) by (simp_all add: getApplicationSource_def)
  then show ?thesis
    using assms(3-6) by (simp add: marshalParamsOverride_def marshal_helm_params_def Let_def)
qed

theorem hydrator_empties_override_witness:
  "marshalParamsOverride sample_yaml sample_argo (\<lambda>_. None)
     (sample_two_aliases\<lparr>ai_Application := sample_app\<lparr>app_Spec :=
        (app_Spec sample_app)\<lparr>sp_Source := None, sp_DrySource := Some sample_source\<rparr>\<rparr>\<rparr>)
     ''helm: parameters'' = Ret (Inr [])"
  by (rule hydrator_empties_override [where ds = sample_source]; code_simp)

end
