(* ===== verification/Annotations.thy ===== *)
theory Annotations
  imports Applications
begin

text \<open>
  The legacy annotations of an application (\<open>pkg/argocd/annotations.go\<close>), read when a rule sets
  \<open>useAnnotations\<close>: the image list, the update settings of the application and of each alias, the
  manifest targets and the write-back configuration.
\<close>

section \<open>Annotation keys\<close>

definition ImageUpdaterAnnotationPrefix :: string where
  "ImageUpdaterAnnotationPrefix = ''argocd-image-updater.argoproj.io''"

definition ImageUpdaterAnnotation :: string where
  "ImageUpdaterAnnotation = ImageUpdaterAnnotationPrefix @ ''/image-list''"

definition WriteBackMethodAnnotation :: string where
  "WriteBackMethodAnnotation = ImageUpdaterAnnotationPrefix @ ''/write-back-method''"

definition GitBranchAnnotation :: string where
  "GitBranchAnnotation = ImageUpdaterAnnotationPrefix @ ''/git-branch''"

definition GitRepositoryAnnotation :: string where
  "GitRepositoryAnnotation = ImageUpdaterAnnotationPrefix @ ''/git-repository''"

definition WriteBackTargetAnnotation :: string where
  "WriteBackTargetAnnotation = ImageUpdaterAnnotationPrefix @ ''/write-back-target''"

text \<open>The key of an image-specific annotation.\<close>

definition alias_key :: "string \<Rightarrow> string \<Rightarrow> string" where
  "alias_key alias setting = ImageUpdaterAnnotationPrefix @ ''/'' @ alias @ setting"

record UpdateStrategyAnnotations =
  ua_AllowTags :: string
  ua_IgnoreTags :: string
  ua_ForceUpdate :: string
  ua_UpdateStrategy :: string
  ua_PullSecret :: string
  ua_Platforms :: string

definition getImageUpdateStrategyAnnotations :: "string \<Rightarrow> UpdateStrategyAnnotations" where
  "getImageUpdateStrategyAnnotations alias =
     (if alias = [] then
        \<lparr>ua_AllowTags = ImageUpdaterAnnotationPrefix @ ''/allow-tags'',
         ua_IgnoreTags = ImageUpdaterAnnotationPrefix @ ''/ignore-tags'',
         ua_ForceUpdate = ImageUpdaterAnnotationPrefix @ ''/force-update'',
         ua_UpdateStrategy = ImageUpdaterAnnotationPrefix @ ''/update-strategy'',
         ua_PullSecret = ImageUpdaterAnnotationPrefix @ ''/pull-secret'',
         ua_Platforms = []\<rparr>
      else
        \<lparr>ua_AllowTags = alias_key alias ''.allow-tags'', ua_IgnoreTags = alias_key alias ''.ignore-tags'',
         ua_ForceUpdate = alias_key alias ''.force-update'',
         ua_UpdateStrategy = alias_key alias ''.update-strategy'',
         ua_PullSecret = alias_key alias ''.pull-secret'', ua_Platforms = alias_key alias ''.platforms''\<rparr>)"

section \<open>Reading settings\<close>

datatype annotation_error =
    NoImageList | EmptyImageList | EmptyImageName
  | BadForceUpdate string
  | BothTargets string
  | CommonSettings string annotation_error
  | ManifestTargets string annotation_error

text \<open>An annotation that is present and not blank, trimmed.\<close>

definition annotation :: "Application \<Rightarrow> string \<Rightarrow> string option" where
  "annotation app key =
     (case map_of (app_Annotations app) key of
        None \<Rightarrow> None
      | Some v \<Rightarrow> (let v = strings_TrimSpace v in if v \<noteq> [] then Some v else None))"

definition getCommonUpdateSettingsFromAnnotations ::
  "Application \<Rightarrow> UpdateStrategyAnnotations \<Rightarrow> annotation_error + CommonUpdateSettings option" where
  "getCommonUpdateSettingsFromAnnotations app ua =
     (let anns = map_of (app_Annotations app);
          force = (case anns (ua_ForceUpdate ua) of
                     None \<Rightarrow> Inr None
                   | Some v \<Rightarrow> (case strconv_ParseBool (strings_TrimSpace v) of
                                 Some b \<Rightarrow> Inr (Some b) | None \<Rightarrow> Inl (BadForceUpdate v)))
      in case force of
           Inl err \<Rightarrow> Inl err
         | Inr forceUpdate \<Rightarrow>
             (let ignoreTags = (case anns (ua_IgnoreTags ua) of
                                  None \<Rightarrow> None
                                | Some v \<Rightarrow> Some (map strings_TrimSpace (strings_Split v CHR '','')));
                  platforms = (if ua_Platforms ua \<noteq> [] then
                                 (case anns (ua_Platforms ua) of
                                    None \<Rightarrow> None
                                  | Some v \<Rightarrow>
                                      (let ps = filter (\<lambda>p. p \<noteq> []) (map strings_TrimSpace (strings_Split v CHR '',''))
                                       in if ps \<noteq> [] then Some ps else None))
                               else None);
                  result = \<lparr>cus_UpdateStrategy = annotation app (ua_UpdateStrategy ua),
                            cus_ForceUpdate = forceUpdate,
                            cus_AllowTags = annotation app (ua_AllowTags ua),
                            cus_IgnoreTags = ignoreTags,
                            cus_PullSecret = annotation app (ua_PullSecret ua),
                            cus_Platforms = platforms\<rparr>;
                  hasAny = (cus_UpdateStrategy result \<noteq> None \<or> forceUpdate \<noteq> None \<or> cus_AllowTags result \<noteq> None
                            \<or> ignoreTags \<noteq> None \<or> cus_PullSecret result \<noteq> None \<or> platforms \<noteq> None)
              in if \<not> hasAny then Inr None else Inr (Some result)))"

definition getManifestTargetsFromAnnotations ::
  "Application \<Rightarrow> string \<Rightarrow> annotation_error + ManifestTarget option" where
  "getManifestTargetsFromAnnotations app alias =
     (let kustomizeName = annotation app (alias_key alias ''.kustomize.image-name'');
          helmName = annotation app (alias_key alias ''.helm.image-name'');
          helmTag = annotation app (alias_key alias ''.helm.image-tag'');
          helmSpec = annotation app (alias_key alias ''.helm.image-spec'');
          kustomize = (if kustomizeName \<noteq> None then Some \<lparr>kt_Name = kustomizeName\<rparr> else None);
          helm = (if helmName \<noteq> None \<or> helmTag \<noteq> None \<or> helmSpec \<noteq> None
                  then Some \<lparr>ht_Name = helmName, ht_Tag = helmTag, ht_Spec = helmSpec\<rparr> else None)
      in if kustomize = None \<and> helm = None then Inr None
         else if helm \<noteq> None \<and> kustomize \<noteq> None then Inl (BothTargets alias)
         else Inr (Some \<lparr>mt_Helm = helm, mt_Kustomize = kustomize, mt_Plugin = None\<rparr>))"

definition getWriteBackConfigFromAnnotations :: "Application \<Rightarrow> WriteBackSpec option" where
  "getWriteBackConfigFromAnnotations app =
     (let method = annotation app WriteBackMethodAnnotation;
          target = annotation app WriteBackTargetAnnotation;
          branch = annotation app GitBranchAnnotation;
          repository = annotation app GitRepositoryAnnotation;
          git = (if target \<noteq> None \<or> branch \<noteq> None \<or> repository \<noteq> None
                 then Some \<lparr>gc_Repository = repository, gc_Branch = branch, gc_WriteBackTarget = target,
                            gc_PullRequest = None\<rparr>
                 else None)
      in if method = None \<and> git = None then None else Some \<lparr>ws_Method = method, ws_GitConfig = git\<rparr>)"

section \<open>The image list\<close>

text \<open>One entry of the list, already trimmed and not blank.\<close>

definition parse_annotation_entry :: "Application \<Rightarrow> string \<Rightarrow> annotation_error + ImageConfig" where
  "parse_annotation_entry app pair =
     (let img = \<lparr>ic_Alias = [], ic_ImageName = pair, ic_CommonUpdateSettings = None, ic_ManifestTarget = None,
                 ic_ImagesVerification = None\<rparr>
      in if strings_Contains pair ''='' then
           (let n = strings_SplitN pair CHR ''='' 2;
                alias = strings_TrimSpace (n ! 0);
                img = img\<lparr>ic_Alias := alias, ic_ImageName := strings_TrimSpace (n ! 1)\<rparr>
            in if ic_ImageName img = [] then Inl EmptyImageName
               else if alias \<noteq> [] then
                 (case getCommonUpdateSettingsFromAnnotations app (getImageUpdateStrategyAnnotations alias) of
                    Inl err \<Rightarrow> Inl (CommonSettings alias err)
                  | Inr settings \<Rightarrow>
                      (case getManifestTargetsFromAnnotations app alias of
                         Inl err \<Rightarrow> Inl (ManifestTargets alias err)
                       | Inr targets \<Rightarrow>
                           Inr (img\<lparr>ic_CommonUpdateSettings := settings, ic_ManifestTarget := targets\<rparr>)))
               else Inr img)
         else Inr img)"

fun annotation_loop :: "Application \<Rightarrow> string list \<Rightarrow> ImageConfig list \<Rightarrow> annotation_error + ImageConfig list" where
  "annotation_loop app [] results = Inr results"
| "annotation_loop app (pair # pairs) results =
     (let pair = strings_TrimSpace pair
      in if pair = [] then annotation_loop app pairs results
         else (case parse_annotation_entry app pair of
                 Inl err \<Rightarrow> Inl err
               | Inr img \<Rightarrow> annotation_loop app pairs (results @ [img])))"

definition getImagesFromAnnotations :: "Application \<Rightarrow> annotation_error + ImageConfig list" where
  "getImagesFromAnnotations app =
     (case map_of (app_Annotations app) ImageUpdaterAnnotation of
        None \<Rightarrow> Inl NoImageList
      | Some v \<Rightarrow>
          (case annotation_loop app (strings_Split v CHR '','') [] of
             Inl err \<Rightarrow> Inl err
           | Inr results \<Rightarrow> if results = [] then Inl EmptyImageList else Inr results))"

section \<open>Reading back an image list\<close>

text \<open>
  A list of alias and image pairs, printed the way the annotation is written.  The alias and the
  image have no white space at their ends and no comma, and the alias no equals sign.
\<close>

definition trimmed :: "string \<Rightarrow> bool" where
  "trimmed s = (s \<noteq> [] \<and> strings_TrimSpace s = s)"

definition plain_pair :: "string \<times> string \<Rightarrow> bool" where
  "plain_pair p =
     (trimmed (fst p) \<and> trimmed (snd p) \<and> trimmed (fst p @ ''='' @ snd p) \<and>
      CHR ''='' \<notin> set (fst p) \<and> CHR '','' \<notin> set (fst p) \<and> CHR '','' \<notin> set (snd p))"

definition print_image_list :: "(string \<times> string) list \<Rightarrow> string" where
  "print_image_list ps = strings_Join (map (\<lambda>p. fst p @ ''='' @ snd p) ps) '',''"

definition alias_annotations_ok :: "Application \<Rightarrow> string \<Rightarrow> bool" where
  "alias_annotations_ok app alias =
     (\<not> isl (getCommonUpdateSettingsFromAnnotations app (getImageUpdateStrategyAnnotations alias)) \<and>
      \<not> isl (getManifestTargetsFromAnnotations app alias))"

lemma parse_annotation_entry_plain:
  assumes "plain_pair (a, i)" "alias_annotations_ok app a"
  shows "\<exists>img. parse_annotation_entry app (a @ ''='' @ i) = Inr img \<and> ic_Alias img = a \<and> ic_ImageName img = i \<and>
    getCommonUpdateSettingsFromAnnotations app (getImageUpdateStrategyAnnotations a) = Inr (ic_CommonUpdateSettings img) \<and>
    getManifestTargetsFromAnnotations app a = Inr (ic_ManifestTarget img)"
proof -
  have "strings_Contains (a @ ''='' @ i) ''=''" by (simp add: strings_Contains_char)
  moreover have "strings_SplitN (a @ ''='' @ i) CHR ''='' 2 = [a, i]"
    using assms(1) strings_SplitN2_found [of "CHR ''=''" a i] by (simp add: plain_pair_def)
  ultimately show ?thesis
    using assms
    by (auto simp: parse_annotation_entry_def plain_pair_def trimmed_def alias_annotations_ok_def Let_def
        split: sum.splits)
qed

lemma annotation_loop_plain:
  assumes "list_all plain_pair ps" "list_all (\<lambda>p. alias_annotations_ok app (fst p)) ps"
  shows "\<exists>imgs. annotation_loop app (map (\<lambda>p. fst p @ ''='' @ snd p) ps) results = Inr (results @ imgs) \<and>
    map (\<lambda>img. (ic_Alias img, ic_ImageName img)) imgs = ps \<and>
    (\<forall>img \<in> set imgs. getCommonUpdateSettingsFromAnnotations app (getImageUpdateStrategyAnnotations (ic_Alias img))
         = Inr (ic_CommonUpdateSettings img) \<and>
       getManifestTargetsFromAnnotations app (ic_Alias img) = Inr (ic_ManifestTarget img))"
  using assms
proof (induction ps arbitrary: results)
  case (Cons p ps)
  obtain a i where p: "p = (a, i)" by (cases p)
  obtain img where img: "parse_annotation_entry app (a @ ''='' @ i) = Inr img" "ic_Alias img = a" "ic_ImageName img = i"
    "getCommonUpdateSettingsFromAnnotations app (getImageUpdateStrategyAnnotations a) = Inr (ic_CommonUpdateSettings img)"
    "getManifestTargetsFromAnnotations app a = Inr (ic_ManifestTarget img)"
    using parse_annotation_entry_plain [of a i app] Cons.prems p by auto
  obtain imgs where imgs: "annotation_loop app (map (\<lambda>p. fst p @ ''='' @ snd p) ps) (results @ [img]) =
      Inr ((results @ [img]) @ imgs)" "map (\<lambda>img. (ic_Alias img, ic_ImageName img)) imgs = ps"
    "\<forall>img \<in> set imgs. getCommonUpdateSettingsFromAnnotations app (getImageUpdateStrategyAnnotations (ic_Alias img))
         = Inr (ic_CommonUpdateSettings img) \<and> getManifestTargetsFromAnnotations app (ic_Alias img) = Inr (ic_ManifestTarget img)"
    using Cons.IH [of "results @ [img]"] Cons.prems by auto
  have "strings_TrimSpace (a @ ''='' @ i) = a @ ''='' @ i" using Cons.prems p by (simp add: plain_pair_def trimmed_def)
  then show ?case
    using img imgs p by (intro exI [of _ "img # imgs"]) auto
qed simp

text \<open>
  The image-list annotation reads back: for a printed list of alias and image pairs, the
  application gets exactly these images in this order, each with the update settings and manifest
  targets that the annotations of its own alias give.
\<close>

theorem image_list_roundtrip:
  assumes "map_of (app_Annotations app) ImageUpdaterAnnotation = Some (print_image_list ps)" "ps \<noteq> []"
    and "list_all plain_pair ps" "list_all (\<lambda>p. alias_annotations_ok app (fst p)) ps"
  shows "\<exists>imgs. getImagesFromAnnotations app = Inr imgs \<and>
    map (\<lambda>img. (ic_Alias img, ic_ImageName img)) imgs = ps \<and>
    (\<forall>img \<in> set imgs. getCommonUpdateSettingsFromAnnotations app (getImageUpdateStrategyAnnotations (ic_Alias img))
         = Inr (ic_CommonUpdateSettings img) \<and>
       getManifestTargetsFromAnnotations app (ic_Alias img) = Inr (ic_ManifestTarget img))"
proof -
  have "strings_Split (print_image_list ps) CHR '','' = map (\<lambda>p. fst p @ ''='' @ snd p) ps"
    unfolding print_image_list_def using assms(2,3)
    by (intro strings_Split_Join) (auto simp: list_all_iff plain_pair_def)
  then show ?thesis
    using annotation_loop_plain [OF assms(3,4), of "[]"] assms(1,2)
    by (auto simp: getImagesFromAnnotations_def)
qed

definition sample_annotated :: Application where
  "sample_annotated = sample_app\<lparr>app_Annotations :=
     [(ImageUpdaterAnnotation, ''web=org/web:1.x,db=org/db''),
      (alias_key ''web'' ''.update-strategy'', '' digest ''),
      (alias_key ''db'' ''.force-update'', ''true'')]\<rparr>"

theorem image_list_roundtrip_witness:
  "\<exists>imgs. getImagesFromAnnotations sample_annotated = Inr imgs \<and>
     map (\<lambda>img. (ic_Alias img, ic_ImageName img)) imgs = [(''web'', ''org/web:1.x''), (''db'', ''org/db'')]"
proof -
  let ?ps = "[(''web'', ''org/web:1.x''), (''db'', ''org/db'')]"
  have hyps: "map_of (app_Annotations sample_annotated) ImageUpdaterAnnotation = Some (print_image_list ?ps)"
    "?ps \<noteq> []" "list_all plain_pair ?ps" "list_all (\<lambda>p. alias_annotations_ok sample_annotated (fst p)) ?ps"
    by (code_simp, code_simp, code_simp, code_simp)
  obtain imgs where "getImagesFromAnnotations sample_annotated = Inr imgs"
    "map (\<lambda>img. (ic_Alias img, ic_ImageName img)) imgs = ?ps"
    using image_list_roundtrip [OF hyps] by (elim exE conjE)
  then show ?thesis by (intro exI conjI)
qed

end
