(* ===== verification/Selection.thy ===== *)
theory Selection
  imports Annotations Glob
begin

text \<open>
  Which applications are updated and with which settings (\<open>pkg/argocd/argocd.go\<close> up to
  \<open>parseImageList\<close>, with the parsers of \<open>update.go\<close> and \<open>gitcreds.go\<close> that it calls): rules are ordered
  by specificity, the first rule that matches an application by name and labels provides its settings,
  and the write-back configuration is resolved against the application.

  Matching of label selectors (\<open>k8s.io/apimachinery\<close>) is a parameter, \<^const>\<open>None\<close> for an invalid
  selector; listing the applications of a namespace is one too.
\<close>

section \<open>Rules\<close>

record LabelSelector =
  ls_MatchLabels :: "(string, string) gomap"
  ls_MatchExpressions :: "(string \<times> string \<times> string list) list"

record ApplicationRef =
  ar_NamePattern :: string
  ar_LabelSelectors :: "LabelSelector option"
  ar_UseAnnotations :: "bool option"
  ar_ImagesVerification :: "ImagesVerification option"
  ar_CommonUpdateSettings :: "CommonUpdateSettings option"
  ar_WriteBackConfig :: "WriteBackSpec option"
  ar_Images :: "ImageConfig list"

record ImageUpdaterSpec =
  is_CommonUpdateSettings :: "CommonUpdateSettings option"
  is_WriteBackConfig :: "WriteBackSpec option"
  is_ApplicationRefs :: "ApplicationRef list"
  is_ImagesVerification :: "ImagesVerification option"

type_synonym label_matcher = "LabelSelector \<Rightarrow> (string, string) gomap \<Rightarrow> bool option"

definition nameMatchesPattern :: "string \<Rightarrow> string \<Rightarrow> bool option" where
  "nameMatchesPattern name pattern = filepath_Match pattern name"

fun nameMatchesPatterns :: "string \<Rightarrow> string list \<Rightarrow> bool" where
  "nameMatchesPatterns name [] = True"
| "nameMatchesPatterns name (p # ps) =
     (nameMatchesPattern name p = Some True \<or> (ps \<noteq> [] \<and> nameMatchesPatterns name ps))"

definition nameMatchesLabels :: "label_matcher \<Rightarrow> (string, string) gomap \<Rightarrow> LabelSelector option \<Rightarrow> bool" where
  "nameMatchesLabels lm appLabels selectors =
     (case selectors of
        None \<Rightarrow> True
      | Some sel \<Rightarrow> (case lm sel appLabels of None \<Rightarrow> False | Some b \<Rightarrow> b))"

section \<open>Specificity\<close>

text \<open>The regular expression \<open>\[.*?]\<close>: a bracket, the shortest run without a newline, a closing bracket.\<close>

lemma dropWhile_Cons_length: "d # rest = dropWhile P s \<Longrightarrow> length rest < length s"
  using length_dropWhile_le [of P s] by (cases "dropWhile P s") auto

function strip_brackets :: "string \<Rightarrow> string" where
  "strip_brackets [] = []"
| "strip_brackets (c # s) =
     (if c = CHR ''['' then
        (case dropWhile (\<lambda>d. d \<noteq> CHR '']'' \<and> d \<noteq> CHR 0x0A) s of
           d # rest \<Rightarrow> if d = CHR '']'' then strip_brackets rest else c # strip_brackets s
         | [] \<Rightarrow> c # strip_brackets s)
      else c # strip_brackets s)"
  by pat_completeness auto
termination
  by (relation "measure length") (auto dest!: dropWhile_Cons_length [OF sym])

definition calculateSpecificity :: "ApplicationRef \<Rightarrow> int" where
  "calculateSpecificity ref =
     (let pattern = ar_NamePattern ref;
          score = (if \<not> strings_ContainsAny pattern ''*?[]'' then 1000000 else 0);
          literals = filter (\<lambda>c. c \<noteq> CHR ''*'' \<and> c \<noteq> CHR ''?'') (strip_brackets pattern);
          score = score + int (length literals)
      in case ar_LabelSelectors ref of
           None \<Rightarrow> score
         | Some sel \<Rightarrow>
             score + 10000 + int (length (ls_MatchLabels sel)) * 100
               + int (length (ls_MatchExpressions sel)) * 100)"

definition more_specific :: "ApplicationRef \<Rightarrow> ApplicationRef \<Rightarrow> bool" where
  "more_specific a b = (calculateSpecificity b < calculateSpecificity a)"

text \<open>\<open>slices.SortStableFunc\<close>, which is the stable sort of the prelude.\<close>

definition sortApplicationRefs :: "ApplicationRef list \<Rightarrow> ApplicationRef list" where
  "sortApplicationRefs refs = go_sort more_specific refs"

section \<open>The write-back configuration\<close>

datatype wbc_error =
    NoSource
  | KustomizationTarget string
  | BadBranch string
  | BadCreds string
  | ColonBranch string
  | ProviderCount nat
  | InvalidMechanism string

definition parseDefaultTarget :: "string \<Rightarrow> string \<Rightarrow> string \<Rightarrow> string \<Rightarrow> string" where
  "parseDefaultTarget appNamespace appName path kubeNamespace =
     (if appNamespace = kubeNamespace \<or> kubeNamespace = ''default'' \<or> appNamespace = []
      then filepath_Join [path, ''.argocd-source-'' @ appName @ ''.yaml'']
      else filepath_Join [path, ''.argocd-source-'' @ appNamespace @ ''_'' @ appName @ ''.yaml''])"

text \<open>
  Both parsers are called on targets that begin with the prefix; a target that is longer than the
  prefix has at least one more byte, so the slice never fails.
\<close>

definition parseKustomizeBase :: "string \<Rightarrow> string \<Rightarrow> string" where
  "parseKustomizeBase target sourcePath =
     (if target = ''kustomization'' then filepath_Join [sourcePath, ''.'']
      else
        (let base = drop (length ''kustomization'' + 1) target
         in if strings_HasPrefix base ''/'' then drop 1 base else filepath_Join [sourcePath, base]))"

definition parseTarget :: "string \<Rightarrow> string \<Rightarrow> string" where
  "parseTarget writeBackTarget sourcePath =
     (if writeBackTarget = ''helmvalues'' then filepath_Join [sourcePath, ''./'', ''values.yaml'']
      else
        (let base = drop (length ''helmvalues'' + 1) writeBackTarget
         in if strings_HasPrefix base ''/'' then drop 1 base else filepath_Join [sourcePath, base]))"

definition getGitCredsSource :: "string \<Rightarrow> string \<Rightarrow> wbc_error + GitCredsSource" where
  "getGitCredsSource creds namespace =
     (if creds = ''repocreds'' then Inr CredsFromArgoCD
      else if strings_HasPrefix creds ''secret:'' then Inr (CredsFromSecret (drop (length ''secret:'') creds) namespace)
      else Inl (BadCreds creds))"

definition parse_branch :: "GitConfig option \<Rightarrow> WriteBackConfig \<Rightarrow> wbc_error + WriteBackConfig" where
  "parse_branch gc wbc =
     (case (case gc of None \<Rightarrow> None | Some g \<Rightarrow> gc_Branch g) of
        None \<Rightarrow> Inr wbc
      | Some branch \<Rightarrow>
          (let branches = strings_Split (strings_TrimSpace branch) CHR '':''
           in if length branches > 2 then Inl (BadBranch branch)
              else
                (let wbc = wbc\<lparr>wb_GitBranch := branches ! 0\<rparr>
                 in Inr (if length branches = 2 then wbc\<lparr>wb_GitWriteBranch := branches ! 1\<rparr> else wbc))))"

definition parseGitConfig ::
  "argo_lib \<Rightarrow> Application \<Rightarrow> WriteBackSpec \<Rightarrow> WriteBackConfig \<Rightarrow> string \<Rightarrow> (wbc_error + WriteBackConfig) go" where
  "parseGitConfig lib app settings wbc creds =
     (case parse_branch (ws_GitConfig settings) wbc of
        Inl err \<Rightarrow> Ret (Inl err)
      | Inr wbc \<Rightarrow>
          go_bind (with_source lib app (Some wbc) src_RepoURL)
            (\<lambda>repo. let repo = (case (case ws_GitConfig settings of None \<Rightarrow> None | Some g \<Rightarrow> gc_Repository g) of
                                  None \<Rightarrow> repo | Some r \<Rightarrow> r);
                        wbc = wbc\<lparr>wb_GitRepo := repo\<rparr>
                    in case getGitCredsSource creds (app_Namespace app) of
                         Inl err \<Rightarrow> Ret (Inl err)
                       | Inr source \<Rightarrow> Ret (Inr (wbc\<lparr>wb_GetCreds := Some source\<rparr>))))"

definition initial_wbc :: WriteBackConfig where
  "initial_wbc =
     \<lparr>wb_Method = WriteBackApplication, wb_GetCreds = None, wb_GitBranch = [], wb_GitWriteBranch = [],
      wb_GitCommitUser = [], wb_GitCommitEmail = [], wb_GitCommitMessage = [], wb_GitCommitSigningKey = [],
      wb_GitCommitSigningMethod = [], wb_GitCommitSignOff = False, wb_GitCommitMethod = [],
      wb_KustomizeBase = [], wb_Target = [], wb_GitRepo = [], wb_PRProvider = PRProviderUnsupported,
      wb_PRLabels = [], wb_PullRequest = None\<rparr>"

text \<open>The method string without the part from its first colon, and the credentials behind it.\<close>

definition split_method :: "string \<Rightarrow> string \<times> string" where
  "split_method method =
     (let i = strings_Index method CHR '':''
      in if i > 0 then (take (nat i) method, drop (nat i + 1) method) else (method, ''repocreds''))"

definition apply_target :: "GitConfig option \<Rightarrow> string \<Rightarrow> WriteBackConfig \<Rightarrow> wbc_error + WriteBackConfig" where
  "apply_target gc sourcePath wbc =
     (case (case gc of None \<Rightarrow> None | Some g \<Rightarrow> gc_WriteBackTarget g) of
        None \<Rightarrow> Inr wbc
      | Some target \<Rightarrow>
          if strings_HasPrefix target ''kustomization'' then
            Inr (wbc\<lparr>wb_KustomizeBase := parseKustomizeBase target sourcePath\<rparr>)
          else if strings_HasPrefix target ''helmvalues'' then
            Inr (wbc\<lparr>wb_Target := parseTarget target sourcePath\<rparr>)
          else
            (let base = filepath_Base target
             in if base = ''kustomization.yaml'' \<or> base = ''kustomization.yml'' \<or> base = ''Kustomization''
                then Inl (KustomizationTarget target)
                else Inr (wbc\<lparr>wb_Target := target\<rparr>)))"

definition apply_pull_request :: "GitConfig option \<Rightarrow> WriteBackConfig \<Rightarrow> wbc_error + WriteBackConfig" where
  "apply_pull_request gc wbc =
     (case gc of
        None \<Rightarrow> Inr wbc
      | Some g \<Rightarrow>
          (case gc_PullRequest g of
             None \<Rightarrow> Inr wbc
           | Some pr \<Rightarrow>
               if (case gc_Branch g of None \<Rightarrow> False | Some b \<Rightarrow> strings_Contains b '':'')
               then Inl (ColonBranch (the (gc_Branch g)))
               else
                 (let n = countPullRequestProviders pr
                  in if n \<noteq> 1 then Inl (ProviderCount n)
                     else
                       (let wbc = (if pr_GitHub pr \<noteq> None then wbc\<lparr>wb_PRProvider := PRProviderGitHub\<rparr> else wbc);
                            wbc = (if pr_GitLab pr \<noteq> None then wbc\<lparr>wb_PRProvider := PRProviderGitLab\<rparr> else wbc)
                        in Inr (wbc\<lparr>wb_PRLabels := sanitizePRLabels (pr_Labels pr)\<rparr>)))))"

definition newWBCFromSettings ::
  "argo_lib \<Rightarrow> Application \<Rightarrow> string \<Rightarrow> WriteBackSpec option \<Rightarrow> (wbc_error + WriteBackConfig) go" where
  "newWBCFromSettings lib app kubeNamespace settings =
     go_bind (getApplicationSource lib app None)
       (\<lambda>p. case load_source app p of
              None \<Rightarrow> Ret (Inl NoSource)
            | Some appSource \<Rightarrow>
                (let wbc = initial_wbc\<lparr>wb_Target := parseDefaultTarget (app_Namespace app) (app_Name app)
                                                    (src_Path appSource) kubeNamespace\<rparr>
                 in case settings of
                      None \<Rightarrow> Ret (Inr wbc)
                    | Some s \<Rightarrow>
                        (case ws_Method s of
                           None \<Rightarrow> Ret (Inr wbc)
                         | Some m \<Rightarrow>
                             if strings_TrimSpace m = ''argocd'' then Ret (Inr wbc)
                             else
                               (case split_method (strings_TrimSpace m) of (method, creds) \<Rightarrow>
                                  if method \<noteq> ''git'' then Ret (Inl (InvalidMechanism m))
                                  else
                                    (case apply_target (ws_GitConfig s) (src_Path appSource) (wbc\<lparr>wb_Method := WriteBackGit\<rparr>) of
                                       Inl err \<Rightarrow> Ret (Inl err)
                                     | Inr wbc \<Rightarrow>
                                         go_bind (parseGitConfig lib app s wbc creds)
                                           (\<lambda>r. case r of
                                                  Inl err \<Rightarrow> Ret (Inl err)
                                                | Inr wbc \<Rightarrow> Ret (apply_pull_request (ws_GitConfig s) wbc)))))))"

section \<open>Filtering applications\<close>

text \<open>The collaborators of the filter.\<close>

record select_env =
  se_argo :: argo_lib
  se_ref :: ref_parser
  se_kube :: kube_client
  se_kubeNamespace :: string
  se_labels :: label_matcher

definition processApplicationForUpdate ::
  "select_env \<Rightarrow> Application \<Rightarrow> ImageConfig list \<Rightarrow> CommonUpdateSettings option \<Rightarrow> ImagesVerification option \<Rightarrow>
   WriteBackConfig \<Rightarrow> string \<Rightarrow> WebhookEvent option \<Rightarrow> (string, ApplicationImages) gomap \<Rightarrow>
   (string, ApplicationImages) gomap" where
  "processApplicationForUpdate env app images settings verification wbc appNSName webhookEvent appsForUpdate =
     (if \<not> IsValidApplicationType (se_argo env) app (Some wbc) then appsForUpdate
      else
        (let imageList = parseImageList (se_ref env) (se_kube env) (app_Namespace app) images settings
                           verification webhookEvent
         in if imageList = [] then appsForUpdate
            else gomap_put appNSName
                   \<lparr>ai_Application = app, ai_WriteBackConfig = wbc, ai_Images = imageList\<rparr> appsForUpdate))"

text \<open>What a rule makes of an application it matches; \<^const>\<open>None\<close> when the code goes on to the next rule.\<close>

record rule_settings =
  rs_Images :: "ImageConfig list"
  rs_CommonUpdateSettings :: "CommonUpdateSettings option"
  rs_ImagesVerification :: "ImagesVerification option"
  rs_WriteBackConfig :: WriteBackConfig

definition resolve_rule ::
  "select_env \<Rightarrow> ImageUpdaterSpec \<Rightarrow> Application \<Rightarrow> ApplicationRef \<Rightarrow> rule_settings option go" where
  "resolve_rule env spec app ref =
     (if ar_UseAnnotations ref = Some True then
        (case getImagesFromAnnotations app of
           Inl err \<Rightarrow> Ret None
         | Inr images \<Rightarrow>
             go_bind (newWBCFromSettings (se_argo env) app (se_kubeNamespace env) (getWriteBackConfigFromAnnotations app))
               (\<lambda>r. case r of
                      Inl err \<Rightarrow> Ret None
                    | Inr wbc \<Rightarrow>
                        (case getCommonUpdateSettingsFromAnnotations app (getImageUpdateStrategyAnnotations []) of
                           Inl err \<Rightarrow> Ret None
                         | Inr settings \<Rightarrow>
                             Ret (Some \<lparr>rs_Images = images, rs_CommonUpdateSettings = settings,
                                        rs_ImagesVerification = ar_ImagesVerification ref,
                                        rs_WriteBackConfig = wbc\<rparr>))))
      else
        go_bind (newWBCFromSettings (se_argo env) app (se_kubeNamespace env)
                   (Some (mergeWBCSettings (is_WriteBackConfig spec) (ar_WriteBackConfig ref))))
          (\<lambda>r. case r of
                 Inl err \<Rightarrow> Ret None
               | Inr wbc \<Rightarrow>
                   Ret (Some \<lparr>rs_Images = ar_Images ref,
                              rs_CommonUpdateSettings =
                                Some (mergeCommonUpdateSettings [is_CommonUpdateSettings spec, ar_CommonUpdateSettings ref]),
                              rs_ImagesVerification =
                                mergeImagesVerification [is_ImagesVerification spec, ar_ImagesVerification ref],
                              rs_WriteBackConfig = wbc\<rparr>)))"

definition rule_matches :: "select_env \<Rightarrow> Application \<Rightarrow> ApplicationRef \<Rightarrow> bool" where
  "rule_matches env app ref =
     (nameMatchesPattern (app_Name app) (ar_NamePattern ref) = Some True \<and>
      nameMatchesLabels (se_labels env) (app_Labels app) (ar_LabelSelectors ref))"

definition appNSName :: "Application \<Rightarrow> string" where
  "appNSName app = app_Namespace app @ ''/'' @ app_Name app"

fun rule_loop ::
  "select_env \<Rightarrow> ImageUpdaterSpec \<Rightarrow> WebhookEvent option \<Rightarrow> Application \<Rightarrow> ApplicationRef list \<Rightarrow>
   (string, ApplicationImages) gomap \<Rightarrow> (string, ApplicationImages) gomap go" where
  "rule_loop env spec ev app [] m = Ret m"
| "rule_loop env spec ev app (ref # refs) m =
     (if rule_matches env app ref then
        go_bind (resolve_rule env spec app ref)
          (\<lambda>r. case r of
                 None \<Rightarrow> rule_loop env spec ev app refs m
               | Some rs \<Rightarrow>
                   Ret (processApplicationForUpdate env app (rs_Images rs) (rs_CommonUpdateSettings rs)
                          (rs_ImagesVerification rs) (rs_WriteBackConfig rs) (appNSName app) ev m))
      else rule_loop env spec ev app refs m)"

fun app_loop ::
  "select_env \<Rightarrow> ImageUpdaterSpec \<Rightarrow> WebhookEvent option \<Rightarrow> ApplicationRef list \<Rightarrow> Application list \<Rightarrow>
   (string, ApplicationImages) gomap \<Rightarrow> (string, ApplicationImages) gomap go" where
  "app_loop env spec ev refs [] m = Ret m"
| "app_loop env spec ev refs (app # apps) m =
     go_bind (rule_loop env spec ev app refs m) (\<lambda>m. app_loop env spec ev refs apps m)"

datatype filter_error = NoApplicationRefs | InvalidPattern string | ListFailed string

fun validate_patterns :: "ApplicationRef list \<Rightarrow> filter_error option" where
  "validate_patterns [] = None"
| "validate_patterns (ref # refs) =
     (case filepath_Match (ar_NamePattern ref) ''validation'' of
        None \<Rightarrow> Some (InvalidPattern (ar_NamePattern ref))
      | Some _ \<Rightarrow> validate_patterns refs)"

definition FilterApplicationsForUpdate ::
  "select_env \<Rightarrow> (string \<Rightarrow> string + Application list) \<Rightarrow> string \<Rightarrow> ImageUpdaterSpec \<Rightarrow> WebhookEvent option \<Rightarrow>
   (filter_error + (string, ApplicationImages) gomap) go" where
  "FilterApplicationsForUpdate env list_apps crNamespace spec ev =
     (if is_ApplicationRefs spec = [] then Ret (Inl NoApplicationRefs)
      else
        (case validate_patterns (is_ApplicationRefs spec) of
           Some err \<Rightarrow> Ret (Inl err)
         | None \<Rightarrow>
             (case list_apps crNamespace of
                Inl err \<Rightarrow> Ret (Inl (ListFailed err))
              | Inr apps \<Rightarrow>
                  if apps = [] then Ret (Inr [])
                  else go_bind (app_loop env spec ev (sortApplicationRefs (is_ApplicationRefs spec)) apps [])
                         (\<lambda>m. Ret (Inr m)))))"

section \<open>The order of the rules\<close>

interpretation specificity: weak_order more_specific
  by unfold_locales (auto simp: more_specific_def)

text \<open>
  Rules are tried from the most to the least specific one, and rules of the same score in the
  order in which the resource lists them; no rule is lost or added.
\<close>

theorem rules_by_specificity:
  "mset (sortApplicationRefs refs) = mset refs \<and>
   sorted_wrt (\<lambda>a b. calculateSpecificity a \<ge> calculateSpecificity b) (sortApplicationRefs refs) \<and>
   (\<forall>k. filter (\<lambda>r. calculateSpecificity r = k) (sortApplicationRefs refs) =
        filter (\<lambda>r. calculateSpecificity r = k) refs)"
proof (intro conjI allI)
  show "mset (sortApplicationRefs refs) = mset refs" by (simp add: sortApplicationRefs_def)
  show "sorted_wrt (\<lambda>a b. calculateSpecificity a \<ge> calculateSpecificity b) (sortApplicationRefs refs)"
    using specificity.sorted_go_sort [of refs]
    by (simp add: sortApplicationRefs_def more_specific_def not_less)
  show "filter (\<lambda>r. calculateSpecificity r = k) (sortApplicationRefs refs) =
      filter (\<lambda>r. calculateSpecificity r = k) refs" for k
    unfolding sortApplicationRefs_def by (rule specificity.go_sort_stable) (simp add: more_specific_def)
qed

section \<open>The best rule decides\<close>

text \<open>The first rule in the list that matches the application and whose settings can be resolved.\<close>

fun best_rule ::
  "select_env \<Rightarrow> ImageUpdaterSpec \<Rightarrow> Application \<Rightarrow> ApplicationRef list \<Rightarrow> rule_settings option go" where
  "best_rule env spec app [] = Ret None"
| "best_rule env spec app (ref # refs) =
     (if rule_matches env app ref then
        go_bind (resolve_rule env spec app ref)
          (\<lambda>r. case r of None \<Rightarrow> best_rule env spec app refs | Some rs \<Rightarrow> Ret (Some rs))
      else best_rule env spec app refs)"

definition selected_images ::
  "select_env \<Rightarrow> Application \<Rightarrow> WebhookEvent option \<Rightarrow> rule_settings \<Rightarrow> ApplicationImages option" where
  "selected_images env app ev rs =
     (let imgs = parseImageList (se_ref env) (se_kube env) (app_Namespace app) (rs_Images rs)
                   (rs_CommonUpdateSettings rs) (rs_ImagesVerification rs) ev
      in if IsValidApplicationType (se_argo env) app (Some (rs_WriteBackConfig rs)) \<and> imgs \<noteq> []
         then Some \<lparr>ai_Application = app, ai_WriteBackConfig = rs_WriteBackConfig rs, ai_Images = imgs\<rparr>
         else None)"

lemma rule_loop_best:
  "rule_loop env spec ev app refs m =
     go_bind (best_rule env spec app refs)
       (\<lambda>r. Ret (case (case r of None \<Rightarrow> None | Some rs \<Rightarrow> selected_images env app ev rs) of
                   None \<Rightarrow> m | Some ai \<Rightarrow> gomap_put (appNSName app) ai m))"
proof (induction refs)
  case (Cons ref refs)
  show ?case
  proof (cases "resolve_rule env spec app ref")
    case (Ret r)
    with Cons show ?thesis
      by (cases r) (auto simp: processApplicationForUpdate_def selected_images_def Let_def)
  qed (use Cons in auto)
qed simp

lemma go_bind_Ret_iff: "go_bind x f = Ret y \<longleftrightarrow> (\<exists>a. x = Ret a \<and> f a = Ret y)"
  by (cases x) auto

text \<open>What the run collects for an application, computed from that application alone.\<close>

definition app_result ::
  "select_env \<Rightarrow> ImageUpdaterSpec \<Rightarrow> WebhookEvent option \<Rightarrow> Application \<Rightarrow> ApplicationImages option go" where
  "app_result env spec ev app =
     go_bind (best_rule env spec app (sortApplicationRefs (is_ApplicationRefs spec)))
       (\<lambda>r. Ret (case r of None \<Rightarrow> None | Some rs \<Rightarrow> selected_images env app ev rs))"

lemma app_loop_lookup:
  assumes "app_loop env spec ev (sortApplicationRefs (is_ApplicationRefs spec)) apps m = Ret m'"
    "distinct (map appNSName apps)"
  shows "(\<forall>app \<in> set apps. \<exists>r. app_result env spec ev app = Ret r \<and>
      map_of m' (appNSName app) = (case r of None \<Rightarrow> map_of m (appNSName app) | Some ai \<Rightarrow> Some ai)) \<and>
    (\<forall>k. k \<notin> appNSName ` set apps \<longrightarrow> map_of m' k = map_of m k)"
  using assms
proof (induction apps arbitrary: m)
  case (Cons app apps)
  obtain b where best: "best_rule env spec app (sortApplicationRefs (is_ApplicationRefs spec)) = Ret b"
    using Cons.prems(1) by (auto simp: rule_loop_best go_bind_Ret_iff)
  define r where "r = (case b of None \<Rightarrow> None | Some rs \<Rightarrow> selected_images env app ev rs)"
  let ?m = "case r of None \<Rightarrow> m | Some ai \<Rightarrow> gomap_put (appNSName app) ai m"
  have res: "app_result env spec ev app = Ret r" using best by (simp add: app_result_def r_def)
  have step: "app_loop env spec ev (sortApplicationRefs (is_ApplicationRefs spec)) apps ?m = Ret m'"
    using Cons.prems(1) best by (simp add: rule_loop_best r_def)
  have m: "map_of ?m k = (if k = appNSName app then (case r of None \<Rightarrow> map_of m k | Some ai \<Rightarrow> Some ai) else map_of m k)" for k
    by (cases r) auto
  have new: "appNSName app \<notin> appNSName ` set apps" and dist: "distinct (map appNSName apps)"
    using Cons.prems(2) by auto
  note IH = Cons.IH [OF step dist]
  have "map_of m' (appNSName app) = map_of ?m (appNSName app)" using IH new by blast
  then have here: "map_of m' (appNSName app) = (case r of None \<Rightarrow> map_of m (appNSName app) | Some ai \<Rightarrow> Some ai)"
    unfolding m by simp
  have other: "map_of ?m (appNSName a) = map_of m (appNSName a)" if "a \<in> set apps" for a
    using that new unfolding m by (metis image_eqI)
  show ?case
  proof (intro conjI ballI allI impI)
    fix a assume "a \<in> set (app # apps)"
    then consider "a = app" | "a \<in> set apps" by auto
    then show "\<exists>r. app_result env spec ev a = Ret r \<and>
        map_of m' (appNSName a) = (case r of None \<Rightarrow> map_of m (appNSName a) | Some ai \<Rightarrow> Some ai)"
    proof cases
      case 1
      then show ?thesis using res here by blast
    next
      case 2
      then show ?thesis using IH other [OF 2] by metis
    qed
  next
    fix k assume "k \<notin> appNSName ` set (app # apps)"
    then show "map_of m' k = map_of m k" using IH m [of k] by simp
  qed
qed simp

text \<open>
  \<open>C14\<close>.  A run over all applications of a namespace decides each application on its own: its entry is
  present exactly when the first rule, in the order of specificity, that matches it and whose settings
  can be resolved yields images for a supported application type, and holds exactly these images, the
  application and the resolved write-back configuration.
\<close>

theorem best_rule_decides:
  assumes "FilterApplicationsForUpdate env list_apps ns spec ev = Ret (Inr m)"
    and "list_apps ns = Inr apps" "distinct (map appNSName apps)" "app \<in> set apps"
  shows "app_result env spec ev app = Ret (map_of m (appNSName app))"
proof -
  have "app_loop env spec ev (sortApplicationRefs (is_ApplicationRefs spec)) apps [] = Ret m"
    using assms(1,2,4)
    by (auto simp: FilterApplicationsForUpdate_def go_bind_Ret_iff split: if_splits option.splits)
  from app_loop_lookup [OF this assms(3)] assms(4) show ?thesis
    by (force split: option.splits)
qed

definition sample_env :: select_env where
  "sample_env =
     \<lparr>se_argo = sample_argo, se_ref = (\<lambda>_. None), se_kube = sample_kube_client, se_kubeNamespace = ''argocd'',
      se_labels = (\<lambda>sel ls. Some (list_all (\<lambda>p. map_of ls (fst p) = Some (snd p)) (ls_MatchLabels sel)))\<rparr>"

definition sample_rule :: "string \<Rightarrow> string \<Rightarrow> ApplicationRef" where
  "sample_rule pattern strategy =
     \<lparr>ar_NamePattern = pattern, ar_LabelSelectors = None, ar_UseAnnotations = None, ar_ImagesVerification = None,
      ar_CommonUpdateSettings = Some (empty_CommonUpdateSettings\<lparr>cus_UpdateStrategy := Some strategy\<rparr>),
      ar_WriteBackConfig = None, ar_Images = [sample_ImageConfig]\<rparr>"

definition sample_spec :: ImageUpdaterSpec where
  "sample_spec =
     \<lparr>is_CommonUpdateSettings = None, is_WriteBackConfig = None,
      is_ApplicationRefs = [sample_rule ''*'' ''alphabetical'', sample_rule ''web'' ''digest''],
      is_ImagesVerification = Some sample_verification\<rparr>"

theorem best_rule_decides_witness:
  "app_result sample_env sample_spec None sample_app =
     Ret (map_of (case FilterApplicationsForUpdate sample_env (\<lambda>_. Inr [sample_app]) ''argocd'' sample_spec None of
                    Ret (Inr m) \<Rightarrow> m | _ \<Rightarrow> []) (appNSName sample_app)) \<and>
   map_option (\<lambda>ai. map im_UpdateStrategy (ai_Images ai))
     (case app_result sample_env sample_spec None sample_app of Ret r \<Rightarrow> r | _ \<Rightarrow> None) = Some [StrategyDigest]"
proof -
  let ?f = "FilterApplicationsForUpdate sample_env (\<lambda>_. Inr [sample_app]) ''argocd'' sample_spec None"
  have "(case ?f of Ret (Inr m) \<Rightarrow> True | _ \<Rightarrow> False)" by code_simp
  then obtain m where m: "?f = Ret (Inr m)" by (auto split: go.splits sum.splits)
  have "app_result sample_env sample_spec None sample_app = Ret (map_of m (appNSName sample_app))"
    by (rule best_rule_decides [OF m, of "[sample_app]"]) simp_all
  moreover have "map_option (\<lambda>ai. map im_UpdateStrategy (ai_Images ai))
     (case app_result sample_env sample_spec None sample_app of Ret r \<Rightarrow> r | _ \<Rightarrow> None) = Some [StrategyDigest]"
    by code_simp
  ultimately show ?thesis using m by simp
qed

text \<open>
  A rule whose pattern has no wildcard selects the application of exactly that name (and
  matching labels), and is tried before every wildcard rule whose pattern and label selector stay below
  the bonus of a million points that an exact name gets.
\<close>

theorem exact_name_first:
  assumes "glob_plain (ar_NamePattern a)" "CHR '']'' \<notin> set (ar_NamePattern a)"
    and "strings_ContainsAny (ar_NamePattern b) ''*?[]''"
    and "calculateSpecificity b < 1000000"
  shows "(rule_matches env app a \<longleftrightarrow>
      app_Name app = ar_NamePattern a \<and> nameMatchesLabels (se_labels env) (app_Labels app) (ar_LabelSelectors a)) \<and>
    more_specific a b"
proof -
  have "\<not> strings_ContainsAny (ar_NamePattern a) ''*?[]''"
    using assms(1,2) by (auto simp: strings_ContainsAny_def glob_plain_def)
  then have "1000000 \<le> calculateSpecificity a"
    by (auto simp: calculateSpecificity_def Let_def split: option.split)
  then show ?thesis
    using assms by (simp add: rule_matches_def nameMatchesPattern_def filepath_Match_plain more_specific_def)
qed

theorem exact_name_first_witness:
  "more_specific (sample_rule ''web'' ''digest'') (sample_rule ''*'' ''digest'') \<and>
   rule_matches sample_env sample_app (sample_rule ''web'' ''digest'') \<and>
   \<not> rule_matches sample_env (sample_app\<lparr>app_Name := ''web2''\<rparr>) (sample_rule ''web'' ''digest'')"
proof -
  let ?a = "sample_rule ''web'' ''digest''" and ?b = "sample_rule ''*'' ''digest''"
  have h: "glob_plain (ar_NamePattern ?a)" "CHR '']'' \<notin> set (ar_NamePattern ?a)"
    "strings_ContainsAny (ar_NamePattern ?b) ''*?[]''" "calculateSpecificity ?b < 1000000"
    by (code_simp, code_simp, code_simp, code_simp)
  show ?thesis
    using exact_name_first [OF h, of sample_env sample_app]
      exact_name_first [OF h, of sample_env "sample_app\<lparr>app_Name := ''web2''\<rparr>"]
    by (simp add: sample_rule_def sample_app_def nameMatchesLabels_def)
qed

section \<open>Write-back configurations\<close>

lemma apply_target_keeps:
  "apply_target gc path w = Inr w' \<Longrightarrow>
     wb_Method w' = wb_Method w \<and> wb_PRProvider w' = wb_PRProvider w \<and> wb_GitWriteBranch w' = wb_GitWriteBranch w"
  by (auto simp: apply_target_def Let_def split: option.splits if_splits)

lemma parse_branch_keeps:
  assumes "parse_branch gc w = Inr w'"
  shows "wb_Method w' = wb_Method w" "wb_PRProvider w' = wb_PRProvider w" "wb_KustomizeBase w' = wb_KustomizeBase w"
    "wb_Target w' = wb_Target w"
    and "\<lbrakk>gc = Some g; \<forall>b. gc_Branch g = Some b \<longrightarrow> CHR '':'' \<notin> set b\<rbrakk> \<Longrightarrow> wb_GitWriteBranch w' = wb_GitWriteBranch w"
proof -
  show "wb_Method w' = wb_Method w" "wb_PRProvider w' = wb_PRProvider w" "wb_KustomizeBase w' = wb_KustomizeBase w"
    "wb_Target w' = wb_Target w"
    using assms by (auto simp: parse_branch_def Let_def split: option.splits if_splits)
  have "length (strings_Split (strings_TrimSpace b) CHR '':'') \<noteq> 2" if "CHR '':'' \<notin> set b" for b
  proof -
    have "CHR '':'' \<notin> set (strings_TrimSpace b)" using that set_strings_TrimSpace [of b] by blast
    then show ?thesis by (simp add: length_strings_Split count_list_0_iff [THEN iffD2])
  qed
  then show "wb_GitWriteBranch w' = wb_GitWriteBranch w"
    if "gc = Some g" "\<forall>b. gc_Branch g = Some b \<longrightarrow> CHR '':'' \<notin> set b"
    using assms that by (auto simp: parse_branch_def Let_def split: option.splits if_splits)
qed

lemma parseGitConfig_Inr:
  assumes "parseGitConfig lib app s w creds = Ret (Inr w')"
  obtains w1 src repo where "parse_branch (ws_GitConfig s) w = Inr w1" "getGitCredsSource creds (app_Namespace app) = Inr src"
    "w' = w1\<lparr>wb_GitRepo := repo, wb_GetCreds := Some src\<rparr>"
proof (cases "parse_branch (ws_GitConfig s) w")
  case (Inr w1)
  note outer = this
  show ?thesis
  proof (cases "getGitCredsSource creds (app_Namespace app)")
    case (Inr src)
    then show ?thesis
      using assms outer that [OF outer Inr]
      by (cases "with_source lib app (Some w1) src_RepoURL") (auto simp: parseGitConfig_def Let_def)
  qed (use assms outer in \<open>cases "with_source lib app (Some w1) src_RepoURL"; simp add: parseGitConfig_def Let_def\<close>)
qed (use assms in \<open>simp add: parseGitConfig_def\<close>)

lemma newWBC_cases:
  assumes "newWBCFromSettings lib app kns settings = Ret (Inr w)"
  obtains (argocd) target where "w = initial_wbc\<lparr>wb_Target := target\<rparr>"
  | (git) s path w1 w2 target creds where "settings = Some s"
    "apply_target (ws_GitConfig s) path (initial_wbc\<lparr>wb_Target := target, wb_Method := WriteBackGit\<rparr>) = Inr w1"
    "parseGitConfig lib app s w1 creds = Ret (Inr w2)" "apply_pull_request (ws_GitConfig s) w2 = Inr w"
proof (cases "getApplicationSource lib app None")
  case (Ret p)
  show ?thesis
  proof (cases "load_source app p")
    case (Some src)
    let ?t = "parseDefaultTarget (app_Namespace app) (app_Name app) (src_Path src) kns"
    show ?thesis
    proof (cases "\<exists>s m. settings = Some s \<and> ws_Method s = Some m \<and> strings_TrimSpace m \<noteq> ''argocd''")
      case False
      then have "w = initial_wbc\<lparr>wb_Target := ?t\<rparr>"
        using assms Ret Some by (auto simp: newWBCFromSettings_def Let_def split: option.splits)
      then show ?thesis by (rule argocd)
    next
      case True
      then obtain s m where s: "settings = Some s" "ws_Method s = Some m" "strings_TrimSpace m \<noteq> ''argocd''" by blast
      obtain mth creds where m: "split_method (strings_TrimSpace m) = (mth, creds)" by (cases "split_method (strings_TrimSpace m)")
      let ?a = "apply_target (ws_GitConfig s) (src_Path src) (initial_wbc\<lparr>wb_Target := ?t, wb_Method := WriteBackGit\<rparr>)"
      have eq: "(case ?a of Inl err \<Rightarrow> Ret (Inl err)
          | Inr wbc \<Rightarrow> go_bind (parseGitConfig lib app s wbc creds)
              (\<lambda>r. case r of Inl err \<Rightarrow> Ret (Inl err) | Inr wbc \<Rightarrow> Ret (apply_pull_request (ws_GitConfig s) wbc))) = Ret (Inr w)"
        using assms Ret Some s m by (simp add: newWBCFromSettings_def Let_def split: if_splits)
      then obtain w1 where w1: "?a = Inr w1" by (cases ?a) auto
      with eq obtain w2 where "parseGitConfig lib app s w1 creds = Ret (Inr w2)" "apply_pull_request (ws_GitConfig s) w2 = Inr w"
        by (cases "parseGitConfig lib app s w1 creds") (auto split: sum.splits)
      with s(1) w1 show ?thesis by (rule git)
    qed
  qed (use assms Ret in \<open>simp add: newWBCFromSettings_def\<close>)
qed (use assms in \<open>simp add: newWBCFromSettings_def\<close>)

lemma apply_pull_request_Inr:
  assumes "apply_pull_request gc w = Inr w'"
  obtains (none) "w' = w" "gc = None \<or> (\<exists>g. gc = Some g \<and> gc_PullRequest g = None)"
  | (pr) g pr prov where "gc = Some g" "gc_PullRequest g = Some pr" "countPullRequestProviders pr = 1"
    "prov = (if pr_GitHub pr \<noteq> None then PRProviderGitHub else PRProviderGitLab)"
    "\<forall>b. gc_Branch g = Some b \<longrightarrow> CHR '':'' \<notin> set b"
    "w' = w\<lparr>wb_PRProvider := prov, wb_PRLabels := sanitizePRLabels (pr_Labels pr)\<rparr>"
  using assms
  by (auto simp: apply_pull_request_def countPullRequestProviders_def Let_def split: option.splits if_splits)

text \<open>
  Every write-back configuration that is accepted is consistent.  With the Argo CD method no git
  setting is made.  With the git method there is a credentials source, and one read from a secret is
  bound to the application's own namespace.  Pull-request mode implies the git method, exactly one
  configured provider, and no separate write branch.
\<close>

theorem write_back_config_consistent:
  assumes "newWBCFromSettings lib app kns settings = Ret (Inr w)"
  shows "case wb_Method w of
      WriteBackApplication \<Rightarrow> w = initial_wbc\<lparr>wb_Target := wb_Target w\<rparr>
    | WriteBackGit \<Rightarrow>
        (wb_GetCreds w = Some CredsFromArgoCD \<or> (\<exists>ref. wb_GetCreds w = Some (CredsFromSecret ref (app_Namespace app)))) \<and>
        (wb_PRProvider w \<noteq> PRProviderUnsupported \<longrightarrow>
           wb_GitWriteBranch w = [] \<and>
           (\<exists>s g pr. settings = Some s \<and> ws_GitConfig s = Some g \<and> gc_PullRequest g = Some pr \<and>
              (wb_PRProvider w = PRProviderGitHub \<longleftrightarrow> pr_GitHub pr \<noteq> None) \<and>
              (wb_PRProvider w = PRProviderGitLab \<longleftrightarrow> pr_GitLab pr \<noteq> None)))"
  using assms
proof (cases rule: newWBC_cases)
  case (argocd target)
  then show ?thesis by (simp add: initial_wbc_def)
next
  case (git s path w1 w2 target creds)
  obtain w3 src repo where w3: "parse_branch (ws_GitConfig s) w1 = Inr w3"
    "getGitCredsSource creds (app_Namespace app) = Inr src" "w2 = w3\<lparr>wb_GitRepo := repo, wb_GetCreds := Some src\<rparr>"
    using parseGitConfig_Inr [OF git(3)] .
  note kept = apply_target_keeps [OF git(2)] parse_branch_keeps(1,2) [OF w3(1)]
  have src: "src = CredsFromArgoCD \<or> (\<exists>ref. src = CredsFromSecret ref (app_Namespace app))"
    using w3(2) by (auto simp: getGitCredsSource_def split: if_splits)
  from git(4) show ?thesis
  proof (cases rule: apply_pull_request_Inr)
    case none
    then show ?thesis using kept w3(3) src by (simp add: initial_wbc_def)
  next
    case (pr g pr prov)
    have "wb_GitWriteBranch w3 = []"
      using parse_branch_keeps(5) [OF w3(1) pr(1,5)] kept by (simp add: initial_wbc_def)
    then show ?thesis
      using pr git(1) kept w3(3) src
      by (auto simp: initial_wbc_def countPullRequestProviders_def split: if_splits)
  qed
qed

definition sample_git_spec :: WriteBackSpec where
  "sample_git_spec =
     \<lparr>ws_Method = Some ''git:secret:argocd/git-creds'',
      ws_GitConfig = Some \<lparr>gc_Repository = None, gc_Branch = Some ''main'', gc_WriteBackTarget = None,
        gc_PullRequest = Some \<lparr>pr_GitHub = Some (), pr_GitLab = None, pr_Labels = ['' deps '', ''deps'']\<rparr>\<rparr>\<rparr>"

theorem write_back_config_consistent_witness:
  "\<exists>w. newWBCFromSettings sample_argo sample_app ''argocd'' (Some sample_git_spec) = Ret (Inr w) \<and>
     wb_Method w = WriteBackGit \<and> wb_PRProvider w = PRProviderGitHub \<and> wb_GitWriteBranch w = []"
proof -
  let ?r = "newWBCFromSettings sample_argo sample_app ''argocd'' (Some sample_git_spec)"
  have "(case ?r of Ret (Inr w) \<Rightarrow> wb_Method w = WriteBackGit \<and> wb_PRProvider w = PRProviderGitHub | _ \<Rightarrow> False)"
    by code_simp
  then obtain w where w: "?r = Ret (Inr w)" "wb_Method w = WriteBackGit" "wb_PRProvider w = PRProviderGitHub"
    by (auto split: go.splits sum.splits)
  then have "wb_GitWriteBranch w = []" using write_back_config_consistent [OF w(1)] by simp
  with w show ?thesis by blast
qed

section \<open>Verification and annotations\<close>

lemma resolve_rule_annotations:
  assumes "ar_UseAnnotations ref = Some True" "resolve_rule env spec app ref = Ret (Some rs)"
  shows "getImagesFromAnnotations app = Inr (rs_Images rs)" "rs_ImagesVerification rs = ar_ImagesVerification ref"
proof -
  obtain images where images: "getImagesFromAnnotations app = Inr images"
    using assms by (cases "getImagesFromAnnotations app") (auto simp: resolve_rule_def)
  let ?w = "newWBCFromSettings (se_argo env) app (se_kubeNamespace env) (getWriteBackConfigFromAnnotations app)"
  obtain w where w: "?w = Ret (Inr w)"
    using assms images by (cases ?w) (auto simp: resolve_rule_def split: sum.splits)
  let ?c = "getCommonUpdateSettingsFromAnnotations app (getImageUpdateStrategyAnnotations [])"
  obtain c where c: "?c = Inr c" using assms images w by (cases ?c) (auto simp: resolve_rule_def)
  have "rs = \<lparr>rs_Images = images, rs_CommonUpdateSettings = c, rs_ImagesVerification = ar_ImagesVerification ref,
      rs_WriteBackConfig = w\<rparr>"
    using assms images w c by (simp add: resolve_rule_def)
  then show "getImagesFromAnnotations app = Inr (rs_Images rs)" "rs_ImagesVerification rs = ar_ImagesVerification ref"
    using images by simp_all
qed

text \<open>
  A rule with \<open>useAnnotations\<close> and no verification block of its own selects its images without
  verification, whatever the verification policy of the resource is.
\<close>

theorem annotations_bypass_verification:
  assumes "ar_UseAnnotations ref = Some True" "ar_ImagesVerification ref = None"
    and "resolve_rule env spec app ref = Ret (Some rs)" "selected_images env app ev rs = Some ai"
  shows "\<forall>img \<in> set (ai_Images ai). \<not> im_EnableVerification img"
proof -
  obtain images where rs: "rs_Images rs = images" "rs_ImagesVerification rs = None" "getImagesFromAnnotations app = Inr images"
    using resolve_rule_annotations [OF assms(1,3)] assms(2) by metis
  have noverify: "ic_ImagesVerification im = None" if "parse_annotation_entry app pair = Inr im" for pair im
    using that by (auto simp: parse_annotation_entry_def Let_def split: if_splits sum.splits)
  have "\<forall>im \<in> set res'. ic_ImagesVerification im = None"
    if "annotation_loop app pairs res = Inr res'" "\<forall>im \<in> set res. ic_ImagesVerification im = None" for pairs res res'
    using that
    by (induction pairs arbitrary: res) (auto simp: Let_def noverify split: if_splits sum.splits)
  then have none: "\<forall>im \<in> set images. ic_ImagesVerification im = None"
    using rs(3) by (fastforce simp: getImagesFromAnnotations_def split: option.splits sum.splits if_splits)
  have "\<not> im_EnableVerification img"
    if p: "parse_image pn client ns s None ev im = Some img" and n: "ic_ImagesVerification im = None" for pn client ns s im img
  proof -
    obtain i where "newImageFromManifestTargetSettings (ic_ManifestTarget im)
        (newImageFromCommonUpdateSettings (Some (mergeCommonUpdateSettings [s, ic_CommonUpdateSettings im]))) = Inr i"
      "im_EnableVerification img = im_EnableVerification i"
      by (rule parse_image_Some [OF p])
        (simp add: n merge_verification_fields newImageFromImagesVerification_def)
    then show ?thesis
      using manifest_target_keeps(2) by (simp add: newImageFromCommonUpdateSettings_def default_Image_def)
  qed
  then show ?thesis
    using assms(4) none rs
    by (fastforce simp: selected_images_def parseImageList_def Let_def map_filter_def split: if_splits)
qed

theorem annotations_bypass_verification_witness:
  "\<exists>rs ai. resolve_rule sample_env sample_spec sample_annotated
        ((sample_rule ''*'' ''semver'')\<lparr>ar_UseAnnotations := Some True\<rparr>) = Ret (Some rs) \<and>
     selected_images sample_env sample_annotated None rs = Some ai \<and> ai_Images ai \<noteq> [] \<and>
     (\<forall>img \<in> set (ai_Images ai). \<not> im_EnableVerification img) \<and>
     is_ImagesVerification sample_spec \<noteq> None"
proof -
  let ?ref = "(sample_rule ''*'' ''semver'')\<lparr>ar_UseAnnotations := Some True\<rparr>"
  have "(case resolve_rule sample_env sample_spec sample_annotated ?ref of
      Ret (Some rs) \<Rightarrow> (case selected_images sample_env sample_annotated None rs of Some ai \<Rightarrow> ai_Images ai \<noteq> [] | None \<Rightarrow> False)
    | _ \<Rightarrow> False)" by code_simp
  then obtain rs ai where h: "resolve_rule sample_env sample_spec sample_annotated ?ref = Ret (Some rs)"
    "selected_images sample_env sample_annotated None rs = Some ai" "ai_Images ai \<noteq> []"
    by (auto split: go.splits option.splits)
  have "ar_UseAnnotations ?ref = Some True" "ar_ImagesVerification ?ref = None" "is_ImagesVerification sample_spec \<noteq> None"
    by (simp_all add: sample_rule_def sample_spec_def)
  with annotations_bypass_verification [OF _ _ h(1,2)] h show ?thesis by blast
qed

end
