(* ===== verification/GitWrite.thy ===== *)
theory GitWrite
  imports Kustomization Scm Overrides Selection
begin

text \<open>
  Writing an update back (\<open>pkg/argocd/git.go\<close>, \<open>pkg/argocd/gitcreds.go\<close>, \<open>pkg/argocd/pr_service.go\<close>, the state
  of \<open>pkg/argocd/types.go\<close> and \<open>commitChanges\<close> of \<open>pkg/argocd/update.go\<close>): git credentials, branch names,
  the files to write, the commit and the pull request.  The template engine, the repository database and the
  Argo CD client are parameters; a git client may be given.
\<close>

section \<open>Changes and templates\<close>

record ChangeEntry =
  ce_Image :: ContainerImage
  ce_OldTag :: ImageTag
  ce_NewTag :: "ImageTag option"

record branch_data =
  bd_AppNamespace :: string
  bd_AppName :: string
  bd_TargetKey :: string
  bd_Images :: "(string \<times> string \<times> string \<times> string) list"
  bd_SHA256 :: string

text \<open>A commit message template, applied to the name of the application and its changes.\<close>

type_synonym message_template = "string \<Rightarrow> (string \<times> string \<times> string \<times> (string, string) gomap) list \<Rightarrow> string option"

record Repository =
  rp_Repo :: string
  rp_Username :: string
  rp_Password :: string
  rp_SSHPrivateKey :: string
  rp_GithubAppPrivateKey :: string
  rp_GithubAppId :: int
  rp_GithubAppInstallationId :: int
  rp_GitHubAppEnterpriseBaseURL :: string
  rp_GCPServiceAccountKey :: string
  rp_TLSClientCertData :: string
  rp_TLSClientCertKey :: string
  rp_Insecure :: bool
  rp_Proxy :: string
  rp_ForceHttpBasicAuth :: bool
  rp_HasCredentials :: bool

record 'w write_env =
  we_git :: "'w git_lib"
  we_scm :: "'w scm_lib"
  we_yaml :: yaml_lib
  we_kyaml :: kyaml_lib
  we_argo :: argo_lib
  we_ref :: ref_parser
  we_kube :: kube_client
  we_db :: "(string \<Rightarrow> string \<Rightarrow> git_error + Repository) option"
  we_Template :: "string \<Rightarrow> branch_data \<Rightarrow> string option"
  we_GitClient :: "'w Client option"
  we_UpdateSpec :: "Application \<Rightarrow> ('w, unit) io"
  we_GoogleCredentials :: "string \<Rightarrow> string option"

definition we_os :: "'w write_env \<Rightarrow> 'w os_lib" where
  "we_os env = gl_os (we_git env)"

text \<open>The tag of a change as text; the new tag of an image that was just set is never nil.\<close>

definition new_tag :: "ChangeEntry \<Rightarrow> ImageTag go" where
  "new_tag c = (case ce_NewTag c of None \<Rightarrow> Panic | Some t \<Rightarrow> Ret t)"

fun go_map :: "('a \<Rightarrow> 'b go) \<Rightarrow> 'a list \<Rightarrow> 'b list go" where
  "go_map f [] = Ret []"
| "go_map f (x # xs) = go_bind (f x) (\<lambda>y. go_bind (go_map f xs) (\<lambda>ys. Ret (y # ys)))"

definition TemplateCommitMessage :: "message_template \<Rightarrow> string \<Rightarrow> ChangeEntry list \<Rightarrow> string go" where
  "TemplateCommitMessage tpl appName changeList =
     go_bind (go_map (\<lambda>c. go_bind (new_tag c)
                (\<lambda>t. Ret (ImageName (ce_Image c), tag_String (ce_OldTag c), tag_String t, Labels t))) changeList)
       (\<lambda>changes. Ret (case tpl appName changes of
                          None \<Rightarrow> ''build: update of application '' @ appName | Some m \<Rightarrow> m))"

definition change_id :: "ChangeEntry \<Rightarrow> ImageTag \<Rightarrow> string" where
  "change_id c t = ImageName (ce_Image c) @ ''-'' @ tag_String (ce_OldTag c) @ ''-'' @ tag_String t @ '',''"

definition TemplateBranchName ::
  "'w write_env \<Rightarrow> string \<Rightarrow> string \<Rightarrow> string \<Rightarrow> string \<Rightarrow> ChangeEntry list \<Rightarrow> string go" where
  "TemplateBranchName env branchName appNamespace appName targetKey changeList =
     go_bind (go_map (\<lambda>c. go_bind (new_tag c) (\<lambda>t. Ret (c, t))) changeList)
       (\<lambda>cs. let tplData = \<lparr>bd_AppNamespace = appNamespace, bd_AppName = appName, bd_TargetKey = targetKey,
                  bd_Images = map (\<lambda>(c, t). (ImageName (ce_Image c), ImageAlias (ce_Image c), tag_String (ce_OldTag c), tag_String t)) cs,
                  bd_SHA256 = sha256_hex (we_os env) (concat (map (\<lambda>(c, t). change_id c t) cs))\<rparr>
             in Ret (case we_Template env branchName tplData of
                       None \<Rightarrow> []
                     | Some toReturn \<Rightarrow> if length toReturn > 255 then take 255 toReturn else toReturn))"

definition PRBranchTemplate :: string where
  "PRBranchTemplate = ''image-updater-{{.TargetKey}}-{{.SHA256}}''"

definition WriteBackTargetKey :: "'w os_lib \<Rightarrow> WriteBackConfig \<Rightarrow> string" where
  "WriteBackTargetKey lib wbc =
     (let target = (if wb_Target wbc = [] then wb_KustomizeBase wbc else wb_Target wbc)
      in take 8 (sha256_hex lib (wb_GitRepo wbc @ ''|'' @ wb_GitBranch wbc @ ''|'' @ target)))"

section \<open>Git credentials\<close>

definition getCAPath :: "'w os_lib \<Rightarrow> string \<Rightarrow> string" where
  "getCAPath lib repoURL =
     (if fst (IsSSHURL repoURL) then []
      else
        (case url_Parse lib repoURL of
           None \<Rightarrow> []
         | Some parsedURL \<Rightarrow>
             (let hostname = (if u_Scheme parsedURL = ''https'' \<or> u_Scheme parsedURL = ''oci'' then u_Host parsedURL
                              else if u_Scheme parsedURL = [] then u_Path parsedURL else [])
              in if hostname = [] then []
                 else (case CertBundlePath lib hostname of None \<Rightarrow> [] | Some caPath \<Rightarrow> caPath))))"

definition GetGitCreds :: "'w write_env \<Rightarrow> Repository option \<Rightarrow> Creds" where
  "GetGitCreds env repo =
     (case repo of
        None \<Rightarrow> NopCreds
      | Some r \<Rightarrow>
          if rp_Password r \<noteq> [] then
            NewHTTPSCreds (rp_Username r) (rp_Password r) (rp_TLSClientCertData r) (rp_TLSClientCertKey r) (rp_Insecure r)
              (rp_Proxy r) (rp_ForceHttpBasicAuth r)
          else if rp_SSHPrivateKey r \<noteq> [] then
            NewSSHCreds (rp_SSHPrivateKey r) (getCAPath (we_os env) (rp_Repo r)) (rp_Insecure r) (rp_Proxy r)
          else if rp_GithubAppPrivateKey r \<noteq> [] \<and> rp_GithubAppId r \<noteq> 0 \<and> rp_GithubAppInstallationId r \<noteq> 0 then
            NewGitHubAppCreds (rp_GithubAppId r) (rp_GithubAppInstallationId r) (rp_GithubAppPrivateKey r)
              (rp_GitHubAppEnterpriseBaseURL r) (rp_Repo r) (rp_TLSClientCertData r) (rp_TLSClientCertKey r) (rp_Insecure r) (rp_Proxy r)
          else if rp_GCPServiceAccountKey r \<noteq> [] then GoogleCloud (we_GoogleCredentials env (rp_GCPServiceAccountKey r))
          else NopCreds)"

definition getCredsFromArgoCD :: "'w write_env \<Rightarrow> WriteBackConfig \<Rightarrow> string \<Rightarrow> git_error + Creds" where
  "getCredsFromArgoCD env wbc project =
     (case we_db env of
        None \<Rightarrow> Inl (Message ''argocd database not configured for repository credential lookup'')
      | Some db \<Rightarrow>
          (case db (wb_GitRepo wbc) project of
             Inl err \<Rightarrow> Inl err
           | Inr repo \<Rightarrow>
               if \<not> rp_HasCredentials repo then Inl (Message ''credentials are not configured in Argo CD settings'')
               else Inr (GetGitCreds env (Some repo))))"

definition field :: "(string, string) gomap \<Rightarrow> string \<Rightarrow> string" where
  "field credentials k = (case map_of credentials k of None \<Rightarrow> [] | Some v \<Rightarrow> v)"

definition github_app_creds :: "(string, string) gomap \<Rightarrow> string \<Rightarrow> string \<Rightarrow> git_error + Creds" where
  "github_app_creds credentials repo appID =
     (case map_of credentials ''githubAppInstallationID'' of
        None \<Rightarrow> Inl (Message ''invalid secret: does not contain field githubAppInstallationID'')
      | Some installationID \<Rightarrow>
          (case map_of credentials ''githubAppPrivateKey'' of
             None \<Rightarrow> Inl (Message ''invalid secret: does not contain field githubAppPrivateKey'')
           | Some privateKey \<Rightarrow>
               (case strconv_Atoi appID of
                  None \<Rightarrow> Inl (Message ''invalid value in field githubAppID'')
                | Some intGithubAppID \<Rightarrow>
                    (case strconv_Atoi installationID of
                       None \<Rightarrow> Inl (Message ''invalid value in field githubAppInstallationID'')
                     | Some intGithubAppInstallationID \<Rightarrow>
                         Inr (NewGitHubAppCreds intGithubAppID intGithubAppInstallationID privateKey
                                (field credentials ''githubAppEnterpriseBaseUrl'') repo (field credentials ''tlsClientCertData'')
                                (field credentials ''tlsClientCertKey'')
                                (case strconv_ParseBool (field credentials ''insecure'') of None \<Rightarrow> False | Some b \<Rightarrow> b)
                                (field credentials ''proxy''))))))"

definition creds_of_secret :: "(string, string) gomap \<Rightarrow> string \<Rightarrow> git_error + Creds" where
  "creds_of_secret credentials repo =
     (if fst (IsSSHURL repo) then
        (case map_of credentials ''sshPrivateKey'' of
           None \<Rightarrow> Inl (Message ''invalid secret: does not contain field sshPrivateKey'')
         | Some sshPrivateKey \<Rightarrow> Inr (NewSSHCreds sshPrivateKey [] True []))
      else if IsHTTPSURL repo then
        (case map_of credentials ''githubAppID'' of
           Some appID \<Rightarrow> github_app_creds credentials repo appID
         | None \<Rightarrow>
             (case map_of credentials ''username'' of
                Some username \<Rightarrow>
                  (case map_of credentials ''password'' of
                     None \<Rightarrow> Inl (Message ''invalid secret: does not contain field password'')
                   | Some password \<Rightarrow> Inr (NewHTTPSCreds username password [] [] True [] False))
              | None \<Rightarrow> Inl (Message ''invalid repository credentials in secret'')))
      else Inl (Message ''unknown repository type''))"

definition getCredsFromSecret :: "'w write_env \<Rightarrow> WriteBackConfig \<Rightarrow> string \<Rightarrow> string \<Rightarrow> git_error + Creds" where
  "getCredsFromSecret env wbc credentialsSecret namespace =
     (let s = strings_SplitN credentialsSecret CHR ''/'' 2
      in if length s = 2 \<and> s ! 0 \<noteq> namespace then Inl (Message ''secret namespace differs from app namespace'')
         else
           (case (if length s = 2 then GetSecretData (we_kube env) (s ! 0) (s ! 1) else GetSecretData (we_kube env) namespace (s ! 0)) of
              Inl err \<Rightarrow> Inl (OsError err)
            | Inr credentials \<Rightarrow> creds_of_secret credentials (wb_GitRepo wbc)))"

definition GetCreds :: "'w write_env \<Rightarrow> ApplicationImages \<Rightarrow> git_error + Creds" where
  "GetCreds env ai =
     (let wbc = ai_WriteBackConfig ai
      in case wb_GetCreds wbc of
           None \<Rightarrow> Inl NilDeref
         | Some CredsFromArgoCD \<Rightarrow> getCredsFromArgoCD env wbc (sp_Project (app_Spec (ai_Application ai)))
         | Some (CredsFromSecret secret ns) \<Rightarrow> getCredsFromSecret env wbc secret ns)"

section \<open>Writing the files\<close>

definition io_go :: "'a go \<Rightarrow> ('w, 'a) io" where
  "io_go r w = (case r of Panic \<Rightarrow> (Inl NilDeref, w) | Ret x \<Rightarrow> (Inr x, w))"

definition override_to_error :: "override_error + string \<Rightarrow> git_error + string" where
  "override_to_error r = map_sum (\<lambda>e. Message ''could not marshal the override'') (\<lambda>x. x) r"

text \<open>A writer reports whether there is nothing to commit.\<close>

type_synonym 'w changeWriter = "ApplicationImages \<Rightarrow> 'w Client \<Rightarrow> ('w, bool) io"

definition marshal_override :: "'w write_env \<Rightarrow> ApplicationImages \<Rightarrow> string \<Rightarrow> ('w, string) io" where
  "marshal_override env ai originalData =
     io_bind (io_go (marshalParamsOverride (we_yaml env) (we_argo env) (we_ref env) ai originalData)) (\<lambda>r. io_lift (override_to_error r))"

definition filepath_Dir :: "string \<Rightarrow> string" where
  "filepath_Dir path = filepath_Clean (take (nat (strings_LastIndex path CHR ''/'' + 1)) path)"

definition write_target :: "'w write_env \<Rightarrow> 'w Client \<Rightarrow> string \<Rightarrow> bool \<Rightarrow> string \<Rightarrow> ('w, bool) io" where
  "write_target env gitC targetFile targetExists override =
     io_bind (os_MkdirAll (we_os env) (filepath_Dir targetFile))
       (\<lambda>_. io_bind (os_WriteFile (we_os env) targetFile override)
         (\<lambda>_. if \<not> targetExists then io_bind (cl_Add gitC targetFile) (\<lambda>_. io_return False) else io_return False))"

definition writeOverrides :: "'w write_env \<Rightarrow> 'w changeWriter" where
  "writeOverrides env ai gitC w =
     (let targetFile = filepath_Join [cl_Root gitC, wb_Target (ai_WriteBackConfig ai)]
      in case fs_Stat (we_os env) targetFile w of
           StatError err \<Rightarrow> (Inl (OsError err), w)
         | NotExist \<Rightarrow>
             io_bind (marshal_override env ai []) (\<lambda>override. write_target env gitC targetFile False override) w
         | _ \<Rightarrow>
             io_bind (os_ReadFile (we_os env) targetFile)
               (\<lambda>originalData. io_bind (marshal_override env ai originalData)
                 (\<lambda>override. if originalData = override then io_return True
                             else write_target env gitC targetFile True override)) w)"

definition writeKustomization :: "'w write_env \<Rightarrow> 'w changeWriter" where
  "writeKustomization env ai gitC w =
     (let app = ai_Application ai; wbc = ai_WriteBackConfig ai;
          base = filepath_Join [cl_Root gitC, wb_KustomizeBase wbc];
          kustFile = findKustomization (we_os env) base w
      in if kustFile = [] then (Inl (Message ''could not find kustomization''), w)
         else
           io_bind (io_go (getApplicationSource (we_argo env) app (Some wbc)))
             (\<lambda>p. case load_source app p of
                None \<Rightarrow> io_fail (Message ''failed to find source for kustomization'')
              | Some source \<Rightarrow>
                  (let images = (case src_Kustomize source of None \<Rightarrow> [] | Some k \<Rightarrow> ks_Images k)
                   in io_bind (io_lift (imagesFilter (we_kyaml env) (we_ref env) images))
                        (\<lambda>overrides. updateKustomizeFile (we_os env) (we_kyaml env) overrides kustFile))) w)"

section \<open>The pull request\<close>

lemma decoded_width: "(r, n) = utf8_DecodeRune s \<Longrightarrow> s \<noteq> [] \<Longrightarrow> 0 < n"
  using utf8_DecodeRune_pos [of s] by (metis snd_conv)

text \<open>The runes of a string: an ill-formed byte is one rune, \<open>U+FFFD\<close>.\<close>

function string_runes :: "string \<Rightarrow> nat list" where
  "string_runes s = (if s = [] then [] else (case utf8_DecodeRune s of (r, n) \<Rightarrow> r # string_runes (drop n s)))"
  by pat_completeness auto
termination
  by (relation "measure length") (auto dest: decoded_width)

declare string_runes.simps [simp del]

definition utf8_encode :: "nat \<Rightarrow> string" where
  "utf8_encode r =
     map char_of
       (if r < 0x80 then [r]
        else if r < 0x800 then [0xC0 + r div 64, 0x80 + r mod 64]
        else if r < 0x10000 then [0xE0 + r div 4096, 0x80 + r div 64 mod 64, 0x80 + r mod 64]
        else [0xF0 + r div 262144, 0x80 + r div 4096 mod 64, 0x80 + r div 64 mod 64, 0x80 + r mod 64])"

definition truncate_runes :: "nat \<Rightarrow> string \<Rightarrow> string" where
  "truncate_runes n s =
     (if length (string_runes s) > n then concat (map utf8_encode (take n (string_runes s))) else s)"

definition buildPullRequest :: "WriteBackConfig \<Rightarrow> string \<Rightarrow> string \<Rightarrow> string \<Rightarrow> string \<Rightarrow> PullRequest" where
  "buildPullRequest wbc appNamespace appName checkOutBranch pushBranch =
     (let title = ''chore: update images for '' @ appNamespace @ ''/'' @ appName;
          body = ''This pull request was created automatically by argocd-image-updater for application '' @ appNamespace @ ''/'' @ appName @ ''.'';
          parts = strings_SplitN (wb_GitCommitMessage wbc) CHR 0x0A 2;
          trimmed = strings_TrimSpace (parts ! 0);
          title = (if wb_GitCommitMessage wbc \<noteq> [] \<and> trimmed \<noteq> [] then trimmed else title);
          body = (if wb_GitCommitMessage wbc \<noteq> [] then (if length parts = 2 then strings_TrimSpace (parts ! 1) else []) else body)
      in \<lparr>pull_title = truncate_runes 255 title, pull_body = truncate_runes 65536 body, pull_head = pushBranch,
          pull_base = checkOutBranch, pull_labels = wb_PRLabels wbc\<rparr>)"

section \<open>The commit\<close>

definition getWriteBackBranch :: "argo_lib \<Rightarrow> Application \<Rightarrow> WriteBackConfig \<Rightarrow> string go" where
  "getWriteBackBranch lib app wbc =
     (case (if wb_GitRepo wbc \<noteq> [] \<and> HasMultipleSources lib (app_Spec app)
            then find (\<lambda>s. src_RepoURL s = wb_GitRepo wbc) (sp_Sources (app_Spec app)) else None) of
        Some s \<Rightarrow> Ret (src_TargetRevision s)
      | None \<Rightarrow> with_source lib app (Some wbc) src_TargetRevision)"

definition checkout_branch :: "'w write_env \<Rightarrow> ApplicationImages \<Rightarrow> 'w Client \<Rightarrow> ('w, string) io" where
  "checkout_branch env ai gitC =
     (let wbc = ai_WriteBackConfig ai
      in io_bind (if wb_GitBranch wbc \<noteq> [] then io_return (wb_GitBranch wbc)
                  else io_go (getWriteBackBranch (we_argo env) (ai_Application ai) wbc))
           (\<lambda>b. if b = [] \<or> b = ''HEAD'' then cl_SymRefToBranch gitC b else io_return b))"

text \<open>The branch to push to, and the pull request that belongs to it.\<close>

definition push_branch ::
  "'w write_env \<Rightarrow> ApplicationImages \<Rightarrow> ChangeEntry list \<Rightarrow> string \<Rightarrow> ('w, string \<times> PullRequest option) io" where
  "push_branch env ai changeList checkOutBranch =
     (let app = ai_Application ai; wbc = ai_WriteBackConfig ai
      in if wb_PRProvider wbc \<noteq> PRProviderUnsupported then
           io_bind (io_go (TemplateBranchName env PRBranchTemplate (app_Namespace app) (app_Name app)
                             (WriteBackTargetKey (we_os env) wbc) changeList))
             (\<lambda>pushBranch. if pushBranch = [] then io_fail (Message ''git branch name could not be created from the template'')
                else io_return (pushBranch, Some (buildPullRequest wbc (app_Namespace app) (app_Name app) checkOutBranch pushBranch)))
         else if wb_GitWriteBranch wbc \<noteq> [] then
           io_bind (io_go (TemplateBranchName env (wb_GitWriteBranch wbc) [] [] [] changeList))
             (\<lambda>pushBranch. if pushBranch = [] then io_fail (Message ''git branch name could not be created from the template'')
                else io_return (pushBranch, wb_PullRequest wbc))
         else io_return (checkOutBranch, wb_PullRequest wbc))"

text \<open>Fetching: an existing push branch is used, otherwise it is created from the branch that was checked out.\<close>

definition fetch_branches :: "'w Client \<Rightarrow> string \<Rightarrow> string \<Rightarrow> ('w, bool) io" where
  "fetch_branches gitC checkOutBranch pushBranch =
     (if checkOutBranch \<noteq> pushBranch then
        io_bind (io_try (cl_ShallowFetch gitC pushBranch 1))
          (\<lambda>r. case r of
             Inr _ \<Rightarrow> io_return False
           | Inl fetchErr \<Rightarrow>
               io_bind (cl_ShallowFetch gitC checkOutBranch 1)
                 (\<lambda>_. io_bind (cl_Branch gitC checkOutBranch pushBranch) (\<lambda>_. io_return True)))
      else io_bind (cl_ShallowFetch gitC checkOutBranch 1) (\<lambda>_. io_return False))"

text \<open>The local commit; the file with the message is removed when the function returns.\<close>

definition commit_and_push :: "'w write_env \<Rightarrow> WriteBackConfig \<Rightarrow> 'w Client \<Rightarrow> string \<Rightarrow> string \<Rightarrow> ('w, unit) io" where
  "commit_and_push env wbc gitC checkOutBranch pushBranch =
     (let finish = (\<lambda>messagePath.
            io_bind (if wb_GitCommitUser wbc \<noteq> [] \<and> wb_GitCommitEmail wbc \<noteq> []
                     then cl_Config gitC (wb_GitCommitUser wbc) (wb_GitCommitEmail wbc) else io_return ())
              (\<lambda>_. io_bind (cl_Commit gitC [] \<lparr>co_CommitMessageText = [], co_CommitMessagePath = messagePath,
                              co_SigningKey = wb_GitCommitSigningKey wbc, co_SigningMethod = wb_GitCommitSigningMethod wbc,
                              co_SignOff = wb_GitCommitSignOff wbc\<rparr>)
                (\<lambda>_. cl_Push gitC ''origin'' pushBranch (pushBranch \<noteq> checkOutBranch))))
      in if wb_GitCommitMessage wbc \<noteq> [] then
           io_bind (io_wrap ''could not create temp file'' (os_CreateTemp (we_os env) [] ''image-updater-commit-msg''))
             (\<lambda>cm. io_bind (io_wrap ''could not write commit message'' (os_WriteFile (we_os env) cm (wb_GitCommitMessage wbc)))
               (\<lambda>_. io_finally (finish cm) (os_Remove (we_os env) cm)))
         else finish [])"

text \<open>With the API method, only the credentials of a GitHub App commit through the API.\<close>

definition make_commit ::
  "'w write_env \<Rightarrow> WriteBackConfig \<Rightarrow> Creds \<Rightarrow> 'w Client \<Rightarrow> string \<Rightarrow> string \<Rightarrow> bool \<Rightarrow> ('w, unit) io" where
  "make_commit env wbc creds gitC checkOutBranch pushBranch pushBranchCreated =
     (case (wb_GitCommitMethod wbc = ''api'', creds) of
        (True, GitHubApp g) \<Rightarrow> commitChangesGithubAPI (we_os env) (we_scm env) wbc gitC g pushBranch pushBranchCreated
      | _ \<Rightarrow> commit_and_push env wbc gitC checkOutBranch pushBranch)"

definition commit_with_client ::
  "'w write_env \<Rightarrow> ApplicationImages \<Rightarrow> ChangeEntry list \<Rightarrow> 'w changeWriter \<Rightarrow> Creds \<Rightarrow> 'w Client \<Rightarrow>
   ('w, PullRequest option) io" where
  "commit_with_client env ai changeList write creds gitC =
     (let wbc = ai_WriteBackConfig ai
      in io_bind (cl_Init gitC)
           (\<lambda>_. io_bind (checkout_branch env ai gitC)
             (\<lambda>checkOutBranch. io_bind (push_branch env ai changeList checkOutBranch)
               (\<lambda>(pushBranch, pr). io_bind (fetch_branches gitC checkOutBranch pushBranch)
                 (\<lambda>pushBranchCreated. io_bind (cl_Checkout gitC pushBranch False)
                   (\<lambda>_. io_bind (write (ai\<lparr>ai_WriteBackConfig := wbc\<lparr>wb_PullRequest := pr\<rparr>\<rparr>) gitC)
                     (\<lambda>skip. if skip then io_return pr
                        else
                          io_bind (make_commit env wbc creds gitC checkOutBranch pushBranch pushBranchCreated)
                            (\<lambda>_. io_return pr))))))))"

definition commitChangesGit ::
  "'w write_env \<Rightarrow> ApplicationImages \<Rightarrow> ChangeEntry list \<Rightarrow> 'w changeWriter \<Rightarrow> ('w, PullRequest option) io" where
  "commitChangesGit env ai changeList write =
     (let app = ai_Application ai; wbc = ai_WriteBackConfig ai
      in io_bind (io_wrap ''could not get creds for repo'' (io_lift (GetCreds env ai)))
           (\<lambda>creds. case we_GitClient env of
              Some gitC \<Rightarrow> commit_with_client env ai changeList write creds gitC
            | None \<Rightarrow>
                io_bind (os_MkdirTemp (we_os env) (''git-'' @ app_Name app))
                  (\<lambda>tempRoot. io_finally
                     (commit_with_client env ai changeList write creds
                        (native_client (we_git env) (NewClientExt (wb_GitRepo wbc) tempRoot creds False False [])))
                     (os_RemoveAll (we_os env) tempRoot))))"

text \<open>Whether an open request from the push branch exists already.\<close>

definition skipIfPRExists ::
  "'w write_env \<Rightarrow> WriteBackConfig \<Rightarrow> Creds \<Rightarrow> string \<Rightarrow> string \<Rightarrow> string \<Rightarrow> ChangeEntry list \<Rightarrow> ('w, bool) io" where
  "skipIfPRExists env wbc creds checkOutBranch appNamespace appName changeList =
     io_bind (io_go (TemplateBranchName env PRBranchTemplate appNamespace appName (WriteBackTargetKey (we_os env) wbc) changeList))
       (\<lambda>pushBranch. if pushBranch = [] then io_fail (Message ''could not compute push branch name from template'')
          else
            (case wb_PRProvider wbc of
               PRProviderGitHub \<Rightarrow>
                 io_bind (NewGithubPRService (we_os env) (we_scm env) wbc creds)
                   (\<lambda>svc. gh_exists (we_scm env) svc checkOutBranch pushBranch)
             | PRProviderGitLab \<Rightarrow>
                 io_bind (NewGitLabMRService (we_os env) (we_scm env) wbc creds)
                   (\<lambda>svc. lab_exists (we_scm env) svc checkOutBranch pushBranch)
             | PRProviderUnsupported \<Rightarrow> io_fail (Message ''unsupported PR provider'')))"

definition create_result_io :: "('w \<Rightarrow> create_result \<times> 'w) \<Rightarrow> ('w, unit) io" where
  "create_result_io m w =
     (case m w of (CreateFailed err, w) \<Rightarrow> (Inl err, w) | (Created, w) \<Rightarrow> (Inr (), w) | (AlreadyExists, w) \<Rightarrow> (Inr (), w))"

definition open_request :: "'w write_env \<Rightarrow> WriteBackConfig \<Rightarrow> Creds \<Rightarrow> ('w, unit) io" where
  "open_request env wbc creds =
     (case wb_PRProvider wbc of
        PRProviderGitHub \<Rightarrow>
          io_bind (NewGithubPRService (we_os env) (we_scm env) wbc creds) (\<lambda>g. create_result_io (gh_create (we_scm env) g))
      | PRProviderGitLab \<Rightarrow>
          io_bind (NewGitLabMRService (we_os env) (we_scm env) wbc creds) (\<lambda>g. create_result_io (lab_create (we_scm env) g))
      | PRProviderUnsupported \<Rightarrow> io_fail (Message ''unsupported PR provider''))"

definition commitChangesPR ::
  "'w write_env \<Rightarrow> ApplicationImages \<Rightarrow> ChangeEntry list \<Rightarrow> 'w changeWriter \<Rightarrow> ('w, unit) io" where
  "commitChangesPR env ai changeList write =
     (let app = ai_Application ai; wbc = ai_WriteBackConfig ai
      in io_bind (io_wrap ''could not get creds for repo'' (io_lift (GetCreds env ai)))
           (\<lambda>creds. case SCMToken (we_os env) creds of
              None \<Rightarrow> io_fail (Message ''credentials do not support PR creation'')
            | Some tokenProvider \<Rightarrow>
                io_bind (if wb_GitBranch wbc \<noteq> [] then io_return (wb_GitBranch wbc)
                         else io_go (getWriteBackBranch (we_argo env) app wbc))
                  (\<lambda>checkOutBranch. io_bind
                     (if checkOutBranch \<noteq> [] \<and> checkOutBranch \<noteq> ''HEAD''
                      then io_try (skipIfPRExists env wbc creds checkOutBranch (app_Namespace app) (app_Name app) changeList)
                      else io_return (Inr False))
                     (\<lambda>r. if r = Inr True then io_return ()
                        else
                          io_bind (commitChangesGit env ai changeList write)
                            (\<lambda>pr. if pr = None then io_fail (Message ''pull request structure is not initialized'')
                               else open_request env (wbc\<lparr>wb_PullRequest := pr\<rparr>) creds)))))"

section \<open>The state of an iteration\<close>

record SyncIterationState =
  sy_repositoryLocks :: "string list"
  sy_prCreated :: "string list"

definition NewSyncIterationState :: SyncIterationState where
  "NewSyncIterationState = \<lparr>sy_repositoryLocks = [], sy_prCreated = []\<rparr>"

definition MarkPRCreated :: "SyncIterationState \<Rightarrow> string \<Rightarrow> bool \<times> SyncIterationState" where
  "MarkPRCreated state targetKey =
     (if targetKey \<in> set (sy_prCreated state) then (False, state)
      else (True, state\<lparr>sy_prCreated := targetKey # sy_prCreated state\<rparr>))"

text \<open>A lock is identified by its repository.\<close>

definition GetRepositoryLock :: "SyncIterationState \<Rightarrow> string \<Rightarrow> string \<times> SyncIterationState" where
  "GetRepositoryLock state repository =
     (repository,
      if repository \<in> set (sy_repositoryLocks state) then state
      else state\<lparr>sy_repositoryLocks := repository # sy_repositoryLocks state\<rparr>)"

definition commitChanges :: "'w write_env \<Rightarrow> ApplicationImages \<Rightarrow> ChangeEntry list \<Rightarrow> ('w, unit) io" where
  "commitChanges env ai changeList =
     (let wbc = ai_WriteBackConfig ai
      in case wb_Method wbc of
           WriteBackApplication \<Rightarrow> we_UpdateSpec env (ai_Application ai)
         | WriteBackGit \<Rightarrow>
             (let write = (if wb_KustomizeBase wbc \<noteq> [] then writeKustomization env else writeOverrides env)
              in if wb_PRProvider wbc \<noteq> PRProviderUnsupported then commitChangesPR env ai changeList write
                 else io_bind (commitChangesGit env ai changeList write) (\<lambda>_. io_return ())))"

definition commitChangesLocked ::
  "'w write_env \<Rightarrow> ApplicationImages \<Rightarrow> SyncIterationState \<Rightarrow> ChangeEntry list \<Rightarrow>
   'w \<Rightarrow> ((git_error + unit) \<times> SyncIterationState) \<times> 'w" where
  "commitChangesLocked env ai state changeList w =
     (let wbc = ai_WriteBackConfig ai;
          state = (if RequiresLocking wbc then snd (GetRepositoryLock state (wb_GitRepo wbc)) else state);
          commit = (\<lambda>state. case commitChanges env ai changeList w of (r, w) \<Rightarrow> ((r, state), w))
      in if wb_PRProvider wbc \<noteq> PRProviderUnsupported then
           (case MarkPRCreated state (WriteBackTargetKey (we_os env) wbc) of
              (False, state) \<Rightarrow> ((Inr (), state), w)
            | (True, state) \<Rightarrow> commit state)
         else commit state)"

section \<open>Names of branches and requests\<close>

text \<open>
  A branch name made from a template is never longer than 255 bytes, whatever the template, the
  application and the changes are; a longer one is cut to its first 255.
\<close>

theorem branch_name_bounded:
  assumes "TemplateBranchName env branchName appNamespace appName targetKey changeList = Ret b"
  shows "length b \<le> 255 \<and>
    (b \<noteq> [] \<longrightarrow> (\<exists>d s. we_Template env branchName d = Some s \<and> b = take 255 s \<and>
       bd_TargetKey d = targetKey \<and> length (bd_Images d) = length changeList))"
proof -
  obtain cs where cs: "go_map (\<lambda>c. go_bind (new_tag c) (\<lambda>t. Ret (c, t))) changeList = Ret cs"
    using assms unfolding TemplateBranchName_def by (cases "go_map (\<lambda>c. go_bind (new_tag c) (\<lambda>t. Ret (c, t))) changeList") auto
  have "length ys = length xs" if "go_map f xs = Ret ys" for f :: "ChangeEntry \<Rightarrow> (ChangeEntry \<times> ImageTag) go" and xs ys
    using that
  proof (induction xs arbitrary: ys)
    case (Cons x xs)
    then show ?case by (cases "f x"; cases "go_map f xs") auto
  qed simp
  note len = this [OF cs]
  define d where "d = \<lparr>bd_AppNamespace = appNamespace, bd_AppName = appName, bd_TargetKey = targetKey,
      bd_Images = map (\<lambda>(c, t). (ImageName (ce_Image c), ImageAlias (ce_Image c), tag_String (ce_OldTag c), tag_String t)) cs,
      bd_SHA256 = sha256_hex (we_os env) (concat (map (\<lambda>(c, t). change_id c t) cs))\<rparr>"
  have "b = (case we_Template env branchName d of None \<Rightarrow> [] | Some s \<Rightarrow> take 255 s)"
    using assms unfolding TemplateBranchName_def cs go_bind.simps Let_def d_def by (auto split: option.splits)
  moreover have "bd_TargetKey d = targetKey" "length (bd_Images d) = length changeList" using len by (simp_all add: d_def)
  ultimately show ?thesis by (cases "we_Template env branchName d") auto
qed

section \<open>Only one request for a target\<close>


section \<open>Credentials from secrets\<close>

text \<open>
  Git credentials of a secret never come from another namespace: the result is the same whatever
  the secrets of the other namespaces are.
\<close>

theorem git_secret_of_own_namespace:
  assumes "\<And>name. kube namespace name = we_kube env namespace name"
  shows "getCredsFromSecret (env\<lparr>we_kube := kube\<rparr>) wbc credentialsSecret namespace = getCredsFromSecret env wbc credentialsSecret namespace"
proof -
  let ?s = "strings_SplitN credentialsSecret CHR ''/'' 2"
  have "?s ! 0 = namespace" if "length ?s = 2" "\<not> (length ?s = 2 \<and> ?s ! 0 \<noteq> namespace)" using that by blast
  then show ?thesis using assms by (auto simp: getCredsFromSecret_def Let_def GetSecretData_def)
qed

text \<open>
  A user name and a password from a secret switch off the verification of the server's certificate:
  the environment of every git command with such credentials has \<open>GIT_SSL_NO_VERIFY=true\<close>, and there is no
  field of the secret to prevent it.
\<close>

theorem secret_password_skips_tls:
  assumes "\<not> fst (IsSSHURL repo)" "IsHTTPSURL repo"
    and "map_of credentials ''githubAppID'' = None" "map_of credentials ''username'' = Some u" "map_of credentials ''password'' = Some p"
  shows "\<exists>c. creds_of_secret credentials repo = Inr c \<and>
    (\<forall>lib (w :: 'w) cl env w'. Environ lib c w = (Inr (cl, env), w') \<longrightarrow> ''GIT_SSL_NO_VERIFY=true'' \<in> set env)"
proof -
  let ?c = "NewHTTPSCreds u p [] [] True [] False"
  have "''GIT_SSL_NO_VERIFY=true'' \<in> set env" if "Environ lib ?c w = (Inr (cl, env), w')" for lib and w w' :: 'w and cl env
    using that by (auto simp: Environ_def NewHTTPSCreds_def HTTPSCreds_Environ_def client_cert_files_def io_defs ask_pass_def
        no_verify_env_def split: prod.splits)
  then show ?thesis using assms by (simp add: creds_of_secret_def) blast
qed

section \<open>A concrete environment\<close>

definition sample_scm :: "sys scm_lib" where
  "sample_scm =
     \<lparr>gh_PRCreate = (\<lambda>c o' r pr w. (Inr 1, w\<lparr>sys_log := sys_log w @ [[''create'', pull_head pr]]\<rparr>)),
      gh_AddLabels = (\<lambda>c o' r n ls w. w), gh_PRList = (\<lambda>c o' r h b w. (Inr 0, w)), gh_CreateRef = (\<lambda>c o' r b h w. (None, w)),
      gh_EnterpriseURLs = (\<lambda>b u. None), gh_GraphQL = (\<lambda>e t i w. (Answer 200 (Some (''oid'', [])), w)),
      lab_NewClient = (\<lambda>t b. None), lab_MRCreate = (\<lambda>c p pr w. (Inr 1, w)), lab_MRList = (\<lambda>c p h b w. (Inr 0, w))\<rparr>"

text \<open>A client that logs what it is asked to do.\<close>

definition logging :: "string list \<Rightarrow> (sys, unit) io" where
  "logging call w = (Inr (), w\<lparr>sys_log := sys_log w @ [call]\<rparr>)"

definition sample_gitC :: "sys Client" where
  "sample_gitC =
     \<lparr>cl_Root = ''/tmp/git-web'', cl_Init = logging [''init''], cl_ShallowFetch = (\<lambda>b n. logging [''fetch'', b]),
      cl_Checkout = (\<lambda>b s. logging [''checkout'', b]), cl_CommitSHA = (\<lambda>w. (Inr ''oid'', w)),
      cl_WorkingTreeChanges = (\<lambda>w. (Inr [], w)), cl_Commit = (\<lambda>p opts. logging [''commit'']),
      cl_Branch = (\<lambda>s t. logging [''branch'', t]), cl_Push = (\<lambda>r b f. logging [''push'', b, if f then ''force'' else []]), cl_Add = (\<lambda>p. logging [''add'', p]),
      cl_SymRefToBranch = (\<lambda>r w. (Inr ''main'', w)), cl_Config = (\<lambda>u e. logging [''config''])\<rparr>"

definition sample_url :: url where
  "sample_url = \<lparr>u_Scheme = ''https'', u_Host = ''github.com'', u_Hostname = ''github.com'', u_Port = [], u_Path = ''/org/repo'',
     u_User = None, u_String = ''https://github.com/org/repo''\<rparr>"

definition sample_write :: "sys write_env" where
  "sample_write =
     \<lparr>we_git = sample_git\<lparr>gl_os := sample_os\<lparr>url_Parse := (\<lambda>u. Some sample_url)\<rparr>\<rparr>, we_scm = sample_scm, we_yaml = sample_yaml, we_kyaml = sample_kyaml,
      we_argo = sample_argo, we_ref = (\<lambda>_. None),
      we_kube = (\<lambda>ns name. Inr [(''username'', ''bot''), (''password'', ''token'')]), we_db = None,
      we_Template = (\<lambda>t d. Some (''image-updater-'' @ bd_TargetKey d @ ''-'' @ bd_SHA256 d)), we_GitClient = Some sample_gitC,
      we_UpdateSpec = (\<lambda>app. logging [''update-spec'']), we_GoogleCredentials = Some\<rparr>"

definition sample_git_wbc :: WriteBackConfig where
  "sample_git_wbc = sample_wbc\<lparr>wb_Method := WriteBackGit, wb_GetCreds := Some (CredsFromSecret ''git-creds'' ''argocd''),
     wb_GitBranch := ''main'', wb_GitRepo := ''https://github.com/org/repo'', wb_PRProvider := PRProviderGitHub\<rparr>"

definition sample_git_ai :: ApplicationImages where
  "sample_git_ai = sample_two_aliases\<lparr>ai_WriteBackConfig := sample_git_wbc\<rparr>"

definition sample_change :: ChangeEntry where
  "sample_change = \<lparr>ce_Image = sample_new, ce_OldTag = NewImageTag ''1.0'' 0 [], ce_NewTag = ImageTag sample_new\<rparr>"

definition empty_sys :: sys where
  "empty_sys = \<lparr>sys_files = [], sys_nonces = [], sys_log = []\<rparr>"

theorem branch_name_bounded_witness:
  "\<exists>b. TemplateBranchName sample_write ''{{.SHA256}}'' ''argocd'' ''web'' (replicate 300 CHR ''k'') [sample_change] = Ret b \<and> length b = 255"
proof -
  let ?t = "TemplateBranchName sample_write ''{{.SHA256}}'' ''argocd'' ''web'' (replicate 300 CHR ''k'') [sample_change]"
  have "\<exists>b. ?t = Ret b \<and> 255 \<le> length b"
    by (simp add: TemplateBranchName_def new_tag_def sample_change_def sample_new_def sample_write_def Let_def)
  then obtain b where b: "?t = Ret b" "255 \<le> length b" by blast
  with branch_name_bounded [OF b(1)] show ?thesis by auto
qed


theorem git_secret_of_own_namespace_witness:
  "getCredsFromSecret (sample_write\<lparr>we_kube := (\<lambda>ns name. if ns = ''argocd'' then we_kube sample_write ns name else Inl ''forbidden'')\<rparr>)
     sample_git_wbc ''git-creds'' ''argocd'' = getCredsFromSecret sample_write sample_git_wbc ''git-creds'' ''argocd''"
  by (rule git_secret_of_own_namespace) simp

theorem secret_password_skips_tls_witness:
  "\<exists>c. creds_of_secret [(''username'', ''bot''), (''password'', ''token'')] ''https://github.com/org/repo'' = Inr c \<and>
    (\<forall>lib (w :: sys) cl env w'. Environ lib c w = (Inr (cl, env), w') \<longrightarrow> ''GIT_SSL_NO_VERIFY=true'' \<in> set env)"
proof -
  let ?c = "[(''username'', ''bot''), (''password'', ''token'')]" and ?repo = "''https://github.com/org/repo''"
  have "\<not> fst (IsSSHURL ?repo)" "IsHTTPSURL ?repo" "map_of ?c ''githubAppID'' = None" "map_of ?c ''username'' = Some ''bot''"
    "map_of ?c ''password'' = Some ''token''" by code_simp+
  then show ?thesis by (rule secret_password_skips_tls)
qed

section \<open>The order of git operations\<close>

text \<open>What a client has been asked to do, as far as it matters here.\<close>

datatype git_call = CallCheckout string | CallCommit | CallPush string bool | CallOther

definition appends :: "('w \<Rightarrow> git_call list) \<Rightarrow> ('w, 'a) io \<Rightarrow> git_call \<Rightarrow> bool" where
  "appends trace m c = (\<forall>w. trace (snd (m w)) = trace w @ [c])"

definition silent :: "('w \<Rightarrow> git_call list) \<Rightarrow> ('w, 'a) io \<Rightarrow> bool" where
  "silent trace m = (\<forall>w. trace (snd (m w)) = trace w)"

definition ends :: "('w \<Rightarrow> git_call list) \<Rightarrow> ('w, 'a) io \<Rightarrow> (git_call list \<Rightarrow> bool) \<Rightarrow> bool" where
  "ends trace m P = (\<forall>w. \<exists>ts. trace (snd (m w)) = trace w @ ts \<and> P ts)"

definition no_push :: "git_call list \<Rightarrow> bool" where
  "no_push ts = (\<forall>b f. CallPush b f \<notin> set ts)"

definition pushes :: "string \<Rightarrow> git_call list \<Rightarrow> bool" where
  "pushes b ts = (no_push ts \<or> (\<exists>u f. ts = u @ [CallCommit, CallPush b f] \<and> no_push u))"

definition push_last :: "git_call list \<Rightarrow> bool" where
  "push_last ts = (no_push ts \<or> (\<exists>u b f. ts = u @ [CallCommit, CallPush b f] \<and> no_push u \<and> CallCheckout b \<in> set u))"

definition client_traced :: "('w \<Rightarrow> git_call list) \<Rightarrow> 'w Client \<Rightarrow> bool" where
  "client_traced trace c =
     (appends trace (cl_Init c) CallOther \<and> (\<forall>b n. appends trace (cl_ShallowFetch c b n) CallOther) \<and>
      (\<forall>b s. appends trace (cl_Checkout c b s) (CallCheckout b)) \<and> (\<forall>p opts. appends trace (cl_Commit c p opts) CallCommit) \<and>
      (\<forall>r b f. appends trace (cl_Push c r b f) (CallPush b f)) \<and> (\<forall>s t. appends trace (cl_Branch c s t) CallOther) \<and>
      (\<forall>s. silent trace (cl_SymRefToBranch c s)) \<and> (\<forall>u e. appends trace (cl_Config c u e) CallOther))"

lemma no_push_simps [simp]:
  "no_push []" "no_push (CallOther # ts) = no_push ts" "no_push (xs @ ys) = (no_push xs \<and> no_push ys)"
  "no_push (CallCommit # ts) = no_push ts" "no_push (CallCheckout b # ts) = no_push ts" "\<not> no_push (CallPush b f # ts)"
  by (auto simp: no_push_def)

lemma silent_ends: "silent trace m \<Longrightarrow> P [] \<Longrightarrow> ends trace m P"
  by (auto simp: silent_def ends_def)

lemma appends_ends: "appends trace m c \<Longrightarrow> P [c] \<Longrightarrow> ends trace m P"
  by (auto simp: appends_def ends_def)

lemma ends_mono: "ends trace m P \<Longrightarrow> (\<And>ts. P ts \<Longrightarrow> Q ts) \<Longrightarrow> ends trace m Q"
  by (auto simp: ends_def)

lemma ends_bind:
  assumes "ends trace m P" "\<And>x. ends trace (f x) Q" "\<And>s. P s \<Longrightarrow> R s" "\<And>s t. P s \<Longrightarrow> Q t \<Longrightarrow> R (s @ t)"
  shows "ends trace (io_bind m f) R"
  unfolding ends_def
proof
  fix w
  obtain s where s: "trace (snd (m w)) = trace w @ s" "P s" using assms(1) by (auto simp: ends_def)
  obtain r w1 where m: "m w = (r, w1)" by force
  show "\<exists>ts. trace (snd (io_bind m f w)) = trace w @ ts \<and> R ts"
  proof (cases r)
    case (Inl e)
    with m s assms(3) show ?thesis by (auto simp: io_bind_def)
  next
    case (Inr x)
    obtain t where "trace (snd (f x w1)) = trace w1 @ t" "Q t" using assms(2) [of x] by (auto simp: ends_def)
    with m s Inr assms(4) show ?thesis by (auto simp: io_bind_def)
  qed
qed

lemma ends_pure:
  "P [] \<Longrightarrow> ends trace (io_return x) P" "P [] \<Longrightarrow> ends trace (io_fail e) P" "P [] \<Longrightarrow> ends trace (io_lift r) P"
  "P [] \<Longrightarrow> ends trace (io_go g) P"
  by (auto simp: ends_def io_defs io_go_def split: go.split)

lemma ends_wrap: "ends trace m P \<Longrightarrow> ends trace (io_wrap c m) P"
proof -
  have "snd (io_wrap c m w) = snd (m w)" for w by (auto simp: io_wrap_def split: prod.splits sum.splits)
  then show "ends trace m P \<Longrightarrow> ?thesis" by (simp add: ends_def)
qed

lemma ends_try: "ends trace m P \<Longrightarrow> ends trace (io_try m) P"
proof -
  have "snd (io_try m w) = snd (m w)" for w by (auto simp: io_try_def split: prod.splits)
  then show "ends trace m P \<Longrightarrow> ?thesis" by (simp add: ends_def)
qed

lemma ends_finally: "ends trace m P \<Longrightarrow> silent trace c \<Longrightarrow> ends trace (io_finally m c) P"
  by (auto simp: ends_def silent_def io_finally_def split: prod.splits) (metis snd_conv)

lemmas ends_no_push = ends_bind [where P = no_push and Q = no_push and R = no_push]
lemmas ends_then = ends_bind [where P = no_push]

lemma pushes_append: "no_push s \<Longrightarrow> pushes b t \<Longrightarrow> pushes b (s @ t)"
  unfolding pushes_def by (metis append_assoc no_push_simps(3))

lemma push_last_append: "no_push s \<Longrightarrow> push_last t \<Longrightarrow> push_last (s @ t)"
  unfolding push_last_def by (metis UnCI append_assoc no_push_simps(3) set_append)

lemma pushes_checkout: "pushes b t \<Longrightarrow> push_last (CallCheckout b # t)"
  unfolding pushes_def push_last_def by (metis append_Cons list.set_intros(1) no_push_simps(5))

lemma client_ends:
  assumes "client_traced trace c"
  shows "ends trace (cl_Init c) no_push" "ends trace (cl_ShallowFetch c b n) no_push" "ends trace (cl_Branch c s t) no_push"
    "ends trace (cl_SymRefToBranch c s) no_push" "ends trace (cl_Config c u e) no_push"
    "ends trace (cl_Checkout c b sub) (\<lambda>ts. ts = [CallCheckout b])" "ends trace (cl_Commit c p opts) (\<lambda>ts. ts = [CallCommit])"
    "ends trace (cl_Push c r b f) (\<lambda>ts. ts = [CallPush b f])"
  using assms unfolding client_traced_def appends_def silent_def ends_def by simp_all

lemma commit_and_push_traced:
  assumes c: "client_traced trace gitC"
    and os: "\<And>d p. silent trace (os_CreateTemp (we_os env) d p)" "\<And>f s. silent trace (os_WriteFile (we_os env) f s)"
      "\<And>f. silent trace (os_Remove (we_os env) f)"
  shows "ends trace (commit_and_push env wbc gitC checkOutBranch b) (pushes b)"
proof -
  have commit: "ends trace (io_bind (cl_Commit gitC p opts) (\<lambda>_. cl_Push gitC r b f)) (pushes b)" for p opts r f
  proof (rule ends_bind [where P = "\<lambda>ts. ts = [CallCommit]" and Q = "\<lambda>ts. ts = [CallPush b f]"])
    show "ends trace (cl_Commit gitC p opts) (\<lambda>ts. ts = [CallCommit])" "ends trace (cl_Push gitC r b f) (\<lambda>ts. ts = [CallPush b f])"
      by (rule client_ends [OF c])+
    show "pushes b s" if "s = [CallCommit]" for s using that by (simp add: pushes_def)
    show "pushes b (s @ t)" if "s = [CallCommit]" "t = [CallPush b f]" for s t
      unfolding pushes_def using that by (intro disjI2 exI [of _ "[]"] exI [of _ f]) simp
  qed
  note step = ends_bind [where P = no_push and Q = "pushes b" and R = "pushes b"]
  have np: "no_push s \<Longrightarrow> pushes b s" for s by (simp add: pushes_def)
  show ?thesis
    unfolding commit_and_push_def Let_def
    by (auto intro!: step [OF _ _ np pushes_append] client_ends(5) [OF c] ends_pure commit ends_wrap ends_finally os
        intro: silent_ends os)
qed


definition call_of :: "string list \<Rightarrow> git_call" where
  "call_of l =
     (if l = [''commit''] then CallCommit
      else if length l = 3 \<and> hd l = ''push'' then CallPush (l ! 1) (l ! 2 = ''force'')
      else if length l = 2 \<and> hd l = ''checkout'' then CallCheckout (l ! 1) else CallOther)"


text \<open>
  A request is opened even when there was nothing to commit.  When no request for the branch is open
  and the writer reports that the files are as they should be, nothing is committed or pushed, and yet
  \<open>commitChangesPR\<close> goes on to open a request from the branch - which may not even exist on the remote.
\<close>

theorem skipped_commit_opens_request:
  fixes ai :: ApplicationImages
  defines "wbc \<equiv> ai_WriteBackConfig ai" and "app \<equiv> ai_Application ai"
  assumes "GetCreds env ai = Inr creds" "SCMToken (we_os env) creds = Some tokenProvider"
    and "wb_GitBranch wbc \<noteq> []" "wb_GitBranch wbc \<noteq> ''HEAD''" "wb_PRProvider wbc \<noteq> PRProviderUnsupported"
    and "skipIfPRExists env wbc creds (wb_GitBranch wbc) (app_Namespace app) (app_Name app) changeList w = (r, w0)" "r \<noteq> Inr True"
    and "we_GitClient env = Some gitC" "cl_Init gitC w0 = (Inr (), w1)"
    and "TemplateBranchName env PRBranchTemplate (app_Namespace app) (app_Name app) (WriteBackTargetKey (we_os env) wbc) changeList = Ret b" "b \<noteq> []"
    and "fetch_branches gitC (wb_GitBranch wbc) b w1 = (Inr created, w2)" "cl_Checkout gitC b False w2 = (Inr (), w3)"
    and "\<And>a. wr a gitC w3 = (Inr True, w4)"
  shows "commitChangesPR env ai changeList wr w =
    open_request env (wbc\<lparr>wb_PullRequest := Some (buildPullRequest wbc (app_Namespace app) (app_Name app) (wb_GitBranch wbc) b)\<rparr>) creds w4"
proof -
  have "commit_with_client env ai changeList wr creds gitC w0 =
      (Inr (Some (buildPullRequest wbc (app_Namespace app) (app_Name app) (wb_GitBranch wbc) b)), w4)"
    using assms(5-7,11-16) unfolding wbc_def app_def
    by (simp add: commit_with_client_def checkout_branch_def push_branch_def io_bind_def io_return_def io_go_def Let_def)
  then show ?thesis
    using assms(3-6,8-10) unfolding wbc_def app_def
    by (simp add: commitChangesPR_def commitChangesGit_def io_bind_def io_return_def io_try_def io_wrap_def io_lift_def Let_def)
qed

definition sample_branch :: string where
  "sample_branch = ''image-updater-https://-org/web-1.0-1.1,''"

theorem skipped_commit_opens_request_witness:
  "commitChangesPR sample_write sample_git_ai [sample_change] (\<lambda>a c. io_return True) empty_sys =
   open_request sample_write (sample_git_wbc\<lparr>wb_PullRequest := Some (buildPullRequest sample_git_wbc ''argocd'' ''web'' ''main'' sample_branch)\<rparr>)
     (NewHTTPSCreds ''bot'' ''token'' [] [] True [] False)
     (empty_sys\<lparr>sys_log := [[''init''], [''fetch'', sample_branch], [''checkout'', sample_branch]]\<rparr>)"
proof -
  let ?ai = sample_git_ai and ?env = sample_write and ?creds = "NewHTTPSCreds ''bot'' ''token'' [] [] True [] False"
  let ?wbc = "ai_WriteBackConfig ?ai" and ?app = "ai_Application ?ai"
  have simps: "?wbc = sample_git_wbc" "app_Namespace ?app = ''argocd''" "app_Name ?app = ''web''" "wb_GitBranch sample_git_wbc = ''main''"
    by (simp_all add: sample_git_ai_def sample_two_aliases_def sample_app_def sample_git_wbc_def)
  have 1: "GetCreds ?env ?ai = Inr ?creds" by code_simp
  have 2: "SCMToken (we_os ?env) ?creds = Some (io_return ''token'')" by (simp add: SCMToken_def NewHTTPSCreds_def)
  have 3: "wb_GitBranch ?wbc \<noteq> []" "wb_GitBranch ?wbc \<noteq> ''HEAD''" "wb_PRProvider ?wbc \<noteq> PRProviderUnsupported" by code_simp+
  have 4: "skipIfPRExists ?env ?wbc ?creds (wb_GitBranch ?wbc) (app_Namespace ?app) (app_Name ?app) [sample_change] empty_sys = (Inr False, empty_sys)"
    by code_simp
  have 5: "we_GitClient ?env = Some sample_gitC" by (simp add: sample_write_def)
  have 6: "cl_Init sample_gitC empty_sys = (Inr (), empty_sys\<lparr>sys_log := [[''init'']]\<rparr>)" by code_simp
  have 7: "TemplateBranchName ?env PRBranchTemplate (app_Namespace ?app) (app_Name ?app) (WriteBackTargetKey (we_os ?env) ?wbc) [sample_change] = Ret sample_branch"
    by code_simp
  have 8: "sample_branch \<noteq> []" by code_simp
  have 9: "fetch_branches sample_gitC (wb_GitBranch ?wbc) sample_branch (empty_sys\<lparr>sys_log := [[''init'']]\<rparr>) =
      (Inr False, empty_sys\<lparr>sys_log := [[''init''], [''fetch'', sample_branch]]\<rparr>)" by code_simp
  have 10: "cl_Checkout sample_gitC sample_branch False (empty_sys\<lparr>sys_log := [[''init''], [''fetch'', sample_branch]]\<rparr>) =
      (Inr (), empty_sys\<lparr>sys_log := [[''init''], [''fetch'', sample_branch], [''checkout'', sample_branch]]\<rparr>)" by code_simp
  have "Inr False \<noteq> (Inr True :: git_error + bool)" by simp
  from skipped_commit_opens_request [where wr = "\<lambda>a c. io_return True", OF 1 2 3 4 this 5 6 7 8 9 10 io_return_def]
  show ?thesis unfolding simps .
qed

end
