(* ===== verification/HttpErrors.thy ===== *)
theory HttpErrors
  imports Prelude
begin

text \<open>
  How the registry client reads failed HTTP responses: the parser of \<open>WWW-Authenticate\<close> headers
  (\<open>registry-scanner/pkg/registry/internal/client/auth/challenge/authchallenge.go\<close>), the typed errors
  (\<open>registry-scanner/pkg/registry/internal/client/errors.go\<close>) and the test for authentication failures
  (\<open>registry-scanner/pkg/registry/client.go\<close>).  JSON decoding and \<open>mime.ParseMediaType\<close> are parameters.
\<close>

section \<open>Octets\<close>

definition separators :: string where
  "separators = [CHR '' '', CHR 0x09, CHR 0x22] @ ''(),/:;<=>?@[]'' @ [CHR 0x5C] @ ''{}''"

definition isSpace :: "char \<Rightarrow> bool" where
  "isSpace c = (c \<in> {CHR '' '', CHR 0x09, CHR 0x0D, CHR 0x0A})"

definition isToken :: "char \<Rightarrow> bool" where
  "isToken c =
     (let n = (of_char c :: nat); isCtl = n \<le> 31 \<or> n = 127; isChar = n \<le> 127
      in isChar \<and> \<not> isCtl \<and> c \<notin> set separators)"

definition skipSpace :: "string \<Rightarrow> string" where
  "skipSpace s = dropWhile isSpace s"

definition expectToken :: "string \<Rightarrow> string \<times> string" where
  "expectToken s = (takeWhile isToken s, dropWhile isToken s)"

text \<open>The loop after the first backslash of a quoted string; \<open>p\<close> is the buffer filled so far.\<close>

fun escaped_loop :: "string \<Rightarrow> bool \<Rightarrow> string \<Rightarrow> string \<times> string" where
  "escaped_loop p escape [] = ([], [])"
| "escaped_loop p escape (b # s) =
     (if escape then escaped_loop (p @ [b]) False s
      else if b = CHR 0x5C then escaped_loop p True s
      else if b = CHR 0x22 then (p, s)
      else escaped_loop (p @ [b]) False s)"

fun quoted_loop :: "string \<Rightarrow> string \<Rightarrow> string \<times> string" where
  "quoted_loop p [] = ([], [])"
| "quoted_loop p (c # s) =
     (if c = CHR 0x22 then (p, s)
      else if c = CHR 0x5C then escaped_loop p True s
      else quoted_loop (p @ [c]) s)"

definition expectTokenOrQuoted :: "string \<Rightarrow> string \<times> string" where
  "expectTokenOrQuoted s =
     (if \<not> strings_HasPrefix s [CHR 0x22] then expectToken s else quoted_loop [] (tl s))"

lemma length_expectToken: "length (snd (expectToken s)) \<le> length s"
  by (simp add: expectToken_def length_dropWhile_le)

lemma length_skipSpace: "length (skipSpace s) \<le> length s"
  by (simp add: skipSpace_def length_dropWhile_le)

lemma length_escaped_loop: "length (snd (escaped_loop p e s)) \<le> length s"
  by (induction p e s rule: escaped_loop.induct) (auto intro: le_SucI)

lemma length_quoted_loop: "length (snd (quoted_loop p s)) \<le> length s"
  by (induction p s rule: quoted_loop.induct) (auto intro: le_SucI length_escaped_loop)

lemma length_expectTokenOrQuoted: "length (snd (expectTokenOrQuoted s)) \<le> length s"
  using length_expectToken [of s] length_quoted_loop [of "[]" "tl s"]
  by (auto simp: expectTokenOrQuoted_def)

section \<open>Challenges\<close>

function params_loop :: "string \<Rightarrow> (string, string) gomap \<Rightarrow> (string, string) gomap" where
  "params_loop s params =
     (if strings_HasPrefix s '','' then
        (let (pkey, s1) = expectToken (skipSpace (tl s))
         in if pkey = [] then params
            else if \<not> strings_HasPrefix s1 ''='' then params
            else
              (let (pvalue, s2) = expectTokenOrQuoted (tl s1)
               in if pvalue = [] then params
                  else params_loop (skipSpace s2) (gomap_put (strings_ToLower pkey) pvalue params)))
      else params)"
  by pat_completeness auto
termination
proof (relation "measure (length \<circ> fst)", goal_cases)
  case (2 s params p pkey s1 q pvalue s2)
  have "length s1 \<le> length (skipSpace (tl s))"
    using length_expectToken [of "skipSpace (tl s)"] 2 by (metis snd_conv)
  moreover have "length s2 \<le> length (tl s1)"
    using length_expectTokenOrQuoted [of "tl s1"] 2 by (metis snd_conv)
  moreover have "s \<noteq> []" using 2 by (auto simp: strings_HasPrefix_def)
  ultimately have "length (skipSpace s2) < length s"
    using length_skipSpace [of s2] length_skipSpace [of "tl s"] by (cases s) auto
  then show ?case by simp
qed simp

declare params_loop.simps [simp del]

definition parseValueAndParams :: "string \<Rightarrow> string \<times> (string, string) gomap" where
  "parseValueAndParams header =
     (let (value, s) = expectToken header
      in if value = [] then ([], [])
         else (strings_ToLower value, params_loop ('','' @ skipSpace s) []))"

record Challenge =
  Scheme :: string
  Parameters :: "(string, string) gomap"

text \<open>A response: its status, its headers \<open>WWW-Authenticate\<close> and \<open>Content-Type\<close>, and its body.\<close>

record http_response =
  StatusCode :: int
  Status :: string
  WWWAuthenticate :: "string list"
  ContentType :: string
  Body :: "string option"

definition parseAuthHeader :: "string list \<Rightarrow> Challenge list" where
  "parseAuthHeader headers =
     List.map_filter (\<lambda>h. case parseValueAndParams h of
        (v, p) \<Rightarrow> if v \<noteq> [] then Some \<lparr>Scheme = v, Parameters = p\<rparr> else None) headers"

definition ResponseChallenges :: "http_response \<Rightarrow> Challenge list" where
  "ResponseChallenges resp = (if StatusCode resp = 401 then parseAuthHeader (WWWAuthenticate resp) else [])"

section \<open>Errors\<close>

datatype errcode =
  ErrorCodeUnauthorized | ErrorCodeDenied | ErrorCodeTooManyRequests | ErrorCodeUnknown | OtherErrorCode string

text \<open>
  The errors of the client: an \<open>errcode.Error\<close> with its message, a bare \<open>errcode.ErrorCode\<close>, a list
  \<open>errcode.Errors\<close>, the two types of this package, any other error, and an error wrapped with \<open>%w\<close>.
\<close>

datatype go_error =
  ErrText string
| ErrWrap string go_error
| ErrcodeError errcode string
| ErrcodeCode errcode
| ErrcodeErrors "go_error list"
| UnexpectedHTTPStatusError string
| UnexpectedHTTPResponseError int string

record http_lib =
  mime_ParseMediaType :: "string \<Rightarrow> string option"
  unmarshal_details :: "string \<Rightarrow> string option"
  unmarshal_errors :: "string \<Rightarrow> go_error list option"
  errcode_Message :: "errcode \<Rightarrow> string"

definition makeError :: "int \<Rightarrow> string \<Rightarrow> go_error" where
  "makeError statusCode details =
     (if statusCode = 401 then ErrcodeError ErrorCodeUnauthorized details
      else if statusCode = 403 then ErrcodeError ErrorCodeDenied details
      else if statusCode = 429 then ErrcodeError ErrorCodeTooManyRequests details
      else ErrcodeError ErrorCodeUnknown details)"

definition parseHTTPErrorResponse :: "http_lib \<Rightarrow> http_response \<Rightarrow> go_error" where
  "parseHTTPErrorResponse lib resp =
     (case Body resp of
        None \<Rightarrow> ErrText ''read''
      | Some body \<Rightarrow>
          (let statusCode = StatusCode resp
           in if body = [] then makeError statusCode []
              else if ContentType resp = [] then makeError statusCode body
              else
                (case mime_ParseMediaType lib (ContentType resp) of
                   None \<Rightarrow> ErrText ''failed parsing content-type''
                 | Some contentType \<Rightarrow>
                     (if contentType \<noteq> ''application/json'' \<and> contentType \<noteq> ''application/vnd.api+json''
                      then makeError statusCode body
                      else
                        (case unmarshal_details lib body of
                           Some (d # ds) \<Rightarrow> makeError statusCode (d # ds)
                         | _ \<Rightarrow>
                             (case unmarshal_errors lib body of
                                None \<Rightarrow> UnexpectedHTTPResponseError statusCode body
                              | Some errs \<Rightarrow>
                                  (if errs = [] then UnexpectedHTTPResponseError statusCode body
                                   else ErrcodeErrors errs)))))))"

definition makeErrorList :: "go_error \<Rightarrow> go_error list" where
  "makeErrorList err = (case err of ErrcodeErrors errL \<Rightarrow> errL | _ \<Rightarrow> [err])"

definition mergeErrors :: "go_error \<Rightarrow> go_error \<Rightarrow> go_error" where
  "mergeErrors err1 err2 = ErrcodeErrors (makeErrorList err1 @ makeErrorList err2)"

text \<open>The error of a bearer challenge, if its parameter \<open>error\<close> has one of the two known values.\<close>

definition challenge_error :: "http_lib \<Rightarrow> Challenge \<Rightarrow> go_error option" where
  "challenge_error lib c =
     (if Scheme c \<noteq> ''bearer'' then None
      else
        (let message = (\<lambda>code.
               (case map_of (Parameters c) ''error_description'' of
                  Some (d # ds) \<Rightarrow> d # ds
                | _ \<Rightarrow> errcode_Message lib code))
         in if map_of (Parameters c) ''error'' = Some ''invalid_token''
            then Some (ErrcodeError ErrorCodeUnauthorized (message ErrorCodeUnauthorized))
            else if map_of (Parameters c) ''error'' = Some ''insufficient_scope''
            then Some (ErrcodeError ErrorCodeDenied (message ErrorCodeDenied))
            else None))"

definition HandleHTTPResponseError :: "http_lib \<Rightarrow> http_response \<Rightarrow> go_error option" where
  "HandleHTTPResponseError lib resp =
     (if 200 \<le> StatusCode resp \<and> StatusCode resp \<le> 399 then None
      else if 400 \<le> StatusCode resp \<and> StatusCode resp < 500 then
        (case List.map_filter (challenge_error lib) (ResponseChallenges resp) of
           err # _ \<Rightarrow> Some (mergeErrors err (parseHTTPErrorResponse lib resp))
         | [] \<Rightarrow>
             (let err = parseHTTPErrorResponse lib resp
              in case err of
                   UnexpectedHTTPResponseError _ body \<Rightarrow>
                     (if StatusCode resp = 401
                      then Some (ErrcodeError ErrorCodeUnauthorized (errcode_Message lib ErrorCodeUnauthorized))
                      else Some err)
                 | _ \<Rightarrow> Some err))
      else Some (UnexpectedHTTPStatusError (Status resp)))"

definition HandleErrorResponse :: "http_lib \<Rightarrow> http_response \<Rightarrow> go_error option" where
  "HandleErrorResponse lib resp =
     (if 200 \<le> StatusCode resp \<and> StatusCode resp \<le> 399
      then Some (UnexpectedHTTPStatusError (Status resp))
      else HandleHTTPResponseError lib resp)"

definition SuccessStatus :: "int \<Rightarrow> bool" where
  "SuccessStatus status = (200 \<le> status \<and> status \<le> 399)"

section \<open>Authentication failures\<close>

text \<open>
  \<open>errors.As\<close>: the first error of the chain that a selector accepts.  Unwrapping follows \<open>%w\<close> and leads
  from an \<open>errcode.Error\<close> to its code; \<open>unwraps\<close> says whether the list type exposes its elements.
\<close>

fun first_some :: "'a option list \<Rightarrow> 'a option" where
  "first_some [] = None"
| "first_some (x # xs) = (case x of Some v \<Rightarrow> Some v | None \<Rightarrow> first_some xs)"

fun errors_As :: "bool \<Rightarrow> (go_error \<Rightarrow> 'a option) \<Rightarrow> go_error \<Rightarrow> 'a option" where
  "errors_As unwraps sel (ErrWrap m e) =
     (case sel (ErrWrap m e) of Some x \<Rightarrow> Some x | None \<Rightarrow> errors_As unwraps sel e)"
| "errors_As unwraps sel (ErrcodeError c m) =
     (case sel (ErrcodeError c m) of Some x \<Rightarrow> Some x | None \<Rightarrow> sel (ErrcodeCode c))"
| "errors_As unwraps sel (ErrcodeErrors es) =
     (case sel (ErrcodeErrors es) of
        Some x \<Rightarrow> Some x
      | None \<Rightarrow> if unwraps then first_some (map (errors_As unwraps sel) es) else None)"
| "errors_As unwraps sel e = sel e"

definition sel_response :: "go_error \<Rightarrow> int option" where
  "sel_response e = (case e of UnexpectedHTTPResponseError code _ \<Rightarrow> Some code | _ \<Rightarrow> None)"

definition sel_status :: "go_error \<Rightarrow> string option" where
  "sel_status e = (case e of UnexpectedHTTPStatusError s \<Rightarrow> Some s | _ \<Rightarrow> None)"

definition sel_errors :: "go_error \<Rightarrow> go_error list option" where
  "sel_errors e = (case e of ErrcodeErrors es \<Rightarrow> Some es | _ \<Rightarrow> None)"

definition sel_error :: "go_error \<Rightarrow> errcode option" where
  "sel_error e = (case e of ErrcodeError c _ \<Rightarrow> Some c | _ \<Rightarrow> None)"

definition IsAuthError :: "bool \<Rightarrow> go_error option \<Rightarrow> bool" where
  "IsAuthError unwraps err =
     (case err of
        None \<Rightarrow> False
      | Some err \<Rightarrow>
          (case errors_As unwraps sel_response err of
             Some code \<Rightarrow> code = 401 \<or> code = 403
           | None \<Rightarrow>
               (case errors_As unwraps sel_status err of
                  Some status \<Rightarrow> strings_Contains status ''401'' \<or> strings_Contains status ''403''
                | None \<Rightarrow>
                    (case errors_As unwraps sel_errors err of
                       Some errs \<Rightarrow>
                         list_ex (\<lambda>e. case errors_As unwraps sel_error e of
                                        Some c \<Rightarrow> c = ErrorCodeUnauthorized \<or> c = ErrorCodeDenied
                                      | None \<Rightarrow> False) errs
                     | None \<Rightarrow> False))))"

section \<open>Reading back a printed challenge\<close>

text \<open>A quoted string: quotes and backslashes are escaped.\<close>

definition escape_quoted :: "string \<Rightarrow> string" where
  "escape_quoted v = concat (map (\<lambda>c. if c = CHR 0x22 \<or> c = CHR 0x5C then [CHR 0x5C, c] else [c]) v)"

definition print_param :: "string \<times> string \<Rightarrow> string" where
  "print_param = (\<lambda>(k, v). k @ [CHR ''='', CHR 0x22] @ escape_quoted v @ [CHR 0x22])"

definition print_challenge :: "Challenge \<Rightarrow> string" where
  "print_challenge c = Scheme c @ '' '' @ strings_Join (map print_param (Parameters c)) '',''"

definition lower_token :: "string \<Rightarrow> bool" where
  "lower_token s = (s \<noteq> [] \<and> list_all isToken s \<and> strings_ToLower s = s)"

definition challenge_wf :: "Challenge \<Rightarrow> bool" where
  "challenge_wf c =
     (lower_token (Scheme c) \<and> gomap_wf (Parameters c) \<and>
      (\<forall>(k, v) \<in> set (Parameters c). lower_token k \<and> v \<noteq> []))"

lemma escaped_loop_escape:
  "escaped_loop p False (escape_quoted v @ CHR 0x22 # rest) = (p @ v, rest)"
  by (induction v arbitrary: p) (auto simp: escape_quoted_def)

lemma quoted_loop_escape: "quoted_loop p (escape_quoted v @ CHR 0x22 # rest) = (p @ v, rest)"
proof (induction v arbitrary: p)
  case (Cons c v)
  show ?case
  proof (cases "c = CHR 0x22 \<or> c = CHR 0x5C")
    case True
    then have "quoted_loop p (escape_quoted (c # v) @ CHR 0x22 # rest) =
        escaped_loop (p @ [c]) False (escape_quoted v @ CHR 0x22 # rest)"
      by (auto simp: escape_quoted_def)
    then show ?thesis by (simp add: escaped_loop_escape)
  next
    case False
    then show ?thesis using Cons [of "p @ [c]"] by (simp add: escape_quoted_def)
  qed
qed (simp add: escape_quoted_def)

lemma expectToken_append:
  assumes "list_all isToken t" "\<not> isToken c"
  shows "expectToken (t @ c # rest) = (t, c # rest)"
  using assms by (induction t) (auto simp: expectToken_def)

lemma token_chars [simp]: "\<not> isToken CHR ''=''" "\<not> isToken CHR '' ''" "\<not> isToken CHR '',''"
  by (simp_all add: isToken_def separators_def)

lemma skipSpace_token: "list_all isToken t \<Longrightarrow> t \<noteq> [] \<Longrightarrow> skipSpace (t @ rest) = t @ rest"
  by (cases t) (auto simp: skipSpace_def isSpace_def isToken_def separators_def)

lemma params_loop_param:
  assumes "lower_token k" "v \<noteq> []"
  shows "params_loop (CHR '','' # print_param (k, v) @ rest) params =
    params_loop (skipSpace rest) (gomap_put k v params)"
proof -
  let ?tail = "CHR 0x22 # escape_quoted v @ CHR 0x22 # rest"
  have tok: "list_all isToken k" "k \<noteq> []" "strings_ToLower k = k" using assms(1) by (auto simp: lower_token_def)
  have "skipSpace (print_param (k, v) @ rest) = k @ CHR ''='' # ?tail"
    using skipSpace_token [OF tok(1,2)] by (simp add: print_param_def)
  then have key: "expectToken (skipSpace (print_param (k, v) @ rest)) = (k, CHR ''='' # ?tail)"
    using expectToken_append [OF tok(1)] by simp
  have val: "expectTokenOrQuoted ?tail = (v, rest)"
    using quoted_loop_escape [of "[]" v rest] by (simp add: expectTokenOrQuoted_def strings_HasPrefix_def)
  show ?thesis
    by (subst params_loop.simps) (simp add: key val strings_HasPrefix_def tok assms(2))
qed

lemma params_loop_print:
  assumes "\<forall>(k, v) \<in> set ps. lower_token k \<and> v \<noteq> []" "ps \<noteq> []"
  shows "params_loop (CHR '','' # strings_Join (map print_param ps) '','') params =
    fold (\<lambda>(k, v) m. gomap_put k v m) ps params"
  using assms
proof (induction ps arbitrary: params)
  case (Cons p ps)
  obtain k v where p: "p = (k, v)" by (cases p)
  have kv: "lower_token k" "v \<noteq> []" using Cons.prems(1) p by auto
  show ?case
  proof (cases "ps = []")
    case True
    then show ?thesis
      using params_loop_param [OF kv, of "[]" params] p params_loop.simps [of "[]"]
      by (simp add: skipSpace_def strings_HasPrefix_def)
  next
    case False
    let ?rest = "CHR '','' # strings_Join (map print_param ps) '',''"
    have "skipSpace ?rest = ?rest" by (simp add: skipSpace_def isSpace_def)
    moreover have "strings_Join (map print_param (p # ps)) '','' = print_param (k, v) @ ?rest"
      using False p by (cases ps) auto
    ultimately show ?thesis
      using params_loop_param [OF kv, of ?rest params] Cons.IH [of "gomap_put k v params"] Cons.prems False p by simp
  qed
qed simp


definition sample_challenge :: Challenge where
  "sample_challenge =
     \<lparr>Scheme = ''bearer'', Parameters = [(''realm'', ''https://auth.io/token''),
        (''error_description'', [CHR 0x22] @ ''bad'' @ [CHR 0x5C, CHR 0x22])]\<rparr>"


section \<open>Which failures count as authentication failures\<close>

text \<open>
  A registry that refuses the credentials without an \<open>errcode\<close> document is not recognised: for a
  401 or 403 response with no bearer error in its challenges, whose body is empty, has no content type,
  or is not JSON, the client returns a single \<open>errcode.Error\<close>, and \<open>IsAuthError\<close> answers false although
  the error's code says unauthorized or denied.
\<close>

theorem plain_auth_failure_missed:
  assumes "StatusCode resp = 401 \<or> StatusCode resp = 403" "Body resp = Some body"
    "List.map_filter (challenge_error lib) (ResponseChallenges resp) = []"
    "body = [] \<or> ContentType resp = [] \<or>
       (\<exists>ct. mime_ParseMediaType lib (ContentType resp) = Some ct \<and>
         ct \<noteq> ''application/json'' \<and> ct \<noteq> ''application/vnd.api+json'')"
  shows "\<exists>code. HandleHTTPResponseError lib resp = Some (ErrcodeError code body) \<and>
    code \<in> {ErrorCodeUnauthorized, ErrorCodeDenied} \<and>
    \<not> IsAuthError unwraps (HandleHTTPResponseError lib resp)"
proof -
  have "parseHTTPErrorResponse lib resp = makeError (StatusCode resp) body"
    using assms(2,4) by (auto simp: parseHTTPErrorResponse_def Let_def)
  then have eq: "HandleHTTPResponseError lib resp = Some (makeError (StatusCode resp) body)"
    using assms(1,3) by (auto simp: HandleHTTPResponseError_def makeError_def)
  have "\<not> IsAuthError unwraps (Some (makeError (StatusCode resp) body))"
    using assms(1)
    by (auto simp: IsAuthError_def makeError_def sel_response_def sel_status_def sel_errors_def)
  then show ?thesis unfolding eq using assms(1) by (auto simp: makeError_def)
qed

definition sample_response :: "int \<Rightarrow> http_response" where
  "sample_response code =
     \<lparr>StatusCode = code, Status = ''401 Unauthorized'', WWWAuthenticate = [''Basic''], ContentType = ''text/plain'',
      Body = Some ''no''\<rparr>"

definition sample_http_lib :: http_lib where
  "sample_http_lib =
     \<lparr>mime_ParseMediaType = Some, unmarshal_details = (\<lambda>_. None), unmarshal_errors = (\<lambda>_. None),
      errcode_Message = (\<lambda>_. ''authentication required'')\<rparr>"

theorem plain_auth_failure_missed_witness:
  "HandleHTTPResponseError sample_http_lib (sample_response 401) = Some (ErrcodeError ErrorCodeUnauthorized ''no'') \<and>
   \<not> IsAuthError True (HandleHTTPResponseError sample_http_lib (sample_response 401))"
proof -
  have "List.map_filter (challenge_error sample_http_lib) (ResponseChallenges (sample_response 401)) = []"
    by code_simp
  moreover have "HandleHTTPResponseError sample_http_lib (sample_response 401) =
      Some (ErrcodeError ErrorCodeUnauthorized ''no'')"
    by code_simp
  ultimately show ?thesis
    using plain_auth_failure_missed [of "sample_response 401" "''no''" sample_http_lib True]
    by (simp add: sample_response_def sample_http_lib_def)
qed

text \<open>
  What is recognised: a list of registry errors, exactly when one of its \<open>errcode.Error\<close> entries has the
  code unauthorized or denied.
\<close>

lemma auth_failure_recognised:
  assumes "\<forall>e \<in> set errs. \<exists>c m. e = ErrcodeError c m"
  shows "IsAuthError unwraps (Some (ErrcodeErrors errs)) \<longleftrightarrow>
      (\<exists>m. ErrcodeError ErrorCodeUnauthorized m \<in> set errs \<or> ErrcodeError ErrorCodeDenied m \<in> set errs)"
proof -
  have none: "first_some (map (errors_As unwraps sel_response) errs) = None"
    "first_some (map (errors_As unwraps sel_status) errs) = None"
    using assms by (induction errs) (auto simp: sel_response_def sel_status_def)
  have "IsAuthError unwraps (Some (ErrcodeErrors errs)) \<longleftrightarrow>
      (\<exists>e \<in> set errs. case errors_As unwraps sel_error e of
         Some c \<Rightarrow> c = ErrorCodeUnauthorized \<or> c = ErrorCodeDenied | None \<Rightarrow> False)"
    using none by (cases unwraps) (simp_all add: IsAuthError_def sel_response_def sel_status_def sel_errors_def list_ex_iff)
  also have "\<dots> \<longleftrightarrow>
      (\<exists>m. ErrcodeError ErrorCodeUnauthorized m \<in> set errs \<or> ErrcodeError ErrorCodeDenied m \<in> set errs)"
    using assms by (induction errs) (auto simp: sel_error_def)
  finally show ?thesis .
qed

end
