(* ===== verification/RegistryTags.thy ===== *)
theory RegistryTags
  imports Endpoints Versions Credentials HttpErrors
begin

text \<open>
  Reading tags and their metadata from a registry (\<open>registry-scanner/pkg/registry/registry.go\<close>,
  \<open>client.go\<close>).  The Go interface \<open>RegistryClient\<close> is a record of functions; what \<open>NewRepository\<close> stores in
  the client is passed to the other functions as the repository name.  The metadata of several tags are
  fetched by concurrent goroutines, each of which adds one entry to the list and to the cache; the model
  runs them in the order of the tags, and \<open>fetch_order_irrelevant\<close> shows that no other order gives another
  answer.  The rate limiter, the locks and the HTTP transport are left out.
\<close>

section \<open>Credentials of an endpoint\<close>

definition credsExpiredByTime :: "instant \<Rightarrow> 's RegistryEndpoint \<Rightarrow> bool" where
  "credsExpiredByTime now ep =
     (EpCredentials ep \<noteq> [] \<and> CredsUpdated ep \<noteq> zero_time \<and> CredsExpire ep > 0 \<and>
      now - CredsUpdated ep \<ge> CredsExpire ep)"

definition expireCredentials :: "instant \<Rightarrow> 's RegistryEndpoint \<Rightarrow> 's RegistryEndpoint \<times> bool" where
  "expireCredentials now ep =
     (if credsExpiredByTime now ep then (ep\<lparr>EpUsername := [], EpPassword := []\<rparr>, True) else (ep, False))"

datatype endpoint_cred_error = CredError cred_error | CouldNotFetchImageTags

definition setEndpointCredentialsInternal ::
  "cred_env \<Rightarrow> kube_client option \<Rightarrow> instant \<Rightarrow> 's RegistryEndpoint \<Rightarrow> string \<Rightarrow>
   's RegistryEndpoint \<times> (endpoint_cred_error + Credential)"
where
  "setEndpointCredentialsInternal env kubeClient now ep secretVal =
     (let ep = fst (expireCredentials now ep);
          creds = make_cred (EpUsername ep) (EpPassword ep);
          useCachedEndpointCreds = (secretVal = [] \<and> EpUsername ep \<noteq> [] \<and> EpPassword ep \<noteq> [])
      in if \<not> useCachedEndpointCreds \<and> (EpCredentials ep \<noteq> [] \<or> secretVal \<noteq> []) then
           (let fetchForEndpoint = (secretVal = []);
                secretVal = (if secretVal = [] then EpCredentials ep else secretVal)
            in case ParseCredentialSource secretVal False of
                 Inl err \<Rightarrow> (ep, Inl (CredError err))
               | Inr credSrc \<Rightarrow>
                   (if (CSType credSrc = CredentialSourcePullSecret \<or> CSType credSrc = CredentialSourceSecret) \<and>
                       kubeClient = None
                    then (ep, Inl CouldNotFetchImageTags)
                    else
                      (case snd (FetchCredentials env kubeClient credSrc (RegistryAPI ep)) of
                         Inl err \<Rightarrow> (ep, Inl (CredError err))
                       | Inr creds \<Rightarrow>
                           (if fetchForEndpoint
                            then (ep\<lparr>CredsUpdated := now, EpUsername := Username creds,
                                     EpPassword := Password creds\<rparr>, Inr creds)
                            else (ep, Inr creds)))))
         else (ep, Inr creds))"

text \<open>\<open>singleflight\<close> shares the result of concurrent calls with the same key; a lone call runs its function.\<close>

definition credential_flight_key :: "'s RegistryEndpoint \<Rightarrow> string \<Rightarrow> string" where
  "credential_flight_key ep secretVal =
     RegistryAPI ep @ ''|'' @ (if secretVal \<noteq> [] then secretVal else EpCredentials ep)"

definition SetEndpointCredentials ::
  "cred_env \<Rightarrow> kube_client option \<Rightarrow> instant \<Rightarrow> 's RegistryEndpoint \<Rightarrow> string \<Rightarrow>
   's RegistryEndpoint \<times> (endpoint_cred_error + Credential)"
where
  "SetEndpointCredentials env kubeClient now ep secretVal =
     setEndpointCredentialsInternal env kubeClient now ep secretVal"

section \<open>The registry client\<close>

record image_platform =
  plat_OS :: string
  plat_Architecture :: string
  plat_Variant :: string

record Descriptor =
  d_MediaType :: string
  d_ArtifactType :: string
  d_Digest :: string
  d_Platform :: "image_platform option"
  d_Annotations :: "(string, string) gomap"

text \<open>
  The manifests the client distinguishes, with the bytes of their payload (or the error of reading them):
  manifest lists and indexes with their references, and the two image manifests with the digest of their
  configuration and their layers.
\<close>

datatype manifest =
  DeserializedManifestList "Descriptor list" "go_error + string"
| DeserializedImageIndex "Descriptor list" "go_error + string"
| Schema2Manifest string "Descriptor list" "go_error + string"
| OCIManifest string "Descriptor list" "go_error + string"
| OtherManifest

record 'm RegistryClient =
  rc_NewRepository :: "string \<Rightarrow> go_error option"
  rc_Tags :: "string \<Rightarrow> go_error + string list"
  rc_ManifestForTag :: "string \<Rightarrow> string \<Rightarrow> go_error + 'm"
  rc_ManifestForDigest :: "string \<Rightarrow> string \<Rightarrow> go_error + 'm"
  rc_TagMetadata :: "string \<Rightarrow> 'm \<Rightarrow> ManifestOptions \<Rightarrow> go_error + TagInfo option"
  rc_Referrers :: "string \<Rightarrow> string \<Rightarrow> go_error + Descriptor list"
  rc_BlobContent :: "string \<Rightarrow> string \<Rightarrow> go_error + string"

definition getTokenActions :: "string \<Rightarrow> string list" where
  "getTokenActions registryAPI =
     (if strings_Contains registryAPI ''.azurecr.io'' then [''pull'', ''metadata_read'', ''content_read'']
      else [''pull''])"

text \<open>The credentials a new client uses.\<close>

definition NewClient :: "'s RegistryEndpoint \<Rightarrow> string \<Rightarrow> string \<Rightarrow> Credential" where
  "NewClient endpoint username password =
     make_cred (if username = [] \<and> EpUsername endpoint \<noteq> [] then EpUsername endpoint else username)
       (if password = [] \<and> EpPassword endpoint \<noteq> [] then EpPassword endpoint else password)"

text \<open>
  What \<open>TagMetadata\<close> of the concrete client uses: SHA-256, the blobs and the manifests of the repository,
  the decoding of an image configuration, and \<open>time.Parse\<close>.
\<close>

record image_info =
  info_Arch :: string
  info_Created :: string
  info_OS :: string
  info_Variant :: string
  info_Labels :: "(string, string) gomap"

record metadata_env =
  sha256_Sum256 :: "string \<Rightarrow> char list"
  blob_Get :: "string \<Rightarrow> go_error + string"
  manifest_Get :: "string \<Rightarrow> go_error + manifest"
  unmarshal_info :: "string \<Rightarrow> image_info option"
  time_Parse :: "string \<Rightarrow> instant option"

definition zero_digest :: "char list" where
  "zero_digest = replicate 32 (CHR 0x00)"

definition new_TagInfo :: TagInfo where
  "new_TagInfo = \<lparr>CreatedAt = zero_time, Digest = zero_digest, TLabels = []\<rparr>"

text \<open>The part of \<open>TagMetadata\<close> that the two image manifests share.\<close>

definition image_metadata ::
  "metadata_env \<Rightarrow> ManifestOptions \<Rightarrow> string \<Rightarrow> go_error + string \<Rightarrow> go_error + TagInfo option" where
  "image_metadata env opts config payload =
     (case payload of
        Inl err \<Rightarrow> Inl err
      | Inr mBytes \<Rightarrow>
          (let ti = new_TagInfo\<lparr>Digest := sha256_Sum256 env mBytes\<rparr>
           in case blob_Get env config of
                Inl err \<Rightarrow> Inl err
              | Inr blob \<Rightarrow>
                  (case unmarshal_info env blob of
                     None \<Rightarrow> Inl (ErrText ''json'')
                   | Some info \<Rightarrow>
                       (if \<not> WantsPlatform opts (info_OS info) (info_Arch info) (info_Variant info)
                        then Inr None
                        else
                          (case time_Parse env (info_Created info) of
                             None \<Rightarrow> Inl (ErrText ''time'')
                           | Some t \<Rightarrow> Inr (Some (ti\<lparr>CreatedAt := t, TLabels := info_Labels info\<rparr>)))))))"

definition ref_platform :: "Descriptor \<Rightarrow> string \<times> string \<times> string" where
  "ref_platform ref =
     (case d_Platform ref of
        None \<Rightarrow> ([], [], [])
      | Some p \<Rightarrow> (plat_OS p, plat_Architecture p, plat_Variant p))"

definition wanted_refs :: "ManifestOptions \<Rightarrow> Descriptor list \<Rightarrow> Descriptor list" where
  "wanted_refs opts references =
     filter (\<lambda>ref. case ref_platform ref of (os, arch, v) \<Rightarrow> WantsPlatform opts os arch v) references"

text \<open>The loop over the wanted references; \<open>meta\<close> is the recursive call of \<open>TagMetadata\<close>.\<close>

fun refs_loop ::
  "metadata_env \<Rightarrow> (manifest \<Rightarrow> (go_error + TagInfo option) option) \<Rightarrow> TagInfo \<Rightarrow> Descriptor list \<Rightarrow>
   (go_error + TagInfo option) option"
where
  "refs_loop env meta ti [] = Some (Inr (Some ti))"
| "refs_loop env meta ti (ref # ml) =
     (case manifest_Get env (d_Digest ref) of
        Inl err \<Rightarrow> Some (Inl (ErrText ''could not fetch manifest''))
      | Inr man \<Rightarrow>
          (case meta man of
             None \<Rightarrow> None
           | Some (Inl err) \<Rightarrow> Some (Inl (ErrText ''could not fetch metadata for manifest''))
           | Some (Inr None) \<Rightarrow> refs_loop env meta ti ml
           | Some (Inr (Some cti)) \<Rightarrow>
               refs_loop env meta
                 (if CreatedAt cti > CreatedAt ti
                  then ti\<lparr>CreatedAt := CreatedAt cti, TLabels := TLabels cti\<rparr> else ti) ml))"

definition TagInfoFromReferences ::
  "metadata_env \<Rightarrow> (manifest \<Rightarrow> (go_error + TagInfo option) option) \<Rightarrow> ManifestOptions \<Rightarrow> TagInfo \<Rightarrow>
   Descriptor list \<Rightarrow> (go_error + TagInfo option) option"
where
  "TagInfoFromReferences env meta opts ti references =
     (let ml = wanted_refs opts references
      in if ml = [] then Some (Inr None)
         else if \<not> WantsMetadata opts then Some (Inr (Some ti))
         else refs_loop env meta ti ml)"

text \<open>
  A manifest list may refer to further lists, so the recursion follows what the registry serves; the fuel
  bounds the nesting, and \<^const>\<open>None\<close> is fuel exhausted.
\<close>

fun TagMetadata ::
  "nat \<Rightarrow> metadata_env \<Rightarrow> ManifestOptions \<Rightarrow> manifest \<Rightarrow> (go_error + TagInfo option) option" where
  "TagMetadata 0 env opts man = None"
| "TagMetadata (Suc n) env opts man =
     (case man of
        DeserializedManifestList refs payload \<Rightarrow>
          (if refs = [] then Some (Inl (ErrText ''empty manifestlist not supported''))
           else
             (case payload of
                Inl err \<Rightarrow> Some (Inl (ErrText ''could not retrieve manifestlist payload''))
              | Inr mBytes \<Rightarrow>
                  TagInfoFromReferences env (TagMetadata n env opts) opts
                    (new_TagInfo\<lparr>Digest := sha256_Sum256 env mBytes\<rparr>) refs))
      | DeserializedImageIndex refs payload \<Rightarrow>
          (if refs = [] then Some (Inl (ErrText ''empty index not supported''))
           else
             (case payload of
                Inl err \<Rightarrow> Some (Inl (ErrText ''could not retrieve index payload''))
              | Inr mBytes \<Rightarrow>
                  TagInfoFromReferences env (TagMetadata n env opts) opts
                    (new_TagInfo\<lparr>Digest := sha256_Sum256 env mBytes\<rparr>) refs))
      | Schema2Manifest config _ payload \<Rightarrow> Some (image_metadata env opts config payload)
      | OCIManifest config _ payload \<Rightarrow> Some (image_metadata env opts config payload)
      | OtherManifest \<Rightarrow> Some (Inl (ErrText ''invalid manifest type'')))"

section \<open>The tags of an image\<close>

definition name_in_registry :: "'s RegistryEndpoint \<Rightarrow> ContainerImage \<Rightarrow> string" where
  "name_in_registry ep img =
     (if length (strings_Split (ImageName img) CHR ''/'') = 1 \<and> DefaultNS ep \<noteq> []
      then DefaultNS ep @ ''/'' @ ImageName img else ImageName img)"

text \<open>What the scan reads from its surroundings.\<close>

record scan_env =
  time_Now :: instant
  errs_unwrap :: bool
  sem_Acquire :: "string \<Rightarrow> bool"

datatype tags_error = TagsError go_error | ErrCredentialsInvalid | DigestWithoutConstraint string

definition keep_tag :: "scan_env \<Rightarrow> VersionConstraint \<Rightarrow> string \<Rightarrow> bool" where
  "keep_tag env vc t =
     (\<not> ((case MatchFunc vc of None \<Rightarrow> False | Some f \<Rightarrow> \<not> run_match f t (MatchArgs vc)) \<or>
         IsTagIgnored vc t \<or>
         (WantsOnlyConstraintTag (Strategy vc) \<and> t \<noteq> Constraint vc)))"

definition filter_tags :: "scan_env \<Rightarrow> VersionConstraint \<Rightarrow> string list \<Rightarrow> string list" where
  "filter_tags env vc tTags =
     (if MatchFunc vc \<noteq> None \<or> IgnoreList vc \<noteq> [] \<or> WantsOnlyConstraintTag (Strategy vc)
      then filter (keep_tag env vc) tTags else tTags)"

text \<open>The time stamp, in seconds, that the sort mode of the registry gives to the tag at index \<open>i\<close> of \<open>n\<close>.\<close>

definition sort_timestamp :: "TagListSort \<Rightarrow> nat \<Rightarrow> nat \<Rightarrow> int" where
  "sort_timestamp tls n i =
     (if tls = TagListSortLatestFirst then int n - int i
      else if tls = TagListSortLatestLast then int i else 0)"

fun dummy_tags :: "TagListSort \<Rightarrow> nat \<Rightarrow> nat \<Rightarrow> string list \<Rightarrow> ImageTagList \<Rightarrow> ImageTagList" where
  "dummy_tags tls n i [] tagList = tagList"
| "dummy_tags tls n i (tagStr # tags) tagList =
     dummy_tags tls n (Suc i) tags
       (itl_Add tagList (NewImageTag tagStr (sort_timestamp tls n i * 1000000000) []))"

text \<open>The body of the goroutine that fetches one tag: the new entry, or \<^const>\<open>None\<close> when it is skipped.\<close>

definition fetch_tag ::
  "'m RegistryClient \<Rightarrow> string \<Rightarrow> VersionConstraint \<Rightarrow> string \<Rightarrow> ImageTag option" where
  "fetch_tag regClient nameInRegistry vc tagStr =
     (case rc_ManifestForTag regClient nameInRegistry tagStr of
        Inl err \<Rightarrow> None
      | Inr ml \<Rightarrow>
          (case rc_TagMetadata regClient nameInRegistry ml (Options vc) of
             Inl err \<Rightarrow> None
           | Inr None \<Rightarrow> None
           | Inr (Some ti) \<Rightarrow>
               (let imgTag = NewImageTagWithLabels tagStr (CreatedAt ti)
                      (if Strategy vc = StrategyDigest then ''sha256:'' @ hex_EncodeToString (Digest ti) else [])
                      (TLabels ti)
                in Some (if Digest ti \<noteq> zero_digest then imgTag\<lparr>ManifestDigest := EncodedDigest ti\<rparr> else imgTag))))"

text \<open>
  The loop over the tags with the endpoint's cache; a failing cache lookup makes the code dereference a
  nil tag.
\<close>

fun metadata_loop ::
  "'s ImageTagCache \<Rightarrow> scan_env \<Rightarrow> 'm RegistryClient \<Rightarrow> string \<Rightarrow> VersionConstraint \<Rightarrow> string list \<Rightarrow>
   's \<times> ImageTagList \<Rightarrow> ('s \<times> ImageTagList) go"
where
  "metadata_loop itc env regClient nameInRegistry vc [] (c, tagList) = Ret (c, tagList)"
| "metadata_loop itc env regClient nameInRegistry vc (tagStr # tags) (c, tagList) =
     (let lookup = (if IsCacheable (Strategy vc) then itc_GetTag itc c nameInRegistry tagStr else Inr None)
      in case lookup of
           Inl err \<Rightarrow> Panic
         | Inr (Some imgTag) \<Rightarrow>
             metadata_loop itc env regClient nameInRegistry vc tags (c, itl_Add tagList imgTag)
         | Inr None \<Rightarrow>
             (if \<not> sem_Acquire env tagStr
              then metadata_loop itc env regClient nameInRegistry vc tags (c, tagList)
              else
                (case fetch_tag regClient nameInRegistry vc tagStr of
                   None \<Rightarrow> metadata_loop itc env regClient nameInRegistry vc tags (c, tagList)
                 | Some imgTag \<Rightarrow>
                     metadata_loop itc env regClient nameInRegistry vc tags
                       (itc_SetTag itc c nameInRegistry imgTag, itl_Add tagList imgTag))))"

definition needs_metadata :: "'s RegistryEndpoint \<Rightarrow> VersionConstraint \<Rightarrow> bool" where
  "needs_metadata ep vc =
     (\<not> ((Strategy vc \<noteq> StrategyNewestBuild \<and> Strategy vc \<noteq> StrategyDigest) \<or> IsTimeSorted (EpTagListSort ep)))"

definition GetTags ::
  "'s ImageTagCache \<Rightarrow> scan_env \<Rightarrow> 's RegistryEndpoint \<Rightarrow> ContainerImage \<Rightarrow> 'm RegistryClient \<Rightarrow>
   VersionConstraint \<Rightarrow> bool \<Rightarrow> ('s RegistryEndpoint \<times> (tags_error + ImageTagList)) go"
where
  "GetTags itc env ep img regClient vc usingEndpointCreds =
     (let nameInRegistry = name_in_registry ep img
      in case rc_NewRepository regClient nameInRegistry of
           Some err \<Rightarrow> Ret (ep, Inl (TagsError err))
         | None \<Rightarrow>
             (case rc_Tags regClient nameInRegistry of
                Inl err \<Rightarrow>
                  (if usingEndpointCreds \<and> CredsExpire ep > 0 \<and> \<not> credsExpiredByTime (time_Now env) ep \<and>
                      IsAuthError (errs_unwrap env) (Some err)
                   then Ret (ep\<lparr>EpUsername := [], EpPassword := []\<rparr>, Inl ErrCredentialsInvalid)
                   else Ret (ep, Inl (TagsError err)))
              | Inr tTags \<Rightarrow>
                  (if NeedsVersionConstraint (Strategy vc) \<and> Constraint vc = []
                   then Ret (ep, Inl (DigestWithoutConstraint (original img)))
                   else
                     (let tags = filter_tags env vc tTags
                      in if \<not> needs_metadata ep vc
                         then Ret (ep, Inr (dummy_tags (EpTagListSort ep) (length tags) 0 tags NewImageTagList))
                         else
                           (case metadata_loop itc env regClient nameInRegistry vc tags
                                   (Cache ep, NewImageTagList) of
                              Panic \<Rightarrow> Panic
                            | Ret (c, tagList) \<Rightarrow> Ret (ep\<lparr>Cache := c\<rparr>, Inr tagList))))))"

section \<open>Credentials are kept apart\<close>

text \<open>
  Which credentials are used and stored.  Expired credentials are dropped first.  With an
  image-specific secret nothing else about the endpoint changes, so that its credentials are not used for
  other images; without one, the cached pair is returned as it is when both parts are there, and otherwise
  what is fetched for the endpoint is returned and stored with the time of the update.
\<close>

theorem endpoint_credentials:
  assumes "setEndpointCredentialsInternal env kube now ep secretVal = (ep', res)"
  defines "ep0 \<equiv> fst (expireCredentials now ep)"
  shows "(secretVal \<noteq> [] \<longrightarrow> ep' = ep0) \<and>
    (secretVal = [] \<and> EpUsername ep0 \<noteq> [] \<and> EpPassword ep0 \<noteq> [] \<longrightarrow>
       ep' = ep0 \<and> res = Inr (make_cred (EpUsername ep0) (EpPassword ep0))) \<and>
    (ep' \<noteq> ep0 \<longrightarrow> (\<exists>c. res = Inr c \<and>
       ep' = ep0\<lparr>CredsUpdated := now, EpUsername := Username c, EpPassword := Password c\<rparr>)) \<and>
    (credsExpiredByTime now ep \<longrightarrow> EpUsername ep0 = [] \<and> EpPassword ep0 = [])"
  using assms(1)
  by (auto simp: setEndpointCredentialsInternal_def ep0_def expireCredentials_def Let_def
      split: sum.splits if_splits)

definition sample_endpoint :: "'s \<Rightarrow> 's RegistryEndpoint" where
  "sample_endpoint nc =
     NewRegistryEndpoint nc ''gcr.io'' ''GCR'' ''https://gcr.io'' ''env:REG'' [] False TagListSortUnsorted 0 5"

theorem endpoint_credentials_witness:
  "\<exists>ep' c. setEndpointCredentialsInternal (sample_cred_env JNull) None 100 (sample_endpoint ()) [] = (ep', Inr c) \<and>
     ep' = (sample_endpoint ())\<lparr>CredsUpdated := 100, EpUsername := Username c, EpPassword := Password c\<rparr>"
proof -
  obtain ep' res where r: "setEndpointCredentialsInternal (sample_cred_env JNull) None 100 (sample_endpoint ()) [] = (ep', res)"
    by fastforce
  have "fst (expireCredentials 100 (sample_endpoint ())) = sample_endpoint ()"
    by code_simp
  moreover have "fst (setEndpointCredentialsInternal (sample_cred_env JNull) None 100 (sample_endpoint ()) []) \<noteq> sample_endpoint ()"
    by code_simp
  ultimately show ?thesis using endpoint_credentials [OF r] r by auto
qed

section \<open>Tags without metadata\<close>

lemma items_Add [simp]: "items (itl_Add il t) = gomap_put (TagName t) t (items il)"
  by (simp add: itl_Add_def)

lemma items_New [simp]: "items NewImageTagList = []"
  by (simp add: NewImageTagList_def)

lemma dummy_tags_items:
  assumes "distinct tags" "set tags \<inter> fst ` set (items il) = {}"
  shows "items (dummy_tags tls n i tags il) =
    items il @ map (\<lambda>(j, t). (t, NewImageTag t (sort_timestamp tls n j * 1000000000) []))
      (zip [i..<i + length tags] tags)"
  using assms
proof (induction tags arbitrary: i il)
  case (Cons t tags)
  let ?e = "NewImageTag t (sort_timestamp tls n i * 1000000000) []"
  have items: "items (itl_Add il ?e) = items il @ [(t, ?e)]"
    using Cons.prems(2) by (simp add: gomap_put_new)
  have "set tags \<inter> fst ` set (items (itl_Add il ?e)) = {}"
    unfolding items using Cons.prems by auto
  then have IH: "items (dummy_tags tls n (Suc i) tags (itl_Add il ?e)) =
      items (itl_Add il ?e) @ map (\<lambda>(j, t). (t, NewImageTag t (sort_timestamp tls n j * 1000000000) []))
        (zip [Suc i..<Suc i + length tags] tags)"
    using Cons.IH Cons.prems(1) by simp
  have "[i..<i + length (t # tags)] = i # [Suc i..<Suc i + length tags]" by (simp add: upt_rec)
  then show ?case using IH items by simp
qed simp

lemma dummy_tags_wf: "itl_wf il \<Longrightarrow> itl_wf (dummy_tags tls n i tags il)"
  by (induction tags arbitrary: i il) (simp_all add: itl_wf_Add)

lemma dummy_tags_entries:
  assumes "distinct tags"
  shows "entries (dummy_tags tls (length tags) 0 tags NewImageTagList) =
    (\<lambda>j. NewImageTag (tags ! j) (sort_timestamp tls (length tags) j * 1000000000) []) ` {..<length tags}"
proof -
  have "entries (dummy_tags tls (length tags) 0 tags NewImageTagList) =
      (\<lambda>(j, t). NewImageTag t (sort_timestamp tls (length tags) j * 1000000000) []) `
        set (zip [0..<length tags] tags)"
    using dummy_tags_items [OF assms, of NewImageTagList tls "length tags" 0] by (simp add: image_image case_prod_beta)
  also have "set (zip [0..<length tags] tags) = (\<lambda>j. (j, tags ! j)) ` {..<length tags}"
    by (force simp: set_zip)
  finally show ?thesis by (simp add: image_image)
qed

text \<open>
  A registry that lists its tags by age needs no metadata: with the sort mode latest-first
  (latest-last) and the strategy newest-build, the tag that is chosen is the first (last) of the tags that
  pass the filters.
\<close>

theorem sorted_registry_picks_newest:
  assumes "GetTags itc env ep img rc vc creds = Ret (ep', Inr il)"
    "rc_Tags rc (name_in_registry ep img) = Inr tTags" "distinct tTags"
    "filter_tags env vc tTags \<noteq> []" "Strategy vc = StrategyNewestBuild" "IsTimeSorted (EpTagListSort ep)"
  shows "\<exists>t. GetNewestVersionFromTags lib vc il = Ret (Inr (Some t)) \<and>
    TagName t = (if EpTagListSort ep = TagListSortLatestFirst
                 then hd (filter_tags env vc tTags) else last (filter_tags env vc tTags))"
proof -
  let ?tags = "filter_tags env vc tTags" and ?tls = "EpTagListSort ep"
  let ?n = "length ?tags"
  let ?e = "\<lambda>j. NewImageTag (?tags ! j) (sort_timestamp ?tls ?n j * 1000000000) []"
  let ?b = "if ?tls = TagListSortLatestFirst then 0 else ?n - 1"
  have il: "il = dummy_tags ?tls ?n 0 ?tags NewImageTagList"
    using assms(1,2,5,6)
    by (auto simp: GetTags_def needs_metadata_def Let_def split: option.splits if_splits)
  have dist: "distinct ?tags" using assms(3) by (simp add: filter_tags_def)
  have n: "0 < ?n" using assms(4) by simp
  have mode: "?tls = TagListSortLatestFirst \<or> ?tls = TagListSortLatestLast" using assms(6) by (simp add: IsTimeSorted_def)
  have "date_less (?e j) (?e ?b)" if "j < ?n" "j \<noteq> ?b" for j
    using that mode n by (auto simp: date_less_def sort_timestamp_def)
  then have "newest_of date_less (entries il) (?e ?b)"
    unfolding il dummy_tags_entries [OF dist] newest_of_def using n by (intro conjI ballI; force)
  then have "GetNewestVersionFromTags lib vc il = Ret (Inr (Some (?e ?b)))"
    using assms(5) dummy_tags_wf [OF itl_wf_new] unfolding il
    by (intro newest_choice_eq) (auto simp: strategy_less_def)
  moreover have "TagName (?e ?b) = (if ?tls = TagListSortLatestFirst then hd ?tags else last ?tags)"
    using assms(4) by (simp add: hd_conv_nth last_conv_nth)
  ultimately show ?thesis by blast
qed

definition sample_client :: "int \<Rightarrow> string list \<Rightarrow> unit RegistryClient" where
  "sample_client date tags =
     \<lparr>rc_NewRepository = (\<lambda>_. None), rc_Tags = (\<lambda>_. Inr tags), rc_ManifestForTag = (\<lambda>_ _. Inr ()),
      rc_ManifestForDigest = (\<lambda>_ _. Inr ()),
      rc_TagMetadata = (\<lambda>_ _ opts. Inr (Some
         (new_TagInfo\<lparr>CreatedAt := if WantsMetadata opts then date else zero_time, Digest := replicate 32 CHR ''a''\<rparr>))),
      rc_Referrers = (\<lambda>_ _. Inr []), rc_BlobContent = (\<lambda>_ _. Inr [])\<rparr>"

definition sample_scan_env :: scan_env where
  "sample_scan_env =
     \<lparr>time_Now = 0, errs_unwrap = False, sem_Acquire = (\<lambda>_. True)\<rparr>"

definition any_constraint :: "UpdateStrategy \<Rightarrow> string \<Rightarrow> VersionConstraint" where
  "any_constraint us c =
     NewVersionConstraint\<lparr>MatchFunc := Some MatchFuncAny, Strategy := us, Constraint := c,
       Options := WithMetadata NewManifestOptions (NeedsMetadata us)\<rparr>"

theorem sorted_registry_picks_newest_witness:
  "\<exists>t. GetNewestVersionFromTags sample_semver (any_constraint StrategyNewestBuild [])
       (dummy_tags TagListSortLatestFirst 2 0 [''v9'', ''v8''] NewImageTagList) = Ret (Inr (Some t)) \<and> TagName t = ''v9''"
proof -
  let ?ep = "(sample_endpoint (NewMemCache list_store))\<lparr>EpTagListSort := TagListSortLatestFirst\<rparr>"
  let ?img = "ContainerImage ''gcr.io'' ''team/app'' None [] None []"
  let ?vc = "any_constraint StrategyNewestBuild []"
  have st: "Strategy ?vc = StrategyNewestBuild" by (simp add: any_constraint_def)
  have f: "filter_tags sample_scan_env ?vc [''v9'', ''v8''] = [''v9'', ''v8'']" by code_simp
  have "GetTags (MemCache list_store) sample_scan_env ?ep ?img (sample_client 7 [''v9'', ''v8'']) ?vc False =
      Ret (?ep, Inr (dummy_tags TagListSortLatestFirst 2 0 [''v9'', ''v8''] NewImageTagList))"
    unfolding GetTags_def by (simp add: f sample_client_def needs_metadata_def IsTimeSorted_def
        NeedsVersionConstraint_def Let_def st numeral_2_eq_2)
  from sorted_registry_picks_newest [OF this, of "[''v9'', ''v8'']" sample_semver] f
  show ?thesis by (simp add: sample_client_def any_constraint_def IsTimeSorted_def)
qed

section \<open>Tags with metadata\<close>

lemma fetch_tag_name: "fetch_tag rc n vc t = Some x \<Longrightarrow> TagName x = t \<and> TagDate x \<noteq> None"
  by (auto simp: fetch_tag_def Let_def split: sum.splits option.splits if_splits)

text \<open>The entry that a scan finds for one tag: the cached one, else the fetched one.\<close>

definition scan_result ::
  "'s ImageTagCache \<Rightarrow> scan_env \<Rightarrow> 'm RegistryClient \<Rightarrow> string \<Rightarrow> VersionConstraint \<Rightarrow> 's \<Rightarrow> string \<Rightarrow> ImageTag option"
where
  "scan_result itc env rc n vc c t =
     (case (if IsCacheable (Strategy vc) then itc_GetTag itc c n t else Inr None) of
        Inr (Some x) \<Rightarrow> Some x
      | _ \<Rightarrow> if sem_Acquire env t then fetch_tag rc n vc t else None)"

context tag_cache
begin

lemma scan_result_name:
  assumes "wf c" "colon_free t" "scan_result itc env rc n vc c t = Some x"
  shows "TagName x = t \<and> TagDate x \<noteq> None"
  using assms GetTag_name [OF assms(1,2)] fetch_tag_name [of rc n vc t x]
  by (auto simp: scan_result_def split: sum.splits option.splits if_splits)

text \<open>One round of the loop.\<close>

lemma metadata_loop_step:
  assumes "wf c" "colon_free t"
  shows "\<exists>c1. metadata_loop itc env rc n vc (t # tags) (c, il) =
      metadata_loop itc env rc n vc tags
        (c1, case scan_result itc env rc n vc c t of None \<Rightarrow> il | Some x \<Rightarrow> itl_Add il x) \<and> wf c1 \<and>
    (\<forall>n' u. colon_free u \<longrightarrow> itc_GetTag itc c1 n' u =
      (if n' = n \<and> u = t \<and> scan_result itc env rc n vc c t \<noteq> None
       then Inr (scan_result itc env rc n vc c t) else itc_GetTag itc c n' u))"
proof -
  let ?look = "if IsCacheable (Strategy vc) then itc_GetTag itc c n t else Inr None"
  obtain r where look: "?look = Inr r" using GetTag_cached [OF assms(1)] by (cases "IsCacheable (Strategy vc)") auto
  show ?thesis
  proof (cases r)
    case (Some x)
    then have "IsCacheable (Strategy vc)" "itc_GetTag itc c n t = Inr (Some x)" using look by (auto split: if_splits)
    then show ?thesis using assms by (intro exI [of _ c]) (simp add: scan_result_def)
  next
    case None
    show ?thesis
    proof (cases "if sem_Acquire env t then fetch_tag rc n vc t else None")
      case None2: None
      then have "scan_result itc env rc n vc c t = None" using look None by (simp add: scan_result_def)
      moreover have "metadata_loop itc env rc n vc (t # tags) (c, il) = metadata_loop itc env rc n vc tags (c, il)"
        using look None None2 by (auto simp: Let_def split: if_splits)
      ultimately show ?thesis using assms by (intro exI [of _ c]) simp
    next
      case (Some x)
      have x: "cacheable x" "TagName x = t"
        using fetch_tag_name [of rc n vc t x] Some assms(2) by (auto simp: cacheable_def split: if_splits)
      have "scan_result itc env rc n vc c t = Some x" using look None Some by (simp add: scan_result_def)
      moreover have "metadata_loop itc env rc n vc (t # tags) (c, il) =
          metadata_loop itc env rc n vc tags (itc_SetTag itc c n x, itl_Add il x)"
        using look None Some by (auto simp: Let_def split: if_splits)
      ultimately show ?thesis
        using wf_SetTag [OF assms(1) x(1)] x assms(2)
        by (intro exI [of _ "itc_SetTag itc c n x"]) (auto simp: GetTag_SetTag cacheable_def)
    qed
  qed
qed

lemma scan_result_cong:
  assumes "itc_GetTag itc c n t = itc_GetTag itc c' n t"
  shows "scan_result itc env rc n vc c t = scan_result itc env rc n vc c' t"
  using assms by (simp add: scan_result_def)

lemma metadata_loop_spec:
  assumes "wf c" "itl_wf il" "distinct tags" "\<forall>t \<in> set tags. colon_free t"
  shows "\<exists>c' il'. metadata_loop itc env rc n vc tags (c, il) = Ret (c', il') \<and> wf c' \<and> itl_wf il' \<and>
    (\<forall>t. map_of (items il') t =
      (if t \<in> set tags \<and> scan_result itc env rc n vc c t \<noteq> None
       then scan_result itc env rc n vc c t else map_of (items il) t)) \<and>
    (\<forall>n' t. colon_free t \<longrightarrow> itc_GetTag itc c' n' t =
      (if n' = n \<and> t \<in> set tags \<and> scan_result itc env rc n vc c t \<noteq> None
       then Inr (scan_result itc env rc n vc c t) else itc_GetTag itc c n' t))"
  using assms
proof (induction tags arbitrary: c il)
  case (Cons t tags)
  let ?r = "scan_result itc env rc n vc c"
  have ct: "colon_free t" using Cons.prems(4) by simp
  let ?il1 = "case ?r t of None \<Rightarrow> il | Some x \<Rightarrow> itl_Add il x"
  obtain c1 where c1: "metadata_loop itc env rc n vc (t # tags) (c, il) = metadata_loop itc env rc n vc tags (c1, ?il1)"
    "wf c1" "\<forall>n' u. colon_free u \<longrightarrow> itc_GetTag itc c1 n' u =
      (if n' = n \<and> u = t \<and> ?r t \<noteq> None then Inr (?r t) else itc_GetTag itc c n' u)"
    using metadata_loop_step [OF Cons.prems(1) ct] by blast
  note nm = scan_result_name [OF Cons.prems(1) ct, of env rc n vc]
  have wf1: "itl_wf ?il1" using Cons.prems(2) nm by (auto intro: itl_wf_Add split: option.splits)
  have lk1: "map_of (items ?il1) u = (if u = t \<and> ?r t \<noteq> None then ?r t else map_of (items il) u)" for u
    using nm by (auto split: option.splits)
  have same: "scan_result itc env rc n vc c1 u = ?r u" if "u \<in> set tags" for u
    using that Cons.prems(3,4) c1(3) by (intro scan_result_cong) auto
  obtain c' il' where IH: "metadata_loop itc env rc n vc tags (c1, ?il1) = Ret (c', il')" "wf c'" "itl_wf il'"
    "\<forall>u. map_of (items il') u =
      (if u \<in> set tags \<and> scan_result itc env rc n vc c1 u \<noteq> None
       then scan_result itc env rc n vc c1 u else map_of (items ?il1) u)"
    "\<forall>n' u. colon_free u \<longrightarrow> itc_GetTag itc c' n' u =
      (if n' = n \<and> u \<in> set tags \<and> scan_result itc env rc n vc c1 u \<noteq> None
       then Inr (scan_result itc env rc n vc c1 u) else itc_GetTag itc c1 n' u)"
    using Cons.IH [OF c1(2) wf1] Cons.prems(3,4) by (metis distinct.simps(2) list.set_intros(2))
  have "map_of (items il') u =
      (if u \<in> set (t # tags) \<and> ?r u \<noteq> None then ?r u else map_of (items il) u)" for u
    using IH(4) lk1 [of u] same [of u] Cons.prems(3) by (cases "u \<in> set tags") auto
  moreover have "itc_GetTag itc c' n' u =
      (if n' = n \<and> u \<in> set (t # tags) \<and> ?r u \<noteq> None then Inr (?r u) else itc_GetTag itc c n' u)"
    if "colon_free u" for n' u
    using IH(5) c1(3) same [of u] Cons.prems(3) that by (cases "u \<in> set tags") auto
  ultimately show ?case using c1(1) IH(1-3) by auto
qed auto

text \<open>The goroutines may finish in any order.\<close>

lemma metadata_loop_order:
  assumes "wf c" "distinct tags" "\<forall>t \<in> set tags. colon_free t" "mset tags' = mset tags"
    "metadata_loop itc env rc n vc tags (c, NewImageTagList) = Ret (c1, il1)"
    "metadata_loop itc env rc n vc tags' (c, NewImageTagList) = Ret (c2, il2)"
  shows "map_of (items il2) = map_of (items il1) \<and>
    (\<forall>n' t. colon_free t \<longrightarrow> itc_GetTag itc c2 n' t = itc_GetTag itc c1 n' t)"
proof -
  have set: "set tags' = set tags" "distinct tags'"
    using assms(2,4) mset_eq_setD mset_eq_imp_distinct_iff by blast+
  show ?thesis
    using metadata_loop_spec [OF assms(1) itl_wf_new assms(2,3), of env rc n vc]
      metadata_loop_spec [OF assms(1) itl_wf_new set(2), of env rc n vc] assms(3,5,6) set(1)
    by auto
qed

end

text \<open>
  \<open>C3\<close>.  Scanning with metadata.  With the in-memory cache the scan never panics and returns, for each tag
  of the registry that passes the match pattern and the ignore list, the cached entry or else the fetched
  one, and nothing else: no tag that was filtered out, and no tag the registry did not list.
\<close>

theorem metadata_scan_exact:
  assumes "gocache_ok lib" "memcache_wf lib (Cache ep)" "rc_NewRepository rc (name_in_registry ep img) = None"
    "rc_Tags rc (name_in_registry ep img) = Inr tTags" "distinct tTags" "\<forall>t \<in> set tTags. colon_free t"
    "needs_metadata ep vc" "NeedsVersionConstraint (Strategy vc) \<longrightarrow> Constraint vc \<noteq> []"
  shows "\<exists>ep' il. GetTags (MemCache lib) env ep img rc vc creds = Ret (ep', Inr il) \<and> itl_wf il \<and>
    memcache_wf lib (Cache ep') \<and>
    (\<forall>t. map_of (items il) t =
      (if t \<in> set tTags \<and> keep_tag env vc t
       then scan_result (MemCache lib) env rc (name_in_registry ep img) vc (Cache ep) t else None))"
proof -
  let ?n = "name_in_registry ep img" and ?tags = "filter_tags env vc tTags"
  have keep: "t \<in> set ?tags \<longleftrightarrow> t \<in> set tTags \<and> keep_tag env vc t" for t
    by (auto simp: filter_tags_def keep_tag_def IsTagIgnored_def)
  have tags: "distinct ?tags" "\<forall>t \<in> set ?tags. colon_free t"
    using assms(5,6) keep by (simp_all add: filter_tags_def)
  obtain c' il where "metadata_loop (MemCache lib) env rc ?n vc ?tags (Cache ep, NewImageTagList) = Ret (c', il)"
    "memcache_wf lib c'" "itl_wf il"
    "\<forall>t. map_of (items il) t =
      (if t \<in> set ?tags \<and> scan_result (MemCache lib) env rc ?n vc (Cache ep) t \<noteq> None
       then scan_result (MemCache lib) env rc ?n vc (Cache ep) t else map_of (items NewImageTagList) t)"
    using tag_cache.metadata_loop_spec [OF MemCache_tag_cache [OF assms(1)] assms(2) itl_wf_new tags, of env rc ?n vc]
    by blast
  then show ?thesis
    using assms(3,4,7,8) keep by (intro exI [of _ "ep\<lparr>Cache := c'\<rparr>"] exI [of _ il]) (auto simp: GetTags_def)
qed

theorem metadata_scan_exact_witness:
  "\<exists>ep' il. GetTags (MemCache list_store) sample_scan_env (sample_endpoint (NewMemCache list_store))
      (ContainerImage ''gcr.io'' ''team/app'' None [] None []) (sample_client 7 [''v1'', ''v2''])
      (any_constraint StrategyNewestBuild []) False = Ret (ep', Inr il) \<and> itl_wf il"
proof -
  let ?ep = "sample_endpoint (NewMemCache list_store)"
  let ?img = "ContainerImage ''gcr.io'' ''team/app'' None [] None []"
  have "memcache_wf list_store (Cache ?ep)"
    using memcache_wf_New [OF list_store_ok] by (simp add: sample_endpoint_def NewRegistryEndpoint_def zero_endpoint_def)
  moreover have "\<forall>t \<in> set [''v1'', ''v2'']. colon_free t" by (simp add: colon_free_def)
  moreover have "needs_metadata ?ep (any_constraint StrategyNewestBuild [])" by code_simp
  ultimately show ?thesis
    using metadata_scan_exact [OF list_store_ok, of ?ep "sample_client 7 [''v1'', ''v2'']" ?img "[''v1'', ''v2'']"
        "any_constraint StrategyNewestBuild []" sample_scan_env False]
    by (auto simp: sample_client_def any_constraint_def NeedsVersionConstraint_def)
qed

text \<open>
  \<open>C7\<close>.  The metadata of the tags are fetched concurrently; the order in which the goroutines finish does
  not matter: any other order of the same tags gives the same entries and leaves the cache with the same
  content.
\<close>

theorem fetch_order_irrelevant:
  assumes "gocache_ok lib" "memcache_wf lib c" "distinct tags" "\<forall>t \<in> set tags. colon_free t"
    "mset tags' = mset tags"
    "metadata_loop (MemCache lib) env rc n vc tags (c, NewImageTagList) = Ret (c1, il1)"
    "metadata_loop (MemCache lib) env rc n vc tags' (c, NewImageTagList) = Ret (c2, il2)"
  shows "map_of (items il2) = map_of (items il1) \<and>
    (\<forall>n' t. colon_free t \<longrightarrow> mc_GetTag lib c2 n' t = mc_GetTag lib c1 n' t)"
  using tag_cache.metadata_loop_order [OF MemCache_tag_cache [OF assms(1)] assms(2-7)]
  by (simp add: MemCache_def)

theorem fetch_order_irrelevant_witness:
  "\<exists>c1 il1 c2 il2.
     metadata_loop (MemCache list_store) sample_scan_env (sample_client 7 []) ''app'' (any_constraint StrategyNewestBuild [])
       [''v1'', ''v2''] (NewMemCache list_store, NewImageTagList) = Ret (c1, il1) \<and>
     metadata_loop (MemCache list_store) sample_scan_env (sample_client 7 []) ''app'' (any_constraint StrategyNewestBuild [])
       [''v2'', ''v1''] (NewMemCache list_store, NewImageTagList) = Ret (c2, il2) \<and>
     map_of (items il2) = map_of (items il1)"
proof -
  note wf = memcache_wf_New [OF list_store_ok]
  have ok: "distinct [''v1'', ''v2'']" "\<forall>t \<in> set [''v1'', ''v2'']. colon_free t"
    "distinct [''v2'', ''v1'']" "\<forall>t \<in> set [''v2'', ''v1'']. colon_free t" by (simp_all add: colon_free_def)
  obtain c1 il1 c2 il2 where
    "metadata_loop (MemCache list_store) sample_scan_env (sample_client 7 []) ''app'' (any_constraint StrategyNewestBuild [])
       [''v1'', ''v2''] (NewMemCache list_store, NewImageTagList) = Ret (c1, il1)"
    "metadata_loop (MemCache list_store) sample_scan_env (sample_client 7 []) ''app'' (any_constraint StrategyNewestBuild [])
       [''v2'', ''v1''] (NewMemCache list_store, NewImageTagList) = Ret (c2, il2)"
    using mem.metadata_loop_spec [OF wf itl_wf_new ok(1,2), of sample_scan_env "sample_client 7 []" "''app''"
        "any_constraint StrategyNewestBuild []"]
      mem.metadata_loop_spec [OF wf itl_wf_new ok(3,4), of sample_scan_env "sample_client 7 []" "''app''"
        "any_constraint StrategyNewestBuild []"] by blast
  then show ?thesis
    using fetch_order_irrelevant [OF list_store_ok wf ok(1,2), of "[''v2'', ''v1'']"] by fastforce
qed

text \<open>The endpoint after a scan of one image, and date and digest of the entry for \<open>latest\<close>.\<close>

definition scan_latest ::
  "(string, cache_val) gomap RegistryEndpoint \<Rightarrow> VersionConstraint \<Rightarrow>
   ((string, cache_val) gomap RegistryEndpoint \<times> (instant option \<times> string) option) option" where
  "scan_latest ep vc =
     (case GetTags (MemCache list_store) sample_scan_env ep (ContainerImage ''gcr.io'' ''team/app'' None [] None [])
             (sample_client 7 [''latest'']) vc False of
        Ret (ep', Inr il) \<Rightarrow>
          Some (ep', map_option (\<lambda>t. (TagDate t, TagDigest t)) (map_of (items il) ''latest''))
      | _ \<Rightarrow> None)"

text \<open>
  The digest strategy never reads the cache but writes to it, under the same key as the strategy
  newest-build, and without the metadata that strategy needs.  Scanning an image first with the strategy
  digest and then with newest-build yields an entry that carries a digest and the zero date, where a
  scan with a fresh cache finds the real date and no digest.
\<close>

theorem digest_scan_poisons_cache:
  "(case scan_latest (sample_endpoint (NewMemCache list_store)) (any_constraint StrategyDigest ''latest'') of
      Some (ep', _) \<Rightarrow> map_option snd (scan_latest ep' (any_constraint StrategyNewestBuild []))
    | None \<Rightarrow> None) = Some (Some (Some zero_time, ''sha256:'' @ hex_EncodeToString (replicate 32 CHR ''a''))) \<and>
   map_option snd (scan_latest (sample_endpoint (NewMemCache list_store)) (any_constraint StrategyNewestBuild [])) =
     Some (Some (Some 7, []))"
proof
  show "(case scan_latest (sample_endpoint (NewMemCache list_store)) (any_constraint StrategyDigest ''latest'') of
      Some (ep', _) \<Rightarrow> map_option snd (scan_latest ep' (any_constraint StrategyNewestBuild []))
    | None \<Rightarrow> None) = Some (Some (Some zero_time, ''sha256:'' @ hex_EncodeToString (replicate 32 CHR ''a'')))"
    by code_simp
  show "map_option snd (scan_latest (sample_endpoint (NewMemCache list_store)) (any_constraint StrategyNewestBuild [])) =
     Some (Some (Some 7, []))"
    by code_simp
qed

section \<open>The date of a multi-platform image\<close>

text \<open>How deep the manifests that are followed may be nested.\<close>

fun depth_ok :: "nat \<Rightarrow> metadata_env \<Rightarrow> ManifestOptions \<Rightarrow> manifest \<Rightarrow> bool" where
  "depth_ok n env opts (DeserializedManifestList refs p) =
     (case n of 0 \<Rightarrow> False
      | Suc k \<Rightarrow> list_all (\<lambda>ref. case manifest_Get env (d_Digest ref) of Inl _ \<Rightarrow> True | Inr m \<Rightarrow> depth_ok k env opts m)
          (wanted_refs opts refs))"
| "depth_ok n env opts (DeserializedImageIndex refs p) =
     (case n of 0 \<Rightarrow> False
      | Suc k \<Rightarrow> list_all (\<lambda>ref. case manifest_Get env (d_Digest ref) of Inl _ \<Rightarrow> True | Inr m \<Rightarrow> depth_ok k env opts m)
          (wanted_refs opts refs))"
| "depth_ok n env opts m = (0 < n)"

lemma refs_loop_Some:
  assumes "list_all (\<lambda>ref. case manifest_Get env (d_Digest ref) of Inl _ \<Rightarrow> True | Inr m \<Rightarrow> meta m \<noteq> None) ml"
  shows "refs_loop env meta ti ml \<noteq> None"
  using assms
  by (induction ml arbitrary: ti) (auto split: sum.splits option.splits)

lemma TagInfoFromReferences_Some:
  assumes "list_all (\<lambda>ref. case manifest_Get env (d_Digest ref) of Inl _ \<Rightarrow> True | Inr m \<Rightarrow> meta m \<noteq> None)
    (wanted_refs opts refs)"
  shows "TagInfoFromReferences env meta opts ti refs \<noteq> None"
  using refs_loop_Some [OF assms] by (simp add: TagInfoFromReferences_def Let_def)

lemma depth_ok_Some: "depth_ok n env opts m \<Longrightarrow> TagMetadata n env opts m \<noteq> None"
proof (induction n env opts m rule: depth_ok.induct)
  case (1 n env opts refs p)
  then obtain k where n: "n = Suc k" by (cases n) auto
  have "list_all (\<lambda>ref. case manifest_Get env (d_Digest ref) of Inl _ \<Rightarrow> True
      | Inr m \<Rightarrow> TagMetadata k env opts m \<noteq> None) (wanted_refs opts refs)"
    using 1 n by (fastforce simp: list_all_iff split: sum.splits)
  then show ?case using TagInfoFromReferences_Some n by (auto split: sum.splits)
next
  case (2 n env opts refs p)
  then obtain k where n: "n = Suc k" by (cases n) auto
  have "list_all (\<lambda>ref. case manifest_Get env (d_Digest ref) of Inl _ \<Rightarrow> True
      | Inr m \<Rightarrow> TagMetadata k env opts m \<noteq> None) (wanted_refs opts refs)"
    using 2 n by (fastforce simp: list_all_iff split: sum.splits)
  then show ?case using TagInfoFromReferences_Some n by (auto split: sum.splits)
qed (auto simp: gr0_conv_Suc)

text \<open>The metadata that the loop collects from the references, in order; \<^const>\<open>None\<close> entries are skipped.\<close>

lemma refs_loop_newest:
  assumes "refs_loop env meta ti ml = Some (Inr (Some ti'))"
  shows "Digest ti' = Digest ti \<and> CreatedAt ti \<le> CreatedAt ti' \<and>
    (\<forall>ref \<in> set ml. \<forall>m cti. manifest_Get env (d_Digest ref) = Inr m \<longrightarrow> meta m = Some (Inr (Some cti)) \<longrightarrow>
       CreatedAt cti \<le> CreatedAt ti') \<and>
    (ti' = ti \<or> (\<exists>ref \<in> set ml. \<exists>m cti. manifest_Get env (d_Digest ref) = Inr m \<and>
       meta m = Some (Inr (Some cti)) \<and> CreatedAt ti' = CreatedAt cti \<and> TLabels ti' = TLabels cti))"
  using assms
proof (induction ml arbitrary: ti)
  case (Cons ref ml)
  then obtain m r where m: "manifest_Get env (d_Digest ref) = Inr m" "meta m = Some (Inr r)"
    by (auto split: sum.splits option.splits)
  show ?case
  proof (cases r)
    case None
    then have "refs_loop env meta ti ml = Some (Inr (Some ti'))" using Cons.prems m by simp
    from Cons.IH [OF this] show ?thesis using m None by auto
  next
    case (Some cti)
    let ?ti = "if CreatedAt cti > CreatedAt ti then ti\<lparr>CreatedAt := CreatedAt cti, TLabels := TLabels cti\<rparr> else ti"
    have "refs_loop env meta ?ti ml = Some (Inr (Some ti'))" using Cons.prems m Some by simp
    note IH = Cons.IH [OF this]
    have "Digest ?ti = Digest ti" "CreatedAt ti \<le> CreatedAt ?ti" "CreatedAt cti \<le> CreatedAt ?ti" by auto
    then have "Digest ti' = Digest ti" "CreatedAt ti \<le> CreatedAt ti'" "CreatedAt cti \<le> CreatedAt ti'"
      using IH by auto
    moreover have "ti' = ti \<or> (\<exists>ref \<in> set (ref # ml). \<exists>m cti. manifest_Get env (d_Digest ref) = Inr m \<and>
       meta m = Some (Inr (Some cti)) \<and> CreatedAt ti' = CreatedAt cti \<and> TLabels ti' = TLabels cti)"
      using IH m Some by (auto split: if_splits)
    ultimately show ?thesis using IH m Some by auto
  qed
qed simp

text \<open>
  The metadata of an image index.  They are always found when the fuel covers the nesting of the
  manifests.  The digest is that of the index itself, so that the container engine picks the platform; the
  date is the greatest among the manifests of the wanted platforms, and no manifest of another platform is
  looked at.
\<close>

theorem index_metadata:
  assumes "refs \<noteq> []" "depth_ok (Suc n) env opts (DeserializedImageIndex refs (Inr bytes))" "WantsMetadata opts"
  shows "\<exists>res. TagMetadata (Suc n) env opts (DeserializedImageIndex refs (Inr bytes)) = Some res \<and>
    (res = Inr None \<longleftrightarrow> wanted_refs opts refs = []) \<and>
    (\<forall>ti. res = Inr (Some ti) \<longrightarrow>
      Digest ti = sha256_Sum256 env bytes \<and>
      (\<forall>ref \<in> set (wanted_refs opts refs). \<forall>m cti. manifest_Get env (d_Digest ref) = Inr m \<longrightarrow>
         TagMetadata n env opts m = Some (Inr (Some cti)) \<longrightarrow> CreatedAt cti \<le> CreatedAt ti) \<and>
      (CreatedAt ti = zero_time \<or>
       (\<exists>ref \<in> set (wanted_refs opts refs). \<exists>m cti. manifest_Get env (d_Digest ref) = Inr m \<and>
          TagMetadata n env opts m = Some (Inr (Some cti)) \<and> CreatedAt ti = CreatedAt cti \<and>
          TLabels ti = TLabels cti)))"
proof -
  let ?ti = "new_TagInfo\<lparr>Digest := sha256_Sum256 env bytes\<rparr>" and ?ml = "wanted_refs opts refs"
  obtain res where res: "TagMetadata (Suc n) env opts (DeserializedImageIndex refs (Inr bytes)) = Some res"
    using depth_ok_Some [OF assms(2)] by blast
  then have eq: "(if ?ml = [] then Some (Inr None) else refs_loop env (TagMetadata n env opts) ?ti ?ml) = Some res"
    using assms(1,3) by (auto simp: TagInfoFromReferences_def Let_def split: if_splits)
  have some: "refs_loop env meta ti ml \<noteq> Some (Inr None)" for meta ti ml
    by (induction ml arbitrary: ti) (auto split: sum.splits option.splits)
  then have "res = Inr None \<longleftrightarrow> ?ml = []" using eq by (auto split: if_splits)
  moreover have ti: "CreatedAt ?ti = zero_time" "Digest ?ti = sha256_Sum256 env bytes"
    by (simp_all add: new_TagInfo_def)
  moreover have "Digest ti = sha256_Sum256 env bytes \<and>
      (\<forall>ref \<in> set ?ml. \<forall>m cti. manifest_Get env (d_Digest ref) = Inr m \<longrightarrow>
         TagMetadata n env opts m = Some (Inr (Some cti)) \<longrightarrow> CreatedAt cti \<le> CreatedAt ti) \<and>
      (CreatedAt ti = zero_time \<or>
       (\<exists>ref \<in> set ?ml. \<exists>m cti. manifest_Get env (d_Digest ref) = Inr m \<and>
          TagMetadata n env opts m = Some (Inr (Some cti)) \<and> CreatedAt ti = CreatedAt cti \<and>
          TLabels ti = TLabels cti))" if "res = Inr (Some ti)" for ti
  proof -
    have "refs_loop env (TagMetadata n env opts) ?ti ?ml = Some (Inr (Some ti))"
      using eq that by (auto split: if_splits)
    from refs_loop_newest [OF this] show ?thesis unfolding ti(2) using ti(1) by blast
  qed
  ultimately show ?thesis using res by blast
qed

definition sample_metadata_env :: metadata_env where
  "sample_metadata_env =
     \<lparr>sha256_Sum256 = (\<lambda>_. replicate 32 CHR ''h''), blob_Get = Inr,
      manifest_Get = (\<lambda>d. Inr (OCIManifest d [] (Inr d))),
      unmarshal_info = (\<lambda>b. Some \<lparr>info_Arch = ''amd64'', info_Created = b, info_OS = ''linux'', info_Variant = [],
        info_Labels = []\<rparr>),
      time_Parse = (\<lambda>s. Some (int (length s)))\<rparr>"

definition sample_ref :: "string \<Rightarrow> string \<Rightarrow> Descriptor" where
  "sample_ref dgst arch =
     \<lparr>d_MediaType = [], d_ArtifactType = [], d_Digest = dgst,
      d_Platform = Some \<lparr>plat_OS = ''linux'', plat_Architecture = arch, plat_Variant = []\<rparr>, d_Annotations = []\<rparr>"

theorem index_metadata_witness:
  "\<exists>res. TagMetadata 2 sample_metadata_env (WithMetadata (WithPlatform NewManifestOptions ''linux'' ''amd64'' []) True)
     (DeserializedImageIndex [sample_ref ''aaa'' ''amd64'', sample_ref ''bbbbb'' ''arm64''] (Inr ''idx'')) = Some res \<and>
   res \<noteq> Inr None"
proof -
  let ?opts = "WithMetadata (WithPlatform NewManifestOptions ''linux'' ''amd64'' []) True"
  let ?refs = "[sample_ref ''aaa'' ''amd64'', sample_ref ''bbbbb'' ''arm64'']"
  have "depth_ok (Suc 1) sample_metadata_env ?opts (DeserializedImageIndex ?refs (Inr ''idx''))" by code_simp
  moreover have "WantsMetadata ?opts" "wanted_refs ?opts ?refs \<noteq> []" by code_simp+
  ultimately show ?thesis
    using index_metadata [of ?refs 1 sample_metadata_env ?opts "''idx''"] by (auto simp: numeral_2_eq_2)
qed

end
