(* ===== verification/Verify.thy ===== *)
theory Verify
  imports RegistryTags
begin

text \<open>
  Verification of cosign signatures (\<open>registry-scanner/pkg/image/verify.go\<close>).  The registry is the record
  \<open>RegistryFetcher\<close>; JSON and base64 decoding, SHA-256, the parsing of keys, ECDSA and the digest library
  (\<open>github.com/opencontainers/go-digest\<close>) are parameters.  \<open>hex\<close> is modelled.
\<close>

section \<open>Data\<close>

definition sigstoreBundleType :: string where
  "sigstoreBundleType = ''application/vnd.dev.sigstore.bundle.v0.3+json''"

definition ociImageIndexMediaType :: string where
  "ociImageIndexMediaType = ''application/vnd.oci.image.index.v1+json''"

definition simpleSigningMediaType :: string where
  "simpleSigningMediaType = ''application/vnd.dev.cosign.simplesigning.v1+json''"

definition simpleSigningSigAnnotation :: string where
  "simpleSigningSigAnnotation = ''dev.cosignproject.cosign/signature''"

record RegistryFetcher =
  rf_ManifestForTag :: "string \<Rightarrow> go_error + manifest"
  rf_ManifestForDigest :: "string \<Rightarrow> go_error + manifest"
  rf_Referrers :: "string \<Rightarrow> go_error + Descriptor list"
  rf_BlobContent :: "string \<Rightarrow> go_error + string"

record dsseEnvelope =
  Payload :: string
  PayloadType :: string
  Signatures :: "string list"

text \<open>An in-toto statement: its type and the digest maps of its subjects.\<close>

record inTotoStatement =
  StmtType :: string
  Subject :: "(string, string) gomap list"

datatype 'k public_key = ECDSAKey 'k | OtherKey

record 'k crypto_lib =
  unmarshal_bundle :: "string \<Rightarrow> dsseEnvelope option option"
  unmarshal_statement :: "string \<Rightarrow> inTotoStatement option"
  unmarshal_simple :: "string \<Rightarrow> string option"
  base64_Decode :: "string \<Rightarrow> string option"
  sha256 :: "string \<Rightarrow> char list"
  digest_Parse :: "string \<Rightarrow> string option"
  digest_FromBytes :: "string \<Rightarrow> string"
  digest_Algorithm :: "string \<Rightarrow> string"
  manifest_MediaType :: "manifest \<Rightarrow> string"
  manifest_References :: "manifest \<Rightarrow> Descriptor list"
  pem_Decode :: "string \<Rightarrow> string option"
  x509_ParsePKIXPublicKey :: "string \<Rightarrow> 'k public_key option"
  ecdsa_VerifyASN1 :: "'k \<Rightarrow> char list \<Rightarrow> string \<Rightarrow> bool"

datatype verify_error =
  NoTagInformation
| FetchFailed verify_error
| InvalidManifestDigest string
| ManifestFetchError go_error
| PayloadError go_error
| ReferrersFailed go_error
| NoSignatureFound
| NotAnOCIManifest
| NoLayers
| UnsupportedLayerMediaType string
| BlobError go_error
| InvalidBundle
| NoEnvelope
| NoSignatures
| InvalidPayloadEncoding
| InvalidPayload
| NoEmbeddedDigest
| DigestMismatch string string
| NoSignatureAnnotation
| KeyNotPEM
| KeyNotParsed
| KeyNotECDSA
| SignatureNotBase64
| PayloadDigestNotHex
| SignatureMismatch
| NoMatchingSignature nat

section \<open>Hexadecimal text\<close>

definition hex_val :: "char \<Rightarrow> nat option" where
  "hex_val c =
     (if CHR ''0'' \<le> c \<and> c \<le> CHR ''9'' then Some (of_char c - 48)
      else if CHR ''a'' \<le> c \<and> c \<le> CHR ''f'' then Some (of_char c - 87)
      else if CHR ''A'' \<le> c \<and> c \<le> CHR ''F'' then Some (of_char c - 55)
      else None)"

fun hex_DecodeString :: "string \<Rightarrow> char list option" where
  "hex_DecodeString [] = Some []"
| "hex_DecodeString [c] = None"
| "hex_DecodeString (a # b # s) =
     (case (hex_val a, hex_val b, hex_DecodeString s) of
        (Some x, Some y, Some bs) \<Rightarrow> Some (char_of (16 * x + y) # bs)
      | _ \<Rightarrow> None)"

section \<open>Operations\<close>

definition computePAE :: "string \<Rightarrow> string \<Rightarrow> string" where
  "computePAE payloadType payload =
     (''DSSEv1 '' @ show_nat (length payloadType) @ '' '' @ payloadType @ '' '' @
      show_nat (length payload) @ '' '') @ payload"

definition extractEmbeddedDigest :: "'k crypto_lib \<Rightarrow> string \<Rightarrow> string \<Rightarrow> string option" where
  "extractEmbeddedDigest lib payload expectedDigest =
     (case unmarshal_statement lib payload of
        None \<Rightarrow> None
      | Some stmt \<Rightarrow>
          (if strings_HasPrefix (StmtType stmt) ''https://in-toto.io/Statement'' then
             (let algo = digest_Algorithm lib expectedDigest
              in case List.map_filter
                        (\<lambda>subj. case map_of subj algo of
                           Some h \<Rightarrow> if h \<noteq> [] then Some (algo @ '':'' @ h) else None
                         | None \<Rightarrow> None) (Subject stmt) of
                   d # _ \<Rightarrow> Some d
                 | [] \<Rightarrow> Some [])
           else unmarshal_simple lib payload))"

definition checkDigestBinding :: "'k crypto_lib \<Rightarrow> string \<Rightarrow> string \<Rightarrow> verify_error option" where
  "checkDigestBinding lib payload expectedDigest =
     (case extractEmbeddedDigest lib payload expectedDigest of
        None \<Rightarrow> Some InvalidPayload
      | Some embeddedDigest \<Rightarrow>
          (if embeddedDigest = [] then Some NoEmbeddedDigest
           else if embeddedDigest \<noteq> expectedDigest then Some (DigestMismatch embeddedDigest expectedDigest)
           else None))"

definition extractDSSEBundle ::
  "'k crypto_lib \<Rightarrow> RegistryFetcher \<Rightarrow> Descriptor \<Rightarrow> string \<Rightarrow> verify_error + TagSignature list" where
  "extractDSSEBundle lib rf layer expectedDigest =
     (case rf_BlobContent rf (d_Digest layer) of
        Inl err \<Rightarrow> Inl (BlobError err)
      | Inr blobBytes \<Rightarrow>
          (case unmarshal_bundle lib blobBytes of
             None \<Rightarrow> Inl InvalidBundle
           | Some None \<Rightarrow> Inl NoEnvelope
           | Some (Some env) \<Rightarrow>
               (if Signatures env = [] then Inl NoSignatures
                else
                  (case base64_Decode lib (Payload env) of
                     None \<Rightarrow> Inl InvalidPayloadEncoding
                   | Some decodedPayload \<Rightarrow>
                       (case checkDigestBinding lib decodedPayload expectedDigest of
                          Some err \<Rightarrow> Inl err
                        | None \<Rightarrow>
                            (let payloadDigest =
                                   hex_EncodeToString (sha256 lib (computePAE (PayloadType env) decodedPayload))
                             in Inr (map (\<lambda>s. \<lparr>Sig = s, PayloadDigest = payloadDigest\<rparr>) (Signatures env))))))))"

definition extractSimpleSigning ::
  "'k crypto_lib \<Rightarrow> RegistryFetcher \<Rightarrow> Descriptor \<Rightarrow> string \<Rightarrow> verify_error + TagSignature list" where
  "extractSimpleSigning lib rf layer expectedDigest =
     (case map_of (d_Annotations layer) simpleSigningSigAnnotation of
        None \<Rightarrow> Inl NoSignatureAnnotation
      | Some sig \<Rightarrow>
          (if sig = [] then Inl NoSignatureAnnotation
           else
             (case rf_BlobContent rf (d_Digest layer) of
                Inl err \<Rightarrow> Inl (BlobError err)
              | Inr payloadBytes \<Rightarrow>
                  (case checkDigestBinding lib payloadBytes expectedDigest of
                     Some err \<Rightarrow> Inl err
                   | None \<Rightarrow>
                       Inr [\<lparr>Sig = sig, PayloadDigest = hex_EncodeToString (sha256 lib payloadBytes)\<rparr>]))))"

definition extractSigsFromManifest ::
  "'k crypto_lib \<Rightarrow> RegistryFetcher \<Rightarrow> manifest \<Rightarrow> string \<Rightarrow> verify_error + TagSignature list" where
  "extractSigsFromManifest lib rf m expectedDigest =
     (case m of
        OCIManifest _ layers _ \<Rightarrow>
          (case layers of
             [] \<Rightarrow> Inl NoLayers
           | layer # _ \<Rightarrow>
               (if d_MediaType layer = sigstoreBundleType then extractDSSEBundle lib rf layer expectedDigest
                else if d_MediaType layer = simpleSigningMediaType
                then extractSimpleSigning lib rf layer expectedDigest
                else Inl (UnsupportedLayerMediaType (d_MediaType layer))))
      | _ \<Rightarrow> Inl NotAnOCIManifest)"

text \<open>The signatures of one referenced manifest; failures are logged and skipped.\<close>

definition sigs_of_ref ::
  "'k crypto_lib \<Rightarrow> RegistryFetcher \<Rightarrow> string \<Rightarrow> Descriptor \<Rightarrow> TagSignature list" where
  "sigs_of_ref lib rf imgDigest ref =
     (case rf_ManifestForDigest rf (d_Digest ref) of
        Inl err \<Rightarrow> []
      | Inr m \<Rightarrow>
          (case extractSigsFromManifest lib rf m imgDigest of Inl err \<Rightarrow> [] | Inr sigs \<Rightarrow> sigs))"

definition manifest_Payload :: "manifest \<Rightarrow> go_error + string" where
  "manifest_Payload m =
     (case m of
        DeserializedManifestList _ p \<Rightarrow> p
      | DeserializedImageIndex _ p \<Rightarrow> p
      | Schema2Manifest _ _ p \<Rightarrow> p
      | OCIManifest _ _ p \<Rightarrow> p
      | OtherManifest \<Rightarrow> Inl (ErrText ''payload''))"

definition fetchSigsFromFallbackTag ::
  "'k crypto_lib \<Rightarrow> RegistryFetcher \<Rightarrow> string \<Rightarrow> string \<Rightarrow> verify_error + TagSignature list" where
  "fetchSigsFromFallbackTag lib rf fallbackTag imgDigest =
     (case rf_ManifestForTag rf fallbackTag of
        Inl err \<Rightarrow> Inl (ManifestFetchError err)
      | Inr fallbackManifest \<Rightarrow>
          (case manifest_Payload fallbackManifest of
             Inl err \<Rightarrow> Inl (PayloadError err)
           | Inr _ \<Rightarrow>
               (if manifest_MediaType lib fallbackManifest \<noteq> ociImageIndexMediaType
                then extractSigsFromManifest lib rf fallbackManifest imgDigest
                else Inr (concat (map (sigs_of_ref lib rf imgDigest) (manifest_References lib fallbackManifest))))))"

fun fallback_loop ::
  "'k crypto_lib \<Rightarrow> RegistryFetcher \<Rightarrow> string \<Rightarrow> string list \<Rightarrow> TagSignature list" where
  "fallback_loop lib rf imgDigest [] = []"
| "fallback_loop lib rf imgDigest (fallbackTag # ts) =
     (case fetchSigsFromFallbackTag lib rf fallbackTag imgDigest of
        Inl err \<Rightarrow> fallback_loop lib rf imgDigest ts
      | Inr sigs \<Rightarrow> if sigs \<noteq> [] then sigs else fallback_loop lib rf imgDigest ts)"

text \<open>Step 1: the digest of the image's manifest.\<close>

definition resolve_digest ::
  "'k crypto_lib \<Rightarrow> RegistryFetcher \<Rightarrow> ImageTag \<Rightarrow> verify_error + string" where
  "resolve_digest lib rf imgTag =
     (if ManifestDigest imgTag \<noteq> [] then
        (case digest_Parse lib (ManifestDigest imgTag) of
           None \<Rightarrow> Inl (InvalidManifestDigest (ManifestDigest imgTag))
         | Some d \<Rightarrow> Inr d)
      else
        (case rf_ManifestForTag rf (TagName imgTag) of
           Inl err \<Rightarrow> Inl (ManifestFetchError err)
         | Inr imgManifest \<Rightarrow>
             (case manifest_Payload imgManifest of
                Inl err \<Rightarrow> Inl (PayloadError err)
              | Inr imgPayload \<Rightarrow> Inr (digest_FromBytes lib imgPayload))))"

definition fetchTagSignatures ::
  "'k crypto_lib \<Rightarrow> RegistryFetcher \<Rightarrow> ImageTag \<Rightarrow> verify_error + TagSignature list" where
  "fetchTagSignatures lib rf imgTag =
     (case resolve_digest lib rf imgTag of
        Inl err \<Rightarrow> Inl err
      | Inr imgDigest \<Rightarrow>
          (let referrers = (case rf_Referrers rf imgDigest of Inl _ \<Rightarrow> [] | Inr rs \<Rightarrow> rs);
               allSigs = concat (map (sigs_of_ref lib rf imgDigest)
                 (filter (\<lambda>ref. d_ArtifactType ref = sigstoreBundleType) referrers));
               digestTag = strings_ReplaceAll imgDigest CHR '':'' CHR ''-'';
               allSigs = (if allSigs = [] then fallback_loop lib rf imgDigest [digestTag, digestTag @ ''.sig'']
                          else allSigs)
           in if allSigs = [] then
                (case rf_Referrers rf imgDigest of
                   Inl referrersErr \<Rightarrow> Inl (ReferrersFailed referrersErr)
                 | Inr _ \<Rightarrow> Inl NoSignatureFound)
              else Inr allSigs))"

definition verifySignature :: "'k crypto_lib \<Rightarrow> TagSignature \<Rightarrow> string \<Rightarrow> verify_error option" where
  "verifySignature lib sig pemPublicKey =
     (case pem_Decode lib pemPublicKey of
        None \<Rightarrow> Some KeyNotPEM
      | Some block \<Rightarrow>
          (case x509_ParsePKIXPublicKey lib block of
             None \<Rightarrow> Some KeyNotParsed
           | Some OtherKey \<Rightarrow> Some KeyNotECDSA
           | Some (ECDSAKey ecKey) \<Rightarrow>
               (case base64_Decode lib (Sig sig) of
                  None \<Rightarrow> Some SignatureNotBase64
                | Some sigBytes \<Rightarrow>
                    (case hex_DecodeString (PayloadDigest sig) of
                       None \<Rightarrow> Some PayloadDigestNotHex
                     | Some digestBytes \<Rightarrow>
                         (if \<not> ecdsa_VerifyASN1 lib ecKey digestBytes sigBytes then Some SignatureMismatch
                          else None)))))"

text \<open>The image is a pointer: the signatures that were fetched stay on its tag.\<close>

definition VerifyWithPublicKey ::
  "'k crypto_lib \<Rightarrow> RegistryFetcher \<Rightarrow> ImageTag option \<Rightarrow> string \<Rightarrow> ImageTag option \<times> verify_error option" where
  "VerifyWithPublicKey lib rf imgTag cosignKey =
     (case imgTag of
        None \<Rightarrow> (None, Some NoTagInformation)
      | Some t \<Rightarrow>
          (case (if TagSignatures t = [] then fetchTagSignatures lib rf t else Inr (TagSignatures t)) of
             Inl err \<Rightarrow> (Some t, Some (FetchFailed err))
           | Inr sigs \<Rightarrow>
               (Some (t\<lparr>TagSignatures := sigs\<rparr>),
                if list_ex (\<lambda>sig. verifySignature lib sig cosignKey = None) sigs then None
                else Some (NoMatchingSignature (length sigs)))))"

section \<open>Encodings are unambiguous\<close>

lemma hex_val_digit: "n < 16 \<Longrightarrow> hex_val (hex_digit n) = Some n"
proof -
  have "\<forall>n \<in> set [0..<16]. hex_val (hex_digit n) = Some n" by code_simp
  then show "n < 16 \<Longrightarrow> hex_val (hex_digit n) = Some n" by simp
qed

lemma hex_roundtrip: "hex_DecodeString (hex_EncodeToString bs) = Some bs"
proof (induction bs)
  case (Cons b bs)
  have "(of_char b :: nat) div 16 < 16" "(of_char b :: nat) mod 16 < 16"
    using nat_of_char_less_256 [of b] by (simp_all add: less_mult_imp_div_less)
  moreover have "hex_EncodeToString (b # bs) =
      hex_digit (of_char b div 16) # hex_digit (of_char b mod 16) # hex_EncodeToString bs"
    by (simp add: hex_EncodeToString_def)
  moreover have "char_of (16 * (of_char b div 16) + (of_char b mod 16) :: nat) = b" by simp
  ultimately show ?case using Cons by (simp add: hex_val_digit)
qed (simp add: hex_EncodeToString_def)

text \<open>
  The DSSE pre-authentication encoding is injective: two different pairs of payload type and payload
  are never encoded to the same bytes, so that a signature over one cannot stand for the other.
\<close>

theorem computePAE_injective:
  "computePAE t p = computePAE t' p' \<longleftrightarrow> t = t' \<and> p = p'"
proof
  assume "computePAE t p = computePAE t' p'"
  then have "show_nat (length t) @ CHR '' '' # (t @ CHR '' '' # show_nat (length p) @ CHR '' '' # p) =
      show_nat (length t') @ CHR '' '' # (t' @ CHR '' '' # show_nat (length p') @ CHR '' '' # p')"
    by (simp add: computePAE_def)
  from first_sep_eq [OF this show_nat_no_space show_nat_no_space]
  have len: "length t = length t'"
    and rest: "t @ CHR '' '' # show_nat (length p) @ CHR '' '' # p =
      t' @ CHR '' '' # show_nat (length p') @ CHR '' '' # p'"
    using show_nat_inj by blast+
  from rest len have "t = t'" "show_nat (length p) @ CHR '' '' # p = show_nat (length p') @ CHR '' '' # p'"
    by simp_all
  then show "t = t' \<and> p = p'" using first_sep_eq [OF _ show_nat_no_space show_nat_no_space] by blast
qed simp

section \<open>What an accepted image is signed for\<close>

text \<open>
  A signature candidate is bound to a digest when it stands for a payload of the registry that embeds this
  digest, signed either directly or in its DSSE encoding.
\<close>

definition bound_to :: "'k crypto_lib \<Rightarrow> string \<Rightarrow> TagSignature \<Rightarrow> bool" where
  "bound_to lib dgst sig =
     (\<exists>payload msg. extractEmbeddedDigest lib payload dgst = Some dgst \<and> dgst \<noteq> [] \<and>
        (msg = payload \<or> (\<exists>ty. msg = computePAE ty payload)) \<and>
        PayloadDigest sig = hex_EncodeToString (sha256 lib msg))"

lemma checkDigestBinding_None:
  "checkDigestBinding lib payload dgst = None \<longleftrightarrow>
     extractEmbeddedDigest lib payload dgst = Some dgst \<and> dgst \<noteq> []"
  by (auto simp: checkDigestBinding_def split: option.splits if_splits)

lemma bound_to_intros:
  assumes "extractEmbeddedDigest lib payload dgst = Some dgst" "dgst \<noteq> []"
  shows "bound_to lib dgst \<lparr>Sig = s, PayloadDigest = hex_EncodeToString (sha256 lib payload)\<rparr>"
    and "bound_to lib dgst \<lparr>Sig = s, PayloadDigest = hex_EncodeToString (sha256 lib (computePAE ty payload))\<rparr>"
  unfolding bound_to_def using assms by (intro exI [of _ payload] exI conjI; auto)+

lemma extractDSSEBundle_bound:
  "extractDSSEBundle lib rf layer dgst = Inr sigs \<Longrightarrow> sig \<in> set sigs \<Longrightarrow> bound_to lib dgst sig"
  unfolding extractDSSEBundle_def
  by (auto simp: checkDigestBinding_None Let_def intro: bound_to_intros split: sum.splits option.splits if_splits)

lemma extractSimpleSigning_bound:
  "extractSimpleSigning lib rf layer dgst = Inr sigs \<Longrightarrow> sig \<in> set sigs \<Longrightarrow> bound_to lib dgst sig"
  unfolding extractSimpleSigning_def
  by (auto simp: checkDigestBinding_None intro: bound_to_intros split: sum.splits option.splits if_splits)

lemma extractSigsFromManifest_bound:
  "extractSigsFromManifest lib rf m dgst = Inr sigs \<Longrightarrow> sig \<in> set sigs \<Longrightarrow> bound_to lib dgst sig"
  unfolding extractSigsFromManifest_def
  by (auto split: manifest.splits list.splits if_splits
      dest: extractDSSEBundle_bound extractSimpleSigning_bound)

lemma sigs_of_ref_bound: "sig \<in> set (sigs_of_ref lib rf dgst ref) \<Longrightarrow> bound_to lib dgst sig"
  unfolding sigs_of_ref_def by (auto split: sum.splits dest: extractSigsFromManifest_bound [OF sym])

lemma fallback_loop_bound: "sig \<in> set (fallback_loop lib rf dgst ts) \<Longrightarrow> bound_to lib dgst sig"
proof (induction ts)
  case (Cons t ts)
  have "bound_to lib dgst sig" if "fetchSigsFromFallbackTag lib rf t dgst = Inr sigs" "sig \<in> set sigs" for sigs
    using that unfolding fetchSigsFromFallbackTag_def
    by (auto split: sum.splits if_splits dest: extractSigsFromManifest_bound sigs_of_ref_bound)
  then show ?case using Cons by (auto split: sum.splits if_splits)
qed simp

lemma fetchTagSignatures_bound:
  assumes "fetchTagSignatures lib rf t = Inr sigs" "sig \<in> set sigs"
  shows "\<exists>dgst. resolve_digest lib rf t = Inr dgst \<and> bound_to lib dgst sig"
  using assms unfolding fetchTagSignatures_def Let_def
  by (auto simp del: fallback_loop.simps split: sum.splits if_splits dest: sigs_of_ref_bound fallback_loop_bound)

lemma verifySignature_None:
  assumes "verifySignature lib sig key = None"
  shows "\<exists>block k sigBytes dgst. pem_Decode lib key = Some block \<and>
    x509_ParsePKIXPublicKey lib block = Some (ECDSAKey k) \<and> base64_Decode lib (Sig sig) = Some sigBytes \<and>
    hex_DecodeString (PayloadDigest sig) = Some dgst \<and> ecdsa_VerifyASN1 lib k dgst sigBytes"
  using assms by (auto simp: verifySignature_def split: option.splits public_key.splits if_splits)

text \<open>
  \<open>C2\<close>.  An image is accepted only when it is signed for itself.  When verification succeeds for a tag with
  no cached signatures, the configured key is an ECDSA key and verifies a signature over the SHA-256 hash of
  a payload, or of its DSSE encoding, that embeds exactly the digest of the image's manifest.  A signature
  made for another image is never accepted.
\<close>

theorem accepted_image_is_signed:
  assumes "VerifyWithPublicKey lib rf (Some t) key = (t', None)" "TagSignatures t = []"
  shows "\<exists>dgst payload msg block k sig sigBytes.
    resolve_digest lib rf t = Inr dgst \<and> dgst \<noteq> [] \<and> extractEmbeddedDigest lib payload dgst = Some dgst \<and>
    (msg = payload \<or> (\<exists>ty. msg = computePAE ty payload)) \<and>
    pem_Decode lib key = Some block \<and> x509_ParsePKIXPublicKey lib block = Some (ECDSAKey k) \<and>
    base64_Decode lib sig = Some sigBytes \<and> ecdsa_VerifyASN1 lib k (sha256 lib msg) sigBytes"
proof -
  obtain sigs sig where sig: "fetchTagSignatures lib rf t = Inr sigs" "sig \<in> set sigs" "verifySignature lib sig key = None"
    using assms by (auto simp: VerifyWithPublicKey_def list_ex_iff split: sum.splits if_splits)
  obtain dgst payload msg where b: "resolve_digest lib rf t = Inr dgst"
    "extractEmbeddedDigest lib payload dgst = Some dgst" "dgst \<noteq> []"
    "msg = payload \<or> (\<exists>ty. msg = computePAE ty payload)"
    "PayloadDigest sig = hex_EncodeToString (sha256 lib msg)"
    using fetchTagSignatures_bound [OF sig(1,2)] unfolding bound_to_def by blast
  obtain block k sigBytes where "pem_Decode lib key = Some block"
    "x509_ParsePKIXPublicKey lib block = Some (ECDSAKey k)" "base64_Decode lib (Sig sig) = Some sigBytes"
    "ecdsa_VerifyASN1 lib k (sha256 lib msg) sigBytes"
    using verifySignature_None [OF sig(3)] unfolding b(5) hex_roundtrip by auto
  then show ?thesis using b(1-4) by blast
qed

text \<open>A small instance: one image with one simple-signing layer.\<close>

definition sample_crypto :: "string crypto_lib" where
  "sample_crypto =
     \<lparr>unmarshal_bundle = (\<lambda>_. None),
      unmarshal_statement = (\<lambda>p. Some \<lparr>StmtType = [], Subject = []\<rparr>), unmarshal_simple = Some,
      base64_Decode = Some, sha256 = (\<lambda>s. s), digest_Parse = Some, digest_FromBytes = (\<lambda>s. s),
      digest_Algorithm = (\<lambda>_. ''sha256''), manifest_MediaType = (\<lambda>_. []), manifest_References = (\<lambda>_. []),
      pem_Decode = Some, x509_ParsePKIXPublicKey = (\<lambda>k. Some (ECDSAKey k)),
      ecdsa_VerifyASN1 = (\<lambda>k m s. s = k @ m)\<rparr>"

definition sample_fetcher :: RegistryFetcher where
  "sample_fetcher =
     \<lparr>rf_ManifestForTag = (\<lambda>t. if t = ''d1'' then Inr (OCIManifest [] [\<lparr>d_MediaType = simpleSigningMediaType,
          d_ArtifactType = [], d_Digest = ''blob'', d_Platform = None,
          d_Annotations = [(simpleSigningSigAnnotation, ''keyd1'')]\<rparr>] (Inr []))
        else Inl (ErrText ''404'')),
      rf_ManifestForDigest = (\<lambda>_. Inl (ErrText ''404'')), rf_Referrers = (\<lambda>_. Inr []),
      rf_BlobContent = (\<lambda>_. Inr ''d1'')\<rparr>"

theorem accepted_image_is_signed_witness:
  "\<exists>msg. ecdsa_VerifyASN1 sample_crypto ''key'' msg (''key'' @ msg) \<and>
     snd (VerifyWithPublicKey sample_crypto sample_fetcher
       (Some ((NewImageTag ''1.0'' 0 [])\<lparr>ManifestDigest := ''d1''\<rparr>)) ''key'') = None"
proof -
  let ?t = "(NewImageTag ''1.0'' 0 [])\<lparr>ManifestDigest := ''d1''\<rparr>"
  have ok: "snd (VerifyWithPublicKey sample_crypto sample_fetcher (Some ?t) ''key'') = None" by code_simp
  then have "VerifyWithPublicKey sample_crypto sample_fetcher (Some ?t) ''key'' =
      (fst (VerifyWithPublicKey sample_crypto sample_fetcher (Some ?t) ''key''), None)"
    by (metis prod.collapse)
  from accepted_image_is_signed [OF this] show ?thesis
    using ok by (auto simp: sample_crypto_def NewImageTag_def NewImageTagWithLabels_def)
qed

end
