(* ===== verification/Update.thy ===== *)
theory Update
  imports GitWrite Verify
begin

text \<open>
  One update of an application (\<open>pkg/argocd/update.go\<close>, \<open>UpdateApplication\<close>): for each tracked image the tags
  of its registry are fetched, the newest allowed one is chosen, its signature is checked and the image is set
  in the application; then the changes are written back.  All components meet here.
\<close>

section \<open>Configuration and results\<close>

record ImageUpdaterResult =
  NumApplicationsProcessed :: nat
  NumImagesFound :: nat
  NumImagesUpdated :: nat
  NumImagesConsidered :: nat
  NumSkipped :: nat
  NumErrors :: nat
  ApplicationsMatched :: nat
  Changes :: "ChangeEntry list"

record ('s, 'v, 'c, 'k, 'w) UpdateConfiguration =
  uc_NewRegFN :: "'s RegistryEndpoint \<Rightarrow> string \<Rightarrow> string \<Rightarrow> string + manifest RegistryClient"
  uc_KubeClient :: "kube_client option"
  uc_DryRun :: bool
  uc_GitCommitUser :: string
  uc_GitCommitEmail :: string
  uc_GitCommitMessage :: "message_template option"
  uc_GitCommitSigningKey :: string
  uc_GitCommitSigningMethod :: string
  uc_GitCommitSignOff :: bool
  uc_GitCommitMethod :: string
  uc_DisableKubeEvents :: bool
  uc_IgnorePlatforms :: bool
  uc_cache :: "'s ImageTagCache"
  uc_newCache :: 's
  uc_scan :: scan_env
  uc_cred :: cred_env
  uc_semver :: "('v, 'c) semver_lib"
  uc_regexp :: "string \<Rightarrow> (string \<Rightarrow> bool) option"
  uc_runtime :: "string \<times> string"
  uc_crypto :: "'k crypto_lib"
  uc_write :: "'w write_env"
  uc_CreateEvent :: "Application \<Rightarrow> string \<Rightarrow> (string \<times> string) list \<Rightarrow> 'w \<Rightarrow> 'w"

text \<open>The variables of the loop over the images.\<close>

record ('s, 't) loop_state =
  lp_reg :: "('s, 't) reg_state"
  lp_app :: Application
  lp_live :: "ContainerImage list"
  lp_result :: ImageUpdaterResult
  lp_changeList :: "ChangeEntry list"
  lp_needUpdate :: bool

definition count_skipped :: "('s, 't) loop_state \<Rightarrow> ('s, 't) loop_state" where
  "count_skipped st = st\<lparr>lp_result := (lp_result st)\<lparr>NumSkipped := NumSkipped (lp_result st) + 1\<rparr>\<rparr>"

definition count_error :: "('s, 't) loop_state \<Rightarrow> ('s, 't) loop_state" where
  "count_error st = st\<lparr>lp_result := (lp_result st)\<lparr>NumErrors := NumErrors (lp_result st) + 1\<rparr>\<rparr>"

definition count_considered :: "('s, 't) loop_state \<Rightarrow> ('s, 't) loop_state" where
  "count_considered st = st\<lparr>lp_result := (lp_result st)\<lparr>NumImagesConsidered := NumImagesConsidered (lp_result st) + 1\<rparr>\<rparr>"

section \<open>One image\<close>

definition with_tag :: "ImageTag \<Rightarrow> ContainerImage \<Rightarrow> ContainerImage" where
  "with_tag t ci = ContainerImage (RegistryURL ci) (ImageName ci) (Some t) (ImageAlias ci) (KustomizeImage ci) (original ci)"

text \<open>A live image without a tag gets a tag without a name, in the list of live images.\<close>

definition dummy_tag :: "nat \<Rightarrow> ContainerImage list \<Rightarrow> ContainerImage list" where
  "dummy_tag i live = (if ImageTag (live ! i) = None then live[i := with_tag (NewImageTag [] 0 []) (live ! i)] else live)"

definition version_constraint ::
  "('s, 'v, 'c, 'k, 'w) UpdateConfiguration \<Rightarrow> Image \<Rightarrow> VersionConstraint" where
  "version_constraint conf img =
     (case ParseMatch (uc_regexp conf) (im_AllowTags img) of (fn, args) \<Rightarrow>
        \<lparr>Constraint = (case ImageTag (im_ContainerImage img) of None \<Rightarrow> [] | Some t \<Rightarrow> TagName t),
         MatchFunc = Some fn, MatchArgs = args, IgnoreList = im_IgnoreTags img, Strategy = im_UpdateStrategy img,
         Options = WithMetadata (GetPlatformOptions (uc_runtime conf) (uc_IgnorePlatforms conf) (im_Platforms img))
                     (NeedsMetadata (im_UpdateStrategy img))\<rparr>)"

text \<open>References to a secret of another namespace are rejected.\<close>

definition foreign_secret :: "string \<Rightarrow> string \<Rightarrow> bool" where
  "foreign_secret secretVal appNs =
     ((strings_HasPrefix secretVal ''pullsecret:'' \<or> strings_HasPrefix secretVal ''secret:'') \<and>
      (let s = strings_SplitN (fst (snd (strings_Cut secretVal CHR '':''))) CHR ''/'' 2
       in length s = 2 \<and> s ! 0 \<noteq> appNs))"

text \<open>Credentials of the endpoint, then a client; \<^const>\<open>None\<close> is an error that has been counted by the caller.\<close>

definition connect ::
  "('s, 'v, 'c, 'k, 'w) UpdateConfiguration \<Rightarrow> kube_client \<Rightarrow> nat \<Rightarrow> string \<Rightarrow> ('s, 't) reg_state \<Rightarrow>
   ('s, 't) reg_state \<times> manifest RegistryClient option" where
  "connect conf kc rep secretVal reg =
     (case SetEndpointCredentials (uc_cred conf) (Some kc) (time_Now (uc_scan conf)) (deref reg rep) secretVal of
        (ep, r) \<Rightarrow>
          (assign rep (\<lambda>_. ep) reg,
           case r of
             Inl _ \<Rightarrow> None
           | Inr creds \<Rightarrow>
               (case uc_NewRegFN conf ep (Username creds) (Password creds) of Inl _ \<Rightarrow> None | Inr client \<Rightarrow> Some client)))"

definition get_tags ::
  "('s, 'v, 'c, 'k, 'w) UpdateConfiguration \<Rightarrow> nat \<Rightarrow> Image \<Rightarrow> manifest RegistryClient \<Rightarrow> VersionConstraint \<Rightarrow>
   ('s, 't) reg_state \<Rightarrow> (('s, 't) reg_state \<times> (tags_error + ImageTagList)) go" where
  "get_tags conf rep img client vc reg =
     go_bind (GetTags (uc_cache conf) (uc_scan conf) (deref reg rep) (im_ContainerImage img) client vc (im_PullSecret img = []))
       (\<lambda>(ep, r). Ret (assign rep (\<lambda>_. ep) reg, r))"

text \<open>The tags, with one retry after the registry has refused the credentials.\<close>

definition fetch_tags ::
  "('s, 'v, 'c, 'k, 'w) UpdateConfiguration \<Rightarrow> kube_client \<Rightarrow> nat \<Rightarrow> Image \<Rightarrow> VersionConstraint \<Rightarrow>
   ('s, 't) reg_state \<Rightarrow> (('s, 't) reg_state \<times> (manifest RegistryClient \<times> ImageTagList) option) go" where
  "fetch_tags conf kc rep img vc reg =
     (case connect conf kc rep (im_PullSecret img) reg of
        (reg, None) \<Rightarrow> Ret (reg, None)
      | (reg, Some client) \<Rightarrow>
          go_bind (get_tags conf rep img client vc reg)
            (\<lambda>(reg, r). case r of
               Inr tags \<Rightarrow> Ret (reg, Some (client, tags))
             | Inl ErrCredentialsInvalid \<Rightarrow>
                 (case connect conf kc rep (im_PullSecret img) reg of
                    (reg, None) \<Rightarrow> Ret (reg, None)
                  | (reg, Some client) \<Rightarrow>
                      go_bind (get_tags conf rep img client vc reg)
                        (\<lambda>(reg, r). Ret (reg, case r of Inl _ \<Rightarrow> None | Inr tags \<Rightarrow> Some (client, tags))))
             | Inl _ \<Rightarrow> Ret (reg, None)))"

definition fetcher_of :: "manifest RegistryClient \<Rightarrow> string \<Rightarrow> RegistryFetcher" where
  "fetcher_of client name =
     \<lparr>rf_ManifestForTag = rc_ManifestForTag client name, rf_ManifestForDigest = rc_ManifestForDigest client name,
      rf_Referrers = rc_Referrers client name, rf_BlobContent = rc_BlobContent client name\<rparr>"

text \<open>The signature check; the result is the tag, with the signatures that were fetched for it.\<close>

definition check_signature ::
  "'k crypto_lib \<Rightarrow> RegistryFetcher \<Rightarrow> Image \<Rightarrow> ImageTag \<Rightarrow> ImageTag option" where
  "check_signature lib rf img latest =
     (if im_EnableVerification img then
        (case im_Verify img of
           None \<Rightarrow> None
         | Some cosignKey \<Rightarrow>
             if cosignKey \<noteq> [] then
               (case VerifyWithPublicKey lib rf (Some latest) cosignKey of (t, None) \<Rightarrow> t | (t, Some err) \<Rightarrow> None)
             else None)
      else Some latest)"

definition needsUpdate :: "ContainerImage \<Rightarrow> ContainerImage \<Rightarrow> ImageTag \<Rightarrow> UpdateStrategy \<Rightarrow> bool go" where
  "needsUpdate updateableImage applicationImage latest strategy =
     (if strategy = StrategyDigest \<and>
         (case ImageTag updateableImage of None \<Rightarrow> True | Some t \<Rightarrow> \<not> IsDigest t \<or> TagDigest t \<noteq> TagDigest latest)
      then Ret True
      else
        (case ImageTag updateableImage of
           None \<Rightarrow> Panic
         | Some t \<Rightarrow>
             if \<not> tag_Equals t latest then Ret True
             else if KustomizeImage applicationImage \<noteq> None then DiffersFrom applicationImage updateableImage False
             else Ret False))"

text \<open>With the digest strategy the live image of the alias is selected again.\<close>

definition select_live :: "VersionConstraint \<Rightarrow> ContainerImage list \<Rightarrow> Image \<Rightarrow> ImageTag \<Rightarrow> nat \<Rightarrow> nat" where
  "select_live vc live img latest i =
     (if Strategy vc = StrategyDigest then
        (case MatchForDigestUpdate live (im_ContainerImage img) (TagDigest latest) of Some m \<Rightarrow> m | None \<Rightarrow> i)
      else i)"

definition set_image ::
  "('s, 'v, 'c, 'k, 'w) UpdateConfiguration \<Rightarrow> WriteBackConfig \<Rightarrow> Image \<Rightarrow> ContainerImage \<Rightarrow> ('s, 't) loop_state \<Rightarrow>
   (image_error + ('s, 't) loop_state) go" where
  "set_image conf wbc img newImage st =
     go_bind (setAppImage (we_argo (uc_write conf)) (we_ref (uc_write conf)) (lp_app st) newImage (Some wbc) img)
       (\<lambda>r. Ret (map_sum (\<lambda>e. e) (\<lambda>app. st\<lparr>lp_app := app\<rparr>) r))"

text \<open>The branch with a new version; \<open>old\<close> is the tag of the running image.\<close>

definition apply_update ::
  "('s, 'v, 'c, 'k, 'w) UpdateConfiguration \<Rightarrow> WriteBackConfig \<Rightarrow> RegistryFetcher \<Rightarrow> Image \<Rightarrow> ImageTag \<Rightarrow> ImageTag \<Rightarrow>
   ('s, 't) loop_state \<Rightarrow> ('s, 't) loop_state go" where
  "apply_update conf wbc rf img latest old st =
     (let appImageFullNameWithTag = GetFullNameWithTag (WithTag (im_ContainerImage img) (Some latest))
      in go_bind (getAppImage (we_argo (uc_write conf)) (we_ref (uc_write conf)) (lp_app st) (Some wbc) img)
           (\<lambda>r. case r of
              Inl err \<Rightarrow> Ret st
            | Inr appImageSpec \<Rightarrow>
                if appImageSpec = appImageFullNameWithTag then Ret st
                else
                  (case check_signature (uc_crypto conf) rf img latest of
                     None \<Rightarrow> Ret (count_error st)
                   | Some t \<Rightarrow>
                       (let appImageWithTag = WithTag (im_ContainerImage img) (Some t); st = st\<lparr>lp_needUpdate := True\<rparr>
                        in go_bind (set_image conf wbc img appImageWithTag st)
                             (\<lambda>r. case r of
                                Inl err \<Rightarrow> Ret (count_error st)
                              | Inr st \<Rightarrow>
                                  Ret (st\<lparr>lp_changeList := lp_changeList st @ [\<lparr>ce_Image = appImageWithTag, ce_OldTag = old, ce_NewTag = Some t\<rparr>],
                                          lp_result := (lp_result st)\<lparr>NumImagesUpdated := NumImagesUpdated (lp_result st) + 1\<rparr>\<rparr>))))))"

text \<open>The branch for an image that is up to date: its running tag is set in the application.\<close>

definition current_tag :: "VersionConstraint \<Rightarrow> ImageTag option \<Rightarrow> ImageTag option" where
  "current_tag vc currentTag =
     (if Strategy vc = StrategyDigest \<and> Constraint vc \<noteq> [] \<and> (case currentTag of None \<Rightarrow> True | Some t \<Rightarrow> TagName t = [])
      then Some (NewImageTag (Constraint vc) 0 (case currentTag of None \<Rightarrow> [] | Some t \<Rightarrow> TagDigest t))
      else currentTag)"

definition keep_current ::
  "('s, 'v, 'c, 'k, 'w) UpdateConfiguration \<Rightarrow> WriteBackConfig \<Rightarrow> Image \<Rightarrow> VersionConstraint \<Rightarrow> ImageTag option \<Rightarrow>
   ('s, 't) loop_state \<Rightarrow> ('s, 't) loop_state go" where
  "keep_current conf wbc img vc currentTag st =
     go_bind (set_image conf wbc img (WithTag (im_ContainerImage img) (current_tag vc currentTag)) st)
       (\<lambda>r. case r of Inl err \<Rightarrow> Ret (count_error st) | Inr st \<Rightarrow> Ret st)"

definition evaluate_tags ::
  "('s, 'v, 'c, 'k, 'w) UpdateConfiguration \<Rightarrow> WriteBackConfig \<Rightarrow> Image \<Rightarrow> VersionConstraint \<Rightarrow> nat \<Rightarrow> string \<Rightarrow>
   manifest RegistryClient \<Rightarrow> ImageTagList \<Rightarrow> ('s, 't) loop_state \<Rightarrow> ('s, 't) loop_state go" where
  "evaluate_tags conf wbc img vc i name client tags st =
     go_bind (GetNewestVersionFromTags (uc_semver conf) vc tags)
       (\<lambda>r. case r of
          Inl err \<Rightarrow> Ret (count_error st)
        | Inr None \<Rightarrow> Ret (count_skipped st)
        | Inr (Some latest) \<Rightarrow>
            (let live = lp_live st ! select_live vc (lp_live st) img latest i
             in go_bind (needsUpdate live (im_ContainerImage img) latest (Strategy vc))
                  (\<lambda>needed. if needed then
                       (case ImageTag live of
                          None \<Rightarrow> Panic
                        | Some old \<Rightarrow> apply_update conf wbc (fetcher_of client name) img latest old st)
                     else keep_current conf wbc img vc (ImageTag live) st)))"

definition update_image ::
  "('s, 'v, 'c, 'k, 'w) UpdateConfiguration \<Rightarrow> WriteBackConfig \<Rightarrow> Image \<Rightarrow> ('s, 't) loop_state \<Rightarrow> ('s, 't) loop_state go" where
  "update_image conf wbc img st =
     go_bind (ContainsImage (lp_live st) (im_ContainerImage img) False)
       (\<lambda>r. case r of
          None \<Rightarrow> Ret (count_skipped st)
        | Some i \<Rightarrow>
            (let st = count_considered (st\<lparr>lp_live := dummy_tag i (lp_live st)\<rparr>)
             in case GetRegistryEndpoint (uc_newCache conf) (im_ContainerImage img) (lp_reg st) of
                  (reg, Inl err) \<Rightarrow> Ret (count_error (st\<lparr>lp_reg := reg\<rparr>))
                | (reg, Inr rep) \<Rightarrow>
                    (let vc = version_constraint conf img; st = st\<lparr>lp_reg := reg\<rparr>
                     in if foreign_secret (im_PullSecret img) (app_Namespace (lp_app st)) then Ret (count_error st)
                        else
                          (case uc_KubeClient conf of
                             None \<Rightarrow> Panic
                           | Some kc \<Rightarrow>
                               go_bind (fetch_tags conf kc rep img vc reg)
                                 (\<lambda>(reg, r).
                                    let st = st\<lparr>lp_reg := reg\<rparr>
                                    in case r of
                                         None \<Rightarrow> Ret (count_error st)
                                       | Some (client, tags) \<Rightarrow>
                                           evaluate_tags conf wbc img vc i (name_in_registry (deref reg rep) (im_ContainerImage img))
                                             client tags st)))))"

section \<open>One application\<close>

fun update_images ::
  "('s, 'v, 'c, 'k, 'w) UpdateConfiguration \<Rightarrow> WriteBackConfig \<Rightarrow> Image list \<Rightarrow> ('s, 't) loop_state \<Rightarrow> ('s, 't) loop_state go" where
  "update_images conf wbc [] st = Ret st"
| "update_images conf wbc (img # imgs) st = go_bind (update_image conf wbc img st) (update_images conf wbc imgs)"

definition start_state :: "('s, 't) reg_state \<Rightarrow> Application \<Rightarrow> ContainerImage list \<Rightarrow> ('s, 't) loop_state" where
  "start_state reg app live =
     \<lparr>lp_reg = reg, lp_app = app, lp_live = live,
      lp_result = \<lparr>NumApplicationsProcessed = 1, NumImagesFound = 0, NumImagesUpdated = 0, NumImagesConsidered = 0, NumSkipped = 0, NumErrors = 0,
        ApplicationsMatched = 0, Changes = []\<rparr>,
      lp_changeList = [], lp_needUpdate = False\<rparr>"

definition commit_config ::
  "('s, 'v, 'c, 'k, 'w) UpdateConfiguration \<Rightarrow> Application \<Rightarrow> ChangeEntry list \<Rightarrow> WriteBackConfig \<Rightarrow> WriteBackConfig go" where
  "commit_config conf app changeList wbc =
     (if wb_Method wbc = WriteBackGit then
        (let wbc = (if uc_GitCommitUser conf \<noteq> [] then wbc\<lparr>wb_GitCommitUser := uc_GitCommitUser conf\<rparr> else wbc);
             wbc = (if uc_GitCommitEmail conf \<noteq> [] then wbc\<lparr>wb_GitCommitEmail := uc_GitCommitEmail conf\<rparr> else wbc)
         in go_bind (case uc_GitCommitMessage conf of
                       Some tpl \<Rightarrow>
                         if length changeList > 0
                         then go_bind (TemplateCommitMessage tpl (app_Name app) changeList) (\<lambda>m. Ret (wbc\<lparr>wb_GitCommitMessage := m\<rparr>))
                         else Ret wbc
                     | None \<Rightarrow> Ret wbc)
              (\<lambda>wbc. let wbc = (if uc_GitCommitSigningKey conf \<noteq> [] then wbc\<lparr>wb_GitCommitSigningKey := uc_GitCommitSigningKey conf\<rparr> else wbc)
                     in Ret (wbc\<lparr>wb_GitCommitSigningMethod := uc_GitCommitSigningMethod conf,
                                 wb_GitCommitSignOff := uc_GitCommitSignOff conf, wb_GitCommitMethod := uc_GitCommitMethod conf\<rparr>)))
      else Ret wbc)"

text \<open>The annotations of the event, one group per change.\<close>

fun event_annotations :: "nat \<Rightarrow> ChangeEntry list \<Rightarrow> (string \<times> string) list go" where
  "event_annotations i [] = Ret []"
| "event_annotations i (c # cs) =
     go_bind (new_tag c)
       (\<lambda>t. go_bind (event_annotations (Suc i) cs)
         (\<lambda>rest. let key = (\<lambda>k. ''argocd-image-updater.image-'' @ show_nat i @ ''/'' @ k)
                 in Ret ([(key ''full-image-name'', GetFullNameWithoutTag (ce_Image c)), (key ''image-name'', ImageName (ce_Image c)),
                          (key ''old-tag'', tag_String (ce_OldTag c)), (key ''new-tag'', tag_String t)] @ rest)))"

definition commit_update ::
  "('s, 'v, 'c, 'k, 'w) UpdateConfiguration \<Rightarrow> ApplicationImages \<Rightarrow> SyncIterationState \<Rightarrow> ChangeEntry list \<Rightarrow>
   ImageUpdaterResult \<Rightarrow> 'w \<Rightarrow> (ImageUpdaterResult \<times> SyncIterationState \<times> 'w) go" where
  "commit_update conf ai state changeList res w =
     (case commitChangesLocked (uc_write conf) ai state changeList w of
        ((Inl NilDeref, state), w) \<Rightarrow> Panic
      | ((Inl err, state), w) \<Rightarrow> Ret (res\<lparr>NumErrors := NumErrors res + 1, NumImagesUpdated := 0\<rparr>, state, w)
      | ((Inr _, state), w) \<Rightarrow>
          (if \<not> uc_DisableKubeEvents conf \<and> uc_KubeClient conf \<noteq> None then
             go_bind (event_annotations 0 changeList)
               (\<lambda>annotations. Ret (res, state,
                  uc_CreateEvent conf (ai_Application ai)
                    (''Successfully updated application '' @ [CHR 0x27] @ app_Name (ai_Application ai) @ [CHR 0x27]) annotations w))
           else Ret (res, state, w)))"

definition UpdateApplication ::
  "('s, 'v, 'c, 'k, 'w) UpdateConfiguration \<Rightarrow> ApplicationImages \<Rightarrow> SyncIterationState \<Rightarrow> ('s, 't) reg_state \<Rightarrow> 'w \<Rightarrow>
   (ImageUpdaterResult \<times> SyncIterationState \<times> ('s, 't) reg_state \<times> 'w) go" where
  "UpdateApplication conf ai state reg w =
     go_bind (GetImagesFromApplication (we_ref (uc_write conf)) ai)
       (\<lambda>live. go_bind (update_images conf (ai_WriteBackConfig ai) (ai_Images ai) (start_state reg (ai_Application ai) live))
         (\<lambda>st. go_bind (commit_config conf (lp_app st) (lp_changeList st) (ai_WriteBackConfig ai))
           (\<lambda>wbc. go_bind
              (if lp_needUpdate st \<and> \<not> uc_DryRun conf
               then commit_update conf (ai\<lparr>ai_Application := lp_app st, ai_WriteBackConfig := wbc\<rparr>) state (lp_changeList st) (lp_result st) w
               else Ret (lp_result st, state, w))
              (\<lambda>(res, state, w). Ret (res\<lparr>Changes := lp_changeList st\<rparr>, state, lp_reg st, w)))))"

section \<open>What one image can do to the outcome\<close>

text \<open>
  The part of the loop's variables that the caller sees, and the steps an image can make on it: it is not
  live, it fails, it has no suitable tag, it is up to date, it is changed, or it could not be set.
\<close>

record progress =
  pg_updated :: nat
  pg_considered :: nat
  pg_skipped :: nat
  pg_errors :: nat
  pg_changes :: "ChangeEntry list"
  pg_need :: bool

definition progress_of :: "('s, 't) loop_state \<Rightarrow> progress" where
  "progress_of st =
     \<lparr>pg_updated = NumImagesUpdated (lp_result st), pg_considered = NumImagesConsidered (lp_result st),
      pg_skipped = NumSkipped (lp_result st), pg_errors = NumErrors (lp_result st), pg_changes = lp_changeList st,
      pg_need = lp_needUpdate st\<rparr>"

definition no_progress :: progress where
  "no_progress = \<lparr>pg_updated = 0, pg_considered = 0, pg_skipped = 0, pg_errors = 0, pg_changes = [], pg_need = False\<rparr>"

definition considered :: "progress \<Rightarrow> progress" where
  "considered p = p\<lparr>pg_considered := pg_considered p + 1\<rparr>"

definition failed :: "progress \<Rightarrow> progress" where
  "failed p = p\<lparr>pg_errors := pg_errors p + 1\<rparr>"

definition skipped :: "progress \<Rightarrow> progress" where
  "skipped p = p\<lparr>pg_skipped := pg_skipped p + 1\<rparr>"

definition changed :: "ChangeEntry \<Rightarrow> progress \<Rightarrow> progress" where
  "changed c p = p\<lparr>pg_need := True, pg_changes := pg_changes p @ [c], pg_updated := pg_updated p + 1\<rparr>"

text \<open>Where a new tag comes from: it is the newest allowed one of the tags of the registry, and its signature was checked.\<close>

definition chosen :: "('s, 'v, 'c, 'k, 'w) UpdateConfiguration \<Rightarrow> Image \<Rightarrow> ImageTag \<Rightarrow> ImageTag \<Rightarrow> bool" where
  "chosen conf img latest t =
     (\<exists>ep ep' client name tags.
        GetTags (uc_cache conf) (uc_scan conf) ep (im_ContainerImage img) client (version_constraint conf img) (im_PullSecret img = []) =
          Ret (ep', Inr tags) \<and>
        GetNewestVersionFromTags (uc_semver conf) (version_constraint conf img) tags = Ret (Inr (Some latest)) \<and>
        check_signature (uc_crypto conf) (fetcher_of client name) img latest = Some t)"

inductive tag_step ::
  "('s, 'v, 'c, 'k, 'w) UpdateConfiguration \<Rightarrow> Image \<Rightarrow> progress \<Rightarrow> progress \<Rightarrow> bool" for conf img where
  Failed: "tag_step conf img p (failed p)"
| NoTag: "tag_step conf img p (skipped p)"
| UpToDate: "tag_step conf img p p"
| NotSet: "chosen conf img latest t \<Longrightarrow> tag_step conf img p (failed (p\<lparr>pg_need := True\<rparr>))"
| Changed: "chosen conf img latest t \<Longrightarrow>
    tag_step conf img p (changed \<lparr>ce_Image = WithTag (im_ContainerImage img) (Some t), ce_OldTag = old, ce_NewTag = Some t\<rparr> p)"

inductive image_step ::
  "('s, 'v, 'c, 'k, 'w) UpdateConfiguration \<Rightarrow> Image \<Rightarrow> progress \<Rightarrow> progress \<Rightarrow> bool" for conf img where
  NotLive: "image_step conf img p (skipped p)"
| Live: "tag_step conf img (considered p) q \<Longrightarrow> image_step conf img p q"

inductive image_run ::
  "('s, 'v, 'c, 'k, 'w) UpdateConfiguration \<Rightarrow> Image list \<Rightarrow> progress \<Rightarrow> progress \<Rightarrow> bool" for conf where
  Done: "image_run conf [] p p"
| Next: "image_step conf img p q \<Longrightarrow> image_run conf imgs q r \<Longrightarrow> image_run conf (img # imgs) p r"

inductive_cases image_stepE: "image_step conf img p q"
inductive_cases tag_stepE: "tag_step conf img p q"

lemma progress_simps [simp]:
  "progress_of (count_error st) = failed (progress_of st)"
  "progress_of (count_skipped st) = skipped (progress_of st)"
  "progress_of (count_considered st) = considered (progress_of st)"
  "progress_of (st\<lparr>lp_reg := reg\<rparr>) = progress_of st"
  "progress_of (st\<lparr>lp_live := live\<rparr>) = progress_of st"
  "progress_of (st\<lparr>lp_app := app\<rparr>) = progress_of st"
  "progress_of (st\<lparr>lp_needUpdate := b\<rparr>) = (progress_of st)\<lparr>pg_need := b\<rparr>"
  by (simp_all add: progress_of_def failed_def skipped_def considered_def count_error_def count_skipped_def count_considered_def)

lemma set_image_progress:
  "set_image conf wbc img new st = Ret (Inr st') \<Longrightarrow> progress_of st' = progress_of st"
  by (auto simp: set_image_def map_sum_def elim!: go_bindE split: sum.split_asm)

lemma keep_current_step:
  assumes "keep_current conf wbc img vc t st = Ret st'"
  shows "tag_step conf img (progress_of st) (progress_of st')"
  using assms by (auto simp: keep_current_def elim!: go_bindE dest!: set_image_progress split: sum.split_asm)
    (rule tag_step.intros)+

lemma apply_update_step:
  assumes "apply_update conf wbc rf img latest old st = Ret st'"
    and "\<And>t. check_signature (uc_crypto conf) rf img latest = Some t \<Longrightarrow> chosen conf img latest t"
  shows "tag_step conf img (progress_of st) (progress_of st')"
proof -
  have upd: "progress_of (s\<lparr>lp_changeList := lp_changeList s @ [c],
      lp_result := (lp_result s)\<lparr>NumImagesUpdated := Suc (NumImagesUpdated (lp_result s))\<rparr>\<rparr>) = changed c p"
    if "progress_of s = p\<lparr>pg_need := True\<rparr>" for s :: "('a, 'b) loop_state" and c p
    using that by (cases p) (auto simp: progress_of_def changed_def)
  show ?thesis
    using assms
    by (auto simp: apply_update_def Let_def upd elim!: go_bindE dest!: set_image_progress
        split: sum.split_asm option.split_asm if_split_asm) (erule tag_step.intros | rule tag_step.intros)+
qed

lemma evaluate_tags_step:
  assumes "evaluate_tags conf wbc img (version_constraint conf img) i name client tags st = Ret st'"
    and "GetTags (uc_cache conf) (uc_scan conf) ep (im_ContainerImage img) client (version_constraint conf img) (im_PullSecret img = []) =
      Ret (ep', Inr tags)"
  shows "tag_step conf img (progress_of st) (progress_of st')"
proof -
  have new: "tag_step conf img (progress_of st) (progress_of st')"
    if "apply_update conf wbc (fetcher_of client name) img latest old st = Ret st'"
      "GetNewestVersionFromTags (uc_semver conf) (version_constraint conf img) tags = Ret (Inr (Some latest))" for latest old
    by (rule apply_update_step [OF that(1)]) (use that(2) assms(2) in \<open>unfold chosen_def, blast\<close>)
  show ?thesis
    using assms(1)
    by (auto simp: evaluate_tags_def Let_def elim!: go_bindE split: sum.split_asm option.split_asm if_split_asm)
      (erule (1) new | erule keep_current_step | rule tag_step.intros)+
qed

lemma fetch_tags_tags:
  assumes "fetch_tags conf kc rep img vc reg = Ret (reg', Some (client, tags))"
  obtains ep ep' where "GetTags (uc_cache conf) (uc_scan conf) ep (im_ContainerImage img) client vc (im_PullSecret img = []) = Ret (ep', Inr tags)"
  using assms unfolding fetch_tags_def get_tags_def
  by (auto elim!: go_bindE split: prod.split_asm sum.split_asm option.split_asm tags_error.split_asm)

lemma update_image_step:
  assumes "update_image conf wbc img st = Ret st'"
  shows "image_step conf img (progress_of st) (progress_of st')"
proof -
  have live: "image_step conf img (progress_of st) (progress_of st')"
    if "evaluate_tags conf wbc img (version_constraint conf img) i name client tags (count_considered (st\<lparr>lp_live := live\<rparr>)\<lparr>lp_reg := reg\<rparr>) = Ret st'"
      and "fetch_tags conf kc rep img (version_constraint conf img) reg' = Ret (reg, Some (client, tags))"
    for i name client tags live reg kc rep reg'
    using fetch_tags_tags [OF that(2)] evaluate_tags_step [OF that(1)] by (auto intro: image_step.Live)
  have failed: "image_step conf img (progress_of st) (failed (considered (progress_of st)))"
    by (rule image_step.Live) (rule tag_step.Failed)
  show ?thesis
    using assms
    by (auto simp: update_image_def Let_def failed elim!: go_bindE intro!: image_step.NotLive
        split: sum.split_asm option.split_asm if_split_asm prod.split_asm) (erule (1) live)
qed

lemma update_images_run:
  "update_images conf wbc imgs st = Ret st' \<Longrightarrow> image_run conf imgs (progress_of st) (progress_of st')"
  by (induction imgs arbitrary: st) (auto elim!: go_bindE dest: update_image_step intro: image_run.intros)

text \<open>What a change in the list of changes stands for.\<close>

definition admitted :: "('s, 'v, 'c, 'k, 'w) UpdateConfiguration \<Rightarrow> Image \<Rightarrow> ChangeEntry \<Rightarrow> bool" where
  "admitted conf img c =
     (\<exists>latest t. chosen conf img latest t \<and> ce_NewTag c = Some t \<and> ce_Image c = WithTag (im_ContainerImage img) (Some t))"

lemma check_signature_Some:
  assumes "check_signature lib rf img latest = Some t"
  shows "TagName t = TagName latest \<and> TagDigest t = TagDigest latest \<and>
    (im_EnableVerification img \<longrightarrow>
       (\<exists>key. im_Verify img = Some key \<and> key \<noteq> [] \<and> VerifyWithPublicKey lib rf (Some latest) key = (Some t, None)))"
proof -
  have "TagName t' = TagName latest \<and> TagDigest t' = TagDigest latest"
    if "VerifyWithPublicKey lib rf (Some latest) key = (Some t', None)" for key t'
    using that by (auto simp: VerifyWithPublicKey_def split: sum.split_asm)
  then show ?thesis
    using assms by (auto simp: check_signature_def split: option.split_asm if_split_asm prod.split_asm)
qed

lemmas progress_defs = considered_def failed_def skipped_def changed_def

lemma no_progress_simps [simp]:
  "pg_updated no_progress = 0" "pg_considered no_progress = 0" "pg_skipped no_progress = 0" "pg_errors no_progress = 0"
  "pg_changes no_progress = []" "\<not> pg_need no_progress"
  by (simp_all add: no_progress_def)

lemma image_step_changes:
  assumes "image_step conf img p q"
  shows "\<forall>c \<in> set (pg_changes q). c \<in> set (pg_changes p) \<or> admitted conf img c"
  using assms by (auto simp: progress_defs admitted_def elim!: image_stepE tag_stepE)

lemma image_run_changes:
  "image_run conf imgs p q \<Longrightarrow> \<forall>c \<in> set (pg_changes q). c \<in> set (pg_changes p) \<or> (\<exists>img \<in> set imgs. admitted conf img c)"
  by (induction rule: image_run.induct) (auto dest: image_step_changes)

lemma image_step_counts:
  assumes "image_step conf img p q"
  shows "pg_updated q + pg_skipped q + pg_errors q \<le> Suc (pg_updated p + pg_skipped p + pg_errors p)"
    and "pg_considered q \<le> Suc (pg_considered p)"
    and "Suc (pg_considered p + pg_skipped p) \<le> pg_considered q + pg_skipped q"
    and "pg_updated q + pg_considered p \<le> pg_updated p + pg_considered q"
    and "pg_updated p = length (pg_changes p) \<Longrightarrow> pg_updated q = length (pg_changes q)"
    and "(pg_changes p \<noteq> [] \<longrightarrow> pg_need p) \<Longrightarrow> pg_changes q \<noteq> [] \<longrightarrow> pg_need q"
    and "(pg_need p \<longrightarrow> pg_changes p \<noteq> [] \<or> pg_errors p > 0) \<Longrightarrow> pg_need q \<longrightarrow> pg_changes q \<noteq> [] \<or> pg_errors q > 0"
  using assms by (auto simp: progress_defs elim!: image_stepE tag_stepE)

lemma image_run_counts:
  assumes "image_run conf imgs p q"
  shows "pg_updated q + pg_skipped q + pg_errors q \<le> length imgs + (pg_updated p + pg_skipped p + pg_errors p)"
    and "pg_considered q \<le> length imgs + pg_considered p"
    and "length imgs + (pg_considered p + pg_skipped p) \<le> pg_considered q + pg_skipped q"
    and "pg_updated q + pg_considered p \<le> pg_updated p + pg_considered q"
    and "pg_updated p = length (pg_changes p) \<Longrightarrow> pg_updated q = length (pg_changes q)"
    and "(pg_changes p \<noteq> [] \<longrightarrow> pg_need p) \<Longrightarrow> pg_changes q \<noteq> [] \<longrightarrow> pg_need q"
    and "(pg_need p \<longrightarrow> pg_changes p \<noteq> [] \<or> pg_errors p > 0) \<Longrightarrow> pg_need q \<longrightarrow> pg_changes q \<noteq> [] \<or> pg_errors q > 0"
  using assms by (induction rule: image_run.induct; auto dest: image_step_counts; fail)+

lemma commit_update_result:
  assumes "commit_update conf ai state changeList res w = Ret (res', state', w')"
  shows "res' = res \<or> res' = res\<lparr>NumErrors := NumErrors res + 1, NumImagesUpdated := 0\<rparr>"
  using assms by (auto simp: commit_update_def elim!: go_bindE split: prod.split_asm sum.split_asm git_error.split_asm if_split_asm)

text \<open>The outcome of an update is that of a run over its images; the commit can only turn it into an error.\<close>

lemma UpdateApplication_run:
  assumes "UpdateApplication conf ai state reg w = Ret (res, state', reg', w')"
  obtains p where "image_run conf (ai_Images ai) no_progress p"
    and "Changes res = pg_changes p" "NumImagesConsidered res = pg_considered p" "NumSkipped res = pg_skipped p"
    and "NumImagesUpdated res = pg_updated p \<and> NumErrors res = pg_errors p \<or>
         NumImagesUpdated res = 0 \<and> NumErrors res = pg_errors p + 1 \<and> pg_need p \<and> \<not> uc_DryRun conf"
    and "uc_DryRun conf \<or> \<not> pg_need p \<Longrightarrow> state' = state \<and> w' = w"
proof -
  from assms obtain live st wbc res0 where
    run: "update_images conf (ai_WriteBackConfig ai) (ai_Images ai) (start_state reg (ai_Application ai) live) = Ret st"
    and commit: "(if lp_needUpdate st \<and> \<not> uc_DryRun conf
       then commit_update conf (ai\<lparr>ai_Application := lp_app st, ai_WriteBackConfig := wbc\<rparr>) state (lp_changeList st) (lp_result st) w
       else Ret (lp_result st, state, w)) = Ret (res0, state', w')"
    and res: "res = res0\<lparr>Changes := lp_changeList st\<rparr>"
    unfolding UpdateApplication_def by (elim go_bindE) (auto elim!: go_bindE split: prod.split_asm)
  have start: "progress_of (start_state reg (ai_Application ai) live) = no_progress"
    by (simp add: progress_of_def start_state_def no_progress_def)
  show thesis
  proof (rule that)
    show "image_run conf (ai_Images ai) no_progress (progress_of st)"
      using update_images_run [OF run] unfolding start .
  qed (use commit res in \<open>auto simp: progress_of_def dest: commit_update_result split: if_split_asm\<close>)
qed


text \<open>
  \<open>C18\<close>.  The counters of a result are consistent: one application is processed; every tracked image is either
  considered or skipped, and only considered ones are updated; the number of updated images is the number of
  changes, unless the commit has failed; and every image has at most one outcome, the commit adding at most
  one more error.
\<close>

theorem result_counts:
  assumes "UpdateApplication conf ai state reg w = Ret (res, state', reg', w')"
  shows "(NumImagesUpdated res = length (Changes res) \<or> NumImagesUpdated res = 0 \<and> NumErrors res > 0) \<and>
    NumImagesConsidered res \<le> length (ai_Images ai) \<and> length (ai_Images ai) \<le> NumImagesConsidered res + NumSkipped res \<and>
    length (Changes res) \<le> NumImagesConsidered res \<and>
    length (Changes res) + NumSkipped res + NumErrors res \<le> length (ai_Images ai) + 1"
proof -
  from assms obtain p where run: "image_run conf (ai_Images ai) no_progress p"
    and p: "Changes res = pg_changes p" "NumImagesConsidered res = pg_considered p" "NumSkipped res = pg_skipped p"
      "NumImagesUpdated res = pg_updated p \<and> NumErrors res = pg_errors p \<or> NumImagesUpdated res = 0 \<and> NumErrors res = pg_errors p + 1"
    by (elim UpdateApplication_run) blast
  show ?thesis using p image_run_counts [OF run] by auto
qed

text \<open>
  \<open>C19\<close>.  A dry run changes nothing outside: neither the world (files, repositories, the Argo CD API, events) nor
  the state shared by the applications of the iteration.  The same holds for an update without changes and
  without errors.
\<close>

theorem dry_run_changes_nothing:
  assumes "UpdateApplication conf ai state reg w = Ret (res, state', reg', w')"
    and "uc_DryRun conf \<or> Changes res = [] \<and> NumErrors res = 0"
  shows "state' = state \<and> w' = w"
proof -
  from assms obtain p where run: "image_run conf (ai_Images ai) no_progress p"
    and p: "Changes res = pg_changes p" "NumErrors res = pg_errors p \<or> NumErrors res = pg_errors p + 1"
      "uc_DryRun conf \<or> \<not> pg_need p \<Longrightarrow> state' = state \<and> w' = w"
    by (elim UpdateApplication_run) blast
  have "\<not> pg_need p" if "\<not> uc_DryRun conf"
    using image_run_counts(7) [OF run] assms(2) p(1,2) that by auto
  then show ?thesis using p(3) by blast
qed

section \<open>Secrets of other namespaces\<close>

text \<open>
  A reference to a secret that is spelled as documented - the kind in lower case, no \<open>=\<close> - passes the
  check of \<open>UpdateApplication\<close> only when the secret lies in the namespace of the application.
\<close>

theorem secret_namespace_guard:
  assumes "s = kind @ '':'' @ ref" "kind \<in> {''secret'', ''pullsecret''}" "CHR ''='' \<notin> set s"
    and "\<not> foreign_secret s appNs" "ParseCredentialSource s False = Inr src"
  shows "SecretNamespace src = appNs"
proof -
  have kind: "CHR '':'' \<notin> set kind" "strings_ToLower kind = kind" using assms(2) by (auto simp: ascii_lower_def)
  have s: "s = kind @ CHR '':'' # ref" using assms(1) by simp
  from assms(3,5) have parse: "two_tokens (strings_Split s CHR '':'')"
    "parse_source_kind new_source (strings_Split s CHR '':'' ! 0) (strings_Split s CHR '':'' ! 1) = Inr src"
    by (auto simp: ParseCredentialSource_def strings_SplitN2_not_found two_tokens_def Let_def split: if_split_asm)
  then obtain a b where ab: "s = a @ CHR '':'' # b" "CHR '':'' \<notin> set a" "parse_source_kind new_source a b = Inr src"
    by (metis two_tokens_Split_parts)
  with s kind have "parse_source_kind new_source kind ref = Inr src" by (metis first_sep_eq)
  then obtain ns rest where ref: "ref = ns @ CHR ''/'' # rest" "CHR ''/'' \<notin> set ns" "SecretNamespace src = ns"
    using kind(2) assms(2)
    by (auto simp: parse_source_kind_def map_sum_Inr_iff parseSecretDefinition_iff parsePullSecretDefinition_iff new_source_def)
  have "strings_HasPrefix s ''pullsecret:'' \<or> strings_HasPrefix s ''secret:''"
    using assms(1,2) by (auto simp: strings_HasPrefix_def)
  then show ?thesis
    using assms(4) ref by (auto simp: foreign_secret_def s strings_Cut_found [OF kind(1)] strings_SplitN2_found [OF ref(2)] Let_def)
qed

text \<open>
  The check does not cover every spelling that is accepted.  The kind of a credential source may be
  written with capitals and a registry may precede it; for these spellings \<open>UpdateApplication\<close> lets any
  namespace pass, and \<open>ParseCredentialSource\<close> reads the secret of that namespace from them.
\<close>

theorem secret_namespace_guard_bypassed:
  assumes "ns \<noteq> []" "name \<noteq> []" "set (ns @ name) \<inter> {CHR '':'', CHR ''/'', CHR ''='', CHR ''#''} = {}"
  defines "src \<equiv> new_source\<lparr>CSType := CredentialSourcePullSecret, SecretNamespace := ns, SecretName := name, SecretField := pullSecretField\<rparr>"
  shows "\<not> foreign_secret (''PullSecret:'' @ ns @ ''/'' @ name) appNs \<and>
    ParseCredentialSource (''PullSecret:'' @ ns @ ''/'' @ name) False = Inr src \<and>
    \<not> foreign_secret (''gcr.io=pullsecret:'' @ ns @ ''/'' @ name) appNs \<and>
    ParseCredentialSource (''gcr.io=pullsecret:'' @ ns @ ''/'' @ name) False = Inr (src\<lparr>Registry := ''gcr.io''\<rparr>)"
proof -
  let ?ref = "ns @ CHR ''/'' # name"
  have chars: "CHR '':'' \<notin> set ?ref" "CHR ''='' \<notin> set ?ref" "CHR ''/'' \<notin> set (ns @ name)" using assms(3) by auto
  have lower: "strings_ToLower ''PullSecret'' = ''pullsecret''" "strings_ToLower ''pullsecret'' = ''pullsecret''" by code_simp+
  have kind: "parse_source_kind s k ?ref =
      Inr (s\<lparr>CSType := CredentialSourcePullSecret, SecretNamespace := ns, SecretName := name, SecretField := pullSecretField\<rparr>)"
    if "strings_ToLower k = ''pullsecret''" for s k
  proof -
    have "parsePullSecretDefinition s ?ref = Inr (s\<lparr>SecretNamespace := ns, SecretName := name, SecretField := pullSecretField\<rparr>)"
      using assms(1,2) chars(3) unfolding parsePullSecretDefinition_iff by auto
    then show ?thesis using that by (simp add: parse_source_kind_def)
  qed
  have body: "strings_Split (k @ CHR '':'' # ?ref) CHR '':'' = [k, ?ref]" "two_tokens [k, ?ref]"
    if "k \<in> {''PullSecret'', ''pullsecret''}" for k
    using that chars(1) by (auto simp: strings_Split_append strings_Split_no_sep two_tokens_def)
  have plain: "strings_SplitN (''PullSecret'' @ CHR '':'' # ?ref) CHR ''='' 2 = [''PullSecret'' @ CHR '':'' # ?ref]"
    using chars(2) by (intro strings_SplitN2_not_found) auto
  have prefixed: "strings_SplitN (''gcr.io'' @ CHR ''='' # ''pullsecret'' @ CHR '':'' # ?ref) CHR ''='' 2 =
      [''gcr.io'', ''pullsecret'' @ CHR '':'' # ?ref]"
    by (intro strings_SplitN2_found) auto
  have "ParseCredentialSource (''PullSecret'' @ CHR '':'' # ?ref) False = Inr src"
    unfolding ParseCredentialSource_def plain
    by (simp del: append.simps add: two_tokens_def body kind [OF lower(1)] src_def Let_def)
  moreover have "ParseCredentialSource (''gcr.io'' @ CHR ''='' # ''pullsecret'' @ CHR '':'' # ?ref) False = Inr (src\<lparr>Registry := ''gcr.io''\<rparr>)"
    unfolding ParseCredentialSource_def prefixed
    by (simp del: append.simps add: two_tokens_def body kind [OF lower(2)] src_def Let_def)
  ultimately show ?thesis by (simp add: foreign_secret_def strings_HasPrefix_def)
qed

section \<open>A concrete update\<close>

text \<open>A registry with two signed versions of one image, and a Helm application that runs the older one.\<close>

definition sample_registry :: "manifest RegistryClient" where
  "sample_registry =
     \<lparr>rc_NewRepository = (\<lambda>_. None), rc_Tags = (\<lambda>_. Inr [''1.0'', ''1.1'']),
      rc_ManifestForTag = (\<lambda>_ t. if t = ''1.1'' then Inr (OCIManifest [] [] (Inr ''d1'')) else rf_ManifestForTag sample_fetcher t),
      rc_ManifestForDigest = (\<lambda>_. rf_ManifestForDigest sample_fetcher), rc_TagMetadata = (\<lambda>_ _ _. Inr None),
      rc_Referrers = (\<lambda>_. rf_Referrers sample_fetcher), rc_BlobContent = (\<lambda>_. rf_BlobContent sample_fetcher)\<rparr>"

definition sample_conf :: "bool \<Rightarrow> (unit, string, string, string, sys) UpdateConfiguration" where
  "sample_conf dry =
     \<lparr>uc_NewRegFN = (\<lambda>_ _ _. Inr sample_registry), uc_KubeClient = Some sample_kube_client, uc_DryRun = dry, uc_GitCommitUser = [],
      uc_GitCommitEmail = [], uc_GitCommitMessage = None, uc_GitCommitSigningKey = [], uc_GitCommitSigningMethod = [],
      uc_GitCommitSignOff = False, uc_GitCommitMethod = [], uc_DisableKubeEvents = False, uc_IgnorePlatforms = False,
      uc_cache = \<lparr>itc_HasTag = (\<lambda>_ _ _. False), itc_GetTag = (\<lambda>_ _ _. Inr None), itc_SetTag = (\<lambda>c _ _. c), itc_ClearCache = (\<lambda>c. c),
        itc_NumEntries = (\<lambda>_. 0)\<rparr>,
      uc_newCache = (), uc_scan = sample_scan_env, uc_cred = sample_cred_env JNull, uc_semver = sample_semver, uc_regexp = (\<lambda>_. None),
      uc_runtime = (''linux'', ''amd64''), uc_crypto = sample_crypto, uc_write = sample_write,
      uc_CreateEvent = (\<lambda>app msg ann w. w\<lparr>sys_log := sys_log w @ [[''event'', msg]]\<rparr>)\<rparr>"

definition sample_verified :: ApplicationImages where
  "sample_verified = sample_two_aliases\<lparr>ai_Images := [sample_image\<lparr>im_EnableVerification := True, im_Verify := Some ''key''\<rparr>]\<rparr>"

definition sample_regs :: "(unit, unit) reg_state" where
  "sample_regs = \<lparr>eps = [dockerio_tweak ()], registries = [(''docker.io'', 0)], defaultRegistry = Some 0, registryTweaks = [], transportCache = ()\<rparr>"

text \<open>The outcome of an update as a value that can be computed.\<close>

definition run_result :: "(ImageUpdaterResult \<times> SyncIterationState \<times> (unit, unit) reg_state \<times> sys) go \<Rightarrow> (string option list \<times> string list list) option" where
  "run_result r = (case r of Panic \<Rightarrow> None | Ret (res, st, reg, w) \<Rightarrow> Some (map (map_option TagName \<circ> ce_NewTag) (Changes res), sys_log w))"

lemma run_resultE:
  assumes "run_result r = Some (tags, log)"
  obtains res st reg w where "r = Ret (res, st, reg, w)" "map (map_option TagName \<circ> ce_NewTag) (Changes res) = tags" "sys_log w = log"
  using assms by (auto simp: run_result_def split: go.split_asm)

lemma sample_update:
  "run_result (UpdateApplication (sample_conf False) sample_verified NewSyncIterationState sample_regs empty_sys) =
     Some ([Some ''1.1''], [[''update-spec''], [''event'', ''Successfully updated application '' @ [CHR 0x27] @ ''web'' @ [CHR 0x27]]])"
  by code_simp


theorem result_counts_witness:
  "\<exists>res st reg w. UpdateApplication (sample_conf False) sample_verified NewSyncIterationState sample_regs empty_sys = Ret (res, st, reg, w) \<and>
     NumImagesConsidered res = 1 \<and> NumSkipped res + NumErrors res \<le> 1"
proof -
  from sample_update obtain res st reg w where
    run: "UpdateApplication (sample_conf False) sample_verified NewSyncIterationState sample_regs empty_sys = Ret (res, st, reg, w)"
    and changes: "map (map_option TagName \<circ> ce_NewTag) (Changes res) = [Some ''1.1'']"
    by (rule run_resultE)
  from changes have "length (Changes res) = 1" by (metis length_map length_Cons list.size(3) One_nat_def)
  moreover have "length (ai_Images sample_verified) = 1" by (simp add: sample_verified_def)
  ultimately show ?thesis using result_counts [OF run] run by auto
qed

theorem dry_run_changes_nothing_witness:
  "\<exists>res reg. UpdateApplication (sample_conf True) sample_verified NewSyncIterationState sample_regs empty_sys =
     Ret (res, NewSyncIterationState, reg, empty_sys) \<and> length (Changes res) = 1"
proof -
  have "run_result (UpdateApplication (sample_conf True) sample_verified NewSyncIterationState sample_regs empty_sys) = Some ([Some ''1.1''], [])"
    by code_simp
  then obtain res st reg w where
    run: "UpdateApplication (sample_conf True) sample_verified NewSyncIterationState sample_regs empty_sys = Ret (res, st, reg, w)"
    and changes: "map (map_option TagName \<circ> ce_NewTag) (Changes res) = [Some ''1.1'']"
    by (rule run_resultE)
  have "uc_DryRun (sample_conf True) \<or> Changes res = [] \<and> NumErrors res = 0" by (simp add: sample_conf_def)
  from dry_run_changes_nothing [OF run this] run show ?thesis
    using changes by (metis length_map length_Cons list.size(3) One_nat_def)
qed

theorem secret_namespace_guard_witness:
  "\<exists>src. ParseCredentialSource ''secret:argocd/regcred#creds'' False = Inr src \<and> SecretNamespace src = ''argocd''"
proof -
  let ?s = "''secret:argocd/regcred#creds''"
  have s: "?s = ''secret'' @ '':'' @ ''argocd/regcred#creds''" "''secret'' \<in> {''secret'', ''pullsecret''}" "CHR ''='' \<notin> set ?s" by simp_all
  have guard: "\<not> foreign_secret ?s ''argocd''" by code_simp
  have "\<not> isl (ParseCredentialSource ?s False)" by code_simp
  then obtain src where src: "ParseCredentialSource ?s False = Inr src" by (metis isl_def sum.exhaust)
  from secret_namespace_guard [OF s guard src] src show ?thesis by blast
qed

theorem secret_namespace_guard_bypassed_witness:
  "\<not> foreign_secret ''PullSecret:kube-system/admin'' ''argocd''"
  using secret_namespace_guard_bypassed [where ns = "''kube-system''" and name = "''admin''" and appNs = "''argocd''"] by simp

end
