(* ===== verification/Webhook.thy ===== *)
theory Webhook
  imports GitCreds ImageSettings Verify
begin

text \<open>
  Registry webhooks (\<open>pkg/webhook\<close>): the handlers of seven kinds of registries, the dispatch between them, the
  HTTP answer, the set-up of the handlers from the flags (\<open>cmd/common.go\<close>) and the TLS settings of the server.
  JSON text, HMAC and URLs are decoded by parameters; what \<open>encoding/json\<close> does with a decoded value and a
  struct type is modelled here.
\<close>

section \<open>Requests\<close>

datatype body_error = MaxBytesError | ReadError string

text \<open>A request: the first value of every query parameter and header (under its canonical name), and its body.\<close>

record http_request =
  rq_Method :: string
  rq_Query :: "(string, string) gomap"
  rq_Header :: "(string, string) gomap"
  rq_Body :: "body_error + string"

definition get :: "(string, string) gomap \<Rightarrow> string \<Rightarrow> string" where
  "get m k = (case map_of m k of None \<Rightarrow> [] | Some v \<Rightarrow> v)"

datatype webhook_error = WebhookError string | BodyError body_error

record webhook_lib =
  wh_json :: "string \<Rightarrow> json option"
  wh_hmac :: "string \<Rightarrow> string \<Rightarrow> string"
  wh_url :: "string \<Rightarrow> url option"

definition maxWebhookBodySize :: int where
  "maxWebhookBodySize = 1048576"

definition MaxBytesReader :: "body_error + string \<Rightarrow> body_error + string" where
  "MaxBytesReader body =
     (case body of Inl err \<Rightarrow> Inl err | Inr s \<Rightarrow> if int (length s) > maxWebhookBodySize then Inl MaxBytesError else Inr s)"

section \<open>JSON values as structs\<close>

text \<open>
  The keys of an object are matched to the fields of a struct without regard to case, also for the two
  letters outside ASCII that fold to an ASCII letter.  A key may occur several times: strings are overwritten,
  objects are merged, \<open>null\<close> changes nothing, and a value of another type is an error.
\<close>

fun json_fold :: "string \<Rightarrow> string" where
  "json_fold (a # b # s) =
     (if a = CHR 0xC5 \<and> b = CHR 0xBF then CHR ''s'' # json_fold s
      else if a = CHR 0xE2 \<and> b = CHR 0x84 \<and> s \<noteq> [] \<and> hd s = CHR 0xAA then CHR ''k'' # json_fold (tl s)
      else ascii_lower a # json_fold (b # s))"
| "json_fold [a] = [ascii_lower a]"
| "json_fold [] = []"

type_synonym json_object = "(string \<times> json) list"

definition json_values :: "json_object \<Rightarrow> string \<Rightarrow> json list" where
  "json_values m name = map snd (filter (\<lambda>(k, v). json_fold k = json_fold name) m)"

fun decode_string :: "json list \<Rightarrow> string \<Rightarrow> string option" where
  "decode_string [] s = Some s"
| "decode_string (v # vs) s =
     (case v of JNull \<Rightarrow> decode_string vs s | JStr t \<Rightarrow> decode_string vs t | _ \<Rightarrow> None)"

definition string_field :: "json_object \<Rightarrow> string \<Rightarrow> string option" where
  "string_field m name = decode_string (json_values m name) []"

fun decode_object :: "json list \<Rightarrow> json_object \<Rightarrow> json_object option" where
  "decode_object [] m = Some m"
| "decode_object (v # vs) m =
     (case v of JNull \<Rightarrow> decode_object vs m | JObj m' \<Rightarrow> decode_object vs (m @ m') | _ \<Rightarrow> None)"

definition object_field :: "json_object \<Rightarrow> string \<Rightarrow> json_object option" where
  "object_field m name = decode_object (json_values m name) []"

text \<open>A field of type \<open>int64\<close> that is not used: only its type matters.\<close>

definition int_field_ok :: "json_object \<Rightarrow> string \<Rightarrow> bool" where
  "int_field_ok m name =
     list_all (\<lambda>v. case v of JNull \<Rightarrow> True | JNum t \<Rightarrow> strconv_Atoi t \<noteq> None | _ \<Rightarrow> False) (json_values m name)"

text \<open>The last array given; its elements are decoded one by one.\<close>

fun decode_array :: "json list \<Rightarrow> json list \<Rightarrow> json list option" where
  "decode_array [] vs = Some vs"
| "decode_array (v # ws) vs =
     (case v of JNull \<Rightarrow> decode_array ws [] | JArr us \<Rightarrow> decode_array ws us | _ \<Rightarrow> None)"

definition array_field :: "json_object \<Rightarrow> string \<Rightarrow> json list option" where
  "array_field m name = decode_array (json_values m name) []"

definition unmarshal_struct :: "webhook_lib \<Rightarrow> string \<Rightarrow> json_object option" where
  "unmarshal_struct lib body = (case wh_json lib body of Some (JObj m) \<Rightarrow> Some m | Some JNull \<Rightarrow> Some [] | _ \<Rightarrow> None)"

definition parse_failed :: webhook_error where
  "parse_failed = WebhookError ''failed to parse webhook payload''"

text \<open>Reading the body and decoding it with \<open>decode\<close>.\<close>

definition with_payload ::
  "webhook_lib \<Rightarrow> http_request \<Rightarrow> (json_object \<Rightarrow> 'a option) \<Rightarrow> ('a \<Rightarrow> webhook_error + WebhookEvent) \<Rightarrow>
   webhook_error + WebhookEvent" where
  "with_payload lib r decode f =
     (case rq_Body r of
        Inl err \<Rightarrow> Inl (BodyError err)
      | Inr body \<Rightarrow>
          (case unmarshal_struct lib body of
             None \<Rightarrow> Inl parse_failed
           | Some m \<Rightarrow> (case decode m of None \<Rightarrow> Inl parse_failed | Some p \<Rightarrow> f p)))"

fun string_fields :: "json_object \<Rightarrow> string list \<Rightarrow> string list option" where
  "string_fields m [] = Some []"
| "string_fields m (n # ns) =
     (case string_field m n of None \<Rightarrow> None | Some s \<Rightarrow> map_option ((#) s) (string_fields m ns))"

section \<open>Secrets\<close>

definition check_method :: "http_request \<Rightarrow> webhook_error option" where
  "check_method r = (if rq_Method r \<noteq> ''POST'' then Some (WebhookError ''invalid HTTP method'') else None)"

definition check_secret :: "string \<Rightarrow> string \<Rightarrow> string \<Rightarrow> webhook_error option" where
  "check_secret missing secret given =
     (if secret \<noteq> [] then
        (if given = [] then Some (WebhookError missing)
         else if given \<noteq> secret then Some (WebhookError ''invalid webhook secret'') else None)
      else None)"

definition check_json_type :: "http_request \<Rightarrow> webhook_error option" where
  "check_json_type r =
     (if \<not> strings_Contains (get (rq_Header r) ''Content-Type'') ''application/json''
      then Some (WebhookError ''invalid content type'') else None)"

section \<open>Docker Hub, Quay and Aliyun\<close>

text \<open>These pass the secret as a query parameter.\<close>

definition query_Validate :: "string \<Rightarrow> http_request \<Rightarrow> webhook_error option" where
  "query_Validate secret r =
     (case check_method r of
        Some err \<Rightarrow> Some err
      | None \<Rightarrow> check_secret ''missing webhook secret'' secret (get (rq_Query r) ''secret''))"

definition docker_Validate :: "string \<Rightarrow> http_request \<Rightarrow> webhook_error option" where
  "docker_Validate = query_Validate"

definition quay_Validate :: "string \<Rightarrow> http_request \<Rightarrow> webhook_error option" where
  "quay_Validate = query_Validate"

definition aliyun_Validate :: "string \<Rightarrow> http_request \<Rightarrow> webhook_error option" where
  "aliyun_Validate = query_Validate"

definition namespaced :: "string \<Rightarrow> string \<Rightarrow> string \<Rightarrow> string" where
  "namespaced full ns name =
     (if full \<noteq> [] then full else if ns \<noteq> [] \<and> name \<noteq> [] then ns @ ''/'' @ name else name)"

definition docker_Parse :: "webhook_lib \<Rightarrow> http_request \<Rightarrow> webhook_error + WebhookEvent" where
  "docker_Parse lib r =
     with_payload lib r
       (\<lambda>m. case (object_field m ''repository'', object_field m ''push_data'') of
          (Some repo, Some push) \<Rightarrow>
            (case (string_fields repo [''name'', ''namespace'', ''repo_name''], string_field push ''tag'') of
               (Some [name, ns, repoName], Some tag) \<Rightarrow> Some (name, ns, repoName, tag)
             | _ \<Rightarrow> None)
        | _ \<Rightarrow> None)
       (\<lambda>(name, ns, repoName, tag).
          let repository = namespaced repoName ns name
          in if repository = [] then Inl (WebhookError ''repository name not found in webhook payload'')
             else if tag = [] then Inl (WebhookError ''tag not found in webhook payload'')
             else Inr \<lparr>we_RegistryURL = ''docker.io'', we_Repository = repository, we_Tag = tag, we_Digest = []\<rparr>)"

definition extractRegistryFromDockerURL :: "webhook_lib \<Rightarrow> string \<Rightarrow> string" where
  "extractRegistryFromDockerURL lib raw =
     (let dockerURL = (if \<not> strings_HasPrefix raw ''http://'' \<and> \<not> strings_HasPrefix raw ''https://'' then ''https://'' @ raw else raw);
          fallback = (let parts = strings_Split raw CHR ''/''
                      in if length parts > 0 \<and> CHR ''.'' \<in> set (parts ! 0) then parts ! 0 else ''quay.io'')
      in case wh_url lib dockerURL of
           Some parsed \<Rightarrow> if u_Host parsed \<noteq> [] then u_Host parsed else fallback
         | None \<Rightarrow> fallback)"

fun decode_strings :: "json list \<Rightarrow> string list option" where
  "decode_strings [] = Some []"
| "decode_strings (v # vs) =
     (case v of
        JStr s \<Rightarrow> map_option ((#) s) (decode_strings vs) | JNull \<Rightarrow> map_option ((#) []) (decode_strings vs) | _ \<Rightarrow> None)"

definition quay_Parse :: "webhook_lib \<Rightarrow> http_request \<Rightarrow> webhook_error + WebhookEvent" where
  "quay_Parse lib r =
     with_payload lib r
       (\<lambda>m. case (string_fields m [''name'', ''repository'', ''namespace'', ''docker_url'', ''homepage''],
                   Option.bind (array_field m ''updated_tags'') decode_strings) of
          (Some [name, repo, ns, url, homepage], Some tags) \<Rightarrow> Some (repo, url, tags)
        | _ \<Rightarrow> None)
       (\<lambda>(repo, url, tags).
          case tags of
            [] \<Rightarrow> Inl (WebhookError ''no tags in the payload'')
          | tag # _ \<Rightarrow>
              Inr \<lparr>we_RegistryURL = (if url \<noteq> [] then extractRegistryFromDockerURL lib url else ''quay.io''),
                   we_Repository = repo, we_Tag = tag, we_Digest = []\<rparr>)"

definition aliyun_Parse :: "webhook_lib \<Rightarrow> http_request \<Rightarrow> webhook_error + WebhookEvent" where
  "aliyun_Parse lib r =
     with_payload lib r
       (\<lambda>m. case (object_field m ''push_data'', object_field m ''repository'') of
          (Some push, Some repo) \<Rightarrow>
            (case (string_fields push [''digest'', ''pushed_at'', ''tag''],
                   string_fields repo [''date_created'', ''name'', ''namespace'', ''region'', ''repo_authentication_type'',
                     ''repo_full_name'', ''repo_origin_type'', ''repo_type'']) of
               (Some [digest, pushed, tag], Some [created, name, ns, region, auth, full, origin, type]) \<Rightarrow>
                 Some (digest, tag, name, ns, region, full)
             | _ \<Rightarrow> None)
        | _ \<Rightarrow> None)
       (\<lambda>(digest, tag, name, ns, region, full).
          let repository = namespaced full ns name
          in if repository = [] then Inl (WebhookError ''repository name not found in webhook payload'')
             else if tag = [] then Inl (WebhookError ''tag not found in webhook payload'')
             else Inr \<lparr>we_RegistryURL = (let queryRegistry = get (rq_Query r) ''registry_url''
                          in if queryRegistry \<noteq> [] then queryRegistry
                             else if region \<noteq> [] then ''registry.'' @ region @ ''.aliyuncs.com'' else []),
                       we_Repository = repository, we_Tag = tag, we_Digest = digest\<rparr>)"

section \<open>Harbor and Azure\<close>

text \<open>These pass the secret as the value of the header \<open>Authorization\<close>.\<close>

definition header_Validate :: "string \<Rightarrow> http_request \<Rightarrow> webhook_error option" where
  "header_Validate secret r =
     (case check_method r of
        Some err \<Rightarrow> Some err
      | None \<Rightarrow>
          (case check_json_type r of
             Some err \<Rightarrow> Some err
           | None \<Rightarrow>
               check_secret ''missing Authorization header when secret is configured'' secret (get (rq_Header r) ''Authorization'')))"

definition harbor_Validate :: "string \<Rightarrow> http_request \<Rightarrow> webhook_error option" where
  "harbor_Validate = header_Validate"

definition acr_Validate :: "string \<Rightarrow> http_request \<Rightarrow> webhook_error option" where
  "acr_Validate = header_Validate"

text \<open>The elements of \<open>resources\<close>: digest, tag and URL; a null element is an empty struct.\<close>

fun decode_resources :: "json list \<Rightarrow> (string \<times> string \<times> string) list option" where
  "decode_resources [] = Some []"
| "decode_resources (v # vs) =
     (case (case v of JObj m \<Rightarrow> Some m | JNull \<Rightarrow> Some [] | _ \<Rightarrow> None) of
        None \<Rightarrow> None
      | Some m \<Rightarrow>
          (case string_fields m [''digest'', ''tag'', ''resource_url''] of
             Some [digest, tag, url] \<Rightarrow> map_option ((#) (digest, tag, url)) (decode_resources vs)
           | _ \<Rightarrow> None))"

definition harbor_payload :: "json_object \<Rightarrow> (string \<times> (string \<times> string \<times> string) list \<times> string \<times> string \<times> string) option" where
  "harbor_payload m =
     (case (string_fields m [''type'', ''operator''], object_field m ''event_data'') of
        (Some [type, operator], Some data) \<Rightarrow>
          if int_field_ok m ''occur_at'' then
            (case (Option.bind (array_field data ''resources'') decode_resources, object_field data ''repository'',
                   object_field data ''custom_attributes'') of
               (Some resources, Some repo, Some _) \<Rightarrow>
                 (case string_fields repo [''name'', ''namespace'', ''repo_full_name'', ''repo_type''] of
                    Some [name, ns, full, repoType] \<Rightarrow>
                      if int_field_ok repo ''date_created'' then Some (type, resources, name, ns, full) else None
                  | _ \<Rightarrow> None)
             | _ \<Rightarrow> None)
          else None
      | _ \<Rightarrow> None)"

definition harbor_registry :: "webhook_lib \<Rightarrow> string \<Rightarrow> string" where
  "harbor_registry lib url =
     (if url \<noteq> [] then
        (let resourceURL = (if \<not> strings_HasPrefix url ''http://'' \<and> \<not> strings_HasPrefix url ''https://'' then ''https://'' @ url else url)
         in case wh_url lib resourceURL of
              Some parsedURL \<Rightarrow> u_Host parsedURL
            | None \<Rightarrow>
                (let parts = strings_Split url CHR ''/''
                 in if length parts > 0 \<and> CHR ''.'' \<in> set (parts ! 0) then parts ! 0 else ''harbor''))
      else ''harbor'')"

definition harbor_Parse :: "webhook_lib \<Rightarrow> http_request \<Rightarrow> webhook_error + WebhookEvent" where
  "harbor_Parse lib r =
     with_payload lib r harbor_payload
       (\<lambda>(type, resources, name, ns, full).
          if type \<noteq> ''PUSH_ARTIFACT'' then Inl (WebhookError ''unsupported event type'')
          else
            (case resources of
               [] \<Rightarrow> Inl (WebhookError ''no resources found in webhook payload'')
             | (digest, tag, url) # _ \<Rightarrow>
                 if tag = [] then Inl (WebhookError ''tag not found in webhook payload'')
                 else
                   (let repository = namespaced full ns name
                    in if repository = [] then Inl (WebhookError ''repository name not found in webhook payload'')
                       else Inr \<lparr>we_RegistryURL = harbor_registry lib url, we_Repository = repository, we_Tag = tag, we_Digest = digest\<rparr>)))"

definition acr_Parse :: "webhook_lib \<Rightarrow> http_request \<Rightarrow> webhook_error + WebhookEvent" where
  "acr_Parse lib r =
     with_payload lib r
       (\<lambda>m. case (string_field m ''action'', object_field m ''target'', object_field m ''request'') of
          (Some action, Some target, Some request) \<Rightarrow>
            (case (string_fields target [''mediaType'', ''digest'', ''repository'', ''tag''], string_fields request [''id'', ''host'', ''method'']) of
               (Some [mediaType, digest, repo, tag], Some [rid, host, meth]) \<Rightarrow>
                 if int_field_ok target ''size'' \<and> int_field_ok target ''length'' then Some (action, repo, tag, digest, host) else None
             | _ \<Rightarrow> None)
        | _ \<Rightarrow> None)
       (\<lambda>(action, repo, tag, digest, host).
          if action \<noteq> ''push'' then Inl (WebhookError ''ignoring action'')
          else if repo = [] then Inl (WebhookError ''repository name not found in webhook payload'')
          else Inr \<lparr>we_RegistryURL = host, we_Repository = repo, we_Tag = tag, we_Digest = digest\<rparr>)"

section \<open>GitHub\<close>

definition validateSignature :: "webhook_lib \<Rightarrow> string \<Rightarrow> string \<Rightarrow> string \<Rightarrow> bool" where
  "validateSignature lib secret body signature =
     (strings_HasPrefix signature ''sha256='' \<and>
      strings_TrimPrefix signature ''sha256='' = hex_EncodeToString (wh_hmac lib secret body))"

definition ghcr_Validate :: "webhook_lib \<Rightarrow> string \<Rightarrow> http_request \<Rightarrow> webhook_error option" where
  "ghcr_Validate lib secret r =
     (case check_method r of
        Some err \<Rightarrow> Some err
      | None \<Rightarrow>
          (let eventType = get (rq_Header r) ''X-Github-Event'' in
           if eventType = [] then Some (WebhookError ''missing X-GitHub-Event header'')
           else if eventType \<noteq> ''package'' then Some (WebhookError ''unsupported event type'')
           else if secret \<noteq> [] then
             (let signature = get (rq_Header r) ''X-Hub-Signature-256'' in
              if signature = [] then Some (WebhookError ''missing webhook signature'')
              else
                (case rq_Body r of
                   Inl err \<Rightarrow> Some (BodyError err)
                 | Inr body \<Rightarrow>
                     if \<not> validateSignature lib secret body signature then Some (WebhookError ''invalid webhook signature'') else None))
           else None))"

definition ghcr_payload ::
  "json_object \<Rightarrow> (string \<times> string \<times> string \<times> string \<times> string \<times> string \<times> string) option" where
  "ghcr_payload m =
     (case (string_field m ''action'', object_field m ''package'') of
        (Some action, Some package) \<Rightarrow>
          (case (string_fields package [''name'', ''package_type''], object_field package ''owner'', object_field package ''registry'',
                 object_field package ''package_version'') of
             (Some [name, type], Some owner, Some registry, Some version) \<Rightarrow>
               (case (string_field owner ''login'', string_field registry ''url'', string_fields version [''version'', ''name''],
                      Option.bind (object_field version ''container_metadata'') (\<lambda>c. object_field c ''tag'')) of
                  (Some login, Some url, Some [ver, verName], Some tag) \<Rightarrow>
                    (case string_field tag ''name'' of
                       Some tagName \<Rightarrow> Some (action, type, name, login, tagName, verName, ver) | None \<Rightarrow> None)
                | _ \<Rightarrow> None)
           | _ \<Rightarrow> None)
      | _ \<Rightarrow> None)"

definition ghcr_Parse :: "webhook_lib \<Rightarrow> http_request \<Rightarrow> webhook_error + WebhookEvent" where
  "ghcr_Parse lib r =
     with_payload lib r ghcr_payload
       (\<lambda>(action, type, name, login, tagName, verName, ver).
          if action \<noteq> ''published'' then Inl (WebhookError ''ignoring action'')
          else if strings_ToLower type \<noteq> ''container'' then Inl (WebhookError ''unsupported package type'')
          else if name = [] then Inl (WebhookError ''package name not found in webhook payload'')
          else if login = [] then Inl (WebhookError ''package owner not found in webhook payload'')
          else
            (let tagName = (if tagName = [] then verName else tagName); tagName = (if tagName = [] then ver else tagName)
             in if tagName = [] then Inl (WebhookError ''tag not found in webhook payload'')
                else Inr \<lparr>we_RegistryURL = ''ghcr.io'', we_Repository = strings_ToLower (login @ ''/'' @ name), we_Tag = tagName, we_Digest = []\<rparr>))"

section \<open>CloudEvents\<close>

definition cloudevents_Validate :: "string \<Rightarrow> http_request \<Rightarrow> webhook_error option" where
  "cloudevents_Validate secret r =
     (case check_method r of
        Some err \<Rightarrow> Some err
      | None \<Rightarrow>
          (let contentType = get (rq_Header r) ''Content-Type'' in
           if \<not> strings_Contains contentType ''application/json'' \<and> \<not> strings_Contains contentType ''application/cloudevents+json''
           then Some (WebhookError ''invalid content type'')
           else
             (let given = get (rq_Query r) ''secret'' in
              check_secret ''missing webhook secret'' secret (if given = [] then get (rq_Header r) ''X-Webhook-Secret'' else given))))"

record cloudEventsPayload =
  ce_SpecVersion :: string
  ce_Type :: string
  ce_Source :: string
  ce_Subject :: string
  ce_Data :: json_object

text \<open>The type assertion \<open>data[key].(string)\<close>; a later key overwrites an earlier one.\<close>

definition data_string :: "json_object \<Rightarrow> string \<Rightarrow> string option" where
  "data_string data key = (case map_of (rev data) key of Some (JStr s) \<Rightarrow> Some s | _ \<Rightarrow> None)"

definition data_nonempty :: "json_object \<Rightarrow> string \<Rightarrow> string option" where
  "data_nonempty data key = (case data_string data key of Some s \<Rightarrow> if s \<noteq> [] then Some s else None | None \<Rightarrow> None)"

definition extractECRRegistryURL :: "string \<Rightarrow> json_object \<Rightarrow> string" where
  "extractECRRegistryURL source data =
     (if strings_HasPrefix source ''urn:aws:ecr:'' \<or> strings_HasPrefix source ''arn:aws:ecr:'' then
        (let parts = strings_Split source CHR '':'' in
         if length parts \<ge> 5 then
           (let account = (case data_nonempty data ''registryId'' of Some registryID \<Rightarrow> registryID | None \<Rightarrow> parts ! 4)
            in account @ ''.dkr.ecr.'' @ parts ! 3 @ ''.amazonaws.com'')
         else [])
      else [])"

definition extractRegistryFromSource :: "string \<Rightarrow> string" where
  "extractRegistryFromSource source =
     (let parts = strings_Split source CHR ''/'' in
      if (strings_HasPrefix source ''http://'' \<or> strings_HasPrefix source ''https://'') \<and> length parts \<ge> 3 then parts ! 2
      else if CHR ''.'' \<in> set source \<and> length parts > 0 \<and> CHR ''.'' \<in> set (parts ! 0) then parts ! 0
      else [])"

text \<open>Repository, tag, digest and registry URL of an event, by its type.\<close>

definition event_fields :: "cloudEventsPayload \<Rightarrow> (string \<times> string \<times> string \<times> string) option" where
  "event_fields p =
     (let subject = strings_SplitN (ce_Subject p) CHR '':'' 2;
          repository = (if length subject = 2 then subject ! 0 else []);
          tag = (if length subject = 2 then subject ! 1 else []);
          d = ce_Data p;
          first = (\<lambda>keys dflt. case List.map_filter (data_nonempty d) keys of [] \<Rightarrow> dflt | s # _ \<Rightarrow> s)
      in if strings_HasPrefix (ce_Type p) ''com.amazon.ecr.'' then
           Some (first [''repositoryName''] repository, first [''imageTag''] tag,
                 (case data_string d ''imageDigest'' of Some s \<Rightarrow> s | None \<Rightarrow> []), extractECRRegistryURL (ce_Source p) d)
         else if strings_Contains (ce_Type p) ''container'' \<or> strings_Contains (ce_Type p) ''image'' then
           Some (first [''repositoryName'', ''repository''] repository, first [''imageTag'', ''tag''] tag,
                 (case List.map_filter (data_string d) [''imageDigest'', ''digest''] of [] \<Rightarrow> [] | s # _ \<Rightarrow> s),
                 (case List.map_filter (data_string d) [''registryUrl'', ''registry''] of [] \<Rightarrow> extractRegistryFromSource (ce_Source p) | s # _ \<Rightarrow> s))
         else None)"

definition parseEvent :: "cloudEventsPayload \<Rightarrow> webhook_error + WebhookEvent" where
  "parseEvent p =
     (case event_fields p of
        None \<Rightarrow> Inl (WebhookError ''unsupported CloudEvents type'')
      | Some (repository, tag, digest, registryURL) \<Rightarrow>
          if repository = [] then Inl (WebhookError ''repository name not found in CloudEvents payload'')
          else if tag = [] then Inl (WebhookError ''tag not found in CloudEvents payload'')
          else if registryURL = [] then Inl (WebhookError ''registry URL not found in CloudEvents payload'')
          else Inr \<lparr>we_RegistryURL = registryURL, we_Repository = repository, we_Tag = tag, we_Digest = digest\<rparr>)"

definition cloudevents_Parse :: "webhook_lib \<Rightarrow> http_request \<Rightarrow> webhook_error + WebhookEvent" where
  "cloudevents_Parse lib r =
     with_payload lib r
       (\<lambda>m. case (string_fields m [''specversion'', ''type'', ''source'', ''subject'', ''id'', ''time'', ''datacontenttype''], object_field m ''data'') of
          (Some [spec, type, source, subject, eid, time, content], Some data) \<Rightarrow>
            Some \<lparr>ce_SpecVersion = spec, ce_Type = type, ce_Source = source, ce_Subject = subject, ce_Data = data\<rparr>
        | _ \<Rightarrow> None)
       (\<lambda>p. if ce_SpecVersion p = [] then Inl (WebhookError ''missing CloudEvents specversion'')
             else if ce_Type p = [] then Inl (WebhookError ''missing CloudEvents type'')
             else parseEvent p)"

section \<open>Handlers\<close>

datatype RegistryWebhook =
    DockerHubWebhook (secret: string)
  | GHCRWebhook (secret: string)
  | HarborWebhook (secret: string)
  | QuayWebhook (secret: string)
  | AliyunACRWebhook (secret: string)
  | ACRWebhook (secret: string)
  | CloudEventsWebhook (secret: string)

fun GetRegistryType :: "RegistryWebhook \<Rightarrow> string" where
  "GetRegistryType (DockerHubWebhook _) = ''docker.io''"
| "GetRegistryType (GHCRWebhook _) = ''ghcr.io''"
| "GetRegistryType (HarborWebhook _) = ''harbor''"
| "GetRegistryType (QuayWebhook _) = ''quay.io''"
| "GetRegistryType (AliyunACRWebhook _) = ''aliyun-acr''"
| "GetRegistryType (ACRWebhook _) = ''acr''"
| "GetRegistryType (CloudEventsWebhook _) = ''cloudevents''"

fun Validate :: "webhook_lib \<Rightarrow> RegistryWebhook \<Rightarrow> http_request \<Rightarrow> webhook_error option" where
  "Validate lib (DockerHubWebhook s) r = docker_Validate s r"
| "Validate lib (GHCRWebhook s) r = ghcr_Validate lib s r"
| "Validate lib (HarborWebhook s) r = harbor_Validate s r"
| "Validate lib (QuayWebhook s) r = quay_Validate s r"
| "Validate lib (AliyunACRWebhook s) r = aliyun_Validate s r"
| "Validate lib (ACRWebhook s) r = acr_Validate s r"
| "Validate lib (CloudEventsWebhook s) r = cloudevents_Validate s r"

fun Parse :: "webhook_lib \<Rightarrow> RegistryWebhook \<Rightarrow> http_request \<Rightarrow> webhook_error + WebhookEvent" where
  "Parse lib (DockerHubWebhook s) r = docker_Parse lib r"
| "Parse lib (GHCRWebhook s) r = ghcr_Parse lib r"
| "Parse lib (HarborWebhook s) r = harbor_Parse lib r"
| "Parse lib (QuayWebhook s) r = quay_Parse lib r"
| "Parse lib (AliyunACRWebhook s) r = aliyun_Parse lib r"
| "Parse lib (ACRWebhook s) r = acr_Parse lib r"
| "Parse lib (CloudEventsWebhook s) r = cloudevents_Parse lib r"

type_synonym WebhookHandler = "(string, RegistryWebhook) gomap"

definition NewWebhookHandler :: WebhookHandler where
  "NewWebhookHandler = []"

definition RegisterHandler :: "RegistryWebhook \<Rightarrow> WebhookHandler \<Rightarrow> WebhookHandler" where
  "RegisterHandler h hs = gomap_put (GetRegistryType h) h hs"

definition getSupportedRegistryTypes :: "WebhookHandler \<Rightarrow> string list" where
  "getSupportedRegistryTypes hs = go_sort (<) (map fst hs)"

definition detectRegistryType :: "http_request \<Rightarrow> string" where
  "detectRegistryType r =
     (let registryType = get (rq_Query r) ''type'' in if registryType \<noteq> [] then registryType else get (rq_Header r) ''X-Registry-Type'')"

definition ProcessWebhook :: "webhook_lib \<Rightarrow> WebhookHandler \<Rightarrow> http_request \<Rightarrow> webhook_error + WebhookEvent" where
  "ProcessWebhook lib hs r =
     (let registryType = detectRegistryType r; registryTypes = getSupportedRegistryTypes hs
      in if length registryTypes = 0 then Inl (WebhookError ''no webhook handlers are registered'')
         else if registryType = [] then Inl (WebhookError ''missing registry type parameter'')
         else if registryType \<notin> set registryTypes then Inl (WebhookError ''invalid registry type'')
         else
           (case map_of hs registryType of
              None \<Rightarrow> Inl (WebhookError [])
            | Some h \<Rightarrow> (case Validate lib h r of Some err \<Rightarrow> Inl err | None \<Rightarrow> Parse lib h r)))"

text \<open>The answer to a request: its status, and the event that is then processed in the background.\<close>

definition handleWebhook :: "webhook_lib \<Rightarrow> WebhookHandler \<Rightarrow> http_request \<Rightarrow> nat \<times> WebhookEvent option" where
  "handleWebhook lib hs r =
     (case ProcessWebhook lib hs (r\<lparr>rq_Body := MaxBytesReader (rq_Body r)\<rparr>) of
        Inl (BodyError MaxBytesError) \<Rightarrow> (413, None)
      | Inl err \<Rightarrow> (400, None)
      | Inr event \<Rightarrow> (200, Some event))"

section \<open>TLS settings\<close>

text \<open>A cipher suite of \<open>tls.CipherSuites()\<close>: its name, its number and the versions it supports.\<close>

type_synonym cipher_suite = "string \<times> 16 word \<times> 16 word list"

record TLSConfig =
  tc_CertFile :: string
  tc_KeyFile :: string
  tc_EnableHTTP2 :: bool
  tc_MinVersion :: string
  tc_MaxVersion :: string
  tc_Ciphers :: string

record tls_Config =
  MinVersion :: "16 word"
  MaxVersion :: "16 word"
  CipherSuites :: "16 word list"
  NextProtos :: "string list"

datatype tls_error = BadVersion string | BadCipher string | MinAboveMax | CipherVersion string

definition VersionTLS11 :: "16 word" where
  "VersionTLS11 = 0x0302"

definition VersionTLS12 :: "16 word" where
  "VersionTLS12 = 0x0303"

definition VersionTLS13 :: "16 word" where
  "VersionTLS13 = 0x0304"

definition tlsVersionMap :: "(string, 16 word) gomap" where
  "tlsVersionMap =
     [(''1.1'', VersionTLS11), (''tls1.1'', VersionTLS11), (''1.2'', VersionTLS12), (''tls1.2'', VersionTLS12),
      (''1.3'', VersionTLS13), (''tls1.3'', VersionTLS13)]"

definition ParseTLSVersion :: "string \<Rightarrow> tls_error + 16 word" where
  "ParseTLSVersion version =
     (if version = [] then Inr 0
      else case map_of tlsVersionMap (strings_ToLower (strings_TrimSpace version)) of None \<Rightarrow> Inl (BadVersion version) | Some v \<Rightarrow> Inr v)"

fun cipher_loop :: "cipher_suite list \<Rightarrow> string list \<Rightarrow> tls_error + 16 word list" where
  "cipher_loop suites [] = Inr []"
| "cipher_loop suites (n # ns) =
     (let name = strings_TrimSpace n in
      if name = [] then cipher_loop suites ns
      else
        (case map_of (rev suites) name of
           None \<Rightarrow> Inl (BadCipher name)
         | Some (i, _) \<Rightarrow> map_sum (\<lambda>e. e) ((#) i) (cipher_loop suites ns)))"

definition ParseTLSCiphers :: "cipher_suite list \<Rightarrow> string \<Rightarrow> tls_error + 16 word list" where
  "ParseTLSCiphers suites ciphers = (if ciphers = [] then Inr [] else cipher_loop suites (strings_Split ciphers CHR '':''))"

fun cipher_check :: "cipher_suite list \<Rightarrow> 16 word \<Rightarrow> 16 word list \<Rightarrow> tls_error option" where
  "cipher_check suites minVersion [] = None"
| "cipher_check suites minVersion (i # is) =
     (case find (\<lambda>(name, j, versions). j = i) suites of
        Some (name, j, versions) \<Rightarrow> if minVersion \<notin> set versions then Some (CipherVersion name) else cipher_check suites minVersion is
      | None \<Rightarrow> cipher_check suites minVersion is)"

definition ValidateTLSConfig :: "cipher_suite list \<Rightarrow> 16 word \<Rightarrow> 16 word \<Rightarrow> 16 word list \<Rightarrow> tls_error option" where
  "ValidateTLSConfig suites minVersion maxVersion cipherSuites =
     (if minVersion \<noteq> 0 \<and> maxVersion \<noteq> 0 \<and> minVersion > maxVersion then Some MinAboveMax
      else if length cipherSuites > 0 \<and> minVersion \<noteq> 0 then cipher_check suites minVersion cipherSuites
      else None)"

definition buildTLSConfig :: "cipher_suite list \<Rightarrow> TLSConfig \<Rightarrow> tls_error + tls_Config" where
  "buildTLSConfig suites t =
     (case ParseTLSVersion (tc_MinVersion t) of
        Inl err \<Rightarrow> Inl err
      | Inr minVer \<Rightarrow>
          (case ParseTLSVersion (tc_MaxVersion t) of
             Inl err \<Rightarrow> Inl err
           | Inr maxVer \<Rightarrow>
               (case ParseTLSCiphers suites (tc_Ciphers t) of
                  Inl err \<Rightarrow> Inl err
                | Inr ciphers \<Rightarrow>
                    (let ciphers = (if length ciphers > 0 \<and> minVer \<ge> VersionTLS13 then [] else ciphers)
                     in case ValidateTLSConfig suites minVer maxVer ciphers of
                          Some err \<Rightarrow> Inl err
                        | None \<Rightarrow> Inr \<lparr>MinVersion = minVer, MaxVersion = maxVer, CipherSuites = ciphers,
                                       NextProtos = (if \<not> tc_EnableHTTP2 t then [''http/1.1''] else [])\<rparr>))))"

section \<open>Set-up\<close>

record WebhookConfig =
  RequireSecret :: bool
  Port :: int
  EnableHTTP2 :: bool
  DockerSecret :: string
  GHCRSecret :: string
  QuaySecret :: string
  HarborSecret :: string
  AliyunACRSecret :: string
  ACRSecret :: string
  CloudEventsSecret :: string
  RateLimitNumAllowedRequests :: int
  DisableTLS :: bool
  TLSMinVersion :: string
  TLSMaxVersion :: string
  TLSCiphers :: string

text \<open>The rate limiter is the number of requests it admits per hour.\<close>

record WebhookServer =
  ws_Port :: int
  ws_Handler :: WebhookHandler
  ws_RateLimiter :: "int option"
  ws_TLS :: "TLSConfig option"
  ws_DisableTLS :: bool

definition DefaultTLSCertPath :: string where
  "DefaultTLSCertPath = ''/app/config/tls/tls.crt''"

definition DefaultTLSKeyPath :: string where
  "DefaultTLSKeyPath = ''/app/config/tls/tls.key''"

definition DefaultTLSVersion :: string where
  "DefaultTLSVersion = ''1.3''"

definition NewWebhookServer :: "int \<Rightarrow> WebhookHandler \<Rightarrow> WebhookServer" where
  "NewWebhookServer port handler = \<lparr>ws_Port = port, ws_Handler = handler, ws_RateLimiter = None, ws_TLS = None, ws_DisableTLS = False\<rparr>"

definition configured_handlers :: "WebhookConfig \<Rightarrow> RegistryWebhook list" where
  "configured_handlers cfg =
     [DockerHubWebhook (DockerSecret cfg), GHCRWebhook (GHCRSecret cfg), HarborWebhook (HarborSecret cfg), QuayWebhook (QuaySecret cfg),
      AliyunACRWebhook (AliyunACRSecret cfg), ACRWebhook (ACRSecret cfg), CloudEventsWebhook (CloudEventsSecret cfg)]"

definition setup_handlers :: "WebhookConfig \<Rightarrow> WebhookHandler" where
  "setup_handlers cfg =
     fold (\<lambda>h hs. if \<not> RequireSecret cfg \<or> secret h \<noteq> [] then RegisterHandler h hs else hs) (configured_handlers cfg) NewWebhookHandler"

definition SetupWebhookServer :: "WebhookConfig \<Rightarrow> WebhookServer" where
  "SetupWebhookServer cfg =
     (let server = NewWebhookServer (Port cfg) (setup_handlers cfg);
          server = server\<lparr>ws_DisableTLS := DisableTLS cfg,
            ws_TLS := Some \<lparr>tc_CertFile = DefaultTLSCertPath, tc_KeyFile = DefaultTLSKeyPath, tc_EnableHTTP2 = EnableHTTP2 cfg,
              tc_MinVersion = TLSMinVersion cfg, tc_MaxVersion = TLSMaxVersion cfg, tc_Ciphers = TLSCiphers cfg\<rparr>\<rparr>
      in if RateLimitNumAllowedRequests cfg > 0 then server\<lparr>ws_RateLimiter := Some (RateLimitNumAllowedRequests cfg)\<rparr> else server)"

section \<open>Starting the server\<close>

text \<open>
  What \<open>Start\<close> serves with: plain HTTP, the certificate of two files, or one it generates.  The files are described by
  their sizes, and a key pair by its chain of certificates, each with its validity or none when it cannot be parsed.
\<close>

record cert_lib =
  cl_Size :: "string \<Rightarrow> int option"
  cl_LoadX509KeyPair :: "string \<Rightarrow> string \<Rightarrow> string + (instant \<times> instant) option list"
  cl_generateSelfSignedCert :: "string + string"
  cl_suites :: "cipher_suite list"

datatype start_error = TLSFailed tls_error | LoadFailed string | Unparsable | Expired | NotYetValid | GenerateFailed string

datatype serving = ServeHTTP | ServeFiles (serving_tls: tls_Config) string string | ServeGenerated (serving_tls: tls_Config) string

fun validateCertValidity :: "instant \<Rightarrow> (instant \<times> instant) option list \<Rightarrow> start_error option" where
  "validateCertValidity now [] = None"
| "validateCertValidity now (None # cs) = Some Unparsable"
| "validateCertValidity now (Some (notBefore, notAfter) # cs) =
     (if now > notAfter then Some Expired
      else if now < notBefore then Some NotYetValid
      else validateCertValidity now cs)"

definition certFilesExist :: "cert_lib \<Rightarrow> string \<Rightarrow> string \<Rightarrow> bool" where
  "certFilesExist lib certFile keyFile =
     list_all (\<lambda>f. case cl_Size lib f of None \<Rightarrow> False | Some n \<Rightarrow> n \<noteq> 0) [certFile, keyFile]"

definition server_tls :: "WebhookServer \<Rightarrow> TLSConfig" where
  "server_tls s = (case ws_TLS s of Some t \<Rightarrow> t
     | None \<Rightarrow> \<lparr>tc_CertFile = DefaultTLSCertPath, tc_KeyFile = DefaultTLSKeyPath, tc_EnableHTTP2 = False,
                tc_MinVersion = DefaultTLSVersion, tc_MaxVersion = DefaultTLSVersion, tc_Ciphers = []\<rparr>)"

definition Start :: "cert_lib \<Rightarrow> instant \<Rightarrow> WebhookServer \<Rightarrow> start_error + serving" where
  "Start lib now s =
     (if ws_DisableTLS s then Inr ServeHTTP
      else
        (let t = server_tls s; certFile = tc_CertFile t; keyFile = tc_KeyFile t in
         case buildTLSConfig (cl_suites lib) t of
           Inl err \<Rightarrow> Inl (TLSFailed err)
         | Inr tlsCfg \<Rightarrow>
             if certFilesExist lib certFile keyFile then
               (case cl_LoadX509KeyPair lib certFile keyFile of
                  Inl err \<Rightarrow> Inl (LoadFailed err)
                | Inr certs \<Rightarrow>
                    (case validateCertValidity now certs of Some err \<Rightarrow> Inl err | None \<Rightarrow> Inr (ServeFiles tlsCfg certFile keyFile)))
             else
               (case cl_generateSelfSignedCert lib of
                  Inl err \<Rightarrow> Inl (GenerateFailed err)
                | Inr cert \<Rightarrow> Inr (ServeGenerated tlsCfg cert))))"

section \<open>Who may trigger an update\<close>

text \<open>What it means that a request carries the secret of a handler.\<close>

fun carries_secret :: "webhook_lib \<Rightarrow> RegistryWebhook \<Rightarrow> http_request \<Rightarrow> bool" where
  "carries_secret lib (GHCRWebhook s) r =
     (\<exists>body. rq_Body r = Inr body \<and> get (rq_Header r) ''X-Hub-Signature-256'' = ''sha256='' @ hex_EncodeToString (wh_hmac lib s body))"
| "carries_secret lib (HarborWebhook s) r = (get (rq_Header r) ''Authorization'' = s)"
| "carries_secret lib (ACRWebhook s) r = (get (rq_Header r) ''Authorization'' = s)"
| "carries_secret lib (CloudEventsWebhook s) r = (s \<in> {get (rq_Query r) ''secret'', get (rq_Header r) ''X-Webhook-Secret''})"
| "carries_secret lib h r = (get (rq_Query r) ''secret'' = secret h)"

lemma check_secret_None: "check_secret msg s given = None \<Longrightarrow> s \<noteq> [] \<Longrightarrow> given = s"
  by (simp add: check_secret_def split: if_split_asm)

lemma check_rules [simp]:
  "check_method r = None \<longleftrightarrow> rq_Method r = ''POST''"
  by (simp add: check_method_def)

lemma validateSignature_iff:
  "validateSignature lib key body sig \<longleftrightarrow> sig = ''sha256='' @ hex_EncodeToString (wh_hmac lib key body)"
  by (auto simp: validateSignature_def strings_HasPrefix_def strings_TrimPrefix_def prefix_def)

lemma Validate_secret:
  assumes "Validate lib h r = None" "secret h \<noteq> []"
  shows "rq_Method r = ''POST'' \<and> carries_secret lib h r"
  using assms
  by (cases h)
    (auto simp: docker_Validate_def quay_Validate_def aliyun_Validate_def harbor_Validate_def acr_Validate_def
      query_Validate_def header_Validate_def cloudevents_Validate_def ghcr_Validate_def validateSignature_iff Let_def
      dest!: check_secret_None split: option.split_asm if_split_asm sum.split_asm)

lemma registered_handler:
  "map_of (fold (\<lambda>h hs. if P h then RegisterHandler h hs else hs) l m) type = Some h \<Longrightarrow>
     map_of m type = Some h \<or> h \<in> set l \<and> P h \<and> GetRegistryType h = type"
proof (induction l arbitrary: m)
  case (Cons a l)
  from Cons.IH [of "if P a then RegisterHandler a m else m"] Cons.prems show ?case
    by (auto simp: RegisterHandler_def map_of_gomap_put split: if_split_asm)
qed simp

lemma setup_handlers_handler:
  assumes "map_of (setup_handlers cfg) type = Some h"
  shows "h \<in> set (configured_handlers cfg) \<and> GetRegistryType h = type \<and> (RequireSecret cfg \<longrightarrow> secret h \<noteq> [])"
  using registered_handler [OF assms [unfolded setup_handlers_def]] by (auto simp: NewWebhookHandler_def)

lemma SetupWebhookServer_handlers [simp]: "ws_Handler (SetupWebhookServer cfg) = setup_handlers cfg"
  by (simp add: SetupWebhookServer_def NewWebhookServer_def Let_def)

lemma ProcessWebhook_Inr:
  assumes "ProcessWebhook lib hs r = Inr ev"
  obtains h where "map_of hs (detectRegistryType r) = Some h" "Validate lib h r = None" "Parse lib h r = Inr ev"
  using assms by (auto simp: ProcessWebhook_def Let_def split: if_split_asm option.split_asm)

lemma Parse_body: "Parse lib h r = Inr ev \<Longrightarrow> \<exists>body. rq_Body r = Inr body"
  by (cases h) (auto simp: docker_Parse_def ghcr_Parse_def harbor_Parse_def quay_Parse_def aliyun_Parse_def acr_Parse_def
      cloudevents_Parse_def with_payload_def split: sum.split_asm)

text \<open>
  \<open>C27\<close>.  When secrets are required, as they are by default, only authenticated requests trigger an update: a
  request that is answered with an event to process was sent with POST, its body has at most one mebibyte, and it carries
  the configured, non-empty secret of the registry type that it names - for GitHub, the HMAC of exactly this body.
\<close>

theorem only_authenticated_events:
  assumes "RequireSecret cfg" "handleWebhook lib (ws_Handler (SetupWebhookServer cfg)) r = (code, Some ev)"
  shows "\<exists>h \<in> set (configured_handlers cfg). GetRegistryType h = detectRegistryType r \<and> secret h \<noteq> [] \<and>
    rq_Method r = ''POST'' \<and> carries_secret lib h r \<and> code = 200 \<and>
    (\<exists>body. rq_Body r = Inr body \<and> int (length body) \<le> maxWebhookBodySize)"
proof -
  let ?r = "r\<lparr>rq_Body := MaxBytesReader (rq_Body r)\<rparr>"
  from assms(2) have ok: "ProcessWebhook lib (setup_handlers cfg) ?r = Inr ev" "code = 200"
    by (auto simp: handleWebhook_def split: sum.split_asm webhook_error.split_asm body_error.split_asm)
  from ok(1) obtain h where h: "map_of (setup_handlers cfg) (detectRegistryType ?r) = Some h"
    "Validate lib h ?r = None" "Parse lib h ?r = Inr ev" by (rule ProcessWebhook_Inr)
  note handler = setup_handlers_handler [OF h(1)]
  have "detectRegistryType ?r = detectRegistryType r" by (simp add: detectRegistryType_def Let_def)
  moreover obtain body where body: "MaxBytesReader (rq_Body r) = Inr body" using Parse_body [OF h(3)] by auto
  then have "rq_Body r = Inr body" "int (length body) \<le> maxWebhookBodySize"
    by (auto simp: MaxBytesReader_def split: sum.split_asm if_split_asm)
  moreover have "carries_secret lib h ?r = carries_secret lib h r"
    using body \<open>rq_Body r = Inr body\<close> by (cases h) auto
  ultimately show ?thesis using Validate_secret [OF h(2)] handler assms(1) ok(2) by auto
qed

definition sample_webhook :: webhook_lib where
  "sample_webhook =
     \<lparr>wh_json = (\<lambda>s. if s = ''{}'' then Some (JObj []) else Some (JObj [(''Repository'', JObj [(''repo_name'', JStr ''org/web'')]), (''push_data'', JObj [(''tag'', JStr ''1.1'')])])),
      wh_hmac = (\<lambda>k m. k @ m), wh_url = (\<lambda>_. None)\<rparr>"

definition sample_webhook_config :: WebhookConfig where
  "sample_webhook_config =
     \<lparr>RequireSecret = True, Port = 8082, EnableHTTP2 = False, DockerSecret = ''s3cret'', GHCRSecret = [], QuaySecret = [], HarborSecret = [],
      AliyunACRSecret = [], ACRSecret = [], CloudEventsSecret = [], RateLimitNumAllowedRequests = 0, DisableTLS = False,
      TLSMinVersion = ''1.3'', TLSMaxVersion = ''1.3'', TLSCiphers = []\<rparr>"

definition sample_request :: http_request where
  "sample_request = \<lparr>rq_Method = ''POST'', rq_Query = [(''type'', ''docker.io''), (''secret'', ''s3cret'')], rq_Header = [], rq_Body = Inr ''{...}''\<rparr>"

theorem only_authenticated_events_witness:
  "handleWebhook sample_webhook (ws_Handler (SetupWebhookServer sample_webhook_config)) sample_request =
     (200, Some \<lparr>we_RegistryURL = ''docker.io'', we_Repository = ''org/web'', we_Tag = ''1.1'', we_Digest = []\<rparr>) \<and>
   (\<exists>h \<in> set (configured_handlers sample_webhook_config). GetRegistryType h = ''docker.io'' \<and> carries_secret sample_webhook h sample_request)"
proof -
  have run: "handleWebhook sample_webhook (ws_Handler (SetupWebhookServer sample_webhook_config)) sample_request =
     (200, Some \<lparr>we_RegistryURL = ''docker.io'', we_Repository = ''org/web'', we_Tag = ''1.1'', we_Digest = []\<rparr>)"
    by code_simp
  have "detectRegistryType sample_request = ''docker.io''" by code_simp
  moreover have "RequireSecret sample_webhook_config" by (simp add: sample_webhook_config_def)
  note only_authenticated_events [OF this run]
  ultimately show ?thesis using run by metis
qed

text \<open>A Quay event need not name a repository: it is passed on with an empty one.\<close>

lemma quay_event_without_repository:
  "quay_Parse (sample_webhook\<lparr>wh_json := (\<lambda>_. Some (JObj [(''updated_tags'', JArr [JStr ''1.1''])]))\<rparr>) sample_request =
     Inr \<lparr>we_RegistryURL = ''quay.io'', we_Repository = [], we_Tag = ''1.1'', we_Digest = []\<rparr>"
  by code_simp

section \<open>TLS settings are consistent\<close>

lemma ParseTLSVersion_range: "ParseTLSVersion s = Inr v \<Longrightarrow> v \<in> {0, VersionTLS11, VersionTLS12, VersionTLS13}"
  by (auto simp: ParseTLSVersion_def tlsVersionMap_def split: if_split_asm option.split_asm)

lemma cipher_loop_known: "cipher_loop suites ns = Inr is \<Longrightarrow> i \<in> set is \<Longrightarrow> \<exists>name vs. (name, i, vs) \<in> set suites"
proof (induction ns arbitrary: "is")
  case (Cons n ns)
  have "\<exists>name vs. (name, i, vs) \<in> set suites" if "map_of (rev suites) m = Some (i, vs)" for m vs
    using map_of_SomeD [OF that] by auto
  then show ?case
    using Cons by (auto simp: Let_def map_sum_def split: if_split_asm option.split_asm sum.split_asm)
qed simp

lemma find_SomeD: "find P xs = Some x \<Longrightarrow> P x \<and> x \<in> set xs"
  by (induction xs) (auto split: if_split_asm)

lemma cipher_check_None:
  "cipher_check suites v is = None \<Longrightarrow> i \<in> set is \<Longrightarrow> (name, i, vs) \<in> set suites \<Longrightarrow> \<exists>name vs. (name, i, vs) \<in> set suites \<and> v \<in> set vs"
proof (induction "is")
  case (Cons j js)
  have "\<exists>name vs. (name, j, vs) \<in> set suites \<and> v \<in> set vs" if "i = j"
  proof (cases "find (\<lambda>(name, k, versions). k = j) suites")
    case None
    then show ?thesis using Cons.prems(3) that by (auto simp: find_None_iff)
  next
    case (Some suite)
    then obtain n vs' where "suite = (n, j, vs')" "(n, j, vs') \<in> set suites"
      by (cases suite) (auto dest!: find_SomeD)
    then show ?thesis using Cons.prems(1) Some by (auto split: if_split_asm)
  qed
  then show ?case using Cons by (auto split: option.split_asm if_split_asm)
qed simp

text \<open>
  Every TLS configuration that the server accepts is consistent: the versions are the default or one of
  TLS 1.1 to 1.3, the lower bound is not above the upper one, and every cipher suite is one that Go considers
  secure and, when a lower bound is set, supports it; with TLS 1.3 as the lower bound none is configured.
\<close>

lemma tls_config_consistent:
  assumes "buildTLSConfig suites t = Inr c"
  shows "{MinVersion c, MaxVersion c} \<subseteq> {0, VersionTLS11, VersionTLS12, VersionTLS13} \<and>
    (MinVersion c \<noteq> 0 \<and> MaxVersion c \<noteq> 0 \<longrightarrow> MinVersion c \<le> MaxVersion c) \<and>
    (\<forall>i \<in> set (CipherSuites c). \<exists>name vs. (name, i, vs) \<in> set suites \<and> (MinVersion c \<noteq> 0 \<longrightarrow> MinVersion c \<in> set vs)) \<and>
    (VersionTLS13 \<le> MinVersion c \<longrightarrow> CipherSuites c = [])"
proof -
  from assms obtain minVer maxVer ciphers where
    c: "ParseTLSVersion (tc_MinVersion t) = Inr minVer" "ParseTLSVersion (tc_MaxVersion t) = Inr maxVer"
      "ParseTLSCiphers suites (tc_Ciphers t) = Inr ciphers" "MinVersion c = minVer" "MaxVersion c = maxVer"
      "CipherSuites c = (if length ciphers > 0 \<and> minVer \<ge> VersionTLS13 then [] else ciphers)"
      "ValidateTLSConfig suites minVer maxVer (CipherSuites c) = None"
    by (auto simp: buildTLSConfig_def Let_def split: sum.split_asm option.split_asm)
  have known: "\<exists>name vs. (name, i, vs) \<in> set suites" if "i \<in> set ciphers" for i
    using c(3) that by (auto simp: ParseTLSCiphers_def dest: cipher_loop_known split: if_split_asm)
  have "\<exists>name vs. (name, i, vs) \<in> set suites \<and> (minVer \<noteq> 0 \<longrightarrow> minVer \<in> set vs)" if i: "i \<in> set (CipherSuites c)" for i
  proof (cases "minVer = 0")
    case False
    with c(7) i have "cipher_check suites minVer (CipherSuites c) = None"
      by (auto simp: ValidateTLSConfig_def split: if_split_asm)
    moreover obtain name vs where "(name, i, vs) \<in> set suites" using i known [of i] c(6) by (auto split: if_split_asm)
    ultimately show ?thesis using cipher_check_None i by blast
  qed (use i known [of i] c(6) in \<open>auto split: if_split_asm\<close>)
  moreover have "minVer \<le> maxVer" if "minVer \<noteq> 0" "maxVer \<noteq> 0"
    using c(7) that by (auto simp: ValidateTLSConfig_def split: if_split_asm)
  ultimately show ?thesis using ParseTLSVersion_range [OF c(1)] ParseTLSVersion_range [OF c(2)] c(4-6) by auto
qed

lemma validateCertValidity_None:
  "validateCertValidity now cs = None \<Longrightarrow> c \<in> set cs \<Longrightarrow> \<exists>notBefore notAfter. c = Some (notBefore, notAfter) \<and> notBefore \<le> now \<and> now \<le> notAfter"
  by (induction now cs rule: validateCertValidity.induct) (auto split: if_split_asm)

text \<open>
  \<open>C28\<close>.  The webhook server serves plain HTTP only when TLS is switched off.  Otherwise it starts with a consistent TLS configuration -
  versions between TLS 1.1 and 1.3 or the defaults of Go, the lower bound not above the upper one, only cipher suites that Go
  considers secure and that support a configured lower bound - and with a certificate of its own or one that was loaded from two
  non-empty files and of which every certificate in the chain is valid at that time.
\<close>

theorem server_start_secure:
  assumes "Start lib now s = Inr srv"
  shows "if ws_DisableTLS s then srv = ServeHTTP
    else \<exists>c. srv \<noteq> ServeHTTP \<and> serving_tls srv = c \<and>
      {MinVersion c, MaxVersion c} \<subseteq> {0, VersionTLS11, VersionTLS12, VersionTLS13} \<and>
      (MinVersion c \<noteq> 0 \<and> MaxVersion c \<noteq> 0 \<longrightarrow> MinVersion c \<le> MaxVersion c) \<and>
      (\<forall>i \<in> set (CipherSuites c). \<exists>name vs. (name, i, vs) \<in> set (cl_suites lib) \<and> (MinVersion c \<noteq> 0 \<longrightarrow> MinVersion c \<in> set vs)) \<and>
      (\<forall>certFile keyFile. srv = ServeFiles c certFile keyFile \<longrightarrow> certFilesExist lib certFile keyFile \<and>
         (\<exists>certs. cl_LoadX509KeyPair lib certFile keyFile = Inr certs \<and>
            (\<forall>v \<in> set certs. \<exists>notBefore notAfter. v = Some (notBefore, notAfter) \<and> notBefore \<le> now \<and> now \<le> notAfter)))"
proof (cases "ws_DisableTLS s")
  case False
  from assms False obtain c where c: "buildTLSConfig (cl_suites lib) (server_tls s) = Inr c" and srv: "srv \<noteq> ServeHTTP" "serving_tls srv = c"
    by (auto simp: Start_def Let_def split: sum.split_asm if_split_asm option.split_asm)
  have "certFilesExist lib certFile keyFile \<and> (\<exists>certs. cl_LoadX509KeyPair lib certFile keyFile = Inr certs \<and>
      (\<forall>v \<in> set certs. \<exists>notBefore notAfter. v = Some (notBefore, notAfter) \<and> notBefore \<le> now \<and> now \<le> notAfter))"
    if "srv = ServeFiles c certFile keyFile" for certFile keyFile
    using assms False that
    by (auto simp: Start_def Let_def dest: validateCertValidity_None split: sum.split_asm if_split_asm option.split_asm)
  with tls_config_consistent [OF c] srv False show ?thesis by auto
qed (use assms in \<open>simp add: Start_def\<close>)

theorem server_start_secure_witness:
  "\<exists>srv. Start \<lparr>cl_Size = (\<lambda>_. Some 9), cl_LoadX509KeyPair = (\<lambda>_ _. Inr [Some (0, 10)]), cl_generateSelfSignedCert = Inl [], cl_suites = []\<rparr>
      5 (SetupWebhookServer sample_webhook_config) = Inr srv \<and> srv \<noteq> ServeHTTP \<and> MinVersion (serving_tls srv) \<le> MaxVersion (serving_tls srv)"
proof -
  let ?lib = "\<lparr>cl_Size = (\<lambda>_. Some 9), cl_LoadX509KeyPair = (\<lambda>_ _. Inr [Some (0, 10)]), cl_generateSelfSignedCert = Inl [], cl_suites = []\<rparr>"
  let ?s = "SetupWebhookServer sample_webhook_config"
  have "(case Start ?lib 5 ?s of Inr srv \<Rightarrow> MinVersion (serving_tls srv) \<noteq> 0 \<and> MaxVersion (serving_tls srv) \<noteq> 0 | Inl _ \<Rightarrow> False)" by code_simp
  then obtain srv where run: "Start ?lib 5 ?s = Inr srv" and v: "MinVersion (serving_tls srv) \<noteq> 0" "MaxVersion (serving_tls srv) \<noteq> 0"
    by (auto split: sum.split_asm)
  have "\<not> ws_DisableTLS ?s" by code_simp
  with server_start_secure [OF run] run v show ?thesis by auto
qed

end
