(* ===== verification/Controller.thy ===== *)
theory Controller
  imports Update Webhook
begin

text \<open>
  The controller (\<open>internal/controller\<close>): a run over the applications of one resource, the processing of a list of
  resources, the reconcile loop with its finalizer and its run-once mode, and the status of a resource; and the cache warm-up of
  \<open>cmd/run.go\<close>.  The goroutines of a run are modelled as atomic steps that happen one after the other, in an order that is a
  parameter; the Kubernetes API, its helpers and the metrics are parameters.
\<close>

section \<open>Resources\<close>

datatype k8s_error = NotFound | ApiError string

record Condition =
  cd_Type :: string
  cd_Status :: bool
  cd_Reason :: string
  cd_Message :: string
  cd_ObservedGeneration :: int

record RecentUpdate =
  ru_Alias :: string
  ru_Image :: string
  ru_NewVersion :: string
  ru_ApplicationsUpdated :: nat
  ru_UpdatedAt :: instant
  ru_Message :: string

record ImageUpdaterStatus =
  ss_ObservedGeneration :: int
  ss_LastCheckedAt :: "instant option"
  ss_LastUpdatedAt :: "instant option"
  ss_ApplicationsMatched :: int
  ss_ImagesManaged :: int
  ss_RecentUpdates :: "RecentUpdate list"
  ss_Conditions :: "Condition list"

record ImageUpdater =
  iu_Namespace :: string
  iu_Name :: string
  iu_Generation :: int
  iu_Deleted :: bool
  iu_Finalizers :: "string list"
  iu_Spec :: ImageUpdaterSpec
  iu_Status :: ImageUpdaterStatus

type_synonym crkey = "string \<times> string"

definition key_of :: "ImageUpdater \<Rightarrow> crkey" where
  "key_of cr = (iu_Namespace cr, iu_Name cr)"

text \<open>The Kubernetes client and the helpers that are used with it.\<close>

record 'w k8s_lib =
  k8s_Get :: "crkey \<Rightarrow> 'w \<Rightarrow> k8s_error + ImageUpdater"
  k8s_List :: "'w \<Rightarrow> k8s_error + ImageUpdater list"
  k8s_Update :: "ImageUpdater \<Rightarrow> 'w \<Rightarrow> (k8s_error + ImageUpdater) \<times> 'w"
  k8s_StatusUpdate :: "ImageUpdater \<Rightarrow> 'w \<Rightarrow> (k8s_error + ImageUpdater) \<times> 'w"
  SetStatusCondition :: "Condition \<Rightarrow> Condition list \<Rightarrow> Condition list"
  RetryOnConflict ::
    "(ImageUpdater \<times> 'w \<Rightarrow> (k8s_error option \<times> ImageUpdater \<times> 'w) go) \<Rightarrow> ImageUpdater \<times> 'w \<Rightarrow>
     (k8s_error option \<times> ImageUpdater \<times> 'w) go"

record 'w cr_metrics =
  SetNumberOfApplications :: "crkey \<Rightarrow> nat \<Rightarrow> 'w \<Rightarrow> 'w"
  SetNumberOfImagesWatched :: "crkey \<Rightarrow> nat \<Rightarrow> 'w \<Rightarrow> 'w"
  IncreaseImageUpdate :: "crkey \<Rightarrow> nat \<Rightarrow> 'w \<Rightarrow> 'w"
  IncreaseUpdateErrors :: "crkey \<Rightarrow> nat \<Rightarrow> 'w \<Rightarrow> 'w"
  RemoveImageUpdaterMetrics :: "crkey \<Rightarrow> 'w \<Rightarrow> 'w"

record ImageUpdaterConfig =
  cf_DryRun :: bool
  cf_CheckInterval :: int
  cf_KubeClient :: "kube_client option"
  cf_GitCommitUser :: string
  cf_GitCommitMail :: string
  cf_GitCommitMessage :: "message_template option"
  cf_GitCommitSigningKey :: string
  cf_GitCommitSigningMethod :: string
  cf_GitCommitSignOff :: bool
  cf_GitCommitMethod :: string
  cf_DisableKubeEvents :: bool
  cf_EnableCRMetrics :: bool

text \<open>What a run reads from its surroundings; \<open>ctl_update\<close> holds the parameters of an update.\<close>

record ('s, 'v, 'c, 'k, 'w) ctl_env =
  ctl_Client :: "'w k8s_lib option"
  ctl_metrics :: "'w cr_metrics option"
  ctl_select :: select_env
  ctl_list_apps :: "'w \<Rightarrow> string \<Rightarrow> string + Application list"
  ctl_update :: "('s, 'v, 'c, 'k, 'w) UpdateConfiguration"
  ctl_app_order :: "(string \<times> ApplicationImages) list \<Rightarrow> (string \<times> ApplicationImages) list"
  ctl_cr_order :: "ImageUpdater list \<Rightarrow> ImageUpdater list"
  ctl_Acquire :: "string \<Rightarrow> bool"
  ctl_now :: "'w \<Rightarrow> instant"

section \<open>A run over the applications of one resource\<close>

definition empty_result :: ImageUpdaterResult where
  "empty_result = \<lparr>NumApplicationsProcessed = 0, NumImagesFound = 0, NumImagesUpdated = 0, NumImagesConsidered = 0, NumSkipped = 0,
     NumErrors = 0, ApplicationsMatched = 0, Changes = []\<rparr>"

definition update_configuration ::
  "('s, 'v, 'c, 'k, 'w) ctl_env \<Rightarrow> ImageUpdaterConfig \<Rightarrow> bool \<Rightarrow> ('s, 'v, 'c, 'k, 'w) UpdateConfiguration" where
  "update_configuration env cfg dryRun =
     (ctl_update env)\<lparr>uc_KubeClient := cf_KubeClient cfg, uc_DryRun := dryRun, uc_GitCommitUser := cf_GitCommitUser cfg,
       uc_GitCommitEmail := cf_GitCommitMail cfg, uc_GitCommitMessage := cf_GitCommitMessage cfg,
       uc_GitCommitSigningKey := cf_GitCommitSigningKey cfg, uc_GitCommitSigningMethod := cf_GitCommitSigningMethod cfg,
       uc_GitCommitSignOff := cf_GitCommitSignOff cfg, uc_GitCommitMethod := cf_GitCommitMethod cfg,
       uc_DisableKubeEvents := cf_DisableKubeEvents cfg, uc_IgnorePlatforms := False\<rparr>"

definition add_result :: "ImageUpdaterResult \<Rightarrow> ImageUpdaterResult \<Rightarrow> ImageUpdaterResult" where
  "add_result res r =
     res\<lparr>NumApplicationsProcessed := NumApplicationsProcessed res + 1, NumErrors := NumErrors res + NumErrors r,
         NumImagesConsidered := NumImagesConsidered res + NumImagesConsidered r,
         NumImagesUpdated := NumImagesUpdated res + NumImagesUpdated r, NumSkipped := NumSkipped res + NumSkipped r,
         Changes := Changes res @ Changes r\<rparr>"

definition with_metrics ::
  "('s, 'v, 'c, 'k, 'w) ctl_env \<Rightarrow> ImageUpdaterConfig \<Rightarrow> bool \<Rightarrow> ('w cr_metrics \<Rightarrow> 'w \<Rightarrow> 'w) \<Rightarrow> 'w \<Rightarrow> 'w" where
  "with_metrics env cfg warmUp f w =
     (if \<not> warmUp \<and> cf_EnableCRMetrics cfg then (case ctl_metrics env of Some m \<Rightarrow> f m w | None \<Rightarrow> w) else w)"

fun run_apps ::
  "('s, 'v, 'c, 'k, 'w) ctl_env \<Rightarrow> ImageUpdaterConfig \<Rightarrow> crkey \<Rightarrow> bool \<Rightarrow> (string \<times> ApplicationImages) list \<Rightarrow>
   ImageUpdaterResult \<Rightarrow> SyncIterationState \<Rightarrow> ('s, 't) reg_state \<Rightarrow> 'w \<Rightarrow> (ImageUpdaterResult \<times> ('s, 't) reg_state \<times> 'w) go" where
  "run_apps env cfg key warmUp [] res state reg w = Ret (res, reg, w)"
| "run_apps env cfg key warmUp ((app, ai) # apps) res state reg w =
     (if \<not> ctl_Acquire env app then run_apps env cfg key warmUp apps res state reg w
      else
        go_bind (UpdateApplication (update_configuration env cfg (cf_DryRun cfg \<or> warmUp)) ai state reg w)
          (\<lambda>(r, state, reg, w).
             run_apps env cfg key warmUp apps (add_result res r) state reg
               (with_metrics env cfg warmUp
                  (\<lambda>m w. IncreaseUpdateErrors m key (NumErrors r)
                           (if \<not> cf_DryRun cfg then IncreaseImageUpdate m key (NumImagesUpdated r) w else w)) w)))"

definition RunImageUpdater ::
  "('s, 'v, 'c, 'k, 'w) ctl_env \<Rightarrow> ImageUpdaterConfig \<Rightarrow> ImageUpdater \<Rightarrow> bool \<Rightarrow> WebhookEvent option \<Rightarrow>
   ('s, 't) reg_state \<Rightarrow> 'w \<Rightarrow> ((ImageUpdaterResult \<times> filter_error option) \<times> ('s, 't) reg_state \<times> 'w) go" where
  "RunImageUpdater env cfg cr warmUp webhookEvent reg w =
     go_bind (FilterApplicationsForUpdate (ctl_select env) (ctl_list_apps env w) (iu_Namespace cr) (iu_Spec cr) webhookEvent)
       (\<lambda>r. case r of
          Inl err \<Rightarrow> Ret ((empty_result, Some err), reg, w)
        | Inr appList \<Rightarrow>
            (let matched = length appList;
                 w = with_metrics env cfg warmUp (\<lambda>m. SetNumberOfApplications m (key_of cr) matched) w
             in go_bind (run_apps env cfg (key_of cr) warmUp (ctl_app_order env appList) (empty_result\<lparr>ApplicationsMatched := matched\<rparr>)
                           NewSyncIterationState reg w)
                  (\<lambda>(res, reg, w).
                     Ret ((res, None), reg,
                          with_metrics env cfg warmUp (\<lambda>m. SetNumberOfImagesWatched m (key_of cr) (NumImagesConsidered res)) w))))"

section \<open>Status\<close>

definition int32 :: "nat \<Rightarrow> int" where
  "int32 n = sint (of_nat n :: 32 word)"

text \<open>One entry per alias and new version, in the order in which they first occur.\<close>

definition change_alias :: "ChangeEntry \<Rightarrow> string" where
  "change_alias c = (if ImageAlias (ce_Image c) = [] then ImageName (ce_Image c) else ImageAlias (ce_Image c))"

fun add_update :: "instant \<Rightarrow> ChangeEntry \<Rightarrow> ImageTag \<Rightarrow> RecentUpdate list \<Rightarrow> RecentUpdate list" where
  "add_update now c t [] =
     [\<lparr>ru_Alias = change_alias c, ru_Image = GetFullNameWithoutTag (ce_Image c), ru_NewVersion = tag_String t, ru_ApplicationsUpdated = 1,
       ru_UpdatedAt = now, ru_Message = ''Updated from '' @ tag_String (ce_OldTag c) @ '' to '' @ tag_String t @ ''.''\<rparr>]"
| "add_update now c t (u # us) =
     (if ru_Alias u = change_alias c \<and> ru_NewVersion u = tag_String t
      then u\<lparr>ru_ApplicationsUpdated := ru_ApplicationsUpdated u + 1\<rparr> # us
      else u # add_update now c t us)"

fun recent_loop :: "instant \<Rightarrow> ChangeEntry list \<Rightarrow> RecentUpdate list \<Rightarrow> RecentUpdate list go" where
  "recent_loop now [] us = Ret us"
| "recent_loop now (c # cs) us = go_bind (new_tag c) (\<lambda>t. recent_loop now cs (add_update now c t us))"

definition buildRecentUpdates :: "ChangeEntry list \<Rightarrow> instant \<Rightarrow> RecentUpdate list go" where
  "buildRecentUpdates changes now = recent_loop now changes []"

definition completion_conditions :: "int \<Rightarrow> ImageUpdaterResult \<Rightarrow> string option \<Rightarrow> Condition list" where
  "completion_conditions gen res reconcileErr =
     (let cond = (\<lambda>t s r m. \<lparr>cd_Type = t, cd_Status = s, cd_Reason = r, cd_Message = m, cd_ObservedGeneration = gen\<rparr>) in
      cond ''Reconciling'' False ''Idle'' ''Last check completed. Awaiting next cycle.'' #
      (case reconcileErr of
         Some err \<Rightarrow>
           [cond ''Error'' True ''ReconcileError'' err, cond ''Ready'' False ''ReconcileFailed'' (''Reconciliation failed: '' @ err)]
       | None \<Rightarrow>
           if NumErrors res > 0 then
             [cond ''Error'' True ''PartialErrors'' (show_nat (NumErrors res) @ '' error(s) occurred during image update checks.''),
              cond ''Ready'' True ''ReconcileCompletedWithErrors''
                (''Reconciled '' @ show_nat (ApplicationsMatched res) @ '' applications with '' @ show_nat (NumErrors res) @ '' errors, '' @
                 show_nat (NumImagesUpdated res) @ '' images updated.'')]
           else
             [cond ''Error'' False ''NoErrors'' ''No errors during last reconciliation.'',
              cond ''Ready'' True ''ReconcileSucceeded''
                (''Reconciled '' @ show_nat (ApplicationsMatched res) @ '' applications, '' @ show_nat (NumImagesUpdated res) @ '' images updated.'')]))"

definition setCompletionConditions :: "'w k8s_lib \<Rightarrow> ImageUpdater \<Rightarrow> ImageUpdaterResult \<Rightarrow> string option \<Rightarrow> ImageUpdater" where
  "setCompletionConditions lib cr res reconcileErr =
     (let st = iu_Status cr
      in cr\<lparr>iu_Status := st\<lparr>ss_Conditions := fold (SetStatusCondition lib) (completion_conditions (iu_Generation cr) res reconcileErr) (ss_Conditions st)\<rparr>\<rparr>)"

text \<open>Both status operations fetch the resource again, change its status and write it.\<close>

definition change_status ::
  "'w k8s_lib \<Rightarrow> (ImageUpdater \<Rightarrow> 'w \<Rightarrow> ImageUpdater go) \<Rightarrow> ImageUpdater \<times> 'w \<Rightarrow> (k8s_error option \<times> ImageUpdater \<times> 'w) go" where
  "change_status lib f =
     RetryOnConflict lib
       (\<lambda>(cr, w). case k8s_Get lib (key_of cr) w of
          Inl err \<Rightarrow> Ret (Some err, cr, w)
        | Inr cr \<Rightarrow>
            go_bind (f cr w)
              (\<lambda>cr. case k8s_StatusUpdate lib cr w of
                 (Inl err, w) \<Rightarrow> Ret (Some err, cr, w)
               | (Inr cr, w) \<Rightarrow> Ret (None, cr, w)))"

definition setReconcilingStatus :: "'w k8s_lib \<Rightarrow> ImageUpdater \<times> 'w \<Rightarrow> (k8s_error option \<times> ImageUpdater \<times> 'w) go" where
  "setReconcilingStatus lib =
     change_status lib
       (\<lambda>cr w. let st = iu_Status cr in
          Ret (cr\<lparr>iu_Status := st\<lparr>ss_Conditions := SetStatusCondition lib
            \<lparr>cd_Type = ''Reconciling'', cd_Status = True, cd_Reason = ''Reconciling'', cd_Message = ''Image update check in progress.'',
             cd_ObservedGeneration = iu_Generation cr\<rparr> (ss_Conditions st)\<rparr>\<rparr>))"

definition reconciled :: "'w k8s_lib \<Rightarrow> ImageUpdaterResult \<Rightarrow> string option \<Rightarrow> instant \<Rightarrow> ImageUpdater \<Rightarrow> ImageUpdater go" where
  "reconciled lib res reconcileErr now cr =
     (let st = (iu_Status cr)\<lparr>ss_ObservedGeneration := iu_Generation cr, ss_LastCheckedAt := Some now,
                  ss_ApplicationsMatched := int32 (ApplicationsMatched res), ss_ImagesManaged := int32 (NumImagesConsidered res)\<rparr>
      in go_bind
           (if NumImagesUpdated res > 0
            then go_bind (buildRecentUpdates (Changes res) now) (\<lambda>us. Ret (st\<lparr>ss_LastUpdatedAt := Some now, ss_RecentUpdates := us\<rparr>))
            else Ret st)
           (\<lambda>st. Ret (setCompletionConditions lib (cr\<lparr>iu_Status := st\<rparr>) res reconcileErr)))"

definition updateStatusAfterReconcile ::
  "('w \<Rightarrow> instant) \<Rightarrow> 'w k8s_lib \<Rightarrow> ImageUpdaterResult \<Rightarrow> string option \<Rightarrow> ImageUpdater \<times> 'w \<Rightarrow> (k8s_error option \<times> ImageUpdater \<times> 'w) go" where
  "updateStatusAfterReconcile time lib res reconcileErr = change_status lib (\<lambda>cr w. reconciled lib res reconcileErr (time w) cr)"

section \<open>Processing resources\<close>

definition filter_error_text :: "filter_error \<Rightarrow> string" where
  "filter_error_text err =
     (case err of NoApplicationRefs \<Rightarrow> ''no application refs'' | InvalidPattern p \<Rightarrow> ''invalid pattern '' @ p | ListFailed e \<Rightarrow> e)"

text \<open>Status, run, status: one cycle for a resource.  Failures of the status updates are only logged.\<close>

definition cycle ::
  "('s, 'v, 'c, 'k, 'w) ctl_env \<Rightarrow> ImageUpdaterConfig \<Rightarrow> 'w k8s_lib \<Rightarrow> WebhookEvent option \<Rightarrow> ImageUpdater \<Rightarrow>
   ('s, 't) reg_state \<Rightarrow> 'w \<Rightarrow> (filter_error option \<times> ('s, 't) reg_state \<times> 'w) go" where
  "cycle env cfg lib webhookEvent cr reg w =
     go_bind (setReconcilingStatus lib (cr, w))
       (\<lambda>(_, cr, w). go_bind (RunImageUpdater env cfg cr False webhookEvent reg w)
          (\<lambda>((res, err), reg, w). go_bind (updateStatusAfterReconcile (ctl_now env) lib res (map_option filter_error_text err) (cr, w))
             (\<lambda>(_, _, w). Ret (err, reg, w))))"

text \<open>The endpoints that are counted at the end of a warm-up.\<close>

definition count_entries :: "('s, 'v, 'c, 'k, 'w) ctl_env \<Rightarrow> ('s, 't) reg_state \<Rightarrow> ('s, 't) reg_state" where
  "count_entries env reg =
     fold (\<lambda>ep reg. fst (GetRegistryEndpoint (uc_newCache (ctl_update env)) (ContainerImage ep [] None [] None []) reg)) (ConfiguredEndpoints reg) reg"

fun cr_loop ::
  "('s, 'v, 'c, 'k, 'w) ctl_env \<Rightarrow> ImageUpdaterConfig \<Rightarrow> 'w k8s_lib \<Rightarrow> bool \<Rightarrow> WebhookEvent option \<Rightarrow>
   ImageUpdater list \<Rightarrow> ('s, 't) reg_state \<Rightarrow> 'w \<Rightarrow> (filter_error list \<times> ('s, 't) reg_state \<times> 'w) go" where
  "cr_loop env cfg lib warmUp webhookEvent [] reg w = Ret ([], reg, w)"
| "cr_loop env cfg lib warmUp webhookEvent (cr # crs) reg w =
     (if \<not> ctl_Acquire env (iu_Name cr) then cr_loop env cfg lib warmUp webhookEvent crs reg w
      else
        go_bind (if warmUp then go_bind (RunImageUpdater env cfg cr True webhookEvent reg w) (\<lambda>((res, err), reg, w). Ret (err, reg, w))
                 else cycle env cfg lib webhookEvent cr reg w)
          (\<lambda>(err, reg, w).
             go_bind (cr_loop env cfg lib warmUp webhookEvent crs (if warmUp \<and> err = None then count_entries env reg else reg) w)
               (\<lambda>(errs, reg, w). Ret ((case err of None \<Rightarrow> errs | Some e \<Rightarrow> e # errs), reg, w))))"

definition ProcessImageUpdaterCRs ::
  "('s, 'v, 'c, 'k, 'w) ctl_env \<Rightarrow> ImageUpdaterConfig \<Rightarrow> 'w k8s_lib \<Rightarrow> ImageUpdater list \<Rightarrow> bool \<Rightarrow>
   WebhookEvent option \<Rightarrow> ('s, 't) reg_state \<Rightarrow> 'w \<Rightarrow> (filter_error list \<times> ('s, 't) reg_state \<times> 'w) go" where
  "ProcessImageUpdaterCRs env cfg lib crs warmUp webhookEvent reg w =
     (if crs = [] then Ret ([], reg, w) else cr_loop env cfg lib warmUp webhookEvent (ctl_cr_order env crs) reg w)"

definition processWebhookEvent ::
  "('s, 'v, 'c, 'k, 'w) ctl_env \<Rightarrow> ImageUpdaterConfig \<Rightarrow> 'w k8s_lib \<Rightarrow> WebhookEvent \<Rightarrow> ('s, 't) reg_state \<Rightarrow> 'w \<Rightarrow>
   ((k8s_error + filter_error list) \<times> ('s, 't) reg_state \<times> 'w) go" where
  "processWebhookEvent env cfg lib event reg w =
     (case k8s_List lib w of
        Inl err \<Rightarrow> Ret (Inl err, reg, w)
      | Inr crs \<Rightarrow>
          go_bind (ProcessImageUpdaterCRs env cfg lib crs False (Some event) reg w) (\<lambda>(errs, reg, w). Ret (Inr errs, reg, w)))"

section \<open>The reconcile loop\<close>

definition ResourcesFinalizerName :: string where
  "ResourcesFinalizerName = ''resources-finalizer.argocd-image-updater.argoproj.io''"

text \<open>The state that the reconciler keeps between requests, the registries and the world.\<close>

record ('s, 't, 'w) reconciler =
  rs_onceCompleted :: "crkey list"
  rs_Wg :: int
  rs_regs :: "('s, 't) reg_state"
  rs_world :: 'w

text \<open>\<open>WaitGroup.Done\<close> panics when the counter becomes negative.\<close>

definition Wg_Done :: "('s, 't, 'w) reconciler \<Rightarrow> ('s, 't, 'w) reconciler go" where
  "Wg_Done st = (if rs_Wg st \<le> 0 then Panic else Ret (st\<lparr>rs_Wg := rs_Wg st - 1\<rparr>))"

definition run_cycle ::
  "('s, 'v, 'c, 'k, 'w) ctl_env \<Rightarrow> ImageUpdaterConfig \<Rightarrow> 'w k8s_lib \<Rightarrow> ImageUpdater \<Rightarrow> ('s, 't, 'w) reconciler \<Rightarrow>
   ('s, 't, 'w) reconciler go" where
  "run_cycle env cfg lib cr st =
     go_bind (cycle env cfg lib None cr (rs_regs st) (rs_world st)) (\<lambda>(_, reg, w). Ret (st\<lparr>rs_regs := reg, rs_world := w\<rparr>))"

text \<open>After the finalizer has been dealt with: run once, run and come again, or wait for other events.\<close>

definition reconcile_live ::
  "('s, 'v, 'c, 'k, 'w) ctl_env \<Rightarrow> ImageUpdaterConfig \<Rightarrow> 'w k8s_lib \<Rightarrow> bool \<Rightarrow> crkey \<Rightarrow> ImageUpdater \<Rightarrow>
   ('s, 't, 'w) reconciler \<Rightarrow> ((int \<times> k8s_error option) \<times> ('s, 't, 'w) reconciler) go" where
  "reconcile_live env cfg lib once key cr st =
     (if cf_CheckInterval cfg < 0 then Ret ((0, None), st)
      else if cf_CheckInterval cfg = 0 then
        (if once \<and> key \<in> set (rs_onceCompleted st) then Ret ((0, None), st)
         else
           (let st = (if once then st\<lparr>rs_onceCompleted := key # rs_onceCompleted st\<rparr> else st)
            in go_bind (run_cycle env cfg lib cr st)
                 (\<lambda>st. go_bind (if once then Wg_Done st else Ret st) (\<lambda>st. Ret ((0, None), st)))))
      else go_bind (run_cycle env cfg lib cr st) (\<lambda>st. Ret ((cf_CheckInterval cfg, None), st)))"

definition Reconcile ::
  "('s, 'v, 'c, 'k, 'w) ctl_env \<Rightarrow> ImageUpdaterConfig \<Rightarrow> bool \<Rightarrow> bool \<Rightarrow> crkey \<Rightarrow> ('s, 't, 'w) reconciler \<Rightarrow>
   ((int \<times> k8s_error option) \<times> ('s, 't, 'w) reconciler) go" where
  "Reconcile env cfg cacheWarmed once key st =
     (if \<not> cacheWarmed then Ret ((5000000000, None), st)
      else
        (case ctl_Client env of
           None \<Rightarrow> Ret ((0, Some (ApiError ''client is nil'')), st)
         | Some lib \<Rightarrow>
             (case k8s_Get lib key (rs_world st) of
                Inl NotFound \<Rightarrow> Ret ((0, None), st)
              | Inl err \<Rightarrow> Ret ((0, Some err), st)
              | Inr cr \<Rightarrow>
                  if iu_Deleted cr then
                    (if ResourcesFinalizerName \<in> set (iu_Finalizers cr) then
                       (let w = with_metrics env cfg False (\<lambda>m. RemoveImageUpdaterMetrics m (key_of cr)) (rs_world st)
                        in case k8s_Update lib (cr\<lparr>iu_Finalizers := removeAll ResourcesFinalizerName (iu_Finalizers cr)\<rparr>) w of
                             (Inl err, w) \<Rightarrow> Ret ((0, Some err), st\<lparr>rs_world := w\<rparr>)
                           | (Inr _, w) \<Rightarrow> Ret ((0, None), st\<lparr>rs_world := w\<rparr>))
                     else Ret ((0, None), st))
                  else if ResourcesFinalizerName \<notin> set (iu_Finalizers cr) then
                    (case k8s_Update lib (cr\<lparr>iu_Finalizers := iu_Finalizers cr @ [ResourcesFinalizerName]\<rparr>) (rs_world st) of
                       (Inl err, w) \<Rightarrow> Ret ((0, Some err), st\<lparr>rs_world := w\<rparr>)
                     | (Inr cr, w) \<Rightarrow> reconcile_live env cfg lib once key cr (st\<lparr>rs_world := w\<rparr>))
                  else reconcile_live env cfg lib once key cr st)))"

text \<open>The cache warm-up, which in run-once mode also counts the resources to wait for.\<close>

definition CacheWarmer_Start ::
  "('s, 'v, 'c, 'k, 'w) ctl_env \<Rightarrow> ImageUpdaterConfig \<Rightarrow> 'w k8s_lib \<Rightarrow> bool \<Rightarrow> ('s, 't, 'w) reconciler \<Rightarrow>
   ((k8s_error + filter_error list) \<times> ('s, 't, 'w) reconciler) go" where
  "CacheWarmer_Start env cfg lib once st =
     (case k8s_List lib (rs_world st) of
        Inl err \<Rightarrow> Ret (Inl err, st)
      | Inr crs \<Rightarrow>
          (let st = (if once then st\<lparr>rs_Wg := rs_Wg st + int (length crs)\<rparr> else st)
           in go_bind (ProcessImageUpdaterCRs env cfg lib crs True None (rs_regs st) (rs_world st))
                (\<lambda>(errs, reg, w). Ret (Inr errs, st\<lparr>rs_regs := reg, rs_world := w\<rparr>))))"

section \<open>The results of a run\<close>

definition run_conf :: "('s, 'v, 'c, 'k, 'w) ctl_env \<Rightarrow> ImageUpdaterConfig \<Rightarrow> bool \<Rightarrow> ('s, 'v, 'c, 'k, 'w) UpdateConfiguration" where
  "run_conf env cfg warmUp = update_configuration env cfg (cf_DryRun cfg \<or> warmUp)"

lemma run_conf_DryRun [simp]: "uc_DryRun (run_conf env cfg warmUp) \<longleftrightarrow> cf_DryRun cfg \<or> warmUp"
  by (simp add: run_conf_def update_configuration_def)

text \<open>What one application contributes: changes that are admitted for its images, counted unless the commit has failed.\<close>

definition sound_result :: "('s, 'v, 'c, 'k, 'w) UpdateConfiguration \<Rightarrow> ApplicationImages \<Rightarrow> ImageUpdaterResult \<Rightarrow> bool" where
  "sound_result conf ai r \<longleftrightarrow>
     (\<forall>c \<in> set (Changes r). \<exists>img \<in> set (ai_Images ai). admitted conf img c) \<and>
     (NumImagesUpdated r = length (Changes r) \<or> NumImagesUpdated r = 0 \<and> NumErrors r > 0) \<and>
     NumImagesConsidered r \<le> length (ai_Images ai) \<and> length (ai_Images ai) \<le> NumImagesConsidered r + NumSkipped r"

lemma UpdateApplication_sound:
  assumes "UpdateApplication conf ai state reg w = Ret (r, state', reg', w')"
  shows "sound_result conf ai r"
proof -
  from assms obtain p where run: "image_run conf (ai_Images ai) no_progress p"
    and res: "Changes r = pg_changes p" "NumImagesConsidered r = pg_considered p" "NumSkipped r = pg_skipped p"
      "NumImagesUpdated r = pg_updated p \<or> NumImagesUpdated r = 0 \<and> NumErrors r > 0"
    by (elim UpdateApplication_run) force
  from image_run_counts [OF run] image_run_changes [OF run] res show ?thesis
    by (auto simp: sound_result_def)
qed

text \<open>One step of the loop over the applications.\<close>

lemma run_apps_Cons:
  assumes "run_apps env cfg key warmUp ((app, ai) # apps) res state reg w = Ret (res', reg', w')" "ctl_Acquire env app"
  obtains r state1 reg1 w1 w2 where
    "UpdateApplication (run_conf env cfg warmUp) ai state reg w = Ret (r, state1, reg1, w1)"
    and "run_apps env cfg key warmUp apps (add_result res r) state1 reg1 w2 = Ret (res', reg', w')"
    and "warmUp \<Longrightarrow> w2 = w"
proof -
  from assms obtain r state1 reg1 w1 where
    app: "UpdateApplication (run_conf env cfg warmUp) ai state reg w = Ret (r, state1, reg1, w1)"
    and rest: "run_apps env cfg key warmUp apps (add_result res r) state1 reg1
      (with_metrics env cfg warmUp (\<lambda>m w. IncreaseUpdateErrors m key (NumErrors r)
        (if \<not> cf_DryRun cfg then IncreaseImageUpdate m key (NumImagesUpdated r) w else w)) w1) = Ret (res', reg', w')"
    unfolding run_conf_def by (auto elim!: go_bindE)
  have "w1 = w" if warmUp
    using that by (rule_tac UpdateApplication_run [OF app]) simp
  with app rest that show thesis by (auto simp: with_metrics_def)
qed

lemma run_apps_warm_up:
  assumes "run_apps env cfg key True apps res state reg w = Ret (res', reg', w')"
  shows "w' = w"
  using assms
proof (induction apps arbitrary: res state reg w)
  case (Cons a apps)
  obtain app ai where a: "a = (app, ai)" by (cases a)
  show ?case
  proof (cases "ctl_Acquire env app")
    case True
    with Cons.prems show ?thesis unfolding a by (elim run_apps_Cons) (auto dest: Cons.IH)
  qed (use Cons a in simp)
qed simp

lemma run_apps_results:
  assumes "run_apps env cfg key warmUp apps res state reg w = Ret (res', reg', w')"
  shows "\<exists>rs. res' = foldl add_result res (map snd rs) \<and> map fst rs = map snd (filter (\<lambda>(app, _). ctl_Acquire env app) apps) \<and>
    (\<forall>(ai, r) \<in> set rs. sound_result (run_conf env cfg warmUp) ai r)"
  using assms
proof (induction apps arbitrary: res state reg w)
  case (Cons a apps)
  obtain app ai where a: "a = (app, ai)" by (cases a)
  show ?case
  proof (cases "ctl_Acquire env app")
    case True
    with Cons.prems obtain r state1 reg1 w1 w2 where
      app: "UpdateApplication (run_conf env cfg warmUp) ai state reg w = Ret (r, state1, reg1, w1)"
      and rest: "run_apps env cfg key warmUp apps (add_result res r) state1 reg1 w2 = Ret (res', reg', w')"
      unfolding a by (elim run_apps_Cons)
    from Cons.IH [OF rest] obtain rs where
      rs: "res' = foldl add_result (add_result res r) (map snd rs)"
        "map fst rs = map snd (filter (\<lambda>(app, _). ctl_Acquire env app) apps)"
        "\<forall>(ai, r) \<in> set rs. sound_result (run_conf env cfg warmUp) ai r"
      by blast
    show ?thesis by (rule exI [of _ "(ai, r) # rs"]) (use rs a True UpdateApplication_sound [OF app] in simp)
  qed (use Cons a in simp)
qed simp

text \<open>The totals of a run are the sums over its applications.\<close>

lemma add_results:
  "NumApplicationsProcessed (foldl add_result res rs) = NumApplicationsProcessed res + length rs"
  "NumImagesUpdated (foldl add_result res rs) = NumImagesUpdated res + sum_list (map NumImagesUpdated rs)"
  "NumImagesConsidered (foldl add_result res rs) = NumImagesConsidered res + sum_list (map NumImagesConsidered rs)"
  "NumSkipped (foldl add_result res rs) = NumSkipped res + sum_list (map NumSkipped rs)"
  "NumErrors (foldl add_result res rs) = NumErrors res + sum_list (map NumErrors rs)"
  "ApplicationsMatched (foldl add_result res rs) = ApplicationsMatched res"
  "Changes (foldl add_result res rs) = Changes res @ concat (map Changes rs)"
  by (induction rs arbitrary: res) (simp_all add: add_result_def)

lemma empty_result_simps [simp]:
  "NumApplicationsProcessed empty_result = 0" "NumImagesUpdated empty_result = 0" "NumImagesConsidered empty_result = 0"
  "NumSkipped empty_result = 0" "NumErrors empty_result = 0" "Changes empty_result = []" "ApplicationsMatched empty_result = 0"
  by (simp_all add: empty_result_def)

lemma RunImageUpdater_cases:
  assumes "RunImageUpdater env cfg cr warmUp event reg w = Ret ((res, err), reg', w')"
  obtains (failed) e where "err = Some e" "res = empty_result" "reg' = reg" "w' = w"
    "FilterApplicationsForUpdate (ctl_select env) (ctl_list_apps env w) (iu_Namespace cr) (iu_Spec cr) event = Ret (Inl e)"
  | (completed) appList rs where "err = None"
    "FilterApplicationsForUpdate (ctl_select env) (ctl_list_apps env w) (iu_Namespace cr) (iu_Spec cr) event = Ret (Inr appList)"
    "res = foldl add_result (empty_result\<lparr>ApplicationsMatched := length appList\<rparr>) (map snd rs)"
    "map fst rs = map snd (filter (\<lambda>(app, _). ctl_Acquire env app) (ctl_app_order env appList))"
    "\<forall>(ai, r) \<in> set rs. sound_result (run_conf env cfg warmUp) ai r"
    "warmUp \<Longrightarrow> w' = w"
proof -
  from assms obtain r where
    filt: "FilterApplicationsForUpdate (ctl_select env) (ctl_list_apps env w) (iu_Namespace cr) (iu_Spec cr) event = Ret r"
    unfolding RunImageUpdater_def by (elim go_bindE)
  show thesis
  proof (cases r)
    case (Inl e)
    with assms filt failed [of e] show thesis by (simp add: RunImageUpdater_def)
  next
    case (Inr appList)
    with assms filt obtain w1 w2 where
      run: "run_apps env cfg (key_of cr) warmUp (ctl_app_order env appList) (empty_result\<lparr>ApplicationsMatched := length appList\<rparr>)
        NewSyncIterationState reg w1 = Ret (res, reg', w2)" and err: "err = None"
      and w: "warmUp \<Longrightarrow> w1 = w \<and> w2 = w'"
      unfolding RunImageUpdater_def Let_def by (auto simp: with_metrics_def elim!: go_bindE)
    from run_apps_results [OF run] obtain rs where
      "res = foldl add_result (empty_result\<lparr>ApplicationsMatched := length appList\<rparr>) (map snd rs)"
      "map fst rs = map snd (filter (\<lambda>(app, _). ctl_Acquire env app) (ctl_app_order env appList))"
      "\<forall>(ai, r) \<in> set rs. sound_result (run_conf env cfg warmUp) ai r"
      by blast
    moreover have "w' = w" if warmUp using run_apps_warm_up [of env cfg] run w [OF that] that by simp
    ultimately show thesis using completed [OF err] filt Inr by blast
  qed
qed

lemma sound_sums:
  assumes "\<forall>(ai, r) \<in> set rs. sound_result conf ai r"
  shows "sum_list (map (NumImagesUpdated \<circ> snd) rs) \<le> length (concat (map (Changes \<circ> snd) rs))"
    and "sum_list (map (NumErrors \<circ> snd) rs) = 0 \<Longrightarrow> sum_list (map (NumImagesUpdated \<circ> snd) rs) = length (concat (map (Changes \<circ> snd) rs))"
    and "sum_list (map (NumImagesConsidered \<circ> snd) rs) \<le> sum_list (map (length \<circ> ai_Images \<circ> fst) rs)"
    and "sum_list (map (length \<circ> ai_Images \<circ> fst) rs) \<le> sum_list (map (NumImagesConsidered \<circ> snd) rs) + sum_list (map (NumSkipped \<circ> snd) rs)"
  using assms by (induction rs; simp add: sound_result_def split: prod.split_asm; linarith)+

text \<open>
  \<open>C23\<close>.  A run that is not refused by the selection processes every selected application once, when the semaphore can be acquired
  and the iteration order is a permutation; its totals add up: without errors every change is counted as an update, every image
  of a selected application is considered or skipped, and every change is admitted - the newest allowed and verified tag - for
  an image of a selected application.  A refused run reports nothing and leaves the world alone.
\<close>

theorem run_totals:
  assumes "RunImageUpdater env cfg cr warmUp event reg w = Ret ((res, err), reg', w')"
    and "\<forall>app. ctl_Acquire env app" "\<forall>xs. mset (ctl_app_order env xs) = mset xs"
  shows "case err of
      Some e \<Rightarrow> res = empty_result \<and> reg' = reg \<and> w' = w
    | None \<Rightarrow> \<exists>appList.
        FilterApplicationsForUpdate (ctl_select env) (ctl_list_apps env w) (iu_Namespace cr) (iu_Spec cr) event = Ret (Inr appList) \<and>
        ApplicationsMatched res = length appList \<and> NumApplicationsProcessed res = length appList \<and>
        NumImagesUpdated res \<le> length (Changes res) \<and> (NumErrors res = 0 \<longrightarrow> NumImagesUpdated res = length (Changes res)) \<and>
        NumImagesConsidered res \<le> sum_list (map (length \<circ> ai_Images \<circ> snd) appList) \<and>
        sum_list (map (length \<circ> ai_Images \<circ> snd) appList) \<le> NumImagesConsidered res + NumSkipped res \<and>
        (\<forall>c \<in> set (Changes res). \<exists>(app, ai) \<in> set appList. \<exists>img \<in> set (ai_Images ai). admitted (run_conf env cfg warmUp) img c)"
  using assms(1)
proof (cases rule: RunImageUpdater_cases)
  case (completed appList rs)
  let ?conf = "run_conf env cfg warmUp"
  have apps: "map fst rs = map snd (ctl_app_order env appList)"
    using completed(4) assms(2) by simp
  have fst_rs: "mset (map fst rs) = mset (map snd appList)"
    unfolding apps using assms(3) by (metis mset_map)
  have sound: "sound_result ?conf ai r" if "(ai, r) \<in> set rs" for ai r using completed(5) that by auto
  have total: "sum_list (map (length \<circ> ai_Images \<circ> fst) rs) = sum_list (map (length \<circ> ai_Images \<circ> snd) appList)"
    using arg_cong [OF fst_rs, of "\<lambda>m. sum_mset (image_mset (length \<circ> ai_Images) m)"]
    by (simp flip: sum_mset_sum_list mset_map add: comp_def multiset.map_comp)
  note sums = sound_sums [OF completed(5)]
  have "\<exists>(app, ai) \<in> set appList. \<exists>img \<in> set (ai_Images ai). admitted ?conf img c" if "c \<in> set (Changes res)" for c
  proof -
    from that obtain ai r where r: "(ai, r) \<in> set rs" "c \<in> set (Changes r)"
      unfolding completed(3) by (auto simp: add_results)
    from r(1) have "ai \<in> set (map snd appList)" unfolding set_mset_mset [symmetric] fst_rs [symmetric] by force
    with sound [OF r(1)] r(2) show ?thesis by (fastforce simp: sound_result_def)
  qed
  moreover have "length rs = length appList" using fst_rs by (metis length_map size_mset)
  ultimately show ?thesis using completed(1,2) sums unfolding completed(3) by (simp add: add_results total [symmetric] del: length_concat) blast
qed simp

section \<open>Warm-up\<close>

lemma cr_loop_warm_up:
  assumes "cr_loop env cfg lib True event crs reg w = Ret (errs, reg', w')"
  shows "w' = w"
  using assms
proof (induction crs arbitrary: reg w errs)
  case (Cons cr crs)
  have "w1 = w" if "RunImageUpdater env cfg cr True event reg w = Ret ((res, err), reg1, w1)" for res err reg1 w1
    using that by (cases rule: RunImageUpdater_cases) auto
  with Cons show ?case by (fastforce elim!: go_bindE split: if_split_asm)
qed simp

text \<open>
  \<open>C24\<close>.  The warm-up of the caches is free of effects: whatever the configuration says about dry runs, it leaves the world -
  resources, status, repositories, metrics, events - as it is, and in run-once mode it counts exactly the listed resources.
\<close>

theorem warm_up_changes_nothing:
  assumes "CacheWarmer_Start env cfg lib once st = Ret (out, st')"
  shows "rs_world st' = rs_world st \<and> rs_onceCompleted st' = rs_onceCompleted st \<and>
    rs_Wg st' = rs_Wg st + (if once then (case k8s_List lib (rs_world st) of Inr crs \<Rightarrow> int (length crs) | Inl _ \<Rightarrow> 0) else 0)"
  using assms
  by (auto simp: CacheWarmer_Start_def ProcessImageUpdaterCRs_def Let_def elim!: go_bindE dest: cr_loop_warm_up
      split: sum.split_asm if_split_asm)

section \<open>The status of a resource\<close>

text \<open>The key of an update in the status.\<close>

definition update_key :: "RecentUpdate \<Rightarrow> string \<times> string" where
  "update_key u = (ru_Alias u, ru_NewVersion u)"

definition change_key :: "ChangeEntry \<Rightarrow> string \<times> string" where
  "change_key c = (change_alias c, case ce_NewTag c of Some t \<Rightarrow> tag_String t | None \<Rightarrow> [])"

text \<open>The status accounts for a list of changes: one entry per key, with the number of changes that have it.\<close>

fun updates_of :: "RecentUpdate list \<Rightarrow> string \<times> string \<Rightarrow> nat" where
  "updates_of [] k = 0"
| "updates_of (u # us) k = (if update_key u = k then ru_ApplicationsUpdated u else 0) + updates_of us k"

definition accounts_for :: "RecentUpdate list \<Rightarrow> ChangeEntry list \<Rightarrow> bool" where
  "accounts_for us cs \<longleftrightarrow>
     distinct (map update_key us) \<and> set (map update_key us) = set (map change_key cs) \<and>
     (\<forall>k. updates_of us k = count_list (map change_key cs) k)"

lemma add_update_keys:
  assumes "ce_NewTag c = Some t"
  shows "map update_key (add_update now c t us) =
    (if change_key c \<in> set (map update_key us) then map update_key us else map update_key us @ [change_key c])"
  using assms by (induction us) (auto simp: update_key_def change_key_def)

lemma add_update_counts:
  assumes "ce_NewTag c = Some t"
  shows "updates_of (add_update now c t us) k = updates_of us k + (if change_key c = k then 1 else 0)"
  using assms by (induction us) (auto simp: update_key_def change_key_def)

lemma add_update_accounts:
  assumes "accounts_for us cs" "ce_NewTag c = Some t"
  shows "accounts_for (add_update now c t us) (cs @ [c])"
  using assms(1) unfolding accounts_for_def add_update_keys [OF assms(2)] add_update_counts [OF assms(2)] by auto

lemma updates_of_absent: "k \<notin> set (map update_key us) \<Longrightarrow> updates_of us k = 0"
  by (induction us) auto

lemma updates_of_entry: "distinct (map update_key us) \<Longrightarrow> u \<in> set us \<Longrightarrow> updates_of us (update_key u) = ru_ApplicationsUpdated u"
  by (induction us) (auto simp: updates_of_absent)

lemma recent_loop_accounts:
  assumes "accounts_for us done" "\<forall>c \<in> set cs. ce_NewTag c \<noteq> None"
  shows "\<exists>us'. recent_loop now cs us = Ret us' \<and> accounts_for us' (done @ cs)"
  using assms
proof (induction cs arbitrary: us "done")
  case (Cons c cs)
  then obtain t where t: "ce_NewTag c = Some t" by auto
  from Cons.IH [OF add_update_accounts [OF Cons.prems(1) t]] Cons.prems(2) t show ?case by (simp add: new_tag_def)
qed simp

text \<open>
  The updates in the status account for the changes of a run.  For the changes of any completed run the list is built
  without a panic; it has one entry for every pair of alias and new version among the changes and no other, and the entry counts
  the changes with that pair, so that the entries together count every change once.
\<close>

theorem recent_updates_account:
  assumes "RunImageUpdater env cfg cr warmUp event reg w = Ret ((res, None), reg', w')"
  shows "\<exists>us. buildRecentUpdates (Changes res) now = Ret us \<and> distinct (map update_key us) \<and>
    set (map update_key us) = set (map change_key (Changes res)) \<and>
    (\<forall>u \<in> set us. ru_ApplicationsUpdated u = length (filter (\<lambda>c. change_key c = update_key u) (Changes res)))"
proof -
  from assms have "\<forall>c \<in> set (Changes res). ce_NewTag c \<noteq> None"
  proof (cases rule: RunImageUpdater_cases)
    case (completed appList rs)
    then show ?thesis by (fastforce simp: add_results sound_result_def admitted_def)
  qed simp
  with recent_loop_accounts [of "[]" "[]" "Changes res" now]
  obtain us where us: "buildRecentUpdates (Changes res) now = Ret us" "accounts_for us (Changes res)"
    by (auto simp: buildRecentUpdates_def accounts_for_def)
  have "ru_ApplicationsUpdated u = length (filter (\<lambda>c. change_key c = update_key u) (Changes res))" if "u \<in> set us" for u
    using us(2) updates_of_entry [OF _ that]
    by (simp add: accounts_for_def count_list_eq_length_filter filter_map comp_def eq_commute del: split_paired_All)
  with us show ?thesis unfolding accounts_for_def by blast
qed

section \<open>Reconciling\<close>

lemma run_cycle_frame:
  assumes "run_cycle env cfg lib cr st = Ret st'"
  shows "rs_onceCompleted st' = rs_onceCompleted st \<and> rs_Wg st' = rs_Wg st"
  using assms by (auto simp: run_cycle_def elim!: go_bindE)

text \<open>
  \<open>C26\<close>.  A live resource is never forgotten.  With a positive interval, a request that returns asks to be repeated - after the interval,
  or shortly, while the cache is not warm - or returns the error of the Kubernetes API, on which it is repeated too; the only
  exceptions are a resource that does not exist and one that is being deleted.  An error of the run itself never stops the cycle.
\<close>

theorem live_resource_requeued:
  assumes "Reconcile env cfg cacheWarmed once key st = Ret ((after, err), st')" "cf_CheckInterval cfg > 0"
  shows "after > 0 \<and> err = None \<and> after = (if cacheWarmed then cf_CheckInterval cfg else 5000000000) \<or>
    after = 0 \<and> err \<noteq> None \<and> cacheWarmed \<or>
    after = 0 \<and> err = None \<and> (\<exists>lib. ctl_Client env = Some lib \<and>
      (k8s_Get lib key (rs_world st) = Inl NotFound \<or> (\<exists>cr. k8s_Get lib key (rs_world st) = Inr cr \<and> iu_Deleted cr)))"
  using assms
  by (auto simp: Reconcile_def reconcile_live_def Let_def elim!: go_bindE
      split: if_split_asm option.split_asm sum.split_asm k8s_error.split_asm prod.split_asm)

section \<open>Run once\<close>

text \<open>The requests of a run-once process, for resources with the given keys, in any order and any number.\<close>

inductive once_run ::
  "('s, 'v, 'c, 'k, 'w) ctl_env \<Rightarrow> ImageUpdaterConfig \<Rightarrow> crkey set \<Rightarrow> ('s, 't, 'w) reconciler \<Rightarrow> ('s, 't, 'w) reconciler \<Rightarrow> bool"
  for env cfg keys where
  start: "once_run env cfg keys st st"
| request: "once_run env cfg keys st'' st' \<Longrightarrow> once_run env cfg keys st st'"
    if "key \<in> keys" "Reconcile env cfg cacheWarmed True key st = Ret (out, st'')"

text \<open>The counter of the wait group is the number of keys that are not completed.\<close>

definition once_inv :: "crkey set \<Rightarrow> ('s, 't, 'w) reconciler \<Rightarrow> bool" where
  "once_inv keys st \<longleftrightarrow>
     distinct (rs_onceCompleted st) \<and> set (rs_onceCompleted st) \<subseteq> keys \<and> rs_Wg st = int (card keys) - int (length (rs_onceCompleted st))"

lemma reconcile_live_once:
  assumes "reconcile_live env cfg lib True key cr st = Ret (out, st')"
  shows "rs_onceCompleted st' = rs_onceCompleted st \<and> rs_Wg st' = rs_Wg st \<or>
    key \<notin> set (rs_onceCompleted st) \<and> rs_onceCompleted st' = key # rs_onceCompleted st \<and> rs_Wg st' = rs_Wg st - 1"
  using assms
  by (auto simp: reconcile_live_def Wg_Done_def Let_def elim!: go_bindE dest!: run_cycle_frame split: if_split_asm)

lemma Reconcile_once:
  assumes "Reconcile env cfg cacheWarmed True key st = Ret (out, st')"
  shows "rs_onceCompleted st' = rs_onceCompleted st \<and> rs_Wg st' = rs_Wg st \<or>
    key \<notin> set (rs_onceCompleted st) \<and> rs_onceCompleted st' = key # rs_onceCompleted st \<and> rs_Wg st' = rs_Wg st - 1"
  using assms
  by (auto simp: Reconcile_def Let_def dest!: reconcile_live_once
      split: if_split_asm option.split_asm sum.split_asm k8s_error.split_asm prod.split_asm)

lemma once_inv_Reconcile:
  assumes "once_inv keys st" "key \<in> keys" "Reconcile env cfg cacheWarmed True key st = Ret (out, st')"
  shows "once_inv keys st'"
  using Reconcile_once [OF assms(3)] assms(1,2) by (auto simp: once_inv_def)

lemma once_inv_run: "once_run env cfg keys st st' \<Longrightarrow> once_inv keys st \<Longrightarrow> once_inv keys st'"
  by (induction rule: once_run.induct) (auto intro: once_inv_Reconcile)

lemma once_inv_zero:
  assumes "once_inv keys st" "finite keys"
  shows "rs_Wg st = 0 \<longleftrightarrow> set (rs_onceCompleted st) = keys" and "rs_Wg st \<ge> 0"
proof -
  have len: "length (rs_onceCompleted st) = card (set (rs_onceCompleted st))" and sub: "set (rs_onceCompleted st) \<subseteq> keys"
    and wg: "rs_Wg st = int (card keys) - int (length (rs_onceCompleted st))"
    using assms(1) by (auto simp: once_inv_def distinct_card)
  show "rs_Wg st = 0 \<longleftrightarrow> set (rs_onceCompleted st) = keys"
    using card_subset_eq [OF assms(2) sub] unfolding wg len by auto
  show "rs_Wg st \<ge> 0" using card_mono [OF assms(2) sub] unfolding wg len by simp
qed


text \<open>A resource that is created after the list was taken makes the process panic once all listed ones have been run.\<close>

theorem run_once_late_resource:
  assumes "ctl_Client env = Some lib" "k8s_Get lib key (rs_world st) = Inr cr" "\<not> iu_Deleted cr"
    and "ResourcesFinalizerName \<in> set (iu_Finalizers cr)" "cf_CheckInterval cfg = 0" "rs_Wg st = 0" "key \<notin> set (rs_onceCompleted st)"
  shows "Reconcile env cfg True True key st = Panic"
proof -
  let ?st = "st\<lparr>rs_onceCompleted := key # rs_onceCompleted st\<rparr>"
  have "Reconcile env cfg True True key st =
      go_bind (run_cycle env cfg lib cr ?st) (\<lambda>st. go_bind (Wg_Done st) (\<lambda>st. Ret ((0, None), st)))"
    using assms by (simp add: Reconcile_def reconcile_live_def)
  moreover have "Wg_Done st' = Panic" if "run_cycle env cfg lib cr ?st = Ret st'" for st'
    using run_cycle_frame [OF that] assms(6) by (simp add: Wg_Done_def)
  ultimately show ?thesis by (cases "run_cycle env cfg lib cr ?st") simp_all
qed

section \<open>A concrete resource\<close>

text \<open>
  A cluster whose only resource tracks the image of the sample application; its writes are recorded in the log.
\<close>

definition sample_status :: ImageUpdaterStatus where
  "sample_status = \<lparr>ss_ObservedGeneration = 0, ss_LastCheckedAt = None, ss_LastUpdatedAt = None, ss_ApplicationsMatched = 0,
     ss_ImagesManaged = 0, ss_RecentUpdates = [], ss_Conditions = []\<rparr>"

definition sample_cr :: ImageUpdater where
  "sample_cr = \<lparr>iu_Namespace = ''argocd'', iu_Name = ''updater'', iu_Generation = 1, iu_Deleted = False,
     iu_Finalizers = [ResourcesFinalizerName], iu_Spec = sample_spec\<lparr>is_ApplicationRefs :=
       [(sample_rule ''web'' ''semver'')\<lparr>ar_Images := [sample_ImageConfig\<lparr>ic_ImageName := ''org/web''\<rparr>]\<rparr>], is_ImagesVerification := None\<rparr>,
     iu_Status = sample_status\<rparr>"

definition sample_k8s :: "sys k8s_lib" where
  "sample_k8s =
     \<lparr>k8s_Get = (\<lambda>key w. if key = key_of sample_cr then Inr sample_cr else Inl NotFound), k8s_List = (\<lambda>w. Inr [sample_cr]),
      k8s_Update = (\<lambda>cr w. (Inr cr, w\<lparr>sys_log := sys_log w @ [[''update'', iu_Name cr]]\<rparr>)),
      k8s_StatusUpdate = (\<lambda>cr w. (Inr cr, w\<lparr>sys_log := sys_log w @ [[''status'', iu_Name cr]]\<rparr>)),
      SetStatusCondition = (\<lambda>c cs. cs @ [c]), RetryOnConflict = (\<lambda>f. f)\<rparr>"

definition sample_ctl :: "(unit, string, string, string, sys) ctl_env" where
  "sample_ctl =
     \<lparr>ctl_Client = Some sample_k8s, ctl_metrics = None, ctl_select = sample_env, ctl_list_apps = (\<lambda>_ _. Inr [sample_app]),
      ctl_update = sample_conf False, ctl_app_order = (\<lambda>xs. xs), ctl_cr_order = (\<lambda>xs. xs), ctl_Acquire = (\<lambda>_. True), ctl_now = (\<lambda>_. 7)\<rparr>"

definition sample_run_config :: "int \<Rightarrow> ImageUpdaterConfig" where
  "sample_run_config interval =
     \<lparr>cf_DryRun = False, cf_CheckInterval = interval, cf_KubeClient = Some sample_kube_client, cf_GitCommitUser = [], cf_GitCommitMail = [],
      cf_GitCommitMessage = None, cf_GitCommitSigningKey = [], cf_GitCommitSigningMethod = [], cf_GitCommitSignOff = False,
      cf_GitCommitMethod = [], cf_DisableKubeEvents = False, cf_EnableCRMetrics = False\<rparr>"

definition sample_reconciler :: "(unit, unit, sys) reconciler" where
  "sample_reconciler = \<lparr>rs_onceCompleted = [], rs_Wg = 0, rs_regs = sample_regs, rs_world = empty_sys\<rparr>"

text \<open>The outcome of a run, and of a request, as values that can be computed.\<close>

definition run_summary ::
  "((ImageUpdaterResult \<times> filter_error option) \<times> (unit, unit) reg_state \<times> sys) go \<Rightarrow> (bool \<times> nat \<times> nat \<times> (string \<times> string) list) option" where
  "run_summary r = (case r of Panic \<Rightarrow> None
     | Ret ((res, err), reg, w) \<Rightarrow> Some (err = None, NumErrors res, NumImagesUpdated res, map change_key (Changes res)))"

definition request_summary :: "((int \<times> k8s_error option) \<times> (unit, unit, sys) reconciler) go \<Rightarrow> (int \<times> bool \<times> int \<times> nat) option" where
  "request_summary r = (case r of Panic \<Rightarrow> None
     | Ret ((after, err), st) \<Rightarrow> Some (after, err = None, rs_Wg st, length (sys_log (rs_world st))))"

lemma sample_run:
  obtains res reg w where "RunImageUpdater sample_ctl (sample_run_config 60) sample_cr False None sample_regs empty_sys = Ret ((res, None), reg, w)"
    "NumErrors res = 0" "NumImagesUpdated res = 1" "map change_key (Changes res) = [(''web'', ''1.1'')]"
proof -
  have "run_summary (RunImageUpdater sample_ctl (sample_run_config 60) sample_cr False None sample_regs empty_sys) =
    Some (True, 0, 1, [(''web'', ''1.1'')])" by code_simp
  with that show thesis by (auto simp: run_summary_def split: go.split_asm)
qed

theorem run_totals_witness:
  "\<exists>res reg w. RunImageUpdater sample_ctl (sample_run_config 60) sample_cr False None sample_regs empty_sys = Ret ((res, None), reg, w) \<and>
     ApplicationsMatched res = NumApplicationsProcessed res \<and> length (Changes res) = 1"
proof -
  obtain res reg w where
    run: "RunImageUpdater sample_ctl (sample_run_config 60) sample_cr False None sample_regs empty_sys = Ret ((res, None), reg, w)"
    and res: "NumErrors res = 0" "NumImagesUpdated res = 1" by (rule sample_run)
  have "\<forall>app. ctl_Acquire sample_ctl app" "\<forall>xs. mset (ctl_app_order sample_ctl xs) = mset xs" by (simp_all add: sample_ctl_def)
  from run_totals [OF run this] res run show ?thesis by auto
qed

theorem recent_updates_account_witness:
  "\<exists>res reg w us. RunImageUpdater sample_ctl (sample_run_config 60) sample_cr False None sample_regs empty_sys = Ret ((res, None), reg, w) \<and>
     buildRecentUpdates (Changes res) 7 = Ret us \<and> set (map update_key us) = {(''web'', ''1.1'')}"
proof -
  obtain res reg w where
    run: "RunImageUpdater sample_ctl (sample_run_config 60) sample_cr False None sample_regs empty_sys = Ret ((res, None), reg, w)"
    and res: "map change_key (Changes res) = [(''web'', ''1.1'')]" by (rule sample_run)
  from recent_updates_account [OF run, of 7] obtain us where
    us: "buildRecentUpdates (Changes res) 7 = Ret us" "set (map update_key us) = {(''web'', ''1.1'')}"
    unfolding res by auto
  with run us show ?thesis by blast
qed

theorem warm_up_changes_nothing_witness:
  "\<exists>out st. CacheWarmer_Start sample_ctl (sample_run_config 0) sample_k8s True sample_reconciler = Ret (out, st) \<and>
     rs_world st = empty_sys \<and> rs_Wg st = 1"
proof -
  have "(case CacheWarmer_Start sample_ctl (sample_run_config 0) sample_k8s True sample_reconciler of Panic \<Rightarrow> False | _ \<Rightarrow> True)" by code_simp
  then obtain out st where run: "CacheWarmer_Start sample_ctl (sample_run_config 0) sample_k8s True sample_reconciler = Ret (out, st)"
    by (auto split: go.split_asm)
  from warm_up_changes_nothing [OF run] run show ?thesis by (simp add: sample_reconciler_def sample_k8s_def)
qed

theorem live_resource_requeued_witness:
  "\<exists>st. Reconcile sample_ctl (sample_run_config 60) True False (key_of sample_cr) sample_reconciler = Ret ((60, None), st)"
proof -
  have "request_summary (Reconcile sample_ctl (sample_run_config 60) True False (key_of sample_cr) sample_reconciler) = Some (60, True, 0, 4)"
    by code_simp
  then obtain after st where
    run: "Reconcile sample_ctl (sample_run_config 60) True False (key_of sample_cr) sample_reconciler = Ret ((after, None), st)" and "after > 0"
    by (auto simp: request_summary_def split: go.split_asm)
  moreover have "cf_CheckInterval (sample_run_config 60) > 0" by (simp add: sample_run_config_def)
  ultimately show ?thesis using live_resource_requeued [OF run] by (auto simp: sample_run_config_def)
qed


text \<open>
  The counts of the status are those of the last run, a run for a webhook event included: an event about another image resets them to zero,
  although the resource still matches its application.
\<close>

definition counts_after :: "WebhookEvent option \<Rightarrow> (int \<times> int) option" where
  "counts_after event =
     (case RunImageUpdater sample_ctl (sample_run_config 60) sample_cr False event sample_regs empty_sys of
        Ret ((res, None), _) \<Rightarrow>
          (case reconciled sample_k8s res None 7 sample_cr of
             Ret cr \<Rightarrow> Some (ss_ApplicationsMatched (iu_Status cr), ss_ImagesManaged (iu_Status cr)) | Panic \<Rightarrow> None)
      | _ \<Rightarrow> None)"

theorem webhook_run_resets_counts:
  "counts_after None = Some (1, 1) \<and> counts_after (Some \<lparr>we_RegistryURL = [], we_Repository = ''org/other'', we_Tag = ''2.0'', we_Digest = []\<rparr>) = Some (0, 0)"
  by code_simp

end
