(* ===== verification/Startup.thy ===== *)
theory Startup
  imports Controller
begin

text \<open>
  Starting the program (\<open>cmd/run.go\<close>, \<open>cmd/common.go\<close>, \<open>cmd/webhook.go\<close>): the flags with their defaults from the environment, the common
  set-up, and what the commands \<open>run\<close> and \<open>webhook\<close> hand to the manager and to the webhook server.  The flag parser, the manager, the Kubernetes
  client and the askpass server are parameters; logging is left out.
\<close>

section \<open>Flags\<close>

record run_config = ImageUpdaterConfig +
  cf_LogLevel :: string
  cf_LogFormat :: string
  cf_RegistriesConf :: string
  cf_MaxConcurrentApps :: int
  cf_ArgocdNamespace :: string
  cf_WatchNamespaces :: string
  cf_EnableWebhook :: bool
  cf_Namespace :: string

record run_flags =
  rf_metricsAddr :: string
  rf_probeAddr :: string
  rf_secureMetrics :: bool
  rf_enableHTTP2 :: bool
  rf_enableLeaderElection :: bool
  rf_leaderElectionNamespace :: string
  rf_cfg :: run_config
  rf_webhookCfg :: WebhookConfig
  rf_once :: bool
  rf_kubeConfig :: string
  rf_warmUpCache :: bool
  rf_commitMessagePath :: string
  rf_MaxConcurrentReconciles :: int

definition second :: int where
  "second = 1000000000"

definition DefaultRegistriesConfPath :: string where
  "DefaultRegistriesConfPath = ''/app/config/registries.conf''"

definition DefaultCommitTemplatePath :: string where
  "DefaultCommitTemplatePath = ''/app/config/commit.template''"

text \<open>The configuration of the command \<open>run\<close> before the flags are parsed.\<close>

definition config_defaults :: "(string \<Rightarrow> int option) \<Rightarrow> getenv \<Rightarrow> run_config" where
  "config_defaults parseDur getEnv =
     \<lparr>cf_DryRun = False, cf_CheckInterval = GetDurationVal parseDur getEnv ''IMAGE_UPDATER_INTERVAL'' (2 * 60 * second),
      cf_KubeClient = None, cf_GitCommitUser = GetStringVal getEnv ''GIT_COMMIT_USER'' ''argocd-image-updater'',
      cf_GitCommitMail = GetStringVal getEnv ''GIT_COMMIT_EMAIL'' ''noreply@argoproj.io'', cf_GitCommitMessage = None,
      cf_GitCommitSigningKey = GetStringVal getEnv ''GIT_COMMIT_SIGNING_KEY'' [],
      cf_GitCommitSigningMethod = GetStringVal getEnv ''GIT_COMMIT_SIGNING_METHOD'' ''openpgp'',
      cf_GitCommitSignOff = GetBoolVal getEnv ''GIT_COMMIT_SIGN_OFF'' False,
      cf_GitCommitMethod = GetStringVal getEnv ''GIT_COMMIT_METHOD'' ''git'',
      cf_DisableKubeEvents = GetBoolVal getEnv ''IMAGE_UPDATER_KUBE_EVENTS'' False, cf_EnableCRMetrics = False,
      cf_LogLevel = GetStringVal getEnv ''IMAGE_UPDATER_LOGLEVEL'' ''info'',
      cf_LogFormat = GetStringVal getEnv ''IMAGE_UPDATER_LOGFORMAT'' ''text'',
      cf_RegistriesConf = DefaultRegistriesConfPath, cf_MaxConcurrentApps = ParseNumFromEnv getEnv ''MAX_CONCURRENT_APPS'' 10 1 100,
      cf_ArgocdNamespace = GetStringVal getEnv ''ARGOCD_NAMESPACE'' [],
      cf_WatchNamespaces = GetStringVal getEnv ''IMAGE_UPDATER_WATCH_NAMESPACES'' [],
      cf_EnableWebhook = GetBoolVal getEnv ''ENABLE_WEBHOOK'' False, cf_Namespace = []\<rparr>"

definition webhook_defaults :: "getenv \<Rightarrow> int \<Rightarrow> WebhookConfig" where
  "webhook_defaults getEnv port =
     \<lparr>RequireSecret = GetBoolVal getEnv ''WEBHOOK_REQUIRE_SECRET'' True, Port = ParseNumFromEnv getEnv ''WEBHOOK_PORT'' port 0 65535,
      EnableHTTP2 = False, DockerSecret = GetStringVal getEnv ''DOCKER_WEBHOOK_SECRET'' [],
      GHCRSecret = GetStringVal getEnv ''GHCR_WEBHOOK_SECRET'' [], QuaySecret = GetStringVal getEnv ''QUAY_WEBHOOK_SECRET'' [],
      HarborSecret = GetStringVal getEnv ''HARBOR_WEBHOOK_SECRET'' [], AliyunACRSecret = GetStringVal getEnv ''ALIYUN_ACR_WEBHOOK_SECRET'' [],
      ACRSecret = GetStringVal getEnv ''ACR_WEBHOOK_SECRET'' [], CloudEventsSecret = GetStringVal getEnv ''CLOUDEVENTS_WEBHOOK_SECRET'' [],
      RateLimitNumAllowedRequests = ParseNumFromEnv getEnv ''WEBHOOK_RATELIMIT_ALLOWED'' 0 0 9223372036854775807,
      DisableTLS = GetBoolVal getEnv ''DISABLE_TLS'' False, TLSMinVersion = GetStringVal getEnv ''TLS_MIN_VERSION'' ''1.3'',
      TLSMaxVersion = GetStringVal getEnv ''TLS_MAX_VERSION'' ''1.3'', TLSCiphers = GetStringVal getEnv ''TLS_CIPHERS'' []\<rparr>"

definition flag_defaults :: "(string \<Rightarrow> int option) \<Rightarrow> getenv \<Rightarrow> run_flags" where
  "flag_defaults parseDur getEnv =
     \<lparr>rf_metricsAddr = ''0'', rf_probeAddr = '':8081'', rf_secureMetrics = True, rf_enableHTTP2 = False, rf_enableLeaderElection = True,
      rf_leaderElectionNamespace = [], rf_cfg = config_defaults parseDur getEnv, rf_webhookCfg = webhook_defaults getEnv 8082,
      rf_once = False, rf_kubeConfig = [], rf_warmUpCache = True, rf_commitMessagePath = DefaultCommitTemplatePath,
      rf_MaxConcurrentReconciles = ParseNumFromEnv getEnv ''MAX_CONCURRENT_RECONCILES'' 1 1 10\<rparr>"

definition webhook_flag_defaults :: "(string \<Rightarrow> int option) \<Rightarrow> getenv \<Rightarrow> run_flags" where
  "webhook_flag_defaults parseDur getEnv =
     (flag_defaults parseDur getEnv)
       \<lparr>rf_cfg := (config_defaults parseDur getEnv)
          \<lparr>cf_CheckInterval := 0, cf_LogFormat := [], cf_WatchNamespaces := [], cf_EnableWebhook := False\<rparr>,
        rf_webhookCfg := webhook_defaults getEnv 8080,
        rf_MaxConcurrentReconciles := ParseNumFromEnv getEnv ''MAX_CONCURRENT_UPDATERS'' 1 1 10\<rparr>"

section \<open>The common set-up\<close>

datatype file_result = FileText string | FileMissing | FileFailed string

datatype start_error = StartError string | RegistryError config_error

text \<open>The parts of the surroundings; a check by \<open>os.Stat\<close> says whether a path is a directory.\<close>

datatype runnable = WarmerRunnable | WebhookRunnable WebhookConfig

record start_lib =
  sl_Getenv :: getenv
  sl_ReadFile :: "string \<Rightarrow> file_result"
  sl_Stat :: "string \<Rightarrow> bool option"
  sl_ParseLevel :: "string \<Rightarrow> string option"
  sl_ParseTemplate :: "string \<Rightarrow> string + message_template"
  sl_GetKubeConfig :: "string \<Rightarrow> string \<Rightarrow> string + (kube_client \<times> string)"
  sl_askpass :: "string option"
  sl_NewManager :: "string option"
  sl_Add :: "runnable \<Rightarrow> string option"
  sl_SetupWithManager :: "string option"
  sl_AddHealthzCheck :: "string option"
  sl_AddReadyzCheck :: "string option"

definition DefaultGitCommitMessage :: string where
  "DefaultGitCommitMessage =
     ''build: automatic update of {{ .AppName }}'' @ [CHR 0x0A, CHR 0x0A] @ ''{{ range .AppChanges -}}'' @ [CHR 0x0A] @
     ''updates image {{ .Image }} tag '' @ [CHR 0x27] @ ''{{ .OldTag }}'' @ [CHR 0x27] @ '' to '' @ [CHR 0x27] @ ''{{ .NewTag }}'' @ [CHR 0x27, CHR 0x0A] @
     ''{{ end -}}'' @ [CHR 0x0A]"

definition commit_template :: "start_lib \<Rightarrow> string \<Rightarrow> start_error + string" where
  "commit_template lib commitMessagePath =
     (case (if commitMessagePath = [] then FileText [] else sl_ReadFile lib commitMessagePath) of
        FileFailed err \<Rightarrow> Inl (StartError err)
      | FileMissing \<Rightarrow> Inr DefaultGitCommitMessage
      | FileText tpl \<Rightarrow> Inr (if tpl = [] then DefaultGitCommitMessage else tpl))"

text \<open>A configuration of registries that is missing or a directory is not an error.\<close>

definition load_registries ::
  "start_lib \<Rightarrow> ('t, transport) gocache_lib \<Rightarrow> config_env \<Rightarrow> 's \<Rightarrow> string \<Rightarrow> ('s, 't) reg_state \<Rightarrow> (('s, 't) reg_state \<times> config_error option) go" where
  "load_registries lib tlib env newCache path st =
     (if path = [] \<or> sl_Stat lib path \<noteq> Some False then Ret (st, None) else LoadRegistryConfiguration tlib env newCache path False st)"

definition SetupCommon ::
  "start_lib \<Rightarrow> ('t, transport) gocache_lib \<Rightarrow> config_env \<Rightarrow> 's \<Rightarrow> string \<Rightarrow> string \<Rightarrow> run_config \<Rightarrow> ('s, 't) reg_state \<Rightarrow>
   (start_error option \<times> run_config \<times> ('s, 't) reg_state) go" where
  "SetupCommon lib tlib env newCache commitMessagePath kubeConfig cfg st =
     (case commit_template lib commitMessagePath of
        Inl err \<Rightarrow> Ret (Some err, cfg, st)
      | Inr commitMessageTpl \<Rightarrow>
          (case sl_ParseTemplate lib commitMessageTpl of
             Inl err \<Rightarrow> Ret (Some (StartError err), cfg, st)
           | Inr tpl \<Rightarrow>
               (let cfg = cfg\<lparr>cf_GitCommitMessage := Some tpl\<rparr>
                in go_bind (load_registries lib tlib env newCache (cf_RegistriesConf cfg) st) (\<lambda>(st, err). case err of
                     Some e \<Rightarrow> Ret (Some (RegistryError e), cfg, st)
                   | None \<Rightarrow>
                       (case sl_GetKubeConfig lib (cf_ArgocdNamespace cfg) kubeConfig of
                          Inl err \<Rightarrow> Ret (Some (StartError err), cfg\<lparr>cf_KubeClient := None\<rparr>, st)
                        | Inr (kubeClient, namespace) \<Rightarrow>
                            Ret (map_option StartError (sl_askpass lib), cfg\<lparr>cf_KubeClient := Some kubeClient, cf_Namespace := namespace\<rparr>, st))))))"

section \<open>Namespaces to watch\<close>

definition controllerNamespace :: "start_lib \<Rightarrow> run_config \<Rightarrow> string" where
  "controllerNamespace lib cfg =
     (if sl_Getenv lib ''POD_NAMESPACE'' \<noteq> [] then sl_Getenv lib ''POD_NAMESPACE''
      else case sl_ReadFile lib ''/var/run/secrets/kubernetes.io/serviceaccount/namespace'' of
             FileText t \<Rightarrow> if strings_TrimSpace t \<noteq> [] then strings_TrimSpace t else cf_Namespace cfg
           | _ \<Rightarrow> cf_Namespace cfg)"

text \<open>The keys of \<open>DefaultNamespaces\<close>; an empty map leaves the cache without a restriction.\<close>

definition getCacheOptions :: "start_lib \<Rightarrow> run_config \<Rightarrow> start_error + string list" where
  "getCacheOptions lib cfg =
     (let watchNamespaces = strings_TrimSpace (cf_WatchNamespaces cfg) in
      if watchNamespaces = [] then Inr [controllerNamespace lib cfg]
      else if watchNamespaces = ''*'' then Inr []
      else
        (let nsMap = remdups (filter (\<lambda>ns. ns \<noteq> []) (map strings_TrimSpace (strings_Split watchNamespaces CHR '','')))
         in if nsMap = [] then Inl (StartError ''--watch-namespaces flag provided but no valid namespaces specified'') else Inr nsMap))"

section \<open>The command \<open>run\<close>\<close>

definition log_level_ok :: "string \<Rightarrow> bool" where
  "log_level_ok logLevel = (strings_ToLower logLevel \<in> set [''trace'', ''debug'', ''info'', ''warn'', ''error''])"

text \<open>
  What the manager is started with: \<open>mp_warmed\<close> says that the channel \<open>CacheWarmed\<close> is already closed and the readiness state set.
\<close>

record manager_plan =
  mp_metricsAddr :: string
  mp_secureMetrics :: bool
  mp_authMetrics :: bool
  mp_http1Only :: bool
  mp_probeAddr :: string
  mp_leaderElection :: bool
  mp_leaderElectionNamespace :: string
  mp_namespaces :: "string list"
  mp_cfg :: run_config
  mp_once :: bool
  mp_warmed :: bool
  mp_MaxConcurrentReconciles :: int
  mp_runnables :: "runnable list"

definition once_flags :: "run_flags \<Rightarrow> run_flags" where
  "once_flags f =
     (if rf_once f then f\<lparr>rf_cfg := (rf_cfg f)\<lparr>cf_CheckInterval := 0\<rparr>, rf_probeAddr := ''0'', rf_warmUpCache := True\<rparr> else f)"

definition invalid_commit_method :: "string \<Rightarrow> start_error" where
  "invalid_commit_method m = StartError (''invalid value '' @ m @ '' for --git-commit-method: must be git or api'')"

text \<open>Adding the runnables in order; the first one that is refused ends the command.\<close>

fun add_all :: "start_lib \<Rightarrow> runnable list \<Rightarrow> start_error option" where
  "add_all lib [] = None"
| "add_all lib (r # rs) = (case sl_Add lib r of Some err \<Rightarrow> Some (StartError err) | None \<Rightarrow> add_all lib rs)"

definition plan_runnables :: "run_flags \<Rightarrow> run_config \<Rightarrow> runnable list" where
  "plan_runnables f cfg =
     (if rf_warmUpCache f then [WarmerRunnable] else []) @
     (if cf_EnableWebhook cfg \<and> Port (rf_webhookCfg f) > 0 then [WebhookRunnable ((rf_webhookCfg f)\<lparr>EnableHTTP2 := rf_enableHTTP2 f\<rparr>)] else [])"

definition start_plan :: "start_lib \<Rightarrow> run_flags \<Rightarrow> run_config \<Rightarrow> start_error + manager_plan" where
  "start_plan lib f cfg =
     (case getCacheOptions lib cfg of
        Inl err \<Rightarrow> Inl err
      | Inr namespaces \<Rightarrow>
          (case sl_NewManager lib of
             Some err \<Rightarrow> Inl (StartError err)
           | None \<Rightarrow>
               (let cfg = cfg\<lparr>cf_EnableCRMetrics := True\<rparr> in
                case add_all lib (plan_runnables f cfg) of
                  Some err \<Rightarrow> Inl err
                | None \<Rightarrow>
                    (case List.find (\<lambda>r. r \<noteq> None) [sl_SetupWithManager lib, sl_AddHealthzCheck lib, sl_AddReadyzCheck lib] of
                       Some (Some err) \<Rightarrow> Inl (StartError err)
                     | _ \<Rightarrow>
                         Inr \<lparr>mp_metricsAddr = rf_metricsAddr f, mp_secureMetrics = rf_secureMetrics f, mp_authMetrics = rf_secureMetrics f,
                              mp_http1Only = (\<not> rf_enableHTTP2 f), mp_probeAddr = rf_probeAddr f, mp_leaderElection = rf_enableLeaderElection f,
                              mp_leaderElectionNamespace = rf_leaderElectionNamespace f, mp_namespaces = namespaces, mp_cfg = cfg,
                              mp_once = rf_once f, mp_warmed = (\<not> rf_warmUpCache f), mp_MaxConcurrentReconciles = rf_MaxConcurrentReconciles f,
                              mp_runnables = plan_runnables f cfg\<rparr>))))"

definition RunE ::
  "start_lib \<Rightarrow> ('t, transport) gocache_lib \<Rightarrow> config_env \<Rightarrow> 's \<Rightarrow> run_flags \<Rightarrow> ('s, 't) reg_state \<Rightarrow>
   ((start_error + manager_plan) \<times> ('s, 't) reg_state) go" where
  "RunE lib tlib env newCache flags st =
     (let f = once_flags flags; cfg = rf_cfg f in
      if \<not> IsValidGitCommitMethod (cf_GitCommitMethod cfg) then Ret (Inl (invalid_commit_method (cf_GitCommitMethod cfg)), st)
      else
        (case sl_ParseLevel lib (cf_LogLevel cfg) of
           Some err \<Rightarrow> Ret (Inl (StartError err), st)
         | None \<Rightarrow>
             if \<not> log_level_ok (cf_LogLevel cfg) then Ret (Inl (StartError (''invalid loglevel: '' @ cf_LogLevel cfg)), st)
             else if cf_LogFormat cfg \<noteq> ''text'' \<and> cf_LogFormat cfg \<noteq> ''json'' then Ret (Inl (StartError ''invalid log format''), st)
             else
               go_bind (SetupCommon lib tlib env newCache (rf_commitMessagePath f) (rf_kubeConfig f) cfg st) (\<lambda>(err, cfg, st).
                 case err of Some e \<Rightarrow> Ret (Inl e, st) | None \<Rightarrow> Ret (start_plan lib f cfg, st))))"

text \<open>The readiness check of the manager.\<close>

definition ready :: "bool \<Rightarrow> bool \<Rightarrow> bool" where
  "ready isLeader isCacheWarmed = (\<not> (isLeader \<and> \<not> isCacheWarmed))"

section \<open>The command \<open>webhook\<close>\<close>

text \<open>The reconciler of this command has no metrics for resources; the server is started at once.\<close>

definition webhook_RunE ::
  "start_lib \<Rightarrow> ('t, transport) gocache_lib \<Rightarrow> config_env \<Rightarrow> 's \<Rightarrow> run_flags \<Rightarrow> ('s, 't) reg_state \<Rightarrow>
   ((start_error + run_config \<times> WebhookServer) \<times> ('s, 't) reg_state) go" where
  "webhook_RunE lib tlib env newCache f st =
     (let cfg = rf_cfg f in
      if \<not> IsValidGitCommitMethod (cf_GitCommitMethod cfg) then Ret (Inl (invalid_commit_method (cf_GitCommitMethod cfg)), st)
      else if \<not> log_level_ok (cf_LogLevel cfg) then Ret (Inl (StartError (''invalid loglevel: '' @ cf_LogLevel cfg)), st)
      else
        go_bind (SetupCommon lib tlib env newCache (rf_commitMessagePath f) (rf_kubeConfig f) cfg st) (\<lambda>(err, cfg, st).
          case err of
            Some e \<Rightarrow> Ret (Inl e, st)
          | None \<Rightarrow>
              (case sl_NewManager lib of
                 Some err \<Rightarrow> Ret (Inl (StartError err), st)
               | None \<Rightarrow> Ret (Inr (cfg\<lparr>cf_EnableCRMetrics := False\<rparr>, SetupWebhookServer (rf_webhookCfg f)), st))))"

section \<open>What is started\<close>

lemma RunE_plan:
  assumes "RunE lib tlib env nc flags st = Ret (Inr plan, st')"
  obtains cfg where "start_plan lib (once_flags flags) cfg = Inr plan" "cf_CheckInterval cfg = cf_CheckInterval (rf_cfg (once_flags flags))"
    "cf_EnableWebhook cfg = cf_EnableWebhook (rf_cfg flags)" "cf_WatchNamespaces cfg = cf_WatchNamespaces (rf_cfg flags)"
    "cf_DryRun cfg = cf_DryRun (rf_cfg flags)" "cf_KubeClient cfg \<noteq> None" "cf_GitCommitMessage cfg \<noteq> None"
proof -
  have once: "cf_EnableWebhook (rf_cfg (once_flags flags)) = cf_EnableWebhook (rf_cfg flags)"
    "cf_WatchNamespaces (rf_cfg (once_flags flags)) = cf_WatchNamespaces (rf_cfg flags)"
    "cf_DryRun (rf_cfg (once_flags flags)) = cf_DryRun (rf_cfg flags)" by (simp_all add: once_flags_def)
  from assms show thesis
    unfolding RunE_def Let_def SetupCommon_def
    by (auto simp: once elim!: go_bindE split: if_split_asm option.split_asm sum.split_asm prod.split_asm intro!: that)
qed

text \<open>
  What the command \<open>run\<close> starts.  The reconciler is released exactly once: either the channel is closed from the start or the cache warmer,
  which closes it, is added, never both.  With \<open>--once\<close> the warmer is always there, the interval is zero and probes are off.  The webhook
  server is added exactly when it is enabled and has a port, metrics are served with authentication whenever they are served
  securely, and every run has a Kubernetes client and a commit message template.
\<close>

theorem run_plan:
  assumes "RunE lib tlib env nc flags st = Ret (Inr plan, st')"
  shows "mp_warmed plan = (WarmerRunnable \<notin> set (mp_runnables plan)) \<and> distinct (mp_runnables plan) \<and>
    (rf_once flags \<longrightarrow> mp_once plan \<and> WarmerRunnable \<in> set (mp_runnables plan) \<and> cf_CheckInterval (mp_cfg plan) = 0 \<and> mp_probeAddr plan = ''0'') \<and>
    (\<forall>w. WebhookRunnable w \<in> set (mp_runnables plan) \<longleftrightarrow>
       cf_EnableWebhook (rf_cfg flags) \<and> Port (rf_webhookCfg flags) > 0 \<and> w = (rf_webhookCfg flags)\<lparr>EnableHTTP2 := rf_enableHTTP2 flags\<rparr>) \<and>
    mp_authMetrics plan = mp_secureMetrics plan \<and> cf_EnableCRMetrics (mp_cfg plan) \<and> cf_DryRun (mp_cfg plan) = cf_DryRun (rf_cfg flags) \<and>
    cf_KubeClient (mp_cfg plan) \<noteq> None \<and> cf_GitCommitMessage (mp_cfg plan) \<noteq> None"
proof -
  from assms obtain cfg where plan: "start_plan lib (once_flags flags) cfg = Inr plan"
    and cfg: "cf_CheckInterval cfg = cf_CheckInterval (rf_cfg (once_flags flags))" "cf_EnableWebhook cfg = cf_EnableWebhook (rf_cfg flags)"
      "cf_DryRun cfg = cf_DryRun (rf_cfg flags)" "cf_KubeClient cfg \<noteq> None" "cf_GitCommitMessage cfg \<noteq> None"
    by (rule RunE_plan)
  from plan have eq: "mp_runnables plan = plan_runnables (once_flags flags) (cfg\<lparr>cf_EnableCRMetrics := True\<rparr>)"
    "mp_warmed plan = (\<not> rf_warmUpCache (once_flags flags))" "mp_once plan = rf_once (once_flags flags)" "mp_cfg plan = cfg\<lparr>cf_EnableCRMetrics := True\<rparr>"
    "mp_probeAddr plan = rf_probeAddr (once_flags flags)" "mp_authMetrics plan = mp_secureMetrics plan"
    by (auto simp: start_plan_def Let_def split: sum.split_asm option.split_asm)
  show ?thesis using cfg by (auto simp: eq plan_runnables_def once_flags_def)
qed

section \<open>The scope of the cache\<close>

text \<open>A cache without namespaces, and one for the namespace with the empty name, watches all namespaces.\<close>

definition cluster_wide :: "string list \<Rightarrow> bool" where
  "cluster_wide nss \<longleftrightarrow> nss = [] \<or> [] \<in> set nss"

text \<open>
  All namespaces are watched only on request: when the flag is \<open>*\<close>, or when the flag is blank and the controller's own namespace cannot be
  found.  Otherwise the namespaces are the own one, or exactly those that the flag lists, without blanks and without duplicates.
\<close>

theorem cluster_wide_only_on_request:
  assumes "getCacheOptions lib cfg = Inr nss"
  shows "(cluster_wide nss \<longleftrightarrow> strings_TrimSpace (cf_WatchNamespaces cfg) = ''*'' \<or>
      strings_TrimSpace (cf_WatchNamespaces cfg) = [] \<and> controllerNamespace lib cfg = []) \<and> distinct nss \<and>
    (strings_TrimSpace (cf_WatchNamespaces cfg) \<noteq> ''*'' \<longrightarrow> set nss =
       (if strings_TrimSpace (cf_WatchNamespaces cfg) = [] then {controllerNamespace lib cfg}
        else strings_TrimSpace ` set (strings_Split (strings_TrimSpace (cf_WatchNamespaces cfg)) CHR '','') - {[]}))"
  using assms by (auto simp: getCacheOptions_def cluster_wide_def Let_def split: if_split_asm)

text \<open>Without any of its sources the own namespace is empty, and the default scope becomes all namespaces.\<close>

theorem unresolved_namespace_watches_all:
  assumes "sl_Getenv lib ''POD_NAMESPACE'' = []" "sl_ReadFile lib ''/var/run/secrets/kubernetes.io/serviceaccount/namespace'' = FileMissing"
    and "cf_Namespace cfg = []" "cf_WatchNamespaces cfg = []"
  shows "getCacheOptions lib cfg = Inr [[]]" "cluster_wide [[]]"
proof -
  have "strings_TrimSpace [] = []" by code_simp
  with assms show "getCacheOptions lib cfg = Inr [[]]" by (simp add: getCacheOptions_def controllerNamespace_def)
qed (simp add: cluster_wide_def)

section \<open>Defaults\<close>

text \<open>
  The program is secure by default.  With an empty environment and no flags the webhook server wants a secret for every registry, serves with TLS of
  the newest version only, metrics are off and would be served securely, there is only one leader, and no dry run; numbers from the
  environment are used only within their bounds.
\<close>

theorem secure_defaults:
  assumes "\<forall>v. getEnv v = []"
  shows "(let f = flag_defaults parseDur getEnv; w = rf_webhookCfg f in
      RequireSecret w \<and> setup_handlers w = [] \<and> \<not> DisableTLS w \<and> TLSMinVersion w = ''1.3'' \<and> TLSMaxVersion w = ''1.3'' \<and> \<not> EnableHTTP2 w \<and>
      \<not> cf_EnableWebhook (rf_cfg f) \<and> rf_metricsAddr f = ''0'' \<and> rf_secureMetrics f \<and> rf_enableLeaderElection f \<and>
      \<not> cf_DryRun (rf_cfg f) \<and> cf_CheckInterval (rf_cfg f) = 120 * second)"
  using assms
  by (simp add: flag_defaults_def webhook_defaults_def config_defaults_def GetBoolVal_def GetStringVal_def GetDurationVal_def setup_handlers_def
      configured_handlers_def NewWebhookHandler_def Let_def)

lemma ParseNumFromEnv_bounds: "minv \<le> d \<Longrightarrow> d \<le> maxv \<Longrightarrow> minv \<le> ParseNumFromEnv getEnv v d minv maxv \<and> ParseNumFromEnv getEnv v d minv maxv \<le> maxv"
  by (auto simp: ParseNumFromEnv_def Let_def split: option.split)

theorem default_numbers_in_bounds:
  "let f = flag_defaults parseDur getEnv in
     1 \<le> cf_MaxConcurrentApps (rf_cfg f) \<and> cf_MaxConcurrentApps (rf_cfg f) \<le> 100 \<and>
     1 \<le> rf_MaxConcurrentReconciles f \<and> rf_MaxConcurrentReconciles f \<le> 10 \<and>
     0 \<le> Port (rf_webhookCfg f) \<and> Port (rf_webhookCfg f) \<le> 65535 \<and> 0 \<le> RateLimitNumAllowedRequests (rf_webhookCfg f)"
  using ParseNumFromEnv_bounds [of 1 10 100 getEnv "''MAX_CONCURRENT_APPS''"] ParseNumFromEnv_bounds [of 1 1 10 getEnv "''MAX_CONCURRENT_RECONCILES''"]
    ParseNumFromEnv_bounds [of 0 8082 65535 getEnv "''WEBHOOK_PORT''"]
    ParseNumFromEnv_bounds [of 0 0 9223372036854775807 getEnv "''WEBHOOK_RATELIMIT_ALLOWED''"]
  by (simp add: flag_defaults_def config_defaults_def webhook_defaults_def Let_def)

text \<open>The variable \<open>IMAGE_UPDATER_KUBE_EVENTS\<close> is the default of the flag that switches events off.\<close>

theorem kube_events_inverted:
  "cf_DisableKubeEvents (rf_cfg (flag_defaults parseDur (\<lambda>v. if v = ''IMAGE_UPDATER_KUBE_EVENTS'' then ''true'' else []))) = True"
proof -
  have "GetBoolVal (\<lambda>v. if v = ''IMAGE_UPDATER_KUBE_EVENTS'' then ''true'' else []) ''IMAGE_UPDATER_KUBE_EVENTS'' False = True" by code_simp
  then show ?thesis by (simp add: flag_defaults_def config_defaults_def)
qed

section \<open>A concrete start\<close>

definition sample_start :: start_lib where
  "sample_start =
     \<lparr>sl_Getenv = (\<lambda>v. if v = ''POD_NAMESPACE'' then ''updater'' else []), sl_ReadFile = (\<lambda>_. FileMissing), sl_Stat = (\<lambda>_. None),
      sl_ParseLevel = (\<lambda>_. None), sl_ParseTemplate = (\<lambda>_. Inr (\<lambda>_ _. Some ''update'')), sl_GetKubeConfig = (\<lambda>ns kc. Inr (\<lambda>_ _. Inl ''none'', ''argocd'')),
      sl_askpass = None, sl_NewManager = None, sl_Add = (\<lambda>_. None), sl_SetupWithManager = None, sl_AddHealthzCheck = None, sl_AddReadyzCheck = None\<rparr>"

definition sample_flags :: run_flags where
  "sample_flags = (flag_defaults (\<lambda>_. None) (\<lambda>_. []))\<lparr>rf_once := True, rf_warmUpCache := False\<rparr>"

lemma sample_RunE:
  "\<exists>plan st'. RunE sample_start list_store sample_config_env () sample_flags (initial_state list_store ()) = Ret (Inr plan, st')"
proof -
  have "case RunE sample_start list_store sample_config_env () sample_flags (initial_state list_store ()) of Ret (Inr _, _) \<Rightarrow> True | _ \<Rightarrow> False"
    by code_simp
  then show ?thesis by (auto split: go.split_asm sum.split_asm prod.split_asm)
qed

theorem run_plan_witness:
  "\<exists>plan st'. RunE sample_start list_store sample_config_env () sample_flags (initial_state list_store ()) = Ret (Inr plan, st') \<and>
     rf_warmUpCache sample_flags = False \<and> WarmerRunnable \<in> set (mp_runnables plan) \<and> \<not> mp_warmed plan \<and> cf_CheckInterval (mp_cfg plan) = 0"
proof -
  from sample_RunE obtain plan st' where
    run: "RunE sample_start list_store sample_config_env () sample_flags (initial_state list_store ()) = Ret (Inr plan, st')" by blast
  have "rf_once sample_flags" "rf_warmUpCache sample_flags = False" by code_simp+
  with run run_plan [OF run] show ?thesis by blast
qed

theorem cluster_wide_only_on_request_witness:
  "\<not> cluster_wide [''team-a'', ''team-b''] \<and> distinct [''team-a'', ''team-b'']"
proof -
  let ?cfg = "(rf_cfg sample_flags)\<lparr>cf_WatchNamespaces := '' team-a, team-b,, ''\<rparr>"
  have get: "getCacheOptions sample_start ?cfg = Inr [''team-a'', ''team-b'']" by code_simp
  have "strings_TrimSpace (cf_WatchNamespaces ?cfg) \<noteq> ''*''" "strings_TrimSpace (cf_WatchNamespaces ?cfg) \<noteq> []" by code_simp+
  with cluster_wide_only_on_request [OF get] show ?thesis by blast
qed

theorem secure_defaults_witness:
  "RequireSecret (rf_webhookCfg (flag_defaults (\<lambda>_. None) (\<lambda>_. []))) \<and> \<not> DisableTLS (rf_webhookCfg (flag_defaults (\<lambda>_. None) (\<lambda>_. [])))"
proof -
  have "\<forall>v. (\<lambda>_ :: string. [] :: string) v = []" by simp
  from secure_defaults [OF this, of "\<lambda>_. None"] show ?thesis by (simp add: Let_def)
qed

end
