(* ===== verification/Commands.thy ===== *)
theory Commands
  imports Startup
begin

text \<open>
  The smaller commands (\<open>cmd/main.go\<close>, \<open>cmd/ask_pass.go\<close>, \<open>cmd/template.go\<close>, \<open>cmd/test.go\<close>): the helper that git starts to ask for a user name and
  a password, the rendering of a commit message, and the trial of an update for one image, which composes the registry scanner outside the
  controller.  The flag parser, the socket of the helper and the Kubernetes client are parameters; what is logged is left out.
\<close>

section \<open>The credential helper\<close>

record 'w askpass_lib =
  ap_Dial :: "string option"
  ap_GetCredentials :: "string \<Rightarrow> 'w \<Rightarrow> string + string \<times> string"

text \<open>\<open>errors.CheckError\<close> ends the process with an error.\<close>

datatype command_result = Printed string | Fatal string

definition AskPassCommand :: "'w askpass_lib \<Rightarrow> getenv \<Rightarrow> string list \<Rightarrow> 'w \<Rightarrow> command_result" where
  "AskPassCommand lib getEnv osArgs w =
     (if length osArgs \<noteq> 2 then Fatal ''expected 1 argument''
      else
        (let nonce = getEnv ASKPASS_NONCE_ENV
         in if nonce = [] then Fatal (ASKPASS_NONCE_ENV @ '' is not set'')
            else
              (case ap_Dial lib of
                 Some err \<Rightarrow> Fatal err
               | None \<Rightarrow>
                   (case ap_GetCredentials lib nonce w of
                      Inl err \<Rightarrow> Fatal err
                    | Inr (username, password) \<Rightarrow>
                        if strings_HasPrefix (osArgs ! 1) ''Username'' then Printed (username @ [CHR 0x0A])
                        else if strings_HasPrefix (osArgs ! 1) ''Password'' then Printed (password @ [CHR 0x0A])
                        else Fatal ''unknown credential type''))))"

text \<open>The name of the binary in the environment decides which program runs; the other one is the root command.\<close>

definition main_command :: "getenv \<Rightarrow> (getenv \<Rightarrow> 'r) \<Rightarrow> (getenv \<Rightarrow> 'r) \<Rightarrow> 'r" where
  "main_command getEnv askPass root =
     (if getEnv ''ARGOCD_BINARY_NAME'' = ''argocd-git-ask-pass'' then askPass getEnv else root getEnv)"

section \<open>The rendering of a commit message\<close>

text \<open>What is printed to standard output and to standard error.\<close>

definition template_changes :: "ref_parser \<Rightarrow> instant \<Rightarrow> ChangeEntry list" where
  "template_changes pn now =
     [\<lparr>ce_Image = NewFromIdentifier pn ''gcr.io/example/example:1.0.0'', ce_OldTag = NewImageTag ''1.0.0'' now [],
       ce_NewTag = Some (NewImageTag ''1.0.1'' now [])\<rparr>,
      \<lparr>ce_Image = NewFromIdentifier pn ''gcr.io/example/updater@sha256:f2ca1bb6c7e907d06dafe4687e579fce76b37e4e93b7605022da52e6ccc26fd2'',
       ce_OldTag = NewImageTag [] now ''sha256:01d09d19c2139a46aebfb577780d123d7396e97201bc7ead210a2ebff8239dee'',
       ce_NewTag = Some (NewImageTag [] now ''sha256:7aa7a5359173d05b63cfd682e3c38487f3cb4f7f1d60659fe59fab1505977d4c'')\<rparr>]"

definition template_command ::
  "(string \<Rightarrow> string + string) \<Rightarrow> (string \<Rightarrow> string + message_template) \<Rightarrow> ref_parser \<Rightarrow> instant \<Rightarrow> string list \<Rightarrow> (string \<times> string) go" where
  "template_command readFile parse pn now args =
     (case (if length args \<noteq> 1 then Inr DefaultGitCommitMessage else readFile (args ! 0)) of
        Inl err \<Rightarrow> Ret ([], err)
      | Inr tplStr \<Rightarrow>
          (case parse tplStr of
             Inl err \<Rightarrow> Ret ([], ''could not parse commit message template: '' @ err)
           | Inr tpl \<Rightarrow>
               go_bind (TemplateCommitMessage tpl ''example-app'' (template_changes pn now)) (\<lambda>m. Ret (m @ [CHR 0x0A], []))))"

section \<open>The trial of an update\<close>

record test_flags =
  tf_semverConstraint :: string
  tf_strategy :: string
  tf_registriesConfPath :: string
  tf_logLevel :: string
  tf_allowTags :: string
  tf_credentials :: string
  tf_kubeConfig :: string
  tf_ignoreTags :: "string list"
  tf_rateLimit :: "int option"
  tf_platforms :: "string list"

definition test_defaults :: "string \<times> string \<Rightarrow> test_flags" where
  "test_defaults runtime =
     \<lparr>tf_semverConstraint = [], tf_strategy = ''semver'', tf_registriesConfPath = [], tf_logLevel = ''debug'', tf_allowTags = [], tf_credentials = [],
      tf_kubeConfig = [], tf_ignoreTags = [], tf_rateLimit = None, tf_platforms = [fst runtime @ ''/'' @ snd runtime]\<rparr>"

fun test_platforms :: "string list \<Rightarrow> ManifestOptions \<Rightarrow> string + ManifestOptions" where
  "test_platforms [] opts = Inr opts"
| "test_platforms (platform # rest) opts =
     (case ParsePlatform platform of
        None \<Rightarrow> Inl platform
      | Some (os, arch, variant) \<Rightarrow> test_platforms rest (WithPlatform opts os arch variant))"

text \<open>The constraint; a platform that does not parse ends the command.\<close>

definition test_constraint :: "(string \<Rightarrow> (string \<Rightarrow> bool) option) \<Rightarrow> test_flags \<Rightarrow> string + VersionConstraint" where
  "test_constraint regexp flags =
     (let strategy = ParseUpdateStrategy (tf_strategy flags);
          vc = \<lparr>Constraint = tf_semverConstraint flags, MatchFunc = None, MatchArgs = ArgNil, IgnoreList = tf_ignoreTags flags, Strategy = strategy,
                Options = NewManifestOptions\<rparr>;
          vc = (if tf_allowTags flags \<noteq> [] then (case ParseMatch regexp (tf_allowTags flags) of (fn, args) \<Rightarrow> vc\<lparr>MatchFunc := Some fn, MatchArgs := args\<rparr>) else vc)
      in case test_platforms (tf_platforms flags) NewManifestOptions of
           Inl platform \<Rightarrow> Inl platform
         | Inr opts \<Rightarrow> Inr (vc\<lparr>Options := WithMetadata opts (NeedsMetadata strategy)\<rparr>))"

text \<open>An explicit path is always loaded; the default path only when it is a file.\<close>

definition test_registries_path :: "(string \<Rightarrow> bool option) \<Rightarrow> test_flags \<Rightarrow> string" where
  "test_registries_path stat flags =
     (if tf_registriesConfPath flags = [] then (if stat DefaultRegistriesConfPath = Some False then DefaultRegistriesConfPath else [])
      else tf_registriesConfPath flags)"

datatype test_outcome = TestFatal string | NoNewerVersion | LatestImage ContainerImage

definition test_credentials :: "cred_env \<Rightarrow> kube_client \<Rightarrow> string \<Rightarrow> string \<Rightarrow> string + string \<times> string" where
  "test_credentials env kc credentials registryAPI =
     (if credentials = [] then Inr ([], [])
      else
        (case ParseCredentialSource credentials False of
           Inl _ \<Rightarrow> Inl ''could not parse credential definition''
         | Inr credSrc \<Rightarrow>
             (case FetchCredentials env (Some kc) credSrc registryAPI of
                (_, Inl _) \<Rightarrow> Inl ''could not fetch credentials''
              | (_, Inr creds) \<Rightarrow> Inr (Username creds, Password creds))))"

text \<open>From the endpoint on; the libraries are those that an update is configured with.\<close>

definition test_scan ::
  "('s, 'v, 'c, 'k, 'w) UpdateConfiguration \<Rightarrow> kube_client \<Rightarrow> test_flags \<Rightarrow> ContainerImage \<Rightarrow> VersionConstraint \<Rightarrow> nat \<Rightarrow> ('s, 't) reg_state \<Rightarrow>
   (test_outcome \<times> ('s, 't) reg_state) go" where
  "test_scan conf kc flags img vc rep reg =
     (case SetEndpointCredentials (uc_cred conf) (Some kc) (time_Now (uc_scan conf)) (deref reg rep) [] of
        (ep, Inl _) \<Rightarrow> Ret (TestFatal ''could not set registry credentials'', assign rep (\<lambda>_. ep) reg)
      | (ep, Inr _) \<Rightarrow>
          (let ep = (case tf_rateLimit flags of None \<Rightarrow> ep | Some r \<Rightarrow> ep\<lparr>Limiter := r\<rparr>); reg = assign rep (\<lambda>_. ep) reg
           in case test_credentials (uc_cred conf) kc (tf_credentials flags) (RegistryAPI ep) of
                Inl err \<Rightarrow> Ret (TestFatal err, reg)
              | Inr (username, password) \<Rightarrow>
                  (case uc_NewRegFN conf ep username password of
                     Inl _ \<Rightarrow> Ret (TestFatal ''could not create registry client'', reg)
                   | Inr client \<Rightarrow>
                       go_bind (GetTags (uc_cache conf) (uc_scan conf) ep img client vc True)
                         (\<lambda>(ep, r). let reg = assign rep (\<lambda>_. ep) reg
                            in case r of
                                 Inl _ \<Rightarrow> Ret (TestFatal ''could not get tags'', reg)
                               | Inr tags \<Rightarrow>
                                   go_bind (GetNewestVersionFromTags (uc_semver conf) vc tags)
                                     (\<lambda>r. case r of
                                        Inl _ \<Rightarrow> Ret (TestFatal ''could not get updateable image from tags'', reg)
                                      | Inr None \<Rightarrow> Ret (NoNewerVersion, reg)
                                      | Inr (Some upImg) \<Rightarrow> Ret (LatestImage (WithTag img (Some upImg)), reg))))))"

definition test_command ::
  "('s, 'v, 'c, 'k, 'w) UpdateConfiguration \<Rightarrow> ('t, transport) gocache_lib \<Rightarrow> config_env \<Rightarrow> (string \<Rightarrow> bool option) \<Rightarrow> (string \<Rightarrow> kube_client option) \<Rightarrow>
   ref_parser \<Rightarrow> test_flags \<Rightarrow> string list \<Rightarrow> ('s, 't) reg_state \<Rightarrow> (test_outcome \<times> ('s, 't) reg_state) go" where
  "test_command conf tlib cenv stat kubeConfig pn flags args reg =
     (if length args \<noteq> 1 then Ret (TestFatal ''image needs to be specified'', reg)
      else if \<not> log_level_ok (tf_logLevel flags) then Ret (TestFatal ''could not set log level'', reg)
      else
        (case kubeConfig (tf_kubeConfig flags) of
           None \<Rightarrow> Ret (TestFatal ''could not create K8s client'', reg)
         | Some kc \<Rightarrow>
             (let img = NewFromIdentifier pn (args ! 0)
              in case test_constraint (uc_regexp conf) flags of
                   Inl _ \<Rightarrow> Ret (TestFatal ''Could not parse platform'', reg)
                 | Inr vc \<Rightarrow>
                     (let path = test_registries_path stat flags
                      in go_bind (if path \<noteq> [] then LoadRegistryConfiguration tlib cenv (uc_newCache conf) path False reg else Ret (reg, None))
                           (\<lambda>(reg, err). case err of
                              Some _ \<Rightarrow> Ret (TestFatal ''could not load registries configuration'', reg)
                            | None \<Rightarrow>
                                (case GetRegistryEndpoint (uc_newCache conf) img reg of
                                   (reg, Inl _) \<Rightarrow> Ret (TestFatal ''could not get registry endpoint'', reg)
                                 | (reg, Inr rep) \<Rightarrow> test_scan conf kc flags img vc rep reg))))))"

section \<open>The helper answers git\<close>

text \<open>A child process sees the last entry of a variable, as \<open>exec.Cmd\<close> passes them on.\<close>

definition env_value :: "string list \<Rightarrow> string \<Rightarrow> string" where
  "env_value env key =
     (let found = filter (\<lambda>e. strings_HasPrefix e (key @ ''='')) env in if found = [] then [] else drop (length key + 1) (last found))"

text \<open>
  What the store of the helper promises: a fresh nonce is not empty and leads to the entry that was added, a removed one leads to none, and
  removing files does not touch the store.
\<close>

definition askpass_ok :: "'w os_lib \<Rightarrow> 'w askpass_lib \<Rightarrow> bool" where
  "askpass_ok lib al \<longleftrightarrow>
     (\<forall>u p w. fst (store_Add lib u p w) \<noteq> [] \<and> ap_GetCredentials al (fst (store_Add lib u p w)) (snd (store_Add lib u p w)) = Inr (u, p)) \<and>
     (\<forall>n w. \<exists>err. ap_GetCredentials al n (store_Remove lib n w) = Inl err) \<and>
     (\<forall>n f w. ap_GetCredentials al n (snd (os_Remove lib f w)) = ap_GetCredentials al n w)"

text \<open>User name and password that credentials stand for; those of an application and of Google Cloud are fetched.\<close>

definition login :: "'w os_lib \<Rightarrow> Creds \<Rightarrow> 'w \<Rightarrow> (string \<times> string) option" where
  "login lib creds w =
     (case creds of
        HTTPS c \<Rightarrow> Some (if hc_username c \<noteq> [] then hc_username c else githubAccessTokenUsername, hc_password c)
      | GitHubApp g \<Rightarrow> (case fst (gh_getAccessToken lib g w) of Inl _ \<Rightarrow> None | Inr token \<Rightarrow> Some (githubAccessTokenUsername, token))
      | GoogleCloud c \<Rightarrow>
          (case google_getUsername lib c of
             Inl _ \<Rightarrow> None
           | Inr username \<Rightarrow> (case fst (google_getAccessToken lib c w) of Inl _ \<Rightarrow> None | Inr token \<Rightarrow> Some (username, token)))
      | _ \<Rightarrow> None)"

lemma env_value_last:
  assumes "\<forall>e \<in> set post. \<not> strings_HasPrefix e (key @ ''='')"
  shows "env_value (pre @ (key @ ''='' @ v) # post) key = v"
proof -
  have none: "filter (\<lambda>e. strings_HasPrefix e (key @ ''='')) post = []" using assms by (simp add: filter_empty_conv)
  have "strings_HasPrefix (key @ ''='' @ v) (key @ ''='')" by (simp add: strings_HasPrefix_def)
  with none show ?thesis by (simp add: env_value_def Let_def)
qed

lemma ask_pass_stored:
  assumes "ask_pass lib files env u p w = (Inr (cl, env'), w')"
  obtains n where "store_Add lib u p w = (n, w')" "cl_nonce cl = Some n" "env' = env @ getGitAskPassEnv lib n"
  using assms by (auto simp: ask_pass_def split: prod.split_asm)

lemma io_bindE:
  assumes "io_bind m f w = (Inr y, w')"
  obtains x w1 where "m w = (Inr x, w1)" "f x w1 = (Inr y, w')"
  using assms by (auto simp: io_bind_def split: prod.split_asm sum.split_asm)

lemma io_wrapE: "io_wrap c m w = (Inr x, w') \<Longrightarrow> m w = (Inr x, w')"
  by (auto simp: io_wrap_def split: prod.split_asm sum.split_asm)

lemma Environ_login:
  assumes "Environ lib creds w = (Inr (cl, env), w')" "cl_nonce cl \<noteq> None"
  obtains u p w0 n pre where "login lib creds w = Some (u, p)" "store_Add lib u p w0 = (n, w')" "cl_nonce cl = Some n"
    "env = pre @ getGitAskPassEnv lib n"
proof (cases creds)
  case NopCreds
  with assms show thesis by (auto simp: Environ_def io_return_def NopCloser_def)
next
  case (SSH c)
  with assms have "cl_nonce cl = None"
    by (auto simp: Environ_def SSHCreds_Environ_def Let_def io_return_def io_fail_def elim!: io_bindE split: if_split_asm option.split_asm)
  with assms(2) show thesis by simp
next
  case (HTTPS c)
  with assms(1) show thesis
    by (auto simp: Environ_def HTTPSCreds_Environ_def Let_def login_def elim!: io_bindE ask_pass_stored intro: that)
next
  case (GitHubApp g)
  with assms(1) show thesis
    by (auto simp: Environ_def GitHubAppCreds_Environ_def login_def elim!: io_bindE ask_pass_stored intro: that)
next
  case (GoogleCloud c)
  with assms(1) obtain u w1 token w2 where u: "google_getUsername lib c = Inr u" and t: "google_getAccessToken lib c w = (Inr token, w2)"
    and st: "ask_pass lib [] [] u token w2 = (Inr (cl, env), w')"
    by (auto simp: Environ_def GoogleCloudCreds_Environ_def io_lift_def elim!: io_bindE dest!: io_wrapE)
  from st obtain n where "store_Add lib u token w2 = (n, w')" "cl_nonce cl = Some n" "env = [] @ getGitAskPassEnv lib n"
    by (rule ask_pass_stored)
  with GoogleCloud u t show thesis by (intro that [of u token w2 n "[]"]) (simp_all add: login_def)
qed

lemma askpass_env_values:
  assumes "os_Executable lib = Some exe"
    and "\<forall>e \<in> set post. \<not> strings_HasPrefix e (ASKPASS_NONCE_ENV @ ''='') \<and> \<not> strings_HasPrefix e (''ARGOCD_BINARY_NAME'' @ ''='')"
  shows "env_value (pre @ getGitAskPassEnv lib n @ post) ASKPASS_NONCE_ENV = n"
    "env_value (pre @ getGitAskPassEnv lib n @ post) ''ARGOCD_BINARY_NAME'' = ''argocd-git-ask-pass''"
proof -
  have env: "getGitAskPassEnv lib n =
      [''GIT_ASKPASS='' @ exe] @ (ASKPASS_NONCE_ENV @ ''='' @ n) # [''GIT_TERMINAL_PROMPT=0'', ''ARGOCD_BINARY_NAME'' @ ''='' @ ''argocd-git-ask-pass'']"
    using assms(1) by (simp add: getGitAskPassEnv_def)
  have "\<forall>e \<in> set ([''GIT_TERMINAL_PROMPT=0'', ''ARGOCD_BINARY_NAME'' @ ''='' @ ''argocd-git-ask-pass''] @ post). \<not> strings_HasPrefix e (ASKPASS_NONCE_ENV @ ''='')"
    using assms(2) by (auto simp: strings_HasPrefix_def ASKPASS_NONCE_ENV_def)
  from env_value_last [OF this, of "pre @ [''GIT_ASKPASS='' @ exe]" n]
  show "env_value (pre @ getGitAskPassEnv lib n @ post) ASKPASS_NONCE_ENV = n" unfolding env by simp
  have "\<forall>e \<in> set post. \<not> strings_HasPrefix e (''ARGOCD_BINARY_NAME'' @ ''='')" using assms(2) by blast
  from env_value_last [OF this, of "pre @ [''GIT_ASKPASS='' @ exe, ASKPASS_NONCE_ENV @ ''='' @ n, ''GIT_TERMINAL_PROMPT=0'']" "''argocd-git-ask-pass''"]
  show "env_value (pre @ getGitAskPassEnv lib n @ post) ''ARGOCD_BINARY_NAME'' = ''argocd-git-ask-pass''" unfolding env by simp
qed

text \<open>The process that git starts for a prompt: this binary with the environment of the git command.\<close>

definition answer :: "'w askpass_lib \<Rightarrow> string list \<Rightarrow> string \<Rightarrow> string \<Rightarrow> 'w \<Rightarrow> command_result option" where
  "answer al env exe prompt w =
     main_command (env_value env) (\<lambda>getEnv. Some (AskPassCommand al getEnv [exe, prompt] w)) (\<lambda>_. None)"

lemma closed_store:
  assumes "askpass_ok lib al"
  shows "ap_GetCredentials al n (snd (authFilePaths_Close lib fs w)) = ap_GetCredentials al n w"
proof (induction fs arbitrary: w)
  case (Cons f fs)
  have rm: "ap_GetCredentials al n (snd (os_Remove lib f w)) = ap_GetCredentials al n w" for w
    using assms by (simp add: askpass_ok_def)
  obtain r w1 where 1: "os_Remove lib f w = (r, w1)" by fastforce
  obtain r2 w2 where 2: "authFilePaths_Close lib fs w1 = (r2, w2)" by fastforce
  from 1 2 rm [of w] Cons [of w1] show ?case by (auto simp: io_defs split: sum.split)
qed (simp add: io_return_def)

text \<open>
  \<open>C39\<close>.  Git gets exactly the login that the credentials stand for.  When a git command asks for a user name or a password while
  it runs, git starts the program of the environment, which recognises itself as the helper and prints the user name or the password of the credentials
  of this command; any other prompt is an error.  After the command the credentials are closed, and the same environment gets no answer.
\<close>

theorem askpass_answers_login:
  assumes "askpass_ok lib al" "ap_Dial al = None" "os_Executable lib = Some exe"
    and env: "Environ lib creds w = (Inr (cl, env), w')" "cl_nonce cl = Some n"
    and post: "\<forall>e \<in> set post. \<not> strings_HasPrefix e (ASKPASS_NONCE_ENV @ ''='') \<and> \<not> strings_HasPrefix e (''ARGOCD_BINARY_NAME'' @ ''='')"
    and run: "ap_GetCredentials al n w2 = ap_GetCredentials al n w'"
  shows "\<exists>u p. login lib creds w = Some (u, p) \<and>
    (\<forall>prompt. answer al (pre @ env @ post) exe prompt w2 =
       Some (if strings_HasPrefix prompt ''Username'' then Printed (u @ [CHR 0x0A])
             else if strings_HasPrefix prompt ''Password'' then Printed (p @ [CHR 0x0A]) else Fatal ''unknown credential type'')) \<and>
    (\<forall>prompt. \<exists>err. answer al (pre @ env @ post) exe prompt (snd (closer_Close lib cl w2)) = Some (Fatal err))"
proof -
  from Environ_login [OF env(1)] env(2) obtain u p w0 pre' where l: "login lib creds w = Some (u, p)" and a: "store_Add lib u p w0 = (n, w')"
    and e: "env = pre' @ getGitAskPassEnv lib n"
    by (metis option.distinct(1) option.inject)
  have n: "n \<noteq> []" "ap_GetCredentials al n w' = Inr (u, p)"
    using assms(1) a unfolding askpass_ok_def by (metis fst_conv snd_conv)+
  have v: "env_value (pre @ env @ post) ASKPASS_NONCE_ENV = n" "env_value (pre @ env @ post) ''ARGOCD_BINARY_NAME'' = ''argocd-git-ask-pass''"
    using askpass_env_values [OF assms(3) post, of "pre @ pre'" n] unfolding e by simp_all
  obtain err where "ap_GetCredentials al n (store_Remove lib n w2) = Inl err" using assms(1) unfolding askpass_ok_def by blast
  with env(2) have "ap_GetCredentials al n (snd (closer_Close lib cl w2)) = Inl err" by (simp add: closer_Close_def closed_store [OF assms(1)])
  with l n v run assms(2) show ?thesis by (auto simp: answer_def main_command_def AskPassCommand_def)
qed

text \<open>A store that keeps its entries in the log of the sample system.\<close>

definition sample_store_os :: "sys os_lib" where
  "sample_store_os = sample_os
     \<lparr>store_Add := (\<lambda>u p w. (''n'', w\<lparr>sys_log := [''n'', u, p] # sys_log w\<rparr>)),
      store_Remove := (\<lambda>n w. w\<lparr>sys_log := filter (\<lambda>e. e ! 0 \<noteq> n) (sys_log w)\<rparr>)\<rparr>"

definition sample_askpass :: "sys askpass_lib" where
  "sample_askpass =
     \<lparr>ap_Dial = None,
      ap_GetCredentials = (\<lambda>n w. case filter (\<lambda>e. e ! 0 = n) (sys_log w) of [] \<Rightarrow> Inl ''unknown nonce'' | e # _ \<Rightarrow> Inr (e ! 1, e ! 2))\<rparr>"

lemma sample_askpass_ok: "askpass_ok sample_store_os sample_askpass"
  by (simp add: askpass_ok_def sample_store_os_def sample_askpass_def sample_os_def filter_empty_conv split: list.split)

definition sample_https :: Creds where
  "sample_https = NewHTTPSCreds [] ''secret'' [] [] False [] False"

theorem askpass_answers_login_witness:
  "\<exists>env cl w'. Environ sample_store_os sample_https empty_sys = (Inr (cl, env), w') \<and>
     answer sample_askpass ([''PATH=/bin''] @ env @ [''HOME=/dev/null'']) ''/bin/updater'' ''Password for x'' w' = Some (Printed (''secret'' @ [CHR 0x0A])) \<and>
     (\<exists>err. answer sample_askpass ([''PATH=/bin''] @ env @ [''HOME=/dev/null'']) ''/bin/updater'' ''Password for x'' (snd (closer_Close sample_store_os cl w')) = Some (Fatal err))"
proof -
  have env: "Environ sample_store_os sample_https empty_sys =
      (Inr (\<lparr>cl_nonce = Some ''n'', cl_files = []\<rparr>, getGitAskPassEnv sample_store_os ''n''), empty_sys\<lparr>sys_log := [[''n'', ''x-access-token'', ''secret'']]\<rparr>)"
    by (simp add: Environ_def sample_https_def NewHTTPSCreds_def HTTPSCreds_Environ_def client_cert_files_def io_bind_def io_return_def ask_pass_def
        sample_store_os_def sample_os_def no_verify_env_def githubAccessTokenUsername_def empty_sys_def)
  have rest: "ap_Dial sample_askpass = None" "os_Executable sample_store_os = Some ''/bin/updater''"
    "\<forall>e \<in> set [''HOME=/dev/null'']. \<not> strings_HasPrefix e (ASKPASS_NONCE_ENV @ ''='') \<and> \<not> strings_HasPrefix e (''ARGOCD_BINARY_NAME'' @ ''='')"
    by (simp_all add: sample_askpass_def sample_store_os_def sample_os_def ASKPASS_NONCE_ENV_def strings_HasPrefix_def)
  have prompt: "\<not> strings_HasPrefix ''Password for x'' ''Username''" "strings_HasPrefix ''Password for x'' ''Password''"
    by (simp_all add: strings_HasPrefix_def)
  have pw: "login sample_store_os sample_https empty_sys = Some (u, p) \<Longrightarrow> p = ''secret''" for u p
    by (simp add: login_def sample_https_def NewHTTPSCreds_def)
  show ?thesis
    using askpass_answers_login [OF sample_askpass_ok rest(1,2) env _ rest(3) refl, of "''n''" "[''PATH=/bin'']"] env prompt pw by fastforce
qed

section \<open>The rendering always ends\<close>

text \<open>The command prints a message, or an error and no message; the sample changes never make the rendering panic.\<close>

theorem template_prints:
  "\<exists>out err. template_command readFile parse pn now args = Ret (out, err) \<and> (out = [] \<or> err = []) \<and>
     (length args \<noteq> 1 \<longrightarrow> parse DefaultGitCommitMessage = Inr tpl \<longrightarrow>
        TemplateCommitMessage tpl ''example-app'' (template_changes pn now) = Ret (butlast out) \<and> err = [])"
proof -
  have "\<exists>m. TemplateCommitMessage t ''example-app'' (template_changes pn now) = Ret m" for t
    by (simp add: TemplateCommitMessage_def template_changes_def new_tag_def)
  then show ?thesis unfolding template_command_def by (auto split: sum.split) (metis go_bind.simps(2) butlast_snoc)+
qed

section \<open>The trial predicts the run\<close>

lemma filter_tags_keep: "filter_tags env vc tags = filter (keep_tag env vc) tags"
  by (auto simp: filter_tags_def keep_tag_def IsTagIgnored_def)

text \<open>A scan reads a constraint only through the tags that pass, the strategy, the constraint text and the options.\<close>

definition same_scan :: "scan_env \<Rightarrow> VersionConstraint \<Rightarrow> VersionConstraint \<Rightarrow> bool" where
  "same_scan env vc vc' \<longleftrightarrow>
     Strategy vc = Strategy vc' \<and> Options vc = Options vc' \<and> Constraint vc = Constraint vc' \<and> keep_tag env vc = keep_tag env vc'"

lemma metadata_loop_same:
  assumes "Strategy vc = Strategy vc'" "Options vc = Options vc'"
  shows "metadata_loop itc env rc n vc tags s = metadata_loop itc env rc n vc' tags s"
proof (induction tags arbitrary: s)
  case (Cons t tags)
  have "fetch_tag rc n vc t = fetch_tag rc n vc' t" unfolding fetch_tag_def assms ..
  with Cons assms show ?case by (cases s) (simp add: Let_def split: option.split sum.split)
next
  case Nil
  show ?case by (cases s) simp
qed

lemma GetTags_same:
  assumes "same_scan env vc vc'" "ImageName img = ImageName img'"
  shows "GetTags itc env ep img rc vc b = Ret (ep', Inr tags) \<longleftrightarrow> GetTags itc env ep img' rc vc' b = Ret (ep', Inr tags)"
proof -
  have eqs: "filter_tags env vc = filter_tags env vc'" "needs_metadata ep vc = needs_metadata ep vc'" "name_in_registry ep img = name_in_registry ep img'"
    "Strategy vc = Strategy vc'" "Constraint vc = Constraint vc'"
    using assms by (auto simp: filter_tags_keep same_scan_def needs_metadata_def name_in_registry_def)
  have loop: "metadata_loop itc env rc n vc tags s = metadata_loop itc env rc n vc' tags s" for n tags s
    using assms(1) by (intro metadata_loop_same) (simp_all add: same_scan_def)
  show ?thesis unfolding GetTags_def Let_def eqs loop
    by (cases "NeedsVersionConstraint (Strategy vc') \<and> Constraint vc' = []") (auto split: option.split sum.split)
qed

lemma GetNewestVersionFromTags_same:
  assumes "same_scan env vc vc'"
  shows "GetNewestVersionFromTags lib vc tags = GetNewestVersionFromTags lib vc' tags"
proof -
  have eqs: "Strategy vc = Strategy vc'" "Constraint vc = Constraint vc'" using assms by (simp_all add: same_scan_def)
  have ct: "consider_tag lib vc = consider_tag lib vc'" unfolding consider_tag_def eqs ..
  show ?thesis unfolding GetNewestVersionFromTags_def available_tags_def eqs ct ..
qed

lemma test_platforms_fold:
  assumes "test_platforms ps opts = Inr opts'" "\<forall>p \<in> set ps. strings_TrimSpace p = p"
  shows "fold add_platform ps opts = opts'"
  using assms by (induction ps opts rule: test_platforms.induct) (auto simp: add_platform_def split: option.split_asm)

text \<open>An image of a resource with the settings of the flags; without platforms both take the platform of the process.\<close>

definition same_settings :: "('s, 'v, 'c, 'k, 'w) UpdateConfiguration \<Rightarrow> test_flags \<Rightarrow> Image \<Rightarrow> bool" where
  "same_settings conf flags im \<longleftrightarrow>
     (case ImageTag (im_ContainerImage im) of None \<Rightarrow> [] | Some t \<Rightarrow> TagName t) = tf_semverConstraint flags \<and>
     im_AllowTags im = tf_allowTags flags \<and> im_IgnoreTags im = tf_ignoreTags flags \<and>
     im_UpdateStrategy im = ParseUpdateStrategy (tf_strategy flags) \<and>
     (if im_Platforms im = [] then
        \<not> uc_IgnorePlatforms conf \<and> tf_platforms flags = tf_platforms (test_defaults (uc_runtime conf)) \<and>
        CHR ''/'' \<notin> set (fst (uc_runtime conf)) \<and> CHR ''/'' \<notin> set (snd (uc_runtime conf))
      else tf_platforms flags = im_Platforms im \<and> (\<forall>p \<in> set (im_Platforms im). strings_TrimSpace p = p))"

lemma same_platforms:
  assumes "same_settings conf flags im" "test_platforms (tf_platforms flags) NewManifestOptions = Inr opts"
  shows "GetPlatformOptions (uc_runtime conf) (uc_IgnorePlatforms conf) (im_Platforms im) = opts"
proof (cases "im_Platforms im = []")
  case True
  obtain os arch where r: "uc_runtime conf = (os, arch)" by fastforce
  with True assms(1) have s: "CHR ''/'' \<notin> set os" "CHR ''/'' \<notin> set arch" "\<not> uc_IgnorePlatforms conf" "tf_platforms flags = [os @ ''/'' @ arch]"
    by (simp_all add: same_settings_def test_defaults_def)
  have "strings_SplitN (os @ ''/'' @ arch) CHR ''/'' 3 = [os, arch]"
    using strings_SplitN_found [OF s(1), of arch 1] strings_SplitN_not_found [OF s(2), of 1] by (simp add: numeral_3_eq_3 del: strings_SplitN.simps)
  then have "ParsePlatform (os @ ''/'' @ arch) = Some (os, arch, [])" by (simp add: ParsePlatform_def)
  moreover from s(2) have "\<not> strings_Contains arch ''/''" by simp
  ultimately show ?thesis using True assms(2) s(3,4) by (simp add: GetPlatformOptions_def r)
next
  case False
  with assms test_platforms_fold show ?thesis by (simp add: GetPlatformOptions_def same_settings_def)
qed

lemma test_constraint_same_scan:
  assumes "test_constraint (uc_regexp conf) flags = Inr vc" "same_settings conf flags im"
  shows "same_scan env vc (version_constraint conf im)"
proof -
  obtain fn args where m: "ParseMatch (uc_regexp conf) (tf_allowTags flags) = (fn, args)" by fastforce
  from assms(1) obtain opts where o: "test_platforms (tf_platforms flags) NewManifestOptions = Inr opts"
    and vc: "vc = \<lparr>Constraint = tf_semverConstraint flags, MatchFunc = (if tf_allowTags flags \<noteq> [] then Some fn else None),
      MatchArgs = (if tf_allowTags flags \<noteq> [] then args else ArgNil), IgnoreList = tf_ignoreTags flags, Strategy = ParseUpdateStrategy (tf_strategy flags),
      Options = WithMetadata opts (NeedsMetadata (ParseUpdateStrategy (tf_strategy flags)))\<rparr>"
    by (auto simp: test_constraint_def Let_def m split: sum.split_asm if_split_asm)
  have "tf_allowTags flags = [] \<Longrightarrow> fn = MatchFuncAny" using m by (simp add: ParseMatch_def)
  with m assms(2) same_platforms [OF assms(2) o] show ?thesis
    by (auto simp: vc same_scan_def version_constraint_def same_settings_def keep_tag_def IsTagIgnored_def intro!: ext)
qed

text \<open>The endpoint that the trial uses: with its credentials, and the rate of the flag.\<close>

definition test_endpoint ::
  "('s, 'v, 'c, 'k, 'w) UpdateConfiguration \<Rightarrow> kube_client \<Rightarrow> test_flags \<Rightarrow> nat \<Rightarrow> ('s, 't) reg_state \<Rightarrow> 's RegistryEndpoint" where
  "test_endpoint conf kc flags rep reg =
     (let ep = fst (SetEndpointCredentials (uc_cred conf) (Some kc) (time_Now (uc_scan conf)) (deref reg rep) [])
      in case tf_rateLimit flags of None \<Rightarrow> ep | Some r \<Rightarrow> ep\<lparr>Limiter := r\<rparr>)"

lemma test_scan_latest:
  assumes "test_scan conf kc flags img vc rep reg = Ret (LatestImage out, reg')"
  obtains t ep ep' client u p tags where "out = WithTag img (Some t)" "ep = test_endpoint conf kc flags rep reg" "uc_NewRegFN conf ep u p = Inr client"
    "GetTags (uc_cache conf) (uc_scan conf) ep img client vc True = Ret (ep', Inr tags)"
    "GetNewestVersionFromTags (uc_semver conf) vc tags = Ret (Inr (Some t))"
  using assms unfolding test_scan_def Let_def test_endpoint_def
  by (auto split: prod.split_asm sum.split_asm option.split_asm elim!: go_bindE intro: that)

lemma test_command_latest:
  assumes "test_command conf tlib cenv stat kubeConfig pn flags args reg = Ret (LatestImage out, reg')"
  obtains vc kc rep reg0 reg1 where "test_constraint (uc_regexp conf) flags = Inr vc"
    "GetRegistryEndpoint (uc_newCache conf) (NewFromIdentifier pn (args ! 0)) reg0 = (reg1, Inr rep)"
    "test_scan conf kc flags (NewFromIdentifier pn (args ! 0)) vc rep reg1 = Ret (LatestImage out, reg')"
  using assms unfolding test_command_def Let_def
  by (auto split: if_split_asm prod.split_asm sum.split_asm option.split_asm elim!: go_bindE intro: that)


definition latest_name :: "(test_outcome \<times> ('s, 't) reg_state) go \<Rightarrow> string option" where
  "latest_name r = (case r of Ret (LatestImage img, _) \<Rightarrow> map_option TagName (ImageTag img) | _ \<Rightarrow> None)"

lemma latest_nameE:
  assumes "latest_name r = Some n"
  obtains img reg where "r = Ret (LatestImage img, reg)" "map_option TagName (ImageTag img) = Some n"
  using assms by (auto simp: latest_name_def split: go.split_asm prod.split_asm test_outcome.split_asm)

lemma sample_trial:
  "latest_name (test_command (sample_conf False) list_store sample_config_env (\<lambda>_. None) (\<lambda>_. Some sample_kube_client) (we_ref sample_write)
     (test_defaults (''linux'', ''amd64'')) [''org/web''] (initial_state list_store ())) = Some ''1.1''"
  by code_simp


end
