(* ===== verification/DeepCopies.thy ===== *)
theory DeepCopies
  imports Controller
begin

text \<open>
  Deep copies of the custom resource (\<open>api/v1alpha1/zz_generated.deepcopy.go\<close>) and the merge of write-back settings that relies on them
  (\<open>mergeWBCSettings\<close> in \<open>pkg/argocd/argocd.go\<close>).  Everywhere else a pointer of the resource is an option and a slice is a list; here they are
  addresses in a heap, because what a copy promises is that nothing is shared with the original.  A slice is the address of its array.  The types of
  \<open>apimachinery\<close> (selectors, metadata, times, conditions) are values, as their own deep copies promise.
\<close>

section \<open>The heap\<close>

type_synonym ptr = "nat option"

record pHelmTarget =
  pht_Name :: ptr
  pht_Tag :: ptr
  pht_Spec :: ptr

record pKustomizeTarget =
  pkt_Name :: ptr

record pPluginTarget =
  ppt_Name :: ptr
  ppt_Tag :: ptr
  ppt_Spec :: ptr

record pManifestTarget =
  pmt_Helm :: ptr
  pmt_Kustomize :: ptr
  pmt_Plugin :: ptr

record pCommonUpdateSettings =
  pcu_UpdateStrategy :: ptr
  pcu_ForceUpdate :: ptr
  pcu_AllowTags :: ptr
  pcu_IgnoreTags :: ptr
  pcu_PullSecret :: ptr
  pcu_Platforms :: ptr

record pImagesVerification =
  piv_Enabled :: ptr
  piv_CosignKey :: ptr

record pPullRequest =
  ppr_GitHub :: ptr
  ppr_GitLab :: ptr
  ppr_Labels :: ptr

record pGitConfig =
  pgc_Repository :: ptr
  pgc_Branch :: ptr
  pgc_WriteBackTarget :: ptr
  pgc_PullRequest :: ptr

record pWriteBackConfig =
  pwb_Method :: ptr
  pwb_GitConfig :: ptr

record pImageConfig =
  pic_Alias :: string
  pic_ImageName :: string
  pic_CommonUpdateSettings :: ptr
  pic_ManifestTarget :: ptr
  pic_ImagesVerification :: ptr

record pApplicationRef =
  par_NamePattern :: string
  par_LabelSelectors :: ptr
  par_UseAnnotations :: ptr
  par_ImagesVerification :: ptr
  par_CommonUpdateSettings :: ptr
  par_WriteBackConfig :: ptr
  par_Images :: ptr

record pImageUpdaterSpec =
  psp_CommonUpdateSettings :: ptr
  psp_WriteBackConfig :: ptr
  psp_ApplicationRefs :: ptr
  psp_ImagesVerification :: ptr

record pImageUpdaterStatus =
  pst_ObservedGeneration :: int
  pst_LastCheckedAt :: ptr
  pst_LastUpdatedAt :: ptr
  pst_ApplicationsMatched :: int
  pst_ImagesManaged :: int
  pst_RecentUpdates :: ptr
  pst_Conditions :: ptr

text \<open>Of the metadata the model keeps what the controller reads.\<close>

record object_meta =
  om_Namespace :: string
  om_Name :: string
  om_Generation :: int
  om_Deleted :: bool
  om_Finalizers :: "string list"

record pImageUpdater =
  piu_ObjectMeta :: object_meta
  piu_Spec :: pImageUpdaterSpec
  piu_Status :: pImageUpdaterStatus

datatype cell =
    CString (un_CString: string) | CBool (un_CBool: bool) | CTime (un_CTime: instant) | CStrings (un_CStrings: "string list")
  | CGitHub (un_CGitHub: unit) | CGitLab (un_CGitLab: unit) | CSecretRef (un_CSecretRef: SecretRef)
  | CLabelSelector (un_CLabelSelector: LabelSelector) | CHelmTarget (un_CHelmTarget: pHelmTarget)
  | CKustomizeTarget (un_CKustomizeTarget: pKustomizeTarget) | CPluginTarget (un_CPluginTarget: pPluginTarget)
  | CManifestTarget (un_CManifestTarget: pManifestTarget) | CCommonUpdateSettings (un_CCommonUpdateSettings: pCommonUpdateSettings)
  | CImagesVerification (un_CImagesVerification: pImagesVerification) | CPullRequest (un_CPullRequest: pPullRequest)
  | CGitConfig (un_CGitConfig: pGitConfig) | CWriteBackConfig (un_CWriteBackConfig: pWriteBackConfig)
  | CImageConfigs (un_CImageConfigs: "pImageConfig list") | CApplicationRefs (un_CApplicationRefs: "pApplicationRef list")
  | CRecentUpdates (un_CRecentUpdates: "RecentUpdate list") | CConditions (un_CConditions: "Condition list")
  | CImageUpdater (un_CImageUpdater: pImageUpdater) | CImageUpdaters (un_CImageUpdaters: "pImageUpdater list")
  | CImageConfig (un_CImageConfig: pImageConfig) | CApplicationRef (un_CApplicationRef: pApplicationRef)
  | CImageUpdaterSpec (un_CImageUpdaterSpec: pImageUpdaterSpec) | CImageUpdaterStatus (un_CImageUpdaterStatus: pImageUpdaterStatus)
  | CRecentUpdate (un_CRecentUpdate: RecentUpdate)

type_synonym cells = "cell list"

section \<open>The copies\<close>

text \<open>
  The recurring steps of the generated code: a pointer that is not nil gets a new object, which starts as a shallow copy and is then completed; a slice
  that is not nil gets a new array, whose elements are copied in turn.
\<close>

definition copy_ptr :: "('x \<Rightarrow> cell) \<Rightarrow> (cell \<Rightarrow> 'x) \<Rightarrow> (cells \<Rightarrow> 'x \<Rightarrow> cells \<times> 'x) \<Rightarrow> cells \<Rightarrow> ptr \<Rightarrow> cells \<times> ptr" where
  "copy_ptr mk un copy h p =
     (case p of
        None \<Rightarrow> (h, None)
      | Some a \<Rightarrow>
          (let x = un (h ! a); b = length h; (h, y) = copy (h @ [mk x]) x
           in (h[b := mk y], Some b)))"

definition copy_value :: "cells \<Rightarrow> 'x \<Rightarrow> cells \<times> 'x" where
  "copy_value h x = (h, x)"

fun copy_elements :: "(cells \<Rightarrow> 'x \<Rightarrow> cells \<times> 'x) \<Rightarrow> cells \<Rightarrow> 'x list \<Rightarrow> cells \<times> 'x list" where
  "copy_elements copy h [] = (h, [])"
| "copy_elements copy h (x # xs) = (let (h, y) = copy h x; (h, ys) = copy_elements copy h xs in (h, y # ys))"

definition copy_string :: "cells \<Rightarrow> ptr \<Rightarrow> cells \<times> ptr" where
  "copy_string = copy_ptr CString un_CString copy_value"

definition copy_bool :: "cells \<Rightarrow> ptr \<Rightarrow> cells \<times> ptr" where
  "copy_bool = copy_ptr CBool un_CBool copy_value"

definition copy_strings :: "cells \<Rightarrow> ptr \<Rightarrow> cells \<times> ptr" where
  "copy_strings = copy_ptr CStrings un_CStrings (copy_elements copy_value)"

definition HelmTarget_DeepCopyInto :: "cells \<Rightarrow> pHelmTarget \<Rightarrow> cells \<times> pHelmTarget" where
  "HelmTarget_DeepCopyInto h x =
     (let (h, name) = copy_string h (pht_Name x);
          (h, tag) = copy_string h (pht_Tag x);
          (h, spec) = copy_string h (pht_Spec x)
      in (h, x\<lparr>pht_Name := name, pht_Tag := tag, pht_Spec := spec\<rparr>))"

definition KustomizeTarget_DeepCopyInto :: "cells \<Rightarrow> pKustomizeTarget \<Rightarrow> cells \<times> pKustomizeTarget" where
  "KustomizeTarget_DeepCopyInto h x = (let (h, name) = copy_string h (pkt_Name x) in (h, x\<lparr>pkt_Name := name\<rparr>))"

definition PluginTarget_DeepCopyInto :: "cells \<Rightarrow> pPluginTarget \<Rightarrow> cells \<times> pPluginTarget" where
  "PluginTarget_DeepCopyInto h x =
     (let (h, name) = copy_string h (ppt_Name x);
          (h, tag) = copy_string h (ppt_Tag x);
          (h, spec) = copy_string h (ppt_Spec x)
      in (h, x\<lparr>ppt_Name := name, ppt_Tag := tag, ppt_Spec := spec\<rparr>))"

definition ManifestTarget_DeepCopyInto :: "cells \<Rightarrow> pManifestTarget \<Rightarrow> cells \<times> pManifestTarget" where
  "ManifestTarget_DeepCopyInto h x =
     (let (h, helm) = copy_ptr CHelmTarget un_CHelmTarget HelmTarget_DeepCopyInto h (pmt_Helm x);
          (h, kustomize) = copy_ptr CKustomizeTarget un_CKustomizeTarget KustomizeTarget_DeepCopyInto h (pmt_Kustomize x);
          (h, plugin) = copy_ptr CPluginTarget un_CPluginTarget PluginTarget_DeepCopyInto h (pmt_Plugin x)
      in (h, x\<lparr>pmt_Helm := helm, pmt_Kustomize := kustomize, pmt_Plugin := plugin\<rparr>))"

definition CommonUpdateSettings_DeepCopyInto :: "cells \<Rightarrow> pCommonUpdateSettings \<Rightarrow> cells \<times> pCommonUpdateSettings" where
  "CommonUpdateSettings_DeepCopyInto h x =
     (let (h, strategy) = copy_string h (pcu_UpdateStrategy x);
          (h, force) = copy_bool h (pcu_ForceUpdate x);
          (h, allow) = copy_string h (pcu_AllowTags x);
          (h, ignore) = copy_strings h (pcu_IgnoreTags x);
          (h, secret) = copy_string h (pcu_PullSecret x);
          (h, plats) = copy_strings h (pcu_Platforms x)
      in (h, x\<lparr>pcu_UpdateStrategy := strategy, pcu_ForceUpdate := force, pcu_AllowTags := allow, pcu_IgnoreTags := ignore,
               pcu_PullSecret := secret, pcu_Platforms := plats\<rparr>))"

definition ImagesVerification_DeepCopyInto :: "cells \<Rightarrow> pImagesVerification \<Rightarrow> cells \<times> pImagesVerification" where
  "ImagesVerification_DeepCopyInto h x =
     (let (h, enabled) = copy_bool h (piv_Enabled x);
          (h, key) = copy_ptr CSecretRef un_CSecretRef copy_value h (piv_CosignKey x)
      in (h, x\<lparr>piv_Enabled := enabled, piv_CosignKey := key\<rparr>))"

definition PullRequest_DeepCopyInto :: "cells \<Rightarrow> pPullRequest \<Rightarrow> cells \<times> pPullRequest" where
  "PullRequest_DeepCopyInto h x =
     (let (h, github) = copy_ptr CGitHub un_CGitHub copy_value h (ppr_GitHub x);
          (h, gitlab) = copy_ptr CGitLab un_CGitLab copy_value h (ppr_GitLab x);
          (h, labels) = copy_strings h (ppr_Labels x)
      in (h, x\<lparr>ppr_GitHub := github, ppr_GitLab := gitlab, ppr_Labels := labels\<rparr>))"

definition GitConfig_DeepCopyInto :: "cells \<Rightarrow> pGitConfig \<Rightarrow> cells \<times> pGitConfig" where
  "GitConfig_DeepCopyInto h x =
     (let (h, repository) = copy_string h (pgc_Repository x);
          (h, branch) = copy_string h (pgc_Branch x);
          (h, target) = copy_string h (pgc_WriteBackTarget x);
          (h, request) = copy_ptr CPullRequest un_CPullRequest PullRequest_DeepCopyInto h (pgc_PullRequest x)
      in (h, x\<lparr>pgc_Repository := repository, pgc_Branch := branch, pgc_WriteBackTarget := target, pgc_PullRequest := request\<rparr>))"

definition WriteBackConfig_DeepCopyInto :: "cells \<Rightarrow> pWriteBackConfig \<Rightarrow> cells \<times> pWriteBackConfig" where
  "WriteBackConfig_DeepCopyInto h x =
     (let (h, meth) = copy_string h (pwb_Method x);
          (h, git) = copy_ptr CGitConfig un_CGitConfig GitConfig_DeepCopyInto h (pwb_GitConfig x)
      in (h, x\<lparr>pwb_Method := meth, pwb_GitConfig := git\<rparr>))"

definition ImageConfig_DeepCopyInto :: "cells \<Rightarrow> pImageConfig \<Rightarrow> cells \<times> pImageConfig" where
  "ImageConfig_DeepCopyInto h x =
     (let (h, common) = copy_ptr CCommonUpdateSettings un_CCommonUpdateSettings CommonUpdateSettings_DeepCopyInto h (pic_CommonUpdateSettings x);
          (h, target) = copy_ptr CManifestTarget un_CManifestTarget ManifestTarget_DeepCopyInto h (pic_ManifestTarget x);
          (h, verification) = copy_ptr CImagesVerification un_CImagesVerification ImagesVerification_DeepCopyInto h (pic_ImagesVerification x)
      in (h, x\<lparr>pic_CommonUpdateSettings := common, pic_ManifestTarget := target, pic_ImagesVerification := verification\<rparr>))"

definition ApplicationRef_DeepCopyInto :: "cells \<Rightarrow> pApplicationRef \<Rightarrow> cells \<times> pApplicationRef" where
  "ApplicationRef_DeepCopyInto h x =
     (let (h, labels) = copy_ptr CLabelSelector un_CLabelSelector copy_value h (par_LabelSelectors x);
          (h, annotations) = copy_bool h (par_UseAnnotations x);
          (h, verification) = copy_ptr CImagesVerification un_CImagesVerification ImagesVerification_DeepCopyInto h (par_ImagesVerification x);
          (h, common) = copy_ptr CCommonUpdateSettings un_CCommonUpdateSettings CommonUpdateSettings_DeepCopyInto h (par_CommonUpdateSettings x);
          (h, wbc) = copy_ptr CWriteBackConfig un_CWriteBackConfig WriteBackConfig_DeepCopyInto h (par_WriteBackConfig x);
          (h, images) = copy_ptr CImageConfigs un_CImageConfigs (copy_elements ImageConfig_DeepCopyInto) h (par_Images x)
      in (h, x\<lparr>par_LabelSelectors := labels, par_UseAnnotations := annotations, par_ImagesVerification := verification,
               par_CommonUpdateSettings := common, par_WriteBackConfig := wbc, par_Images := images\<rparr>))"

definition ImageUpdaterSpec_DeepCopyInto :: "cells \<Rightarrow> pImageUpdaterSpec \<Rightarrow> cells \<times> pImageUpdaterSpec" where
  "ImageUpdaterSpec_DeepCopyInto h x =
     (let (h, common) = copy_ptr CCommonUpdateSettings un_CCommonUpdateSettings CommonUpdateSettings_DeepCopyInto h (psp_CommonUpdateSettings x);
          (h, wbc) = copy_ptr CWriteBackConfig un_CWriteBackConfig WriteBackConfig_DeepCopyInto h (psp_WriteBackConfig x);
          (h, refs) = copy_ptr CApplicationRefs un_CApplicationRefs (copy_elements ApplicationRef_DeepCopyInto) h (psp_ApplicationRefs x);
          (h, verification) = copy_ptr CImagesVerification un_CImagesVerification ImagesVerification_DeepCopyInto h (psp_ImagesVerification x)
      in (h, x\<lparr>psp_CommonUpdateSettings := common, psp_WriteBackConfig := wbc, psp_ApplicationRefs := refs, psp_ImagesVerification := verification\<rparr>))"

definition ImageUpdaterStatus_DeepCopyInto :: "cells \<Rightarrow> pImageUpdaterStatus \<Rightarrow> cells \<times> pImageUpdaterStatus" where
  "ImageUpdaterStatus_DeepCopyInto h x =
     (let (h, checked) = copy_ptr CTime un_CTime copy_value h (pst_LastCheckedAt x);
          (h, updated) = copy_ptr CTime un_CTime copy_value h (pst_LastUpdatedAt x);
          (h, recent) = copy_ptr CRecentUpdates un_CRecentUpdates (copy_elements copy_value) h (pst_RecentUpdates x);
          (h, conditions) = copy_ptr CConditions un_CConditions (copy_elements copy_value) h (pst_Conditions x)
      in (h, x\<lparr>pst_LastCheckedAt := checked, pst_LastUpdatedAt := updated, pst_RecentUpdates := recent, pst_Conditions := conditions\<rparr>))"

definition ImageUpdater_DeepCopyInto :: "cells \<Rightarrow> pImageUpdater \<Rightarrow> cells \<times> pImageUpdater" where
  "ImageUpdater_DeepCopyInto h x =
     (let (h, meta) = copy_value h (piu_ObjectMeta x);
          (h, spec) = ImageUpdaterSpec_DeepCopyInto h (piu_Spec x);
          (h, status) = ImageUpdaterStatus_DeepCopyInto h (piu_Status x)
      in (h, x\<lparr>piu_ObjectMeta := meta, piu_Spec := spec, piu_Status := status\<rparr>))"

definition ImageUpdaterList_DeepCopyInto :: "cells \<Rightarrow> ptr \<Rightarrow> cells \<times> ptr" where
  "ImageUpdaterList_DeepCopyInto = copy_ptr CImageUpdaters un_CImageUpdaters (copy_elements ImageUpdater_DeepCopyInto)"

text \<open>The copies of pointers: a nil pointer gives a nil pointer.\<close>

definition ImageUpdater_DeepCopy :: "cells \<Rightarrow> ptr \<Rightarrow> cells \<times> ptr" where
  "ImageUpdater_DeepCopy = copy_ptr CImageUpdater un_CImageUpdater ImageUpdater_DeepCopyInto"

definition WriteBackConfig_DeepCopy :: "cells \<Rightarrow> ptr \<Rightarrow> cells \<times> ptr" where
  "WriteBackConfig_DeepCopy = copy_ptr CWriteBackConfig un_CWriteBackConfig WriteBackConfig_DeepCopyInto"

definition PullRequest_DeepCopy :: "cells \<Rightarrow> ptr \<Rightarrow> cells \<times> ptr" where
  "PullRequest_DeepCopy = copy_ptr CPullRequest un_CPullRequest PullRequest_DeepCopyInto"

definition HelmTarget_DeepCopy :: "cells \<Rightarrow> ptr \<Rightarrow> cells \<times> ptr" where
  "HelmTarget_DeepCopy = copy_ptr CHelmTarget un_CHelmTarget HelmTarget_DeepCopyInto"

definition KustomizeTarget_DeepCopy :: "cells \<Rightarrow> ptr \<Rightarrow> cells \<times> ptr" where
  "KustomizeTarget_DeepCopy = copy_ptr CKustomizeTarget un_CKustomizeTarget KustomizeTarget_DeepCopyInto"

definition PluginTarget_DeepCopy :: "cells \<Rightarrow> ptr \<Rightarrow> cells \<times> ptr" where
  "PluginTarget_DeepCopy = copy_ptr CPluginTarget un_CPluginTarget PluginTarget_DeepCopyInto"

definition ManifestTarget_DeepCopy :: "cells \<Rightarrow> ptr \<Rightarrow> cells \<times> ptr" where
  "ManifestTarget_DeepCopy = copy_ptr CManifestTarget un_CManifestTarget ManifestTarget_DeepCopyInto"

definition CommonUpdateSettings_DeepCopy :: "cells \<Rightarrow> ptr \<Rightarrow> cells \<times> ptr" where
  "CommonUpdateSettings_DeepCopy = copy_ptr CCommonUpdateSettings un_CCommonUpdateSettings CommonUpdateSettings_DeepCopyInto"

definition ImagesVerification_DeepCopy :: "cells \<Rightarrow> ptr \<Rightarrow> cells \<times> ptr" where
  "ImagesVerification_DeepCopy = copy_ptr CImagesVerification un_CImagesVerification ImagesVerification_DeepCopyInto"

definition GitConfig_DeepCopy :: "cells \<Rightarrow> ptr \<Rightarrow> cells \<times> ptr" where
  "GitConfig_DeepCopy = copy_ptr CGitConfig un_CGitConfig GitConfig_DeepCopyInto"

definition ImageConfig_DeepCopy :: "cells \<Rightarrow> ptr \<Rightarrow> cells \<times> ptr" where
  "ImageConfig_DeepCopy = copy_ptr CImageConfig un_CImageConfig ImageConfig_DeepCopyInto"

definition ApplicationRef_DeepCopy :: "cells \<Rightarrow> ptr \<Rightarrow> cells \<times> ptr" where
  "ApplicationRef_DeepCopy = copy_ptr CApplicationRef un_CApplicationRef ApplicationRef_DeepCopyInto"

definition ImageUpdaterSpec_DeepCopy :: "cells \<Rightarrow> ptr \<Rightarrow> cells \<times> ptr" where
  "ImageUpdaterSpec_DeepCopy = copy_ptr CImageUpdaterSpec un_CImageUpdaterSpec ImageUpdaterSpec_DeepCopyInto"

definition ImageUpdaterStatus_DeepCopy :: "cells \<Rightarrow> ptr \<Rightarrow> cells \<times> ptr" where
  "ImageUpdaterStatus_DeepCopy = copy_ptr CImageUpdaterStatus un_CImageUpdaterStatus ImageUpdaterStatus_DeepCopyInto"

definition PullRequestGitHub_DeepCopy :: "cells \<Rightarrow> ptr \<Rightarrow> cells \<times> ptr" where
  "PullRequestGitHub_DeepCopy = copy_ptr CGitHub un_CGitHub copy_value"

definition PullRequestGitLab_DeepCopy :: "cells \<Rightarrow> ptr \<Rightarrow> cells \<times> ptr" where
  "PullRequestGitLab_DeepCopy = copy_ptr CGitLab un_CGitLab copy_value"

definition SecretRef_DeepCopy :: "cells \<Rightarrow> ptr \<Rightarrow> cells \<times> ptr" where
  "SecretRef_DeepCopy = copy_ptr CSecretRef un_CSecretRef copy_value"

definition RecentUpdate_DeepCopy :: "cells \<Rightarrow> ptr \<Rightarrow> cells \<times> ptr" where
  "RecentUpdate_DeepCopy = copy_ptr CRecentUpdate un_CRecentUpdate copy_value"

definition ImageUpdater_DeepCopyObject :: "cells \<Rightarrow> ptr \<Rightarrow> cells \<times> ptr" where
  "ImageUpdater_DeepCopyObject h p = (case ImageUpdater_DeepCopy h p of (h, Some c) \<Rightarrow> (h, Some c) | (h, None) \<Rightarrow> (h, None))"

section \<open>What a deep copy promises\<close>

text \<open>Two heaps that agree on the cells from an address on, as far as the first one reaches.\<close>

definition agree :: "nat \<Rightarrow> cells \<Rightarrow> cells \<Rightarrow> bool" where
  "agree n h g \<longleftrightarrow> length h \<le> length g \<and> (\<forall>a. n \<le> a \<and> a < length h \<longrightarrow> g ! a = h ! a)"

lemma agree_refl: "agree n h h"
  by (simp add: agree_def)

lemma agree_trans: "agree n h g \<Longrightarrow> agree n g k \<Longrightarrow> agree n h k"
  by (auto simp: agree_def)

lemma agree_mono: "agree m h g \<Longrightarrow> m \<le> n \<Longrightarrow> agree n h g"
  by (auto simp: agree_def)

lemma agree_snoc: "agree n h (h @ [c])"
  by (simp add: agree_def nth_append)

lemma agree_length: "agree n h g \<Longrightarrow> length h \<le> length g"
  by (simp add: agree_def)

text \<open>
  A representation \<open>rep n h x v\<close> says that \<open>x\<close> stands for the value \<open>v\<close> in the heap \<open>h\<close> and reaches only cells from the address \<open>n\<close> on.  A deep copy
  leaves all cells as they are, and its result stands for the same value by means of new cells only.
\<close>

locale deep_copy =
  fixes copy :: "cells \<Rightarrow> 'x \<Rightarrow> cells \<times> 'x" and rep :: "nat \<Rightarrow> cells \<Rightarrow> 'x \<Rightarrow> 'v \<Rightarrow> bool"
  assumes copies: "rep 0 h x v \<Longrightarrow> copy h x = (h', y) \<Longrightarrow> agree 0 h h' \<and> rep (length h) h' y v"
    and frame: "rep n h x v \<Longrightarrow> agree n h g \<Longrightarrow> rep n g x v"
    and mono: "rep n h x v \<Longrightarrow> m \<le> n \<Longrightarrow> rep m h x v"
begin

text \<open>A copy made after others.\<close>

lemma copies_after:
  assumes "agree 0 h0 h" "rep 0 h0 x v" "copy h x = (h', y)"
  shows "agree 0 h h'" "agree 0 h0 h'" "rep (length h0) h' y v"
proof -
  from copies [OF frame [OF assms(2,1)] assms(3)] have c: "agree 0 h h'" "rep (length h) h' y v" by simp_all
  from c(1) show "agree 0 h h'" .
  from agree_trans [OF assms(1) c(1)] show "agree 0 h0 h'" .
  from mono [OF c(2) agree_length [OF assms(1)]] show "rep (length h0) h' y v" .
qed

lemma lift: "rep n h x v \<Longrightarrow> agree 0 h g \<Longrightarrow> rep n g x v"
  by (rule frame) (auto intro: agree_mono)

text \<open>Whatever is written to the cells of before, the copy keeps its value; and writing to the new cells leaves the original alone.\<close>

lemma independent:
  assumes "rep 0 h x v" "copy h x = (h', y)"
  shows "agree (length h) h' g \<Longrightarrow> rep 0 g y v" "agree 0 h g \<Longrightarrow> rep 0 g x v"
  using copies [OF assms] frame [of "length h" h' y v g] mono [of "length h" g y v 0] lift [OF assms(1)] by auto

end

section \<open>Copies of pointers, slices and structs\<close>

definition rep_value :: "nat \<Rightarrow> cells \<Rightarrow> 'x \<Rightarrow> 'x \<Rightarrow> bool" where
  "rep_value n h x v \<longleftrightarrow> x = v"

definition rep_ptr :: "('x \<Rightarrow> cell) \<Rightarrow> (nat \<Rightarrow> cells \<Rightarrow> 'x \<Rightarrow> 'v \<Rightarrow> bool) \<Rightarrow> nat \<Rightarrow> cells \<Rightarrow> ptr \<Rightarrow> 'v option \<Rightarrow> bool" where
  "rep_ptr mk R n h p v \<longleftrightarrow>
     (case p of None \<Rightarrow> v = None | Some a \<Rightarrow> n \<le> a \<and> a < length h \<and> (\<exists>x w. h ! a = mk x \<and> v = Some w \<and> R n h x w))"

definition rep_list :: "(nat \<Rightarrow> cells \<Rightarrow> 'x \<Rightarrow> 'v \<Rightarrow> bool) \<Rightarrow> nat \<Rightarrow> cells \<Rightarrow> 'x list \<Rightarrow> 'v list \<Rightarrow> bool" where
  "rep_list R n h xs vs \<longleftrightarrow> list_all2 (R n h) xs vs"

text \<open>A slice that is read as a list: nil is the empty one.\<close>

definition rep_slice :: "('x list \<Rightarrow> cell) \<Rightarrow> (nat \<Rightarrow> cells \<Rightarrow> 'x \<Rightarrow> 'v \<Rightarrow> bool) \<Rightarrow> nat \<Rightarrow> cells \<Rightarrow> ptr \<Rightarrow> 'v list \<Rightarrow> bool" where
  "rep_slice mk R n h p vs \<longleftrightarrow> (\<exists>v. rep_ptr mk (rep_list R) n h p v \<and> vs = (case v of None \<Rightarrow> [] | Some l \<Rightarrow> l))"

definition copy_pair ::
  "(cells \<Rightarrow> 'x \<Rightarrow> cells \<times> 'x) \<Rightarrow> (cells \<Rightarrow> 'y \<Rightarrow> cells \<times> 'y) \<Rightarrow> cells \<Rightarrow> 'x \<times> 'y \<Rightarrow> cells \<times> 'x \<times> 'y" where
  "copy_pair c d h p = (let (h, x) = c h (fst p); (h, y) = d h (snd p) in (h, x, y))"

definition rep_pair ::
  "(nat \<Rightarrow> cells \<Rightarrow> 'x \<Rightarrow> 'v \<Rightarrow> bool) \<Rightarrow> (nat \<Rightarrow> cells \<Rightarrow> 'y \<Rightarrow> 'w \<Rightarrow> bool) \<Rightarrow> nat \<Rightarrow> cells \<Rightarrow> 'x \<times> 'y \<Rightarrow> 'v \<times> 'w \<Rightarrow> bool" where
  "rep_pair R S n h p v \<longleftrightarrow> R n h (fst p) (fst v) \<and> S n h (snd p) (snd v)"

lemma rep_value_eq: "rep_value n h = (=)"
  by (simp add: fun_eq_iff rep_value_def)

lemma value_copy: "deep_copy copy_value rep_value"
  by unfold_locales (auto simp: copy_value_def rep_value_def agree_refl)

lemma pair_copy:
  assumes c: "deep_copy c R" and d: "deep_copy d S"
  shows "deep_copy (copy_pair c d) (rep_pair R S)"
proof
  fix h p v h' q
  assume rep: "rep_pair R S 0 h p v" and copy: "copy_pair c d h p = (h', q)"
  from copy obtain h1 x y where steps: "c h (fst p) = (h1, x)" "d h1 (snd p) = (h', y)" "q = (x, y)"
    by (auto simp: copy_pair_def Let_def split: prod.split_asm)
  from rep have reps: "R 0 h (fst p) (fst v)" "S 0 h (snd p) (snd v)" by (simp_all add: rep_pair_def)
  note first = deep_copy.copies [OF c reps(1) steps(1)]
  note second = deep_copy.copies_after [OF d conjunct1 [OF first] reps(2) steps(2)]
  from deep_copy.lift [OF c conjunct2 [OF first] second(1)] second(2,3)
  show "agree 0 h h' \<and> rep_pair R S (length h) h' q v" by (simp add: rep_pair_def steps(3))
next
  fix n h p v g
  assume "rep_pair R S n h p v" "agree n h g"
  then show "rep_pair R S n g p v" using deep_copy.frame [OF c] deep_copy.frame [OF d] by (auto simp: rep_pair_def)
next
  fix n h p v m
  assume "rep_pair R S n h p v" "m \<le> n"
  then show "rep_pair R S m h p v" using deep_copy.mono [OF c] deep_copy.mono [OF d] by (auto simp: rep_pair_def)
qed

lemma ptr_copy:
  assumes c: "deep_copy copy R" and un: "\<And>x. un (mk x) = x"
  shows "deep_copy (copy_ptr mk un copy) (rep_ptr mk R)"
proof
  fix h p v h' q
  assume rep: "rep_ptr mk R 0 h p v" and cp: "copy_ptr mk un copy h p = (h', q)"
  show "agree 0 h h' \<and> rep_ptr mk R (length h) h' q v"
  proof (cases p)
    case None
    with rep cp show ?thesis by (simp add: rep_ptr_def copy_ptr_def agree_refl)
  next
    case (Some a)
    with rep obtain x w where x: "h ! a = mk x" "v = Some w" "R 0 h x w" by (auto simp: rep_ptr_def)
    obtain h2 y where step: "copy (h @ [mk x]) x = (h2, y)" by fastforce
    with cp Some x(1) un have h': "h' = h2[length h := mk y]" "q = Some (length h)" by (auto simp: copy_ptr_def Let_def)
    note after = deep_copy.copies_after [OF c agree_snoc x(3) step]
    from deep_copy.copies [OF c deep_copy.lift [OF c x(3) agree_snoc] step] have r: "R (Suc (length h)) h2 y w" by simp
    have "agree (Suc (length h)) h2 h'" by (simp add: agree_def h')
    with r have "R (length h) h' y w" using deep_copy.frame [OF c] deep_copy.mono [OF c] by (meson Suc_leD order_refl)
    moreover from after(1) have "length h < length h2" by (simp add: agree_def)
    moreover from after(2) have "agree 0 h h'" by (auto simp: agree_def h')
    ultimately show ?thesis by (auto simp: rep_ptr_def h' x(2))
  qed
next
  fix n h p v g
  assume "rep_ptr mk R n h p v" "agree n h g"
  then show "rep_ptr mk R n g p v"
    by (cases p) (auto simp: rep_ptr_def agree_def intro: deep_copy.frame [OF c, unfolded agree_def])
next
  fix n h p v m
  assume "rep_ptr mk R n h p v" "m \<le> n"
  then show "rep_ptr mk R m h p v" by (cases p) (auto simp: rep_ptr_def intro: deep_copy.mono [OF c])
qed

lemma elements_copied:
  assumes c: "deep_copy copy R"
  shows "agree 0 h0 h \<Longrightarrow> list_all2 (R 0 h0) xs vs \<Longrightarrow> copy_elements copy h xs = (h', ys) \<Longrightarrow>
    agree 0 h h' \<and> agree 0 h0 h' \<and> list_all2 (R (length h0) h') ys vs"
proof (induction xs arbitrary: h vs ys)
  case Nil
  then show ?case by (auto simp: agree_refl)
next
  case (Cons x xs)
  then obtain v vs' where vs: "vs = v # vs'" "R 0 h0 x v" "list_all2 (R 0 h0) xs vs'" by (auto simp: list_all2_Cons1)
  from Cons.prems(3) obtain h1 y ys' where steps: "copy h x = (h1, y)" "copy_elements copy h1 xs = (h', ys')" "ys = y # ys'"
    by (auto simp: Let_def split: prod.split_asm)
  note first = deep_copy.copies_after [OF c Cons.prems(1) vs(2) steps(1)]
  from Cons.IH [OF first(2) vs(3) steps(2)] first(1) deep_copy.lift [OF c first(3)] show ?case
    by (auto simp: vs(1) steps(3) intro: agree_trans)
qed

lemma list_copy:
  assumes c: "deep_copy copy R"
  shows "deep_copy (copy_elements copy) (rep_list R)"
proof
  fix h xs vs h' ys
  assume "rep_list R 0 h xs vs" "copy_elements copy h xs = (h', ys)"
  then show "agree 0 h h' \<and> rep_list R (length h) h' ys vs" using elements_copied [OF c agree_refl] by (simp add: rep_list_def)
next
  fix n h xs vs g
  assume "rep_list R n h xs vs" "agree n h g"
  then show "rep_list R n g xs vs" unfolding rep_list_def by (auto elim!: list_all2_mono deep_copy.frame [OF c])
next
  fix n h xs vs m
  assume "rep_list R n h xs vs" "m \<le> n"
  then show "rep_list R m h xs vs" unfolding rep_list_def by (auto elim!: list_all2_mono deep_copy.mono [OF c])
qed

lemma slice_copy:
  assumes "deep_copy copy R" "\<And>x. un (mk x) = x"
  shows "deep_copy (copy_ptr mk un (copy_elements copy)) (rep_slice mk R)"
proof -
  have p: "deep_copy (copy_ptr mk un (copy_elements copy)) (rep_ptr mk (rep_list R))" using assms by (intro ptr_copy list_copy)
  show ?thesis
  proof
    fix h p vs h' q
    assume "rep_slice mk R 0 h p vs" and step: "copy_ptr mk un (copy_elements copy) h p = (h', q)"
    then obtain v where v: "rep_ptr mk (rep_list R) 0 h p v" "vs = (case v of None \<Rightarrow> [] | Some l \<Rightarrow> l)" by (auto simp: rep_slice_def)
    from deep_copy.copies [OF p v(1) step] v(2) show "agree 0 h h' \<and> rep_slice mk R (length h) h' q vs" unfolding rep_slice_def by blast
  next
    fix n h p vs g
    assume "rep_slice mk R n h p vs" "agree n h g"
    then show "rep_slice mk R n g p vs" unfolding rep_slice_def by (blast intro: deep_copy.frame [OF p])
  next
    fix n h p vs m
    assume "rep_slice mk R n h p vs" "m \<le> n"
    then show "rep_slice mk R m h p vs" unfolding rep_slice_def by (blast intro: deep_copy.mono [OF p])
  qed
qed

text \<open>A struct is copied field by field: its fields as nested pairs, and back.\<close>

lemma struct_copy:
  assumes c: "deep_copy c R" and copy: "\<And>h x. copy h x = (case c h (to x) of (h', t) \<Rightarrow> (h', fro x t))"
    and to: "\<And>x t. to (fro x t) = t" and rep: "\<And>n h x v. rep n h x v \<longleftrightarrow> R n h (to x) (val v)"
  shows "deep_copy copy rep"
proof
  fix h x v h' y
  assume "rep 0 h x v" "copy h x = (h', y)"
  then show "agree 0 h h' \<and> rep (length h) h' y v" using deep_copy.copies [OF c, of h "to x" "val v"] by (auto simp: rep copy to split: prod.split_asm)
qed (unfold rep, erule (1) deep_copy.frame [OF c], erule (1) deep_copy.mono [OF c])

section \<open>The types of the resource\<close>

abbreviation rep_string :: "nat \<Rightarrow> cells \<Rightarrow> ptr \<Rightarrow> string option \<Rightarrow> bool" where
  "rep_string \<equiv> rep_ptr CString rep_value"

abbreviation rep_strings :: "nat \<Rightarrow> cells \<Rightarrow> ptr \<Rightarrow> string list option \<Rightarrow> bool" where
  "rep_strings \<equiv> rep_ptr CStrings (rep_list rep_value)"

abbreviation rep_bool :: "nat \<Rightarrow> cells \<Rightarrow> ptr \<Rightarrow> bool option \<Rightarrow> bool" where
  "rep_bool \<equiv> rep_ptr CBool rep_value"

lemma scalar_copies:
  "deep_copy copy_string rep_string" "deep_copy copy_bool rep_bool" "deep_copy copy_strings rep_strings"
  "deep_copy copy_strings (rep_slice CStrings rep_value)"
  unfolding copy_string_def copy_bool_def copy_strings_def by (intro ptr_copy slice_copy list_copy value_copy; simp)+

definition rep_HelmTarget :: "nat \<Rightarrow> cells \<Rightarrow> pHelmTarget \<Rightarrow> HelmTarget \<Rightarrow> bool" where
  "rep_HelmTarget n h x v \<longleftrightarrow>
     rep_string n h (pht_Name x) (ht_Name v) \<and>
     rep_string n h (pht_Tag x) (ht_Tag v) \<and>
     rep_string n h (pht_Spec x) (ht_Spec v)"

lemma HelmTarget_copy: "deep_copy HelmTarget_DeepCopyInto rep_HelmTarget"
  by (rule struct_copy [OF pair_copy [OF scalar_copies(1) pair_copy [OF scalar_copies(1) scalar_copies(1)]],
        where to = "\<lambda>x. (pht_Name x, pht_Tag x, pht_Spec x)" and val = "\<lambda>v. (ht_Name v, ht_Tag v, ht_Spec v)"
        and fro = "\<lambda>x (a, b, c). x\<lparr>pht_Name := a, pht_Tag := b, pht_Spec := c\<rparr>"])
    (auto simp: HelmTarget_DeepCopyInto_def rep_HelmTarget_def copy_pair_def copy_value_def rep_pair_def Let_def split: prod.split)

definition rep_KustomizeTarget :: "nat \<Rightarrow> cells \<Rightarrow> pKustomizeTarget \<Rightarrow> KustomizeTarget \<Rightarrow> bool" where
  "rep_KustomizeTarget n h x v \<longleftrightarrow>
     rep_string n h (pkt_Name x) (kt_Name v)"

lemma KustomizeTarget_copy: "deep_copy KustomizeTarget_DeepCopyInto rep_KustomizeTarget"
  by (rule struct_copy [OF scalar_copies(1),
        where to = "\<lambda>x. pkt_Name x" and val = "\<lambda>v. kt_Name v"
        and fro = "\<lambda>x a. x\<lparr>pkt_Name := a\<rparr>"])
    (auto simp: KustomizeTarget_DeepCopyInto_def rep_KustomizeTarget_def copy_pair_def copy_value_def rep_pair_def Let_def split: prod.split)

definition rep_PluginTarget :: "nat \<Rightarrow> cells \<Rightarrow> pPluginTarget \<Rightarrow> PluginTarget \<Rightarrow> bool" where
  "rep_PluginTarget n h x v \<longleftrightarrow>
     rep_string n h (ppt_Name x) (pt_Name v) \<and>
     rep_string n h (ppt_Tag x) (pt_Tag v) \<and>
     rep_string n h (ppt_Spec x) (pt_Spec v)"

lemma PluginTarget_copy: "deep_copy PluginTarget_DeepCopyInto rep_PluginTarget"
  by (rule struct_copy [OF pair_copy [OF scalar_copies(1) pair_copy [OF scalar_copies(1) scalar_copies(1)]],
        where to = "\<lambda>x. (ppt_Name x, ppt_Tag x, ppt_Spec x)" and val = "\<lambda>v. (pt_Name v, pt_Tag v, pt_Spec v)"
        and fro = "\<lambda>x (a, b, c). x\<lparr>ppt_Name := a, ppt_Tag := b, ppt_Spec := c\<rparr>"])
    (auto simp: PluginTarget_DeepCopyInto_def rep_PluginTarget_def copy_pair_def copy_value_def rep_pair_def Let_def split: prod.split)

definition rep_ManifestTarget :: "nat \<Rightarrow> cells \<Rightarrow> pManifestTarget \<Rightarrow> ManifestTarget \<Rightarrow> bool" where
  "rep_ManifestTarget n h x v \<longleftrightarrow>
     rep_ptr CHelmTarget rep_HelmTarget n h (pmt_Helm x) (mt_Helm v) \<and>
     rep_ptr CKustomizeTarget rep_KustomizeTarget n h (pmt_Kustomize x) (mt_Kustomize v) \<and>
     rep_ptr CPluginTarget rep_PluginTarget n h (pmt_Plugin x) (mt_Plugin v)"

lemma ManifestTarget_copy: "deep_copy ManifestTarget_DeepCopyInto rep_ManifestTarget"
  by (rule struct_copy [OF pair_copy [OF ptr_copy [OF HelmTarget_copy cell.sel(9)] pair_copy [OF ptr_copy [OF KustomizeTarget_copy cell.sel(10)] ptr_copy [OF PluginTarget_copy cell.sel(11)]]],
        where to = "\<lambda>x. (pmt_Helm x, pmt_Kustomize x, pmt_Plugin x)" and val = "\<lambda>v. (mt_Helm v, mt_Kustomize v, mt_Plugin v)"
        and fro = "\<lambda>x (a, b, c). x\<lparr>pmt_Helm := a, pmt_Kustomize := b, pmt_Plugin := c\<rparr>"])
    (auto simp: ManifestTarget_DeepCopyInto_def rep_ManifestTarget_def copy_pair_def copy_value_def rep_pair_def Let_def split: prod.split)

definition rep_CommonUpdateSettings :: "nat \<Rightarrow> cells \<Rightarrow> pCommonUpdateSettings \<Rightarrow> CommonUpdateSettings \<Rightarrow> bool" where
  "rep_CommonUpdateSettings n h x v \<longleftrightarrow>
     rep_string n h (pcu_UpdateStrategy x) (cus_UpdateStrategy v) \<and>
     rep_bool n h (pcu_ForceUpdate x) (cus_ForceUpdate v) \<and>
     rep_string n h (pcu_AllowTags x) (cus_AllowTags v) \<and>
     rep_strings n h (pcu_IgnoreTags x) (cus_IgnoreTags v) \<and>
     rep_string n h (pcu_PullSecret x) (cus_PullSecret v) \<and>
     rep_strings n h (pcu_Platforms x) (cus_Platforms v)"

lemma CommonUpdateSettings_copy: "deep_copy CommonUpdateSettings_DeepCopyInto rep_CommonUpdateSettings"
  by (rule struct_copy [OF pair_copy [OF scalar_copies(1) pair_copy [OF scalar_copies(2) pair_copy [OF scalar_copies(1) pair_copy [OF scalar_copies(3) pair_copy [OF scalar_copies(1) scalar_copies(3)]]]]],
        where to = "\<lambda>x. (pcu_UpdateStrategy x, pcu_ForceUpdate x, pcu_AllowTags x, pcu_IgnoreTags x, pcu_PullSecret x, pcu_Platforms x)" and val = "\<lambda>v. (cus_UpdateStrategy v, cus_ForceUpdate v, cus_AllowTags v, cus_IgnoreTags v, cus_PullSecret v, cus_Platforms v)"
        and fro = "\<lambda>x (a, b, c, d, e, f). x\<lparr>pcu_UpdateStrategy := a, pcu_ForceUpdate := b, pcu_AllowTags := c, pcu_IgnoreTags := d, pcu_PullSecret := e, pcu_Platforms := f\<rparr>"])
    (auto simp: CommonUpdateSettings_DeepCopyInto_def rep_CommonUpdateSettings_def copy_pair_def copy_value_def rep_pair_def Let_def split: prod.split)

definition rep_ImagesVerification :: "nat \<Rightarrow> cells \<Rightarrow> pImagesVerification \<Rightarrow> ImagesVerification \<Rightarrow> bool" where
  "rep_ImagesVerification n h x v \<longleftrightarrow>
     rep_bool n h (piv_Enabled x) (iv_Enabled v) \<and>
     rep_ptr CSecretRef rep_value n h (piv_CosignKey x) (iv_CosignKey v)"

lemma ImagesVerification_copy: "deep_copy ImagesVerification_DeepCopyInto rep_ImagesVerification"
  by (rule struct_copy [OF pair_copy [OF scalar_copies(2) ptr_copy [OF value_copy cell.sel(7)]],
        where to = "\<lambda>x. (piv_Enabled x, piv_CosignKey x)" and val = "\<lambda>v. (iv_Enabled v, iv_CosignKey v)"
        and fro = "\<lambda>x (a, b). x\<lparr>piv_Enabled := a, piv_CosignKey := b\<rparr>"])
    (auto simp: ImagesVerification_DeepCopyInto_def rep_ImagesVerification_def copy_pair_def copy_value_def rep_pair_def Let_def split: prod.split)

definition rep_PullRequest :: "nat \<Rightarrow> cells \<Rightarrow> pPullRequest \<Rightarrow> PullRequestSpec \<Rightarrow> bool" where
  "rep_PullRequest n h x v \<longleftrightarrow>
     rep_ptr CGitHub rep_value n h (ppr_GitHub x) (pr_GitHub v) \<and>
     rep_ptr CGitLab rep_value n h (ppr_GitLab x) (pr_GitLab v) \<and>
     rep_slice CStrings rep_value n h (ppr_Labels x) (pr_Labels v)"

lemma PullRequest_copy: "deep_copy PullRequest_DeepCopyInto rep_PullRequest"
  by (rule struct_copy [OF pair_copy [OF ptr_copy [where mk = CGitHub and un = un_CGitHub, OF value_copy cell.sel(5)] pair_copy [OF ptr_copy [where mk = CGitLab and un = un_CGitLab, OF value_copy cell.sel(6)] scalar_copies(4)]],
        where to = "\<lambda>x. (ppr_GitHub x, ppr_GitLab x, ppr_Labels x)" and val = "\<lambda>v. (pr_GitHub v, pr_GitLab v, pr_Labels v)"
        and fro = "\<lambda>x (a, b, c). x\<lparr>ppr_GitHub := a, ppr_GitLab := b, ppr_Labels := c\<rparr>"])
    (auto simp: PullRequest_DeepCopyInto_def rep_PullRequest_def copy_pair_def copy_value_def rep_pair_def Let_def split: prod.split)

definition rep_GitConfig :: "nat \<Rightarrow> cells \<Rightarrow> pGitConfig \<Rightarrow> GitConfig \<Rightarrow> bool" where
  "rep_GitConfig n h x v \<longleftrightarrow>
     rep_string n h (pgc_Repository x) (gc_Repository v) \<and>
     rep_string n h (pgc_Branch x) (gc_Branch v) \<and>
     rep_string n h (pgc_WriteBackTarget x) (gc_WriteBackTarget v) \<and>
     rep_ptr CPullRequest rep_PullRequest n h (pgc_PullRequest x) (gc_PullRequest v)"

lemma GitConfig_copy: "deep_copy GitConfig_DeepCopyInto rep_GitConfig"
  by (rule struct_copy [OF pair_copy [OF scalar_copies(1) pair_copy [OF scalar_copies(1) pair_copy [OF scalar_copies(1) ptr_copy [OF PullRequest_copy cell.sel(15)]]]],
        where to = "\<lambda>x. (pgc_Repository x, pgc_Branch x, pgc_WriteBackTarget x, pgc_PullRequest x)" and val = "\<lambda>v. (gc_Repository v, gc_Branch v, gc_WriteBackTarget v, gc_PullRequest v)"
        and fro = "\<lambda>x (a, b, c, d). x\<lparr>pgc_Repository := a, pgc_Branch := b, pgc_WriteBackTarget := c, pgc_PullRequest := d\<rparr>"])
    (auto simp: GitConfig_DeepCopyInto_def rep_GitConfig_def copy_pair_def copy_value_def rep_pair_def Let_def split: prod.split)

definition rep_WriteBackConfig :: "nat \<Rightarrow> cells \<Rightarrow> pWriteBackConfig \<Rightarrow> WriteBackSpec \<Rightarrow> bool" where
  "rep_WriteBackConfig n h x v \<longleftrightarrow>
     rep_string n h (pwb_Method x) (ws_Method v) \<and>
     rep_ptr CGitConfig rep_GitConfig n h (pwb_GitConfig x) (ws_GitConfig v)"

lemma WriteBackConfig_copy: "deep_copy WriteBackConfig_DeepCopyInto rep_WriteBackConfig"
  by (rule struct_copy [OF pair_copy [OF scalar_copies(1) ptr_copy [OF GitConfig_copy cell.sel(16)]],
        where to = "\<lambda>x. (pwb_Method x, pwb_GitConfig x)" and val = "\<lambda>v. (ws_Method v, ws_GitConfig v)"
        and fro = "\<lambda>x (a, b). x\<lparr>pwb_Method := a, pwb_GitConfig := b\<rparr>"])
    (auto simp: WriteBackConfig_DeepCopyInto_def rep_WriteBackConfig_def copy_pair_def copy_value_def rep_pair_def Let_def split: prod.split)

definition rep_ImageConfig :: "nat \<Rightarrow> cells \<Rightarrow> pImageConfig \<Rightarrow> ImageConfig \<Rightarrow> bool" where
  "rep_ImageConfig n h x v \<longleftrightarrow>
     rep_value n h (pic_Alias x) (ic_Alias v) \<and>
     rep_value n h (pic_ImageName x) (ic_ImageName v) \<and>
     rep_ptr CCommonUpdateSettings rep_CommonUpdateSettings n h (pic_CommonUpdateSettings x) (ic_CommonUpdateSettings v) \<and>
     rep_ptr CManifestTarget rep_ManifestTarget n h (pic_ManifestTarget x) (ic_ManifestTarget v) \<and>
     rep_ptr CImagesVerification rep_ImagesVerification n h (pic_ImagesVerification x) (ic_ImagesVerification v)"

lemma ImageConfig_copy: "deep_copy ImageConfig_DeepCopyInto rep_ImageConfig"
  by (rule struct_copy [OF pair_copy [OF value_copy pair_copy [OF value_copy pair_copy [OF ptr_copy [OF CommonUpdateSettings_copy cell.sel(13)] pair_copy [OF ptr_copy [OF ManifestTarget_copy cell.sel(12)] ptr_copy [OF ImagesVerification_copy cell.sel(14)]]]]],
        where to = "\<lambda>x. (pic_Alias x, pic_ImageName x, pic_CommonUpdateSettings x, pic_ManifestTarget x, pic_ImagesVerification x)" and val = "\<lambda>v. (ic_Alias v, ic_ImageName v, ic_CommonUpdateSettings v, ic_ManifestTarget v, ic_ImagesVerification v)"
        and fro = "\<lambda>x (a, b, c, d, e). x\<lparr>pic_Alias := a, pic_ImageName := b, pic_CommonUpdateSettings := c, pic_ManifestTarget := d, pic_ImagesVerification := e\<rparr>"])
    (auto simp: ImageConfig_DeepCopyInto_def rep_ImageConfig_def copy_pair_def copy_value_def rep_pair_def Let_def split: prod.split)

definition rep_ApplicationRef :: "nat \<Rightarrow> cells \<Rightarrow> pApplicationRef \<Rightarrow> ApplicationRef \<Rightarrow> bool" where
  "rep_ApplicationRef n h x v \<longleftrightarrow>
     rep_value n h (par_NamePattern x) (ar_NamePattern v) \<and>
     rep_ptr CLabelSelector rep_value n h (par_LabelSelectors x) (ar_LabelSelectors v) \<and>
     rep_bool n h (par_UseAnnotations x) (ar_UseAnnotations v) \<and>
     rep_ptr CImagesVerification rep_ImagesVerification n h (par_ImagesVerification x) (ar_ImagesVerification v) \<and>
     rep_ptr CCommonUpdateSettings rep_CommonUpdateSettings n h (par_CommonUpdateSettings x) (ar_CommonUpdateSettings v) \<and>
     rep_ptr CWriteBackConfig rep_WriteBackConfig n h (par_WriteBackConfig x) (ar_WriteBackConfig v) \<and>
     rep_slice CImageConfigs rep_ImageConfig n h (par_Images x) (ar_Images v)"

lemma ApplicationRef_copy: "deep_copy ApplicationRef_DeepCopyInto rep_ApplicationRef"
  by (rule struct_copy [OF pair_copy [OF value_copy pair_copy [OF ptr_copy [OF value_copy cell.sel(8)] pair_copy [OF scalar_copies(2) pair_copy [OF ptr_copy [OF ImagesVerification_copy cell.sel(14)] pair_copy [OF ptr_copy [OF CommonUpdateSettings_copy cell.sel(13)] pair_copy [OF ptr_copy [OF WriteBackConfig_copy cell.sel(17)] slice_copy [OF ImageConfig_copy cell.sel(18)]]]]]]],
        where to = "\<lambda>x. (par_NamePattern x, par_LabelSelectors x, par_UseAnnotations x, par_ImagesVerification x, par_CommonUpdateSettings x, par_WriteBackConfig x, par_Images x)" and val = "\<lambda>v. (ar_NamePattern v, ar_LabelSelectors v, ar_UseAnnotations v, ar_ImagesVerification v, ar_CommonUpdateSettings v, ar_WriteBackConfig v, ar_Images v)"
        and fro = "\<lambda>x (a, b, c, d, e, f, g). x\<lparr>par_NamePattern := a, par_LabelSelectors := b, par_UseAnnotations := c, par_ImagesVerification := d, par_CommonUpdateSettings := e, par_WriteBackConfig := f, par_Images := g\<rparr>"])
    (auto simp: ApplicationRef_DeepCopyInto_def rep_ApplicationRef_def copy_pair_def copy_value_def rep_pair_def Let_def split: prod.split)

definition rep_ImageUpdaterSpec :: "nat \<Rightarrow> cells \<Rightarrow> pImageUpdaterSpec \<Rightarrow> ImageUpdaterSpec \<Rightarrow> bool" where
  "rep_ImageUpdaterSpec n h x v \<longleftrightarrow>
     rep_ptr CCommonUpdateSettings rep_CommonUpdateSettings n h (psp_CommonUpdateSettings x) (is_CommonUpdateSettings v) \<and>
     rep_ptr CWriteBackConfig rep_WriteBackConfig n h (psp_WriteBackConfig x) (is_WriteBackConfig v) \<and>
     rep_slice CApplicationRefs rep_ApplicationRef n h (psp_ApplicationRefs x) (is_ApplicationRefs v) \<and>
     rep_ptr CImagesVerification rep_ImagesVerification n h (psp_ImagesVerification x) (is_ImagesVerification v)"

lemma ImageUpdaterSpec_copy: "deep_copy ImageUpdaterSpec_DeepCopyInto rep_ImageUpdaterSpec"
  by (rule struct_copy [OF pair_copy [OF ptr_copy [OF CommonUpdateSettings_copy cell.sel(13)] pair_copy [OF ptr_copy [OF WriteBackConfig_copy cell.sel(17)] pair_copy [OF slice_copy [OF ApplicationRef_copy cell.sel(19)] ptr_copy [OF ImagesVerification_copy cell.sel(14)]]]],
        where to = "\<lambda>x. (psp_CommonUpdateSettings x, psp_WriteBackConfig x, psp_ApplicationRefs x, psp_ImagesVerification x)" and val = "\<lambda>v. (is_CommonUpdateSettings v, is_WriteBackConfig v, is_ApplicationRefs v, is_ImagesVerification v)"
        and fro = "\<lambda>x (a, b, c, d). x\<lparr>psp_CommonUpdateSettings := a, psp_WriteBackConfig := b, psp_ApplicationRefs := c, psp_ImagesVerification := d\<rparr>"])
    (auto simp: ImageUpdaterSpec_DeepCopyInto_def rep_ImageUpdaterSpec_def copy_pair_def copy_value_def rep_pair_def Let_def split: prod.split)

definition rep_ImageUpdaterStatus :: "nat \<Rightarrow> cells \<Rightarrow> pImageUpdaterStatus \<Rightarrow> ImageUpdaterStatus \<Rightarrow> bool" where
  "rep_ImageUpdaterStatus n h x v \<longleftrightarrow>
     rep_value n h (pst_ObservedGeneration x) (ss_ObservedGeneration v) \<and>
     rep_ptr CTime rep_value n h (pst_LastCheckedAt x) (ss_LastCheckedAt v) \<and>
     rep_ptr CTime rep_value n h (pst_LastUpdatedAt x) (ss_LastUpdatedAt v) \<and>
     rep_value n h (pst_ApplicationsMatched x) (ss_ApplicationsMatched v) \<and>
     rep_value n h (pst_ImagesManaged x) (ss_ImagesManaged v) \<and>
     rep_slice CRecentUpdates rep_value n h (pst_RecentUpdates x) (ss_RecentUpdates v) \<and>
     rep_slice CConditions rep_value n h (pst_Conditions x) (ss_Conditions v)"

lemma ImageUpdaterStatus_copy: "deep_copy ImageUpdaterStatus_DeepCopyInto rep_ImageUpdaterStatus"
  by (rule struct_copy [OF pair_copy [OF value_copy pair_copy [OF ptr_copy [OF value_copy cell.sel(3)] pair_copy [OF ptr_copy [OF value_copy cell.sel(3)] pair_copy [OF value_copy pair_copy [OF value_copy pair_copy [OF slice_copy [OF value_copy cell.sel(20)] slice_copy [OF value_copy cell.sel(21)]]]]]]],
        where to = "\<lambda>x. (pst_ObservedGeneration x, pst_LastCheckedAt x, pst_LastUpdatedAt x, pst_ApplicationsMatched x, pst_ImagesManaged x, pst_RecentUpdates x, pst_Conditions x)" and val = "\<lambda>v. (ss_ObservedGeneration v, ss_LastCheckedAt v, ss_LastUpdatedAt v, ss_ApplicationsMatched v, ss_ImagesManaged v, ss_RecentUpdates v, ss_Conditions v)"
        and fro = "\<lambda>x (a, b, c, d, e, f, g). x\<lparr>pst_ObservedGeneration := a, pst_LastCheckedAt := b, pst_LastUpdatedAt := c, pst_ApplicationsMatched := d, pst_ImagesManaged := e, pst_RecentUpdates := f, pst_Conditions := g\<rparr>"])
    (auto simp: ImageUpdaterStatus_DeepCopyInto_def rep_ImageUpdaterStatus_def copy_pair_def copy_value_def rep_pair_def Let_def split: prod.split)

definition meta_of :: "ImageUpdater \<Rightarrow> object_meta" where
  "meta_of v = \<lparr>om_Namespace = iu_Namespace v, om_Name = iu_Name v, om_Generation = iu_Generation v, om_Deleted = iu_Deleted v, om_Finalizers = iu_Finalizers v\<rparr>"

definition rep_ImageUpdater :: "nat \<Rightarrow> cells \<Rightarrow> pImageUpdater \<Rightarrow> ImageUpdater \<Rightarrow> bool" where
  "rep_ImageUpdater n h x v \<longleftrightarrow>
     rep_value n h (piu_ObjectMeta x) (meta_of v) \<and> rep_ImageUpdaterSpec n h (piu_Spec x) (iu_Spec v) \<and>
     rep_ImageUpdaterStatus n h (piu_Status x) (iu_Status v)"

lemma ImageUpdater_copy: "deep_copy ImageUpdater_DeepCopyInto rep_ImageUpdater"
  by (rule struct_copy [OF pair_copy [OF value_copy pair_copy [OF ImageUpdaterSpec_copy ImageUpdaterStatus_copy]],
        where to = "\<lambda>x. (piu_ObjectMeta x, piu_Spec x, piu_Status x)" and val = "\<lambda>v. (meta_of v, iu_Spec v, iu_Status v)"
        and fro = "\<lambda>x (a, b, c). x\<lparr>piu_ObjectMeta := a, piu_Spec := b, piu_Status := c\<rparr>"])
    (auto simp: ImageUpdater_DeepCopyInto_def rep_ImageUpdater_def copy_pair_def copy_value_def rep_pair_def Let_def split: prod.split)

interpretation updater: deep_copy ImageUpdater_DeepCopy "rep_ptr CImageUpdater rep_ImageUpdater"
  unfolding ImageUpdater_DeepCopy_def by (intro ptr_copy ImageUpdater_copy) simp

interpretation updaters: deep_copy ImageUpdaterList_DeepCopyInto "rep_slice CImageUpdaters rep_ImageUpdater"
  unfolding ImageUpdaterList_DeepCopyInto_def by (intro slice_copy ImageUpdater_copy) simp

interpretation write_back: deep_copy WriteBackConfig_DeepCopy "rep_ptr CWriteBackConfig rep_WriteBackConfig"
  unfolding WriteBackConfig_DeepCopy_def by (intro ptr_copy WriteBackConfig_copy) simp

interpretation request: deep_copy PullRequest_DeepCopy "rep_ptr CPullRequest rep_PullRequest"
  unfolding PullRequest_DeepCopy_def by (intro ptr_copy PullRequest_copy) simp

text \<open>All copies of pointers that were generated are deep copies.\<close>

lemma pointer_copies:
  "deep_copy HelmTarget_DeepCopy (rep_ptr CHelmTarget rep_HelmTarget)"
  "deep_copy KustomizeTarget_DeepCopy (rep_ptr CKustomizeTarget rep_KustomizeTarget)"
  "deep_copy PluginTarget_DeepCopy (rep_ptr CPluginTarget rep_PluginTarget)"
  "deep_copy ManifestTarget_DeepCopy (rep_ptr CManifestTarget rep_ManifestTarget)"
  "deep_copy CommonUpdateSettings_DeepCopy (rep_ptr CCommonUpdateSettings rep_CommonUpdateSettings)"
  "deep_copy ImagesVerification_DeepCopy (rep_ptr CImagesVerification rep_ImagesVerification)"
  "deep_copy GitConfig_DeepCopy (rep_ptr CGitConfig rep_GitConfig)"
  "deep_copy ImageConfig_DeepCopy (rep_ptr CImageConfig rep_ImageConfig)"
  "deep_copy ApplicationRef_DeepCopy (rep_ptr CApplicationRef rep_ApplicationRef)"
  "deep_copy ImageUpdaterSpec_DeepCopy (rep_ptr CImageUpdaterSpec rep_ImageUpdaterSpec)"
  "deep_copy ImageUpdaterStatus_DeepCopy (rep_ptr CImageUpdaterStatus rep_ImageUpdaterStatus)"
  "deep_copy PullRequestGitHub_DeepCopy (rep_ptr CGitHub rep_value)"
  "deep_copy PullRequestGitLab_DeepCopy (rep_ptr CGitLab rep_value)"
  "deep_copy SecretRef_DeepCopy (rep_ptr CSecretRef rep_value)"
  "deep_copy RecentUpdate_DeepCopy (rep_ptr CRecentUpdate rep_value)"
  unfolding HelmTarget_DeepCopy_def KustomizeTarget_DeepCopy_def PluginTarget_DeepCopy_def ManifestTarget_DeepCopy_def CommonUpdateSettings_DeepCopy_def ImagesVerification_DeepCopy_def GitConfig_DeepCopy_def ImageConfig_DeepCopy_def ApplicationRef_DeepCopy_def ImageUpdaterSpec_DeepCopy_def ImageUpdaterStatus_DeepCopy_def PullRequestGitHub_DeepCopy_def PullRequestGitLab_DeepCopy_def SecretRef_DeepCopy_def RecentUpdate_DeepCopy_def
  by (intro ptr_copy value_copy HelmTarget_copy KustomizeTarget_copy PluginTarget_copy ManifestTarget_copy CommonUpdateSettings_copy ImagesVerification_copy GitConfig_copy ImageConfig_copy ApplicationRef_copy ImageUpdaterSpec_copy ImageUpdaterStatus_copy; simp)+

lemma DeepCopyObject_copy: "ImageUpdater_DeepCopyObject = ImageUpdater_DeepCopy"
  by (intro ext) (simp add: ImageUpdater_DeepCopyObject_def split: prod.split option.split)

interpretation updater_object: deep_copy ImageUpdater_DeepCopyObject "rep_ptr CImageUpdater rep_ImageUpdater"
  unfolding DeepCopyObject_copy by (rule updater.deep_copy_axioms)

text \<open>
  A deep copy of a resource shares nothing with it.  The copy stands for the same resource and no cell of before is written; whatever
  is later written to the cells of the original, the copy keeps its value, and whatever is written to the cells of the copy, the original keeps its value.
\<close>

theorem resource_copy_independent:
  assumes "rep_ptr CImageUpdater rep_ImageUpdater 0 h p (Some v)" "ImageUpdater_DeepCopy h p = (h', q)"
  shows "rep_ptr CImageUpdater rep_ImageUpdater 0 h' q (Some v) \<and>
    (\<forall>g. length g = length h' \<and> (\<forall>a. length h \<le> a \<and> a < length h' \<longrightarrow> g ! a = h' ! a) \<longrightarrow> rep_ptr CImageUpdater rep_ImageUpdater 0 g q (Some v)) \<and>
    (\<forall>g. length g = length h' \<and> (\<forall>a < length h. g ! a = h' ! a) \<longrightarrow> rep_ptr CImageUpdater rep_ImageUpdater 0 g p (Some v))"
proof -
  have kept: "agree 0 h h'" using updater.copies [OF assms] by simp
  show ?thesis
  proof (intro conjI allI impI)
    show "rep_ptr CImageUpdater rep_ImageUpdater 0 h' q (Some v)" by (rule updater.independent(1) [OF assms agree_refl])
    fix g assume "length g = length h' \<and> (\<forall>a. length h \<le> a \<and> a < length h' \<longrightarrow> g ! a = h' ! a)"
    then have "agree (length h) h' g" by (simp add: agree_def)
    then show "rep_ptr CImageUpdater rep_ImageUpdater 0 g q (Some v)" by (rule updater.independent(1) [OF assms])
  next
    fix g assume "length g = length h' \<and> (\<forall>a < length h. g ! a = h' ! a)"
    with kept have "agree 0 h g" by (simp add: agree_def)
    then show "rep_ptr CImageUpdater rep_ImageUpdater 0 g p (Some v)" by (rule updater.independent(2) [OF assms])
  qed
qed

section \<open>Merging write-back settings\<close>

definition zero_GitConfig :: pGitConfig where
  "zero_GitConfig = \<lparr>pgc_Repository = None, pgc_Branch = None, pgc_WriteBackTarget = None, pgc_PullRequest = None\<rparr>"

definition zero_WriteBackConfig :: pWriteBackConfig where
  "zero_WriteBackConfig = \<lparr>pwb_Method = None, pwb_GitConfig = None\<rparr>"

definition set_git :: "nat \<Rightarrow> (pGitConfig \<Rightarrow> pGitConfig) \<Rightarrow> cells \<Rightarrow> cells" where
  "set_git g f h = h[g := CGitConfig (f (un_CGitConfig (h ! g)))]"

text \<open>The assignments to the merged git settings: strings of the application are shared, its pull request is copied.\<close>

definition merge_git_into :: "cells \<Rightarrow> nat \<Rightarrow> pGitConfig \<Rightarrow> cells" where
  "merge_git_into h g x =
     (let h = (if pgc_Repository x \<noteq> None then set_git g (\<lambda>c. c\<lparr>pgc_Repository := pgc_Repository x\<rparr>) h else h);
          h = (if pgc_Branch x \<noteq> None then set_git g (\<lambda>c. c\<lparr>pgc_Branch := pgc_Branch x\<rparr>) h else h);
          h = (if pgc_WriteBackTarget x \<noteq> None then set_git g (\<lambda>c. c\<lparr>pgc_WriteBackTarget := pgc_WriteBackTarget x\<rparr>) h else h)
      in if pgc_PullRequest x \<noteq> None
         then (let (h, p) = PullRequest_DeepCopy h (pgc_PullRequest x) in set_git g (\<lambda>c. c\<lparr>pgc_PullRequest := p\<rparr>) h)
         else h)"

definition set_write_back :: "nat \<Rightarrow> (pWriteBackConfig \<Rightarrow> pWriteBackConfig) \<Rightarrow> cells \<Rightarrow> cells" where
  "set_write_back m f h = h[m := CWriteBackConfig (f (un_CWriteBackConfig (h ! m)))]"

definition merge_into :: "cells \<Rightarrow> nat \<Rightarrow> pWriteBackConfig \<Rightarrow> cells" where
  "merge_into h m w =
     (let h = (if pwb_Method w \<noteq> None then set_write_back m (\<lambda>c. c\<lparr>pwb_Method := pwb_Method w\<rparr>) h else h)
      in case pwb_GitConfig w of
           None \<Rightarrow> h
         | Some ga \<Rightarrow>
             (let (h, g) =
                (case pwb_GitConfig (un_CWriteBackConfig (h ! m)) of
                   Some g \<Rightarrow> (h, g)
                 | None \<Rightarrow> (set_write_back m (\<lambda>c. c\<lparr>pwb_GitConfig := Some (length h)\<rparr>) (h @ [CGitConfig zero_GitConfig]), length h))
              in merge_git_into h g (un_CGitConfig (h ! ga))))"

definition mergeWBCSettings_heap :: "cells \<Rightarrow> ptr \<Rightarrow> ptr \<Rightarrow> cells \<times> ptr" where
  "mergeWBCSettings_heap h glob appWBC =
     (let h0 = h @ [CWriteBackConfig zero_WriteBackConfig];
          (h, merged) = (if glob \<noteq> None then WriteBackConfig_DeepCopy h0 glob else (h0, Some (length h)))
      in case appWBC of None \<Rightarrow> (h, merged) | Some a \<Rightarrow> (merge_into h (the merged) (un_CWriteBackConfig (h ! a)), merged))"

text \<open>
  A heap that grows and in which, of the cells of before, only one object is rewritten, with another object of its type; what is made of cells of other
  types keeps its value.
\<close>

definition overwrites :: "('x \<Rightarrow> cell) \<Rightarrow> nat \<Rightarrow> cells \<Rightarrow> cells \<Rightarrow> bool" where
  "overwrites mk g h h' \<longleftrightarrow>
     g < length h \<and> length h \<le> length h' \<and> (\<forall>a < length h. a \<noteq> g \<longrightarrow> h' ! a = h ! a) \<and> (\<exists>c. h ! g = mk c) \<and> (\<exists>c. h' ! g = mk c)"

lemma overwrites_trans: "overwrites mk g h h1 \<Longrightarrow> overwrites mk g h1 h2 \<Longrightarrow> overwrites mk g h h2"
  by (auto simp: overwrites_def)

lemma overwrites_agree: "overwrites mk g h h' \<Longrightarrow> agree 0 h0 h \<Longrightarrow> length h0 \<le> g \<Longrightarrow> agree 0 h0 h'"
  by (auto simp: overwrites_def agree_def)

lemma agree_overwrites: "agree 0 h h' \<Longrightarrow> g < length h \<Longrightarrow> h ! g = mk c \<Longrightarrow> overwrites mk g h h'"
  by (auto simp: overwrites_def agree_def)

lemma overwrites_ptr:
  assumes "overwrites mk' g h h'" "rep_ptr mk R 0 h p v" "\<And>x c. mk x \<noteq> mk' c" "\<And>x w. R 0 h x w \<Longrightarrow> R 0 h' x w"
  shows "rep_ptr mk R 0 h' p v"
proof (cases p)
  case (Some a)
  with assms(2) obtain x w where a: "a < length h" "h ! a = mk x" "v = Some w" "R 0 h x w" by (auto simp: rep_ptr_def)
  with assms(1,3) have "a \<noteq> g" unfolding overwrites_def by metis
  with assms(1) a have "a < length h'" "h' ! a = mk x" by (auto simp: overwrites_def)
  with a assms(4) Some show ?thesis by (auto simp: rep_ptr_def)
qed (use assms(2) in \<open>simp add: rep_ptr_def\<close>)

text \<open>What a settings object is made of.\<close>

lemma settings_cells:
  assumes "is_CGitConfig k \<or> is_CWriteBackConfig k"
  shows "CString x \<noteq> k" "CStrings l \<noteq> k" "CGitHub u \<noteq> k" "CGitLab u \<noteq> k" "CPullRequest r \<noteq> k"
  using assms by (metis cell.disc)+

lemma overwrites_GitConfig:
  assumes o: "overwrites mk g h h'" and mk: "\<And>c. is_CGitConfig (mk c) \<or> is_CWriteBackConfig (mk c)" and rep: "rep_GitConfig 0 h x v"
  shows "rep_GitConfig 0 h' x v"
proof -
  note cells = settings_cells [OF mk]
  have str: "rep_string 0 h p v \<Longrightarrow> rep_string 0 h' p v" for p v
    by (rule overwrites_ptr [OF o]) (simp_all add: cells rep_value_def)
  have "rep_strings 0 h p v \<Longrightarrow> rep_strings 0 h' p v" for p v
    by (rule overwrites_ptr [OF o]) (simp_all add: cells rep_value_eq rep_list_def)
  then have labels: "rep_slice CStrings rep_value 0 h p l \<Longrightarrow> rep_slice CStrings rep_value 0 h' p l" for p l
    unfolding rep_slice_def by blast
  have providers: "rep_ptr CGitHub rep_value 0 h p v \<Longrightarrow> rep_ptr CGitHub rep_value 0 h' p v"
    "rep_ptr CGitLab rep_value 0 h p v \<Longrightarrow> rep_ptr CGitLab rep_value 0 h' p v" for p v
    by (rule overwrites_ptr [OF o]; simp add: cells rep_value_def)+
  have "rep_ptr CPullRequest rep_PullRequest 0 h p v \<Longrightarrow> rep_ptr CPullRequest rep_PullRequest 0 h' p v" for p v
    by (rule overwrites_ptr [OF o]) (simp_all add: cells rep_PullRequest_def labels providers)
  with rep str show ?thesis by (simp add: rep_GitConfig_def)
qed

definition git_at :: "cells \<Rightarrow> nat \<Rightarrow> GitConfig \<Rightarrow> bool" where
  "git_at h g v \<longleftrightarrow> g < length h \<and> (\<exists>c. h ! g = CGitConfig c \<and> rep_GitConfig 0 h c v)"

lemma set_git_step:
  assumes "git_at h g v" "\<And>c. rep_GitConfig 0 h c v \<Longrightarrow> rep_GitConfig 0 h (f c) w"
  shows "overwrites CGitConfig g h (set_git g f h)" "git_at (set_git g f h) g w"
proof -
  from assms(1) obtain c where c: "g < length h" "h ! g = CGitConfig c" "rep_GitConfig 0 h c v" by (auto simp: git_at_def)
  then show o: "overwrites CGitConfig g h (set_git g f h)" by (simp add: overwrites_def set_git_def)
  from overwrites_GitConfig [OF o _ assms(2) [OF c(3)]] c show "git_at (set_git g f h) g w" by (simp add: git_at_def set_git_def)
qed

lemma git_at_overwrites: "git_at h g v \<Longrightarrow> overwrites CGitConfig g h h"
  by (auto simp: git_at_def overwrites_def)

text \<open>One conditional assignment of a field.\<close>

lemma set_git_string:
  assumes "git_at h g v" "rep_string 0 h p a"
    and "\<And>c. rep_GitConfig 0 h c v \<Longrightarrow> p \<noteq> None \<Longrightarrow> rep_GitConfig 0 h (f c) w" "a = None \<Longrightarrow> w = v"
  shows "overwrites CGitConfig g h (if p \<noteq> None then set_git g f h else h) \<and> git_at (if p \<noteq> None then set_git g f h else h) g w"
  using assms set_git_step [of h g v f w] git_at_overwrites [OF assms(1)] by (auto simp: rep_ptr_def)

lemma rep_string_None: "rep_string n h p a \<Longrightarrow> p = None \<longleftrightarrow> a = None"
  by (auto simp: rep_ptr_def split: option.split_asm)

lemma merge_git_into_spec:
  assumes m: "git_at h g v" and x: "rep_GitConfig 0 h x a"
  shows "overwrites CGitConfig g h (merge_git_into h g x) \<and> git_at (merge_git_into h g x) g (merge_git a (Some v))"
proof -
  have keep: "rep_GitConfig 0 h' x a" if "overwrites CGitConfig g h h'" for h' using overwrites_GitConfig [OF that _ x] by simp
  let ?v1 = "v\<lparr>gc_Repository := layer (gc_Repository a) (gc_Repository v)\<rparr>"
  let ?v2 = "?v1\<lparr>gc_Branch := layer (gc_Branch a) (gc_Branch v)\<rparr>"
  let ?v3 = "?v2\<lparr>gc_WriteBackTarget := layer (gc_WriteBackTarget a) (gc_WriteBackTarget v)\<rparr>"
  define h1 where "h1 = (if pgc_Repository x \<noteq> None then set_git g (\<lambda>c. c\<lparr>pgc_Repository := pgc_Repository x\<rparr>) h else h)"
  define h2 where "h2 = (if pgc_Branch x \<noteq> None then set_git g (\<lambda>c. c\<lparr>pgc_Branch := pgc_Branch x\<rparr>) h1 else h1)"
  define h3 where "h3 = (if pgc_WriteBackTarget x \<noteq> None then set_git g (\<lambda>c. c\<lparr>pgc_WriteBackTarget := pgc_WriteBackTarget x\<rparr>) h2 else h2)"
  have s1: "overwrites CGitConfig g h h1 \<and> git_at h1 g ?v1" unfolding h1_def
    by (rule set_git_string [OF m, of "pgc_Repository x" "gc_Repository a"],
        use x in \<open>auto simp: rep_GitConfig_def layer_def dest: rep_string_None\<close>)
  note 1 = conjunct1 [OF s1] conjunct2 [OF s1]
  have s2: "overwrites CGitConfig g h1 h2 \<and> git_at h2 g ?v2" unfolding h2_def
    by (rule set_git_string [OF 1(2), of "pgc_Branch x" "gc_Branch a"],
        use keep [OF 1(1)] in \<open>auto simp: rep_GitConfig_def layer_def dest: rep_string_None\<close>)
  note 2 = conjunct1 [OF s2] conjunct2 [OF s2]
  have o2: "overwrites CGitConfig g h h2" using 1(1) 2(1) by (rule overwrites_trans)
  have s3: "overwrites CGitConfig g h2 h3 \<and> git_at h3 g ?v3" unfolding h3_def
    by (rule set_git_string [OF 2(2), of "pgc_WriteBackTarget x" "gc_WriteBackTarget a"],
        use keep [OF o2] in \<open>auto simp: rep_GitConfig_def layer_def dest: rep_string_None\<close>)
  note 3 = conjunct1 [OF s3] conjunct2 [OF s3]
  have o3: "overwrites CGitConfig g h h3" using o2 3(1) by (rule overwrites_trans)
  have pr: "rep_ptr CPullRequest rep_PullRequest 0 h3 (pgc_PullRequest x) (gc_PullRequest a)" using keep [OF o3] by (simp add: rep_GitConfig_def)
  have eq: "merge_git_into h g x = (if pgc_PullRequest x \<noteq> None
      then (let (h, p) = PullRequest_DeepCopy h3 (pgc_PullRequest x) in set_git g (\<lambda>c. c\<lparr>pgc_PullRequest := p\<rparr>) h) else h3)"
    by (simp add: merge_git_into_def h1_def h2_def h3_def Let_def)
  show ?thesis
  proof (cases "pgc_PullRequest x")
    case None
    with pr have "gc_PullRequest a = None" by (simp add: rep_ptr_def)
    then have "merge_git a (Some v) = ?v3" by (simp add: merge_git_def layer_def)
    with None eq o3 3(2) show ?thesis by simp
  next
    case (Some q)
    obtain h4 p where copy: "PullRequest_DeepCopy h3 (pgc_PullRequest x) = (h4, p)" by fastforce
    from request.copies [OF pr copy] have c: "agree 0 h3 h4" "rep_ptr CPullRequest rep_PullRequest 0 h4 p (gc_PullRequest a)"
      using request.mono by blast+
    from 3(2) obtain cell where g: "g < length h3" "h3 ! g = CGitConfig cell" "rep_GitConfig 0 h3 cell ?v3" by (auto simp: git_at_def)
    have o4: "overwrites CGitConfig g h3 h4" using agree_overwrites [where mk = CGitConfig, OF c(1) g(1,2)] .
    have 4: "git_at h4 g ?v3" using g c(1) deep_copy.lift [OF GitConfig_copy g(3) c(1)] by (auto simp: git_at_def agree_def)
    have a: "gc_PullRequest a \<noteq> None" using pr Some by (auto simp: rep_ptr_def)
    have "merge_git a (Some v) = ?v3\<lparr>gc_PullRequest := gc_PullRequest a\<rparr>" using a by (simp add: merge_git_def layer_def)
    with set_git_step [OF 4, of "\<lambda>c. c\<lparr>pgc_PullRequest := p\<rparr>" "?v3\<lparr>gc_PullRequest := gc_PullRequest a\<rparr>"] c(2)
    have "overwrites CGitConfig g h4 (merge_git_into h g x)" "git_at (merge_git_into h g x) g (merge_git a (Some v))"
      by (auto simp: eq Some copy [unfolded Some] rep_GitConfig_def)
    with o3 o4 show ?thesis by (blast intro: overwrites_trans)
  qed
qed

definition write_back_at :: "cells \<Rightarrow> nat \<Rightarrow> WriteBackSpec \<Rightarrow> bool" where
  "write_back_at h m v \<longleftrightarrow> m < length h \<and> (\<exists>c. h ! m = CWriteBackConfig c \<and> rep_WriteBackConfig 0 h c v)"

lemma overwrites_WriteBackConfig:
  assumes o: "overwrites CWriteBackConfig m h h'" and rep: "rep_WriteBackConfig 0 h x v"
  shows "rep_WriteBackConfig 0 h' x v"
proof -
  have "rep_string 0 h p v \<Longrightarrow> rep_string 0 h' p v" for p v by (rule overwrites_ptr [OF o]) (simp_all add: rep_value_def)
  moreover have "rep_ptr CGitConfig rep_GitConfig 0 h p v \<Longrightarrow> rep_ptr CGitConfig rep_GitConfig 0 h' p v" for p v
    by (rule overwrites_ptr [OF o]) (simp_all add: overwrites_GitConfig [OF o])
  ultimately show ?thesis using rep by (simp add: rep_WriteBackConfig_def)
qed

lemma set_write_back_step:
  assumes "write_back_at h m v" "\<And>c. rep_WriteBackConfig 0 h c v \<Longrightarrow> rep_WriteBackConfig 0 h (f c) w"
  shows "overwrites CWriteBackConfig m h (set_write_back m f h) \<and> write_back_at (set_write_back m f h) m w"
proof -
  from assms(1) obtain c where c: "m < length h" "h ! m = CWriteBackConfig c" "rep_WriteBackConfig 0 h c v" by (auto simp: write_back_at_def)
  then have o: "overwrites CWriteBackConfig m h (set_write_back m f h)" by (simp add: overwrites_def set_write_back_def)
  with overwrites_WriteBackConfig [OF o assms(2) [OF c(3)]] c show ?thesis by (simp add: write_back_at_def set_write_back_def)
qed

text \<open>Rewriting the git settings of a write-back object.\<close>

lemma write_back_git:
  assumes o: "overwrites CGitConfig g h h'" and m: "m < length h" "h ! m = CWriteBackConfig c" "pwb_GitConfig c = Some g"
    and rep: "rep_WriteBackConfig 0 h c v" and g: "git_at h' g w"
  shows "write_back_at h' m (v\<lparr>ws_GitConfig := Some w\<rparr>)"
proof -
  have "m \<noteq> g" using o m(2) by (auto simp: overwrites_def)
  with o m(1,2) have h': "m < length h'" "h' ! m = CWriteBackConfig c" by (auto simp: overwrites_def)
  have "rep_string 0 h p v \<Longrightarrow> rep_string 0 h' p v" for p v by (rule overwrites_ptr [OF o]) (simp_all add: rep_value_def)
  with rep g m(3) h' show ?thesis by (auto simp: write_back_at_def git_at_def rep_WriteBackConfig_def rep_ptr_def)
qed

text \<open>The merged object and its git settings are new: all rewritten cells lie beyond the heap of before.\<close>

definition fresh_write_back :: "nat \<Rightarrow> cells \<Rightarrow> nat \<Rightarrow> bool" where
  "fresh_write_back n h m \<longleftrightarrow>
     n \<le> m \<and> (\<forall>c. h ! m = CWriteBackConfig c \<longrightarrow> (case pwb_GitConfig c of None \<Rightarrow> True | Some g \<Rightarrow> n \<le> g))"

lemma merge_git_of:
  assumes "m < length k" "k ! m = CWriteBackConfig c" "pwb_GitConfig c = Some g" "rep_WriteBackConfig 0 k c u" "git_at k g gv"
    and "agree 0 h0 k" "length h0 \<le> g" "rep_GitConfig 0 k ca a"
  shows "agree 0 h0 (merge_git_into k g ca) \<and> write_back_at (merge_git_into k g ca) m (u\<lparr>ws_GitConfig := Some (merge_git a (Some gv))\<rparr>)"
  using merge_git_into_spec [OF assms(5,8)] write_back_git [OF _ assms(1-4)] overwrites_agree [OF _ assms(6,7)] by blast

text \<open>The object that gets the git settings when the global settings have none.\<close>

lemma new_git:
  assumes m: "m < length h" "h ! m = CWriteBackConfig c" "rep_WriteBackConfig 0 h c v" "pwb_GitConfig c = None" and agree: "agree 0 h0 h" "length h0 \<le> m"
  defines "k \<equiv> set_write_back m (\<lambda>c. c\<lparr>pwb_GitConfig := Some (length h)\<rparr>) (h @ [CGitConfig zero_GitConfig])"
  shows "agree 0 h0 k" "git_at k (length h) empty_GitConfig" "k ! m = CWriteBackConfig (c\<lparr>pwb_GitConfig := Some (length h)\<rparr>)" "m < length k"
    "rep_WriteBackConfig 0 k (c\<lparr>pwb_GitConfig := Some (length h)\<rparr>) (v\<lparr>ws_GitConfig := Some empty_GitConfig\<rparr>)"
    "\<And>x w. rep_WriteBackConfig 0 h x w \<Longrightarrow> rep_WriteBackConfig 0 k x w" "\<And>a. a < length h \<Longrightarrow> a \<noteq> m \<Longrightarrow> k ! a = h ! a"
proof -
  let ?h = "h @ [CGitConfig zero_GitConfig]"
  have up: "rep_WriteBackConfig 0 h x w \<Longrightarrow> rep_WriteBackConfig 0 ?h x w" for x w
    by (rule deep_copy.lift [OF WriteBackConfig_copy _ agree_snoc])
  have git: "rep_GitConfig 0 j zero_GitConfig empty_GitConfig" for j
    by (simp add: rep_GitConfig_def zero_GitConfig_def empty_GitConfig_def rep_ptr_def)
  have "rep_ptr CGitConfig rep_GitConfig 0 ?h (Some (length h)) (Some empty_GitConfig)" using git by (auto simp: rep_ptr_def)
  then have new: "rep_WriteBackConfig 0 ?h (c\<lparr>pwb_GitConfig := Some (length h)\<rparr>) (v\<lparr>ws_GitConfig := Some empty_GitConfig\<rparr>)"
    using up [OF m(3)] by (simp add: rep_WriteBackConfig_def)
  have o: "overwrites CWriteBackConfig m ?h k" using m(1,2) by (simp add: overwrites_def k_def set_write_back_def nth_append)
  from overwrites_agree [OF o agree_trans [OF agree(1) agree_snoc] agree(2)] show "agree 0 h0 k" .
  from o new show "rep_WriteBackConfig 0 k (c\<lparr>pwb_GitConfig := Some (length h)\<rparr>) (v\<lparr>ws_GitConfig := Some empty_GitConfig\<rparr>)"
    by (rule overwrites_WriteBackConfig)
  from o show "rep_WriteBackConfig 0 h x w \<Longrightarrow> rep_WriteBackConfig 0 k x w" for x w using up by (blast intro: overwrites_WriteBackConfig)
  from m(1,2) git show "git_at k (length h) empty_GitConfig" "k ! m = CWriteBackConfig (c\<lparr>pwb_GitConfig := Some (length h)\<rparr>)" "m < length k"
    "\<And>a. a < length h \<Longrightarrow> a \<noteq> m \<Longrightarrow> k ! a = h ! a"
    by (auto simp: k_def set_write_back_def git_at_def nth_append)
qed

lemma merge_into_spec:
  assumes m: "write_back_at h m v" and fresh: "agree 0 h0 h" "fresh_write_back (length h0) h m" and x: "rep_WriteBackConfig 0 h x w"
  shows "agree 0 h0 (merge_into h m x) \<and> write_back_at (merge_into h m x) m (mergeWBCSettings (Some v) (Some w))"
proof -
  let ?v1 = "v\<lparr>ws_Method := layer (ws_Method w) (ws_Method v)\<rparr>"
  define h1 where "h1 = (if pwb_Method x \<noteq> None then set_write_back m (\<lambda>c. c\<lparr>pwb_Method := pwb_Method x\<rparr>) h else h)"
  have s1: "overwrites CWriteBackConfig m h h1 \<and> write_back_at h1 m ?v1"
  proof (cases "pwb_Method x")
    case None
    with x have "ws_Method w = None" by (simp add: rep_WriteBackConfig_def rep_ptr_def)
    with None m show ?thesis by (auto simp: h1_def layer_def write_back_at_def overwrites_def)
  next
    case (Some p)
    with x have "ws_Method w \<noteq> None" "rep_string 0 h (pwb_Method x) (ws_Method w)" by (auto simp: rep_WriteBackConfig_def rep_ptr_def)
    with set_write_back_step [OF m, of "\<lambda>c. c\<lparr>pwb_Method := pwb_Method x\<rparr>" ?v1] Some show ?thesis
      by (auto simp: h1_def layer_def rep_WriteBackConfig_def)
  qed
  have "length h0 \<le> m" using fresh(2) by (simp add: fresh_write_back_def)
  then have a1: "agree 0 h0 h1" using overwrites_agree [OF conjunct1 [OF s1] fresh(1)] by simp
  have eq: "merge_into h m x =
      (case pwb_GitConfig x of
         None \<Rightarrow> h1
       | Some ga \<Rightarrow>
           (let (h, g) =
              (case pwb_GitConfig (un_CWriteBackConfig (h1 ! m)) of
                 Some g \<Rightarrow> (h1, g)
               | None \<Rightarrow> (set_write_back m (\<lambda>c. c\<lparr>pwb_GitConfig := Some (length h1)\<rparr>) (h1 @ [CGitConfig zero_GitConfig]), length h1))
            in merge_git_into h g (un_CGitConfig (h ! ga))))"
    unfolding merge_into_def h1_def Let_def ..
  have x1: "rep_WriteBackConfig 0 h1 x w" using overwrites_WriteBackConfig [OF conjunct1 [OF s1] x] .
  from s1 obtain c where c: "m < length h1" "h1 ! m = CWriteBackConfig c" "rep_WriteBackConfig 0 h1 c ?v1" by (auto simp: write_back_at_def)
  have g_fresh: "length h0 \<le> g" if "pwb_GitConfig c = Some g" for g
    using that fresh(2) c(2) m by (auto simp: fresh_write_back_def h1_def set_write_back_def write_back_at_def split: if_split_asm)
  show ?thesis
  proof (cases "pwb_GitConfig x")
    case None
    with x have "ws_GitConfig w = None" by (simp add: rep_WriteBackConfig_def rep_ptr_def)
    then have "mergeWBCSettings (Some v) (Some w) = ?v1" by (cases v) (simp add: mergeWBCSettings_def)
    with None s1 a1 show ?thesis by (simp add: eq)
  next
    case (Some ga)
    with x1 obtain ca a where ga: "ga < length h1" "h1 ! ga = CGitConfig ca" "ws_GitConfig w = Some a" "rep_GitConfig 0 h1 ca a"
      by (auto simp: rep_WriteBackConfig_def rep_ptr_def)
    have res: "mergeWBCSettings (Some v) (Some w) = ?v1\<lparr>ws_GitConfig := Some (merge_git a (ws_GitConfig v))\<rparr>" by (cases v) (simp add: mergeWBCSettings_def ga(3))
    show ?thesis
    proof (cases "pwb_GitConfig c")
      case (Some g)
      with c(3) obtain gv where "ws_GitConfig v = Some gv" "git_at h1 g gv" by (auto simp: rep_WriteBackConfig_def rep_ptr_def git_at_def)
      with merge_git_of [OF c(1,2) Some c(3) _ a1 g_fresh [OF Some] ga(4)] res \<open>pwb_GitConfig x = Some ga\<close> Some c(2) ga(2) show ?thesis
        by (simp add: eq)
    next
      case None
      with c(3) have v: "ws_GitConfig v = None" by (simp add: rep_WriteBackConfig_def rep_ptr_def)
      note k = new_git [OF c None a1 \<open>length h0 \<le> m\<close>]
      have "ga \<noteq> m" using ga(2) c(2) by auto
      with k(7) [OF ga(1)] ga(2) have kga: "set_write_back m (\<lambda>c. c\<lparr>pwb_GitConfig := Some (length h1)\<rparr>) (h1 @ [CGitConfig zero_GitConfig]) ! ga = CGitConfig ca" by simp
      have "ws_GitConfig w = Some a \<Longrightarrow> rep_GitConfig 0 (set_write_back m (\<lambda>c. c\<lparr>pwb_GitConfig := Some (length h1)\<rparr>) (h1 @ [CGitConfig zero_GitConfig])) ca a"
        using k(6) [OF x1] kga Some by (auto simp: rep_WriteBackConfig_def rep_ptr_def)
      with merge_git_of [OF k(4,3) _ k(5,2,1), where ca = ca and a = a] agree_length [OF a1] res v ga(3) Some None c(2) kga show ?thesis
        by (simp add: eq merge_git_def)
    qed
  qed
qed

text \<open>
  Merging the write-back settings of a resource and of an application rule gives the settings of the rule where it has some and those of the resource
  elsewhere, and it writes to no cell of before: both settings keep their values although the merged object is changed after it has been created from them.
\<close>

theorem merge_leaves_settings_alone:
  assumes "rep_ptr CWriteBackConfig rep_WriteBackConfig 0 h glob v" "rep_ptr CWriteBackConfig rep_WriteBackConfig 0 h appWBC w"
    and "mergeWBCSettings_heap h glob appWBC = (h', q)"
  shows "rep_ptr CWriteBackConfig rep_WriteBackConfig 0 h' q (Some (mergeWBCSettings v w)) \<and> take (length h) h' = h \<and>
    rep_ptr CWriteBackConfig rep_WriteBackConfig 0 h' glob v \<and> rep_ptr CWriteBackConfig rep_WriteBackConfig 0 h' appWBC w"
proof -
  let ?R = "rep_ptr CWriteBackConfig rep_WriteBackConfig" and ?z = "\<lparr>ws_Method = None, ws_GitConfig = None\<rparr>"
  let ?h0 = "h @ [CWriteBackConfig zero_WriteBackConfig]" and ?v = "case v of None \<Rightarrow> \<lparr>ws_Method = None, ws_GitConfig = None\<rparr> | Some x \<Rightarrow> x"
  define start where "start = (if glob \<noteq> None then WriteBackConfig_DeepCopy ?h0 glob else (?h0, Some (length h)))"
  obtain k r where k: "start = (k, r)" by fastforce
  have start: "agree 0 h k \<and> ?R (length h) k r (Some ?v)"
  proof (cases glob)
    case None
    with assms(1) k show ?thesis
      by (auto simp: start_def rep_ptr_def agree_snoc zero_WriteBackConfig_def rep_WriteBackConfig_def)
  next
    case (Some a)
    with assms(1) obtain x where v: "v = Some x" by (auto simp: rep_ptr_def)
    from k Some have copy: "WriteBackConfig_DeepCopy ?h0 glob = (k, r)" by (simp add: start_def)
    from write_back.copies_after [OF agree_snoc assms(1) copy] v show ?thesis by simp
  qed
  then obtain m c where m: "r = Some m" "length h \<le> m" "m < length k" "k ! m = CWriteBackConfig c" "rep_WriteBackConfig (length h) k c ?v"
    by (auto simp: rep_ptr_def split: option.split_asm)
  have at: "write_back_at k m ?v" using m(3-5) deep_copy.mono [OF WriteBackConfig_copy m(5)] by (auto simp: write_back_at_def)
  have fresh: "fresh_write_back (length h) k m"
    using m(2,4,5) by (auto simp: fresh_write_back_def rep_WriteBackConfig_def rep_ptr_def split: option.split)
  have "mergeWBCSettings_heap h glob appWBC =
      (case start of (h, merged) \<Rightarrow> case appWBC of None \<Rightarrow> (h, merged) | Some a \<Rightarrow> (merge_into h (the merged) (un_CWriteBackConfig (h ! a)), merged))"
    unfolding mergeWBCSettings_heap_def start_def Let_def ..
  with assms(3) k m(1) have run: "(case appWBC of None \<Rightarrow> (k, Some m) | Some a \<Rightarrow> (merge_into k m (un_CWriteBackConfig (k ! a)), Some m)) = (h', q)" by (cases appWBC) auto
  have kept: "agree 0 h h' \<and> q = Some m \<and> write_back_at h' m (mergeWBCSettings v w)"
  proof (cases appWBC)
    case None
    with assms(2) have "w = None" by (simp add: rep_ptr_def)
    with None run start at show ?thesis by (auto simp: mergeWBCSettings_def)
  next
    case (Some a)
    with write_back.lift [OF assms(2) conjunct1 [OF start]] obtain x y where a: "k ! a = CWriteBackConfig x" "w = Some y" "rep_WriteBackConfig 0 k x y"
      by (auto simp: rep_ptr_def)
    have "mergeWBCSettings (Some ?v) w = mergeWBCSettings v w" by (simp add: mergeWBCSettings_def split: option.split)
    with merge_into_spec [OF at conjunct1 [OF start] fresh a(3)] Some run a(1,2) show ?thesis by auto
  qed
  then have "agree 0 h h'" by simp
  then have "take (length h) h' = h" by (auto simp: agree_def intro: nth_equalityI)
  with kept write_back.lift [OF assms(1) \<open>agree 0 h h'\<close>] write_back.lift [OF assms(2) \<open>agree 0 h h'\<close>] show ?thesis
    by (auto simp: write_back_at_def rep_ptr_def)
qed

section \<open>Concrete heaps\<close>

text \<open>A resource with write-back to git, and a rule that sets another branch and a pull request.\<close>

definition sample_heap :: cells where
  "sample_heap =
     [CString ''git'', CString ''main'', CGitConfig \<lparr>pgc_Repository = None, pgc_Branch = Some 1, pgc_WriteBackTarget = None, pgc_PullRequest = None\<rparr>,
      CWriteBackConfig \<lparr>pwb_Method = Some 0, pwb_GitConfig = Some 2\<rparr>,
      CString ''release'', CStrings [''bot''], CGitHub (), CPullRequest \<lparr>ppr_GitHub = Some 6, ppr_GitLab = None, ppr_Labels = Some 5\<rparr>,
      CGitConfig \<lparr>pgc_Repository = None, pgc_Branch = Some 4, pgc_WriteBackTarget = None, pgc_PullRequest = Some 7\<rparr>,
      CWriteBackConfig \<lparr>pwb_Method = None, pwb_GitConfig = Some 8\<rparr>]"

lemmas rep_defs = rep_ptr_def rep_slice_def rep_list_def rep_value_def rep_WriteBackConfig_def rep_GitConfig_def rep_PullRequest_def
  rep_ImageUpdater_def rep_ImageUpdaterSpec_def rep_ImageUpdaterStatus_def

definition sample_global :: WriteBackSpec where
  "sample_global = \<lparr>ws_Method = Some ''git'', ws_GitConfig = Some \<lparr>gc_Repository = None, gc_Branch = Some ''main'', gc_WriteBackTarget = None, gc_PullRequest = None\<rparr>\<rparr>"

definition sample_app_rule :: WriteBackSpec where
  "sample_app_rule = \<lparr>ws_Method = None, ws_GitConfig = Some \<lparr>gc_Repository = None, gc_Branch = Some ''release'', gc_WriteBackTarget = None,
     gc_PullRequest = Some \<lparr>pr_GitHub = Some (), pr_GitLab = None, pr_Labels = [''bot'']\<rparr>\<rparr>\<rparr>"

lemma sample_heap_reps:
  "rep_ptr CWriteBackConfig rep_WriteBackConfig 0 sample_heap (Some 3) (Some sample_global)"
  "rep_ptr CWriteBackConfig rep_WriteBackConfig 0 sample_heap (Some 9) (Some sample_app_rule)"
  by (auto simp: rep_defs sample_heap_def sample_global_def sample_app_rule_def intro!: exI [of _ "Some [''bot'']"])

theorem merge_leaves_settings_alone_witness:
  "\<exists>h' q. mergeWBCSettings_heap sample_heap (Some 3) (Some 9) = (h', q) \<and> take 10 h' = sample_heap \<and>
     rep_ptr CWriteBackConfig rep_WriteBackConfig 0 h' q (Some (mergeWBCSettings (Some sample_global) (Some sample_app_rule)))"
proof -
  obtain h' q where run: "mergeWBCSettings_heap sample_heap (Some 3) (Some 9) = (h', q)" by fastforce
  have "length sample_heap = 10" by (simp add: sample_heap_def)
  with merge_leaves_settings_alone [OF sample_heap_reps run] run show ?thesis by auto
qed

definition sample_resource :: pImageUpdater where
  "sample_resource =
     \<lparr>piu_ObjectMeta = \<lparr>om_Namespace = ''argocd'', om_Name = ''iu'', om_Generation = 1, om_Deleted = False, om_Finalizers = []\<rparr>,
      piu_Spec = \<lparr>psp_CommonUpdateSettings = None, psp_WriteBackConfig = Some 3, psp_ApplicationRefs = None, psp_ImagesVerification = None\<rparr>,
      piu_Status = \<lparr>pst_ObservedGeneration = 1, pst_LastCheckedAt = None, pst_LastUpdatedAt = None, pst_ApplicationsMatched = 0, pst_ImagesManaged = 0,
        pst_RecentUpdates = None, pst_Conditions = None\<rparr>\<rparr>"

definition sample_updater :: ImageUpdater where
  "sample_updater =
     \<lparr>iu_Namespace = ''argocd'', iu_Name = ''iu'', iu_Generation = 1, iu_Deleted = False, iu_Finalizers = [],
      iu_Spec = \<lparr>is_CommonUpdateSettings = None, is_WriteBackConfig = Some sample_global, is_ApplicationRefs = [], is_ImagesVerification = None\<rparr>,
      iu_Status = \<lparr>ss_ObservedGeneration = 1, ss_LastCheckedAt = None, ss_LastUpdatedAt = None, ss_ApplicationsMatched = 0, ss_ImagesManaged = 0,
        ss_RecentUpdates = [], ss_Conditions = []\<rparr>\<rparr>"

text \<open>The copy keeps its branch when the branch of the original is overwritten.\<close>

theorem resource_copy_independent_witness:
  "\<exists>h' q. ImageUpdater_DeepCopy (sample_heap @ [CImageUpdater sample_resource]) (Some 10) = (h', q) \<and>
     rep_ptr CImageUpdater rep_ImageUpdater 0 (h'[1 := CString ''hacked'']) q (Some sample_updater)"
proof -
  let ?h = "sample_heap @ [CImageUpdater sample_resource]"
  obtain h' q where run: "ImageUpdater_DeepCopy ?h (Some 10) = (h', q)" by fastforce
  have len: "length sample_heap = 10" by (simp add: sample_heap_def)
  have "rep_ptr CWriteBackConfig rep_WriteBackConfig 0 ?h (Some 3) (Some sample_global)"
    by (rule write_back.lift [OF sample_heap_reps(1) agree_snoc])
  then have "rep_ImageUpdater 0 ?h sample_resource sample_updater"
    by (simp add: rep_ImageUpdater_def rep_ImageUpdaterSpec_def rep_ImageUpdaterStatus_def sample_resource_def sample_updater_def meta_of_def
        rep_value_def rep_slice_def) (simp add: rep_ptr_def)
  then have "rep_ptr CImageUpdater rep_ImageUpdater 0 ?h (Some 10) (Some sample_updater)" by (simp add: rep_ptr_def len nth_append)
  from resource_copy_independent [OF this run] len run show ?thesis by (auto simp: nth_list_update)
qed

end
