(* ===== verification/SpecUpdate.thy ===== *)
theory SpecUpdate
  imports Applications
begin

text \<open>
  Writing the specification of an application through the Kubernetes API (\<open>ArgoCDK8sClient\<close> in \<open>pkg/argocd/argocd.go\<close>), the way changes
  are stored with the write-back method \<open>argocd\<close>.  The API server, with what other clients do to the application at the same time, and
  \<open>retry.RetryOnConflict\<close> are parameters; what the documentation promises of them are hypotheses.
\<close>

section \<open>The client\<close>

datatype api_error = Conflict | ApiError string

text \<open>An object carries its resource version.\<close>

type_synonym stored_app = "int \<times> Application"

record 'w api_lib =
  api_Get :: "string \<Rightarrow> string \<Rightarrow> 'w \<Rightarrow> (api_error + stored_app) \<times> 'w"
  api_Update :: "stored_app \<Rightarrow> 'w \<Rightarrow> (api_error + stored_app) \<times> 'w"
  api_RetryOnConflict :: "('w \<times> stored_app option \<Rightarrow> api_error option \<times> 'w \<times> stored_app option) \<Rightarrow> 'w \<times> stored_app option \<Rightarrow>
     api_error option \<times> 'w \<times> stored_app option"

definition GetApplication :: "'w api_lib \<Rightarrow> string \<Rightarrow> string \<Rightarrow> 'w \<Rightarrow> (api_error + stored_app) \<times> 'w" where
  "GetApplication lib appNamespace appName w = api_Get lib appNamespace appName w"

text \<open>One attempt: the newest application gets the whole specification of the request; on success it is what the server returned.\<close>

definition update_attempt ::
  "'w api_lib \<Rightarrow> string \<Rightarrow> string \<Rightarrow> ApplicationSpec \<Rightarrow> 'w \<times> stored_app option \<Rightarrow> api_error option \<times> 'w \<times> stored_app option" where
  "update_attempt lib ns name spec = (\<lambda>(w, _).
     case GetApplication lib ns name w of
       (Inl err, w) \<Rightarrow> (Some err, w, None)
     | (Inr (version, app), w) \<Rightarrow>
         (let app = app\<lparr>app_Spec := spec\<rparr>
          in case api_Update lib (version, app) w of
               (Inl err, w) \<Rightarrow> (Some err, w, Some (version, app))
             | (Inr stored, w) \<Rightarrow> (None, w, Some stored)))"

definition UpdateSpec :: "'w api_lib \<Rightarrow> string \<Rightarrow> string \<Rightarrow> ApplicationSpec \<Rightarrow> 'w \<Rightarrow> ((api_error + ApplicationSpec) \<times> 'w) go" where
  "UpdateSpec lib ns name spec w =
     (case api_RetryOnConflict lib (update_attempt lib ns name spec) (w, None) of
        (Some err, w, _) \<Rightarrow> Ret (Inl err, w)
      | (None, w, Some (_, app)) \<Rightarrow> Ret (Inr (app_Spec app), w)
      | (None, w, None) \<Rightarrow> Panic)"

section \<open>What the documentation promises\<close>

text \<open>\<open>RetryOnConflict\<close> repeats its function while it fails with a conflict and returns the result of the last attempt.\<close>

inductive retried :: "('s \<Rightarrow> api_error option \<times> 's) \<Rightarrow> 's \<Rightarrow> 's \<Rightarrow> bool" for fn where
  first: "retried fn s s"
| again: "retried fn s s''" if "fn s = (Some Conflict, s')" "retried fn s' s''"

definition retry_law :: "'w api_lib \<Rightarrow> bool" where
  "retry_law lib \<longleftrightarrow> (\<forall>fn s. \<exists>s0. retried fn s s0 \<and> api_RetryOnConflict lib fn s = fn s0)"

text \<open>
  The API server keeps the current object, with \<open>current\<close> to read it from the state of the world: a get returns the current object or fails, and an
  update stores its object under a new version if its version is the current one, and changes nothing otherwise.  Between the two calls
  the world may change: \<open>others\<close> is any number of actions of other clients, each of which increases the version.
\<close>

definition api_law :: "'w api_lib \<Rightarrow> ('w \<Rightarrow> stored_app) \<Rightarrow> ('w \<Rightarrow> 'w \<Rightarrow> bool) \<Rightarrow> bool" where
  "api_law lib current others \<longleftrightarrow>
     (\<forall>ns name w r w'. api_Get lib ns name w = (r, w') \<longrightarrow> others w w' \<and> (\<forall>a. r = Inr a \<longrightarrow> a = current w)) \<and>
     (\<forall>v a w r w'. api_Update lib (v, a) w = (r, w') \<longrightarrow>
        (case r of
           Inr stored \<Rightarrow> v = fst (current w) \<and> stored = (v + 1, a) \<and> current w' = stored
         | Inl err \<Rightarrow> current w' = current w)) \<and>
     (\<forall>w w'. others w w' \<longrightarrow> current w' = current w \<or> fst (current w') > fst (current w))"

lemma update_attempt_success:
  assumes "update_attempt lib ns name spec s = (None, w', stored)" "api_law lib current others"
  obtains v app w1 where "current w1 = (v, app)" "current w' = (v + 1, app\<lparr>app_Spec := spec\<rparr>)" "stored = Some (v + 1, app\<lparr>app_Spec := spec\<rparr>)"
    "others (fst s) w1"
proof -
  from assms(1) obtain v app w1 st where get: "api_Get lib ns name (fst s) = (Inr (v, app), w1)"
    and update: "api_Update lib (v, app\<lparr>app_Spec := spec\<rparr>) w1 = (Inr st, w')" "stored = Some st"
    by (auto simp: update_attempt_def GetApplication_def Let_def split: prod.split_asm sum.split_asm)
  from assms(2) update(1) have up: "v = fst (current w1)" "st = (v + 1, app\<lparr>app_Spec := spec\<rparr>)" "current w' = st"
    using conjunct1 [OF conjunct2 [OF assms(2) [unfolded api_law_def]], rule_format, OF update(1)] by simp_all
  from conjunct1 [OF assms(2) [unfolded api_law_def], rule_format, OF get] have read: "others (fst s) w1" "current (fst s) = (v, app)"
    by simp_all
  with assms(2) have "current w1 = current (fst s) \<or> fst (current w1) > fst (current (fst s))" unfolding api_law_def by blast
  with read(2) up(1) have "current w1 = (v, app)" by auto
  with that up update(2) read(1) show thesis by blast
qed


section \<open>A concrete API server\<close>

text \<open>The world is the stored application and the target revisions that a user is about to set, one after each get.\<close>

type_synonym app_store = "stored_app \<times> string list"

definition with_revision :: "string \<Rightarrow> Application \<Rightarrow> Application" where
  "with_revision r app = app\<lparr>app_Spec := (app_Spec app)\<lparr>sp_Source := map_option (\<lambda>s. s\<lparr>src_TargetRevision := r\<rparr>) (sp_Source (app_Spec app))\<rparr>\<rparr>"

definition store_Get :: "string \<Rightarrow> string \<Rightarrow> app_store \<Rightarrow> (api_error + stored_app) \<times> app_store" where
  "store_Get ns name = (\<lambda>(stored, pending).
     (Inr stored, case pending of [] \<Rightarrow> (stored, []) | r # rs \<Rightarrow> ((fst stored + 1, with_revision r (snd stored)), rs)))"

definition store_Update :: "stored_app \<Rightarrow> app_store \<Rightarrow> (api_error + stored_app) \<times> app_store" where
  "store_Update obj = (\<lambda>(stored, pending).
     if fst obj = fst stored then (Inr (fst obj + 1, snd obj), (fst obj + 1, snd obj), pending) else (Inl Conflict, stored, pending))"

fun retry_steps :: "nat \<Rightarrow> ('s \<Rightarrow> api_error option \<times> 's) \<Rightarrow> 's \<Rightarrow> api_error option \<times> 's" where
  "retry_steps n fn s = (case n of 0 \<Rightarrow> fn s | Suc m \<Rightarrow> (case fn s of (Some Conflict, s') \<Rightarrow> retry_steps m fn s' | r \<Rightarrow> r))"

definition store_lib :: "app_store api_lib" where
  "store_lib = \<lparr>api_Get = store_Get, api_Update = store_Update, api_RetryOnConflict = retry_steps 4\<rparr>"

lemma retry_steps_retried: "\<exists>s0. retried fn s s0 \<and> retry_steps n fn s = fn s0"
proof (induction n arbitrary: s)
  case (Suc n)
  show ?case
  proof (cases "fst (fn s) = Some Conflict")
    case True
    then obtain s' where s': "fn s = (Some Conflict, s')" by (cases "fn s") auto
    with Suc [of s'] show ?thesis by (auto intro: retried.again)
  next
    case False
    then have "retry_steps (Suc n) fn s = fn s" by (auto split: prod.split option.split api_error.split)
    then show ?thesis by (blast intro: retried.first)
  qed
qed (auto intro: retried.first)

lemma store_retry: "retry_law store_lib"
  unfolding retry_law_def store_lib_def api_lib.select_convs by (intro allI, rule retry_steps_retried)

lemma store_api: "api_law store_lib fst (\<lambda>w w'. w' = w \<or> fst (fst w') > fst (fst w))"
  unfolding api_law_def store_lib_def
  by (auto simp: store_Get_def store_Update_def split: list.split_asm if_split_asm prod.split_asm)

text \<open>The specification that the updater has computed from the application as it was listed, which tracked the branch \<open>main\<close>.\<close>

definition updated_spec :: ApplicationSpec where
  "updated_spec = (app_Spec sample_app)\<lparr>sp_Source := Some (sample_source\<lparr>src_Helm := Some \<lparr>hs_Parameters =
     [\<lparr>hp_Name = ''image.tag'', hp_Value = ''1.1'', hp_ForceString = True\<rparr>]\<rparr>\<rparr>)\<rparr>"


text \<open>
  The retries do not protect changes of the specification by others: the whole specification is replaced by the one that was computed from an older
  state.  Here a user lets the application track the branch \<open>release\<close>, before the update or between its two calls, and finds it on \<open>main\<close> again.
\<close>

theorem concurrent_spec_change_lost:
  "UpdateSpec store_lib ''argocd'' ''web'' updated_spec ((2, with_revision ''release'' sample_app), []) =
     Ret (Inr updated_spec, (3, sample_app\<lparr>app_Spec := updated_spec\<rparr>), [])"
  "UpdateSpec store_lib ''argocd'' ''web'' updated_spec ((2, sample_app), [''release'']) =
     Ret (Inr updated_spec, (4, sample_app\<lparr>app_Spec := updated_spec\<rparr>), [])"
  "map_option src_TargetRevision (sp_Source updated_spec) = Some ''main''"
  by code_simp+

end
