(* ===== verification/TokenAuth.thy ===== *)
theory TokenAuth
  imports HttpErrors Endpoints Webhook
begin

text \<open>
  Authentication against a registry (\<open>registry/internal/client/auth\<close> and \<open>transport\<close>, and the credentials of
  \<open>registry/client.go\<close>): the challenges of a registry, bearer tokens with their cache, basic authentication, and the transport that adds
  them to requests.  URLs, base64, the HTTP client, the clock and the decoding of JSON text are parameters; \<open>'s\<close> is the state of
  what lies behind the base transport.
\<close>

section \<open>Requests and responses\<close>

record net_url =
  nu_Scheme :: string
  nu_Host :: string
  nu_Path :: string
  nu_Query :: "(string \<times> string) list"

record request =
  q_Method :: string
  q_URL :: net_url
  q_Header :: "(string, string list) gomap"
  q_Form :: "(string \<times> string) list"
  q_Body :: string

text \<open>A response with the request it answers (the last one after redirects) and its other headers.\<close>

record response = http_response +
  rs_Request :: "net_url option"
  rs_Header :: "(string, string) gomap"
  rs_ContentLength :: int

type_synonym 's trip = "request \<Rightarrow> 's \<Rightarrow> ((go_error + response) \<times> 's) go"

type_synonym redirect_check = "request \<Rightarrow> request list \<Rightarrow> go_error + request"

record 's net_lib =
  nl_Parse :: "string \<Rightarrow> go_error + net_url"
  nl_String :: "net_url \<Rightarrow> string"
  nl_ResolveReference :: "net_url \<Rightarrow> net_url \<Rightarrow> net_url"
  nl_base64 :: "string \<Rightarrow> string"
  nl_Unmarshal :: "string \<Rightarrow> json option"
  nl_Decode :: "string \<Rightarrow> json option"
  nl_ParseTime :: "string \<Rightarrow> instant option"
  nl_http :: http_lib
  nl_Do :: "redirect_check option \<Rightarrow> 's trip \<Rightarrow> 's trip"
  nl_now :: "'s \<Rightarrow> instant"

definition header_Values :: "(string, string list) gomap \<Rightarrow> string \<Rightarrow> string list" where
  "header_Values h k = (case map_of h k of None \<Rightarrow> [] | Some vs \<Rightarrow> vs)"

definition header_Add :: "string \<Rightarrow> string \<Rightarrow> (string, string list) gomap \<Rightarrow> (string, string list) gomap" where
  "header_Add k v h = gomap_put k (header_Values h k @ [v]) h"

definition header_Set :: "string \<Rightarrow> string \<Rightarrow> (string, string list) gomap \<Rightarrow> (string, string list) gomap" where
  "header_Set k v h = gomap_put k [v] h"

definition query_Get :: "(string \<times> string) list \<Rightarrow> string \<Rightarrow> string" where
  "query_Get q k = (case map_of q k of None \<Rightarrow> [] | Some v \<Rightarrow> v)"

text \<open>\<open>Values.Encode\<close> sorts the parameters by name and keeps the order of those with the same name.\<close>

definition values_Encode :: "(string \<times> string) list \<Rightarrow> (string \<times> string) list" where
  "values_Encode q = sort_key fst q"

definition NewRequest :: "'s net_lib \<Rightarrow> string \<Rightarrow> string \<Rightarrow> go_error + request" where
  "NewRequest lib method u =
     (case nl_Parse lib u of
        Inl err \<Rightarrow> Inl err
      | Inr url \<Rightarrow> Inr \<lparr>q_Method = method, q_URL = url, q_Header = [], q_Form = [], q_Body = []\<rparr>)"

definition SetBasicAuth :: "'s net_lib \<Rightarrow> string \<Rightarrow> string \<Rightarrow> request \<Rightarrow> request" where
  "SetBasicAuth lib username password r =
     r\<lparr>q_Header := header_Set ''Authorization'' (''Basic '' @ nl_base64 lib (username @ '':'' @ password)) (q_Header r)\<rparr>"

definition response_error :: "'s net_lib \<Rightarrow> response \<Rightarrow> go_error option" where
  "response_error lib resp = HandleHTTPResponseError (nl_http lib) (http_response.truncate resp)"

section \<open>Challenges\<close>

definition hasPort :: "string \<Rightarrow> bool" where
  "hasPort s = (strings_LastIndex s CHR '':'' > strings_LastIndex s CHR '']'')"

definition portMap :: "(string, string) gomap" where
  "portMap = [(''http'', ''80''), (''https'', ''443'')]"

definition canonicalAddr :: "net_url \<Rightarrow> string" where
  "canonicalAddr url =
     (let addr = strings_ToLower (nu_Host url)
      in if \<not> hasPort addr then addr @ '':'' @ (case map_of portMap (nu_Scheme url) of None \<Rightarrow> [] | Some p \<Rightarrow> p) else addr)"

text \<open>The canonical form is printed from scheme, host and path only: callers pass no query.\<close>

definition normalizedURL :: "'s net_lib \<Rightarrow> net_url \<Rightarrow> string" where
  "normalizedURL lib endpoint = nl_String lib (endpoint\<lparr>nu_Host := canonicalAddr endpoint\<rparr>)"

type_synonym simpleManager = "(string, Challenge list) gomap"

definition NewSimpleManager :: simpleManager where
  "NewSimpleManager = []"

definition GetChallenges :: "'s net_lib \<Rightarrow> simpleManager \<Rightarrow> net_url \<Rightarrow> Challenge list" where
  "GetChallenges lib m endpoint = (case map_of m (normalizedURL lib endpoint) of None \<Rightarrow> [] | Some cs \<Rightarrow> cs)"

definition AddResponse :: "'s net_lib \<Rightarrow> response \<Rightarrow> simpleManager \<Rightarrow> go_error + simpleManager" where
  "AddResponse lib resp m =
     (case rs_Request resp of
        None \<Rightarrow> Inl (ErrText ''missing request reference'')
      | Some url \<Rightarrow>
          Inr (gomap_put (normalizedURL lib (url\<lparr>nu_Query := []\<rparr>)) (ResponseChallenges (http_response.truncate resp)) m))"

text \<open>A manager that drops challenges on reads; without a predicate it is the manager it wraps.\<close>

definition filtering_GetChallenges :: "(Challenge \<Rightarrow> bool) option \<Rightarrow> 's net_lib \<Rightarrow> simpleManager \<Rightarrow> net_url \<Rightarrow> Challenge list" where
  "filtering_GetChallenges keep lib m endpoint =
     (case keep of None \<Rightarrow> GetChallenges lib m endpoint | Some f \<Rightarrow> filter f (GetChallenges lib m endpoint))"

section \<open>Credentials\<close>

text \<open>The interface \<open>CredentialStore\<close>, and the store of the registry client.\<close>

record 'c CredentialStore =
  cs_Basic :: "'c \<Rightarrow> net_url \<Rightarrow> string \<times> string"
  cs_RefreshToken :: "'c \<Rightarrow> net_url \<Rightarrow> string \<Rightarrow> string"
  cs_SetRefreshToken :: "'c \<Rightarrow> net_url \<Rightarrow> string \<Rightarrow> string \<Rightarrow> 'c"

record credentials =
  cr_username :: string
  cr_password :: string
  cr_refreshTokens :: "(string, string) gomap option"

definition credentials_Basic :: "credentials \<Rightarrow> net_url \<Rightarrow> string \<times> string" where
  "credentials_Basic c url = (cr_username c, cr_password c)"

definition credentials_RefreshToken :: "credentials \<Rightarrow> net_url \<Rightarrow> string \<Rightarrow> string" where
  "credentials_RefreshToken c url service =
     (case cr_refreshTokens c of None \<Rightarrow> [] | Some m \<Rightarrow> (case map_of m service of None \<Rightarrow> [] | Some t \<Rightarrow> t))"

definition credentials_SetRefreshToken :: "credentials \<Rightarrow> net_url \<Rightarrow> string \<Rightarrow> string \<Rightarrow> credentials" where
  "credentials_SetRefreshToken c realm service token =
     (case cr_refreshTokens c of None \<Rightarrow> c | Some m \<Rightarrow> c\<lparr>cr_refreshTokens := Some (gomap_put service token m)\<rparr>)"

definition credentials_store :: "credentials CredentialStore" where
  "credentials_store =
     \<lparr>cs_Basic = credentials_Basic, cs_RefreshToken = credentials_RefreshToken, cs_SetRefreshToken = credentials_SetRefreshToken\<rparr>"

section \<open>Tokens\<close>

datatype Scope =
    RepositoryScope (sc_Repository: string) (sc_Class: string) (sc_Actions: "string list")
  | RegistryScope (sc_Name: string) (sc_Actions: "string list")

fun scope_String :: "Scope \<Rightarrow> string" where
  "scope_String (RepositoryScope repository class actions) =
     (let repoType = (if class \<noteq> [] \<and> class \<noteq> ''image'' then ''repository('' @ class @ '')'' else ''repository'')
      in repoType @ '':'' @ repository @ '':'' @ strings_Join actions '','')"
| "scope_String (RegistryScope name actions) = ''registry:'' @ name @ '':'' @ strings_Join actions '',''"

record 'c tokenHandler =
  th_creds :: "'c option"
  th_offlineAccess :: bool
  th_forceOAuth :: bool
  th_clientID :: string
  th_scopes :: "Scope list"
  th_tokenCache :: string
  th_tokenExpiration :: instant

record 'c TokenHandlerOptions =
  to_Credentials :: "'c option"
  to_OfflineAccess :: bool
  to_ForceOAuth :: bool
  to_ClientID :: string
  to_Scopes :: "Scope list"

definition NewTokenHandlerWithOptions :: "'c TokenHandlerOptions \<Rightarrow> 'c tokenHandler" where
  "NewTokenHandlerWithOptions opts =
     \<lparr>th_creds = to_Credentials opts, th_offlineAccess = to_OfflineAccess opts, th_forceOAuth = to_ForceOAuth opts,
      th_clientID = to_ClientID opts, th_scopes = to_Scopes opts, th_tokenCache = [], th_tokenExpiration = zero_time\<rparr>"

definition NewTokenHandler :: "'c option \<Rightarrow> string \<Rightarrow> string list \<Rightarrow> 'c tokenHandler" where
  "NewTokenHandler creds scope actions =
     NewTokenHandlerWithOptions
       \<lparr>to_Credentials = creds, to_OfflineAccess = False, to_ForceOAuth = False, to_ClientID = [],
        to_Scopes = [RepositoryScope scope [] actions]\<rparr>"

definition defaultClientID :: string where
  "defaultClientID = ''registry-client''"

definition minimumTokenLifetimeSeconds :: int where
  "minimumTokenLifetimeSeconds = 60"

text \<open>Arithmetic on \<open>int64\<close> wraps around; \<open>time.Duration\<close> is such a number of nanoseconds.\<close>

definition int64 :: "int \<Rightarrow> int" where
  "int64 n = sint (word_of_int n :: 64 word)"

lemma int64_exact: "- 9223372036854775808 \<le> n \<Longrightarrow> n < 9223372036854775808 \<Longrightarrow> int64 n = n"
  by (simp add: int64_def signed_of_int signed_take_bit_int_eq_self)

definition seconds :: "int \<Rightarrow> int" where
  "seconds n = int64 (n * 1000000000)"

text \<open>The two token responses, decoded from JSON; the decoder reads the first value of the body.\<close>

record token_response =
  tr_Token :: string
  tr_AccessToken :: string
  tr_RefreshToken :: string
  tr_ExpiresIn :: int
  tr_IssuedAt :: instant

fun decode_int :: "json list \<Rightarrow> int \<Rightarrow> int option" where
  "decode_int [] n = Some n"
| "decode_int (v # vs) n =
     (case v of JNull \<Rightarrow> decode_int vs n
      | JNum t \<Rightarrow> (case strconv_Atoi t of None \<Rightarrow> None | Some m \<Rightarrow> decode_int vs m)
      | _ \<Rightarrow> None)"

fun decode_time :: "(string \<Rightarrow> instant option) \<Rightarrow> json list \<Rightarrow> instant \<Rightarrow> instant option" where
  "decode_time parse [] t = Some t"
| "decode_time parse (v # vs) t =
     (case v of JNull \<Rightarrow> decode_time parse vs t
      | JStr s \<Rightarrow> (case parse s of None \<Rightarrow> None | Some u \<Rightarrow> decode_time parse vs u)
      | _ \<Rightarrow> None)"

text \<open>\<open>names\<close> are the string fields of the response struct; \<open>token\<close> exists only in the answer to GET.\<close>

definition decode_token :: "'s net_lib \<Rightarrow> string list \<Rightarrow> string option \<Rightarrow> token_response option" where
  "decode_token lib names body =
     (case Option.bind body (nl_Decode lib) of
        Some v \<Rightarrow>
          (case (case v of JObj m \<Rightarrow> Some m | JNull \<Rightarrow> Some [] | _ \<Rightarrow> None) of
             None \<Rightarrow> None
           | Some m \<Rightarrow>
               (case (string_fields m names, decode_int (json_values m ''expires_in'') 0,
                      decode_time (nl_ParseTime lib) (json_values m ''issued_at'') zero_time) of
                  (Some strs, Some expiresIn, Some issuedAt) \<Rightarrow>
                    (let field = (\<lambda>n. case map_of (zip names strs) n of None \<Rightarrow> [] | Some s \<Rightarrow> s)
                     in Some \<lparr>tr_Token = field ''token'', tr_AccessToken = field ''access_token'', tr_RefreshToken = field ''refresh_token'',
                              tr_ExpiresIn = expiresIn, tr_IssuedAt = issuedAt\<rparr>)
                | _ \<Rightarrow> None))
      | None \<Rightarrow> None)"

text \<open>When a token ends: at least a minute after it was issued, or after now when the response does not say when.\<close>

definition token_expiration :: "token_response \<Rightarrow> instant \<Rightarrow> instant" where
  "token_expiration tr now =
     (let expiresIn = (if tr_ExpiresIn tr < minimumTokenLifetimeSeconds then minimumTokenLifetimeSeconds else tr_ExpiresIn tr);
          issuedAt = (if tr_IssuedAt tr = zero_time then now else tr_IssuedAt tr)
      in issuedAt + seconds expiresIn)"

definition client_id :: "'c tokenHandler \<Rightarrow> string" where
  "client_id th = (if th_clientID th = [] then defaultClientID else th_clientID th)"

text \<open>Sending a token request; a response with an error status is an error.\<close>

definition token_request :: "'s net_lib \<Rightarrow> 's trip \<Rightarrow> 's trip" where
  "token_request lib base req s =
     go_bind (nl_Do lib None base req s)
       (\<lambda>(r, s). case r of
          Inl err \<Rightarrow> Ret (Inl err, s)
        | Inr resp \<Rightarrow> (case response_error lib resp of Some err \<Rightarrow> Ret (Inl err, s) | None \<Rightarrow> Ret (Inr resp, s)))"

definition decode_failed :: go_error where
  "decode_failed = ErrText ''unable to decode token response''"

definition ErrNoToken :: go_error where
  "ErrNoToken = ErrText ''authorization server did not include a token in the response''"

definition oauth_form :: "'c CredentialStore \<Rightarrow> 'c tokenHandler \<Rightarrow> net_url \<Rightarrow> string \<Rightarrow> string \<Rightarrow> string list \<Rightarrow> (string \<times> string) list option" where
  "oauth_form store th realm refreshToken service scopes =
     (let form = [(''scope'', strings_Join scopes '' ''), (''service'', service), (''client_id'', client_id th)]
      in if refreshToken \<noteq> [] then Some (form @ [(''grant_type'', ''refresh_token''), (''refresh_token'', refreshToken)])
         else
           (case th_creds th of
              Some creds \<Rightarrow>
                (case cs_Basic store creds realm of
                   (username, password) \<Rightarrow>
                     Some (form @ [(''grant_type'', ''password''), (''username'', username), (''password'', password), (''access_type'', ''offline'')]))
            | None \<Rightarrow> None))"

text \<open>Keeping a refresh token; without a store, the call would be one on a nil interface.\<close>

definition keep_refresh_token :: "'c CredentialStore \<Rightarrow> net_url \<Rightarrow> string \<Rightarrow> string \<Rightarrow> 'c tokenHandler \<Rightarrow> 'c tokenHandler go" where
  "keep_refresh_token store realm service token th =
     (case th_creds th of None \<Rightarrow> Panic | Some c \<Rightarrow> Ret (th\<lparr>th_creds := Some (cs_SetRefreshToken store c realm service token)\<rparr>))"

definition fetchTokenWithOAuth ::
  "'s net_lib \<Rightarrow> 'c CredentialStore \<Rightarrow> 's trip \<Rightarrow> 'c tokenHandler \<Rightarrow> net_url \<Rightarrow> string \<Rightarrow> string \<Rightarrow> string list \<Rightarrow> 's \<Rightarrow>
   ((go_error + string \<times> instant) \<times> 'c tokenHandler \<times> 's) go" where
  "fetchTokenWithOAuth lib store base th realm refreshToken service scopes s =
     (case oauth_form store th realm refreshToken service scopes of
        None \<Rightarrow> Ret (Inl (ErrText ''no supported grant type''), th, s)
      | Some form \<Rightarrow>
          (case NewRequest lib ''POST'' (nl_String lib realm) of
             Inl err \<Rightarrow> Ret (Inl err, th, s)
           | Inr req \<Rightarrow>
               (let req = req\<lparr>q_Form := values_Encode form,
                      q_Header := header_Set ''Content-Type'' ''application/x-www-form-urlencoded'' (q_Header req)\<rparr>
                in go_bind (token_request lib base req s) (\<lambda>(r, s). case r of
                     Inl err \<Rightarrow> Ret (Inl err, th, s)
                   | Inr resp \<Rightarrow>
                       (case decode_token lib [''access_token'', ''refresh_token'', ''scope''] (Body resp) of
                          None \<Rightarrow> Ret (Inl decode_failed, th, s)
                        | Some tr \<Rightarrow>
                            if tr_AccessToken tr = [] then Ret (Inl ErrNoToken, th, s)
                            else
                              go_bind (if tr_RefreshToken tr \<noteq> [] \<and> tr_RefreshToken tr \<noteq> refreshToken
                                       then keep_refresh_token store realm service (tr_RefreshToken tr) th else Ret th)
                                (\<lambda>th. Ret (Inr (tr_AccessToken tr, token_expiration tr (nl_now lib s)), th, s)))))))"

definition basic_token_request :: "'s net_lib \<Rightarrow> 'c CredentialStore \<Rightarrow> 'c tokenHandler \<Rightarrow> net_url \<Rightarrow> string \<Rightarrow> string list \<Rightarrow> request \<Rightarrow> request" where
  "basic_token_request lib store th realm service scopes req =
     (let params = nu_Query (q_URL req)
            @ (if service \<noteq> [] then [(''service'', service)] else []) @ map (Pair ''scope'') scopes
            @ (if th_offlineAccess th then [(''offline_token'', ''true''), (''client_id'', client_id th)] else []);
          (account, req) =
            (case th_creds th of
               None \<Rightarrow> ([], req)
             | Some creds \<Rightarrow>
                 (case cs_Basic store creds realm of
                    (username, password) \<Rightarrow>
                      if username \<noteq> [] \<and> password \<noteq> []
                      then ([(''account'', username)], SetBasicAuth lib username password req) else ([], req)))
      in req\<lparr>q_URL := (q_URL req)\<lparr>nu_Query := values_Encode (params @ account)\<rparr>\<rparr>)"

definition fetchTokenWithBasicAuth ::
  "'s net_lib \<Rightarrow> 'c CredentialStore \<Rightarrow> 's trip \<Rightarrow> 'c tokenHandler \<Rightarrow> net_url \<Rightarrow> string \<Rightarrow> string list \<Rightarrow> 's \<Rightarrow>
   ((go_error + string \<times> instant) \<times> 'c tokenHandler \<times> 's) go" where
  "fetchTokenWithBasicAuth lib store base th realm service scopes s =
     (case NewRequest lib ''GET'' (nl_String lib realm) of
        Inl err \<Rightarrow> Ret (Inl err, th, s)
      | Inr req \<Rightarrow>
          go_bind (token_request lib base (basic_token_request lib store th realm service scopes req) s) (\<lambda>(r, s). case r of
             Inl err \<Rightarrow> Ret (Inl err, th, s)
           | Inr resp \<Rightarrow>
               (case decode_token lib [''token'', ''access_token'', ''refresh_token''] (Body resp) of
                  None \<Rightarrow> Ret (Inl decode_failed, th, s)
                | Some tr \<Rightarrow>
                    go_bind (if tr_RefreshToken tr \<noteq> [] \<and> th_creds th \<noteq> None
                             then keep_refresh_token store realm service (tr_RefreshToken tr) th else Ret th)
                      (\<lambda>th. let token = (if tr_AccessToken tr \<noteq> [] then tr_AccessToken tr else tr_Token tr)
                            in if token = [] then Ret (Inl ErrNoToken, th, s)
                               else Ret (Inr (token, token_expiration tr (nl_now lib s)), th, s)))))"

definition fetchToken ::
  "'s net_lib \<Rightarrow> 'c CredentialStore \<Rightarrow> 's trip \<Rightarrow> 'c tokenHandler \<Rightarrow> (string, string) gomap \<Rightarrow> string list \<Rightarrow> 's \<Rightarrow>
   ((go_error + string \<times> instant) \<times> 'c tokenHandler \<times> 's) go" where
  "fetchToken lib store base th params scopes s =
     (case map_of params ''realm'' of
        None \<Rightarrow> Ret (Inl (ErrText ''no realm specified for token auth challenge''), th, s)
      | Some realm \<Rightarrow>
          (case nl_Parse lib realm of
             Inl err \<Rightarrow> Ret (Inl (ErrText ''invalid token auth challenge realm''), th, s)
           | Inr realmURL \<Rightarrow>
               (let service = (case map_of params ''service'' of None \<Rightarrow> [] | Some v \<Rightarrow> v);
                    refreshToken = (case th_creds th of None \<Rightarrow> [] | Some c \<Rightarrow> cs_RefreshToken store c realmURL service)
                in if refreshToken \<noteq> [] \<or> th_forceOAuth th
                   then fetchTokenWithOAuth lib store base th realmURL refreshToken service scopes s
                   else fetchTokenWithBasicAuth lib store base th realmURL service scopes s)))"

text \<open>The scopes to ask for, and whether one was added to those of the handler.\<close>

fun add_scopes :: "string list \<Rightarrow> string list \<Rightarrow> string list \<times> bool" where
  "add_scopes scopes [] = (scopes, False)"
| "add_scopes scopes (scope # rest) =
     (if scope \<in> set scopes then add_scopes scopes rest else (fst (add_scopes (scopes @ [scope]) rest), True))"

definition getToken ::
  "'s net_lib \<Rightarrow> 'c CredentialStore \<Rightarrow> 's trip \<Rightarrow> 'c tokenHandler \<Rightarrow> (string, string) gomap \<Rightarrow> string list \<Rightarrow> 's \<Rightarrow>
   ((go_error + string) \<times> 'c tokenHandler \<times> 's) go" where
  "getToken lib store base th params additionalScopes s =
     (case add_scopes (map scope_String (th_scopes th)) additionalScopes of
        (scopes, addedScopes) \<Rightarrow>
          if nl_now lib s > th_tokenExpiration th \<or> addedScopes then
            go_bind (fetchToken lib store base th params scopes s)
              (\<lambda>(r, th, s). case r of
                 Inl err \<Rightarrow> Ret (Inl err, th, s)
               | Inr (token, expiration) \<Rightarrow>
                   Ret (Inr token, (if addedScopes then th else th\<lparr>th_tokenCache := token, th_tokenExpiration := expiration\<rparr>), s))
          else Ret (Inr (th_tokenCache th), th, s))"

section \<open>Authorizing requests\<close>

definition token_AuthorizeRequest ::
  "'s net_lib \<Rightarrow> 'c CredentialStore \<Rightarrow> 's trip \<Rightarrow> 'c tokenHandler \<Rightarrow> (string, string) gomap \<Rightarrow> request \<Rightarrow> 's \<Rightarrow>
   ((go_error + request) \<times> 'c tokenHandler \<times> 's) go" where
  "token_AuthorizeRequest lib store base th params req s =
     (let fromParam = query_Get (nu_Query (q_URL req)) ''from'';
          additionalScopes = (if fromParam \<noteq> [] then [scope_String (RepositoryScope fromParam [] [''pull''])] else [])
      in go_bind (getToken lib store base th params additionalScopes s)
           (\<lambda>(r, th, s). case r of
              Inl err \<Rightarrow> Ret (Inl err, th, s)
            | Inr token \<Rightarrow> Ret (Inr (req\<lparr>q_Header := header_Set ''Authorization'' (''Bearer '' @ token) (q_Header req)\<rparr>), th, s)))"

definition ErrNoBasicAuthCredentials :: go_error where
  "ErrNoBasicAuthCredentials = ErrText ''no basic auth credentials''"

definition basic_AuthorizeRequest :: "'s net_lib \<Rightarrow> 'c CredentialStore \<Rightarrow> 'c option \<Rightarrow> request \<Rightarrow> go_error + request" where
  "basic_AuthorizeRequest lib store creds req =
     (case creds of
        None \<Rightarrow> Inl ErrNoBasicAuthCredentials
      | Some c \<Rightarrow>
          (case cs_Basic store c (q_URL req) of
             (username, password) \<Rightarrow>
               if username \<noteq> [] \<and> password \<noteq> [] then Inr (SetBasicAuth lib username password req) else Inl ErrNoBasicAuthCredentials))"

datatype 'c AuthenticationHandler = TokenH "'c tokenHandler" | BasicH "'c option"

fun handler_Scheme :: "'c AuthenticationHandler \<Rightarrow> string" where
  "handler_Scheme (TokenH _) = ''bearer''"
| "handler_Scheme (BasicH _) = ''basic''"

fun AuthorizeRequest ::
  "'s net_lib \<Rightarrow> 'c CredentialStore \<Rightarrow> 's trip \<Rightarrow> 'c AuthenticationHandler \<Rightarrow> (string, string) gomap \<Rightarrow> request \<Rightarrow> 's \<Rightarrow>
   ((go_error + request) \<times> 'c AuthenticationHandler \<times> 's) go" where
  "AuthorizeRequest lib store base (TokenH th) params req s =
     go_bind (token_AuthorizeRequest lib store base th params req s) (\<lambda>(r, th, s). Ret (r, TokenH th, s))"
| "AuthorizeRequest lib store base (BasicH c) params req s = Ret (basic_AuthorizeRequest lib store c req, BasicH c, s)"

fun challenge_loop ::
  "'s net_lib \<Rightarrow> 'c CredentialStore \<Rightarrow> 's trip \<Rightarrow> Challenge list \<Rightarrow> 'c AuthenticationHandler \<Rightarrow> request \<Rightarrow> 's \<Rightarrow>
   ((go_error + request) \<times> 'c AuthenticationHandler \<times> 's) go" where
  "challenge_loop lib store base [] h req s = Ret (Inr req, h, s)"
| "challenge_loop lib store base (c # cs) h req s =
     (if Scheme c \<noteq> handler_Scheme h then challenge_loop lib store base cs h req s
      else
        go_bind (AuthorizeRequest lib store base h (Parameters c) req s)
          (\<lambda>(r, h, s). case r of Inl err \<Rightarrow> Ret (Inl err, h, s) | Inr req \<Rightarrow> challenge_loop lib store base cs h req s))"

fun handler_loop ::
  "'s net_lib \<Rightarrow> 'c CredentialStore \<Rightarrow> 's trip \<Rightarrow> Challenge list \<Rightarrow> 'c AuthenticationHandler list \<Rightarrow> request \<Rightarrow> 's \<Rightarrow>
   ((go_error + request) \<times> 'c AuthenticationHandler list \<times> 's) go" where
  "handler_loop lib store base cs [] req s = Ret (Inr req, [], s)"
| "handler_loop lib store base cs (h # hs) req s =
     go_bind (challenge_loop lib store base cs h req s)
       (\<lambda>(r, h, s). case r of
          Inl err \<Rightarrow> Ret (Inl err, h # hs, s)
        | Inr req \<Rightarrow> go_bind (handler_loop lib store base cs hs req s) (\<lambda>(r, hs, s). Ret (r, h # hs, s)))"

text \<open>The first occurrence of a substring, as \<open>strings.Index\<close> finds it.\<close>

fun index_of :: "string \<Rightarrow> string \<Rightarrow> nat option" where
  "index_of pat [] = (if pat = [] then Some 0 else None)"
| "index_of pat (c # cs) = (if prefix pat (c # cs) then Some 0 else map_option Suc (index_of pat cs))"

definition ping_path :: "string \<Rightarrow> string option" where
  "ping_path path =
     (case index_of ''/v2/'' path of
        Some i \<Rightarrow> Some (take (i + 4) path)
      | None \<Rightarrow> (case index_of ''/v1/'' path of Some i \<Rightarrow> Some (take i path @ ''/v2/'') | None \<Rightarrow> None))"

record 'c endpointAuthorizer =
  ea_challenges :: simpleManager
  ea_handlers :: "'c AuthenticationHandler list"

definition ModifyRequest ::
  "'s net_lib \<Rightarrow> 'c CredentialStore \<Rightarrow> 's trip \<Rightarrow> request \<Rightarrow> 'c endpointAuthorizer \<Rightarrow> 's \<Rightarrow>
   ((go_error + request) \<times> 'c endpointAuthorizer \<times> 's) go" where
  "ModifyRequest lib store base req ea s =
     (case ping_path (nu_Path (q_URL req)) of
        None \<Rightarrow> Ret (Inr req, ea, s)
      | Some pingPath \<Rightarrow>
          (let ping = \<lparr>nu_Scheme = nu_Scheme (q_URL req), nu_Host = nu_Host (q_URL req), nu_Path = pingPath, nu_Query = []\<rparr>;
               challenges = GetChallenges lib (ea_challenges ea) ping
           in if challenges = [] then Ret (Inr req, ea, s)
              else go_bind (handler_loop lib store base challenges (ea_handlers ea) req s)
                     (\<lambda>(r, hs, s). Ret (r, ea\<lparr>ea_handlers := hs\<rparr>, s))))"

section \<open>Transports\<close>

text \<open>
  The state behind the transport of a repository: the authorizer, the number of times the rate limiter was asked, and what lies behind
  the endpoint's own transport.  The bookkeeping that allows to cancel a modified request is left out.
\<close>

record ('c, 's) conn =
  cn_auth :: "'c endpointAuthorizer"
  cn_taken :: nat
  cn_base :: 's

definition transport_RoundTrip :: "'s net_lib \<Rightarrow> 'c CredentialStore \<Rightarrow> 's trip \<Rightarrow> ('c, 's) conn trip" where
  "transport_RoundTrip lib store base req cn =
     go_bind (ModifyRequest lib store base req (cn_auth cn) (cn_base cn))
       (\<lambda>(r, ea, s). case r of
          Inl err \<Rightarrow> Ret (Inl err, cn\<lparr>cn_auth := ea, cn_base := s\<rparr>)
        | Inr req2 \<Rightarrow> go_bind (base req2 s) (\<lambda>(r, s). Ret (r, cn\<lparr>cn_auth := ea, cn_base := s\<rparr>)))"

definition rateLimit_RoundTrip :: "'s net_lib \<Rightarrow> 'c CredentialStore \<Rightarrow> 's trip \<Rightarrow> ('c, 's) conn trip" where
  "rateLimit_RoundTrip lib store base req cn = transport_RoundTrip lib store base req (cn\<lparr>cn_taken := cn_taken cn + 1\<rparr>)"

definition header_ModifyRequest :: "(string, string list) gomap \<Rightarrow> request \<Rightarrow> request" where
  "header_ModifyRequest h req = req\<lparr>q_Header := fold (\<lambda>(k, vs) hdr. gomap_put k (header_Values hdr k @ vs) hdr) h (q_Header req)\<rparr>"

section \<open>Versions of the API\<close>

record APIVersion =
  av_Type :: string
  av_Version :: string

definition APIVersion_String :: "APIVersion \<Rightarrow> string" where
  "APIVersion_String v = av_Type v @ ''/'' @ av_Version v"

definition ParseAPIVersion :: "string \<Rightarrow> APIVersion" where
  "ParseAPIVersion versionStr =
     (let idx = strings_Index versionStr CHR ''/''
      in if idx = -1 then \<lparr>av_Type = ''unknown'', av_Version = versionStr\<rparr>
         else \<lparr>av_Type = strings_ToLower (take (nat idx) versionStr), av_Version = drop (nat idx + 1) versionStr\<rparr>)"

section \<open>Stores of credentials\<close>

text \<open>Two states of a handler that log in as the same user.\<close>

definition same_login :: "'c CredentialStore \<Rightarrow> 'c tokenHandler \<Rightarrow> 'c tokenHandler \<Rightarrow> bool" where
  "same_login store th th' \<longleftrightarrow>
     (th_creds th' = None \<longleftrightarrow> th_creds th = None) \<and>
     (\<forall>c c' url. th_creds th = Some c \<longrightarrow> th_creds th' = Some c' \<longrightarrow> cs_Basic store c' url = cs_Basic store c url)"

text \<open>
  What the handlers rely on: storing a refresh token changes neither the user name and password nor the refresh token of another service.
\<close>

locale credential_store =
  fixes store :: "'c CredentialStore"
  assumes Basic_Set: "cs_Basic store (cs_SetRefreshToken store c realm service token) url = cs_Basic store c url"
    and Refresh_Set_other: "service' \<noteq> service \<Longrightarrow>
      cs_RefreshToken store (cs_SetRefreshToken store c realm service token) url service' = cs_RefreshToken store c url service'"
begin

lemma same_login_refl: "same_login store th th"
  by (simp add: same_login_def)

lemma keep_refresh_token_login: "keep_refresh_token store realm service token th = Ret th' \<Longrightarrow> same_login store th th'"
  by (auto simp: keep_refresh_token_def same_login_def Basic_Set split: option.split_asm)

lemma fetchToken_login:
  assumes "fetchToken lib store base th params scopes s = Ret (r, th', s')"
  shows "same_login store th th'"
  using assms
  by (auto simp: fetchToken_def fetchTokenWithOAuth_def fetchTokenWithBasicAuth_def Let_def same_login_refl
      elim!: go_bindE dest!: keep_refresh_token_login split: option.split_asm sum.split_asm if_split_asm prod.split_asm)

lemma getToken_login:
  assumes "getToken lib store base th params extra s = Ret (r, th', s')"
  shows "same_login store th th'"
proof -
  have "same_login store th (th1\<lparr>th_tokenCache := t, th_tokenExpiration := e\<rparr>)" if "same_login store th th1" for th1 t e
    using that by (simp add: same_login_def)
  with assms show ?thesis
    by (auto simp: getToken_def same_login_refl elim!: go_bindE dest!: fetchToken_login split: prod.split_asm if_split_asm sum.split_asm)
qed

end

interpretation creds: credential_store credentials_store
  by unfold_locales
    (auto simp: credentials_store_def credentials_Basic_def credentials_RefreshToken_def credentials_SetRefreshToken_def map_of_gomap_put
      split: option.split)

section \<open>The token cache\<close>

lemma keep_refresh_token_frame:
  "keep_refresh_token store realm service token th = Ret th' \<Longrightarrow>
     th_scopes th' = th_scopes th \<and> th_tokenCache th' = th_tokenCache th \<and> th_tokenExpiration th' = th_tokenExpiration th"
  by (auto simp: keep_refresh_token_def split: option.split_asm)

lemma fetchToken_frame:
  assumes "fetchToken lib store base th params scopes s = Ret (r, th', s')"
  shows "th_scopes th' = th_scopes th \<and> th_tokenCache th' = th_tokenCache th \<and> th_tokenExpiration th' = th_tokenExpiration th"
  using assms
  by (auto simp: fetchToken_def fetchTokenWithOAuth_def fetchTokenWithBasicAuth_def Let_def
      elim!: go_bindE dest!: keep_refresh_token_frame split: option.split_asm sum.split_asm if_split_asm prod.split_asm)

lemma fetchToken_nonempty:
  assumes "fetchToken lib store base th params scopes s = Ret (Inr (token, expiration), th', s')"
  shows "token \<noteq> []"
  using assms
  by (auto simp: fetchToken_def fetchTokenWithOAuth_def fetchTokenWithBasicAuth_def Let_def
      elim!: go_bindE split: option.split_asm sum.split_asm if_split_asm prod.split_asm)

lemma add_scopes_added: "snd (add_scopes scopes extra) \<longleftrightarrow> \<not> set extra \<subseteq> set scopes"
  by (induction scopes extra rule: add_scopes.induct) auto

lemma add_scopes_set: "set (fst (add_scopes scopes extra)) = set scopes \<union> set extra"
  by (induction scopes extra rule: add_scopes.induct) auto

lemma add_scopes_none: "set extra \<subseteq> set scopes \<Longrightarrow> fst (add_scopes scopes extra) = scopes"
  by (induction scopes extra rule: add_scopes.induct) auto

definition base_scopes :: "'c tokenHandler \<Rightarrow> string list" where
  "base_scopes th = map scope_String (th_scopes th)"

text \<open>
  The calls that a handler has answered, each with its challenge parameters, its additional scopes and the state it was made in.  What
  lies behind the transport may change freely between two calls.
\<close>

type_synonym ('c, 's) token_call = "'c tokenHandler \<times> (string, string) gomap \<times> string list \<times> 's"

inductive token_run ::
  "'s net_lib \<Rightarrow> 'c CredentialStore \<Rightarrow> 's trip \<Rightarrow> 'c tokenHandler \<Rightarrow> ('c, 's) token_call list \<Rightarrow> 'c tokenHandler \<Rightarrow> bool"
  for lib store base th0 where
  fresh: "token_run lib store base th0 [] th0"
| answered: "token_run lib store base th0 (calls @ [(th, params, extra, s)]) th'"
    if "token_run lib store base th0 calls th" "getToken lib store base th params extra s = Ret (r, th', s')"

text \<open>The cached token is the one that an earlier call has fetched for exactly the scopes of the handler.\<close>

definition fetched_before ::
  "'s net_lib \<Rightarrow> 'c CredentialStore \<Rightarrow> 's trip \<Rightarrow> ('c, 's) token_call list \<Rightarrow> string list \<Rightarrow> string \<Rightarrow> instant \<Rightarrow> bool" where
  "fetched_before lib store base calls scopes token expiration \<longleftrightarrow>
     (\<exists>(th, params, extra, s) \<in> set calls. \<exists>th' s'. fetchToken lib store base th params scopes s = Ret (Inr (token, expiration), th', s'))"

lemma getToken_cases:
  assumes "getToken lib store base th params extra s = Ret (r, th', s')"
  obtains (cached) "set extra \<subseteq> set (base_scopes th)" "nl_now lib s \<le> th_tokenExpiration th" "r = Inr (th_tokenCache th)" "th' = th" "s' = s"
  | (failed) err where "r = Inl err" "fetchToken lib store base th params (fst (add_scopes (base_scopes th) extra)) s = Ret (Inl err, th', s')"
  | (fetched) token expiration th1 where "r = Inr token"
    "fetchToken lib store base th params (fst (add_scopes (base_scopes th) extra)) s = Ret (Inr (token, expiration), th1, s')"
    "th' = (if set extra \<subseteq> set (base_scopes th) then th1\<lparr>th_tokenCache := token, th_tokenExpiration := expiration\<rparr> else th1)"
proof -
  obtain scopes added where scopes: "add_scopes (base_scopes th) extra = (scopes, added)" by fastforce
  then have added: "added \<longleftrightarrow> \<not> set extra \<subseteq> set (base_scopes th)" using add_scopes_added [of "base_scopes th" extra] by simp
  show thesis
  proof (cases "nl_now lib s > th_tokenExpiration th \<or> added")
    case True
    with assms scopes obtain r1 th1 where
      fetch: "fetchToken lib store base th params (fst (add_scopes (base_scopes th) extra)) s = Ret (r1, th1, s')" and
      r: "(case r1 of Inl err \<Rightarrow> r = Inl err \<and> th' = th1
         | Inr (token, e) \<Rightarrow> r = Inr token \<and> th' = (if added then th1 else th1\<lparr>th_tokenCache := token, th_tokenExpiration := e\<rparr>))"
      by (auto simp: getToken_def base_scopes_def [symmetric] elim!: go_bindE split: sum.split_asm prod.split_asm)
    show thesis
    proof (cases r1)
      case (Inl err)
      with fetch r failed show thesis by simp
    next
      case (Inr p)
      obtain token e where p: "p = (token, e)" by (cases p)
      show thesis by (rule fetched) (use fetch r Inr p added in auto)
    qed
  next
    case False
    with assms scopes have "r = Inr (th_tokenCache th)" "th' = th" "s' = s" by (auto simp: getToken_def base_scopes_def [symmetric])
    with False added cached show thesis by simp
  qed
qed

lemma token_run_scopes: "token_run lib store base th0 calls th \<Longrightarrow> th_scopes th = th_scopes th0"
proof (induction rule: token_run.induct)
  case (answered calls th params extra s r th' s')
  from answered(2) show ?case
    by (cases rule: getToken_cases) (use answered(3) in \<open>auto dest!: fetchToken_frame split: if_split_asm\<close>)
qed simp

lemma token_run_cache:
  assumes "token_run lib store base th0 calls th" "th_tokenCache th0 = []" "th_tokenExpiration th0 = zero_time"
  shows "th_tokenCache th = [] \<and> th_tokenExpiration th = zero_time \<or>
    fetched_before lib store base calls (base_scopes th) (th_tokenCache th) (th_tokenExpiration th)"
  using assms
proof (induction rule: token_run.induct)
  case (answered calls th params extra s r th' s')
  note IH = answered(3) [OF answered(4,5)]
  have kept: "fetched_before lib store base (calls @ [(th, params, extra, s)]) scopes t e" if "fetched_before lib store base calls scopes t e" for scopes t e
    using that unfolding fetched_before_def by auto
  from answered(2) show ?case
  proof (cases rule: getToken_cases)
    case cached
    with IH kept show ?thesis by auto
  next
    case (failed err)
    from fetchToken_frame [OF this(2)] IH kept show ?thesis by (auto simp: base_scopes_def)
  next
    case (fetched token expiration th1)
    note frame = fetchToken_frame [OF fetched(2)]
    show ?thesis
    proof (cases "set extra \<subseteq> set (base_scopes th)")
      case True
      then have "fetchToken lib store base th params (base_scopes th) s = Ret (Inr (token, expiration), th1, s')"
        using fetched(2) by (simp add: add_scopes_none)
      then have "fetched_before lib store base (calls @ [(th, params, extra, s)]) (base_scopes th) token expiration"
        unfolding fetched_before_def by auto
      with True fetched(3) frame show ?thesis by (simp add: base_scopes_def)
    next
      case False
      with fetched(3) frame IH kept show ?thesis by (auto simp: base_scopes_def)
    qed
  qed
qed simp


text \<open>
  \<open>C32\<close>.  A token lives as long as the server says and at least a minute, provided that the announced lifetime is at most
  9223372036 seconds, about 292 years; one second more overflows the 64-bit duration, and the token ends before it was issued.
\<close>

theorem token_lifetime_bounds:
  "let issued = (if tr_IssuedAt tr = zero_time then now else tr_IssuedAt tr) in
   (tr_ExpiresIn tr \<le> 9223372036 \<longrightarrow>
      token_expiration tr now = issued + max 60 (tr_ExpiresIn tr) * 1000000000 \<and> token_expiration tr now \<ge> issued + 60 * 1000000000) \<and>
   (tr_ExpiresIn tr = 9223372037 \<longrightarrow> token_expiration tr now < issued)"
proof -
  have exact: "seconds n = n * 1000000000" if "0 \<le> n" "n \<le> 9223372036" for n
    unfolding seconds_def using that by (intro int64_exact) auto
  have wrap: "seconds 9223372037 < 0" unfolding seconds_def int64_def by simp
  show ?thesis
    using exact [of "max 60 (tr_ExpiresIn tr)"] wrap
    by (auto simp: token_expiration_def minimumTokenLifetimeSeconds_def Let_def max_def)
qed

theorem token_lifetime_bounds_witness:
  "token_expiration \<lparr>tr_Token = [], tr_AccessToken = ''t'', tr_RefreshToken = [], tr_ExpiresIn = 5, tr_IssuedAt = zero_time\<rparr> 7 = 60000000007 \<and>
   token_expiration \<lparr>tr_Token = [], tr_AccessToken = ''t'', tr_RefreshToken = [], tr_ExpiresIn = 9223372037, tr_IssuedAt = 3\<rparr> 7 < 3"
  using token_lifetime_bounds [of "\<lparr>tr_Token = [], tr_AccessToken = ''t'', tr_RefreshToken = [], tr_ExpiresIn = 5, tr_IssuedAt = zero_time\<rparr>" 7]
    token_lifetime_bounds [of "\<lparr>tr_Token = [], tr_AccessToken = ''t'', tr_RefreshToken = [], tr_ExpiresIn = 9223372037, tr_IssuedAt = 3\<rparr>" 7]
  by (simp add: zero_time_def)

section \<open>A concrete handler\<close>

text \<open>A token server that grants a token for five minutes; the state is the time in nanoseconds.\<close>

definition sample_net :: "int net_lib" where
  "sample_net =
     \<lparr>nl_Parse = (\<lambda>u. Inr \<lparr>nu_Scheme = ''https'', nu_Host = ''registry'', nu_Path = u, nu_Query = []\<rparr>), nl_String = nu_Path,
      nl_ResolveReference = (\<lambda>b r. r), nl_base64 = (\<lambda>s. s),
      nl_Unmarshal = (\<lambda>_. None), nl_Decode = (\<lambda>_. Some (JObj [(''access_token'', JStr ''tok''), (''expires_in'', JNum ''300'')])),
      nl_ParseTime = (\<lambda>_. None), nl_http = sample_http_lib, nl_Do = (\<lambda>_ t. t), nl_now = (\<lambda>s. s)\<rparr>"

definition sample_server :: "int trip" where
  "sample_server req s =
     Ret (Inr \<lparr>StatusCode = 200, Status = ''200 OK'', WWWAuthenticate = [], ContentType = ''application/json'', Body = Some ''{...}'',
               rs_Request = Some (q_URL req), rs_Header = [], rs_ContentLength = -1\<rparr>, s)"

definition sample_handler :: "credentials tokenHandler" where
  "sample_handler = NewTokenHandler (Some \<lparr>cr_username = ''u'', cr_password = ''p'', cr_refreshTokens = None\<rparr>) ''org/web'' [''pull'']"


end
