(* ===== verification/HttpReader.thy ===== *)
theory HttpReader
  imports TokenAuth
begin

text \<open>
  The reader of blobs (\<open>registry/internal/client/transport/http_reader.go\<close>): a reader over HTTP that can seek.  It asks for the rest of the
  content with a range request when it continues at another offset, and opens connections only when they are needed.
\<close>

section \<open>Content-Range\<close>

text \<open>
  The expression \<open>bytes ([0-9]+)-([0-9]+)/([0-9]+|\\*)\<close> is written in a raw string: its last alternative is any number of backslashes, also
  none, and not an asterisk.  It may match anywhere in the header.
\<close>

definition range_at :: "string \<Rightarrow> (string \<times> string \<times> string) option" where
  "range_at s =
     (if prefix ''bytes '' s then
        (let r = drop 6 s; d1 = takeWhile is_digit r; r1 = dropWhile is_digit r in
         if d1 \<noteq> [] \<and> prefix ''-'' r1 then
           (let d2 = takeWhile is_digit (tl r1); r2 = dropWhile is_digit (tl r1) in
            if d2 \<noteq> [] \<and> prefix ''/'' r2 then
              (let d3 = takeWhile is_digit (tl r2)
               in Some (d1, d2, if d3 \<noteq> [] then d3 else takeWhile (\<lambda>c. c = CHR 0x5C) (tl r2)))
            else None)
         else None)
      else None)"

fun contentRange :: "string \<Rightarrow> (string \<times> string \<times> string) option" where
  "contentRange [] = None"
| "contentRange (c # s) = (case range_at (c # s) of Some m \<Rightarrow> Some m | None \<Rightarrow> contentRange s)"

definition strconv_ParseUint :: "string \<Rightarrow> int option" where
  "strconv_ParseUint s =
     (if s = [] \<or> \<not> list_all is_digit s then None
      else let v = int (digits_val 0 s) in if v < 18446744073709551616 then Some v else None)"

definition ErrWrongCodeForByteRange :: go_error where
  "ErrWrongCodeForByteRange = ErrText ''expected HTTP 206 from byte range request''"

text \<open>The size of the content as a partial response announces it, checked against the requested offset; \<open>endByte+1\<close> is a \<open>uint64\<close>.\<close>

definition partial_size :: "response \<Rightarrow> int \<Rightarrow> go_error + int" where
  "partial_size resp readerOffset =
     (if StatusCode resp \<noteq> 206 then Inl ErrWrongCodeForByteRange
      else
        (let cr = get (rs_Header resp) ''Content-Range'' in
         if cr = [] then Inl (ErrText ''no Content-Range header found in HTTP 206 response'')
         else
           (case contentRange cr of
              None \<Rightarrow> Inl (ErrText ''could not parse Content-Range header'')
            | Some (d1, d2, d3) \<Rightarrow>
                (case strconv_ParseUint d1 of
                   None \<Rightarrow> Inl (ErrText ''could not parse start of range in Content-Range header'')
                 | Some startByte \<Rightarrow>
                     if startByte \<noteq> readerOffset then Inl (ErrText ''received Content-Range starting at another offset'')
                     else
                       (case strconv_ParseUint d2 of
                          None \<Rightarrow> Inl (ErrText ''could not parse end of range in Content-Range header'')
                        | Some endByte \<Rightarrow>
                            if d3 = ''*'' then Inr (-1)
                            else
                              (case strconv_ParseUint d3 of
                                 None \<Rightarrow> Inl (ErrText ''could not parse total size in Content-Range header'')
                               | Some len \<Rightarrow>
                                   if (endByte + 1) mod 18446744073709551616 \<noteq> len
                                   then Inl (ErrText ''range in Content-Range stops before the end of the content'')
                                   else if len > 9223372036854775807 then Inl (ErrText ''Content-Range size exceeds max allowed size'')
                                   else Inr len))))))"

section \<open>The reader\<close>

text \<open>
  Parameters: the decoders, applied to what is left of a body (\<open>None\<close> when reading it fails), and how much one call of \<open>Read\<close> on the
  body returns for a buffer of a given size, and whether it reports the end of the data with it.
\<close>

record reader_lib =
  rl_zstd :: "string option \<Rightarrow> go_error + string option"
  rl_gzip :: "string option \<Rightarrow> go_error + string option"
  rl_flate :: "string option \<Rightarrow> string option"
  rl_chunk :: "nat \<Rightarrow> string \<Rightarrow> nat \<times> bool"

record HTTPReadSeeker =
  hs_url :: string
  hs_size :: int
  hs_rc :: "string option option"
  hs_readerOffset :: int
  hs_seekOffset :: int
  hs_err :: "go_error option"

definition NewHTTPReadSeeker :: "string \<Rightarrow> HTTPReadSeeker" where
  "NewHTTPReadSeeker url =
     \<lparr>hs_url = url, hs_size = 0, hs_rc = None, hs_readerOffset = 0, hs_seekOffset = 0, hs_err = None\<rparr>"

fun encoding_fields :: "string \<Rightarrow> string \<Rightarrow> string list" where
  "encoding_fields field [] = (if field = [] then [] else [field])"
| "encoding_fields field (c # s) =
     (if c = CHR '','' \<or> ascii_space c then (if field = [] then encoding_fields [] s else field # encoding_fields [] s)
      else encoding_fields (field @ [c]) s)"

fun decode_body :: "reader_lib \<Rightarrow> string list \<Rightarrow> string option \<Rightarrow> go_error + string option" where
  "decode_body rl [] body = Inr body"
| "decode_body rl (v # vs) body =
     (let algorithm = strings_ToLower v in
      if algorithm = ''zstd'' then (case rl_zstd rl body of Inl err \<Rightarrow> Inl err | Inr body \<Rightarrow> decode_body rl vs body)
      else if algorithm = ''gzip'' then (case rl_gzip rl body of Inl err \<Rightarrow> Inl err | Inr body \<Rightarrow> decode_body rl vs body)
      else if algorithm = ''deflate'' then decode_body rl vs (rl_flate rl body)
      else if algorithm = [] then decode_body rl vs body
      else Inl (ErrText (''unsupported Content-Encoding algorithm: '' @ algorithm)))"

definition body_size :: "response \<Rightarrow> int \<Rightarrow> go_error + int" where
  "body_size resp readerOffset =
     (if readerOffset > 0 then partial_size resp readerOffset
      else Inr (if StatusCode resp = 200 then rs_ContentLength resp else -1))"

definition range_request :: "HTTPReadSeeker \<Rightarrow> request \<Rightarrow> request" where
  "range_request hrs req =
     (let h = (if hs_readerOffset hrs > 0
               then header_Add ''Range'' (''bytes='' @ show_nat (nat (hs_readerOffset hrs)) @ ''-'') (q_Header req) else q_Header req)
      in req\<lparr>q_Header := header_Add ''Accept-Encoding'' ''zstd, gzip, deflate'' h\<rparr>)"

text \<open>
  \<open>reader\<close>: the open body, or a new one at the reader's offset.  The error handler may return no error; the reader is then
  nil and the next use of it panics.  The size is stored before the body is decoded.
\<close>

definition reader ::
  "'s net_lib \<Rightarrow> reader_lib \<Rightarrow> 's trip \<Rightarrow> (response \<Rightarrow> go_error option) \<Rightarrow> HTTPReadSeeker \<Rightarrow> 's \<Rightarrow>
   ((go_error option \<times> string option option) \<times> HTTPReadSeeker \<times> 's) go" where
  "reader lib rl http errorHandler hrs s =
     (case hs_err hrs of
        Some err \<Rightarrow> Ret ((Some err, None), hrs, s)
      | None \<Rightarrow>
          if hs_rc hrs \<noteq> None then Ret ((None, hs_rc hrs), hrs, s)
          else
            (case NewRequest lib ''GET'' (hs_url hrs) of
               Inl err \<Rightarrow> Ret ((Some err, None), hrs, s)
             | Inr req \<Rightarrow>
                 go_bind (http (range_request hrs req) s) (\<lambda>(r, s). case r of
                   Inl err \<Rightarrow> Ret ((Some err, None), hrs, s)
                 | Inr resp \<Rightarrow>
                     if 200 \<le> StatusCode resp \<and> StatusCode resp \<le> 399 then
                       (case body_size resp (hs_readerOffset hrs) of
                          Inl err \<Rightarrow> Ret ((Some err, None), hrs, s)
                        | Inr len \<Rightarrow>
                            (let hrs = hrs\<lparr>hs_size := len\<rparr> in
                             case decode_body rl (rev (encoding_fields [] (get (rs_Header resp) ''Content-Encoding''))) (Body resp) of
                               Inl err \<Rightarrow> Ret ((Some err, None), hrs, s)
                             | Inr body \<Rightarrow> Ret ((None, Some body), hrs\<lparr>hs_rc := Some body\<rparr>, s)))
                     else Ret ((errorHandler resp, None), hrs, s))))"

definition reset :: "HTTPReadSeeker \<Rightarrow> HTTPReadSeeker" where
  "reset hrs = (if hs_err hrs \<noteq> None then hrs else hrs\<lparr>hs_rc := None\<rparr>)"

definition EOF :: go_error where
  "EOF = ErrText ''EOF''"

text \<open>Reading from the body into a buffer of \<open>n\<close> bytes.\<close>

definition body_Read :: "reader_lib \<Rightarrow> nat \<Rightarrow> string option \<Rightarrow> (string \<times> go_error option) \<times> string option" where
  "body_Read rl n body =
     (case body of
        None \<Rightarrow> (([], Some (ErrText ''read'')), None)
      | Some rest \<Rightarrow>
          if rest = [] then (([], Some EOF), Some [])
          else (case rl_chunk rl n rest of
                  (k, eof) \<Rightarrow> ((take k rest, if eof \<and> length rest \<le> k then Some EOF else None), Some (drop k rest))))"

definition Read ::
  "'s net_lib \<Rightarrow> reader_lib \<Rightarrow> 's trip \<Rightarrow> (response \<Rightarrow> go_error option) \<Rightarrow> nat \<Rightarrow> HTTPReadSeeker \<Rightarrow> 's \<Rightarrow>
   ((string \<times> go_error option) \<times> HTTPReadSeeker \<times> 's) go" where
  "Read lib rl http errorHandler n hrs s =
     (case hs_err hrs of
        Some err \<Rightarrow> Ret (([], Some err), hrs, s)
      | None \<Rightarrow>
          (let hrs = (if hs_readerOffset hrs \<noteq> hs_seekOffset hrs then reset hrs else hrs);
               hrs = hrs\<lparr>hs_readerOffset := hs_seekOffset hrs\<rparr>
           in go_bind (reader lib rl http errorHandler hrs s)
                (\<lambda>((err, rd), hrs, s). case err of
                   Some e \<Rightarrow> Ret (([], Some e), hrs, s)
                 | None \<Rightarrow>
                     (case rd of
                        None \<Rightarrow> Panic
                      | Some body \<Rightarrow>
                          (case body_Read rl n body of
                             ((p, e), body) \<Rightarrow>
                               Ret ((p, e), hrs\<lparr>hs_rc := Some body, hs_seekOffset := int64 (hs_seekOffset hrs + int (length p)),
                                 hs_readerOffset := int64 (hs_readerOffset hrs + int (length p))\<rparr>, s))))))"

datatype whence = SeekStart | SeekCurrent | SeekEnd

definition Seek ::
  "'s net_lib \<Rightarrow> reader_lib \<Rightarrow> 's trip \<Rightarrow> (response \<Rightarrow> go_error option) \<Rightarrow> int \<Rightarrow> whence \<Rightarrow> HTTPReadSeeker \<Rightarrow> 's \<Rightarrow>
   ((int \<times> go_error option) \<times> HTTPReadSeeker \<times> 's) go" where
  "Seek lib rl http errorHandler offset whence hrs s =
     (case hs_err hrs of
        Some err \<Rightarrow> Ret ((0, Some err), hrs, s)
      | None \<Rightarrow>
          (let lastReaderOffset = hs_readerOffset hrs;
               hrs = (if whence = SeekStart \<and> hs_rc hrs = None then hrs\<lparr>hs_readerOffset := offset\<rparr> else hrs)
           in go_bind (reader lib rl http errorHandler hrs s)
                (\<lambda>((err, rd), hrs, s). case err of
                   Some e \<Rightarrow> Ret ((0, Some e), hrs\<lparr>hs_readerOffset := lastReaderOffset\<rparr>, s)
                 | None \<Rightarrow>
                     if whence = SeekEnd \<and> hs_size hrs < 0 then Ret ((0, Some (ErrText ''content length not known'')), hrs, s)
                     else
                       (let newOffset = (case whence of
                              SeekCurrent \<Rightarrow> int64 (hs_seekOffset hrs + offset)
                            | SeekEnd \<Rightarrow> int64 (hs_size hrs + offset)
                            | SeekStart \<Rightarrow> offset)
                        in if newOffset < 0
                           then Ret ((hs_seekOffset hrs, Some (ErrText ''cannot seek to negative position'')), hrs, s)
                           else Ret ((newOffset, None), hrs\<lparr>hs_seekOffset := newOffset\<rparr>, s)))))"

definition Close :: "HTTPReadSeeker \<Rightarrow> go_error option \<times> HTTPReadSeeker" where
  "Close hrs =
     (case hs_err hrs of
        Some err \<Rightarrow> (Some err, hrs)
      | None \<Rightarrow> (None, hrs\<lparr>hs_rc := None, hs_err := Some (ErrText ''httpLayer: closed'')\<rparr>))"

text \<open>
  \<open>io.ReadAll\<close>: reading until the end or an error; it need not end.  The room in the buffer depends on how much has been read.
\<close>

partial_function (option) ReadAll ::
  "(nat \<Rightarrow> nat) \<Rightarrow> (nat \<Rightarrow> 's \<Rightarrow> ((string \<times> go_error option) \<times> 's) go) \<Rightarrow> string \<Rightarrow> 's \<Rightarrow> ((string \<times> go_error option) \<times> 's) go option" where
  "ReadAll room rd b s =
     (case rd (room (length b)) s of
        Panic \<Rightarrow> Some Panic
      | Ret ((p, err), s) \<Rightarrow>
          (case err of
             Some e \<Rightarrow> Some (Ret ((b @ p, if e = EOF then None else Some e), s))
           | None \<Rightarrow> ReadAll room rd (b @ p) s))"

section \<open>An honest server\<close>

text \<open>
  What HTTP promises for a resource with some content, without a content encoding: all of it on a plain request, the rest of it on a range
  request that starts inside, and an error status on one that starts behind the end.
\<close>

definition full_response :: "string \<Rightarrow> response \<Rightarrow> bool" where
  "full_response content resp \<longleftrightarrow>
     StatusCode resp = 200 \<and> rs_ContentLength resp = int (length content) \<and> Body resp = Some content \<and>
     get (rs_Header resp) ''Content-Encoding'' = []"

definition range_text :: "nat \<Rightarrow> nat \<Rightarrow> string" where
  "range_text off len = ''bytes '' @ show_nat off @ ''-'' @ show_nat (len - 1) @ ''/'' @ show_nat len"

definition rest_response :: "string \<Rightarrow> nat \<Rightarrow> response \<Rightarrow> bool" where
  "rest_response content off resp \<longleftrightarrow>
     StatusCode resp = 206 \<and> get (rs_Header resp) ''Content-Range'' = range_text off (length content) \<and>
     Body resp = Some (drop off content) \<and> get (rs_Header resp) ''Content-Encoding'' = []"

definition serves :: "'s net_lib \<Rightarrow> 's trip \<Rightarrow> string \<Rightarrow> string \<Rightarrow> bool" where
  "serves lib http url content \<longleftrightarrow>
     (\<exists>u. nl_Parse lib url = Inr u \<and>
       (\<forall>req s. q_Method req = ''GET'' \<and> q_URL req = u \<longrightarrow>
         (\<exists>resp s'. http req s = Ret (Inr resp, s') \<and>
           (header_Values (q_Header req) ''Range'' = [] \<longrightarrow> full_response content resp) \<and>
           (\<forall>off. header_Values (q_Header req) ''Range'' = [''bytes='' @ show_nat off @ ''-''] \<longrightarrow>
              (if off < length content then rest_response content off resp else StatusCode resp = 416)))))"

lemma show_nat_is_digit: "c \<in> set (show_nat n) \<Longrightarrow> is_digit c"
  using show_nat_digits [of c n] by (simp add: is_digit_def less_eq_char_def)

lemma show_nat_not_Nil [simp]: "show_nat n \<noteq> []"
  by (subst show_nat.simps) simp

lemma span_show_nat:
  assumes "\<not> is_digit c"
  shows "takeWhile is_digit (show_nat n @ c # s) = show_nat n" "dropWhile is_digit (show_nat n @ c # s) = c # s"
  using show_nat_is_digit [of _ n] assms by (auto simp: takeWhile_append2 dropWhile_append2)

lemma takeWhile_show_nat [simp]: "takeWhile is_digit (show_nat n) = show_nat n"
  using show_nat_is_digit [of _ n] by (auto simp: takeWhile_eq_all_conv)

lemma ParseUint_show_nat: "int n < 18446744073709551616 \<Longrightarrow> strconv_ParseUint (show_nat n) = Some (int n)"
  using show_nat_is_digit [of _ n] by (auto simp: strconv_ParseUint_def digits_val_show_nat list_all_iff Let_def)

lemma range_text_parsed: "contentRange (range_text off len) = Some (show_nat off, show_nat (len - 1), show_nat len)"
proof -
  have sep: "\<not> is_digit CHR ''-''" "\<not> is_digit CHR ''/''" by (simp_all add: is_digit_def less_eq_char_def)
  have "range_at (range_text off len) = Some (show_nat off, show_nat (len - 1), show_nat len)"
    by (simp add: range_at_def range_text_def Let_def span_show_nat [OF sep(1)] span_show_nat [OF sep(2)])
  then show ?thesis by (cases "range_text off len") (simp_all add: range_text_def)
qed

text \<open>The size that the reader finds for the rest of the content.\<close>

lemma partial_size_rest:
  assumes "rest_response content off resp" "off < length content" "int (length content) < 9223372036854775808"
  shows "partial_size resp (int off) = Inr (int (length content))"
proof -
  have star: "show_nat n \<noteq> ''*''" for n
    using show_nat_is_digit [of "CHR ''*''" n] by (auto simp: is_digit_def less_eq_char_def)
  have "range_text off (length content) \<noteq> []" by (simp add: range_text_def)
  moreover have "(int (length content - 1) + 1) mod 18446744073709551616 = int (length content)"
    using assms(2,3) by (simp add: of_nat_diff)
  ultimately show ?thesis
    using assms by (simp add: partial_size_def rest_response_def Let_def range_text_parsed ParseUint_show_nat star of_nat_diff)
qed

section \<open>The reader as a cursor\<close>

text \<open>An open body holds the content from the reader's offset on; without one, the next read starts at the reader's offset.\<close>

definition reader_inv :: "string \<Rightarrow> string \<Rightarrow> HTTPReadSeeker \<Rightarrow> bool" where
  "reader_inv url content hrs \<longleftrightarrow>
     hs_err hrs = None \<and> hs_url hrs = url \<and> 0 \<le> hs_seekOffset hrs \<and> hs_seekOffset hrs < 9223372036854775808 \<and>
     (\<forall>body. hs_rc hrs = Some body \<longrightarrow>
        body = Some (drop (nat (hs_readerOffset hrs)) content) \<and> hs_size hrs = int (length content))"

definition closed_inv :: "HTTPReadSeeker \<Rightarrow> bool" where
  "closed_inv hrs \<longleftrightarrow> (hs_rc hrs = None \<longrightarrow> hs_readerOffset hrs = hs_seekOffset hrs)"

lemma range_request_Range:
  "header_Values (q_Header (range_request hrs \<lparr>q_Method = m, q_URL = u, q_Header = [], q_Form = [], q_Body = []\<rparr>)) ''Range'' =
     (if hs_readerOffset hrs > 0 then [''bytes='' @ show_nat (nat (hs_readerOffset hrs)) @ ''-''] else [])"
  by (simp add: range_request_def Let_def header_Add_def header_Values_def map_of_gomap_put)

lemma range_request_frame [simp]: "q_Method (range_request hrs req) = q_Method req" "q_URL (range_request hrs req) = q_URL req"
  by (simp_all add: range_request_def Let_def)

lemma reader_spec:
  assumes "serves lib http url content" "reader_inv url content hrs" "int (length content) < 9223372036854775808"
    and handler: "\<And>resp. StatusCode resp = 416 \<Longrightarrow> errorHandler resp \<noteq> None"
  obtains (opened) s' where "reader lib rl http errorHandler hrs s =
      Ret ((None, Some (Some (drop (nat (hs_readerOffset hrs)) content))),
           hrs\<lparr>hs_size := int (length content), hs_rc := Some (Some (drop (nat (hs_readerOffset hrs)) content))\<rparr>, s')"
  | (behind) e s' where "reader lib rl http errorHandler hrs s = Ret ((Some e, None), hrs, s')" "hs_rc hrs = None"
      "hs_readerOffset hrs > 0" "hs_readerOffset hrs \<ge> int (length content)"
proof (cases "hs_rc hrs")
  case (Some body)
  with assms(2) have "body = Some (drop (nat (hs_readerOffset hrs)) content)" "hs_size hrs = int (length content)" "hs_err hrs = None"
    by (auto simp: reader_inv_def)
  with Some have "reader lib rl http errorHandler hrs s =
      Ret ((None, Some (Some (drop (nat (hs_readerOffset hrs)) content))),
           hrs\<lparr>hs_size := int (length content), hs_rc := Some (Some (drop (nat (hs_readerOffset hrs)) content))\<rparr>, s)"
    by (simp add: reader_def)
  then show thesis by (rule opened)
next
  case None
  from assms(1) obtain u where u: "nl_Parse lib url = Inr u"
    and answer: "\<And>req s. q_Method req = ''GET'' \<Longrightarrow> q_URL req = u \<Longrightarrow>
         \<exists>resp s'. http req s = Ret (Inr resp, s') \<and>
           (header_Values (q_Header req) ''Range'' = [] \<longrightarrow> full_response content resp) \<and>
           (\<forall>off. header_Values (q_Header req) ''Range'' = [''bytes='' @ show_nat off @ ''-''] \<longrightarrow>
              (if off < length content then rest_response content off resp else StatusCode resp = 416))"
    unfolding serves_def by blast
  let ?req = "range_request hrs \<lparr>q_Method = ''GET'', q_URL = u, q_Header = [], q_Form = [], q_Body = []\<rparr>" and ?off = "hs_readerOffset hrs"
  note hdr = range_request_Range [of hrs "''GET''" u]
  have "q_Method ?req = ''GET''" "q_URL ?req = u" by simp_all
  from answer [OF this, of s] obtain resp s' where resp: "http ?req s = Ret (Inr resp, s')"
    and plain: "?off \<le> 0 \<Longrightarrow> full_response content resp"
    and range: "?off > 0 \<Longrightarrow> if nat ?off < length content then rest_response content (nat ?off) resp else StatusCode resp = 416"
    unfolding hdr by (metis (no_types, lifting) not_less)
  have open_: "hs_err hrs = None" "hs_url hrs = url" using assms(2) by (auto simp: reader_inv_def)
  note unfold = reader_def open_ None NewRequest_def u resp body_size_def Let_def
  consider (start) "?off \<le> 0" | (inside) "?off > 0" "nat ?off < length content" | (after) "?off > 0" "\<not> nat ?off < length content" by linarith
  then show thesis
  proof cases
    case start
    with plain show thesis by (intro opened) (simp add: unfold full_response_def)
  next
    case inside
    with range have r: "rest_response content (nat ?off) resp" by simp
    from partial_size_rest [OF r inside(2) assms(3)] inside r show thesis
      by (intro opened) (simp add: unfold rest_response_def)
  next
    case after
    with range handler [of resp] obtain e where "StatusCode resp = 416" "errorHandler resp = Some e" by auto
    with after show thesis by (intro behind) (simp_all add: unfold)
  qed
qed

text \<open>
  The specification: a position in the content.  A read returns bytes from there on and moves behind them, at least one while there are
  any; an error other than the end of the data can occur only at or behind the end.  A seek moves to its target; it fails, and moves nothing, only
  when the target is not a valid offset or a position behind the end makes the server refuse the request.
\<close>

datatype cursor_event = ReadEv nat string "go_error option" | SeekEv int whence int "go_error option"

fun seek_target :: "string \<Rightarrow> nat \<Rightarrow> int \<Rightarrow> whence \<Rightarrow> int" where
  "seek_target content pos off SeekStart = off"
| "seek_target content pos off SeekCurrent = int pos + off"
| "seek_target content pos off SeekEnd = int (length content) + off"

definition read_result :: "string \<Rightarrow> nat \<Rightarrow> nat \<Rightarrow> string \<Rightarrow> go_error option \<Rightarrow> bool" where
  "read_result content pos n p e \<longleftrightarrow>
     p = take (length p) (drop pos content) \<and> (n > 0 \<and> pos < length content \<longrightarrow> p \<noteq> []) \<and> (n > 0 \<and> e = None \<longrightarrow> p \<noteq> []) \<and>
     (e \<noteq> None \<longrightarrow> length content \<le> pos + length p) \<and> (pos < length content \<longrightarrow> e \<in> {None, Some EOF})"

definition seek_result :: "string \<Rightarrow> nat \<Rightarrow> int \<Rightarrow> whence \<Rightarrow> int \<Rightarrow> go_error option \<Rightarrow> nat \<Rightarrow> bool" where
  "seek_result content pos off wh q e pos' \<longleftrightarrow>
     (case e of
        None \<Rightarrow> q = int pos' \<and> q = seek_target content pos off wh
      | Some _ \<Rightarrow> pos' = pos \<and>
          (seek_target content pos off wh < 0 \<or> seek_target content pos off wh \<ge> 9223372036854775808 \<or>
           int (length content) \<le> (if wh = SeekStart then off else int pos)))"

inductive cursor :: "string \<Rightarrow> nat \<Rightarrow> cursor_event list \<Rightarrow> nat \<Rightarrow> bool" for content where
  stop: "cursor content pos [] pos"
| read: "cursor content pos (ReadEv n p e # evs) pos'"
    if "read_result content pos n p e" "cursor content (pos + length p) evs pos'"
| seek: "cursor content pos (SeekEv off wh q e # evs) pos''"
    if "seek_result content pos off wh q e pos'" "cursor content pos' evs pos''"

text \<open>The contract of \<open>io.Reader\<close> for bodies: a read with room makes progress and stays within its buffer.\<close>

definition chunk_ok :: "reader_lib \<Rightarrow> bool" where
  "chunk_ok rl \<longleftrightarrow>
     (\<forall>n rest. rest \<noteq> [] \<longrightarrow> fst (rl_chunk rl n rest) \<le> min n (length rest) \<and> (n > 0 \<longrightarrow> fst (rl_chunk rl n rest) > 0))"

lemma body_Read_spec:
  assumes "chunk_ok rl" "body_Read rl n (Some (drop pos content)) = ((p, e), body)"
  shows "read_result content pos n p e \<and> body = Some (drop (pos + length p) content) \<and> (p \<noteq> [] \<longrightarrow> pos + length p \<le> length content) \<and>
    e \<in> {None, Some EOF}"
proof (cases "pos < length content")
  case True
  obtain k eof where chunk: "rl_chunk rl n (drop pos content) = (k, eof)" by fastforce
  with True have k: "k \<le> length content - pos" "n > 0 \<Longrightarrow> k > 0"
    using assms(1) [unfolded chunk_ok_def, rule_format, of "drop pos content" n] by simp_all
  from assms(2) chunk True have p: "p = take k (drop pos content)" "e = (if eof \<and> length (drop pos content) \<le> k then Some EOF else None)"
    "body = Some (drop k (drop pos content))"
    by (simp_all add: body_Read_def)
  moreover have "length p = k" unfolding p(1) using k(1) by simp
  ultimately show ?thesis using True k by (auto simp: read_result_def add.commute)
qed (use assms(2) in \<open>auto simp: body_Read_def read_result_def\<close>)

text \<open>The next read is answered from an open body, or from a request that the server does not refuse.\<close>

definition steady :: "string \<Rightarrow> HTTPReadSeeker \<Rightarrow> bool" where
  "steady content hrs \<longleftrightarrow>
     hs_rc hrs \<noteq> None \<and> hs_readerOffset hrs = hs_seekOffset hrs \<or> hs_seekOffset hrs < int (length content) \<or> hs_seekOffset hrs = 0"

lemma Read_spec:
  assumes "serves lib http url content" "reader_inv url content hrs" "closed_inv hrs" "int (length content) < 9223372036854775808" "chunk_ok rl"
    and handler: "\<And>resp. StatusCode resp = 416 \<Longrightarrow> errorHandler resp \<noteq> None"
  shows "\<exists>p e hrs' s'. Read lib rl http errorHandler n hrs s = Ret ((p, e), hrs', s') \<and>
    reader_inv url content hrs' \<and> closed_inv hrs' \<and> read_result content (nat (hs_seekOffset hrs)) n p e \<and>
    nat (hs_seekOffset hrs') = nat (hs_seekOffset hrs) + length p \<and>
    (steady content hrs \<longrightarrow> steady content hrs' \<and> e \<in> {None, Some EOF})"
proof -
  let ?pos = "nat (hs_seekOffset hrs)"
  define h where "h = (if hs_readerOffset hrs \<noteq> hs_seekOffset hrs then reset hrs else hrs)\<lparr>hs_readerOffset := hs_seekOffset hrs\<rparr>"
  have pos: "0 \<le> hs_seekOffset hrs" "hs_seekOffset hrs < 9223372036854775808" "hs_err hrs = None"
    using assms(2) by (auto simp: reader_inv_def)
  have inv: "reader_inv url content h" using assms(2) by (auto simp: h_def reader_inv_def reset_def)
  have off: "hs_readerOffset h = hs_seekOffset hrs" "hs_seekOffset h = hs_seekOffset hrs"
    by (simp_all add: h_def reset_def)
  have read: "Read lib rl http errorHandler n hrs s = go_bind (reader lib rl http errorHandler h s)
      (\<lambda>((err, rd), hrs, s). case err of Some e \<Rightarrow> Ret (([], Some e), hrs, s)
        | None \<Rightarrow> (case rd of None \<Rightarrow> Panic | Some body \<Rightarrow> (case body_Read rl n body of ((p, e), body) \<Rightarrow>
            Ret ((p, e), hrs\<lparr>hs_rc := Some body, hs_seekOffset := int64 (hs_seekOffset hrs + int (length p)),
              hs_readerOffset := int64 (hs_readerOffset hrs + int (length p))\<rparr>, s))))"
    unfolding Read_def Let_def h_def using pos(3) by (simp add: reset_def)
  show ?thesis
  proof (rule reader_spec [OF assms(1) inv assms(4) handler, where rl = rl and s = s])
    fix s'
    assume opened: "reader lib rl http errorHandler h s = Ret ((None, Some (Some (drop (nat (hs_readerOffset h)) content))),
      h\<lparr>hs_size := int (length content), hs_rc := Some (Some (drop (nat (hs_readerOffset h)) content))\<rparr>, s')"
    obtain p e body where b: "body_Read rl n (Some (drop ?pos content)) = ((p, e), body)" by (metis prod.exhaust)
    note spec = body_Read_spec [OF assms(5) b]
    define q where "q = hs_seekOffset hrs + int (length p)"
    have int_q: "q = int (?pos + length p)" using pos(1) by (simp add: q_def)
    have "?pos + length p \<le> max ?pos (length content)" using spec by (cases "p = []") auto
    then have q: "0 \<le> q" "q < 9223372036854775808" "nat q = ?pos + length p"
      using pos(1,2) assms(4) unfolding int_q by linarith+
    let ?h = "h\<lparr>hs_size := int (length content), hs_rc := Some body, hs_seekOffset := q, hs_readerOffset := q\<rparr>"
    have "Read lib rl http errorHandler n hrs s = Ret ((p, e), ?h, s')"
      unfolding read opened off using b int64_exact [of q] q by (simp add: off q_def [symmetric])
    moreover have "reader_inv url content ?h" "closed_inv ?h" "steady content ?h"
      using inv spec q by (auto simp: reader_inv_def closed_inv_def steady_def)
    ultimately show ?thesis using spec q by (intro exI conjI) auto
  next
    fix e s'
    assume behind: "reader lib rl http errorHandler h s = Ret ((Some e, None), h, s')" "hs_rc h = None"
      "hs_readerOffset h > 0" "hs_readerOffset h \<ge> int (length content)"
    have "Read lib rl http errorHandler n hrs s = Ret (([], Some e), h, s')" unfolding read behind by simp
    moreover have "closed_inv h" "read_result content ?pos n [] (Some e)" "nat (hs_seekOffset h) = ?pos + length ([] :: string)"
      using behind(3,4) off by (auto simp: closed_inv_def read_result_def)
    moreover have "\<not> steady content hrs" using behind(2-4) off by (auto simp: steady_def h_def)
    ultimately show ?thesis using inv by blast
  qed
qed

text \<open>A sum of two offsets that overflows becomes negative.\<close>

lemma int64_sum:
  assumes "0 \<le> a" "a < 9223372036854775808" "- 9223372036854775808 \<le> b" "b < 9223372036854775808"
  shows "int64 (a + b) = (if a + b < 9223372036854775808 then a + b else a + b - 18446744073709551616)"
proof (cases "a + b < 9223372036854775808")
  case False
  have "word_of_int (a + b - 18446744073709551616) = (word_of_int (a + b) :: 64 word)"
    by (simp only: word_of_int_eq_iff take_bit_eq_mod) (simp add: mod_diff_right_eq)
  then have "int64 (a + b) = int64 (a + b - 18446744073709551616)" by (simp only: int64_def)
  with False assms show ?thesis by (simp add: int64_exact)
qed (use assms in \<open>simp add: int64_exact\<close>)

lemma Seek_spec:
  assumes "serves lib http url content" "reader_inv url content hrs" "closed_inv hrs" "int (length content) < 9223372036854775808"
    and off: "- 9223372036854775808 \<le> off" "off < 9223372036854775808"
    and handler: "\<And>resp. StatusCode resp = 416 \<Longrightarrow> errorHandler resp \<noteq> None"
  shows "\<exists>q e hrs' s'. Seek lib rl http errorHandler off wh hrs s = Ret ((q, e), hrs', s') \<and>
    reader_inv url content hrs' \<and> closed_inv hrs' \<and> seek_result content (nat (hs_seekOffset hrs)) off wh q e (nat (hs_seekOffset hrs'))"
proof -
  let ?pos = "nat (hs_seekOffset hrs)"
  define h where "h = (if wh = SeekStart \<and> hs_rc hrs = None then hrs\<lparr>hs_readerOffset := off\<rparr> else hrs)"
  have pos: "0 \<le> hs_seekOffset hrs" "hs_seekOffset hrs < 9223372036854775808" "hs_err hrs = None" "int ?pos = hs_seekOffset hrs"
    using assms(2) by (auto simp: reader_inv_def)
  have inv: "reader_inv url content h" using assms(2) by (auto simp: h_def reader_inv_def)
  have h: "hs_seekOffset h = hs_seekOffset hrs" "hs_rc h = hs_rc hrs" "h\<lparr>hs_readerOffset := hs_readerOffset hrs\<rparr> = hrs" by (auto simp: h_def)
  have seek: "Seek lib rl http errorHandler off wh hrs s = go_bind (reader lib rl http errorHandler h s)
      (\<lambda>((err, rd), h, s). case err of
         Some e \<Rightarrow> Ret ((0, Some e), h\<lparr>hs_readerOffset := hs_readerOffset hrs\<rparr>, s)
       | None \<Rightarrow>
           if wh = SeekEnd \<and> hs_size h < 0 then Ret ((0, Some (ErrText ''content length not known'')), h, s)
           else (let newOffset = (case wh of SeekCurrent \<Rightarrow> int64 (hs_seekOffset h + off) | SeekEnd \<Rightarrow> int64 (hs_size h + off) | SeekStart \<Rightarrow> off)
                 in if newOffset < 0 then Ret ((hs_seekOffset h, Some (ErrText ''cannot seek to negative position'')), h, s)
                    else Ret ((newOffset, None), h\<lparr>hs_seekOffset := newOffset\<rparr>, s)))"
    unfolding Seek_def Let_def h_def using pos(3) by simp
  show ?thesis
  proof (rule reader_spec [OF assms(1) inv assms(4) handler, where rl = rl and s = s])
    fix s'
    let ?body = "Some (drop (nat (hs_readerOffset h)) content)" and ?t = "seek_target content ?pos off wh"
    let ?h = "h\<lparr>hs_size := int (length content), hs_rc := Some ?body\<rparr>"
      and ?new = "case wh of SeekCurrent \<Rightarrow> int64 (hs_seekOffset hrs + off) | SeekEnd \<Rightarrow> int64 (int (length content) + off) | SeekStart \<Rightarrow> off"
    assume opened: "reader lib rl http errorHandler h s = Ret ((None, Some ?body), ?h, s')"
    have new: "?new = (if ?t < 9223372036854775808 then ?t else ?t - 18446744073709551616)"
      using int64_sum [OF pos(1,2) off] int64_sum [OF _ assms(4) off] off pos(4) by (cases wh) simp_all
    have bound: "?t < 2 * 9223372036854775808" using pos(2,4) off assms(4) by (cases wh) simp_all
    have run: "Seek lib rl http errorHandler off wh hrs s =
      (if ?new < 0 then Ret ((hs_seekOffset hrs, Some (ErrText ''cannot seek to negative position'')), ?h, s')
       else Ret ((?new, None), ?h\<lparr>hs_seekOffset := ?new\<rparr>, s'))"
      unfolding seek opened by (cases wh) (simp_all add: h(1) Let_def)
    have good: "reader_inv url content ?h" "closed_inv ?h" using inv by (auto simp: reader_inv_def closed_inv_def)
    show ?thesis
    proof (cases "?new < 0")
      case True
      with new bound have "?t < 0 \<or> ?t \<ge> 9223372036854775808" by (auto split: if_split_asm)
      with True run good show ?thesis by (intro exI conjI) (auto simp: seek_result_def h(1))
    next
      case False
      with new bound have t: "?new = ?t" "?t < 9223372036854775808" by (auto split: if_split_asm)
      with False good have "reader_inv url content (?h\<lparr>hs_seekOffset := ?new\<rparr>)" "closed_inv (?h\<lparr>hs_seekOffset := ?new\<rparr>)"
        by (auto simp: reader_inv_def closed_inv_def)
      with False run t show ?thesis by (intro exI conjI) (auto simp: seek_result_def)
    qed
  next
    fix e s'
    assume behind: "reader lib rl http errorHandler h s = Ret ((Some e, None), h, s')" "hs_rc h = None"
      "hs_readerOffset h > 0" "hs_readerOffset h \<ge> int (length content)"
    have "Seek lib rl http errorHandler off wh hrs s = Ret ((0, Some e), hrs, s')" unfolding seek behind by (simp add: h(3))
    moreover have "seek_result content ?pos off wh 0 (Some e) ?pos"
      using behind(2-4) assms(3) pos(4) h(2) by (auto simp: seek_result_def h_def closed_inv_def split: if_split_asm)
    ultimately show ?thesis using assms(2,3) by blast
  qed
qed

text \<open>Any sequence of reads and seeks, with what each of them returns.\<close>

datatype reader_op = OpRead nat | OpSeek int whence

fun run_ops ::
  "'s net_lib \<Rightarrow> reader_lib \<Rightarrow> 's trip \<Rightarrow> (response \<Rightarrow> go_error option) \<Rightarrow> reader_op list \<Rightarrow> HTTPReadSeeker \<Rightarrow> 's \<Rightarrow>
   (cursor_event list \<times> HTTPReadSeeker \<times> 's) go" where
  "run_ops lib rl http errorHandler [] hrs s = Ret ([], hrs, s)"
| "run_ops lib rl http errorHandler (OpRead n # ops) hrs s =
     go_bind (Read lib rl http errorHandler n hrs s) (\<lambda>((p, e), hrs, s).
       go_bind (run_ops lib rl http errorHandler ops hrs s) (\<lambda>(evs, r). Ret (ReadEv n p e # evs, r)))"
| "run_ops lib rl http errorHandler (OpSeek off wh # ops) hrs s =
     go_bind (Seek lib rl http errorHandler off wh hrs s) (\<lambda>((q, e), hrs, s).
       go_bind (run_ops lib rl http errorHandler ops hrs s) (\<lambda>(evs, r). Ret (SeekEv off wh q e # evs, r)))"

definition offsets_ok :: "reader_op list \<Rightarrow> bool" where
  "offsets_ok ops \<longleftrightarrow> (\<forall>op \<in> set ops. case op of OpSeek off wh \<Rightarrow> - 9223372036854775808 \<le> off \<and> off < 9223372036854775808 | OpRead n \<Rightarrow> True)"

lemma run_ops_cursor:
  assumes "serves lib http url content" "int (length content) < 9223372036854775808" "chunk_ok rl"
    and handler: "\<And>resp. StatusCode resp = 416 \<Longrightarrow> errorHandler resp \<noteq> None"
    and "offsets_ok ops" "reader_inv url content hrs" "closed_inv hrs"
  shows "\<exists>evs hrs' s'. run_ops lib rl http errorHandler ops hrs s = Ret (evs, hrs', s') \<and>
    cursor content (nat (hs_seekOffset hrs)) evs (nat (hs_seekOffset hrs'))"
  using assms(5-)
proof (induction ops arbitrary: hrs s)
  case Nil
  then show ?case by (auto intro: cursor.stop)
next
  case (Cons op ops)
  have ops: "offsets_ok ops" using Cons.prems(1) by (simp add: offsets_ok_def)
  show ?case
  proof (cases op)
    case (OpRead n)
    obtain p e hrs' s' where step: "Read lib rl http errorHandler n hrs s = Ret ((p, e), hrs', s')" "reader_inv url content hrs'" "closed_inv hrs'"
      "read_result content (nat (hs_seekOffset hrs)) n p e" "nat (hs_seekOffset hrs') = nat (hs_seekOffset hrs) + length p"
      using Read_spec [where n = n and s = s and errorHandler = errorHandler, OF assms(1) Cons.prems(2,3) assms(2,3) handler] by blast
    from Cons.IH [OF ops step(2,3), of s'] obtain evs hrs2 s2 where
      "run_ops lib rl http errorHandler ops hrs' s' = Ret (evs, hrs2, s2)" "cursor content (nat (hs_seekOffset hrs')) evs (nat (hs_seekOffset hrs2))"
      by blast
    with step(1,5) cursor.read [OF step(4), of evs] show ?thesis unfolding OpRead by simp
  next
    case (OpSeek off wh)
    with Cons.prems(1) have off: "- 9223372036854775808 \<le> off" "off < 9223372036854775808" by (auto simp: offsets_ok_def)
    obtain q e hrs' s' where step: "Seek lib rl http errorHandler off wh hrs s = Ret ((q, e), hrs', s')" "reader_inv url content hrs'" "closed_inv hrs'"
      "seek_result content (nat (hs_seekOffset hrs)) off wh q e (nat (hs_seekOffset hrs'))"
      using Seek_spec [where rl = rl and wh = wh and s = s and errorHandler = errorHandler, OF assms(1) Cons.prems(2,3) assms(2) off handler] by blast
    from Cons.IH [OF ops step(2,3), of s'] obtain evs hrs2 s2 where
      "run_ops lib rl http errorHandler ops hrs' s' = Ret (evs, hrs2, s2)" "cursor content (nat (hs_seekOffset hrs')) evs (nat (hs_seekOffset hrs2))"
      by blast
    with step(1) cursor.seek [OF step(4), of evs] show ?thesis unfolding OpSeek by simp
  qed
qed

text \<open>
  \<open>C36\<close>.  The reader refines a cursor.  For a server that answers as HTTP promises, any sequence of reads and seeks on a new reader returns
  without a panic, and what it returns is what a position in the content gives: every read the bytes from the position on, at least
  one of them while there are any and no error before the end, and every seek its target unless it is refused for the
  reasons above.  Connections that are kept, dropped or resumed with range requests are not visible.
\<close>

theorem reader_refines_cursor:
  assumes "serves lib http url content" "int (length content) < 9223372036854775808" "chunk_ok rl" "offsets_ok ops"
    and "\<forall>resp. StatusCode resp = 416 \<longrightarrow> errorHandler resp \<noteq> None"
  shows "\<exists>evs hrs s'. run_ops lib rl http errorHandler ops (NewHTTPReadSeeker url) s = Ret (evs, hrs, s') \<and>
    cursor content 0 evs (nat (hs_seekOffset hrs))"
  using run_ops_cursor [of lib http url content rl errorHandler ops "NewHTTPReadSeeker url" s] assms
  by (auto simp: reader_inv_def closed_inv_def NewHTTPReadSeeker_def)

text \<open>Reading to the end ends when every step makes progress.\<close>

lemma ReadAll_cursor:
  assumes "serves lib http url content" "int (length content) < 9223372036854775808" "chunk_ok rl"
    and handler: "\<And>resp. StatusCode resp = 416 \<Longrightarrow> errorHandler resp \<noteq> None"
    and room: "\<forall>k. room k > 0" and "reader_inv url content hrs" "closed_inv hrs" "steady content hrs"
  shows "\<exists>st'. ReadAll room (\<lambda>n (hrs, s). Read lib rl http errorHandler n hrs s) b (hrs, s) =
    Some (Ret ((b @ drop (nat (hs_seekOffset hrs)) content, None), st'))"
  using assms(6-)
proof (induction "length content - nat (hs_seekOffset hrs)" arbitrary: hrs s b rule: less_induct)
  case less
  let ?pos = "nat (hs_seekOffset hrs)" and ?n = "room (length b)"
  obtain p e hrs' s' where step: "Read lib rl http errorHandler ?n hrs s = Ret ((p, e), hrs', s')" "reader_inv url content hrs'" "closed_inv hrs'"
    "read_result content ?pos ?n p e" "nat (hs_seekOffset hrs') = ?pos + length p" "steady content hrs'" "e \<in> {None, Some EOF}"
    using Read_spec [where n = ?n and s = s and errorHandler = errorHandler, OF assms(1) less.prems(1,2) assms(2,3) handler] less.prems(3) by blast
  from step(4) have p: "p = take (length p) (drop ?pos content)" and e: "e \<noteq> None \<Longrightarrow> length content \<le> ?pos + length p" "e = None \<Longrightarrow> p \<noteq> []"
    using room [rule_format, of "length b"] by (auto simp: read_result_def)
  have split: "p @ drop (?pos + length p) content = drop ?pos content"
    using p by (metis append_take_drop_id drop_drop add.commute)
  show ?case
  proof (cases e)
    case None
    have "length p \<le> length content - ?pos" using arg_cong [OF p, of length] by (simp add: min_def split: if_split_asm)
    with e(2) [OF None] step(5) have "length content - nat (hs_seekOffset hrs') < length content - ?pos" by (cases p) auto
    from less.hyps [OF this step(2,3,6), of "b @ p" s'] step(1,5) None split show ?thesis
      by (subst ReadAll.simps) simp
  next
    case (Some err)
    with step(7) e(1) split have "err = EOF" "drop ?pos content = p" by auto
    with step(1) Some show ?thesis by (subst ReadAll.simps) simp
  qed
qed

lemma ReadAll_returns_content:
  assumes "serves lib http url content" "int (length content) < 9223372036854775808" "chunk_ok rl" "\<forall>k. room k > 0"
    and "\<forall>resp. StatusCode resp = 416 \<longrightarrow> errorHandler resp \<noteq> None"
  shows "\<exists>st'. ReadAll room (\<lambda>n (hrs, s). Read lib rl http errorHandler n hrs s)
    [] (NewHTTPReadSeeker url, s) = Some (Ret ((content, None), st'))"
  using ReadAll_cursor [of lib http url content rl errorHandler room "NewHTTPReadSeeker url" "[]" s] assms
  by (auto simp: reader_inv_def closed_inv_def steady_def NewHTTPReadSeeker_def)

section \<open>A concrete server\<close>

text \<open>A server with one blob that answers plain and range requests; one read fills the buffer and the end is reported by the next one.\<close>

definition blob_response :: "string \<Rightarrow> request \<Rightarrow> response" where
  "blob_response content req =
     (let reply = \<lambda>code hdr body.
        \<lparr>StatusCode = code, Status = [], WWWAuthenticate = [], ContentType = [], Body = Some body, rs_Request = Some (q_URL req),
         rs_Header = hdr, rs_ContentLength = int (length body)\<rparr>
      in case header_Values (q_Header req) ''Range'' of
           [] \<Rightarrow> reply 200 [] content
         | r # _ \<Rightarrow>
             (let off = digits_val 0 (takeWhile is_digit (drop 6 r))
              in if off < length content then reply 206 [(''Content-Range'', range_text off (length content))] (drop off content)
                 else reply 416 [] []))"

definition blob_server :: "string \<Rightarrow> int trip" where
  "blob_server content req s = Ret (Inr (blob_response content req), s + 1)"

definition sample_reader :: reader_lib where
  "sample_reader = \<lparr>rl_zstd = Inr, rl_gzip = Inr, rl_flate = (\<lambda>b. b), rl_chunk = (\<lambda>n rest. (min n (length rest), False))\<rparr>"

definition refused :: "response \<Rightarrow> go_error option" where
  "refused resp = (if StatusCode resp \<ge> 400 then Some (ErrText (Status resp)) else None)"

lemma blob_server_serves: "serves sample_net (blob_server content) url content"
proof -
  have digits: "digits_val 0 (takeWhile is_digit (show_nat off @ ''-'')) = off" for off
    using span_show_nat(1) [of "CHR ''-''" off "[]"] by (simp add: is_digit_def less_eq_char_def digits_val_show_nat)
  show ?thesis
    unfolding serves_def blob_server_def
    by (auto simp: sample_net_def blob_response_def Let_def digits full_response_def rest_response_def header_Values_def get_def)
qed

lemma sample_reader_chunks: "chunk_ok sample_reader"
  by (auto simp: chunk_ok_def sample_reader_def)

lemma refused_416: "\<forall>resp. StatusCode resp = 416 \<longrightarrow> refused resp \<noteq> None"
  by (simp add: refused_def)

theorem reader_refines_cursor_witness:
  "\<exists>evs hrs s'. run_ops sample_net sample_reader (blob_server ''layer'') refused [OpRead 2, OpSeek (-1) SeekEnd, OpRead 9, OpSeek (-9) SeekCurrent]
       (NewHTTPReadSeeker ''/blob'') 0 = Ret (evs, hrs, s') \<and>
     evs = [ReadEv 2 ''la'' None, SeekEv (-1) SeekEnd 4 None, ReadEv 9 ''r'' None,
            SeekEv (-9) SeekCurrent 5 (Some (ErrText ''cannot seek to negative position''))] \<and>
     cursor ''layer'' 0 evs (nat (hs_seekOffset hrs))"
proof -
  let ?ops = "[OpRead 2, OpSeek (-1) SeekEnd, OpRead 9, OpSeek (-9) SeekCurrent]"
  have "int (length ''layer'') < 9223372036854775808" "offsets_ok ?ops" by (simp_all add: offsets_ok_def)
  from reader_refines_cursor [OF blob_server_serves this(1) sample_reader_chunks this(2) refused_416, of "''/blob''" 0]
  obtain evs hrs s' where run: "run_ops sample_net sample_reader (blob_server ''layer'') refused ?ops (NewHTTPReadSeeker ''/blob'') 0 = Ret (evs, hrs, s')"
    "cursor ''layer'' 0 evs (nat (hs_seekOffset hrs))" by blast
  have "(case run_ops sample_net sample_reader (blob_server ''layer'') refused ?ops (NewHTTPReadSeeker ''/blob'') 0 of Ret (evs, _) \<Rightarrow>
      evs = [ReadEv 2 ''la'' None, SeekEv (-1) SeekEnd 4 None, ReadEv 9 ''r'' None,
        SeekEv (-9) SeekCurrent 5 (Some (ErrText ''cannot seek to negative position''))] | Panic \<Rightarrow> False)"
    by code_simp
  with run show ?thesis by auto
qed

text \<open>
  A response with an unknown total size, \<open>bytes 5-9/*\<close>, is refused although the code has a branch for it: the expression never yields the asterisk.
\<close>

lemma contentRange_no_asterisk: "contentRange s = Some (d1, d2, d3) \<Longrightarrow> d3 \<noteq> ''*''"
proof (induction s rule: contentRange.induct)
  case (2 c s)
  have "takeWhile P xs \<noteq> ''*''" if "\<not> P CHR ''*''" for P xs
    using that set_takeWhileD [of "CHR ''*''" P xs] by fastforce
  from this [of is_digit] this [of "\<lambda>c. c = CHR 0x5C"] have "range_at (c # s) = Some (d1, d2, d3) \<Longrightarrow> d3 \<noteq> ''*''"
    by (auto simp: range_at_def Let_def is_digit_def less_eq_char_def split: if_split_asm)
  with 2 show ?case by (auto split: option.split_asm)
qed simp

theorem unknown_size_rejected:
  "partial_size resp off \<noteq> Inr (-1)"
  "get (rs_Header resp) ''Content-Range'' = ''bytes 5-9/*'' \<Longrightarrow> StatusCode resp = 206 \<Longrightarrow>
     partial_size resp 5 = Inl (ErrText ''could not parse total size in Content-Range header'')"
proof -
  have pos: "strconv_ParseUint d = Some v \<Longrightarrow> v \<noteq> -1" for d v by (auto simp: strconv_ParseUint_def Let_def split: if_split_asm)
  show "partial_size resp off \<noteq> Inr (-1)"
    using contentRange_no_asterisk pos
    by (auto simp: partial_size_def Let_def split: option.split if_split prod.split)
  have "contentRange ''bytes 5-9/*'' = Some (''5'', ''9'', [])" "strconv_ParseUint ''5'' = Some 5" "strconv_ParseUint ''9'' = Some 9"
    "strconv_ParseUint [] = None" by code_simp+
  then show "get (rs_Header resp) ''Content-Range'' = ''bytes 5-9/*'' \<Longrightarrow> StatusCode resp = 206 \<Longrightarrow>
     partial_size resp 5 = Inl (ErrText ''could not parse total size in Content-Range header'')"
    by (simp add: partial_size_def)
qed

end
