(* ===== verification/Repository.thy ===== *)
theory Repository
  imports HttpReader RegistryTags
begin

text \<open>
  The client of one repository (\<open>registry/internal/client/repository.go\<close>, \<open>blob_writer.go\<close>): listing tags, reading, storing and deleting
  manifests, reading blobs and uploading them.  Parameters are the URL builder, references, digests, the decoding of manifests and the caching
  wrapper around the blob statter, which the code takes from other packages.  References, digests and the root of a URL builder are texts.
\<close>

section \<open>Parameters\<close>

record SizedDescriptor = Descriptor +
  d_Size :: int

type_synonym 's action = "'s \<Rightarrow> (go_error option \<times> 's) go"

record 's BlobDescriptorService =
  bd_Stat :: "string \<Rightarrow> 's \<Rightarrow> ((go_error + SizedDescriptor) \<times> 's) go"
  bd_Clear :: "string \<Rightarrow> 's action"

record 's repo_lib =
  rp_net :: "'s net_lib"
  rp_reader :: reader_lib
  rp_room :: "nat \<Rightarrow> nat"
  rp_NewURLBuilderFromString :: "string \<Rightarrow> go_error + string"
  rp_BuildCatalogURL :: "string \<Rightarrow> (string \<times> string) list \<Rightarrow> go_error + string"
  rp_BuildTagsURL :: "string \<Rightarrow> string \<Rightarrow> (string \<times> string) list \<Rightarrow> go_error + string"
  rp_BuildManifestURL :: "string \<Rightarrow> string \<Rightarrow> go_error + string"
  rp_BuildBlobURL :: "string \<Rightarrow> string \<Rightarrow> go_error + string"
  rp_BuildBlobUploadURL :: "string \<Rightarrow> string \<Rightarrow> (string \<times> string) list \<Rightarrow> go_error + string"
  rp_BuildBlobUploadChunkURL :: "string \<Rightarrow> string \<Rightarrow> string \<Rightarrow> go_error + string"
  rp_WithTag :: "string \<Rightarrow> string \<Rightarrow> go_error + string"
  rp_WithDigest :: "string \<Rightarrow> string \<Rightarrow> go_error + string"
  rp_digest_Parse :: "string \<Rightarrow> go_error + string"
  rp_digest_FromBytes :: "string \<Rightarrow> string"
  rp_ManifestMediaTypes :: "string list"
  rp_UnmarshalManifest :: "string \<Rightarrow> string \<Rightarrow> go_error + (manifest \<times> SizedDescriptor)"
  rp_Payload :: "manifest \<Rightarrow> go_error + (string \<times> string)"
  rp_NewCachedBlobStatter :: "'s BlobDescriptorService \<Rightarrow> 's BlobDescriptorService"

definition zero_descriptor :: SizedDescriptor where
  "zero_descriptor = \<lparr>d_MediaType = [], d_ArtifactType = [], d_Digest = [], d_Platform = None, d_Annotations = [], d_Size = 0\<rparr>"

section \<open>Requests\<close>

text \<open>A redirected request keeps the headers \<open>Accept\<close> and \<open>Range\<close> of the first one.\<close>

definition keep_values :: "string \<Rightarrow> string list \<Rightarrow> request \<Rightarrow> request" where
  "keep_values k vs req = fold (\<lambda>v req. if v \<in> set (header_Values (q_Header req) k) then req
     else req\<lparr>q_Header := header_Add k v (q_Header req)\<rparr>) vs req"

definition checkHTTPRedirect :: redirect_check where
  "checkHTTPRedirect req via =
     (if length via \<ge> 10 then Inl (ErrText ''stopped after 10 redirects'')
      else (case via of
              [] \<Rightarrow> Inr req
            | v # _ \<Rightarrow> Inr (fold (\<lambda>(k, vs) req. if k \<noteq> ''Accept'' \<and> k \<noteq> ''Range'' then req else keep_values k vs req) (q_Header v) req)))"

text \<open>Building a request, preparing it and sending it.\<close>

definition Send :: "'s net_lib \<Rightarrow> 's trip \<Rightarrow> string \<Rightarrow> string \<Rightarrow> (request \<Rightarrow> request) \<Rightarrow> 's \<Rightarrow> ((go_error + response) \<times> 's) go" where
  "Send lib client verb u prepare s =
     (case NewRequest lib verb u of Inl err \<Rightarrow> Ret (Inl err, s) | Inr req \<Rightarrow> client (prepare req) s)"

definition accept :: "string list \<Rightarrow> request \<Rightarrow> request" where
  "accept mediaTypes req = req\<lparr>q_Header := fold (header_Add ''Accept'') mediaTypes (q_Header req)\<rparr>"

definition body_text :: "response \<Rightarrow> go_error + string" where
  "body_text resp = (case Body resp of None \<Rightarrow> Inl (ErrText ''read'') | Some b \<Rightarrow> Inr b)"

text \<open>The strings of one array field of a decoded JSON document.\<close>

definition strings_of :: "string \<Rightarrow> json option \<Rightarrow> go_error + string list" where
  "strings_of name doc =
     (case (case doc of Some (JObj m) \<Rightarrow> Some m | Some JNull \<Rightarrow> Some [] | _ \<Rightarrow> None) of
        None \<Rightarrow> Inl (ErrText ''json'')
      | Some m \<Rightarrow>
          (case Option.bind (array_field m name) decode_strings of None \<Rightarrow> Inl (ErrText ''json'') | Some ts \<Rightarrow> Inr ts))"

section \<open>The catalogue\<close>

definition buildCatalogValues :: "int \<Rightarrow> string \<Rightarrow> (string \<times> string) list" where
  "buildCatalogValues maxEntries lastTag =
     (if maxEntries > 0 then [(''n'', show_int maxEntries)] else []) @ (if lastTag \<noteq> [] then [(''last'', lastTag)] else [])"

record 's registry =
  rg_client :: "'s trip"
  rg_ub :: string

definition NewRegistry :: "'s repo_lib \<Rightarrow> string \<Rightarrow> 's trip \<Rightarrow> go_error + 's registry" where
  "NewRegistry lib baseURL transport =
     (case rp_NewURLBuilderFromString lib baseURL of
        Inl err \<Rightarrow> Inl err
      | Inr ub \<Rightarrow> Inr \<lparr>rg_client = nl_Do (rp_net lib) (Some checkHTTPRedirect) transport, rg_ub = ub\<rparr>)"

text \<open>\<open>copy\<close> fills the slice as far as it goes; the number that is returned is the number of names in the answer.\<close>

definition copy_into :: "'a list \<Rightarrow> 'a list \<Rightarrow> 'a list" where
  "copy_into dst src = take (length dst) src @ drop (length src) dst"

definition Repositories ::
  "'s repo_lib \<Rightarrow> 's registry \<Rightarrow> string list \<Rightarrow> string \<Rightarrow> 's \<Rightarrow> ((int \<times> go_error option) \<times> string list \<times> 's) go" where
  "Repositories lib r slots lastTag s =
     (case rp_BuildCatalogURL lib (rg_ub r) (buildCatalogValues (int (length slots)) lastTag) of
        Inl err \<Rightarrow> Ret ((0, Some err), slots, s)
      | Inr u \<Rightarrow>
          go_bind (Send (rp_net lib) (rg_client r) ''GET'' u (\<lambda>q. q) s) (\<lambda>(a, s). case a of
            Inl err \<Rightarrow> Ret ((0, Some err), slots, s)
          | Inr resp \<Rightarrow>
              (case response_error (rp_net lib) resp of
                 Some err \<Rightarrow> Ret ((0, Some err), slots, s)
               | None \<Rightarrow>
                   (case strings_of ''repositories'' (Option.bind (Body resp) (nl_Decode (rp_net lib))) of
                      Inl err \<Rightarrow> Ret ((0, Some err), slots, s)
                    | Inr names \<Rightarrow>
                        Ret ((int (length names), if get (rs_Header resp) ''Link'' = [] then Some EOF else None), copy_into slots names, s)))))"

section \<open>Tags\<close>

record 's repository =
  rp_client :: "'s trip"
  rp_ub :: string
  rp_name :: string

definition NewRepository :: "'s repo_lib \<Rightarrow> string \<Rightarrow> string \<Rightarrow> 's trip \<Rightarrow> go_error + 's repository" where
  "NewRepository lib name baseURL transport =
     (case rp_NewURLBuilderFromString lib baseURL of
        Inl err \<Rightarrow> Inl err
      | Inr ub \<Rightarrow> Inr \<lparr>rp_client = nl_Do (rp_net lib) (Some checkHTTPRedirect) transport, rp_ub = ub, rp_name = name\<rparr>)"

definition tags_page :: "'s net_lib \<Rightarrow> response \<Rightarrow> go_error + string list" where
  "tags_page lib resp =
     (case response_error lib resp of
        Some err \<Rightarrow> Inl err
      | None \<Rightarrow> (case body_text resp of Inl err \<Rightarrow> Inl err | Inr b \<Rightarrow> strings_of ''tags'' (nl_Unmarshal lib b)))"

definition trim_angles :: "string \<Rightarrow> string" where
  "trim_angles t = rev (dropWhile (\<lambda>c. c \<in> set ''<>'') (rev (dropWhile (\<lambda>c. c \<in> set ''<>'') t)))"

text \<open>Where the header \<open>Link\<close> leads; \<open>None\<close> without one.\<close>

definition next_page :: "'s net_lib \<Rightarrow> net_url \<Rightarrow> response \<Rightarrow> (go_error + net_url) option" where
  "next_page lib listURL resp =
     (let link = get (rs_Header resp) ''Link''
      in if link = [] then None
         else Some (case nl_Parse lib (trim_angles (fst (strings_Cut link CHR '';''))) of
                      Inl err \<Rightarrow> Inl err
                    | Inr linkURL \<Rightarrow> Inr (nl_ResolveReference lib listURL linkURL)))"

partial_function (option) all_loop ::
  "'s net_lib \<Rightarrow> 's trip \<Rightarrow> net_url \<Rightarrow> string list \<Rightarrow> 's \<Rightarrow> ((string list \<times> go_error option) \<times> 's) go option" where
  "all_loop lib client listURL allTags s =
     (case NewRequest lib ''GET'' (nl_String lib listURL) of
        Inl err \<Rightarrow> Some (Ret (([], Some err), s))
      | Inr req \<Rightarrow>
          (case client req s of
             Panic \<Rightarrow> Some Panic
           | Ret (Inl err, s) \<Rightarrow> Some (Ret ((allTags, Some err), s))
           | Ret (Inr resp, s) \<Rightarrow>
               (case tags_page lib resp of
                  Inl err \<Rightarrow> Some (Ret ((allTags, Some err), s))
                | Inr ts \<Rightarrow>
                    (case next_page lib listURL resp of
                       None \<Rightarrow> Some (Ret ((allTags @ ts, None), s))
                     | Some (Inl err) \<Rightarrow> Some (Ret ((allTags @ ts, Some err), s))
                     | Some (Inr listURL') \<Rightarrow> all_loop lib client listURL' (allTags @ ts) s))))"

text \<open>\<open>None\<close> is a call that never returns.\<close>

definition All :: "'s repo_lib \<Rightarrow> ('s, 'z) repository_scheme \<Rightarrow> 's \<Rightarrow> ((string list \<times> go_error option) \<times> 's) go option" where
  "All lib t s =
     (case rp_BuildTagsURL lib (rp_ub t) (rp_name t) [] of
        Inl err \<Rightarrow> Some (Ret (([], Some err), s))
      | Inr listURLStr \<Rightarrow>
          (case nl_Parse (rp_net lib) listURLStr of
             Inl err \<Rightarrow> Some (Ret (([], Some err), s))
           | Inr listURL \<Rightarrow> all_loop (rp_net lib) (rp_client t) listURL [] s))"

definition tags_List ::
  "'s repo_lib \<Rightarrow> ('s, 'z) repository_scheme \<Rightarrow> int \<Rightarrow> string \<Rightarrow> 's \<Rightarrow> ((string list \<times> go_error option) \<times> 's) go option" where
  "tags_List lib t maxTags lastTag s =
     (if maxTags < 0 then
        map_option (\<lambda>r. go_bind r (\<lambda>((ts, err), s). Ret ((ts, if err \<noteq> None then err else Some EOF), s))) (All lib t s)
      else
        (case rp_BuildTagsURL lib (rp_ub t) (rp_name t) ((''n'', show_int maxTags) # (if lastTag \<noteq> [] then [(''last'', lastTag)] else [])) of
           Inl err \<Rightarrow> Some (Ret (([], Some err), s))
         | Inr listURLStr \<Rightarrow>
             (case nl_Parse (rp_net lib) listURLStr of
                Inl err \<Rightarrow> Some (Ret (([], Some err), s))
              | Inr listURL \<Rightarrow>
                  Some (go_bind (Send (rp_net lib) (rp_client t) ''GET'' (nl_String (rp_net lib) listURL) (\<lambda>q. q) s) (\<lambda>(a, s). case a of
                    Inl err \<Rightarrow> Ret (([], Some err), s)
                  | Inr resp \<Rightarrow>
                      (case tags_page (rp_net lib) resp of
                         Inl err \<Rightarrow> Ret (([], Some err), s)
                       | Inr ts \<Rightarrow> Ret ((ts, if get (rs_Header resp) ''Link'' \<noteq> [] then None else Some EOF), s)))))))"

text \<open>The descriptor of a manifest, from the headers or, without a digest there, from the manifest itself.\<close>

definition descriptorFromResponse :: "'s repo_lib \<Rightarrow> response \<Rightarrow> go_error + SizedDescriptor" where
  "descriptorFromResponse lib resp =
     (let ctHeader = ContentType resp; digestHeader = get (rs_Header resp) ''Docker-Content-Digest'' in
      if ctHeader = [] then Inl (ErrText ''missing or empty Content-Type header'')
      else if digestHeader = [] then
        (case body_text resp of
           Inl err \<Rightarrow> Inl err
         | Inr b \<Rightarrow> (case rp_UnmarshalManifest lib ctHeader b of Inl err \<Rightarrow> Inl err | Inr (_, desc) \<Rightarrow> Inr desc))
      else
        (case rp_digest_Parse lib digestHeader of
           Inl err \<Rightarrow> Inl err
         | Inr dgst \<Rightarrow>
             (let lengthHeader = get (rs_Header resp) ''Content-Length'' in
              if lengthHeader = [] then Inl (ErrText ''missing or empty Content-Length header'')
              else (case strconv_Atoi lengthHeader of
                      None \<Rightarrow> Inl (ErrText ''strconv.ParseInt'')
                    | Some len \<Rightarrow> Inr (zero_descriptor\<lparr>d_MediaType := ctHeader, d_Digest := dgst, d_Size := len\<rparr>)))))"

text \<open>The URL of a manifest by tag or by digest.\<close>

definition manifest_url :: "'s repo_lib \<Rightarrow> ('s, 'z) repository_scheme \<Rightarrow> (go_error + string) \<Rightarrow> go_error + string" where
  "manifest_url lib t ref = (case ref of Inl err \<Rightarrow> Inl err | Inr r \<Rightarrow> rp_BuildManifestURL lib (rp_ub t) r)"

definition tags_Get :: "'s repo_lib \<Rightarrow> ('s, 'z) repository_scheme \<Rightarrow> string \<Rightarrow> 's \<Rightarrow> ((go_error + SizedDescriptor) \<times> 's) go" where
  "tags_Get lib t tag s =
     (case manifest_url lib t (rp_WithTag lib (rp_name t) tag) of
        Inl err \<Rightarrow> Ret (Inl err, s)
      | Inr u \<Rightarrow>
          (let newRequest = (\<lambda>verb. Send (rp_net lib) (rp_client t) verb u (accept (rp_ManifestMediaTypes lib)));
               success = (\<lambda>resp. 200 \<le> StatusCode resp \<and> StatusCode resp < 400)
           in go_bind (newRequest ''HEAD'' s) (\<lambda>(a, s). case a of
                Inl err \<Rightarrow> Ret (Inl err, s)
              | Inr resp \<Rightarrow>
                  if success resp \<and> get (rs_Header resp) ''Docker-Content-Digest'' \<noteq> [] then Ret (descriptorFromResponse lib resp, s)
                  else
                    go_bind (newRequest ''GET'' s) (\<lambda>(a, s). case a of
                      Inl err \<Rightarrow> Ret (Inl err, s)
                    | Inr resp \<Rightarrow>
                        if success resp then Ret (descriptorFromResponse lib resp, s)
                        else Ret (case response_error (rp_net lib) resp of Some err \<Rightarrow> Inl err | None \<Rightarrow> Inr zero_descriptor, s)))))"

text \<open>A request whose answer matters only by its error.\<close>

definition send_action :: "'s repo_lib \<Rightarrow> 's trip \<Rightarrow> string \<Rightarrow> (go_error + string) \<Rightarrow> (response \<Rightarrow> go_error option) \<Rightarrow> 's action" where
  "send_action lib client verb url check s =
     (case url of
        Inl err \<Rightarrow> Ret (Some err, s)
      | Inr u \<Rightarrow>
          go_bind (Send (rp_net lib) client verb u (\<lambda>q. q) s)
            (\<lambda>(a, s). case a of Inl err \<Rightarrow> Ret (Some err, s) | Inr resp \<Rightarrow> Ret (check resp, s)))"

definition Untag :: "'s repo_lib \<Rightarrow> ('s, 'z) repository_scheme \<Rightarrow> string \<Rightarrow> 's action" where
  "Untag lib t tag =
     send_action lib (rp_client t) ''DELETE'' (manifest_url lib t (rp_WithTag lib (rp_name t) tag)) (response_error (rp_net lib))"

definition tags_Lookup :: "SizedDescriptor \<Rightarrow> string list go" where
  "tags_Lookup d = Panic"

definition tags_Tag :: "string \<Rightarrow> SizedDescriptor \<Rightarrow> go_error option go" where
  "tags_Tag tag d = Panic"

section \<open>Manifests\<close>

record 's manifests = "'s repository" +
  ms_etags :: "(string, string) gomap"

definition Manifests :: "'s repository \<Rightarrow> 's manifests" where
  "Manifests r = repository.extend r \<lparr>ms_etags = []\<rparr>"

definition Exists :: "'s repo_lib \<Rightarrow> 's manifests \<Rightarrow> string \<Rightarrow> 's \<Rightarrow> ((bool \<times> go_error option) \<times> 's) go" where
  "Exists lib ms dgst s =
     (case manifest_url lib ms (rp_WithDigest lib (rp_name ms) dgst) of
        Inl err \<Rightarrow> Ret ((False, Some err), s)
      | Inr u \<Rightarrow>
          go_bind (Send (rp_net lib) (rp_client ms) ''HEAD'' u (accept (rp_ManifestMediaTypes lib)) s) (\<lambda>(a, s). case a of
            Inl err \<Rightarrow> Ret ((False, Some err), s)
          | Inr resp \<Rightarrow>
              if StatusCode resp = 404 then Ret ((False, None), s)
              else (case response_error (rp_net lib) resp of Some err \<Rightarrow> Ret ((False, Some err), s) | None \<Rightarrow> Ret ((True, None), s))))"

text \<open>The options the manifest service knows; applying the options of the \<open>distribution\<close> package does nothing.\<close>

datatype ManifestServiceOption =
    WithTagOption string
  | ContentDigestOption
  | WithManifestMediaTypesOption "string list"
  | EtagOption string string

definition etag_Apply :: "string \<Rightarrow> string \<Rightarrow> 's manifests \<Rightarrow> 's manifests" where
  "etag_Apply tag etag ms = ms\<lparr>ms_etags := gomap_put tag ([CHR 0x22] @ etag @ [CHR 0x22]) (ms_etags ms)\<rparr>"

fun Apply :: "ManifestServiceOption \<Rightarrow> 's manifests \<Rightarrow> 's manifests" where
  "Apply (EtagOption tag etag) ms = etag_Apply tag etag ms"
| "Apply _ ms = ms"

record get_options =
  go_digestOrTag :: string
  go_ref :: string
  go_contentDgst :: bool
  go_mediaTypes :: "string list"

fun options_loop :: "'s repo_lib \<Rightarrow> ManifestServiceOption list \<Rightarrow> get_options \<Rightarrow> 's manifests \<Rightarrow> (go_error + get_options) \<times> 's manifests" where
  "options_loop lib [] g ms = (Inr g, ms)"
| "options_loop lib (opt # opts) g ms =
     (case opt of
        WithTagOption tag \<Rightarrow>
          (case rp_WithTag lib (rp_name ms) tag of
             Inl err \<Rightarrow> (Inl err, ms)
           | Inr ref \<Rightarrow> options_loop lib opts (g\<lparr>go_digestOrTag := tag, go_ref := ref\<rparr>) ms)
      | ContentDigestOption \<Rightarrow> options_loop lib opts (g\<lparr>go_contentDgst := True\<rparr>) ms
      | WithManifestMediaTypesOption ts \<Rightarrow> options_loop lib opts (g\<lparr>go_mediaTypes := ts\<rparr>) ms
      | EtagOption tag etag \<Rightarrow> options_loop lib opts g (etag_Apply tag etag ms))"

text \<open>What \<open>Get\<close> asks for: by digest when no option names a tag.\<close>

definition get_target :: "'s repo_lib \<Rightarrow> 's manifests \<Rightarrow> string \<Rightarrow> get_options \<Rightarrow> go_error + string \<times> string" where
  "get_target lib ms dgst g =
     (if go_digestOrTag g = [] then (case rp_WithDigest lib (rp_name ms) dgst of Inl err \<Rightarrow> Inl err | Inr ref \<Rightarrow> Inr (dgst, ref))
      else Inr (go_digestOrTag g, go_ref g))"

definition get_request :: "'s repo_lib \<Rightarrow> 's manifests \<Rightarrow> get_options \<Rightarrow> string \<Rightarrow> request \<Rightarrow> request" where
  "get_request lib ms g digestOrTag req =
     (let req = accept (if go_mediaTypes g = [] then rp_ManifestMediaTypes lib else go_mediaTypes g) req
      in case map_of (ms_etags ms) digestOrTag of
           Some etag \<Rightarrow> req\<lparr>q_Header := header_Set ''If-None-Match'' etag (q_Header req)\<rparr>
         | None \<Rightarrow> req)"

definition ErrManifestNotModified :: go_error where
  "ErrManifestNotModified = ErrText ''manifest not modified''"

text \<open>The result has the manifest, and the content digest that is written when an option asks for it.\<close>

definition manifests_Get ::
  "'s repo_lib \<Rightarrow> 's manifests \<Rightarrow> string \<Rightarrow> ManifestServiceOption list \<Rightarrow> 's \<Rightarrow>
   (((go_error + manifest) \<times> string option) \<times> 's manifests \<times> 's) go" where
  "manifests_Get lib ms dgst opts s =
     (case options_loop lib opts \<lparr>go_digestOrTag = [], go_ref = [], go_contentDgst = False, go_mediaTypes = []\<rparr> ms of
        (Inl err, ms) \<Rightarrow> Ret ((Inl err, None), ms, s)
      | (Inr g, ms) \<Rightarrow>
          (case get_target lib ms dgst g of
             Inl err \<Rightarrow> Ret ((Inl err, None), ms, s)
           | Inr (digestOrTag, ref) \<Rightarrow>
               (case rp_BuildManifestURL lib (rp_ub ms) ref of
                  Inl err \<Rightarrow> Ret ((Inl err, None), ms, s)
                | Inr u \<Rightarrow>
                    go_bind (Send (rp_net lib) (rp_client ms) ''GET'' u (get_request lib ms g digestOrTag) s) (\<lambda>(a, s). case a of
                      Inl err \<Rightarrow> Ret ((Inl err, None), ms, s)
                    | Inr resp \<Rightarrow>
                        if StatusCode resp = 304 then Ret ((Inl ErrManifestNotModified, None), ms, s)
                        else
                          (case response_error (rp_net lib) resp of
                             Some err \<Rightarrow> Ret ((Inl err, None), ms, s)
                           | None \<Rightarrow>
                               (let content = (if go_contentDgst g then (case rp_digest_Parse lib (get (rs_Header resp) ''Docker-Content-Digest'') of
                                       Inl _ \<Rightarrow> None | Inr d \<Rightarrow> Some d) else None)
                                in case body_text resp of
                                     Inl err \<Rightarrow> Ret ((Inl err, content), ms, s)
                                   | Inr b \<Rightarrow>
                                       (case rp_UnmarshalManifest lib (ContentType resp) b of
                                          Inl err \<Rightarrow> Ret ((Inl err, content), ms, s)
                                        | Inr (m, _) \<Rightarrow> Ret ((Inr m, content), ms, s))))))))"

fun put_options :: "'s repo_lib \<Rightarrow> ManifestServiceOption list \<Rightarrow> string \<Rightarrow> bool \<Rightarrow> 's manifests \<Rightarrow> (go_error + string \<times> bool) \<times> 's manifests" where
  "put_options lib [] ref tagged ms = (Inr (ref, tagged), ms)"
| "put_options lib (opt # opts) ref tagged ms =
     (case opt of
        WithTagOption tag \<Rightarrow>
          (case rp_WithTag lib ref tag of Inl err \<Rightarrow> (Inl err, ms) | Inr ref \<Rightarrow> put_options lib opts ref True ms)
      | _ \<Rightarrow> put_options lib opts ref tagged (Apply opt ms))"

definition put_target :: "'s repo_lib \<Rightarrow> string \<Rightarrow> bool \<Rightarrow> string \<Rightarrow> string \<Rightarrow> go_error + string" where
  "put_target lib ref tagged mediaType p =
     (if tagged then Inr ref
      else (case rp_UnmarshalManifest lib mediaType p of Inl err \<Rightarrow> Inl err | Inr (_, d) \<Rightarrow> rp_WithDigest lib ref (d_Digest d)))"

definition manifests_Put ::
  "'s repo_lib \<Rightarrow> 's manifests \<Rightarrow> manifest \<Rightarrow> ManifestServiceOption list \<Rightarrow> 's \<Rightarrow> ((go_error + string) \<times> 's manifests \<times> 's) go" where
  "manifests_Put lib ms m opts s =
     (case put_options lib opts (rp_name ms) False ms of
        (Inl err, ms) \<Rightarrow> Ret (Inl err, ms, s)
      | (Inr (ref, tagged), ms) \<Rightarrow>
          (case rp_Payload lib m of
             Inl err \<Rightarrow> Ret (Inl err, ms, s)
           | Inr (mediaType, p) \<Rightarrow>
               (case manifest_url lib ms (put_target lib ref tagged mediaType p) of
                  Inl err \<Rightarrow> Ret (Inl err, ms, s)
                | Inr u \<Rightarrow>
                    go_bind (Send (rp_net lib) (rp_client ms) ''PUT'' u
                        (\<lambda>req. req\<lparr>q_Header := header_Set ''Content-Type'' mediaType (q_Header req), q_Body := p\<rparr>) s) (\<lambda>(a, s). case a of
                      Inl err \<Rightarrow> Ret (Inl err, ms, s)
                    | Inr resp \<Rightarrow>
                        (case response_error (rp_net lib) resp of
                           Some err \<Rightarrow> Ret (Inl err, ms, s)
                         | None \<Rightarrow> Ret (rp_digest_Parse lib (get (rs_Header resp) ''Docker-Content-Digest''), ms, s))))))"

definition manifests_Delete :: "'s repo_lib \<Rightarrow> 's manifests \<Rightarrow> string \<Rightarrow> 's action" where
  "manifests_Delete lib ms dgst =
     send_action lib (rp_client ms) ''DELETE'' (manifest_url lib ms (rp_WithDigest lib (rp_name ms) dgst)) (response_error (rp_net lib))"

section \<open>Blobs\<close>

record 's blobs = "'s repository" +
  bs_statter :: "'s BlobDescriptorService"

definition ErrBlobUnknown :: go_error where
  "ErrBlobUnknown = ErrText ''unknown blob''"

definition blob_url :: "'s repo_lib \<Rightarrow> ('s, 'z) repository_scheme \<Rightarrow> string \<Rightarrow> go_error + string" where
  "blob_url lib bs dgst =
     (case rp_WithDigest lib (rp_name bs) dgst of Inl err \<Rightarrow> Inl err | Inr ref \<Rightarrow> rp_BuildBlobURL lib (rp_ub bs) ref)"

definition statter_Stat :: "'s repo_lib \<Rightarrow> 's repository \<Rightarrow> string \<Rightarrow> 's \<Rightarrow> ((go_error + SizedDescriptor) \<times> 's) go" where
  "statter_Stat lib bs dgst s =
     (case blob_url lib bs dgst of
        Inl err \<Rightarrow> Ret (Inl err, s)
      | Inr u \<Rightarrow>
          go_bind (Send (rp_net lib) (rp_client bs) ''HEAD'' u (\<lambda>q. q) s) (\<lambda>(a, s). case a of
            Inl err \<Rightarrow> Ret (Inl err, s)
          | Inr resp \<Rightarrow>
              if StatusCode resp = 404 then Ret (Inl ErrBlobUnknown, s)
              else
                (case response_error (rp_net lib) resp of
                   Some err \<Rightarrow> Ret (Inl err, s)
                 | None \<Rightarrow>
                     (let lengthHeader = get (rs_Header resp) ''Content-Length'' in
                      if lengthHeader = [] then Ret (Inl (ErrText (''missing content-length header for request: '' @ u)), s)
                      else (case strconv_Atoi lengthHeader of
                              None \<Rightarrow> Ret (Inl (ErrText ''error parsing content-length''), s)
                            | Some len \<Rightarrow> Ret (Inr (zero_descriptor\<lparr>d_MediaType := ContentType resp, d_Size := len, d_Digest := dgst\<rparr>), s))))))"

definition statter_Clear :: "'s repo_lib \<Rightarrow> 's repository \<Rightarrow> string \<Rightarrow> 's action" where
  "statter_Clear lib bs dgst = send_action lib (rp_client bs) ''DELETE'' (blob_url lib bs dgst) (response_error (rp_net lib))"

definition Blobs :: "'s repo_lib \<Rightarrow> 's repository \<Rightarrow> 's blobs" where
  "Blobs lib r =
     repository.extend r \<lparr>bs_statter = rp_NewCachedBlobStatter lib \<lparr>bd_Stat = statter_Stat lib r, bd_Clear = statter_Clear lib r\<rparr>\<rparr>"

definition sanitizeLocation :: "'s net_lib \<Rightarrow> string \<Rightarrow> string \<Rightarrow> go_error + string" where
  "sanitizeLocation lib location base =
     (case nl_Parse lib base of
        Inl err \<Rightarrow> Inl err
      | Inr baseURL \<Rightarrow>
          (case nl_Parse lib location of
             Inl err \<Rightarrow> Inl err
           | Inr locationURL \<Rightarrow> Inr (nl_String lib (nl_ResolveReference lib baseURL locationURL))))"

definition blobs_Stat :: "'s blobs \<Rightarrow> string \<Rightarrow> 's \<Rightarrow> ((go_error + SizedDescriptor) \<times> 's) go" where
  "blobs_Stat bs dgst s = bd_Stat (bs_statter bs) dgst s"

definition blobs_Delete :: "'s blobs \<Rightarrow> string \<Rightarrow> 's action" where
  "blobs_Delete bs dgst = bd_Clear (bs_statter bs) dgst"

definition blob_error :: "'s net_lib \<Rightarrow> response \<Rightarrow> go_error option" where
  "blob_error lib resp = (if StatusCode resp = 404 then Some ErrBlobUnknown else response_error lib resp)"

definition blobs_Open :: "'s repo_lib \<Rightarrow> ('s, 'z) repository_scheme \<Rightarrow> string \<Rightarrow> go_error + HTTPReadSeeker" where
  "blobs_Open lib bs dgst = (case blob_url lib bs dgst of Inl err \<Rightarrow> Inl err | Inr blobURL \<Rightarrow> Inr (NewHTTPReadSeeker blobURL))"

definition blobs_Get :: "'s repo_lib \<Rightarrow> ('s, 'z) repository_scheme \<Rightarrow> string \<Rightarrow> 's \<Rightarrow> ((string \<times> go_error option) \<times> 's) go option" where
  "blobs_Get lib bs dgst s =
     (case blobs_Open lib bs dgst of
        Inl err \<Rightarrow> Some (Ret (([], Some err), s))
      | Inr hrs \<Rightarrow>
          map_option (\<lambda>r. go_bind r (\<lambda>(res, hrs, s). Ret (res, s)))
            (ReadAll (rp_room lib) (\<lambda>n (hrs, s). Read (rp_net lib) (rp_reader lib) (rp_client bs) (blob_error (rp_net lib)) n hrs s) [] (hrs, s)))"

section \<open>Uploads\<close>

record 's httpBlobUpload =
  hb_statter :: "'s BlobDescriptorService"
  hb_client :: "'s trip"
  hb_uuid :: string
  hb_startedAt :: instant
  hb_location :: string
  hb_offset :: int
  hb_closed :: bool

definition new_upload :: "'s net_lib \<Rightarrow> 's blobs \<Rightarrow> string \<Rightarrow> string \<Rightarrow> 's \<Rightarrow> 's httpBlobUpload" where
  "new_upload lib bs uuid location s =
     \<lparr>hb_statter = bs_statter bs, hb_client = rp_client bs, hb_uuid = uuid, hb_startedAt = nl_now lib s, hb_location = location,
      hb_offset = 0, hb_closed = False\<rparr>"

text \<open>The reference to mount from is a name and a digest; it is nil without the option.\<close>

record CreateOptions =
  co_ShouldMount :: bool
  co_From :: "(string \<times> string) option"

definition WithMountFrom :: "string \<times> string \<Rightarrow> CreateOptions \<Rightarrow> CreateOptions" where
  "WithMountFrom ref opts = opts\<lparr>co_ShouldMount := True, co_From := Some ref\<rparr>"

definition mount_values :: "CreateOptions \<Rightarrow> (string \<times> string) list go" where
  "mount_values opts =
     (if co_ShouldMount opts then (case co_From opts of None \<Rightarrow> Panic | Some (name, dgst) \<Rightarrow> Ret [(''from'', name), (''mount'', dgst)]) else Ret [])"

definition path_file :: "string \<Rightarrow> string" where
  "path_file p = drop (nat (strings_LastIndex p CHR ''/'' + 1)) p"

definition upload_uuid :: "response \<Rightarrow> string" where
  "upload_uuid resp =
     (let uuid = get (rs_Header resp) ''Docker-Upload-UUID'' in if uuid = [] then path_file (get (rs_Header resp) ''Location'') else uuid)"

definition ErrBlobMounted :: go_error where
  "ErrBlobMounted = ErrText ''blob mounted''"

text \<open>An answer that is neither an error nor one of the two expected ones gives a nil writer and no error.\<close>

definition Create :: "'s repo_lib \<Rightarrow> 's blobs \<Rightarrow> (CreateOptions \<Rightarrow> CreateOptions) list \<Rightarrow> 's \<Rightarrow> ((go_error + 's httpBlobUpload option) \<times> 's) go" where
  "Create lib bs options s =
     (let opts = fold (\<lambda>f. f) options \<lparr>co_ShouldMount = False, co_From = None\<rparr> in
      go_bind (mount_values opts) (\<lambda>vals.
        case rp_BuildBlobUploadURL lib (rp_ub bs) (rp_name bs) vals of
          Inl err \<Rightarrow> Ret (Inl err, s)
        | Inr u \<Rightarrow>
            go_bind (Send (rp_net lib) (rp_client bs) ''POST'' u (\<lambda>q. q) s) (\<lambda>(a, s). case a of
              Inl err \<Rightarrow> Ret (Inl err, s)
            | Inr resp \<Rightarrow>
                if StatusCode resp = 201 then
                  (case co_From opts of
                     None \<Rightarrow> Panic
                   | Some (_, dgst) \<Rightarrow>
                       go_bind (bd_Stat (bs_statter bs) dgst s)
                         (\<lambda>(d, s). case d of Inl err \<Rightarrow> Ret (Inl err, s) | Inr _ \<Rightarrow> Ret (Inl ErrBlobMounted, s)))
                else if StatusCode resp = 202 then
                  (if upload_uuid resp = [] then Ret (Inl (ErrText ''cannot retrieve docker upload UUID''), s)
                   else (case sanitizeLocation (rp_net lib) (get (rs_Header resp) ''Location'') u of
                           Inl err \<Rightarrow> Ret (Inl err, s)
                         | Inr location \<Rightarrow> Ret (Inr (Some (new_upload (rp_net lib) bs (upload_uuid resp) location s)), s)))
                else Ret (case response_error (rp_net lib) resp of Some err \<Rightarrow> Inl err | None \<Rightarrow> Inr None, s))))"

definition Resume :: "'s repo_lib \<Rightarrow> 's blobs \<Rightarrow> string \<Rightarrow> 's \<Rightarrow> go_error + 's httpBlobUpload" where
  "Resume lib bs uuid s =
     (case rp_BuildBlobUploadChunkURL lib (rp_ub bs) (rp_name bs) uuid of
        Inl err \<Rightarrow> Inl err
      | Inr location \<Rightarrow> Inr (new_upload (rp_net lib) bs uuid location s))"

definition ErrBlobUploadUnknown :: go_error where
  "ErrBlobUploadUnknown = ErrText ''blob upload unknown''"

definition handleErrorResponse :: "'s net_lib \<Rightarrow> response \<Rightarrow> go_error option" where
  "handleErrorResponse lib resp = (if StatusCode resp = 404 then Some ErrBlobUploadUnknown else response_error lib resp)"

text \<open>\<open>fmt.Sscanf\<close> with \<open>%d-%d\<close>: spaces and a sign may stand before a number, and what follows the second one is not read.\<close>

definition scan_int :: "string \<Rightarrow> (int \<times> string) option" where
  "scan_int t =
     (let u = dropWhile (\<lambda>c. ascii_space c \<and> c \<noteq> CHR 0x0A) t;
          sign = takeWhile (\<lambda>c. c \<in> set ''+-'') (take 1 u);
          ds = takeWhile is_digit (drop (length sign) u)
      in case strconv_Atoi (sign @ ds) of None \<Rightarrow> None | Some n \<Rightarrow> Some (n, drop (length sign + length ds) u))"

definition scan_range :: "string \<Rightarrow> (int \<times> int) option" where
  "scan_range rng =
     (case scan_int rng of
        Some (start, r) \<Rightarrow> if prefix ''-'' r then (case scan_int (tl r) of Some (end_at, _) \<Rightarrow> Some (start, end_at) | None \<Rightarrow> None) else None
      | None \<Rightarrow> None)"

text \<open>What \<open>Write\<close> and \<open>ReadFrom\<close> do with the answer: the upload goes on at the location it names.\<close>

definition uploaded :: "'s net_lib \<Rightarrow> response \<Rightarrow> 's httpBlobUpload \<Rightarrow> (int \<times> go_error option) \<times> 's httpBlobUpload" where
  "uploaded lib resp hbu =
     (case handleErrorResponse lib resp of
        Some err \<Rightarrow> ((0, Some err), hbu)
      | None \<Rightarrow>
          (let hbu = hbu\<lparr>hb_uuid := get (rs_Header resp) ''Docker-Upload-UUID''\<rparr>
           in case sanitizeLocation lib (get (rs_Header resp) ''Location'') (hb_location hbu) of
                Inl err \<Rightarrow> ((0, Some err), hbu\<lparr>hb_location := []\<rparr>)
              | Inr location \<Rightarrow>
                  (let hbu = hbu\<lparr>hb_location := location\<rparr> in
                   case scan_range (get (rs_Header resp) ''Range'') of
                     None \<Rightarrow> ((0, Some (ErrText ''Sscanf'')), hbu)
                   | Some (start, end_at) \<Rightarrow>
                       if end_at < start then ((0, Some (ErrText ''bad range format'')), hbu)
                       else (let n = int64 (end_at - start + 1) in ((n, None), hbu\<lparr>hb_offset := int64 (hb_offset hbu + n)\<rparr>)))))"

definition patch :: "'s net_lib \<Rightarrow> (request \<Rightarrow> request) \<Rightarrow> 's httpBlobUpload \<Rightarrow> 's \<Rightarrow> ((int \<times> go_error option) \<times> 's httpBlobUpload \<times> 's) go" where
  "patch lib prepare hbu s =
     go_bind (Send lib (hb_client hbu) ''PATCH'' (hb_location hbu) prepare s) (\<lambda>(a, s). case a of
       Inl err \<Rightarrow> Ret ((0, Some err), hbu, s)
     | Inr resp \<Rightarrow> (case uploaded lib resp hbu of (r, hbu) \<Rightarrow> Ret (r, hbu, s)))"

definition octets :: "string \<Rightarrow> request \<Rightarrow> request" where
  "octets p req = req\<lparr>q_Header := header_Set ''Content-Type'' ''application/octet-stream'' (q_Header req), q_Body := p\<rparr>"

definition ReadFrom :: "'s net_lib \<Rightarrow> string \<Rightarrow> 's httpBlobUpload \<Rightarrow> 's \<Rightarrow> ((int \<times> go_error option) \<times> 's httpBlobUpload \<times> 's) go" where
  "ReadFrom lib p = patch lib (octets p)"

definition Write :: "'s net_lib \<Rightarrow> string \<Rightarrow> 's httpBlobUpload \<Rightarrow> 's \<Rightarrow> ((int \<times> go_error option) \<times> 's httpBlobUpload \<times> 's) go" where
  "Write lib p hbu =
     patch lib (\<lambda>req. octets p (req\<lparr>q_Header := header_Set ''Content-Length'' (show_nat (length p))
       (header_Set ''Content-Range'' (show_int (hb_offset hbu) @ ''-'' @ show_int (int64 (hb_offset hbu + int (length p) - 1))) (q_Header req))\<rparr>)) hbu"

definition Size :: "'s httpBlobUpload \<Rightarrow> int" where
  "Size hbu = hb_offset hbu"

definition ID :: "'s httpBlobUpload \<Rightarrow> string" where
  "ID hbu = hb_uuid hbu"

definition StartedAt :: "'s httpBlobUpload \<Rightarrow> instant" where
  "StartedAt hbu = hb_startedAt hbu"

definition upload_Close :: "'s httpBlobUpload \<Rightarrow> 's httpBlobUpload" where
  "upload_Close hbu = hbu\<lparr>hb_closed := True\<rparr>"

text \<open>\<open>Values.Set\<close> replaces all values of a key.\<close>

definition query_Set :: "string \<Rightarrow> string \<Rightarrow> (string \<times> string) list \<Rightarrow> (string \<times> string) list" where
  "query_Set k v q = filter (\<lambda>(k', _). k' \<noteq> k) q @ [(k, v)]"

definition commit_request :: "string \<Rightarrow> request \<Rightarrow> request" where
  "commit_request dgst req = req\<lparr>q_URL := (q_URL req)\<lparr>nu_Query := values_Encode (query_Set ''digest'' dgst (nu_Query (q_URL req)))\<rparr>\<rparr>"

definition Commit :: "'s net_lib \<Rightarrow> SizedDescriptor \<Rightarrow> 's httpBlobUpload \<Rightarrow> 's \<Rightarrow> ((go_error + SizedDescriptor) \<times> 's) go" where
  "Commit lib desc hbu s =
     go_bind (Send lib (hb_client hbu) ''PUT'' (hb_location hbu) (commit_request (d_Digest desc)) s) (\<lambda>(a, s). case a of
       Inl err \<Rightarrow> Ret (Inl err, s)
     | Inr resp \<Rightarrow>
         (case handleErrorResponse lib resp of
            Some err \<Rightarrow> Ret (Inl err, s)
          | None \<Rightarrow> bd_Stat (hb_statter hbu) (d_Digest desc) s))"

definition Cancel :: "'s repo_lib \<Rightarrow> 's httpBlobUpload \<Rightarrow> 's action" where
  "Cancel lib hbu =
     send_action lib (hb_client hbu) ''DELETE'' (Inr (hb_location hbu))
       (\<lambda>resp. if StatusCode resp = 404 then None else handleErrorResponse (rp_net lib) resp)"

text \<open>
  \<open>Put\<close>: \<open>io.Copy\<close> hands the reader to \<open>ReadFrom\<close>, and the digest is taken of what the request reads, which is all of the content.
\<close>

definition blobs_Put :: "'s repo_lib \<Rightarrow> 's blobs \<Rightarrow> string \<Rightarrow> string \<Rightarrow> 's \<Rightarrow> ((go_error + SizedDescriptor) \<times> 's) go" where
  "blobs_Put lib bs mediaType p s =
     go_bind (Create lib bs [] s) (\<lambda>(w, s). case w of
       Inl err \<Rightarrow> Ret (Inl err, s)
     | Inr None \<Rightarrow> Panic
     | Inr (Some writer) \<Rightarrow>
         go_bind (ReadFrom (rp_net lib) p writer s) (\<lambda>((n, err), writer, s). case err of
           Some e \<Rightarrow> Ret (Inl e, s)
         | None \<Rightarrow>
             if n < int (length p) then Ret (Inl (ErrText ''short copy''), s)
             else Commit (rp_net lib)
                    (zero_descriptor\<lparr>d_MediaType := mediaType, d_Size := int (length p), d_Digest := rp_digest_FromBytes lib p\<rparr>) writer s))"

section \<open>Listing ends with the pages\<close>

text \<open>One page of the listing: what is read from a URL, and where it leads.\<close>

definition read_page :: "'s net_lib \<Rightarrow> 's trip \<Rightarrow> net_url \<Rightarrow> 's \<Rightarrow> (string list \<times> response \<times> 's) option" where
  "read_page lib client u s =
     (case NewRequest lib ''GET'' (nl_String lib u) of
        Inl _ \<Rightarrow> None
      | Inr req \<Rightarrow>
          (case client req s of
             Ret (Inr resp, s') \<Rightarrow> (case tags_page lib resp of Inr ts \<Rightarrow> Some (ts, resp, s') | Inl _ \<Rightarrow> None)
           | _ \<Rightarrow> None))"

inductive page_chain :: "'s net_lib \<Rightarrow> 's trip \<Rightarrow> net_url \<Rightarrow> 's \<Rightarrow> string list list \<Rightarrow> 's \<Rightarrow> bool" for lib client where
  last_page: "page_chain lib client u s [ts] s'"
    if "read_page lib client u s = Some (ts, resp, s')" "next_page lib u resp = None"
| more_pages: "page_chain lib client u s (ts # pages) s''"
    if "read_page lib client u s = Some (ts, resp, s')" "next_page lib u resp = Some (Inr u')" "page_chain lib client u' s' pages s''"

definition links_to :: "'s net_lib \<Rightarrow> 's trip \<Rightarrow> net_url \<times> 's \<Rightarrow> (net_url \<times> 's) option" where
  "links_to lib client = (\<lambda>(u, s). case read_page lib client u s of
     Some (ts, resp, s') \<Rightarrow> (case next_page lib u resp of Some (Inr u') \<Rightarrow> Some (u', s') | _ \<Rightarrow> None)
   | None \<Rightarrow> None)"

lemma all_loop_read:
  assumes "read_page lib client u s = Some (ts, resp, s')"
  shows "all_loop lib client u acc s =
    (case next_page lib u resp of
       None \<Rightarrow> Some (Ret ((acc @ ts, None), s'))
     | Some (Inl err) \<Rightarrow> Some (Ret ((acc @ ts, Some err), s'))
     | Some (Inr u') \<Rightarrow> all_loop lib client u' (acc @ ts) s')"
  using assms by (subst all_loop.simps) (auto simp: read_page_def split: sum.split_asm go.split_asm prod.split_asm)

lemma all_loop_stop:
  assumes "read_page lib client u s = None"
  obtains r where "all_loop lib client u acc s = Some r" "\<And>ts s'. r \<noteq> Ret ((ts, None), s')"
proof -
  have "\<exists>r. all_loop lib client u acc s = Some r \<and> (\<forall>ts s'. r \<noteq> Ret ((ts, None), s'))"
    using assms by (subst all_loop.simps) (auto simp: read_page_def split: sum.split go.split prod.split)
  with that show thesis by blast
qed

lemma all_loop_chain: "page_chain lib client u s pages s' \<Longrightarrow> all_loop lib client u acc s = Some (Ret ((acc @ concat pages, None), s'))"
  by (induction arbitrary: acc rule: page_chain.induct) (simp_all add: all_loop_read)

lemma all_loop_sound:
  "all_loop lib client u acc s = Some r \<Longrightarrow>
     \<forall>ts s'. r = Ret ((ts, None), s') \<longrightarrow> (\<exists>pages. page_chain lib client u s pages s' \<and> ts = acc @ concat pages)"
proof (induction lib client u acc s r rule: all_loop.raw_induct [rotated, consumes 1, case_names step])
  case (step f lib client u acc s r)
  show ?case
  proof (intro allI impI)
    fix ts s' assume r: "r = Ret ((ts, None), s')"
    from step(2) [unfolded r] obtain ts1 resp s1 where page: "read_page lib client u s = Some (ts1, resp, s1)"
      and rest: "(case next_page lib u resp of
          None \<Rightarrow> Some (Ret ((acc @ ts1, None), s1)) | Some (Inl err) \<Rightarrow> Some (Ret ((acc @ ts1, Some err), s1))
        | Some (Inr u') \<Rightarrow> f lib client u' (acc @ ts1) s1) = Some (Ret ((ts, None), s'))"
      by (auto simp: read_page_def split: sum.split_asm go.split_asm prod.split_asm)
    show "\<exists>pages. page_chain lib client u s pages s' \<and> ts = acc @ concat pages"
    proof (cases "next_page lib u resp")
      case None
      with rest page_chain.last_page [OF page None] show ?thesis by (intro exI [of _ "[ts1]"]) auto
    next
      case (Some x)
      with rest obtain u' where u': "next_page lib u resp = Some (Inr u')" "f lib client u' (acc @ ts1) s1 = Some (Ret ((ts, None), s'))"
        by (cases x) auto
      from step(1) [OF u'(2)] obtain pages where "page_chain lib client u' s1 pages s'" "ts = (acc @ ts1) @ concat pages" by blast
      with page_chain.more_pages [OF page u'(1)] show ?thesis by (intro exI [of _ "ts1 # pages"]) auto
    qed
  qed
qed

text \<open>A page that leads to itself, or any other chain of links without an end, is followed forever.\<close>

lemma all_loop_ends:
  "all_loop lib client u acc s = Some r \<Longrightarrow> \<forall>f. f 0 = (u, s) \<longrightarrow> (\<exists>n. links_to lib client (f n) \<noteq> Some (f (Suc n)))"
proof (induction lib client u acc s r rule: all_loop.raw_induct [rotated, consumes 1, case_names step])
  case (step loop lib client u acc s r)
  show ?case
  proof (intro allI impI, rule ccontr)
    fix f :: "nat \<Rightarrow> net_url \<times> 'a"
    assume start: "f 0 = (u, s)" and "\<not> (\<exists>n. links_to lib client (f n) \<noteq> Some (f (Suc n)))"
    then have link: "links_to lib client (f n) = Some (f (Suc n))" for n by blast
    obtain u' s' where after: "f (Suc 0) = (u', s')" by fastforce
    from link [of 0, unfolded start after] obtain ts resp where
      "read_page lib client u s = Some (ts, resp, s')" "next_page lib u resp = Some (Inr u')"
      by (auto simp: links_to_def split: option.split_asm sum.split_asm prod.split_asm)
    with step(2) have "loop lib client u' (acc @ ts) s' = Some r"
      by (auto simp: read_page_def split: sum.split_asm go.split_asm prod.split_asm)
    from step(1) [OF this, rule_format, of "\<lambda>n. f (Suc n)"] after link show False by simp
  qed
qed

lemma all_loop_None:
  assumes "all_loop lib client u acc s = None"
  obtains u' s' acc' where "links_to lib client (u, s) = Some (u', s')" "all_loop lib client u' acc' s' = None"
proof (cases "read_page lib client u s")
  case None
  then obtain r where "all_loop lib client u acc s = Some r" by (rule all_loop_stop)
  with assms show thesis by simp
next
  case (Some page)
  obtain ts resp s' where page: "page = (ts, resp, s')" by (cases page)
  with assms all_loop_read [of lib client u s ts resp s' acc] Some obtain u' where
    "next_page lib u resp = Some (Inr u')" "all_loop lib client u' (acc @ ts) s' = None"
    by (auto split: option.split_asm sum.split_asm)
  with that Some page show thesis by (auto simp: links_to_def)
qed

lemma all_loop_endless:
  assumes "all_loop lib client u acc s = None"
  shows "\<exists>f. f 0 = (u, s) \<and> (\<forall>n. links_to lib client (f n) = Some (f (Suc n)))"
proof -
  define f where "f n = ((\<lambda>x. the (links_to lib client x)) ^^ n) (u, s)" for n
  have "\<exists>acc. all_loop lib client (fst (f n)) acc (snd (f n)) = None" for n
  proof (induction n)
    case (Suc n)
    then obtain acc where "all_loop lib client (fst (f n)) acc (snd (f n)) = None" by blast
    then obtain u' s' acc' where "links_to lib client (fst (f n), snd (f n)) = Some (u', s')" "all_loop lib client u' acc' s' = None"
      by (rule all_loop_None)
    then show ?case by (auto simp: f_def)
  qed (use assms in \<open>auto simp: f_def\<close>)
  then have "links_to lib client (f n) \<noteq> None" for n by (metis all_loop_None option.distinct(1) prod.collapse)
  then have "links_to lib client (f n) = Some (f (Suc n))" for n by (simp add: f_def)
  then show ?thesis by (intro exI [of _ f]) (simp add: f_def)
qed

text \<open>
  \<open>C33\<close>.  Listing the tags of a repository follows the links of the answers to their end, and to nothing else.  The call returns
  without an error exactly when the links lead from page to page to a page without a link, and then its result is the tags
  of all these pages in their order.
\<close>

theorem All_lists_every_page:
  assumes "rp_BuildTagsURL lib (rp_ub t) (rp_name t) [] = Inr listURLStr" "nl_Parse (rp_net lib) listURLStr = Inr listURL"
  shows "All lib t s = Some (Ret ((ts, None), s')) \<longleftrightarrow>
    (\<exists>pages. page_chain (rp_net lib) (rp_client t) listURL s pages s' \<and> ts = concat pages)"
proof
  assume "All lib t s = Some (Ret ((ts, None), s'))"
  with assms all_loop_sound [of "rp_net lib" "rp_client t" listURL "[]" s]
  show "\<exists>pages. page_chain (rp_net lib) (rp_client t) listURL s pages s' \<and> ts = concat pages" by (auto simp: All_def)
next
  assume "\<exists>pages. page_chain (rp_net lib) (rp_client t) listURL s pages s' \<and> ts = concat pages"
  with assms all_loop_chain [of "rp_net lib" "rp_client t" listURL s _ s' "[]"]
  show "All lib t s = Some (Ret ((ts, None), s'))" by (auto simp: All_def)
qed

text \<open>
  \<open>C34\<close>.  When listing ends: the call fails to return exactly when the registry's links never end, for example when a page leads back to
  itself.  Every other registry gets an answer, a panic of the transport included; the loop has no limit of its own.
\<close>

theorem All_diverges_iff_endless:
  assumes "rp_BuildTagsURL lib (rp_ub t) (rp_name t) [] = Inr listURLStr" "nl_Parse (rp_net lib) listURLStr = Inr listURL"
  shows "All lib t s = None \<longleftrightarrow> (\<exists>f. f 0 = (listURL, s) \<and> (\<forall>n. links_to (rp_net lib) (rp_client t) (f n) = Some (f (Suc n))))"
proof -
  have All: "All lib t s = all_loop (rp_net lib) (rp_client t) listURL [] s" using assms by (simp add: All_def)
  show ?thesis
  proof
    assume "All lib t s = None"
    with All all_loop_endless [of "rp_net lib" "rp_client t" listURL "[]" s]
    show "\<exists>f. f 0 = (listURL, s) \<and> (\<forall>n. links_to (rp_net lib) (rp_client t) (f n) = Some (f (Suc n)))" by simp
  next
    assume "\<exists>f. f 0 = (listURL, s) \<and> (\<forall>n. links_to (rp_net lib) (rp_client t) (f n) = Some (f (Suc n)))"
    with all_loop_ends [of "rp_net lib" "rp_client t" listURL "[]" s] All show "All lib t s = None"
      by (cases "All lib t s") fastforce+
  qed
qed

section \<open>Blobs are read completely\<close>

lemma client_error_reported: "400 \<le> StatusCode resp \<Longrightarrow> response_error lib resp \<noteq> None"
  by (auto simp: response_error_def HandleHTTPResponseError_def http_response.truncate_def Let_def split: list.split go_error.split)

text \<open>
  \<open>C35\<close>.  Reading a blob always ends and is complete: for a server that answers requests for the blob's URL as HTTP promises, \<open>Get\<close> returns,
  whatever the sizes of the buffers and of the chunks that arrive, and it returns exactly the content and no error.
\<close>

theorem blob_read_completely:
  assumes "blob_url lib bs dgst = Inr url" "serves (rp_net lib) (rp_client bs) url content" "int (length content) < 9223372036854775808"
    and "chunk_ok (rp_reader lib)" "\<forall>k. rp_room lib k > 0"
  shows "\<exists>s'. blobs_Get lib bs dgst s = Some (Ret ((content, None), s'))"
proof -
  have handler: "\<forall>resp. StatusCode resp = 416 \<longrightarrow> blob_error (rp_net lib) resp \<noteq> None"
    by (simp add: blob_error_def client_error_reported)
  from ReadAll_returns_content [OF assms(2-5) handler, of s] obtain st where
    "ReadAll (rp_room lib) (\<lambda>n (hrs, s). Read (rp_net lib) (rp_reader lib) (rp_client bs) (blob_error (rp_net lib)) n hrs s) []
       (NewHTTPReadSeeker url, s) = Some (Ret ((content, None), st))" by blast
  with assms(1) show ?thesis by (cases st) (simp add: blobs_Get_def blobs_Open_def)
qed

section \<open>Redirects\<close>

lemma header_Values_Add: "header_Values (header_Add k v h) k' = (if k' = k then header_Values h k @ [v] else header_Values h k')"
  by (simp add: header_Values_def header_Add_def map_of_gomap_put)

lemma keep_values_other: "k' \<noteq> k \<Longrightarrow> header_Values (q_Header (keep_values k vs req)) k' = header_Values (q_Header req) k'"
  unfolding keep_values_def by (induction vs arbitrary: req) (auto simp: header_Values_Add)

lemma keep_values_same:
  "set (header_Values (q_Header (keep_values k vs req)) k) = set (header_Values (q_Header req) k) \<union> set vs"
  unfolding keep_values_def by (induction vs arbitrary: req) (auto simp: header_Values_Add)

lemma keep_headers:
  assumes "gomap_wf h"
  shows "set (header_Values (q_Header (fold (\<lambda>(k, vs) req. if k \<noteq> ''Accept'' \<and> k \<noteq> ''Range'' then req else keep_values k vs req) h req)) k) =
    set (header_Values (q_Header req) k) \<union> (if k = ''Accept'' \<or> k = ''Range'' then set (header_Values h k) else {})"
  using assms
proof (induction h arbitrary: req)
  case (Cons kv h)
  obtain k' vs where kv: "kv = (k', vs)" by fastforce
  with Cons.prems have wf: "gomap_wf h" and new: "map_of h k' = None" by (auto simp: gomap_wf_def map_of_eq_None_iff)
  have first: "header_Values (kv # h) k = (if k = k' then vs else header_Values h k)" "header_Values h k' = []"
    using new kv by (simp_all add: header_Values_def)
  let ?req = "if k' \<noteq> ''Accept'' \<and> k' \<noteq> ''Range'' then req else keep_values k' vs req"
  show ?case using Cons.IH [OF wf, of ?req] first unfolding kv
    by (cases "k = k'") (auto simp: keep_values_same keep_values_other)
qed (simp add: header_Values_def)

text \<open>A redirected request asks for the same media types and the same range as the first request, and a chain of redirects is cut after ten.\<close>

theorem redirect_keeps_accept_and_range:
  assumes "gomap_wf (q_Header v)" "length via < 9"
  shows "\<exists>req'. checkHTTPRedirect req (v # via) = Inr req' \<and>
    (\<forall>k. set (header_Values (q_Header req') k) = set (header_Values (q_Header req) k) \<union>
       (if k = ''Accept'' \<or> k = ''Range'' then set (header_Values (q_Header v) k) else {}))"
  using assms keep_headers [OF assms(1), of req] by (simp add: checkHTTPRedirect_def)

section \<open>A concrete registry\<close>

definition pages_net :: "int net_lib" where
  "pages_net = sample_net\<lparr>nl_Unmarshal := (\<lambda>b. Some (JObj [(''name'', JStr ''org/web''), (''tags'', JArr [JStr b])]))\<rparr>"

definition sample_repo_lib :: "int repo_lib" where
  "sample_repo_lib =
     \<lparr>rp_net = pages_net, rp_reader = sample_reader, rp_room = (\<lambda>k. 512), rp_NewURLBuilderFromString = Inr,
      rp_BuildCatalogURL = (\<lambda>r vs. Inr (r @ ''/v2/_catalog'')), rp_BuildTagsURL = (\<lambda>r name vs. Inr (r @ ''/v2/'' @ name @ ''/tags/list'')),
      rp_BuildManifestURL = (\<lambda>r ref. Inr (r @ ''/v2/manifests/'' @ ref)), rp_BuildBlobURL = (\<lambda>r ref. Inr (r @ ''/v2/blobs/'' @ ref)),
      rp_BuildBlobUploadURL = (\<lambda>r name vs. Inr (r @ ''/v2/'' @ name @ ''/blobs/uploads/'')),
      rp_BuildBlobUploadChunkURL = (\<lambda>r name uuid. Inr (r @ ''/v2/'' @ name @ ''/blobs/uploads/'' @ uuid)),
      rp_WithTag = (\<lambda>n t. Inr (n @ '':'' @ t)), rp_WithDigest = (\<lambda>n d. Inr (n @ ''@'' @ d)), rp_digest_Parse = Inr, rp_digest_FromBytes = (\<lambda>b. b),
      rp_ManifestMediaTypes = [], rp_UnmarshalManifest = (\<lambda>_ _. Inl (ErrText [])), rp_Payload = (\<lambda>_. Inl (ErrText [])),
      rp_NewCachedBlobStatter = (\<lambda>st. st)\<rparr>"

text \<open>A server whose first page links to a target, and whose other pages are the last ones.\<close>

definition list_server :: "string \<Rightarrow> int trip" where
  "list_server target req s =
     (let first = (nu_Path (q_URL req) = ''/v2/org/web/tags/list'')
      in Ret (Inr \<lparr>StatusCode = 200, Status = ''200 OK'', WWWAuthenticate = [], ContentType = ''application/json'',
                  Body = Some (if first then ''1.0'' else ''1.1''), rs_Request = Some (q_URL req),
                  rs_Header = (if first then [(''Link'', ''<'' @ target @ ''>; rel=next'')] else []), rs_ContentLength = -1\<rparr>, s))"

definition sample_repository :: "int trip \<Rightarrow> int repository" where
  "sample_repository client = \<lparr>rp_client = client, rp_ub = [], rp_name = ''org/web''\<rparr>"

theorem All_lists_every_page_witness:
  "All sample_repo_lib (sample_repository (list_server ''/p2'')) 7 = Some (Ret (([''1.0'', ''1.1''], None), 7))"
proof -
  let ?t = "sample_repository (list_server ''/p2'')"
  define url where "url p = \<lparr>nu_Scheme = ''https'', nu_Host = ''registry'', nu_Path = p, nu_Query = []\<rparr>" for p
  have urls: "rp_BuildTagsURL sample_repo_lib (rp_ub ?t) (rp_name ?t) [] = Inr ''/v2/org/web/tags/list''"
    "nl_Parse (rp_net sample_repo_lib) ''/v2/org/web/tags/list'' = Inr (url ''/v2/org/web/tags/list'')"
    unfolding url_def by code_simp+
  obtain r1 r2 where pages: "read_page (rp_net sample_repo_lib) (rp_client ?t) (url ''/v2/org/web/tags/list'') 7 = Some ([''1.0''], r1, 7)"
    "next_page (rp_net sample_repo_lib) (url ''/v2/org/web/tags/list'') r1 = Some (Inr (url ''/p2''))"
    "read_page (rp_net sample_repo_lib) (rp_client ?t) (url ''/p2'') 7 = Some ([''1.1''], r2, 7)"
    "next_page (rp_net sample_repo_lib) (url ''/p2'') r2 = None"
  proof
    let ?r = "\<lambda>u. \<lparr>StatusCode = 200, Status = ''200 OK'', WWWAuthenticate = [], ContentType = ''application/json'',
      Body = Some (if u = ''/p2'' then ''1.1'' else ''1.0''), rs_Request = Some (url u), rs_Header = (if u = ''/p2'' then [] else [(''Link'', ''</p2>; rel=next'')]),
      rs_ContentLength = -1\<rparr>"
    show "read_page (rp_net sample_repo_lib) (rp_client ?t) (url ''/v2/org/web/tags/list'') 7 = Some ([''1.0''], ?r ''/v2/org/web/tags/list'', 7)"
      "next_page (rp_net sample_repo_lib) (url ''/v2/org/web/tags/list'') (?r ''/v2/org/web/tags/list'') = Some (Inr (url ''/p2''))"
      "read_page (rp_net sample_repo_lib) (rp_client ?t) (url ''/p2'') 7 = Some ([''1.1''], ?r ''/p2'', 7)"
      "next_page (rp_net sample_repo_lib) (url ''/p2'') (?r ''/p2'') = None"
      unfolding url_def by code_simp+
  qed
  from page_chain.more_pages [OF pages(1,2) page_chain.last_page [OF pages(3,4)]] show ?thesis
    by (subst All_lists_every_page [OF urls]) (auto intro!: exI [of _ "[[''1.0''], [''1.1'']]"])
qed

theorem All_diverges_iff_endless_witness:
  "All sample_repo_lib (sample_repository (list_server ''/v2/org/web/tags/list'')) 7 = None"
proof -
  let ?t = "sample_repository (list_server ''/v2/org/web/tags/list'')"
    and ?url = "\<lparr>nu_Scheme = ''https'', nu_Host = ''registry'', nu_Path = ''/v2/org/web/tags/list'', nu_Query = []\<rparr>"
  have urls: "rp_BuildTagsURL sample_repo_lib (rp_ub ?t) (rp_name ?t) [] = Inr ''/v2/org/web/tags/list''"
    "nl_Parse (rp_net sample_repo_lib) ''/v2/org/web/tags/list'' = Inr ?url" by code_simp+
  have "links_to (rp_net sample_repo_lib) (rp_client ?t) (?url, 7) = Some (?url, 7)" by code_simp
  then show ?thesis by (subst All_diverges_iff_endless [OF urls]) (auto intro!: exI [of _ "\<lambda>_. (?url, 7)"])
qed

lemma pages_net_serves: "serves pages_net (blob_server content) url content"
  using blob_server_serves [of content url] by (simp add: serves_def pages_net_def)

theorem blob_read_completely_witness:
  "\<exists>s'. blobs_Get sample_repo_lib (sample_repository (blob_server ''layer'')) ''sha256:aa'' 0 = Some (Ret ((''layer'', None), s'))"
proof -
  let ?bs = "sample_repository (blob_server ''layer'')"
  have url: "blob_url sample_repo_lib ?bs ''sha256:aa'' = Inr ''/v2/blobs/org/web@sha256:aa''" by code_simp
  have "serves (rp_net sample_repo_lib) (rp_client ?bs) ''/v2/blobs/org/web@sha256:aa'' ''layer''"
    by (simp add: sample_repo_lib_def sample_repository_def pages_net_serves)
  moreover have "chunk_ok (rp_reader sample_repo_lib)" "\<forall>k. rp_room sample_repo_lib k > 0"
    by (simp_all add: sample_repo_lib_def sample_reader_chunks)
  ultimately show ?thesis by (intro blob_read_completely [OF url]) simp_all
qed

section \<open>Unexpected answers\<close>

text \<open>A registry that answers 201 to an upload without a mount makes \<open>Create\<close> dereference the nil reference to mount from.\<close>

theorem created_without_mount_panics:
  assumes "rp_BuildBlobUploadURL lib (rp_ub bs) (rp_name bs) [] = Inr u" "Send (rp_net lib) (rp_client bs) ''POST'' u (\<lambda>q. q) s = Ret (Inr resp, s')"
    and "StatusCode resp = 201"
  shows "Create lib bs [] s = Panic" "blobs_Put lib bs mediaType p s = Panic"
  using assms by (simp_all add: Create_def mount_values_def blobs_Put_def)

text \<open>The number that \<open>Repositories\<close> returns may be larger than the slice it has filled.\<close>

theorem catalog_count_exceeds_slice:
  "(case Repositories (sample_repo_lib\<lparr>rp_net := sample_net\<lparr>nl_Decode := (\<lambda>_. Some (JObj [(''repositories'', JArr [JStr ''a'', JStr ''b''])]))\<rparr>\<rparr>)
      \<lparr>rg_client = list_server ''/p2'', rg_ub = []\<rparr> [''''] [] 7 of
      Ret ((n, err), slots, s) \<Rightarrow> n = 2 \<and> slots = [''a''] | Panic \<Rightarrow> False)"
  by code_simp

end
