(* ===== verification/ClientCalls.thy ===== *)
theory ClientCalls
  imports Repository
begin

text \<open>
  The registry client over a repository (\<open>registry/client.go\<close>): the first request to the registry collects its authentication challenges, the
  transport of the repository answers them, and the calls of the interface \<open>RegistryClient\<close> go through it.  The endpoint's transport is a
  function; the state of the authorizing transport is \<open>conn\<close>, which \<open>NewRepository\<close> renews.
\<close>

section \<open>Setting up\<close>

text \<open>
  Parameters: HTTP for the endpoint's transport and, with what the repository client needs, for the authorizing one, \<open>reference.WithName\<close>,
  \<open>digest.FromString\<close> and the decoding of a list of referrers.
\<close>

record 's client_lib =
  cl_net :: "'s net_lib"
  cl_repo :: "(credentials, 's) conn repo_lib"
  cl_WithName :: "string \<Rightarrow> go_error + string"
  cl_FromString :: "string \<Rightarrow> string"
  cl_DecodeReferrers :: "string \<Rightarrow> Descriptor list option"

record ('e, 's) registryClient =
  clt_regClient :: "(credentials, 's) conn repository option"
  clt_endpoint :: "'e RegistryEndpoint"
  clt_creds :: credentials
  clt_httpClient :: "(credentials, 's) conn trip option"
  clt_nameInRepository :: string

definition NewRegistryClient :: "'e RegistryEndpoint \<Rightarrow> string \<Rightarrow> string \<Rightarrow> ('e, 's) registryClient" where
  "NewRegistryClient endpoint username password =
     (let c = NewClient endpoint username password
      in \<lparr>clt_regClient = None, clt_endpoint = endpoint,
          clt_creds = \<lparr>cr_username = Username c, cr_password = Password c, cr_refreshTokens = None\<rparr>,
          clt_httpClient = None, clt_nameInRepository = []\<rparr>)"

text \<open>The API versions that \<open>ping\<close> also returns are not used.\<close>

definition ping :: "'s net_lib \<Rightarrow> 's trip \<Rightarrow> simpleManager \<Rightarrow> string \<Rightarrow> 's \<Rightarrow> ((go_error + simpleManager) \<times> 's) go" where
  "ping lib base manager registryAPI s =
     (let url = registryAPI @ ''/v2/'' in
      case NewRequest lib ''GET'' url of
        Inl err \<Rightarrow> Ret (Inl err, s)
      | Inr req \<Rightarrow>
          go_bind (nl_Do lib None base req s) (\<lambda>(r, s). case r of
            Inl err \<Rightarrow> Ret (Inl err, s)
          | Inr resp \<Rightarrow>
              if StatusCode resp \<noteq> 200 \<and> StatusCode resp \<noteq> 401
              then Ret (Inl (ErrText (''endpoint '' @ registryAPI @ '' does not seem to be a valid v2 Docker Registry API (received HTTP code '' @
                     show_int (StatusCode resp) @ '' for GET '' @ url @ '')'')), s)
              else Ret (AddResponse lib resp manager, s)))"

definition new_authorizer :: "simpleManager \<Rightarrow> credentials \<Rightarrow> string \<Rightarrow> string list \<Rightarrow> credentials endpointAuthorizer" where
  "new_authorizer manager creds name actions =
     \<lparr>ea_challenges = manager, ea_handlers = [TokenH (NewTokenHandler (Some creds) name actions), BasicH (Some creds)]\<rparr>"

text \<open>
  \<open>NewRepository\<close>.  When the repository cannot be created, the old one is lost, while the HTTP client and the name keep their old values.
\<close>

definition client_NewRepository ::
  "'s client_lib \<Rightarrow> 's trip \<Rightarrow> string \<Rightarrow> ('e, 's) registryClient \<Rightarrow> (credentials, 's) conn \<Rightarrow>
   (go_error option \<times> ('e, 's) registryClient \<times> (credentials, 's) conn) go" where
  "client_NewRepository lib base nameInRepository clt cn =
     (let api = RegistryAPI (clt_endpoint clt); urlToCall = strings_TrimSuffix api ''/'' in
      go_bind (ping (cl_net lib) base NewSimpleManager api (cn_base cn)) (\<lambda>(r, s).
        let cn = cn\<lparr>cn_base := s\<rparr> in
        case r of
          Inl err \<Rightarrow> Ret (Some err, clt, cn)
        | Inr manager \<Rightarrow>
            (let rlt = rateLimit_RoundTrip (cl_net lib) credentials_store base in
             case cl_WithName lib nameInRepository of
               Inl err \<Rightarrow> Ret (Some err, clt, cn)
             | Inr named \<Rightarrow>
                 (case NewRepository (cl_repo lib) named urlToCall rlt of
                    Inl err \<Rightarrow> Ret (Some err, clt\<lparr>clt_regClient := None\<rparr>, cn)
                  | Inr repo \<Rightarrow>
                      Ret (None, clt\<lparr>clt_regClient := Some repo, clt_httpClient := Some (nl_Do (rp_net (cl_repo lib)) None rlt),
                                   clt_nameInRepository := nameInRepository\<rparr>,
                           cn\<lparr>cn_auth := new_authorizer manager (clt_creds clt) nameInRepository (getTokenActions api)\<rparr>)))))"

section \<open>Calls\<close>

definition knownMediaTypes :: "string list" where
  "knownMediaTypes =
     [''application/vnd.oci.image.manifest.v1+json'', ''application/vnd.docker.distribution.manifest.v2+json'',
      ''application/vnd.docker.distribution.manifest.list.v2+json'', ''application/vnd.oci.image.index.v1+json'']"

definition client_Tags ::
  "'s client_lib \<Rightarrow> ('e, 's) registryClient \<Rightarrow> (credentials, 's) conn \<Rightarrow> ((go_error + string list) \<times> (credentials, 's) conn) go option" where
  "client_Tags lib clt cn =
     (case clt_regClient clt of
        None \<Rightarrow> Some Panic
      | Some repo \<Rightarrow>
          map_option (\<lambda>r. go_bind r (\<lambda>((tTags, err), cn). Ret (case err of Some e \<Rightarrow> Inl e | None \<Rightarrow> Inr tTags, cn))) (All (cl_repo lib) repo cn))"

definition get_manifest ::
  "'s client_lib \<Rightarrow> ('e, 's) registryClient \<Rightarrow> string \<Rightarrow> ManifestServiceOption list \<Rightarrow> (credentials, 's) conn \<Rightarrow>
   ((go_error + manifest) \<times> (credentials, 's) conn) go" where
  "get_manifest lib clt dgst opts cn =
     (case clt_regClient clt of
        None \<Rightarrow> Panic
      | Some repo \<Rightarrow> go_bind (manifests_Get (cl_repo lib) (Manifests repo) dgst opts cn) (\<lambda>((r, _), _, cn). Ret (r, cn)))"

definition ManifestForTag ::
  "'s client_lib \<Rightarrow> ('e, 's) registryClient \<Rightarrow> string \<Rightarrow> (credentials, 's) conn \<Rightarrow> ((go_error + manifest) \<times> (credentials, 's) conn) go" where
  "ManifestForTag lib clt tagStr =
     get_manifest lib clt (cl_FromString lib tagStr) [WithTagOption tagStr, WithManifestMediaTypesOption knownMediaTypes]"

definition ManifestForDigest ::
  "'s client_lib \<Rightarrow> ('e, 's) registryClient \<Rightarrow> string \<Rightarrow> (credentials, 's) conn \<Rightarrow> ((go_error + manifest) \<times> (credentials, 's) conn) go" where
  "ManifestForDigest lib clt dgst = get_manifest lib clt dgst [WithManifestMediaTypesOption knownMediaTypes]"

definition not_initialized :: go_error where
  "not_initialized = ErrText ''registry client not initialized: call NewRepository first''"

definition BlobContent ::
  "'s client_lib \<Rightarrow> ('e, 's) registryClient \<Rightarrow> string \<Rightarrow> (credentials, 's) conn \<Rightarrow>
   ((string \<times> go_error option) \<times> (credentials, 's) conn) go option" where
  "BlobContent lib clt dgst cn =
     (case clt_regClient clt of
        None \<Rightarrow> Some (Ret (([], Some not_initialized), cn))
      | Some repo \<Rightarrow> blobs_Get (cl_repo lib) (Blobs (cl_repo lib) repo) dgst cn)"

definition referrers_url :: "('e, 's) registryClient \<Rightarrow> string \<Rightarrow> string" where
  "referrers_url clt dgst =
     strings_TrimSuffix (RegistryAPI (clt_endpoint clt)) ''/'' @ ''/v2/'' @ clt_nameInRepository clt @ ''/referrers/'' @ dgst"

definition Referrers ::
  "'s client_lib \<Rightarrow> ('e, 's) registryClient \<Rightarrow> string \<Rightarrow> (credentials, 's) conn \<Rightarrow> ((go_error + Descriptor list) \<times> (credentials, 's) conn) go" where
  "Referrers lib clt dgst cn =
     (case clt_httpClient clt of
        None \<Rightarrow> Ret (Inl not_initialized, cn)
      | Some client \<Rightarrow>
          if clt_nameInRepository clt = [] then Ret (Inl not_initialized, cn)
          else
            (case NewRequest (rp_net (cl_repo lib)) ''GET'' (referrers_url clt dgst) of
               Inl err \<Rightarrow> Ret (Inl (ErrWrap ''error creating referrers request: '' err), cn)
             | Inr req \<Rightarrow>
                 go_bind (client (req\<lparr>q_Header := header_Set ''Accept'' ''application/vnd.oci.image.index.v1+json'' (q_Header req)\<rparr>) cn)
                   (\<lambda>(a, cn). case a of
                      Inl err \<Rightarrow> Ret (Inl (ErrWrap ''error fetching referrers: '' err), cn)
                    | Inr resp \<Rightarrow>
                        if StatusCode resp = 404 then Ret (Inr [], cn)
                        else if StatusCode resp \<noteq> 200
                        then Ret (Inl (ErrText (''referrers API returned HTTP '' @ show_int (StatusCode resp) @ '' for digest '' @ dgst)), cn)
                        else (case Option.bind (Body resp) (cl_DecodeReferrers lib) of
                                None \<Rightarrow> Ret (Inl (ErrText ''error decoding referrers response''), cn)
                              | Some ds \<Rightarrow> Ret (Inr ds, cn)))))"

section \<open>Authentication of the calls\<close>

lemma NewRepository_success:
  assumes "client_NewRepository lib base name clt cn = Ret (None, clt', cn')"
  obtains manager s where "ping (cl_net lib) base NewSimpleManager (RegistryAPI (clt_endpoint clt)) (cn_base cn) = Ret (Inr manager, s)"
    "cn_auth cn' = new_authorizer manager (clt_creds clt) name (getTokenActions (RegistryAPI (clt_endpoint clt)))" "cn_base cn' = s"
    "cn_taken cn' = cn_taken cn"
  using assms by (auto simp: client_NewRepository_def Let_def elim!: go_bindE split: sum.split_asm prod.split_asm)

lemma ping_answered:
  assumes "ping lib base m api s = Ret (Inr manager, s')" "NewRequest lib ''GET'' (api @ ''/v2/'') = Inr req"
    and "nl_Do lib None base req s = Ret (Inr resp, s1)" "rs_Request resp = Some u"
  shows "manager = gomap_put (normalizedURL lib (u\<lparr>nu_Query := []\<rparr>)) (ResponseChallenges (http_response.truncate resp)) m" "s' = s1"
  using assms by (auto simp: ping_def AddResponse_def split: if_split_asm)


lemma GetChallenges_none:
  assumes "\<forall>(k, cs) \<in> set m. cs = []"
  shows "GetChallenges lib m u = []"
proof (cases "map_of m (normalizedURL lib u)")
  case (Some cs)
  from map_of_SomeD [OF this] assms have "cs = []" by blast
  with Some show ?thesis by (simp add: GetChallenges_def)
qed (simp add: GetChallenges_def)

lemma no_challenges_unmodified:
  assumes "\<forall>(k, cs) \<in> set (ea_challenges ea). cs = []"
  shows "ModifyRequest lib store base req ea s = Ret (Inr req, ea, s)"
  by (simp add: ModifyRequest_def GetChallenges_none [OF assms] Let_def split: option.split)

text \<open>
  A registry that asks for no authentication gets no credentials.  When the answer to the ping has no challenge, every request that
  the repository's transport is given reaches the endpoint's transport as it is, and the authorizer stays as it is, so that this holds
  for any number of requests; only the rate limiter is asked.
\<close>

theorem anonymous_registry_gets_no_credentials:
  assumes "client_NewRepository lib base name clt cn = Ret (None, clt', cn')"
    and "NewRequest (cl_net lib) ''GET'' (RegistryAPI (clt_endpoint clt) @ ''/v2/'') = Inr pinged"
    and "nl_Do (cl_net lib) None base pinged (cn_base cn) = Ret (Inr resp, s1)" "ResponseChallenges (http_response.truncate resp) = []"
    and "cn_auth cn2 = cn_auth cn'"
  shows "rateLimit_RoundTrip (cl_net lib) credentials_store base req cn2 =
    go_bind (base req (cn_base cn2)) (\<lambda>(r, s). Ret (r, cn2\<lparr>cn_taken := cn_taken cn2 + 1, cn_base := s\<rparr>))"
proof -
  obtain manager s0 where m: "ping (cl_net lib) base NewSimpleManager (RegistryAPI (clt_endpoint clt)) (cn_base cn) = Ret (Inr manager, s0)"
    "cn_auth cn' = new_authorizer manager (clt_creds clt) name (getTokenActions (RegistryAPI (clt_endpoint clt)))"
    using assms(1) by (rule NewRepository_success)
  from m(1) assms(2-4) have "\<forall>(k, cs) \<in> set manager. cs = []"
    by (auto simp: ping_def AddResponse_def NewSimpleManager_def split: if_split_asm option.split_asm)
  then have "\<forall>(k, cs) \<in> set (ea_challenges (cn_auth cn2)). cs = []" using m(2) assms(5) by (simp add: new_authorizer_def)
  moreover have "cn2\<lparr>cn_taken := a, cn_auth := cn_auth cn2, cn_base := s\<rparr> = cn2\<lparr>cn_taken := a, cn_base := s\<rparr>" for a s by simp
  ultimately show ?thesis
    by (simp add: rateLimit_RoundTrip_def transport_RoundTrip_def no_challenges_unmodified)
qed

text \<open>
  \<open>C37\<close>.  Referrers are never invented and never lost by a failure: the call returns a list only for an answer 200 whose body decodes to it, or
  the empty list for an answer 404; everything else is an error or a panic of the transport.
\<close>

theorem referrers_from_registry_only:
  assumes "Referrers lib clt dgst cn = Ret (Inr ds, cn')"
  shows "\<exists>client req resp. clt_httpClient clt = Some client \<and> clt_nameInRepository clt \<noteq> [] \<and>
    NewRequest (rp_net (cl_repo lib)) ''GET'' (referrers_url clt dgst) = Inr req \<and>
    client (req\<lparr>q_Header := header_Set ''Accept'' ''application/vnd.oci.image.index.v1+json'' (q_Header req)\<rparr>) cn = Ret (Inr resp, cn') \<and>
    (StatusCode resp = 404 \<and> ds = [] \<or> StatusCode resp = 200 \<and> Option.bind (Body resp) (cl_DecodeReferrers lib) = Some ds)"
  using assms
  by (auto simp: Referrers_def elim!: go_bindE split: option.split_asm if_split_asm sum.split_asm)

section \<open>A concrete registry\<close>

definition conn_net :: "(credentials, int) conn net_lib" where
  "conn_net =
     \<lparr>nl_Parse = nl_Parse sample_net, nl_String = nl_String sample_net, nl_ResolveReference = nl_ResolveReference sample_net,
      nl_base64 = nl_base64 sample_net, nl_Unmarshal = nl_Unmarshal sample_net, nl_Decode = nl_Decode sample_net,
      nl_ParseTime = nl_ParseTime sample_net, nl_http = nl_http sample_net, nl_Do = (\<lambda>_ t. t), nl_now = (\<lambda>cn. nl_now sample_net (cn_base cn))\<rparr>"

definition sample_client_lib :: "int client_lib" where
  "sample_client_lib =
     \<lparr>cl_net = sample_net,
      cl_repo =
        \<lparr>rp_net = conn_net, rp_reader = sample_reader, rp_room = (\<lambda>k. 512), rp_NewURLBuilderFromString = Inr,
         rp_BuildCatalogURL = rp_BuildCatalogURL sample_repo_lib, rp_BuildTagsURL = rp_BuildTagsURL sample_repo_lib,
         rp_BuildManifestURL = rp_BuildManifestURL sample_repo_lib, rp_BuildBlobURL = rp_BuildBlobURL sample_repo_lib,
         rp_BuildBlobUploadURL = rp_BuildBlobUploadURL sample_repo_lib, rp_BuildBlobUploadChunkURL = rp_BuildBlobUploadChunkURL sample_repo_lib,
         rp_WithTag = rp_WithTag sample_repo_lib, rp_WithDigest = rp_WithDigest sample_repo_lib, rp_digest_Parse = Inr,
         rp_digest_FromBytes = (\<lambda>b. b), rp_ManifestMediaTypes = [], rp_UnmarshalManifest = rp_UnmarshalManifest sample_repo_lib,
         rp_Payload = rp_Payload sample_repo_lib, rp_NewCachedBlobStatter = (\<lambda>st. st)\<rparr>,
      cl_WithName = Inr, cl_FromString = (\<lambda>t. t), cl_DecodeReferrers = (\<lambda>b. Some [])\<rparr>"

text \<open>A registry that wants user name and password: it answers 401 with its challenges to requests without the header \<open>Authorization\<close>.\<close>

definition asking_server :: "string list \<Rightarrow> int trip" where
  "asking_server challenges req s =
     (let ok = (challenges = [] \<or> header_Values (q_Header req) ''Authorization'' \<noteq> [])
      in Ret (Inr \<lparr>StatusCode = (if ok then 200 else 401), Status = [], WWWAuthenticate = (if ok then [] else challenges), ContentType = [],
                  Body = Some [], rs_Request = Some (q_URL req), rs_Header = [], rs_ContentLength = 0\<rparr>, s))"

definition basic_challenge :: "string list" where
  "basic_challenge = [print_challenge \<lparr>Scheme = ''basic'', Parameters = [(''realm'', ''r'')]\<rparr>]"

definition client_at :: "string \<Rightarrow> (unit, int) registryClient" where
  "client_at api = NewRegistryClient ((sample_endpoint ())\<lparr>RegistryAPI := api\<rparr>) ''u'' ''p''"

definition start_conn :: "(credentials, int) conn" where
  "start_conn = \<lparr>cn_auth = new_authorizer [] \<lparr>cr_username = [], cr_password = [], cr_refreshTokens = None\<rparr> [] [], cn_taken = 0, cn_base = 0\<rparr>"

definition sample_call :: "string \<Rightarrow> string list \<Rightarrow> (string option \<times> int) option" where
  "sample_call api challenges =
     (case client_NewRepository sample_client_lib (asking_server challenges) ''org/web'' (client_at api) start_conn of
        Ret (None, clt, cn) \<Rightarrow>
          (case Referrers sample_client_lib clt ''sha256:aa'' cn of
             Ret (Inr ds, cn) \<Rightarrow> Some (None, int (cn_taken cn))
           | Ret (Inl (ErrText e), cn) \<Rightarrow> Some (Some e, int (cn_taken cn))
           | _ \<Rightarrow> None)
      | _ \<Rightarrow> None)"

text \<open>
  The address of the ping is not trimmed while the addresses of the calls are: with a slash at the end of the endpoint's API the challenges
  are stored for another root, and all calls are sent without credentials.
\<close>

theorem trailing_slash_sends_unauthenticated:
  "sample_call ''https://r'' basic_challenge = Some (None, 1)"
  "sample_call ''https://r/'' basic_challenge = Some (Some ''referrers API returned HTTP 401 for digest sha256:aa'', 1)"
  by code_simp+

text \<open>What the concrete registry answers to the ping of a client.\<close>

definition sample_pinged :: request where
  "sample_pinged = \<lparr>q_Method = ''GET'', q_URL = \<lparr>nu_Scheme = ''https'', nu_Host = ''registry'', nu_Path = ''https://r/v2/'', nu_Query = []\<rparr>,
     q_Header = [], q_Form = [], q_Body = []\<rparr>"

lemma sample_ping:
  "NewRequest (cl_net sample_client_lib) ''GET'' (RegistryAPI (clt_endpoint (client_at ''https://r'')) @ ''/v2/'') = Inr sample_pinged"
  by code_simp

lemma sample_answer:
  "\<exists>resp. nl_Do (cl_net sample_client_lib) None (asking_server cs) sample_pinged (cn_base start_conn) = Ret (Inr resp, 0) \<and>
     rs_Request resp = Some (q_URL sample_pinged) \<and> http_response.truncate resp =
       \<lparr>StatusCode = (if cs = [] then 200 else 401), Status = [], WWWAuthenticate = cs, ContentType = [], Body = Some []\<rparr>"
  by (auto simp: sample_client_lib_def sample_net_def asking_server_def sample_pinged_def header_Values_def start_conn_def Let_def
      http_response.truncate_def)

lemma sample_NewRepository:
  assumes "cs = [] \<or> cs = basic_challenge"
  shows "\<exists>clt cn. client_NewRepository sample_client_lib (asking_server cs) ''org/web'' (client_at ''https://r'') start_conn = Ret (None, clt, cn)"
proof -
  have "case client_NewRepository sample_client_lib (asking_server []) ''org/web'' (client_at ''https://r'') start_conn of
      Ret (None, _) \<Rightarrow> True | _ \<Rightarrow> False"
    "case client_NewRepository sample_client_lib (asking_server basic_challenge) ''org/web'' (client_at ''https://r'') start_conn of
      Ret (None, _) \<Rightarrow> True | _ \<Rightarrow> False"
    by code_simp+
  with assms show ?thesis by (auto split: go.split_asm option.split_asm)
qed

text \<open>A call for the list of tags, and the header that the authorizer adds to it.\<close>

definition sample_list :: request where
  "sample_list = \<lparr>q_Method = ''GET'', q_URL = \<lparr>nu_Scheme = ''https'', nu_Host = ''registry'', nu_Path = ''https://r/v2/org/web/tags/list'', nu_Query = []\<rparr>,
     q_Header = [], q_Form = [], q_Body = []\<rparr>"


theorem anonymous_registry_gets_no_credentials_witness:
  "\<exists>clt cn. client_NewRepository sample_client_lib (asking_server []) ''org/web'' (client_at ''https://r'') start_conn = Ret (None, clt, cn) \<and>
     rateLimit_RoundTrip (cl_net sample_client_lib) credentials_store (asking_server []) sample_list cn =
       go_bind (asking_server [] sample_list (cn_base cn)) (\<lambda>(r, s). Ret (r, cn\<lparr>cn_taken := cn_taken cn + 1, cn_base := s\<rparr>))"
proof -
  obtain clt cn where repo: "client_NewRepository sample_client_lib (asking_server []) ''org/web'' (client_at ''https://r'') start_conn = Ret (None, clt, cn)"
    using sample_NewRepository by blast
  obtain resp where resp: "nl_Do (cl_net sample_client_lib) None (asking_server []) sample_pinged (cn_base start_conn) = Ret (Inr resp, 0)"
    "http_response.truncate resp = \<lparr>StatusCode = (if [] = ([] :: string list) then 200 else 401), Status = [], WWWAuthenticate = [], ContentType = [], Body = Some []\<rparr>"
    using sample_answer [of "[]"] by blast
  have "ResponseChallenges (http_response.truncate resp) = []" unfolding resp(2) by code_simp
  from anonymous_registry_gets_no_credentials [OF repo sample_ping resp(1) this refl, of sample_list] repo show ?thesis by blast
qed

definition missing_client :: "(unit, int) registryClient" where
  "missing_client = (client_at ''https://r'')\<lparr>clt_httpClient := Some (\<lambda>req cn. Ret (Inr \<lparr>StatusCode = 404, Status = [], WWWAuthenticate = [],
     ContentType = [], Body = None, rs_Request = None, rs_Header = [], rs_ContentLength = 0\<rparr>, cn)), clt_nameInRepository := ''org/web''\<rparr>"

theorem referrers_from_registry_only_witness:
  "\<exists>client req resp. clt_httpClient missing_client = Some client \<and> clt_nameInRepository missing_client \<noteq> [] \<and>
    NewRequest (rp_net (cl_repo sample_client_lib)) ''GET'' (referrers_url missing_client ''sha256:aa'') = Inr req \<and>
    client (req\<lparr>q_Header := header_Set ''Accept'' ''application/vnd.oci.image.index.v1+json'' (q_Header req)\<rparr>) start_conn = Ret (Inr resp, start_conn) \<and>
    (StatusCode resp = 404 \<and> ([] :: Descriptor list) = [] \<or>
     StatusCode resp = 200 \<and> Option.bind (Body resp) (cl_DecodeReferrers sample_client_lib) = Some [])"
proof -
  have "Referrers sample_client_lib missing_client ''sha256:aa'' start_conn = Ret (Inr [], start_conn)"
    by (simp add: Referrers_def NewRequest_def sample_client_lib_def conn_net_def sample_net_def missing_client_def)
  from referrers_from_registry_only [OF this] show ?thesis .
qed

end
