(* ===== verification/RequestTracking.thy ===== *)
theory RequestTracking
  imports Prelude
begin

text \<open>
  The bookkeeping of the authorizing transport (\<open>registry/internal/client/transport/transport.go\<close>): which modified request stands for a request that
  is under way, so that it can be cancelled.  An entry is made before the round trip and removed when the round trip fails or when the body of the
  answer has been read to its end or closed.  Requests are pointers, written as numbers.
\<close>

section \<open>The operations\<close>

text \<open>The map is nil until it is first written; a body remembers its request until its function has run.\<close>

record tracker =
  tk_modReq :: "(nat, nat) gomap option"
  tk_bodies :: "(nat \<times> bool) list"

definition entries_of :: "tracker \<Rightarrow> (nat, nat) gomap" where
  "entries_of t = (case tk_modReq t of None \<Rightarrow> [] | Some m \<Rightarrow> m)"

definition map_delete :: "nat \<Rightarrow> (nat, nat) gomap \<Rightarrow> (nat, nat) gomap" where
  "map_delete k m = filter (\<lambda>(k', _). k' \<noteq> k) m"

definition setModReq :: "nat \<Rightarrow> nat option \<Rightarrow> tracker \<Rightarrow> tracker" where
  "setModReq orig modified t =
     t\<lparr>tk_modReq := Some (case modified of None \<Rightarrow> map_delete orig (entries_of t) | Some r \<Rightarrow> gomap_put orig r (entries_of t))\<rparr>"

definition trip_begin :: "nat \<Rightarrow> nat \<Rightarrow> tracker \<Rightarrow> tracker" where
  "trip_begin req req2 t = setModReq req (Some req2) t"

definition trip_end :: "nat \<Rightarrow> bool \<Rightarrow> tracker \<Rightarrow> tracker" where
  "trip_end req failed t = (if failed then setModReq req None t else t\<lparr>tk_bodies := tk_bodies t @ [(req, True)]\<rparr>)"

definition runFunc :: "nat \<Rightarrow> tracker \<Rightarrow> tracker" where
  "runFunc i t =
     (case tk_bodies t ! i of
        (orig, pending) \<Rightarrow> if pending then (setModReq orig None t)\<lparr>tk_bodies := (tk_bodies t)[i := (orig, False)]\<rparr> else t)"

definition onEOFReader_Read :: "nat \<Rightarrow> bool \<Rightarrow> tracker \<Rightarrow> tracker" where
  "onEOFReader_Read i eof t = (if eof then runFunc i t else t)"

definition onEOFReader_Close :: "nat \<Rightarrow> tracker \<Rightarrow> tracker" where
  "onEOFReader_Close i t = runFunc i t"

text \<open>The request that the base transport is told to cancel; it is nil when there is no entry.  A base that cannot cancel leaves the entry.\<close>

definition CancelRequest :: "bool \<Rightarrow> nat \<Rightarrow> tracker \<Rightarrow> nat option option \<times> tracker" where
  "CancelRequest canceler req t =
     (if canceler then (Some (map_of (entries_of t) req), t\<lparr>tk_modReq := map_option (map_delete req) (tk_modReq t)\<rparr>) else (None, t))"

section \<open>Interleavings\<close>

text \<open>Any number of goroutines use the transport; the list holds the requests whose round trip is under way.\<close>

inductive track_step :: "tracker \<times> nat list \<Rightarrow> tracker \<times> nat list \<Rightarrow> bool" where
  begin_trip: "track_step (t, inflight) (trip_begin req req2 t, req # inflight)"
| end_trip: "req \<in> set inflight \<Longrightarrow> track_step (t, inflight) (trip_end req failed t, remove1 req inflight)"
| read_body: "i < length (tk_bodies t) \<Longrightarrow> track_step (t, inflight) (onEOFReader_Read i eof t, inflight)"
| close_body: "i < length (tk_bodies t) \<Longrightarrow> track_step (t, inflight) (onEOFReader_Close i t, inflight)"
| cancel: "track_step (t, inflight) (snd (CancelRequest canceler req t), inflight)"

inductive tracked :: "tracker \<times> nat list \<Rightarrow> bool" where
  new: "tracked (\<lparr>tk_modReq = None, tk_bodies = []\<rparr>, [])"
| step: "tracked s \<Longrightarrow> track_step s s' \<Longrightarrow> tracked s'"

inductive_cases track_stepE: "track_step (t, inflight) s'"

definition open_requests :: "tracker \<Rightarrow> nat set" where
  "open_requests t = {orig. (orig, True) \<in> set (tk_bodies t)}"

definition track_inv :: "tracker \<times> nat list \<Rightarrow> bool" where
  "track_inv = (\<lambda>(t, inflight). fst ` set (entries_of t) \<subseteq> set inflight \<union> open_requests t)"

lemma map_delete_keys: "fst ` set (map_delete k m) = fst ` set m - {k}"
  by (auto simp: map_delete_def image_iff)

lemma put_keys: "fst ` set (gomap_put k v m) = insert k (fst ` set m)"
  by (induction k v m rule: gomap_put.induct) auto

lemma setModReq_keys:
  "fst ` set (entries_of (setModReq k r t)) = (case r of None \<Rightarrow> fst ` set (entries_of t) - {k} | Some _ \<Rightarrow> insert k (fst ` set (entries_of t)))"
  by (simp add: setModReq_def entries_of_def map_delete_keys put_keys split: option.split)

lemma setModReq_bodies [simp]: "tk_bodies (setModReq k r t) = tk_bodies t"
  by (simp add: setModReq_def)

lemma entries_bodies [simp]: "entries_of (t\<lparr>tk_bodies := bs\<rparr>) = entries_of t"
  by (simp add: entries_of_def)

lemma runFunc_inv:
  assumes "track_inv (t, inflight)" "i < length (tk_bodies t)"
  shows "track_inv (runFunc i t, inflight)"
proof -
  obtain orig pending where b: "tk_bodies t ! i = (orig, pending)" by fastforce
  have "open_requests t - {orig} \<subseteq> open_requests (t\<lparr>tk_bodies := (tk_bodies t)[i := (orig, False)]\<rparr>)"
  proof
    fix r assume r: "r \<in> open_requests t - {orig}"
    then obtain j where j: "j < length (tk_bodies t)" "tk_bodies t ! j = (r, True)" by (auto simp: open_requests_def in_set_conv_nth)
    with r b have "j \<noteq> i" by auto
    with j have "(tk_bodies t)[i := (orig, False)] ! j = (r, True)" by simp
    with j show "r \<in> open_requests (t\<lparr>tk_bodies := (tk_bodies t)[i := (orig, False)]\<rparr>)"
      by (auto simp: open_requests_def in_set_conv_nth intro!: exI [of _ j])
  qed
  with assms(1) b show ?thesis by (auto simp: track_inv_def runFunc_def setModReq_keys open_requests_def)
qed

lemma track_step_inv: "track_step s s' \<Longrightarrow> track_inv s \<Longrightarrow> track_inv s'"
proof (induction rule: track_step.induct)
  case (begin_trip t inflight req req2)
  then show ?case by (auto simp: track_inv_def trip_begin_def setModReq_keys open_requests_def)
next
  case (end_trip req inflight t failed)
  have "set inflight - {req} \<subseteq> set (remove1 req inflight)" by (induction inflight) auto
  with end_trip show ?case by (auto simp: track_inv_def trip_end_def setModReq_keys open_requests_def)
next
  case (cancel t inflight canceler req)
  then show ?case
    by (cases "tk_modReq t") (auto simp: track_inv_def CancelRequest_def entries_of_def map_delete_def open_requests_def)
qed (simp_all add: onEOFReader_Read_def onEOFReader_Close_def runFunc_inv)

text \<open>
  No request is remembered forever: whatever the interleaving, an entry belongs to a round trip that is under way or to an answer whose body is still
  open, so that the map is empty once all round trips have ended and all bodies have been read to their end or closed.
\<close>

theorem no_request_leaks:
  assumes "tracked (t, inflight)"
  shows "fst ` set (entries_of t) \<subseteq> set inflight \<union> open_requests t \<and> (inflight = [] \<and> open_requests t = {} \<longrightarrow> entries_of t = [])"
proof -
  have "track_inv s" if "tracked s" for s
    using that
  proof (induction rule: tracked.induct)
    case new
    show ?case by (simp add: track_inv_def entries_of_def)
  qed (rule track_step_inv)
  from this [OF assms] have "track_inv (t, inflight)" .
  then show ?thesis by (auto simp: track_inv_def)
qed

text \<open>A body that is neither read to its end nor closed keeps its entry.\<close>

theorem unread_body_keeps_request:
  "\<exists>t. tracked (t, []) \<and> entries_of t = [(1, 2)] \<and> open_requests t = {1}"
proof -
  let ?t = "trip_end 1 False (trip_begin 1 2 \<lparr>tk_modReq = None, tk_bodies = []\<rparr>)"
  have "tracked (?t, [])"
    using tracked.step [OF tracked.step [OF tracked.new track_step.begin_trip [of _ "[]" 1 2]] track_step.end_trip [of 1 "[1]" _ False]] by simp
  then show ?thesis
    by (intro exI [of _ ?t]) (simp add: trip_end_def trip_begin_def setModReq_def entries_of_def open_requests_def)
qed

end
