(* ===== verification/Metrics.thy ===== *)
theory Metrics
  imports Controller
begin

text \<open>
  The metrics (\<open>pkg/metrics/metrics.go\<close>): vectors of gauges and counters of the Prometheus library, which is the parameter \<open>vec_lib\<close> with its
  documented behaviour \<open>vec_ok\<close>, and the operations on them that the controller uses through the interface \<open>cr_metrics\<close>.  Values are
  integers, which the floating-point numbers of the library represent exactly up to 2 to the 53.
\<close>

section \<open>Vectors\<close>

record 'v vec_lib =
  vl_New :: 'v
  vl_Set :: "string list \<Rightarrow> int \<Rightarrow> 'v \<Rightarrow> 'v"
  vl_Add :: "string list \<Rightarrow> int \<Rightarrow> 'v \<Rightarrow> 'v"
  vl_DeleteLabelValues :: "string list \<Rightarrow> 'v \<Rightarrow> 'v"
  vl_Value :: "'v \<Rightarrow> string list \<Rightarrow> int option"

text \<open>A series is created when its labels are first used, with the value zero, and is independent of all others.\<close>

definition vec_ok :: "'v vec_lib \<Rightarrow> bool" where
  "vec_ok lib \<longleftrightarrow>
     (\<forall>ls. vl_Value lib (vl_New lib) ls = None) \<and>
     (\<forall>v ls ls' n. vl_Value lib (vl_Set lib ls n v) ls' = (if ls' = ls then Some n else vl_Value lib v ls')) \<and>
     (\<forall>v ls ls' n. n \<ge> 0 \<longrightarrow> vl_Value lib (vl_Add lib ls n v) ls' =
        (if ls' = ls then Some (n + (case vl_Value lib v ls of None \<Rightarrow> 0 | Some m \<Rightarrow> m)) else vl_Value lib v ls')) \<and>
     (\<forall>v ls ls'. vl_Value lib (vl_DeleteLabelValues lib ls v) ls' = (if ls' = ls then None else vl_Value lib v ls'))"

section \<open>The metrics of the program\<close>

record 'v EndpointMetrics =
  requestsTotal :: 'v
  requestsFailed :: 'v

record 'v ImageUpdaterCRMetrics =
  ApplicationsTotal :: 'v
  ImagesWatchedTotal :: 'v
  ImagesUpdatedTotal :: 'v
  ImagesUpdatedErrorsTotal :: 'v

record ClientMetrics =
  kubeAPIRequestsTotal :: int
  kubeAPIRequestsErrorsTotal :: int

record 'v all_metrics =
  mx_Endpoint :: "'v EndpointMetrics"
  mx_ImageUpdaterCR :: "'v ImageUpdaterCRMetrics"
  mx_Clients :: ClientMetrics

definition NewMetrics :: "'v vec_lib \<Rightarrow> 'v all_metrics" where
  "NewMetrics lib =
     \<lparr>mx_Endpoint = \<lparr>requestsTotal = vl_New lib, requestsFailed = vl_New lib\<rparr>,
      mx_ImageUpdaterCR = \<lparr>ApplicationsTotal = vl_New lib, ImagesWatchedTotal = vl_New lib, ImagesUpdatedTotal = vl_New lib,
        ImagesUpdatedErrorsTotal = vl_New lib\<rparr>,
      mx_Clients = \<lparr>kubeAPIRequestsTotal = 0, kubeAPIRequestsErrorsTotal = 0\<rparr>\<rparr>"

text \<open>The global object is created once.\<close>

definition InitMetrics :: "'v vec_lib \<Rightarrow> 'v all_metrics option \<Rightarrow> 'v all_metrics option" where
  "InitMetrics lib m = (case m of None \<Rightarrow> Some (NewMetrics lib) | Some x \<Rightarrow> Some x)"

definition IncreaseRequest :: "'v vec_lib \<Rightarrow> string \<Rightarrow> bool \<Rightarrow> 'v EndpointMetrics \<Rightarrow> 'v EndpointMetrics" where
  "IncreaseRequest lib registryURL isFailed m =
     (let m = m\<lparr>requestsTotal := vl_Add lib [registryURL] 1 (requestsTotal m)\<rparr>
      in if isFailed then m\<lparr>requestsFailed := vl_Add lib [registryURL] 1 (requestsFailed m)\<rparr> else m)"

definition IncreaseK8sClientRequest :: "nat \<Rightarrow> ClientMetrics \<Rightarrow> ClientMetrics" where
  "IncreaseK8sClientRequest n m = m\<lparr>kubeAPIRequestsTotal := kubeAPIRequestsTotal m + int n\<rparr>"

definition IncreaseK8sClientError :: "nat \<Rightarrow> ClientMetrics \<Rightarrow> ClientMetrics" where
  "IncreaseK8sClientError n m = m\<lparr>kubeAPIRequestsErrorsTotal := kubeAPIRequestsErrorsTotal m + int n\<rparr>"

text \<open>The operations of the controller's interface, for a state that contains the metrics.\<close>

definition labels_of :: "crkey \<Rightarrow> string list" where
  "labels_of key = [snd key, fst key]"

definition remove_series :: "'v vec_lib \<Rightarrow> string list \<Rightarrow> 'v ImageUpdaterCRMetrics \<Rightarrow> 'v ImageUpdaterCRMetrics" where
  "remove_series lib ls m =
     m\<lparr>ApplicationsTotal := vl_DeleteLabelValues lib ls (ApplicationsTotal m),
       ImagesWatchedTotal := vl_DeleteLabelValues lib ls (ImagesWatchedTotal m),
       ImagesUpdatedTotal := vl_DeleteLabelValues lib ls (ImagesUpdatedTotal m),
       ImagesUpdatedErrorsTotal := vl_DeleteLabelValues lib ls (ImagesUpdatedErrorsTotal m)\<rparr>"

definition ImageUpdaterCR_metrics ::
  "'v vec_lib \<Rightarrow> (('v ImageUpdaterCRMetrics \<Rightarrow> 'v ImageUpdaterCRMetrics) \<Rightarrow> 'w \<Rightarrow> 'w) \<Rightarrow> 'w cr_metrics" where
  "ImageUpdaterCR_metrics lib upd =
     \<lparr>SetNumberOfApplications = (\<lambda>key num. upd (\<lambda>m. m\<lparr>ApplicationsTotal := vl_Set lib (labels_of key) (int num) (ApplicationsTotal m)\<rparr>)),
      SetNumberOfImagesWatched = (\<lambda>key num. upd (\<lambda>m. m\<lparr>ImagesWatchedTotal := vl_Set lib (labels_of key) (int num) (ImagesWatchedTotal m)\<rparr>)),
      IncreaseImageUpdate = (\<lambda>key n. upd (\<lambda>m. m\<lparr>ImagesUpdatedTotal := vl_Add lib (labels_of key) (int n) (ImagesUpdatedTotal m)\<rparr>)),
      IncreaseUpdateErrors = (\<lambda>key n. upd (\<lambda>m. m\<lparr>ImagesUpdatedErrorsTotal := vl_Add lib (labels_of key) (int n) (ImagesUpdatedErrorsTotal m)\<rparr>)),
      RemoveImageUpdaterMetrics = (\<lambda>key. upd (remove_series lib (labels_of key)))\<rparr>"

section \<open>Series of resources\<close>

text \<open>What a resource has: the values of its four series.\<close>

definition series :: "'v vec_lib \<Rightarrow> 'v ImageUpdaterCRMetrics \<Rightarrow> crkey \<Rightarrow> int option list" where
  "series lib m key = map (\<lambda>v. vl_Value lib v (labels_of key)) [ApplicationsTotal m, ImagesWatchedTotal m, ImagesUpdatedTotal m, ImagesUpdatedErrorsTotal m]"

lemma labels_of_inj: "labels_of key' = labels_of key \<longleftrightarrow> key' = key"
  by (cases key, cases key') (auto simp: labels_of_def)

datatype metric_op = SetApps nat | SetImages nat | AddUpdates nat | AddErrors nat | RemoveSeries

fun metric_run :: "'w cr_metrics \<Rightarrow> crkey \<Rightarrow> metric_op \<Rightarrow> 'w \<Rightarrow> 'w" where
  "metric_run c key (SetApps n) = SetNumberOfApplications c key n"
| "metric_run c key (SetImages n) = SetNumberOfImagesWatched c key n"
| "metric_run c key (AddUpdates n) = IncreaseImageUpdate c key n"
| "metric_run c key (AddErrors n) = IncreaseUpdateErrors c key n"
| "metric_run c key RemoveSeries = RemoveImageUpdaterMetrics c key"

text \<open>
  The metrics of resources are kept apart: whatever is recorded for one resource leaves the series of all others alone, and after the removal of a
  deleted resource none of its four series is left.
\<close>

theorem metrics_kept_apart:
  assumes "vec_ok lib"
  shows "key' \<noteq> key \<Longrightarrow> series lib (metric_run (ImageUpdaterCR_metrics lib (\<lambda>f. f)) key op m) key' = series lib m key'"
    "series lib (metric_run (ImageUpdaterCR_metrics lib (\<lambda>f. f)) key RemoveSeries m) key = [None, None, None, None]"
proof -
  have del: "vl_Value lib (vl_DeleteLabelValues lib (labels_of key) v) (labels_of k) = (if k = key then None else vl_Value lib v (labels_of k))" for v k
    using assms by (simp add: vec_ok_def labels_of_inj)
  have set: "k \<noteq> key \<Longrightarrow> vl_Value lib (vl_Set lib (labels_of key) n v) (labels_of k) = vl_Value lib v (labels_of k)" for v k n
    using assms by (simp add: vec_ok_def labels_of_inj)
  have add: "k \<noteq> key \<Longrightarrow> vl_Value lib (vl_Add lib (labels_of key) (int n) v) (labels_of k) = vl_Value lib v (labels_of k)" for v k n
    using assms by (simp add: vec_ok_def labels_of_inj)
  show "key' \<noteq> key \<Longrightarrow> series lib (metric_run (ImageUpdaterCR_metrics lib (\<lambda>f. f)) key op m) key' = series lib m key'"
    by (cases op) (simp_all add: series_def ImageUpdaterCR_metrics_def remove_series_def del set add)
  show "series lib (metric_run (ImageUpdaterCR_metrics lib (\<lambda>f. f)) key RemoveSeries m) key = [None, None, None, None]"
    by (simp add: series_def ImageUpdaterCR_metrics_def remove_series_def del)
qed

end
