(* ===== verification/RequestContext.thy ===== *)
theory RequestContext
  imports Prelude "HOL-Library.Word"
begin

text \<open>
  Contexts of requests (\<open>registry-scanner/pkg/registry/internal/dcontext\<close>, \<open>requestutil\<close>, \<open>uuid\<close>).  A context is a chain of layers, and \<open>Value\<close> asks
  the layers from the outermost one inwards.  Looking up a value can change the world: the identifier of the process is drawn when it is asked for
  the first time.  The clock, the supply of identifiers (\<open>uuid.NewV7\<close>, which may fail), the loggers and the response writers are state or parameters.
  Warnings about invalid addresses are left out.
\<close>

section \<open>Durations as text\<close>

text \<open>\<open>Duration.String\<close> of the package \<open>time\<close>: a fraction without the zeros at its end, and hours, minutes and seconds from one second on.\<close>

definition fmtFrac :: "nat \<Rightarrow> nat \<Rightarrow> string" where
  "fmtFrac u prec =
     (let s = show_nat (u mod 10 ^ prec);
          f = rev (dropWhile (\<lambda>c. c = CHR ''0'') (rev (replicate (prec - length s) (CHR ''0'') @ s)))
      in if prec = 0 \<or> f = [] then [] else CHR ''.'' # f)"

definition fmtUnits :: "nat \<Rightarrow> string" where
  "fmtUnits u =
     (let s = u div 10 ^ 9; m = s div 60; h = m div 60; sec = show_nat (s mod 60) @ fmtFrac u 9 @ ''s''
      in if m = 0 then sec else if h = 0 then show_nat (m mod 60) @ ''m'' @ sec else show_nat h @ ''h'' @ show_nat (m mod 60) @ ''m'' @ sec)"

definition duration_String :: "int \<Rightarrow> string" where
  "duration_String d =
     (let u = nat \<bar>d\<bar>;
          txt' = (if u = 0 then ''0s''
                  else if u < 10 ^ 3 then show_nat u @ ''ns''
                  else if u < 10 ^ 6 then show_nat (u div 10 ^ 3) @ fmtFrac u 3 @ [CHR 0xC2, CHR 0xB5, CHR ''s'']
                  else if u < 10 ^ 9 then show_nat (u div 10 ^ 6) @ fmtFrac u 6 @ ''ms''
                  else fmtUnits u)
      in if d < 0 then CHR ''-'' # txt' else txt')"

section \<open>Requests and where they come from\<close>

record server_request =
  sr_Method :: string
  sr_RequestURI :: string
  sr_Host :: string
  sr_RemoteAddr :: string
  sr_Header :: "(string, string list) gomap"

definition sr_Get :: "server_request \<Rightarrow> string \<Rightarrow> string" where
  "sr_Get r k = (case map_of (sr_Header r) k of Some (v # _) \<Rightarrow> v | _ \<Rightarrow> [])"

text \<open>The parts of the package \<open>net\<close>: whether a text is an IP address, and the host of an address with a port.\<close>

record addr_lib =
  nt_ParseIP :: "string \<Rightarrow> bool"
  nt_SplitHostPort :: "string \<Rightarrow> (string \<times> string) option"

definition trim_blanks :: "string \<Rightarrow> string" where
  "trim_blanks s = rev (dropWhile (\<lambda>c. c = CHR '' '') (rev (dropWhile (\<lambda>c. c = CHR '' '') s)))"

definition RemoteAddr :: "addr_lib \<Rightarrow> server_request \<Rightarrow> string" where
  "RemoteAddr net r =
     (let prior = sr_Get r ''X-Forwarded-For''; remoteAddr = trim_blanks (fst (strings_Cut prior (CHR '','')));
          realIP = sr_Get r ''X-Real-Ip''
      in if prior \<noteq> [] \<and> nt_ParseIP net remoteAddr then remoteAddr
         else if realIP \<noteq> [] \<and> nt_ParseIP net realIP then realIP
         else sr_RemoteAddr r)"

definition RemoteIP :: "addr_lib \<Rightarrow> server_request \<Rightarrow> string" where
  "RemoteIP net r = (let addr = RemoteAddr net r in case nt_SplitHostPort net addr of Some (ip, _) \<Rightarrow> ip | None \<Rightarrow> addr)"

section \<open>Contexts\<close>

text \<open>
  Keys are strings or values of private types: the key of the logger, the key of the version, and keys of other packages, given by what \<open>fmt.Sprint\<close>
  makes of them.  An entry of logrus is a logger with fields.
\<close>

datatype ctx_key = KString string | KLogger | KVersion | KOther string

definition Sprint_key :: "ctx_key \<Rightarrow> string" where
  "Sprint_key k = (case k of KString s \<Rightarrow> s | KLogger \<Rightarrow> ''{}'' | KVersion \<Rightarrow> ''version'' | KOther s \<Rightarrow> s)"

datatype go_any =
    AString string | ATime int | ADuration int | AInt int | AInt64 "64 word" | ARequest server_request
  | AVars "(string \<times> string) list" | AWriter nat | AEntry nat "(string \<times> go_any option) list" | AOther nat

type_synonym log_fields = "(string, go_any option) gomap"

record traced =
  td_id :: string
  td_parent :: string
  td_start :: int
  td_fnname :: string
  td_file :: string
  td_line :: int

datatype ctx =
    EmptyContext
  | InstanceContext ctx
  | ValueContext ctx ctx_key go_any
  | StringMapContext ctx "(string \<times> go_any option) list"
  | HttpRequestContext ctx int string server_request
  | MuxVarsContext ctx "(string \<times> string) list"
  | ResponseContext ctx nat
  | TracedContext ctx traced

text \<open>An instrumented response writer: the status, the number of bytes, and the header of the underlying writer.\<close>

record response_writer =
  rw_status :: int
  rw_written :: "64 word"
  rw_ContentType :: string

record ctx_world =
  cw_now :: int
  cw_instance :: "string option"
  cw_drawn :: nat
  cw_writers :: "response_writer list"

type_synonym uuid_supply = "nat \<Rightarrow> string option"

definition NewString :: "uuid_supply \<Rightarrow> ctx_world \<Rightarrow> (string \<times> ctx_world) go" where
  "NewString newV7 w = (case newV7 (cw_drawn w) of None \<Rightarrow> Panic | Some u \<Rightarrow> Ret (u, w\<lparr>cw_drawn := cw_drawn w + 1\<rparr>))"

text \<open>What the layers answer themselves; \<open>None\<close> passes the question on, and the answer of a traced context may be nil.\<close>

definition request_Value :: "addr_lib \<Rightarrow> int \<Rightarrow> string \<Rightarrow> server_request \<Rightarrow> string \<Rightarrow> go_any option" where
  "request_Value net startedAt rid r s =
     (if s = ''http.request'' then Some (ARequest r)
      else if s = ''http.request.uri'' then Some (AString (sr_RequestURI r))
      else if s = ''http.request.remoteaddr'' then Some (AString (RemoteAddr net r))
      else if s = ''http.request.method'' then Some (AString (sr_Method r))
      else if s = ''http.request.host'' then Some (AString (sr_Host r))
      else if s = ''http.request.referer'' then (let referer = sr_Get r ''Referer'' in if referer \<noteq> [] then Some (AString referer) else None)
      else if s = ''http.request.useragent'' then Some (AString (sr_Get r ''User-Agent''))
      else if s = ''http.request.id'' then Some (AString rid)
      else if s = ''http.request.startedat'' then Some (ATime startedAt)
      else if s = ''http.request.contenttype'' then (let ct = sr_Get r ''Content-Type'' in if ct \<noteq> [] then Some (AString ct) else None)
      else None)"

definition vars_Value :: "(string, string) gomap \<Rightarrow> string \<Rightarrow> go_any option" where
  "vars_Value vars s = (if s = ''vars'' then Some (AVars vars) else map_option AString (map_of vars (strings_TrimPrefix s ''vars.'')))"

definition response_Value :: "nat \<Rightarrow> response_writer \<Rightarrow> string \<Rightarrow> go_any option" where
  "response_Value a rw s =
     (if s = ''http.response'' then Some (AWriter a)
      else if s = ''http.response.written'' then Some (AInt64 (rw_written rw))
      else if s = ''http.response.status'' then Some (AInt (rw_status rw))
      else if s = ''http.response.contenttype'' then (if rw_ContentType rw \<noteq> [] then Some (AString (rw_ContentType rw)) else None)
      else None)"

definition traced_Value :: "int \<Rightarrow> traced \<Rightarrow> string \<Rightarrow> go_any option option" where
  "traced_Value now ts s =
     (if s = ''trace.start'' then Some (Some (ATime (td_start ts)))
      else if s = ''trace.duration'' then Some (Some (ADuration (now - td_start ts)))
      else if s = ''trace.id'' then Some (Some (AString (td_id ts)))
      else if s = ''trace.parent.id'' then Some (if td_parent ts = [] then None else Some (AString (td_parent ts)))
      else if s = ''trace.func'' then Some (Some (AString (td_fnname ts)))
      else if s = ''trace.file'' then Some (Some (AString (td_file ts)))
      else if s = ''trace.line'' then Some (Some (AInt (td_line ts)))
      else None)"

fun instance_Value :: "uuid_supply \<Rightarrow> ctx_world \<Rightarrow> (go_any option \<times> ctx_world) go" where
  "instance_Value newV7 w =
     (case cw_instance w of
        Some u \<Rightarrow> Ret (Some (AString u), w)
      | None \<Rightarrow> go_bind (NewString newV7 w) (\<lambda>(u, w). Ret (Some (AString u), w\<lparr>cw_instance := Some u\<rparr>)))"

fun Value :: "addr_lib \<Rightarrow> uuid_supply \<Rightarrow> ctx \<Rightarrow> ctx_key \<Rightarrow> ctx_world \<Rightarrow> (go_any option \<times> ctx_world) go" where
  "Value net newV7 EmptyContext k w = Ret (None, w)"
| "Value net newV7 (InstanceContext c) k w = (if k = KString ''instance.id'' then instance_Value newV7 w else Value net newV7 c k w)"
| "Value net newV7 (ValueContext c key v) k w = (if k = key then Ret (Some v, w) else Value net newV7 c k w)"
| "Value net newV7 (StringMapContext c m) k w =
     (case k of
        KString s \<Rightarrow> (case map_of m s of Some v \<Rightarrow> Ret (v, w) | None \<Rightarrow> Value net newV7 c k w)
      | _ \<Rightarrow> Value net newV7 c k w)"
| "Value net newV7 (HttpRequestContext c startedAt rid r) k w =
     (case k of
        KString s \<Rightarrow> (case request_Value net startedAt rid r s of Some v \<Rightarrow> Ret (Some v, w) | None \<Rightarrow> Value net newV7 c k w)
      | _ \<Rightarrow> Value net newV7 c k w)"
| "Value net newV7 (MuxVarsContext c vars) k w =
     (case k of
        KString s \<Rightarrow> (case vars_Value vars s of Some v \<Rightarrow> Ret (Some v, w) | None \<Rightarrow> Value net newV7 c k w)
      | _ \<Rightarrow> Value net newV7 c k w)"
| "Value net newV7 (ResponseContext c a) k w =
     (case k of
        KString s \<Rightarrow> (case response_Value a (cw_writers w ! a) s of Some v \<Rightarrow> Ret (Some v, w) | None \<Rightarrow> Value net newV7 c k w)
      | _ \<Rightarrow> Value net newV7 c k w)"
| "Value net newV7 (TracedContext c ts) k w =
     (case k of
        KString s \<Rightarrow> (case traced_Value (cw_now w) ts s of Some v \<Rightarrow> Ret (v, w) | None \<Rightarrow> Value net newV7 c k w)
      | _ \<Rightarrow> Value net newV7 c k w)"

definition Background :: ctx where
  "Background = InstanceContext EmptyContext"

definition GetStringValue :: "addr_lib \<Rightarrow> uuid_supply \<Rightarrow> ctx \<Rightarrow> ctx_key \<Rightarrow> ctx_world \<Rightarrow> (string \<times> ctx_world) go" where
  "GetStringValue net newV7 c k w = go_bind (Value net newV7 c k w) (\<lambda>(v, w). Ret (case v of Some (AString s) \<Rightarrow> s | _ \<Rightarrow> [], w))"

definition Since :: "addr_lib \<Rightarrow> uuid_supply \<Rightarrow> ctx \<Rightarrow> ctx_key \<Rightarrow> ctx_world \<Rightarrow> (int \<times> ctx_world) go" where
  "Since net newV7 c k w = go_bind (Value net newV7 c k w) (\<lambda>(v, w). Ret (case v of Some (ATime t) \<Rightarrow> cw_now w - t | _ \<Rightarrow> 0, w))"

section \<open>Building contexts\<close>

definition WithValues :: "ctx \<Rightarrow> (string, go_any option) gomap \<Rightarrow> ctx" where
  "WithValues c m = StringMapContext c m"

definition WithRequest :: "addr_lib \<Rightarrow> uuid_supply \<Rightarrow> ctx \<Rightarrow> server_request \<Rightarrow> ctx_world \<Rightarrow> (ctx \<times> ctx_world) go" where
  "WithRequest net newV7 c r w =
     go_bind (Value net newV7 c (KString ''http.request'') w) (\<lambda>(v, w).
       if v \<noteq> None then Panic
       else go_bind (NewString newV7 w) (\<lambda>(rid, w). Ret (HttpRequestContext c (cw_now w) rid r, w)))"

definition GetRequestID :: "addr_lib \<Rightarrow> uuid_supply \<Rightarrow> ctx \<Rightarrow> ctx_world \<Rightarrow> (string \<times> ctx_world) go" where
  "GetRequestID net newV7 c w = GetStringValue net newV7 c (KString ''http.request.id'') w"

definition WithVars :: "(server_request \<Rightarrow> (string, string) gomap) \<Rightarrow> ctx \<Rightarrow> server_request \<Rightarrow> ctx" where
  "WithVars getVarsFromRequest c r = MuxVarsContext c (getVarsFromRequest r)"

text \<open>The new context and the new writer are the same object; \<open>ct\<close> is the content type that the underlying writer has set.\<close>

definition WithResponseWriter :: "ctx \<Rightarrow> string \<Rightarrow> ctx_world \<Rightarrow> ctx \<times> ctx_world" where
  "WithResponseWriter c ct w =
     (ResponseContext c (length (cw_writers w)), w\<lparr>cw_writers := cw_writers w @ [\<lparr>rw_status = 0, rw_written = 0, rw_ContentType = ct\<rparr>]\<rparr>)"

datatype ctx_error = ErrNoRequestContext | ErrNoResponseWriterContext

definition GetResponseWriter :: "addr_lib \<Rightarrow> uuid_supply \<Rightarrow> ctx \<Rightarrow> ctx_world \<Rightarrow> ((ctx_error + nat) \<times> ctx_world) go" where
  "GetResponseWriter net newV7 c w =
     go_bind (Value net newV7 c (KString ''http.response'') w) (\<lambda>(v, w).
       Ret (case v of Some (AWriter a) \<Rightarrow> Inr a | _ \<Rightarrow> Inl ErrNoResponseWriterContext, w))"

text \<open>\<open>WithTrace\<close>; the caller's function, file and line come from the runtime.\<close>

definition WithTrace :: "addr_lib \<Rightarrow> uuid_supply \<Rightarrow> ctx option \<Rightarrow> string \<Rightarrow> string \<Rightarrow> int \<Rightarrow> ctx_world \<Rightarrow> (ctx \<times> ctx_world) go" where
  "WithTrace net newV7 copt fnname file line w =
     (let c = (case copt of None \<Rightarrow> Background | Some c \<Rightarrow> c)
      in go_bind (NewString newV7 w) (\<lambda>(u, w).
           go_bind (GetStringValue net newV7 c (KString ''trace.id'') w) (\<lambda>(parent, w').
             Ret (TracedContext c \<lparr>td_id = u, td_parent = parent, td_start = cw_now w, td_fnname = fnname, td_file = file, td_line = line\<rparr>, w'))))"

section \<open>Loggers\<close>

definition WithFields :: "log_fields \<Rightarrow> log_fields \<Rightarrow> log_fields" where
  "WithFields base new = fold (\<lambda>(k, v) m. gomap_put k v m) new base"

text \<open>The values of the keys that are not nil, later keys on top of earlier ones with the same text.\<close>

fun resolve_keys :: "addr_lib \<Rightarrow> uuid_supply \<Rightarrow> ctx \<Rightarrow> ctx_key list \<Rightarrow> log_fields \<Rightarrow> ctx_world \<Rightarrow> (log_fields \<times> ctx_world) go" where
  "resolve_keys net newV7 c [] acc w = Ret (acc, w)"
| "resolve_keys net newV7 c (k # ks) acc w =
     go_bind (Value net newV7 c k w) (\<lambda>(v, w).
       resolve_keys net newV7 c ks (if v \<noteq> None then gomap_put (Sprint_key k) v acc else acc) w)"

text \<open>The default logger is an entry: a logger and its fields.\<close>

type_synonym log_entry = "nat \<times> log_fields"

definition base_logger :: "addr_lib \<Rightarrow> uuid_supply \<Rightarrow> log_entry \<Rightarrow> ctx \<Rightarrow> ctx_world \<Rightarrow> (log_entry \<times> ctx_world) go" where
  "base_logger net newV7 defaultLogger c w =
     go_bind (Value net newV7 c KLogger w) (\<lambda>(l, w).
       case l of
         Some (AEntry n fs) \<Rightarrow> Ret ((n, fs), w)
       | _ \<Rightarrow> go_bind (Value net newV7 c (KString ''instance.id'') w) (\<lambda>(instanceID, w).
                Ret ((fst defaultLogger,
                      WithFields (snd defaultLogger) (if instanceID \<noteq> None then [(''instance.id'', instanceID)] else [])), w)))"

definition getLogrusLogger :: "addr_lib \<Rightarrow> uuid_supply \<Rightarrow> log_entry \<Rightarrow> ctx \<Rightarrow> ctx_key list \<Rightarrow> ctx_world \<Rightarrow> (log_entry \<times> ctx_world) go" where
  "getLogrusLogger net newV7 defaultLogger c ks w =
     go_bind (base_logger net newV7 defaultLogger c w) (\<lambda>(l, w).
       go_bind (resolve_keys net newV7 c ks [] w) (\<lambda>(fs, w). Ret ((fst l, WithFields (snd l) fs), w)))"

definition GetLoggerWithFields ::
  "addr_lib \<Rightarrow> uuid_supply \<Rightarrow> log_entry \<Rightarrow> ctx \<Rightarrow> (ctx_key, go_any option) gomap \<Rightarrow> ctx_key list \<Rightarrow> ctx_world \<Rightarrow> (log_entry \<times> ctx_world) go"
where
  "GetLoggerWithFields net newV7 defaultLogger c fs ks w =
     (let lfields = fold (\<lambda>(k, v) m. gomap_put (Sprint_key k) v m) fs []
      in go_bind (getLogrusLogger net newV7 defaultLogger c ks w) (\<lambda>(l, w). Ret ((fst l, WithFields (snd l) lfields), w)))"

definition GetLoggerWithField ::
  "addr_lib \<Rightarrow> uuid_supply \<Rightarrow> log_entry \<Rightarrow> ctx \<Rightarrow> ctx_key \<Rightarrow> go_any option \<Rightarrow> ctx_key list \<Rightarrow> ctx_world \<Rightarrow> (log_entry \<times> ctx_world) go"
where
  "GetLoggerWithField net newV7 defaultLogger c k v ks w =
     go_bind (getLogrusLogger net newV7 defaultLogger c ks w) (\<lambda>(l, w). Ret ((fst l, gomap_put (Sprint_key k) v (snd l)), w))"

definition WithLogger :: "ctx \<Rightarrow> log_entry \<Rightarrow> ctx" where
  "WithLogger c l = ValueContext c KLogger (AEntry (fst l) (snd l))"

text \<open>Only entries of logrus can become the default logger.\<close>

definition SetDefaultLogger :: "go_any \<Rightarrow> log_entry \<Rightarrow> log_entry" where
  "SetDefaultLogger logger defaultLogger = (case logger of AEntry n fs \<Rightarrow> (n, fs) | _ \<Rightarrow> defaultLogger)"

definition request_keys :: "ctx_key list" where
  "request_keys = map KString
     [''http.request.id'', ''http.request.method'', ''http.request.host'', ''http.request.uri'', ''http.request.referer'',
      ''http.request.useragent'', ''http.request.remoteaddr'', ''http.request.contenttype'']"

definition GetRequestLogger :: "addr_lib \<Rightarrow> uuid_supply \<Rightarrow> log_entry \<Rightarrow> ctx \<Rightarrow> ctx_world \<Rightarrow> (log_entry \<times> ctx_world) go" where
  "GetRequestLogger net newV7 defaultLogger c w = getLogrusLogger net newV7 defaultLogger c request_keys w"

definition GetResponseLogger :: "addr_lib \<Rightarrow> uuid_supply \<Rightarrow> log_entry \<Rightarrow> ctx \<Rightarrow> ctx_world \<Rightarrow> (log_entry \<times> ctx_world) go" where
  "GetResponseLogger net newV7 defaultLogger c w =
     go_bind (getLogrusLogger net newV7 defaultLogger c
                (map KString [''http.response.written'', ''http.response.status'', ''http.response.contenttype'']) w) (\<lambda>(l, w).
       go_bind (Since net newV7 c (KString ''http.request.startedat'') w) (\<lambda>(duration, w).
         Ret (if duration > 0 then (fst l, gomap_put ''http.response.duration'' (Some (AString (duration_String duration))) (snd l)) else l, w)))"

definition WithVersion :: "addr_lib \<Rightarrow> uuid_supply \<Rightarrow> log_entry \<Rightarrow> ctx \<Rightarrow> string \<Rightarrow> ctx_world \<Rightarrow> (ctx \<times> ctx_world) go" where
  "WithVersion net newV7 defaultLogger c version w =
     (let c = ValueContext c KVersion (AString version)
      in go_bind (getLogrusLogger net newV7 defaultLogger c [KVersion] w) (\<lambda>(l, w). Ret (WithLogger c l, w)))"

definition GetVersion :: "addr_lib \<Rightarrow> uuid_supply \<Rightarrow> ctx \<Rightarrow> ctx_world \<Rightarrow> (string \<times> ctx_world) go" where
  "GetVersion net newV7 c w = GetStringValue net newV7 c KVersion w"

section \<open>Response writers\<close>

text \<open>
  The underlying writer of \<open>net/http\<close>: how many bytes of a chunk it took and whether it failed, the header, and flushing where it is
  supported.  The instrumented writer passes everything on and keeps count.
\<close>

record 's http_writer =
  hw_Write :: "'s \<Rightarrow> string \<Rightarrow> (int \<times> bool) \<times> 's"
  hw_WriteHeader :: "'s \<Rightarrow> int \<Rightarrow> 's"
  hw_Flush :: "('s \<Rightarrow> 's) option"

definition irw_Write :: "'s http_writer \<Rightarrow> string \<Rightarrow> response_writer \<times> 's \<Rightarrow> (int \<times> bool) \<times> response_writer \<times> 's" where
  "irw_Write hw p st =
     (let (rw, s) = st; ((n, err), s) = hw_Write hw s p;
          rw = rw\<lparr>rw_written := rw_written rw + word_of_int n\<rparr>;
          rw = (if rw_status rw = 0 then rw\<lparr>rw_status := 200\<rparr> else rw)
      in ((n, err), rw, s))"

definition irw_WriteHeader :: "'s http_writer \<Rightarrow> int \<Rightarrow> response_writer \<times> 's \<Rightarrow> response_writer \<times> 's" where
  "irw_WriteHeader hw status st = (let (rw, s) = st in (rw\<lparr>rw_status := status\<rparr>, hw_WriteHeader hw s status))"

definition irw_Flush :: "'s http_writer \<Rightarrow> response_writer \<times> 's \<Rightarrow> response_writer \<times> 's" where
  "irw_Flush hw st = (let (rw, s) = st in (rw, case hw_Flush hw of Some flush \<Rightarrow> flush s | None \<Rightarrow> s))"

datatype writer_op = OpWrite string | OpHeader int | OpFlush

text \<open>A handler as the sequence of its calls, with the number of bytes that were taken.\<close>

fun irw_run :: "'s http_writer \<Rightarrow> writer_op list \<Rightarrow> response_writer \<times> 's \<Rightarrow> int \<times> response_writer \<times> 's" where
  "irw_run hw [] st = (0, st)"
| "irw_run hw (OpWrite p # ops) st = (let ((n, err), st) = irw_Write hw p st; (m, st) = irw_run hw ops st in (n + m, st))"
| "irw_run hw (OpHeader code # ops) st = irw_run hw ops (irw_WriteHeader hw code st)"
| "irw_run hw (OpFlush # ops) st = irw_run hw ops (irw_Flush hw st)"

text \<open>
  What \<open>net/http\<close> documents: the first header is sent, a write or a flush without a header sends the status 200, and later headers
  are ignored.
\<close>

definition http_writer_law :: "'s http_writer \<Rightarrow> ('s \<Rightarrow> int option) \<Rightarrow> bool" where
  "http_writer_law hw sent \<longleftrightarrow>
     (\<forall>s p. sent (snd (hw_Write hw s p)) = (case sent s of None \<Rightarrow> Some 200 | Some c \<Rightarrow> Some c)) \<and>
     (\<forall>s code. sent (hw_WriteHeader hw s code) = (case sent s of None \<Rightarrow> Some code | Some c \<Rightarrow> Some c)) \<and>
     (\<forall>s flush. hw_Flush hw = Some flush \<longrightarrow> sent (flush s) = (case sent s of None \<Rightarrow> Some 200 | Some c \<Rightarrow> Some c))"

text \<open>A handler that sets the status first, or not at all, and then writes.\<close>

fun header_first :: "writer_op list \<Rightarrow> bool" where
  "header_first [] = True"
| "header_first (OpFlush # ops) = False"
| "header_first (OpHeader code # ops) = (code \<noteq> 0 \<and> (\<forall>c. OpHeader c \<notin> set ops))"
| "header_first (OpWrite p # ops) = (\<forall>c. OpHeader c \<notin> set ops)"

lemma irw_written:
  "irw_run hw ops (rw, s) = (n, rw', s') \<Longrightarrow> rw_written rw' = rw_written rw + word_of_int n"
  by (induction hw ops "(rw, s)" arbitrary: rw s n rule: irw_run.induct)
    (auto simp: irw_Write_def irw_WriteHeader_def irw_Flush_def Let_def algebra_simps split: prod.splits if_splits)

lemma irw_status_kept:
  assumes law: "http_writer_law hw sent"
  shows "irw_run hw ops (rw, s) = (n, rw', s') \<Longrightarrow> \<forall>c. OpHeader c \<notin> set ops \<Longrightarrow> rw_status rw = k \<Longrightarrow> k \<noteq> 0 \<Longrightarrow> sent s = Some k \<Longrightarrow>
    rw_status rw' = k \<and> sent s' = Some k"
proof (induction ops arbitrary: rw s n)
  case (Cons x ops)
  show ?case
  proof (cases x)
    case (OpWrite p)
    obtain m err s1 where w: "hw_Write hw s p = ((m, err), s1)" by (metis prod.exhaust)
    with law Cons.prems(5) have "sent s1 = Some k" unfolding http_writer_law_def by (metis option.simps(5) snd_conv)
    with Cons w OpWrite show ?thesis by (auto simp: irw_Write_def Let_def split: prod.splits)
  next
    case OpFlush
    have "sent (case hw_Flush hw of Some flush \<Rightarrow> flush s | None \<Rightarrow> s) = Some k"
      using law Cons.prems(5) by (auto simp: http_writer_law_def split: option.split)
    with Cons OpFlush show ?thesis by (simp add: irw_Flush_def)
  qed (use Cons.prems in auto)
qed simp

text \<open>
  What the context reports of a response is what was sent: for a handler that sets the status first or not at all, the status is the
  one that the client received, zero while nothing was sent, and the count is the number of bytes that were taken, modulo \<open>2^64\<close>.
\<close>

theorem response_reported:
  assumes law: "http_writer_law hw sent" and "header_first ops" "sent s = None" "rw_status rw = 0" "rw_written rw = 0"
    and run: "irw_run hw ops (rw, s) = (n, rw', s')"
  shows "rw_written rw' = word_of_int n \<and> rw_status rw' = (case sent s' of None \<Rightarrow> 0 | Some code \<Rightarrow> code)"
proof
  from irw_written [OF run] assms(5) show "rw_written rw' = word_of_int n" by simp
  show "rw_status rw' = (case sent s' of None \<Rightarrow> 0 | Some code \<Rightarrow> code)"
  proof (cases ops)
    case Nil
    with assms show ?thesis by simp
  next
    case (Cons x xs)
    show ?thesis
    proof (cases x)
      case (OpWrite p)
      obtain m err s1 where w: "hw_Write hw s p = ((m, err), s1)" by (metis prod.exhaust)
      with law assms(3) have s1: "sent s1 = Some 200" unfolding http_writer_law_def by (metis option.simps(4) snd_conv)
      from run Cons OpWrite w assms(4) obtain n1 where
        r: "irw_run hw xs (rw\<lparr>rw_written := rw_written rw + word_of_int m, rw_status := 200\<rparr>, s1) = (n1, rw', s')"
        by (auto simp: irw_Write_def Let_def split: prod.splits)
      from irw_status_kept [OF law r, of 200] s1 assms(2) Cons OpWrite show ?thesis by simp
    next
      case (OpHeader code)
      from law assms(3) have s1: "sent (hw_WriteHeader hw s code) = Some code" by (simp add: http_writer_law_def)
      from run Cons OpHeader have r: "irw_run hw xs (rw\<lparr>rw_status := code\<rparr>, hw_WriteHeader hw s code) = (n, rw', s')"
        by (simp add: irw_WriteHeader_def)
      from irw_status_kept [OF law r, of code] s1 assms(2) Cons OpHeader show ?thesis by simp
    qed (use assms(2) Cons in simp)
  qed
qed

text \<open>A writer that takes every byte, and two handlers whose status is misreported: a header after a write, and a flush alone.\<close>

definition plain_writer :: "int option http_writer" where
  "plain_writer =
     \<lparr>hw_Write = (\<lambda>s p. ((int (length p), False), Some (case s of None \<Rightarrow> 200 | Some c \<Rightarrow> c))),
      hw_WriteHeader = (\<lambda>s code. Some (case s of None \<Rightarrow> code | Some c \<Rightarrow> c)),
      hw_Flush = Some (\<lambda>s. Some (case s of None \<Rightarrow> 200 | Some c \<Rightarrow> c))\<rparr>"

definition new_writer :: response_writer where
  "new_writer = \<lparr>rw_status = 0, rw_written = 0, rw_ContentType = []\<rparr>"

lemma plain_writer_law: "http_writer_law plain_writer (\<lambda>s. s)"
  by (simp add: http_writer_law_def plain_writer_def split: option.split)

lemma status_misreported:
  "irw_run plain_writer [OpWrite ''late'', OpHeader 500] (new_writer, None) = (4, new_writer\<lparr>rw_status := 500, rw_written := 4\<rparr>, Some 200)"
  "irw_run plain_writer [OpFlush] (new_writer, None) = (0, new_writer, Some 200)"
  by (simp_all add: plain_writer_def new_writer_def irw_Write_def irw_WriteHeader_def irw_Flush_def)

theorem response_reported_witness:
  "rw_written (fst (snd (irw_run plain_writer [OpHeader 404, OpWrite ''not'', OpWrite ''found''] (new_writer, None)))) = 8 \<and>
   rw_status (fst (snd (irw_run plain_writer [OpHeader 404, OpWrite ''not'', OpWrite ''found''] (new_writer, None)))) = 404"
proof -
  let ?ops = "[OpHeader 404, OpWrite ''not'', OpWrite ''found'']"
  have run: "irw_run plain_writer ?ops (new_writer, None) = (8, new_writer\<lparr>rw_status := 404, rw_written := 8\<rparr>, Some 404)"
    by (simp add: plain_writer_def new_writer_def irw_Write_def irw_WriteHeader_def)
  have "rw_written (new_writer\<lparr>rw_status := 404, rw_written := 8\<rparr>) = word_of_int 8 \<and>
      rw_status (new_writer\<lparr>rw_status := 404, rw_written := 8\<rparr>) = (case Some 404 of None \<Rightarrow> 0 | Some code \<Rightarrow> code)"
    by (rule response_reported [OF plain_writer_law _ _ _ _ run]) (simp_all add: new_writer_def)
  then show ?thesis unfolding run by simp
qed

section \<open>One request per context\<close>

fun requests :: "ctx \<Rightarrow> nat" where
  "requests EmptyContext = 0"
| "requests (InstanceContext c) = requests c"
| "requests (ValueContext c k v) = requests c"
| "requests (StringMapContext c m) = requests c"
| "requests (HttpRequestContext c t i r) = Suc (requests c)"
| "requests (MuxVarsContext c vars) = requests c"
| "requests (ResponseContext c a) = requests c"
| "requests (TracedContext c ts) = requests c"

text \<open>The contexts that the operations of the package build, provided that no map hides the request behind nil.\<close>

inductive built :: "addr_lib \<Rightarrow> uuid_supply \<Rightarrow> log_entry \<Rightarrow> ctx \<Rightarrow> bool" for net newV7 defaultLogger where
  built_background: "built net newV7 defaultLogger Background"
| built_request: "built net newV7 defaultLogger c \<Longrightarrow> WithRequest net newV7 c r w = Ret (c', w') \<Longrightarrow> built net newV7 defaultLogger c'"
| built_vars: "built net newV7 defaultLogger c \<Longrightarrow> built net newV7 defaultLogger (WithVars vars c r)"
| built_response: "built net newV7 defaultLogger c \<Longrightarrow> built net newV7 defaultLogger (fst (WithResponseWriter c ct w))"
| built_values: "built net newV7 defaultLogger c \<Longrightarrow> map_of m ''http.request'' \<noteq> Some None \<Longrightarrow> built net newV7 defaultLogger (WithValues c m)"
| built_logger: "built net newV7 defaultLogger c \<Longrightarrow> built net newV7 defaultLogger (WithLogger c l)"
| built_version: "built net newV7 defaultLogger c \<Longrightarrow> WithVersion net newV7 defaultLogger c v w = Ret (c', w') \<Longrightarrow> built net newV7 defaultLogger c'"
| built_trace: "built net newV7 defaultLogger c \<Longrightarrow> WithTrace net newV7 (Some c) fnname file line w = Ret (c', w') \<Longrightarrow> built net newV7 defaultLogger c'"

definition has_request :: "addr_lib \<Rightarrow> uuid_supply \<Rightarrow> ctx \<Rightarrow> bool" where
  "has_request net newV7 c \<longleftrightarrow> (\<forall>w. \<exists>v. Value net newV7 c (KString ''http.request'') w = Ret (Some v, w))"

text \<open>The shapes of the contexts that the fallible operations return.\<close>

lemma WithRequest_shape:
  assumes "WithRequest net newV7 c r w = Ret (c', w')"
  obtains rid t where "c' = HttpRequestContext c t rid r" "\<not> has_request net newV7 c"
  using assms that unfolding WithRequest_def has_request_def
  by (elim go_bindE) (auto split: if_splits elim!: go_bindE, metis go.inject old.prod.inject option.distinct(1))

lemma WithVersion_shape:
  assumes "WithVersion net newV7 d c v w = Ret (c', w')"
  obtains l where "c' = WithLogger (ValueContext c KVersion (AString v)) l"
  using assms that by (auto simp: WithVersion_def Let_def elim!: go_bindE)

lemma WithTrace_shape:
  assumes "WithTrace net newV7 (Some c) fnname file line w = Ret (c', w')"
  obtains ts where "c' = TracedContext c ts"
  using assms that by (auto simp: WithTrace_def Let_def elim!: go_bindE)

lemma request_value_name [simp]: "request_Value net t i r ''http.request'' = Some (ARequest r)"
  by (simp add: request_Value_def)

lemma other_layers:
  "traced_Value now ts ''http.request'' = None" "response_Value a rw ''http.request'' = None"
  by (simp_all add: traced_Value_def response_Value_def)

lemma built_requests:
  "built net newV7 d c \<Longrightarrow> requests c \<le> 1 \<and> (requests c = 1 \<longrightarrow> has_request net newV7 c)"
proof (induction rule: built.induct)
  case (built_request c r w c' w')
  from built_request(2) obtain rid t where "c' = HttpRequestContext c t rid r" "\<not> has_request net newV7 c" by (rule WithRequest_shape)
  with built_request.IH show ?case by (auto simp: has_request_def)
next
  case (built_vars c vars r)
  then show ?case by (auto simp: WithVars_def has_request_def split: option.split)
next
  case (built_response c ct w)
  then show ?case by (auto simp: WithResponseWriter_def has_request_def other_layers)
next
  case (built_values c m)
  then show ?case by (auto simp: WithValues_def has_request_def split: option.split)
next
  case (built_version c v w c' w')
  from built_version(2) obtain l where "c' = WithLogger (ValueContext c KVersion (AString v)) l" by (rule WithVersion_shape)
  with built_version.IH show ?case by (auto simp: WithLogger_def has_request_def)
next
  case (built_trace c fnname src line w c' w')
  from built_trace(2) obtain ts where "c' = TracedContext c ts" by (rule WithTrace_shape)
  with built_trace.IH show ?case by (auto simp: has_request_def other_layers)
qed (auto simp: Background_def WithLogger_def has_request_def)

text \<open>
  A context holds at most one request, whatever is put on top of it by the operations of the package: the attempt to add a
  second one panics.  (A map that binds the name of the request to nil would hide it.)
\<close>

theorem one_request_per_context:
  assumes "built net newV7 defaultLogger c"
  shows "requests c \<le> 1 \<and> (requests c = 1 \<longrightarrow> (\<forall>r w. WithRequest net newV7 c r w = Panic))"
proof (intro conjI impI allI)
  from built_requests [OF assms] show "requests c \<le> 1" by simp
  fix r w assume "requests c = 1"
  with built_requests [OF assms] have "has_request net newV7 c" by simp
  then obtain v where "Value net newV7 c (KString ''http.request'') w = Ret (Some v, w)" unfolding has_request_def by blast
  then show "WithRequest net newV7 c r w = Panic" by (simp add: WithRequest_def)
qed

definition sample_server_request :: server_request where
  "sample_server_request = \<lparr>sr_Method = ''GET'', sr_RequestURI = ''/v2/'', sr_Host = ''quay.io'', sr_RemoteAddr = ''10.0.0.1:4711'', sr_Header = []\<rparr>"

definition sample_addr :: addr_lib where
  "sample_addr = \<lparr>nt_ParseIP = (\<lambda>s. s = ''10.0.0.1''), nt_SplitHostPort = (\<lambda>s. None)\<rparr>"

definition sample_world :: ctx_world where
  "sample_world = \<lparr>cw_now = 7, cw_instance = None, cw_drawn = 0, cw_writers = []\<rparr>"

theorem one_request_per_context_witness:
  "let c = HttpRequestContext Background 7 ''u'' sample_server_request
   in requests c = 1 \<and> WithRequest sample_addr (\<lambda>n. Some ''u'') c sample_server_request sample_world = Panic"
proof -
  let ?c = "HttpRequestContext Background 7 ''u'' sample_server_request"
  have "WithRequest sample_addr (\<lambda>n. Some ''u'') Background sample_server_request sample_world = Ret (?c, sample_world\<lparr>cw_drawn := 1\<rparr>)"
    by (simp add: WithRequest_def Background_def NewString_def sample_world_def)
  then have "built sample_addr (\<lambda>n. Some ''u'') (0, []) ?c" by (rule built.built_request [OF built.built_background])
  from one_request_per_context [OF this] show ?thesis by (simp add: Background_def)
qed

text \<open>Hidden behind nil, the request is found by nobody, and a second one can be added.\<close>

lemma hidden_request:
  "requests c = 1 \<Longrightarrow> newV7 (cw_drawn w) = Some u \<Longrightarrow>
   \<exists>w'. WithRequest net newV7 (WithValues c [(''http.request'', None)]) r w =
     Ret (HttpRequestContext (WithValues c [(''http.request'', None)]) (cw_now w) u r, w') \<and>
     requests (HttpRequestContext (WithValues c [(''http.request'', None)]) (cw_now w) u r) = 2"
  by (simp add: WithRequest_def WithValues_def NewString_def)

section \<open>Values that are found again\<close>

text \<open>The identifier of the process is drawn once.\<close>

lemma instance_id_stable:
  assumes "Value net newV7 c k w = Ret (v, w')"
  shows "cw_instance w = Some u \<Longrightarrow> w' = w"
    "cw_instance w = None \<Longrightarrow> w' = w \<or> (\<exists>u. cw_instance w' = Some u \<and> newV7 (cw_drawn w) = Some u \<and> v = Some (AString u))"
  using assms
  by (induction net newV7 c k w rule: Value.induct)
    (auto simp: NewString_def split: if_splits option.splits ctx_key.splits elim!: go_bindE)

text \<open>A variable is found with and without the prefix, also where its name is a name of the request.\<close>

lemma vars_found:
  "map_of vars s = Some x \<Longrightarrow> Value net newV7 (WithVars (\<lambda>_. vars) c r) (KString (''vars.'' @ s)) w = Ret (Some (AString x), w)"
  "map_of vars s = Some x \<Longrightarrow> s \<noteq> ''vars'' \<Longrightarrow> \<not> prefix ''vars.'' s \<Longrightarrow>
   Value net newV7 (WithVars (\<lambda>_. vars) c r) (KString s) w = Ret (Some (AString x), w)"
  by (simp_all add: WithVars_def vars_Value_def strings_TrimPrefix_def)

text \<open>A traced context knows the trace that encloses it.\<close>

lemma trace_linked:
  assumes "WithTrace net newV7 (Some c) f file line w = Ret (c1, w1)" "WithTrace net newV7 (Some c1) g file' line' w1 = Ret (c2, w2)"
    and "newV7 (cw_drawn w) = Some u" "u \<noteq> []"
  shows "Value net newV7 c2 (KString ''trace.parent.id'') w2 = Value net newV7 c1 (KString ''trace.id'') w2"
  using assms by (auto simp: WithTrace_def GetStringValue_def NewString_def traced_Value_def split: option.splits elim!: go_bindE)

lemma map_of_WithFields: "map_of (WithFields base new) = map_of base ++ map_of (rev new)"
  unfolding WithFields_def by (induction new arbitrary: base) (auto simp: map_add_def fun_eq_iff split: option.split)

lemma resolve_keys_keeps:
  "resolve_keys net newV7 c ks acc w = Ret (fs, w') \<Longrightarrow> k \<notin> Sprint_key ` set ks \<Longrightarrow> map_of fs k = map_of acc k"
  by (induction ks arbitrary: acc w) (auto split: if_splits elim!: go_bindE)

text \<open>The version comes back, and the logger of the context carries it.\<close>

theorem version_roundtrip:
  assumes "WithVersion net newV7 d c v w = Ret (c', w')"
  shows "GetVersion net newV7 c' w'' = Ret (v, w'') \<and>
    (\<exists>n fs. Value net newV7 c' KLogger w'' = Ret (Some (AEntry n fs), w'') \<and> map_of fs ''version'' = Some (Some (AString v)))"
  using assms
  by (auto simp: WithVersion_def GetVersion_def GetStringValue_def WithLogger_def getLogrusLogger_def map_of_WithFields Sprint_key_def Let_def
      elim!: go_bindE)

end
