(* ===== verification/Logging.thy ===== *)
theory Logging
  imports RequestContext Startup
begin

text \<open>
  The wrapper around logrus (\<open>registry-scanner/pkg/log/log.go\<close>).  Its purpose is to write errors to another stream than everything else.  The
  wrapper is modelled by the calls that it makes on the one logger of the package; what logrus does with them is a parameter, with its
  documented behaviour as the hypothesis \<open>logrus_law\<close>.  A message is the result of formatting.
\<close>

section \<open>The wrapper\<close>

datatype out_stream = Stdout | Stderr | OtherOut nat

datatype log_level = TraceLevel | DebugLevel | InfoLevel | WarnLevel | ErrorLevel | FatalLevel

datatype log_formatter = TextFormatter bool | JSONFormatter

datatype LogFormat = LogFormatText | LogFormatJSON

record LogContext =
  lc_fields :: log_fields
  lc_normalOut :: out_stream
  lc_errorOut :: out_stream

datatype logger_call =
    SetOutput out_stream | SetLevel log_level | SetDefaultLevel log_level | SetFormatter log_formatter
  | Logf log_level string | WithFields_Logf log_fields log_level string

definition NewContext :: LogContext where
  "NewContext = \<lparr>lc_fields = [], lc_normalOut = Stdout, lc_errorOut = Stderr\<rparr>"

definition AddField :: "LogContext \<Rightarrow> string \<Rightarrow> go_any option \<Rightarrow> LogContext" where
  "AddField logctx key v = logctx\<lparr>lc_fields := gomap_put key v (lc_fields logctx)\<rparr>"

definition SetLogLevel :: "string \<Rightarrow> string + logger_call list" where
  "SetLogLevel logLevel =
     (let s = strings_ToLower logLevel; set_both = (\<lambda>level. Inr [SetLevel level, SetDefaultLevel level])
      in if s = ''trace'' then set_both TraceLevel
         else if s = ''debug'' then set_both DebugLevel
         else if s = ''info'' then set_both InfoLevel
         else if s = ''warn'' then set_both WarnLevel
         else if s = ''error'' then set_both ErrorLevel
         else Inl (''invalid loglevel: '' @ logLevel))"

definition disableLogColors :: "getenv \<Rightarrow> bool" where
  "disableLogColors getEnv = (strings_ToLower (getEnv ''ENABLE_LOG_COLORS'') = ''false'')"

definition SetLogFormat :: "getenv \<Rightarrow> LogFormat \<Rightarrow> logger_call list" where
  "SetLogFormat getEnv f =
     (case f of LogFormatText \<Rightarrow> [SetFormatter (TextFormatter (disableLogColors getEnv))] | LogFormatJSON \<Rightarrow> [SetFormatter JSONFormatter])"

definition log_init :: "getenv \<Rightarrow> logger_call list" where
  "log_init getEnv = [SetFormatter (TextFormatter (disableLogColors getEnv)), SetLevel DebugLevel]"

definition log_at :: "log_level \<Rightarrow> log_fields \<Rightarrow> string \<Rightarrow> logger_call" where
  "log_at level fs msg = (if length fs > 0 then WithFields_Logf fs level msg else Logf level msg)"

definition LogContext_Tracef :: "LogContext \<Rightarrow> string \<Rightarrow> logger_call list" where
  "LogContext_Tracef logctx msg = [SetOutput (lc_normalOut logctx), log_at TraceLevel (lc_fields logctx) msg]"

definition LogContext_Debugf :: "LogContext \<Rightarrow> string \<Rightarrow> logger_call list" where
  "LogContext_Debugf logctx msg = [SetOutput (lc_normalOut logctx), log_at DebugLevel (lc_fields logctx) msg]"

definition LogContext_Infof :: "LogContext \<Rightarrow> string \<Rightarrow> logger_call list" where
  "LogContext_Infof logctx msg = [SetOutput (lc_normalOut logctx), log_at InfoLevel (lc_fields logctx) msg]"

definition LogContext_Warnf :: "LogContext \<Rightarrow> string \<Rightarrow> logger_call list" where
  "LogContext_Warnf logctx msg = [SetOutput (lc_normalOut logctx), log_at WarnLevel (lc_fields logctx) msg]"

definition LogContext_Errorf :: "LogContext \<Rightarrow> string \<Rightarrow> logger_call list" where
  "LogContext_Errorf logctx msg = [SetOutput (lc_errorOut logctx), log_at ErrorLevel (lc_fields logctx) msg]"

definition LogContext_Fatalf :: "LogContext \<Rightarrow> string \<Rightarrow> logger_call list" where
  "LogContext_Fatalf logctx msg = [SetOutput (lc_errorOut logctx), log_at FatalLevel (lc_fields logctx) msg]"

definition Tracef :: "string \<Rightarrow> logger_call list" where
  "Tracef msg = LogContext_Tracef NewContext msg"

definition Debugf :: "string \<Rightarrow> logger_call list" where
  "Debugf msg = LogContext_Debugf NewContext msg"

definition Infof :: "string \<Rightarrow> logger_call list" where
  "Infof msg = LogContext_Infof NewContext msg"

definition Warnf :: "string \<Rightarrow> logger_call list" where
  "Warnf msg = LogContext_Warnf NewContext msg"

definition Errorf :: "string \<Rightarrow> logger_call list" where
  "Errorf msg = LogContext_Errorf NewContext msg"

definition Fatalf :: "string \<Rightarrow> logger_call list" where
  "Fatalf msg = LogContext_Fatalf NewContext msg"

text \<open>Loggers in contexts, under a key of this package; a context without one, and no context at all, give the logger of the package.\<close>

definition log_key :: ctx_key where
  "log_key = KOther ''{}''"

definition ContextWithLogger :: "ctx \<Rightarrow> log_entry \<Rightarrow> ctx" where
  "ContextWithLogger c l = ValueContext c log_key (AEntry (fst l) (snd l))"

definition LoggerFromContext :: "addr_lib \<Rightarrow> uuid_supply \<Rightarrow> nat \<Rightarrow> ctx option \<Rightarrow> ctx_world \<Rightarrow> (log_entry \<times> ctx_world) go" where
  "LoggerFromContext net newV7 logger copt w =
     (case copt of
        None \<Rightarrow> Ret ((logger, []), w)
      | Some c \<Rightarrow> go_bind (Value net newV7 c log_key w) (\<lambda>(v, w). Ret (case v of Some (AEntry n fs) \<Rightarrow> (n, fs) | _ \<Rightarrow> (logger, []), w)))"

section \<open>What arrives on the streams\<close>

text \<open>
  A logger of logrus: its level and its output, how a call changes it, and the lines that a call writes.  The law is what logrus documents: the
  setters set, a message that the level admits is written with its fields to the output of this moment, and nothing else is written.  A fatal message
  ends the process after it was written.
\<close>

type_synonym log_line = "out_stream \<times> log_level \<times> log_fields \<times> string"

record 'l logrus =
  lr_step :: "logger_call \<Rightarrow> 'l \<Rightarrow> 'l"
  lr_lines :: "logger_call \<Rightarrow> 'l \<Rightarrow> log_line list"
  lr_out :: "'l \<Rightarrow> out_stream"
  lr_level :: "'l \<Rightarrow> log_level"
  lr_admits :: "log_level \<Rightarrow> log_level \<Rightarrow> bool"

definition logrus_law :: "'l logrus \<Rightarrow> bool" where
  "logrus_law L \<longleftrightarrow>
     (\<forall>l w. lr_out L (lr_step L (SetOutput w) l) = w \<and> lr_level L (lr_step L (SetOutput w) l) = lr_level L l \<and> lr_lines L (SetOutput w) l = []) \<and>
     (\<forall>l v. lr_level L (lr_step L (SetLevel v) l) = v \<and> lr_out L (lr_step L (SetLevel v) l) = lr_out L l \<and> lr_lines L (SetLevel v) l = []) \<and>
     (\<forall>l v m. lr_level L (lr_step L (Logf v m) l) = lr_level L l \<and>
        lr_lines L (Logf v m) l = (if lr_admits L (lr_level L l) v then [(lr_out L l, v, [], m)] else [])) \<and>
     (\<forall>l fs v m. lr_level L (lr_step L (WithFields_Logf fs v m) l) = lr_level L l \<and>
        lr_lines L (WithFields_Logf fs v m) l = (if lr_admits L (lr_level L l) v then [(lr_out L l, v, fs, m)] else []))"

fun ends_process :: "logger_call \<Rightarrow> bool" where
  "ends_process (Logf v m) = (v = FatalLevel)"
| "ends_process (WithFields_Logf fs v m) = (v = FatalLevel)"
| "ends_process c = False"

fun log_run :: "'l logrus \<Rightarrow> logger_call list \<Rightarrow> 'l \<Rightarrow> log_line list" where
  "log_run L [] l = []"
| "log_run L (c # cs) l = lr_lines L c l @ (if ends_process c then [] else log_run L cs (lr_step L c l))"

text \<open>A message of a context at a level, and the stream that is meant for it.\<close>

type_synonym message = "log_level \<times> LogContext \<times> string"

fun message_calls :: "message \<Rightarrow> logger_call list" where
  "message_calls (TraceLevel, lc, m) = LogContext_Tracef lc m"
| "message_calls (DebugLevel, lc, m) = LogContext_Debugf lc m"
| "message_calls (InfoLevel, lc, m) = LogContext_Infof lc m"
| "message_calls (WarnLevel, lc, m) = LogContext_Warnf lc m"
| "message_calls (ErrorLevel, lc, m) = LogContext_Errorf lc m"
| "message_calls (FatalLevel, lc, m) = LogContext_Fatalf lc m"

definition meant_for :: "log_level \<Rightarrow> LogContext \<Rightarrow> out_stream" where
  "meant_for v lc = (if v \<in> {ErrorLevel, FatalLevel} then lc_errorOut lc else lc_normalOut lc)"

fun expected_lines :: "(log_level \<Rightarrow> bool) \<Rightarrow> message list \<Rightarrow> log_line list" where
  "expected_lines admits [] = []"
| "expected_lines admits ((v, lc, m) # ms) =
     (if admits v then [(meant_for v lc, v, lc_fields lc, m)] else []) @ (if v = FatalLevel then [] else expected_lines admits ms)"

lemma message_calls_shape: "message_calls (v, lc, m) = [SetOutput (meant_for v lc), log_at v (lc_fields lc) m]"
  by (cases v)
    (simp_all add: meant_for_def LogContext_Tracef_def LogContext_Debugf_def LogContext_Infof_def LogContext_Warnf_def LogContext_Errorf_def
      LogContext_Fatalf_def)

lemma log_at_ends [simp]: "ends_process (log_at v fs m) = (v = FatalLevel)"
  by (simp add: log_at_def)

lemma log_at_law:
  assumes "logrus_law L"
  shows "lr_level L (lr_step L (log_at v fs m) l) = lr_level L l"
    "lr_lines L (log_at v fs m) l = (if lr_admits L (lr_level L l) v then [(lr_out L l, v, fs, m)] else [])"
  using assms by (auto simp: logrus_law_def log_at_def)

text \<open>
  Messages that are logged one after the other arrive in their order, each once if the level admits it, with the fields of its
  context and on the stream that is meant for it: errors and fatal errors on the error stream of the context, all others on the normal one.  Nothing is
  written after a fatal message.
\<close>

theorem messages_on_their_streams:
  assumes "logrus_law L"
  shows "log_run L (concat (map message_calls ms)) l = expected_lines (lr_admits L (lr_level L l)) ms"
proof (induction ms arbitrary: l)
  case (Cons x ms)
  obtain v lc m where x: "x = (v, lc, m)" by (cases x)
  let ?l1 = "lr_step L (SetOutput (meant_for v lc)) l"
  from assms have "lr_out L ?l1 = meant_for v lc" "lr_level L ?l1 = lr_level L l" "lr_lines L (SetOutput (meant_for v lc)) l = []"
    by (simp_all add: logrus_law_def)
  then show ?case by (auto simp: x message_calls_shape log_at_law [OF assms] Cons.IH)
qed simp

text \<open>The plainest logger that behaves in this way.\<close>

fun plain_step :: "logger_call \<Rightarrow> out_stream \<times> log_level \<Rightarrow> out_stream \<times> log_level" where
  "plain_step (SetOutput w) l = (w, snd l)"
| "plain_step (SetLevel v) l = (fst l, v)"
| "plain_step c l = l"

fun plain_admits :: "log_level \<Rightarrow> log_level \<Rightarrow> bool" where
  "plain_admits TraceLevel v = True"
| "plain_admits DebugLevel v = (v \<noteq> TraceLevel)"
| "plain_admits InfoLevel v = (v \<in> {InfoLevel, WarnLevel, ErrorLevel, FatalLevel})"
| "plain_admits WarnLevel v = (v \<in> {WarnLevel, ErrorLevel, FatalLevel})"
| "plain_admits ErrorLevel v = (v \<in> {ErrorLevel, FatalLevel})"
| "plain_admits FatalLevel v = (v = FatalLevel)"

fun plain_lines :: "logger_call \<Rightarrow> out_stream \<times> log_level \<Rightarrow> log_line list" where
  "plain_lines (Logf v m) l = (if plain_admits (snd l) v then [(fst l, v, [], m)] else [])"
| "plain_lines (WithFields_Logf fs v m) l = (if plain_admits (snd l) v then [(fst l, v, fs, m)] else [])"
| "plain_lines c l = []"

definition plain_logrus :: "(out_stream \<times> log_level) logrus" where
  "plain_logrus = \<lparr>lr_step = plain_step, lr_lines = plain_lines, lr_out = fst, lr_level = snd, lr_admits = plain_admits\<rparr>"

lemma plain_logrus_law: "logrus_law plain_logrus"
  by (simp add: logrus_law_def plain_logrus_def)

theorem messages_on_their_streams_witness:
  "log_run plain_logrus (concat (map message_calls
     [(InfoLevel, NewContext, ''start''), (TraceLevel, NewContext, ''detail''), (FatalLevel, AddField NewContext ''image'' None, ''end''),
      (InfoLevel, NewContext, ''never'')])) (Stderr, DebugLevel) =
   [(Stdout, InfoLevel, [], ''start''), (Stderr, FatalLevel, [(''image'', None)], ''end'')]"
  using messages_on_their_streams [OF plain_logrus_law, of
      "[(InfoLevel, NewContext, ''start''), (TraceLevel, NewContext, ''detail''), (FatalLevel, AddField NewContext ''image'' None, ''end''),
        (InfoLevel, NewContext, ''never'')]" "(Stderr, DebugLevel)"]
  by (simp add: meant_for_def NewContext_def AddField_def plain_logrus_def)

section \<open>Messages of several goroutines\<close>

text \<open>
  The output is set and the message is written in two steps, and no lock is held between them.  When two goroutines log at the same time an error can
  arrive on the standard output, and an information on the error stream.
\<close>

inductive interleaved :: "'c list \<Rightarrow> 'c list \<Rightarrow> 'c list \<Rightarrow> bool" where
  inter_end: "interleaved [] [] []"
| inter_left: "interleaved xs ys zs \<Longrightarrow> interleaved (x # xs) ys (x # zs)"
| inter_right: "interleaved xs ys zs \<Longrightarrow> interleaved xs (y # ys) (y # zs)"

lemma error_on_stdout:
  "\<exists>cs. interleaved (Errorf e) (Infof i) cs \<and> log_run plain_logrus cs (Stdout, DebugLevel) = [(Stdout, ErrorLevel, [], e), (Stdout, InfoLevel, [], i)]"
proof -
  let ?cs = "[SetOutput Stderr, SetOutput Stdout, Logf ErrorLevel e, Logf InfoLevel i]"
  have "interleaved (Errorf e) (Infof i) ?cs"
    by (auto simp: Errorf_def Infof_def LogContext_Errorf_def LogContext_Infof_def NewContext_def log_at_def intro!: interleaved.intros)
  moreover have "log_run plain_logrus ?cs (Stdout, DebugLevel) = [(Stdout, ErrorLevel, [], e), (Stdout, InfoLevel, [], i)]"
    by (simp add: plain_logrus_def)
  ultimately show ?thesis by blast
qed

text \<open>Under every interleaving the lines themselves are complete: as many as the calls of both sides would write for themselves.\<close>

definition call_lines :: "(log_level \<Rightarrow> bool) \<Rightarrow> logger_call \<Rightarrow> (log_level \<times> log_fields \<times> string) list" where
  "call_lines admits c = (case c of Logf v m \<Rightarrow> if admits v then [(v, [], m)] else [] | WithFields_Logf fs v m \<Rightarrow> if admits v then [(v, fs, m)] else [] | _ \<Rightarrow> [])"

definition logs_only :: "logger_call list \<Rightarrow> bool" where
  "logs_only cs \<longleftrightarrow> (\<forall>c \<in> set cs. \<not> ends_process c \<and> (case c of SetOutput w \<Rightarrow> True | Logf v m \<Rightarrow> True | WithFields_Logf fs v m \<Rightarrow> True | _ \<Rightarrow> False))"

lemma interleaved_set: "interleaved xs ys zs \<Longrightarrow> set zs = set xs \<union> set ys"
  by (induction rule: interleaved.induct) auto

lemma interleaved_concat_map:
  "interleaved xs ys zs \<Longrightarrow> interleaved (concat (map f xs)) (concat (map f ys)) (concat (map f zs))"
proof (induction rule: interleaved.induct)
  case (inter_left xs ys zs x)
  have "interleaved (us @ concat (map f xs)) (concat (map f ys)) (us @ concat (map f zs))" for us
    by (induction us) (auto intro: inter_left.IH interleaved.inter_left)
  then show ?case by simp
next
  case (inter_right xs ys zs y)
  have "interleaved (concat (map f xs)) (us @ concat (map f ys)) (us @ concat (map f zs))" for us
    by (induction us) (auto intro: inter_right.IH interleaved.inter_right)
  then show ?case by simp
qed (simp add: interleaved.inter_end)

lemma log_call_law:
  assumes "logrus_law L" "logs_only [c]"
  shows "map snd (lr_lines L c l) = call_lines (lr_admits L (lr_level L l)) c" "lr_level L (lr_step L c l) = lr_level L l"
  using assms by (cases c; simp add: logs_only_def logrus_law_def call_lines_def)+

lemma log_run_lines:
  assumes law: "logrus_law L"
  shows "logs_only cs \<Longrightarrow> map snd (log_run L cs l) = concat (map (call_lines (lr_admits L (lr_level L l))) cs)"
proof (induction cs arbitrary: l)
  case (Cons c cs)
  then have "logs_only [c]" "logs_only cs" "\<not> ends_process c" by (simp_all add: logs_only_def)
  with Cons.IH show ?case by (simp add: log_call_law [OF law])
qed simp

lemma no_message_lost:
  assumes "logrus_law L" "interleaved xs ys zs" "logs_only xs" "logs_only ys"
  shows "interleaved (map snd (log_run L xs l)) (map snd (log_run L ys l)) (map snd (log_run L zs l))"
proof -
  from assms interleaved_set [OF assms(2)] have "logs_only zs" by (auto simp: logs_only_def)
  with assms interleaved_concat_map [OF assms(2)] show ?thesis by (simp add: log_run_lines)
qed

section \<open>Levels and loggers of contexts\<close>

text \<open>The level is accepted exactly for the names that the start of the program accepts, and then both loggers have it.\<close>

lemma SetLogLevel_ok: "isl (SetLogLevel s) \<longleftrightarrow> \<not> log_level_ok s"
  by (simp add: SetLogLevel_def log_level_ok_def Let_def)

lemma SetLogLevel_both: "SetLogLevel s = Inr cs \<Longrightarrow> \<exists>v. cs = [SetLevel v, SetDefaultLevel v] \<and> v \<noteq> FatalLevel"
  by (auto simp: SetLogLevel_def Let_def split: if_splits)

lemma LoggerFromContext_roundtrip:
  "LoggerFromContext net newV7 logger (Some (ContextWithLogger c l)) w = Ret (l, w)"
  by (simp add: LoggerFromContext_def ContextWithLogger_def)

text \<open>The key is private: a logger that the package \<open>dcontext\<close> has put into a context is not found, and does not hide one.\<close>

lemma LoggerFromContext_private:
  "LoggerFromContext net newV7 logger (Some (WithLogger c l)) w = LoggerFromContext net newV7 logger (Some c) w"
  by (simp add: LoggerFromContext_def WithLogger_def log_key_def)

end
