(* ===== verification/ServerLife.thy ===== *)
theory ServerLife
  imports Startup
begin

text \<open>
  The life of the webhook server (\<open>pkg/webhook/server.go\<close>): the certificate it makes for itself, how \<open>Start\<close> waits for the listener and for the end of
  its context, \<open>Stop\<close>, and the health check.  Keys, certificates and the listener are parameters or events.
\<close>

section \<open>The certificate of the server\<close>

record cert_template =
  ct_SerialNumber :: int
  ct_Organization :: "string list"
  ct_NotBefore :: instant
  ct_NotAfter :: instant
  ct_KeyUsage :: string
  ct_ExtKeyUsage :: "string list"
  ct_BasicConstraintsValid :: bool
  ct_DNSNames :: "string list"
  ct_IPAddresses :: "string list"

text \<open>The packages \<open>ecdsa\<close>, \<open>rand\<close>, \<open>x509\<close>, \<open>pem\<close> and \<open>tls\<close>; \<open>cy_Int\<close> draws a number below a bound.\<close>

record 'key cert_crypto =
  cy_GenerateKey :: "string + 'key"
  cy_Int :: "int \<Rightarrow> string + int"
  cy_CreateCertificate :: "cert_template \<Rightarrow> 'key \<Rightarrow> string + string"
  cy_MarshalECPrivateKey :: "'key \<Rightarrow> string + string"
  cy_EncodeToMemory :: "string \<Rightarrow> string \<Rightarrow> string"
  cy_X509KeyPair :: "string \<Rightarrow> string \<Rightarrow> string + string"

definition one_year :: int where
  "one_year = 365 * 24 * 3600 * 10 ^ 9"

definition self_signed_template :: "int \<Rightarrow> instant \<Rightarrow> instant \<Rightarrow> cert_template" where
  "self_signed_template serialNumber now1 now2 =
     \<lparr>ct_SerialNumber = serialNumber, ct_Organization = [''Argo CD Image Updater''], ct_NotBefore = now1, ct_NotAfter = now2 + one_year,
      ct_KeyUsage = ''KeyUsageDigitalSignature'', ct_ExtKeyUsage = [''ExtKeyUsageServerAuth''], ct_BasicConstraintsValid = True,
      ct_DNSNames = [''localhost''], ct_IPAddresses = [''127.0.0.1'', ''::1'']\<rparr>"

definition generateSelfSignedCert :: "'key cert_crypto \<Rightarrow> instant \<Rightarrow> instant \<Rightarrow> string + string" where
  "generateSelfSignedCert lib now1 now2 =
     (case cy_GenerateKey lib of
        Inl err \<Rightarrow> Inl (''failed to generate private key: '' @ err)
      | Inr key \<Rightarrow>
          (case cy_Int lib (2 ^ 128) of
             Inl err \<Rightarrow> Inl (''failed to generate serial number: '' @ err)
           | Inr serialNumber \<Rightarrow>
               (case cy_CreateCertificate lib (self_signed_template serialNumber now1 now2) key of
                  Inl err \<Rightarrow> Inl (''failed to create certificate: '' @ err)
                | Inr certDER \<Rightarrow>
                    (let certPEM = cy_EncodeToMemory lib ''CERTIFICATE'' certDER in
                     case cy_MarshalECPrivateKey lib key of
                       Inl err \<Rightarrow> Inl (''failed to marshal private key: '' @ err)
                     | Inr keyDER \<Rightarrow> cy_X509KeyPair lib certPEM (cy_EncodeToMemory lib ''EC PRIVATE KEY'' keyDER)))))"

text \<open>The server takes its own certificate from this function.\<close>

definition with_own_cert :: "'key cert_crypto \<Rightarrow> instant \<Rightarrow> instant \<Rightarrow> cert_lib \<Rightarrow> cert_lib" where
  "with_own_cert crypto now1 now2 lib = lib\<lparr>cl_generateSelfSignedCert := generateSelfSignedCert crypto now1 now2\<rparr>"

section \<open>The names of TLS versions\<close>

text \<open>The first name of the version in the order in which Go visits the map.\<close>

fun TLSVersionName :: "(string, 16 word) gomap \<Rightarrow> 16 word \<Rightarrow> string" where
  "TLSVersionName [] version = ''unknown ('' @ show_nat (unat version) @ '')''"
| "TLSVersionName ((name, v) # m) version = (if v = version then name else TLSVersionName m version)"

section \<open>Waiting for the end\<close>

text \<open>
  The goroutine of the listener reports an error unless the server was closed; \<open>Start\<close> returns with the error or, when the context ends, with the
  result of the shutdown.  When both are ready either branch of the \<open>select\<close> may be taken.
\<close>

datatype listen_end = ErrServerClosed | ListenError string

datatype start_result = FailedToStart string | ShutDown "string option"

record server_run =
  sl_listening :: bool
  sl_errCh :: "string option"
  sl_ctxDone :: bool
  sl_returned :: "start_result option"

datatype server_event = Listener listen_end | CancelContext | SelectErr | SelectDone

definition server_started :: server_run where
  "server_started = \<lparr>sl_listening = True, sl_errCh = None, sl_ctxDone = False, sl_returned = None\<rparr>"

fun server_step :: "string option \<Rightarrow> server_event \<Rightarrow> server_run \<Rightarrow> server_run option" where
  "server_step shutdown (Listener e) st =
     (if sl_listening st
      then Some (st\<lparr>sl_listening := False, sl_errCh := (case e of ErrServerClosed \<Rightarrow> sl_errCh st | ListenError m \<Rightarrow> Some m)\<rparr>) else None)"
| "server_step shutdown CancelContext st = Some (st\<lparr>sl_ctxDone := True\<rparr>)"
| "server_step shutdown SelectErr st =
     (case (sl_returned st, sl_errCh st) of
        (None, Some m) \<Rightarrow> Some (st\<lparr>sl_errCh := None, sl_returned := Some (FailedToStart m)\<rparr>)
      | _ \<Rightarrow> None)"
| "server_step shutdown SelectDone st =
     (if sl_returned st = None \<and> sl_ctxDone st then Some (st\<lparr>sl_returned := Some (ShutDown shutdown)\<rparr>) else None)"

fun server_events :: "string option \<Rightarrow> server_event list \<Rightarrow> server_run \<Rightarrow> server_run option" where
  "server_events shutdown [] st = Some st"
| "server_events shutdown (e # es) st = (case server_step shutdown e st of None \<Rightarrow> None | Some st \<Rightarrow> server_events shutdown es st)"

text \<open>\<open>Start\<close> as a whole: it fails before it listens, or the events decide.\<close>

definition server_life :: "cert_lib \<Rightarrow> instant \<Rightarrow> WebhookServer \<Rightarrow> string option \<Rightarrow> server_event list \<Rightarrow> Webhook.start_error + server_run option" where
  "server_life lib now s shutdown es =
     (case Start lib now s of Inl err \<Rightarrow> Inl err | Inr _ \<Rightarrow> Inr (server_events shutdown es server_started))"

text \<open>\<open>Stop\<close> closes the listener; before \<open>Start\<close> there is no server and the call panics.\<close>

definition Stop :: "bool \<Rightarrow> string option \<Rightarrow> string option go" where
  "Stop has_server close = (if has_server then Ret close else Panic)"

definition handleHealth :: "int \<times> string" where
  "handleHealth = (200, ''OK'')"

section \<open>Properties\<close>

lemma server_events_append:
  "server_events sh (es @ fs) st = (case server_events sh es st of None \<Rightarrow> None | Some st \<Rightarrow> server_events sh fs st)"
  by (induction es arbitrary: st) (auto split: option.split)

definition life_inv :: "string option \<Rightarrow> server_event list \<Rightarrow> server_run \<Rightarrow> bool" where
  "life_inv sh es st \<longleftrightarrow>
     (sl_ctxDone st \<longleftrightarrow> CancelContext \<in> set es) \<and>
     (\<forall>m. sl_errCh st = Some m \<longrightarrow> Listener (ListenError m) \<in> set es) \<and>
     (\<forall>m. sl_returned st = Some (FailedToStart m) \<longrightarrow> Listener (ListenError m) \<in> set es) \<and>
     (\<forall>r. sl_returned st = Some (ShutDown r) \<longrightarrow> r = sh \<and> CancelContext \<in> set es) \<and>
     (sl_listening st \<longrightarrow> sl_errCh st = None \<and> (\<forall>e. Listener e \<notin> set es)) \<and>
     (sl_returned st = None \<longrightarrow> (\<forall>m. Listener (ListenError m) \<in> set es \<longrightarrow> sl_errCh st = Some m))"

lemma life_inv_start: "life_inv sh [] server_started"
  by (simp add: life_inv_def server_started_def)

lemma life_inv_step:
  assumes inv: "life_inv sh es st" and step: "server_step sh e st = Some st'"
  shows "life_inv sh (es @ [e]) st'"
proof (cases e)
  case (Listener x)
  with step have st': "st' = st\<lparr>sl_listening := False, sl_errCh := (case x of ErrServerClosed \<Rightarrow> sl_errCh st | ListenError m \<Rightarrow> Some m)\<rparr>"
    and l: "sl_listening st" by (simp_all split: if_splits)
  from inv l have "sl_errCh st = None" "\<And>y. Listener y \<notin> set es" unfolding life_inv_def by blast+
  with inv Listener show ?thesis unfolding st' life_inv_def by (cases x) simp_all
next
  case CancelContext
  with step have st': "st' = st\<lparr>sl_ctxDone := True\<rparr>" by simp
  show ?thesis unfolding st' life_inv_def CancelContext using inv [unfolded life_inv_def] by (simp (no_asm), blast)
next
  case SelectErr
  with step obtain m where st': "st' = st\<lparr>sl_errCh := None, sl_returned := Some (FailedToStart m)\<rparr>" and m: "sl_errCh st = Some m"
    by (auto split: option.splits)
  from inv m SelectErr show ?thesis unfolding st' life_inv_def by simp
next
  case SelectDone
  with step have st': "st' = st\<lparr>sl_returned := Some (ShutDown sh)\<rparr>" and d: "sl_ctxDone st" by (simp_all split: if_splits)
  from inv d SelectDone show ?thesis unfolding st' life_inv_def by simp
qed

lemma life_inv_run: "server_events sh es st = Some st' \<Longrightarrow> life_inv sh fs st \<Longrightarrow> life_inv sh (fs @ es) st'"
proof (induction es arbitrary: st fs)
  case (Cons e es)
  then obtain st1 where "server_step sh e st = Some st1" "server_events sh es st1 = Some st'" by (auto split: option.splits)
  with Cons.IH [OF _ life_inv_step [OF Cons.prems(2)]] show ?case by fastforce
qed simp

text \<open>
  The server that was started returns exactly for its two reasons, and misses neither.  It reports a failure only of an error of its
  listener, and the result of the shutdown only after its context has ended; and as long as it has not returned, an error of the listener and the
  end of the context are each enough to make it return.  A listener that was closed does not.
\<close>

theorem server_returns:
  assumes "server_life lib now s shutdown es = Inr (Some st)"
  shows "(\<forall>m. sl_returned st = Some (FailedToStart m) \<longrightarrow> Listener (ListenError m) \<in> set es) \<and>
    (\<forall>r. sl_returned st = Some (ShutDown r) \<longrightarrow> r = shutdown \<and> CancelContext \<in> set es) \<and>
    (sl_returned st = None \<longrightarrow>
       (server_step shutdown SelectErr st \<noteq> None \<longleftrightarrow> (\<exists>m. Listener (ListenError m) \<in> set es)) \<and>
       (server_step shutdown SelectDone st \<noteq> None \<longleftrightarrow> CancelContext \<in> set es))"
proof -
  from assms have "server_events shutdown es server_started = Some st" by (simp add: server_life_def split: sum.splits)
  from life_inv_run [OF this life_inv_start] have inv: "life_inv shutdown es st" by simp
  have err: "server_step shutdown SelectErr st \<noteq> None \<longleftrightarrow> sl_errCh st \<noteq> None"
    and stop: "server_step shutdown SelectDone st \<noteq> None \<longleftrightarrow> sl_ctxDone st" if "sl_returned st = None"
    using that by (simp_all split: option.split)
  from inv have "sl_ctxDone st \<longleftrightarrow> CancelContext \<in> set es" by (simp add: life_inv_def)
  moreover from inv have "sl_errCh st \<noteq> None \<longleftrightarrow> (\<exists>m. Listener (ListenError m) \<in> set es)" if "sl_returned st = None"
    using that unfolding life_inv_def by (metis not_None_eq)
  moreover from inv have "\<forall>m. sl_returned st = Some (FailedToStart m) \<longrightarrow> Listener (ListenError m) \<in> set es"
    "\<forall>r. sl_returned st = Some (ShutDown r) \<longrightarrow> r = shutdown \<and> CancelContext \<in> set es" by (simp_all add: life_inv_def)
  ultimately show ?thesis by (metis err stop)
qed

definition sample_cert_lib :: cert_lib where
  "sample_cert_lib = \<lparr>cl_Size = (\<lambda>_. None), cl_LoadX509KeyPair = (\<lambda>_ _. Inl ''none''), cl_generateSelfSignedCert = Inl ''none'', cl_suites = []\<rparr>"

definition sample_cert_crypto :: "unit cert_crypto" where
  "sample_cert_crypto = \<lparr>cy_GenerateKey = Inr (), cy_Int = (\<lambda>n. Inr (n - 1)), cy_CreateCertificate = (\<lambda>t k. Inr ''der''),
     cy_MarshalECPrivateKey = (\<lambda>k. Inr ''key''), cy_EncodeToMemory = (\<lambda>t d. d), cy_X509KeyPair = (\<lambda>c k. Inr c)\<rparr>"

theorem server_returns_witness:
  "\<exists>st. server_life (with_own_cert sample_cert_crypto 5 5 sample_cert_lib) 5 (SetupWebhookServer sample_webhook_config) None
        [Listener (ListenError ''address in use''), CancelContext] = Inr (Some st) \<and>
      server_step None SelectErr st \<noteq> None \<and> server_step None SelectDone st \<noteq> None"
proof -
  let ?es = "[Listener (ListenError ''address in use''), CancelContext]"
  let ?st = "\<lparr>sl_listening = False, sl_errCh = Some ''address in use'', sl_ctxDone = True, sl_returned = None\<rparr>"
  let ?lib = "with_own_cert sample_cert_crypto 5 5 sample_cert_lib"
  have "\<not> isl (Start ?lib 5 (SetupWebhookServer sample_webhook_config))" by code_simp
  then have run: "server_life ?lib 5 (SetupWebhookServer sample_webhook_config) None ?es = Inr (Some ?st)"
    by (auto simp: server_life_def server_started_def split: sum.splits)
  from server_returns [OF run] show ?thesis using run by auto
qed

text \<open>
  A server without certificate files serves with its own certificate: signed for the loopback names only, valid from now on for a year.
\<close>

lemma self_signed_start:
  assumes "Start (with_own_cert crypto now1 now2 lib) now s = Inr (ServeGenerated cfg cert)" "now1 \<le> now2"
  shows "\<not> certFilesExist lib (tc_CertFile (server_tls s)) (tc_KeyFile (server_tls s)) \<and>
    (\<exists>key serial der. cy_CreateCertificate crypto (self_signed_template serial now1 now2) key = Inr der \<and>
       validateCertValidity now2 [Some (ct_NotBefore (self_signed_template serial now1 now2), ct_NotAfter (self_signed_template serial now1 now2))] = None \<and>
       set (ct_DNSNames (self_signed_template serial now1 now2)) \<union> set (ct_IPAddresses (self_signed_template serial now1 now2)) = {''localhost'', ''127.0.0.1'', ''::1''})"
  using assms
  by (auto simp: Start_def Let_def with_own_cert_def certFilesExist_def generateSelfSignedCert_def self_signed_template_def one_year_def
      split: if_splits sum.splits option.splits)

text \<open>A name is one that is parsed to the version again, whatever the order of the map.\<close>

lemma TLSVersionName_found: "v \<in> snd ` set m \<Longrightarrow> (TLSVersionName m v, v) \<in> set m"
  by (induction m v rule: TLSVersionName.induct) auto

lemma version_name_roundtrip:
  assumes "set m = set tlsVersionMap" "v \<in> {VersionTLS11, VersionTLS12, VersionTLS13}"
  shows "ParseTLSVersion (TLSVersionName m v) = Inr v"
proof -
  have parsed: "\<forall>(name, x) \<in> set tlsVersionMap. ParseTLSVersion name = Inr x" by code_simp
  from assms have "v \<in> snd ` set m" by (auto simp: tlsVersionMap_def)
  from TLSVersionName_found [OF this] assms(1) parsed show ?thesis by auto
qed

end
