(* ===== verification/GitRemote.thy ===== *)
theory GitRemote
  imports GitClient
begin

text \<open>
  The git side of a write-back, third part (\<open>ext/git/client.go\<close>, \<open>ext/git/ssh.go\<close>, \<open>ext/git/workaround.go\<close>): how the remote repository is
  reached through go-git when its references are listed, with authentication and the verification of the server, and what is read from
  commits.  Private keys, known hosts, certificates, proxies and the sessions of go-git are parameters.
\<close>

section \<open>Authentication\<close>

record ('w, 's) remote_lib =
  rm_os :: "'w os_lib"
  rm_KnownHosts :: "string \<Rightarrow> git_error + (string \<Rightarrow> string list)"
  rm_endpoint :: "string \<Rightarrow> (string \<times> int) option"
  rm_ParsePrivateKey :: "string \<Rightarrow> git_error + string"
  rm_NewSSHAgentAuth :: "string \<Rightarrow> git_error option"
  rm_X509KeyPair :: "string \<Rightarrow> string \<Rightarrow> string option"
  rm_GetCertificateForConnect :: "string \<Rightarrow> git_error + string list"
  rm_GetCertPoolFromPEMData :: "string list \<Rightarrow> string list"
  rm_NewEndpoint :: "string \<Rightarrow> git_error + 's"
  rm_NewClient :: "'s \<Rightarrow> git_error option"

datatype host_check = KnownHostsFile string | InsecureIgnoreHostKey

text \<open>The authentication methods: a key, the agent, or user name and password.\<close>

datatype AuthMethod =
    PublicKeysWithOptions (am_User: string) (am_Signer: string) (am_HostKeyCallback: host_check) (am_HostKeyAlgorithms: "string list")
  | SSHAgentAuth (am_User: string) (am_HostKeyCallback: host_check) (am_HostKeyAlgorithms: "string list")
  | BasicAuth (am_Username: string) (am_Password: string)

definition resolveSSHHostKeyConfig :: "('w, 's) remote_lib \<Rightarrow> string \<Rightarrow> git_error + host_check \<times> string list" where
  "resolveSSHHostKeyConfig lib repoURL =
     (case rm_KnownHosts lib (SSHKnownHostsDataPath (rm_os lib)) of
        Inl err \<Rightarrow> Inl err
      | Inr algorithms \<Rightarrow>
          (let hostWithPort = SSHHostWithPort (rm_endpoint lib) repoURL
           in Inr (KnownHostsFile (SSHKnownHostsDataPath (rm_os lib)), if hostWithPort \<noteq> [] then algorithms hostWithPort else [])))"

definition buildSSHAuth :: "('w, 's) remote_lib \<Rightarrow> string \<Rightarrow> SSHCreds option \<Rightarrow> git_error + AuthMethod" where
  "buildSSHAuth lib repoURL creds =
     (let user = (case IsSSHURL repoURL of (isSSH, u) \<Rightarrow> if isSSH then u else [])
      in case creds of
           Some c \<Rightarrow>
             (if sc_insecure c then
                (case rm_ParsePrivateKey lib (sc_sshPrivateKey c) of
                   Inl err \<Rightarrow> Inl err
                 | Inr signer \<Rightarrow> Inr (PublicKeysWithOptions user signer InsecureIgnoreHostKey []))
              else
                (case resolveSSHHostKeyConfig lib repoURL of
                   Inl err \<Rightarrow> Inl (Wrapped ''could not set up SSH known hosts callback'' err)
                 | Inr (cb, algos) \<Rightarrow>
                     (case rm_ParsePrivateKey lib (sc_sshPrivateKey c) of
                        Inl err \<Rightarrow> Inl err
                      | Inr signer \<Rightarrow> Inr (PublicKeysWithOptions user signer cb algos))))
         | None \<Rightarrow>
             (case resolveSSHHostKeyConfig lib repoURL of
                Inl err \<Rightarrow> Inl (Wrapped ''could not set up SSH known hosts callback'' err)
              | Inr (cb, algos) \<Rightarrow>
                  (case rm_NewSSHAgentAuth lib user of Some err \<Rightarrow> Inl err | None \<Rightarrow> Inr (SSHAgentAuth user cb algos))))"

text \<open>Without a method go-git chooses its own; that is also what an SSH URL without credentials falls back to.\<close>

definition newAuth :: "('w, 's) remote_lib \<Rightarrow> string \<Rightarrow> Creds \<Rightarrow> ('w, AuthMethod option) io" where
  "newAuth lib repoURL creds =
     (case creds of
        SSH c \<Rightarrow> io_bind (io_lift (buildSSHAuth lib repoURL (Some c))) (\<lambda>a. io_return (Some a))
      | HTTPS c \<Rightarrow> io_return (Some (BasicAuth (if hc_username c = [] then ''x-access-token'' else hc_username c) (hc_password c)))
      | GitHubApp g \<Rightarrow> io_bind (gh_getAccessToken (rm_os lib) g) (\<lambda>token. io_return (Some (BasicAuth ''x-access-token'' token)))
      | GoogleCloud c \<Rightarrow>
          io_bind (io_wrap ''failed to get username from creds'' (io_lift (google_getUsername (rm_os lib) c))) (\<lambda>username.
            io_bind (io_wrap ''failed to get access token from creds'' (google_getAccessToken (rm_os lib) c)) (\<lambda>token.
              io_return (Some (BasicAuth username token))))
      | NopCreds \<Rightarrow>
          if fst (IsSSHURL repoURL)
          then io_return (case buildSSHAuth lib repoURL None of Inl _ \<Rightarrow> None | Inr a \<Rightarrow> Some a)
          else io_return None)"

section \<open>The HTTP client\<close>

record http_client =
  hl_InsecureSkipVerify :: bool
  hl_RootCAs :: "string list option"
  hl_Proxy :: string
  hl_ClientCert :: "string option"
  hl_FollowRedirects :: bool

definition HasClientCert :: "Creds \<Rightarrow> bool" where
  "HasClientCert creds =
     (case creds of
        HTTPS c \<Rightarrow> hc_clientCertData c \<noteq> [] \<and> hc_clientCertKey c \<noteq> []
      | GitHubApp g \<Rightarrow> ga_clientCertData g \<noteq> [] \<and> ga_clientCertKey g \<noteq> []
      | _ \<Rightarrow> False)"

definition client_cert :: "('w, 's) remote_lib \<Rightarrow> Creds \<Rightarrow> string option" where
  "client_cert lib creds =
     (if HasClientCert creds then
        (case creds of
           HTTPS c \<Rightarrow> rm_X509KeyPair lib (hc_clientCertData c) (hc_clientCertKey c)
         | GitHubApp g \<Rightarrow> rm_X509KeyPair lib (ga_clientCertData g) (ga_clientCertKey g)
         | _ \<Rightarrow> None)
      else None)"

definition GetRepoHTTPClient :: "('w, 's) remote_lib \<Rightarrow> string \<Rightarrow> bool \<Rightarrow> Creds \<Rightarrow> string \<Rightarrow> http_client" where
  "GetRepoHTTPClient lib repoURL insecure creds proxyURL =
     (let c = \<lparr>hl_InsecureSkipVerify = False, hl_RootCAs = None, hl_Proxy = proxyURL, hl_ClientCert = client_cert lib creds, hl_FollowRedirects = False\<rparr>
      in if insecure then c\<lparr>hl_InsecureSkipVerify := True\<rparr>
         else
           (case url_Parse (rm_os lib) repoURL of
              None \<Rightarrow> c
            | Some parsedURL \<Rightarrow>
                (case rm_GetCertificateForConnect lib (u_Host parsedURL) of
                   Inl _ \<Rightarrow> c
                 | Inr pem \<Rightarrow> if pem \<noteq> [] then c\<lparr>hl_RootCAs := Some (rm_GetCertPoolFromPEMData lib pem)\<rparr> else c)))"

section \<open>Listing references\<close>

text \<open>A transport of go-git is its own HTTP client, or the default one with a proxy for the endpoint.\<close>

datatype git_transport =
    HTTPTransport http_client
  | DefaultTransport (dt_InsecureSkipTLS: bool) (dt_Proxy: "(string \<times> string \<times> string) option")

definition newClient :: "('w, 's) remote_lib \<Rightarrow> string \<Rightarrow> bool \<Rightarrow> Creds \<Rightarrow> string \<Rightarrow> git_error + git_transport \<times> 's" where
  "newClient lib url insecure creds proxy =
     (case rm_NewEndpoint lib url of
        Inl err \<Rightarrow> Inl err
      | Inr ep \<Rightarrow>
          if \<not> IsHTTPSURL url \<and> \<not> IsHTTPURL url then
            (let dial = (\<lambda>p. case rm_NewClient lib ep of Some err \<Rightarrow> Inl err | None \<Rightarrow> Inr (DefaultTransport insecure p, ep)) in
             if proxy \<noteq> [] then
               (case url_Parse (rm_os lib) proxy of
                  None \<Rightarrow> Inl (Message ''failed to create client, error parsing proxy url'')
                | Some p \<Rightarrow>
                    (let (username, password) = (case u_User p of None \<Rightarrow> ([], []) | Some (u, pw) \<Rightarrow> (u, case pw of None \<Rightarrow> [] | Some x \<Rightarrow> x))
                     in dial (Some (u_Scheme p @ ''://'' @ u_Hostname p @ '':'' @ u_Port p, username, password))))
             else dial None)
          else Inr (HTTPTransport (GetRepoHTTPClient lib url insecure creds proxy), ep))"

text \<open>A session of go-git: opening it, reading the advertised references and closing it; the error of closing counts only without another one.\<close>

record ('w, 's) session_lib =
  se_Open :: "git_transport \<Rightarrow> 's \<Rightarrow> AuthMethod option \<Rightarrow> ('w, string) io"
  se_References :: "string \<Rightarrow> ('w, reference list) io"
  se_Close :: "string \<Rightarrow> ('w, unit) io"

definition newUploadPackSession ::
  "('w, 's) remote_lib \<Rightarrow> ('w, 's) session_lib \<Rightarrow> string \<Rightarrow> AuthMethod option \<Rightarrow> bool \<Rightarrow> Creds \<Rightarrow> string \<Rightarrow> ('w, string) io" where
  "newUploadPackSession lib sl url auth insecure creds proxy =
     io_bind (io_lift (newClient lib url insecure creds proxy)) (\<lambda>(c, ep). se_Open sl c ep auth)"

definition listRemote ::
  "('w, 's) remote_lib \<Rightarrow> ('w, 's) session_lib \<Rightarrow> string \<Rightarrow> AuthMethod option \<Rightarrow> bool \<Rightarrow> Creds \<Rightarrow> string \<Rightarrow> ('w, reference list) io" where
  "listRemote lib sl url auth insecure creds proxy =
     io_bind (newUploadPackSession lib sl url auth insecure creds proxy) (\<lambda>session w.
       case se_References sl session w of (r, w) \<Rightarrow>
         (case se_Close sl session w of (closed, w) \<Rightarrow>
            (case r of Inl err \<Rightarrow> (Inl err, w) | Inr refs \<Rightarrow> (case closed of Inl err \<Rightarrow> (Inl err, w) | Inr _ \<Rightarrow> (Inr refs, w)))))"

definition remote_list :: "('w, 's) remote_lib \<Rightarrow> ('w, 's) session_lib \<Rightarrow> string \<Rightarrow> Creds \<Rightarrow> bool \<Rightarrow> string \<Rightarrow> ('w, reference list) io" where
  "remote_list lib sl repoURL creds insecure proxy =
     io_bind (newAuth lib repoURL creds) (\<lambda>auth. listRemote lib sl repoURL auth insecure creds proxy)"

section \<open>Commits\<close>

text \<open>\<open>strings.Fields\<close>.\<close>

function fields_loop :: "string \<Rightarrow> string \<Rightarrow> string list" where
  "fields_loop field s =
     (if s = [] then (if field = [] then [] else [field])
      else if space_len s > 0 then (if field = [] then fields_loop [] (drop (space_len s) s) else field # fields_loop [] (drop (space_len s) s))
      else fields_loop (field @ [hd s]) (tl s))"
  by auto
termination by (relation "measure (\<lambda>(_, s). length s)") auto

declare fields_loop.simps [simp del]

record RevisionMeta =
  rmd_Author :: string
  rmd_Date :: int
  rmd_Tags :: "string list"
  rmd_Message :: string

definition RevisionMetadata :: "'w git_lib \<Rightarrow> nativeGitClient \<Rightarrow> string \<Rightarrow> ('w, RevisionMeta) io" where
  "RevisionMetadata lib m revision =
     io_bind (runCmd lib m [''show'', ''-s'', ''--format=%an <%ae>|%at|%B'', revision]) (\<lambda>out.
       case strings_SplitN out CHR ''|'' 3 of
         [author, stamp, message] \<Rightarrow>
           io_bind (runCmd lib m [''tag'', ''--points-at'', revision]) (\<lambda>out.
             io_return \<lparr>rmd_Author = author, rmd_Date = (case strconv_Atoi stamp of Some n \<Rightarrow> n | None \<Rightarrow> atoi_error_value stamp),
                        rmd_Tags = fields_loop [] out, rmd_Message = strings_TrimSpace message\<rparr>)
       | _ \<Rightarrow> io_fail (Message ''expected 3 segments''))"

definition runGnuPGWrapper :: "'w git_lib \<Rightarrow> string \<Rightarrow> nativeGitClient \<Rightarrow> string \<Rightarrow> string list \<Rightarrow> ('w, string) io" where
  "runGnuPGWrapper lib gnupgHome m wrapper args = runCmdOutput lib m wrapper args [''GNUPGHOME='' @ gnupgHome, ''LANG=C'']"

definition VerifyCommitSignature :: "'w git_lib \<Rightarrow> string \<Rightarrow> nativeGitClient \<Rightarrow> string \<Rightarrow> ('w, string) io" where
  "VerifyCommitSignature lib gnupgHome m revision = runGnuPGWrapper lib gnupgHome m ''git-verify-wrapper.sh'' [revision]"

text \<open>
  The globbing variant of \<open>LsFiles\<close>: the files that match, without those that lead out of the repository; the test is a prefix of the text.
  Matching and resolving of links are parameters.
\<close>

fun inside_files :: "(string \<Rightarrow> git_error + string) \<Rightarrow> string \<Rightarrow> string list \<Rightarrow> git_error + string list" where
  "inside_files evalAbs root [] = Inr []"
| "inside_files evalAbs root (file # files) =
     (case evalAbs file of
        Inl err \<Rightarrow> Inl err
      | Inr absPath \<Rightarrow>
          (case inside_files evalAbs root files of
             Inl err \<Rightarrow> Inl err
           | Inr rest \<Rightarrow> Inr (if strings_HasPrefix absPath root then file # rest else rest)))"

definition LsFiles_globbing :: "(string \<Rightarrow> git_error option) \<Rightarrow> (string \<Rightarrow> git_error + string list) \<Rightarrow> (string \<Rightarrow> git_error + string) \<Rightarrow> nativeGitClient \<Rightarrow> string \<Rightarrow> git_error + string list" where
  "LsFiles_globbing chdir glob evalAbs m path =
     (case chdir (nc_root m) of
        Some err \<Rightarrow> Inl err
      | None \<Rightarrow> (case glob path of Inl err \<Rightarrow> Inl err | Inr all_files \<Rightarrow> inside_files evalAbs (nc_root m) all_files))"

section \<open>The server is verified\<close>

definition ignores_host_key :: "AuthMethod option \<Rightarrow> bool" where
  "ignores_host_key auth \<longleftrightarrow> (case auth of Some (PublicKeysWithOptions _ _ cb _) \<Rightarrow> cb = InsecureIgnoreHostKey | Some (SSHAgentAuth _ cb _) \<Rightarrow> cb = InsecureIgnoreHostKey | _ \<Rightarrow> False)"

lemma resolveSSHHostKeyConfig_file:
  "resolveSSHHostKeyConfig lib url = Inr (cb, algos) \<Longrightarrow> cb = KnownHostsFile (SSHKnownHostsDataPath (rm_os lib))"
  by (auto simp: resolveSSHHostKeyConfig_def Let_def split: sum.split_asm)

lemma buildSSHAuth_checks:
  assumes "buildSSHAuth lib url creds = Inr a" "\<And>c. creds = Some c \<Longrightarrow> \<not> sc_insecure c"
  shows "am_HostKeyCallback a = KnownHostsFile (SSHKnownHostsDataPath (rm_os lib)) \<and> (\<forall>u p. a \<noteq> BasicAuth u p)"
  using assms resolveSSHHostKeyConfig_file [of lib url]
  by (cases creds) (auto simp: buildSSHAuth_def Let_def split: sum.split_asm if_split_asm option.split_asm prod.split_asm)

lemma newAuth_method:
  assumes "newAuth lib url creds w = (Inr (Some a), w')" "ignores_host_key (Some a)"
  shows "\<exists>c. creds = SSH c \<and> sc_insecure c"
proof (rule ccontr)
  assume safe: "\<not> (\<exists>c. creds = SSH c \<and> sc_insecure c)"
  consider (ssh) c where "creds = SSH c" "buildSSHAuth lib url (Some c) = Inr a" | (agent) "buildSSHAuth lib url None = Inr a" | (basic) u p where "a = BasicAuth u p"
    using assms(1) by (cases creds) (auto simp: newAuth_def io_defs split: sum.split_asm prod.split_asm if_split_asm)
  then show False
  proof cases
    case (ssh c)
    with safe buildSSHAuth_checks [OF ssh(2)] assms(2) show False by (cases a) (auto simp: ignores_host_key_def)
  next
    case agent
    with buildSSHAuth_checks [OF agent] assms(2) show False by (cases a) (auto simp: ignores_host_key_def)
  next
    case basic
    with assms(2) show False by (simp add: ignores_host_key_def)
  qed
qed

text \<open>
  The server of a repository is verified unless the configuration says otherwise.  Listing references opens a session, if any, with an authentication
  that checks the host against the managed file of known hosts except for insecure SSH credentials, and with a transport whose
  certificate check is off only for an insecure repository; redirects are never followed by the HTTP client.
\<close>

theorem remote_server_verified:
  assumes "newAuth lib url creds w = (Inr auth, w')" "newClient lib url insecure creds proxy = Inr (c, ep)"
  shows "(ignores_host_key auth \<longrightarrow> (\<exists>sc. creds = SSH sc \<and> sc_insecure sc)) \<and>
    (case c of HTTPTransport h \<Rightarrow> hl_InsecureSkipVerify h = insecure \<and> \<not> hl_FollowRedirects h \<and> (insecure \<longrightarrow> hl_RootCAs h = None)
     | DefaultTransport skip _ \<Rightarrow> skip = insecure \<and> \<not> IsHTTPSURL url \<and> \<not> IsHTTPURL url)"
proof
  show "ignores_host_key auth \<longrightarrow> (\<exists>sc. creds = SSH sc \<and> sc_insecure sc)"
    using assms(1) newAuth_method [of lib url creds w] by (cases auth) (auto simp: ignores_host_key_def)
  have "hl_InsecureSkipVerify (GetRepoHTTPClient lib url insecure creds proxy) = insecure \<and> \<not> hl_FollowRedirects (GetRepoHTTPClient lib url insecure creds proxy) \<and>
      (insecure \<longrightarrow> hl_RootCAs (GetRepoHTTPClient lib url insecure creds proxy) = None)"
    by (simp add: GetRepoHTTPClient_def Let_def split: option.split sum.split)
  with assms(2) show "case c of HTTPTransport h \<Rightarrow> hl_InsecureSkipVerify h = insecure \<and> \<not> hl_FollowRedirects h \<and> (insecure \<longrightarrow> hl_RootCAs h = None)
     | DefaultTransport skip _ \<Rightarrow> skip = insecure \<and> \<not> IsHTTPSURL url \<and> \<not> IsHTTPURL url"
    by (auto simp: newClient_def split: sum.split_asm if_split_asm option.split_asm prod.split_asm)
qed

section \<open>What is read from commits\<close>

text \<open>
  The author, the time and the message of a commit are read back from the line that git prints, also with bars in the message, provided that
  the author's name and address have none.
\<close>

theorem revision_metadata_read_back:
  assumes "runCmd lib m [''show'', ''-s'', ''--format=%an <%ae>|%at|%B'', revision] w = (Inr (author @ ''|'' @ stamp @ ''|'' @ message), w1)"
    and "runCmd lib m [''tag'', ''--points-at'', revision] w1 = (Inr tags, w2)"
    and "CHR ''|'' \<notin> set author" "CHR ''|'' \<notin> set stamp" "strconv_Atoi stamp = Some date"
  shows "RevisionMetadata lib m revision w =
    (Inr \<lparr>rmd_Author = author, rmd_Date = date, rmd_Tags = fields_loop [] tags, rmd_Message = strings_TrimSpace message\<rparr>, w2)"
proof -
  have cut: "strings_Cut (xs @ CHR ''|'' # ys) CHR ''|'' = (xs, ys, True)" if "CHR ''|'' \<notin> set xs" for xs ys
  proof -
    have "takeWhile (\<lambda>c. c \<noteq> CHR ''|'') (xs @ CHR ''|'' # ys) = xs" "dropWhile (\<lambda>c. c \<noteq> CHR ''|'') (xs @ CHR ''|'' # ys) = CHR ''|'' # ys"
      using that by (induction xs) auto
    then show ?thesis by (simp add: strings_Cut_def)
  qed
  have "strings_SplitN (author @ ''|'' @ stamp @ ''|'' @ message) CHR ''|'' 3 = [author, stamp, message]"
    using cut [OF assms(3)] cut [OF assms(4)] by (simp add: numeral_3_eq_3)
  with assms(1,2,5) show ?thesis by (simp add: RevisionMetadata_def io_defs)
qed

text \<open>With a bar in the author's name the parts are mixed up, and the error of parsing the time is dropped.\<close>

theorem author_with_bar_misread:
  "strings_SplitN ''A|B <a@b>|1700000000|fix'' CHR ''|'' 3 = [''A'', ''B <a@b>'', ''1700000000|fix'']" "strconv_Atoi ''B <a@b>'' = None"
  "atoi_error_value ''B <a@b>'' = 0"
  by (simp_all add: numeral_3_eq_3 strings_Cut_def strconv_Atoi_def atoi_error_value_def is_digit_def less_eq_char_def)

text \<open>The test whether a file lies in the repository accepts a neighbour whose name continues the repository's.\<close>

theorem neighbour_accepted:
  "inside_files (\<lambda>f. Inr (''/work/repo-secrets/'' @ f)) ''/work/repo'' [''key.yaml''] = Inr [''key.yaml'']"
  by code_simp

section \<open>A concrete remote\<close>

definition sample_remote :: "(sys, string) remote_lib" where
  "sample_remote =
     \<lparr>rm_os = sample_os, rm_KnownHosts = (\<lambda>_. Inr (\<lambda>_. [''ssh-ed25519''])), rm_endpoint = (\<lambda>_. Some (''git.example'', 22)),
      rm_ParsePrivateKey = Inr, rm_NewSSHAgentAuth = (\<lambda>_. None), rm_X509KeyPair = (\<lambda>_ _. None), rm_GetCertificateForConnect = (\<lambda>_. Inr []),
      rm_GetCertPoolFromPEMData = (\<lambda>p. p), rm_NewEndpoint = Inr, rm_NewClient = (\<lambda>_. None)\<rparr>"

theorem remote_server_verified_witness:
  "\<not> ignores_host_key (Some (PublicKeysWithOptions ''git'' ''key'' (KnownHostsFile (SSHKnownHostsDataPath sample_os)) [''ssh-ed25519'']))"
proof -
  let ?creds = "SSH \<lparr>sc_sshPrivateKey = ''key'', sc_caPath = [], sc_insecure = False, sc_proxy = []\<rparr>"
  have auth: "newAuth sample_remote ''git@git.example:repo'' ?creds w =
    (Inr (Some (PublicKeysWithOptions ''git'' ''key'' (KnownHostsFile (SSHKnownHostsDataPath sample_os)) [''ssh-ed25519''])), w)" for w
  proof -
    have "buildSSHAuth sample_remote ''git@git.example:repo'' (Some \<lparr>sc_sshPrivateKey = ''key'', sc_caPath = [], sc_insecure = False, sc_proxy = []\<rparr>) =
      Inr (PublicKeysWithOptions ''git'' ''key'' (KnownHostsFile (SSHKnownHostsDataPath sample_os)) [''ssh-ed25519''])" by code_simp
    then show ?thesis by (simp add: newAuth_def io_defs)
  qed
  have "newClient sample_remote ''git@git.example:repo'' False ?creds [] = Inr (DefaultTransport False None, ''git@git.example:repo'')" by code_simp
  from remote_server_verified [OF auth this] show ?thesis by auto
qed

end
