(* ===== verification/KubeClients.thy ===== *)
theory KubeClients
  imports Startup GitRemote RequestContext
begin

text \<open>
  Clients, events and settings: the construction of the Kubernetes clients and the event that announces an update (\<open>pkg/kube\<close>,
  \<open>registry-scanner/pkg/kube\<close>, \<open>pkg/argocd/util.go\<close>), the version (\<open>pkg/version\<close>, \<open>cmd/version.go\<close>), the time limits of git commands
  (\<open>ext/git/exec.go\<close>), the SSH client of go-git (\<open>ext/git/ssh.go\<close>) and the test of a repository (\<open>ext/git/git.go\<close>).  The loader of
  configurations and the constructors of client-go are parameters.
\<close>

section \<open>Kubernetes clients\<close>

record ('cfg, 'cs, 'as) client_go =
  kc_ClientConfig :: "string \<Rightarrow> string + 'cfg"
  kc_ConfigNamespace :: "string \<Rightarrow> string + string"
  kc_NewForConfig :: "'cfg \<Rightarrow> string + 'cs"
  kc_ApplicationsNewForConfig :: "'cfg \<Rightarrow> string + 'as"

record 'cs KubernetesClient =
  kn_Clientset :: 'cs
  kn_Namespace :: string

record ('cs, 'as) ImageUpdaterKubernetesClient =
  iu_ApplicationsClientset :: 'as
  iu_KubeClient :: "'cs KubernetesClient"

definition NewKubernetesClient :: "'cs \<Rightarrow> string \<Rightarrow> 'cs KubernetesClient" where
  "NewKubernetesClient client namespace = \<lparr>kn_Clientset = client, kn_Namespace = namespace\<rparr>"

definition NewKubernetesClientFromConfig :: "('cfg, 'cs, 'as) client_go \<Rightarrow> string \<Rightarrow> string \<Rightarrow> string + 'cs KubernetesClient" where
  "NewKubernetesClientFromConfig lib namespace kubeconfig =
     (case kc_ClientConfig lib kubeconfig of
        Inl err \<Rightarrow> Inl err
      | Inr config \<Rightarrow>
          (case (if namespace = [] then kc_ConfigNamespace lib kubeconfig else Inr namespace) of
             Inl err \<Rightarrow> Inl err
           | Inr namespace \<Rightarrow>
               (case kc_NewForConfig lib config of
                  Inl err \<Rightarrow> Inl err
                | Inr clientset \<Rightarrow> Inr (NewKubernetesClient clientset namespace))))"

definition NewImageUpdaterKubernetesClient ::
  "('cfg, 'cs, 'as) client_go \<Rightarrow> string \<Rightarrow> string \<Rightarrow> string + ('cs, 'as) ImageUpdaterKubernetesClient"
where
  "NewImageUpdaterKubernetesClient lib kubeConfig namespace =
     (case kc_ClientConfig lib kubeConfig of
        Inl err \<Rightarrow> Inl err
      | Inr config \<Rightarrow>
          (case (if namespace = [] then kc_ConfigNamespace lib kubeConfig else Inr namespace) of
             Inl err \<Rightarrow> Inl err
           | Inr namespace \<Rightarrow>
               (case kc_NewForConfig lib config of
                  Inl err \<Rightarrow> Inl err
                | Inr clientset \<Rightarrow>
                    (case kc_ApplicationsNewForConfig lib config of
                       Inl err \<Rightarrow> Inl err
                     | Inr apps \<Rightarrow> Inr \<lparr>iu_ApplicationsClientset = apps, iu_KubeClient = NewKubernetesClient clientset namespace\<rparr>))))"

definition GetKubeConfig :: "('cfg, 'cs, 'as) client_go \<Rightarrow> string \<Rightarrow> string \<Rightarrow> string + ('cs, 'as) ImageUpdaterKubernetesClient" where
  "GetKubeConfig lib namespace kubeConfig =
     (case NewImageUpdaterKubernetesClient lib kubeConfig namespace of Inl err \<Rightarrow> Inl err | Inr kubeClient \<Rightarrow> Inr kubeClient)"

text \<open>
  Both constructors agree: the client of the updater holds the client that the scanner builds from the same file, a namespace that was asked for is kept,
  and the client for applications belongs to the same configuration.
\<close>

lemma clients_agree:
  assumes "GetKubeConfig lib namespace kubeConfig = Inr c"
  shows "NewKubernetesClientFromConfig lib namespace kubeConfig = Inr (iu_KubeClient c) \<and>
    (namespace \<noteq> [] \<longrightarrow> kn_Namespace (iu_KubeClient c) = namespace) \<and>
    (\<exists>config. kc_ClientConfig lib kubeConfig = Inr config \<and> kc_NewForConfig lib config = Inr (kn_Clientset (iu_KubeClient c)) \<and>
      kc_ApplicationsNewForConfig lib config = Inr (iu_ApplicationsClientset c))"
  using assms
  by (auto simp: GetKubeConfig_def NewImageUpdaterKubernetesClient_def NewKubernetesClientFromConfig_def NewKubernetesClient_def
      split: sum.splits if_splits)

section \<open>Events\<close>

text \<open>\<open>%x\<close> of a number that is not negative.\<close>

definition nibble_char :: "nat \<Rightarrow> char" where
  "nibble_char n = ''0123456789abcdef'' ! n"

fun show_hex :: "nat \<Rightarrow> string" where
  "show_hex n = (if n < 16 then [nibble_char n] else show_hex (n div 16) @ [nibble_char (n mod 16)])"

declare show_hex.simps [simp del]

record kube_app =
  ka_Kind :: string
  ka_APIVersion :: string
  ka_Name :: string
  ka_Namespace :: string
  ka_ResourceVersion :: string
  ka_UID :: string

record kube_event =
  ev_Name :: string
  ev_Namespace :: string
  ev_Annotations :: "(string, string) gomap"
  ev_Component :: string
  ev_InvolvedObject :: kube_app
  ev_FirstTimestamp :: nat
  ev_LastTimestamp :: nat
  ev_Count :: int
  ev_Message :: string
  ev_Type :: string
  ev_Reason :: string

text \<open>The event at a time in nanoseconds; the names of the annotations and the text come from the update.\<close>

definition application_event :: "nat \<Rightarrow> kube_app \<Rightarrow> string \<Rightarrow> string \<Rightarrow> (string, string) gomap \<Rightarrow> kube_event" where
  "application_event t app reason message annotations =
     \<lparr>ev_Name = ka_Name app @ ''.'' @ show_hex t, ev_Namespace = ka_Namespace app, ev_Annotations = annotations,
      ev_Component = ''ArgocdImageUpdater'', ev_InvolvedObject = app, ev_FirstTimestamp = t, ev_LastTimestamp = t, ev_Count = 1,
      ev_Message = message, ev_Type = ''Normal'', ev_Reason = reason\<rparr>"

text \<open>The API of events: creating one in a namespace gives an error or the stored event.\<close>

definition CreateApplicationEvent ::
  "(string \<Rightarrow> kube_event \<Rightarrow> 'w \<Rightarrow> (string + kube_event) \<times> 'w) \<Rightarrow> nat \<Rightarrow> kube_app \<Rightarrow> string \<Rightarrow> string \<Rightarrow> (string, string) gomap \<Rightarrow> 'w \<Rightarrow>
   (string + kube_event) \<times> 'w"
where
  "CreateApplicationEvent create t app reason message annotations w =
     (case create (ka_Namespace app) (application_event t app reason message annotations) w of
        (Inl err, w) \<Rightarrow> (Inl err, w)
      | (Inr result, w) \<Rightarrow> (Inr result, w))"

lemma nibble_char_inj: "m < 16 \<Longrightarrow> n < 16 \<Longrightarrow> nibble_char m = nibble_char n \<Longrightarrow> m = n"
proof -
  have "distinct ''0123456789abcdef''" "length ''0123456789abcdef'' = 16" by simp_all
  then show "m < 16 \<Longrightarrow> n < 16 \<Longrightarrow> nibble_char m = nibble_char n \<Longrightarrow> m = n" unfolding nibble_char_def by (metis nth_eq_iff_index_eq)
qed

lemma nibble_char_not_dot: "n < 16 \<Longrightarrow> nibble_char n \<noteq> CHR ''.''"
proof -
  assume "n < 16"
  then have "nibble_char n \<in> set ''0123456789abcdef''" unfolding nibble_char_def by (intro nth_mem) simp
  then show ?thesis by auto
qed

lemma show_hex_no_dot: "CHR ''.'' \<notin> set (show_hex n)"
proof (induction n rule: show_hex.induct)
  case (1 n)
  have "nibble_char n \<noteq> CHR ''.''" if "n < 16" using that by (rule nibble_char_not_dot)
  moreover have "nibble_char (n mod 16) \<noteq> CHR ''.''" by (rule nibble_char_not_dot) simp
  ultimately show ?case using 1 by (subst show_hex.simps) auto
qed

lemma show_hex_nonempty [simp]: "show_hex n \<noteq> []" "[] \<noteq> show_hex n"
  by (subst show_hex.simps, simp)+

lemma show_hex_step: "\<not> n < 16 \<Longrightarrow> show_hex n = show_hex (n div 16) @ [nibble_char (n mod 16)]"
  by (subst show_hex.simps) simp

lemma show_nibble_char: "n < 16 \<Longrightarrow> show_hex n = [nibble_char n]"
  by (subst show_hex.simps) simp

lemma show_hex_inj: "show_hex m = show_hex n \<Longrightarrow> m = n"
proof (induction m arbitrary: n rule: show_hex.induct)
  case (1 m)
  show ?case
  proof (cases "m < 16"; cases "n < 16")
    assume "m < 16" "n < 16"
    with "1.prems" nibble_char_inj show ?thesis by (simp add: show_nibble_char)
  next
    assume d: "\<not> m < 16" "\<not> n < 16"
    with "1.prems" have "show_hex (m div 16) = show_hex (n div 16)" "nibble_char (m mod 16) = nibble_char (n mod 16)"
      by (simp_all add: show_hex_step)
    with "1.IH" [OF d(1)] nibble_char_inj [of "m mod 16" "n mod 16"] have "m div 16 = n div 16" "m mod 16 = n mod 16" by simp_all
    then show ?thesis by (metis div_mult_mod_eq)
  qed (use "1.prems" in \<open>simp_all add: show_nibble_char show_hex_step show_hex_nonempty\<close>)
qed

lemma last_dot_unique:
  assumes "a @ ''.'' @ x = b @ ''.'' @ y" "CHR ''.'' \<notin> set x" "CHR ''.'' \<notin> set y"
  shows "a = b \<and> x = y"
proof -
  have dot: "takeWhile (\<lambda>c. c \<noteq> CHR ''.'') (rev (b @ ''.'' @ z)) = rev z" if "CHR ''.'' \<notin> set z" for b z
    using that by (subst rev_append, subst rev_append, subst append.assoc, subst takeWhile_append2) auto
  from dot [OF assms(2), of a] dot [OF assms(3), of b] assms(1) have "rev x = rev y" by (metis (no_types, lifting))
  with assms(1) show ?thesis by simp
qed

text \<open>
  Events do not overwrite each other: two events have the same name in the same namespace only if they are about the same application and
  were made at the same nanosecond.
\<close>

theorem event_names_distinct:
  "ev_Name (application_event t app r m as) = ev_Name (application_event t' app' r' m' as') \<longleftrightarrow> ka_Name app = ka_Name app' \<and> t = t'"
  using last_dot_unique [of "ka_Name app" "show_hex t" "ka_Name app'" "show_hex t'"] show_hex_no_dot show_hex_inj
  by (auto simp: application_event_def)

section \<open>Text for the log\<close>

definition GetPrintableInterval :: "int \<Rightarrow> string" where
  "GetPrintableInterval interval = (if interval = 0 then ''once'' else duration_String interval)"

definition GetPrintableHealthPort :: "int \<Rightarrow> string" where
  "GetPrintableHealthPort port = (if port = 0 then ''off'' else show_int port)"

lemma digit_chars:
  "char_of (48 :: nat) = CHR ''0''" "char_of (49 :: nat) = CHR ''1''" "char_of (50 :: nat) = CHR ''2''" "char_of (51 :: nat) = CHR ''3''"
  "char_of (53 :: nat) = CHR ''5''"
  by code_simp+

lemma printable_intervals:
  "GetPrintableInterval 120000000000 = ''2m0s''" "GetPrintableInterval 5400500000000 = ''1h30m0.5s''" "GetPrintableInterval 0 = ''once''"
  "GetPrintableInterval (- 1500) = ''-1.5'' @ [CHR 0xC2, CHR 0xB5, CHR ''s'']"
  by (simp_all add: GetPrintableInterval_def duration_String_def fmtUnits_def fmtFrac_def show_nat.simps digit_chars Let_def)

text \<open>The fields of a logger as a list of keys and values, for the other kind of logger.\<close>

fun logrusFieldsToLogrValues :: "(string, go_any) gomap \<Rightarrow> go_any list" where
  "logrusFieldsToLogrValues [] = []"
| "logrusFieldsToLogrValues ((key, val) # m) = AString key # val # logrusFieldsToLogrValues m"

fun logr_pairs :: "go_any list \<Rightarrow> (string, go_any) gomap" where
  "logr_pairs (AString k # v # vs) = (k, v) # logr_pairs vs"
| "logr_pairs vs = []"

lemma logr_roundtrip: "logr_pairs (logrusFieldsToLogrValues m) = m \<and> length (logrusFieldsToLogrValues m) = 2 * length m"
  by (induction m rule: logrusFieldsToLogrValues.induct) auto

section \<open>The version\<close>

text \<open>What the linker puts into the program.\<close>

record build_info =
  bi_version :: string
  bi_buildDate :: string
  bi_gitCommit :: string
  bi_binaryName :: string

definition default_build :: build_info where
  "default_build = \<lparr>bi_version = ''9.9.99'', bi_buildDate = ''1970-01-01T00:00:00Z'', bi_gitCommit = ''unknown'', bi_binaryName = ''argocd-image-updater''\<rparr>"

definition Version :: "build_info \<Rightarrow> string go" where
  "Version b = (if length (bi_gitCommit b) < 7 then Panic else Ret (''v'' @ bi_version b @ ''+'' @ take 7 (bi_gitCommit b)))"

definition Useragent :: "build_info \<Rightarrow> string go" where
  "Useragent b = go_bind (Version b) (\<lambda>v. Ret (bi_binaryName b @ '': '' @ v))"

record go_runtime =
  rt_Version :: string
  rt_GOOS :: string
  rt_GOARCH :: string
  rt_Compiler :: string

definition GoPlatform :: "go_runtime \<Rightarrow> string" where
  "GoPlatform rt = rt_GOOS rt @ ''/'' @ rt_GOARCH rt"

definition version_command :: "build_info \<Rightarrow> go_runtime \<Rightarrow> bool \<Rightarrow> string list go" where
  "version_command b rt short =
     (if \<not> short
      then go_bind (Useragent b) (\<lambda>agent.
             Ret [agent, ''  BuildDate: '' @ bi_buildDate b, ''  GitCommit: '' @ bi_gitCommit b, ''  GoVersion: '' @ rt_Version rt,
                  ''  GoCompiler: '' @ rt_Compiler rt, ''  Platform: '' @ GoPlatform rt])
      else go_bind (Version b) (\<lambda>v. Ret [v]))"

text \<open>The command needs seven characters of the commit, as the default has them, and panics with fewer.\<close>

lemma version_command_total: "(\<exists>out. version_command b rt short = Ret out) \<longleftrightarrow> 7 \<le> length (bi_gitCommit b)"
  by (auto simp: version_command_def Useragent_def Version_def)

lemma default_version: "Useragent default_build = Ret ''argocd-image-updater: v9.9.99+unknown''"
  by code_simp

section \<open>Settings of the git client\<close>

text \<open>The time limits of commands, from the environment; \<open>parse\<close> is \<open>time.ParseDuration\<close>.\<close>

definition exec_timeout :: "(string \<Rightarrow> int option) \<Rightarrow> getenv \<Rightarrow> string \<Rightarrow> int \<Rightarrow> int" where
  "exec_timeout parse getEnv var seconds = (case parse (getEnv var) of None \<Rightarrow> seconds * 10 ^ 9 | Some d \<Rightarrow> d)"

definition exec_init :: "(string \<Rightarrow> int option) \<Rightarrow> getenv \<Rightarrow> int \<times> int" where
  "exec_init parse getEnv = (exec_timeout parse getEnv ''ARGOCD_EXEC_TIMEOUT'' 90, exec_timeout parse getEnv ''ARGOCD_EXEC_FATAL_TIMEOUT'' 10)"

record ssh_ClientConfig =
  cc_KeyExchanges :: "string list"
  cc_User :: string
  cc_Signer :: string
  cc_HostKeyAlgorithms :: "string list"
  cc_HostKeyCallback :: host_check

definition SupportedSSHKeyExchangeAlgorithms :: "string list" where
  "SupportedSSHKeyExchangeAlgorithms =
     [''curve25519-sha256'', ''curve25519-sha256@libssh.org'', ''ecdh-sha2-nistp256'', ''ecdh-sha2-nistp384'', ''ecdh-sha2-nistp521'',
      ''diffie-hellman-group-exchange-sha256'', ''diffie-hellman-group14-sha256'', ''diffie-hellman-group14-sha1'']"

definition ClientConfig :: "string list \<Rightarrow> string \<Rightarrow> string \<Rightarrow> host_check \<Rightarrow> string list \<Rightarrow> ssh_ClientConfig" where
  "ClientConfig kexAlgorithms user signer cb hostKeyAlgorithms =
     \<lparr>cc_KeyExchanges = (if length kexAlgorithms > 0 then kexAlgorithms else SupportedSSHKeyExchangeAlgorithms), cc_User = user, cc_Signer = signer,
      cc_HostKeyAlgorithms = (if length hostKeyAlgorithms > 0 then hostKeyAlgorithms else []), cc_HostKeyCallback = cb\<rparr>"

definition TestRepo ::
  "'w git_lib \<Rightarrow> string \<Rightarrow> nat \<Rightarrow> string \<Rightarrow> Creds \<Rightarrow> bool \<Rightarrow> bool \<Rightarrow> string \<Rightarrow> 'w \<Rightarrow> git_error option \<times> 'w"
where
  "TestRepo lib tempDir attempts repo creds insecure enableLfs proxy w =
     (case GitClient.NewClient lib tempDir repo creds insecure enableLfs proxy of
        Inl err \<Rightarrow> (Some err, w)
      | Inr clnt \<Rightarrow> (case LsRemote lib clnt attempts ''HEAD'' w of (Inl err, w) \<Rightarrow> (Some err, w) | (Inr _, w) \<Rightarrow> (None, w)))"

section \<open>The event of an update\<close>

text \<open>
  The API of events as an update uses it: the clock, what Kubernetes knows of an application, and the creation of an event.  An event that
  cannot be created is only a warning.
\<close>

record 'w event_api =
  ea_now :: "'w \<Rightarrow> nat"
  ea_object :: "Application \<Rightarrow> kube_app"
  ea_create :: "string \<Rightarrow> kube_event \<Rightarrow> 'w \<Rightarrow> (string + kube_event) \<times> 'w"

definition announce :: "'w event_api \<Rightarrow> Application \<Rightarrow> string \<Rightarrow> (string \<times> string) list \<Rightarrow> 'w \<Rightarrow> 'w" where
  "announce api app message annotations w =
     snd (CreateApplicationEvent (ea_create api) (ea_now api w) (ea_object api app) ''ImagesUpdated'' message annotations w)"

definition with_events :: "'w event_api \<Rightarrow> ('s, 'v, 'c, 'k, 'w) UpdateConfiguration \<Rightarrow> ('s, 'v, 'c, 'k, 'w) UpdateConfiguration" where
  "with_events api conf = conf\<lparr>uc_CreateEvent := announce api\<rparr>"

abbreviation change_key :: "nat \<Rightarrow> string \<Rightarrow> string" where
  "change_key i k \<equiv> ''argocd-image-updater.image-'' @ show_nat i @ ''/'' @ k"

lemma change_key_inj: "change_key i k = change_key j l \<longleftrightarrow> i = j \<and> k = l"
proof
  have sep: "CHR ''/'' \<notin> set (show_nat n)" for n using show_nat_digits [of "CHR ''/''" n] by auto
  assume "change_key i k = change_key j l"
  then have "show_nat i @ CHR ''/'' # k = show_nat j @ CHR ''/'' # l" by simp
  from first_sep_eq [OF this sep sep] show_nat_inj show "i = j \<and> k = l" by blast
qed simp

lemma event_annotations_later: "event_annotations i cs = Ret as \<Longrightarrow> j < i \<Longrightarrow> map_of as (change_key j k) = None"
proof (induction i cs arbitrary: as rule: event_annotations.induct)
  case (2 i c cs)
  then obtain t r where "new_tag c = Ret t" "event_annotations (Suc i) cs = Ret r"
    "as = [(change_key i ''full-image-name'', GetFullNameWithoutTag (ce_Image c)), (change_key i ''image-name'', ImageName (ce_Image c)),
      (change_key i ''old-tag'', tag_String (ce_OldTag c)), (change_key i ''new-tag'', tag_String t)] @ r"
    by (auto simp: Let_def elim!: go_bindE)
  with 2 change_key_inj show ?case by (auto simp: map_of_append)
qed simp

lemma event_annotations_lookup:
  "event_annotations i cs = Ret as \<Longrightarrow> j < length cs \<Longrightarrow>
   map_of as (change_key (i + j) ''image-name'') = Some (ImageName (ce_Image (cs ! j))) \<and>
   map_of as (change_key (i + j) ''old-tag'') = Some (tag_String (ce_OldTag (cs ! j))) \<and>
   map_of as (change_key (i + j) ''new-tag'') = map_option tag_String (ce_NewTag (cs ! j))"
proof (induction i cs arbitrary: as j rule: event_annotations.induct)
  case (2 i c cs)
  then obtain t r where t: "new_tag c = Ret t" and r: "event_annotations (Suc i) cs = Ret r"
    and a: "as = [(change_key i ''full-image-name'', GetFullNameWithoutTag (ce_Image c)), (change_key i ''image-name'', ImageName (ce_Image c)),
      (change_key i ''old-tag'', tag_String (ce_OldTag c)), (change_key i ''new-tag'', tag_String t)] @ r"
    by (auto simp: Let_def elim!: go_bindE)
  show ?case
  proof (cases j)
    case 0
    from t have "ce_NewTag c = Some t" by (simp add: new_tag_def split: option.splits)
    with 0 event_annotations_later [OF r, of i] show ?thesis by (simp add: a)
  next
    case (Suc n)
    with 2 t r have "map_of r (change_key (Suc i + n) ''image-name'') = Some (ImageName (ce_Image (cs ! n))) \<and>
      map_of r (change_key (Suc i + n) ''old-tag'') = Some (tag_String (ce_OldTag (cs ! n))) \<and>
      map_of r (change_key (Suc i + n) ''new-tag'') = map_option tag_String (ce_NewTag (cs ! n))" by simp
    moreover have "map_of as (change_key (Suc i + n) k) = map_of r (change_key (Suc i + n) k)" for k
    proof -
      have "change_key (Suc i + n) k \<noteq> change_key i l" for l unfolding change_key_inj by simp
      then show ?thesis unfolding a by (simp only: map_of_append map_add_def map_of.simps fun_upd_def split: option.split) simp
    qed
    ultimately show ?thesis by (simp add: Suc)
  qed
qed simp

text \<open>
  A successful update creates one event, after the commit: its annotations name the image, the old tag and the new tag of every change.  Whether the event
  could be created makes no difference to the result; without events, and after a commit that failed, nothing is created.
\<close>

theorem update_announced:
  assumes commit: "commitChangesLocked (uc_write conf) ai state changes w = ((Inr u, state1), w1)"
    and run: "commit_update (with_events api conf) ai state changes res w = Ret (res', state', w')"
  shows "res' = res \<and> state' = state1 \<and>
    (if uc_DisableKubeEvents conf \<or> uc_KubeClient conf = None then w' = w1
     else \<exists>message annotations. let app = ea_object api (ai_Application ai) in
       w' = snd (ea_create api (ka_Namespace app) (application_event (ea_now api w1) app ''ImagesUpdated'' message annotations) w1) \<and>
       (\<forall>i < length changes.
          map_of annotations (change_key i ''image-name'') = Some (ImageName (ce_Image (changes ! i))) \<and>
          map_of annotations (change_key i ''old-tag'') = Some (tag_String (ce_OldTag (changes ! i))) \<and>
          map_of annotations (change_key i ''new-tag'') = map_option tag_String (ce_NewTag (changes ! i))))"
proof (cases "uc_DisableKubeEvents conf \<or> uc_KubeClient conf = None")
  case True
  with assms show ?thesis by (auto simp: commit_update_def with_events_def)
next
  case False
  have sent: "announce api app m a v = snd (ea_create api (ka_Namespace (ea_object api app))
      (application_event (ea_now api v) (ea_object api app) ''ImagesUpdated'' m a) v)" for app m a v
    by (simp add: announce_def CreateApplicationEvent_def split: prod.split sum.split)
  from False assms obtain annotations where a: "event_annotations 0 changes = Ret annotations" and r: "res' = res" "state' = state1"
    and w': "w' = announce api (ai_Application ai) (''Successfully updated application '' @ [CHR 0x27] @ app_Name (ai_Application ai) @ [CHR 0x27]) annotations w1"
    by (auto simp: commit_update_def with_events_def elim!: go_bindE)
  from event_annotations_lookup [OF a] w' r False show ?thesis unfolding sent Let_def by (auto intro!: exI [of _ annotations])
qed

end
