(* ===== verification/Spec2Isabelle.thy ===== *)
theory Spec2Isabelle
  imports Commands DeepCopies SpecUpdate ClientCalls RequestTracking Metrics Logging ServerLife KubeClients
begin

text \<open>
  Verification of Argo CD Image Updater.

  \<^bold>\<open>The program.\<close>  The updater is a Kubernetes controller (\<open>internal/controller\<close>, started by \<open>cmd/run.go\<close>).  A custom resource
  (\<open>api/v1alpha1\<close>) says which Argo CD applications to watch and which images in them.  A run over a resource lists the applications
  (\<open>pkg/argocd/argocd.go\<close>), asks the registry of each image for its tags (\<open>registry-scanner/pkg\<close>), chooses the newest one that the strategy
  and the constraint allow, verifies its signature when this is demanded, changes the specification of the application
  (\<open>pkg/argocd/update.go\<close>) and writes the change back: through the Kubernetes API, or to git (\<open>pkg/argocd/git.go\<close>, \<open>ext/git\<close>), as a commit
  or as a pull request.  Webhooks of registries (\<open>pkg/webhook\<close>) start runs that are restricted to one image.

  \<^bold>\<open>Conventions.\<close>  Go strings are lists of characters that stand for bytes; maps are association lists in iteration order, and where the
  program ranges over a map the theorems hold for every order; pointers are options; errors are values of a sum type, and the panics of the
  sources (nil pointers, a negative wait group, indices out of range) are values of their own.  Code with effects passes on the state of the world
  \<open>'w\<close> (type \<open>io\<close> of \<open>GitCreds\<close>).  Code that is not part of the repository is a record of functions that the definitions take as an argument
  (named \<open>..._lib\<close>); what a theorem relies on of it is a named hypothesis, and the witness of the theorem instantiates the record by
  concrete functions.  Integers are kept at their width where the code can overflow: durations in \<open>TokenAuth\<close> and \<open>GitCreds\<close>, sizes in
  \<open>HttpReader\<close>, the numbers read by \<open>strconv\<close>.

  \<^bold>\<open>Foundations.\<close>
  \<^item> \<open>Prelude\<close>: the part of Go's \<open>strings\<close>, \<open>strconv\<close>, \<open>sort\<close> and maps that the sources call; the locales \<open>weak_order\<close> (what a comparison
    function promises to the sort) and \<open>key_order\<close> (an order by a key with distinct keys, for which sorting does not depend on the input's order);
  \<^item> \<open>Paths\<close>, \<open>Glob\<close>: \<open>path/filepath\<close>, \<open>filepath.Match\<close> and the decoding of UTF-8.

  \<^bold>\<open>The registry scanner\<close> (\<open>registry-scanner/pkg\<close>).
  \<^item> \<open>Tags\<close> (\<open>tag\<close>): tags and tag lists; the three sort orders do not depend on the order of Go's maps;
  \<^item> \<open>ManifestOpts\<close> (\<open>options\<close>), \<open>Images\<close> (\<open>image/image.go\<close>, \<open>kustomize.go\<close>), \<open>Versions\<close> (\<open>image/version.go\<close>, \<open>options.go\<close>, \<open>matchfunc.go\<close>): image
    identifiers, platforms, and the choice of the newest tag, which is the greatest one that satisfies the constraint;
  \<^item> \<open>Credentials\<close> (\<open>image/credentials.go\<close>, \<open>kube\<close>, \<open>env\<close>): sources of credentials, their grammar and how they are fetched;
  \<^item> \<open>TagCache\<close> (\<open>cache\<close>): the contract of the cache as the locale \<open>tag_cache\<close>, met by the memory cache;
  \<^item> \<open>Endpoints\<close> (\<open>registry/endpoints.go\<close>, \<open>config.go\<close>): the table of registries, the search for the endpoint of an image, the cache of
    transports, whose verification of certificates is not shared between endpoints with different settings;
  \<^item> \<open>HttpErrors\<close>, \<open>TokenAuth\<close>, \<open>RequestTracking\<close>, \<open>HttpReader\<close>, \<open>Repository\<close>, \<open>ClientCalls\<close> (\<open>registry/internal/client\<close>, \<open>registry/client.go\<close>): the errors
    of responses and the challenges in them, the tokens and when they are fetched anew, the requests that the transport remembers, the reader that
    seeks in a blob by range requests and refines a plain position in its content, the listing of tags over pages, blobs and uploads, and the calls
    of the registry client, which send credentials exactly where the registry asked for them;
  \<^item> \<open>RequestContext\<close> (\<open>registry/internal/dcontext\<close>, \<open>requestutil\<close>, \<open>uuid\<close>), \<open>Logging\<close> (\<open>log\<close>): values, loggers, traces and response writers in
    contexts, and the wrapper around logrus with its two streams;
  \<^item> \<open>RegistryTags\<close> (\<open>registry/registry.go\<close>): the scan of a registry with its concurrent fetches of metadata; its result does not depend on the
    order in which the fetches end;
  \<^item> \<open>Verify\<close> (\<open>image/verify.go\<close>): an image is accepted only with a signature of the configured key over the digest of its manifest.

  \<^bold>\<open>Applications\<close> (\<open>pkg/argocd\<close>, \<open>api/v1alpha1\<close>).
  \<^item> \<open>ImageSettings\<close>: the types of the resource and the merge of the three levels of settings;
  \<^item> \<open>DeepCopies\<close>: the generated deep copies on a heap of objects (the locale \<open>deep_copy\<close>); the merge of write-back settings, which
    assigns to the fields of such a copy, leaves the settings it starts from alone and refines the merge of \<open>ImageSettings\<close>;
  \<^item> \<open>Applications\<close>, \<open>Annotations\<close>, \<open>Selection\<close>, \<open>SpecUpdate\<close>: images of Helm, Kustomize, plugin and hydrator sources (the parts of a source are the
    locale \<open>source_part\<close>), legacy annotations, which applications a resource selects, and the update of a specification with its retries after conflicts;
  \<^item> \<open>HelmValues\<close>, \<open>Overrides\<close>, \<open>Kustomization\<close>: the files of a write-back, as trees of YAML nodes and as text that is patched in place (merges
    by key are the locale \<open>keyed_merge\<close>);
  \<^item> \<open>Update\<close>: the run over the images of one application: every change is the newest allowed and verified tag, the counters
    agree, and a dry run changes nothing;
  \<^item> \<open>GitCreds\<close>, \<open>GitClient\<close>, \<open>GitRemote\<close> (\<open>ext/git\<close>): credentials and what they leave behind, the commands of git, references, commits and pushes, and
    how a remote server is reached and verified;
  \<^item> \<open>GitWrite\<close>, \<open>Scm\<close>: commits, branches, and requests on GitHub and GitLab; a push follows a commit, and one iteration opens at most one
    request for a target.

  \<^bold>\<open>The controller\<close> (\<open>internal/controller\<close>, \<open>pkg/webhook\<close>, \<open>pkg/metrics\<close>, \<open>cmd\<close>).
  \<^item> \<open>Webhook\<close>: the seven kinds of events, their authentication, the dispatch and the server with its rate limit and TLS settings;
  \<^item> \<open>ServerLife\<close>: the certificate that the server makes for itself, and how it waits for its listener and the end of its context;
  \<^item> \<open>Controller\<close>: the state machine of reconciliation, run-once accounting with its wait group, the warm-up, the status of a resource;
  \<^item> \<open>Metrics\<close>: the series of the resources, which are kept apart and removed with them;
  \<^item> \<open>KubeClients\<close> (\<open>pkg/kube\<close>, \<open>pkg/version\<close>, \<open>pkg/argocd/util.go\<close>): the Kubernetes clients, the event that announces the changes of an update, with its distinct
    names, the version, and settings of the git client;
  \<^item> \<open>Startup\<close>: flags and their defaults, and what the run command hands to the manager;
  \<^item> \<open>Commands\<close>: the credential helper, which answers git with the login of the running command only, the rendering of commit messages, and the trial of
    an update, which predicts what a run chooses.

  \<^bold>\<open>Loops and fuel.\<close>  Loops over data are structural recursion or functions with a termination proof, usually by the length of the rest of the input.
  The loop over the pages of a tag list depends on the links of the registry and is a partial function: it is shown to return exactly when
  the links end.  Reading a blob to its end is a partial function too, shown to return for every server that sends the content.  \<open>TagMetadata\<close> of
  \<open>RegistryTags\<close> follows manifest lists that may refer to further lists and takes fuel; it always returns when the fuel covers the nesting of the
  manifests (\<open>depth_ok\<close>).  The attempts of the git client are counted down; those of the update of a specification are the business of client-go, whose
  documented behaviour is the hypothesis \<open>retry_law\<close>.  Aliases in YAML documents are addresses in a heap of nodes and are followed one step, as in the code.

  \<^bold>\<open>Concurrency.\<close>  Goroutines appear where their order can matter: the fetches of metadata as a permutation of the tags, the requests for resources as
  steps of the controller, the round trips, reads and cancellations of the transport as the steps of \<open>track_step\<close>, the listener and the context of the
  webhook server as the events of \<open>server_step\<close>, and concurrent log messages as interleavings of calls.  Mutexes are left out: the steps
  are the critical sections of the code.

  \<^bold>\<open>Not modelled.\<close>  Cobra; the registration of the scheme; the construction of controller-runtime objects; the calls of the logger in
  the other components, which change nothing else; sessions of go-git and the adapters to process groups; the retry durations of the git client, which a
  package of Argo CD reads.  Cryptography, JSON, YAML and base64 text, regular expressions, HTTP, git itself, Prometheus and the
  Kubernetes API are libraries or services, and so parameters.
\<close>

end
